(* ===== verification/Prelude.thy ===== *)
theory Prelude
  imports
    "HOL-Library.Word"
    "HOL-Library.Finite_Map"
    "HOL-Library.List_Lexorder"
    "HOL-Library.Product_Lexorder"
    "HOL-Library.Monad_Syntax"
begin

text \<open>
  Shared vocabulary of the development: the Go data types the sources use (machine integers,
  byte slices, go-ethereum addresses and hashes, maps with sorted iteration), Go panics and
  error returns as values, the binary search of the package sort, and the generic lemmas the
  component theories share.

  A Go \<open>uint64\<close> is a \<open>64 word\<close>, a \<open>*big.Int\<close> an \<open>int\<close>, a Go map a finite map, a
  \<open>common.Address\<close> (20 bytes) a \<open>160 word\<close> and a \<open>common.Hash\<close> (32 bytes) a \<open>256 word\<close>:
  the comparison \<open>bytes.Compare\<close> of two such arrays is the order of the words.
\<close>

named_theorems wf_intros "introduction rules for the well-formedness invariants"
named_theorems frame_simps "what an operation leaves unchanged"

subsection \<open>Machine types\<close>

type_synonym byte = "8 word"
type_synonym bytes = "byte list"
type_synonym uint64 = "64 word"
type_synonym uint32 = "32 word"
type_synonym Address = "160 word"
type_synonym Hash = "256 word"

abbreviation max_uint64 :: int where
  "max_uint64 \<equiv> 18446744073709551615"

abbreviation max_int64 :: int where
  "max_int64 \<equiv> 9223372036854775807"

text \<open>Go's \<open>int64\<close> arithmetic: the value modulo \<open>2^64\<close> in two's complement.\<close>

definition wrap64 :: "int \<Rightarrow> int" where
  "wrap64 x = (x + 9223372036854775808) mod 18446744073709551616 - 9223372036854775808"

lemma wrap64_id [simp]:
  "- 9223372036854775808 \<le> x \<Longrightarrow> x \<le> max_int64 \<Longrightarrow> wrap64 x = x"
  by (simp add: wrap64_def)

lemma wrap64_range: "- 9223372036854775808 \<le> wrap64 x \<and> wrap64 x \<le> max_int64"
  using pos_mod_bound [of 18446744073709551616 "x + 9223372036854775808"] by (simp add: wrap64_def)

subsection \<open>Panics and errors\<close>

text \<open>
  A Go function that may panic returns an option, \<^const>\<open>None\<close> standing for the panic. One
  that may also return an error returns an \<open>outcome\<close>.
\<close>

datatype ('e, 'a) outcome = Panic | Err 'e | Ok 'a

fun bind_outcome :: "('e, 'a) outcome \<Rightarrow> ('a \<Rightarrow> ('e, 'b) outcome) \<Rightarrow> ('e, 'b) outcome" where
  "bind_outcome Panic f = Panic"
| "bind_outcome (Err e) f = Err e"
| "bind_outcome (Ok a) f = f a"

lemma bind_outcome_Ok_iff [simp]:
  "bind_outcome m f = Ok b \<longleftrightarrow> (\<exists>a. m = Ok a \<and> f a = Ok b)"
  by (cases m) auto

lemma bind_outcome_Panic_iff:
  "bind_outcome m f = Panic \<longleftrightarrow> m = Panic \<or> (\<exists>a. m = Ok a \<and> f a = Panic)"
  by (cases m) auto

lemma bind_outcome_assoc:
  "bind_outcome (bind_outcome m f) g = bind_outcome m (\<lambda>x. bind_outcome (f x) g)"
  by (cases m) auto

lemma bind_outcome_cong [fundef_cong]:
  "m = m' \<Longrightarrow> (\<And>a. m' = Ok a \<Longrightarrow> f a = f' a) \<Longrightarrow> bind_outcome m f = bind_outcome m' f'"
  by (cases m') auto

fun is_ok :: "('e, 'a) outcome \<Rightarrow> bool" where
  "is_ok (Ok _) = True"
| "is_ok _ = False"

lemma is_ok_iff: "is_ok m \<longleftrightarrow> (\<exists>a. m = Ok a)"
  by (cases m) auto

text \<open>A loop whose body may stop it with a panic or an error: Go's \<open>for range\<close> over a slice.\<close>

fun fold_outcome :: "('x \<Rightarrow> 's \<Rightarrow> ('e, 's) outcome) \<Rightarrow> 'x list \<Rightarrow> 's \<Rightarrow> ('e, 's) outcome" where
  "fold_outcome f [] s = Ok s"
| "fold_outcome f (x # xs) s = bind_outcome (f x s) (fold_outcome f xs)"

lemma fold_outcome_append:
  "fold_outcome f (xs @ ys) s = bind_outcome (fold_outcome f xs s) (fold_outcome f ys)"
  by (induction xs arbitrary: s) (auto simp: bind_outcome_assoc intro!: bind_outcome_cong)

lemma fold_outcome_invariant:
  assumes "P s"
    and "\<And>x s s'. x \<in> set xs \<Longrightarrow> P s \<Longrightarrow> f x s = Ok s' \<Longrightarrow> P s'"
    and "fold_outcome f xs s = Ok t"
  shows "P t"
  using assms by (induction xs arbitrary: s) auto

subsection \<open>Byte slices, addresses and hashes\<close>

text \<open>
  The big-endian bytes of a fixed-size array (\<open>addr.Bytes()\<close>, \<open>hash.Bytes()\<close>, \<open>hash[:]\<close>)
  and \<open>common.BytesToHash\<close>, which keeps the last 32 bytes of a longer slice and pads a
  shorter one on the left.
\<close>

definition be_bytes :: "nat \<Rightarrow> 'a::len word \<Rightarrow> bytes" where
  "be_bytes n w = map (\<lambda>i. ucast (drop_bit (8 * (n - Suc i)) w)) [0..<n]"

definition be_nat :: "bytes \<Rightarrow> nat" where
  "be_nat bs = foldl (\<lambda>a b. a * 256 + unat b) 0 bs"

definition AddressBytes :: "Address \<Rightarrow> bytes" where
  "AddressBytes a = be_bytes 20 a"

definition HashBytes :: "Hash \<Rightarrow> bytes" where
  "HashBytes h = be_bytes 32 h"

definition BytesToHash :: "bytes \<Rightarrow> Hash" where
  "BytesToHash bs = word_of_nat (be_nat bs)"

definition Uint64ToBigEndian :: "uint64 \<Rightarrow> bytes" where
  "Uint64ToBigEndian w = be_bytes 8 w"

definition BigEndianToUint64 :: "bytes \<Rightarrow> uint64" where
  "BigEndianToUint64 bs = word_of_nat (be_nat bs)"

lemma length_be_bytes [simp]: "length (be_bytes n w) = n"
  by (simp add: be_bytes_def)

lemma length_AddressBytes [simp]: "length (AddressBytes a) = 20"
  by (simp add: AddressBytes_def)

lemma length_HashBytes [simp]: "length (HashBytes h) = 32"
  by (simp add: HashBytes_def)

lemma be_nat_snoc: "be_nat (bs @ [b]) = be_nat bs * 256 + unat b"
  by (simp add: be_nat_def)

lemma be_bytes_Suc: "be_bytes (Suc n) w = be_bytes n (drop_bit 8 w) @ [ucast w]"
  by (auto simp: be_bytes_def Suc_diff_Suc [symmetric] algebra_simps)

lemma unat_drop_bit_8: "unat (drop_bit 8 (w :: 'a::len word)) = unat w div 256"
  by (simp only: unat_drop_bit_eq) (simp add: drop_bit_eq_div)

lemma unat_less_pow: "unat (w :: 'a::len word) < 2 ^ LENGTH('a)"
  by (rule unsigned_less)

lemma be_nat_be_bytes: "be_nat (be_bytes n w) = unat w mod 2 ^ (8 * n)"
proof (induction n arbitrary: w)
  case 0
  then show ?case by (simp add: be_bytes_def be_nat_def)
next
  case (Suc n)
  have "be_nat (be_bytes (Suc n) w) =
      unat (drop_bit 8 w) mod 2 ^ (8 * n) * 256 + unat (ucast w :: byte)"
    by (simp add: be_bytes_Suc be_nat_snoc Suc)
  also have "\<dots> = unat w div 256 mod 2 ^ (8 * n) * 256 + unat w mod 256"
    by (simp add: unat_drop_bit_8 unsigned_ucast_eq take_bit_eq_mod)
  also have "\<dots> = unat w mod 2 ^ (8 * Suc n)"
    by (simp add: mod_mult2_eq power_add mult.commute)
  finally show ?case .
qed

lemma be_nat_append: "be_nat (xs @ ys) = be_nat xs * 256 ^ length ys + be_nat ys"
proof (induction ys rule: rev_induct)
  case Nil
  then show ?case by (simp add: be_nat_def)
next
  case (snoc y ys)
  have "be_nat (xs @ ys @ [y]) = be_nat (xs @ ys) * 256 + unat y"
    using be_nat_snoc [of "xs @ ys" y] by simp
  with snoc show ?case by (simp add: be_nat_snoc algebra_simps)
qed

lemma be_nat_less: "be_nat bs < 256 ^ length bs"
proof (induction bs rule: rev_induct)
  case Nil
  then show ?case by (simp add: be_nat_def)
next
  case (snoc b bs)
  have "unat b < 256" using unat_less_pow [of b] by simp
  with snoc show ?case by (simp add: be_nat_snoc)
qed

lemma be_bytes_eq_iff:
  fixes v w :: "'a::len word"
  assumes "LENGTH('a) \<le> 8 * n"
  shows "be_bytes n v = be_bytes n w \<longleftrightarrow> v = w"
proof
  assume eq: "be_bytes n v = be_bytes n w"
  have mod_id: "unat x mod 2 ^ (8 * n) = unat x" for x :: "'a word"
    using unat_less_pow [of x] assms by (meson less_le_trans mod_less one_le_numeral power_increasing)
  have "be_nat (be_bytes n v) = be_nat (be_bytes n w)" using eq by simp
  then have "unat v = unat w" by (simp only: be_nat_be_bytes mod_id)
  then show "v = w" by (rule word_unat_eq_iff [THEN iffD2])
qed simp

lemma AddressBytes_inject [simp]: "AddressBytes a = AddressBytes b \<longleftrightarrow> a = b"
  by (simp add: AddressBytes_def be_bytes_eq_iff)

lemma HashBytes_inject [simp]: "HashBytes a = HashBytes b \<longleftrightarrow> a = b"
  by (simp add: HashBytes_def be_bytes_eq_iff)

lemma BytesToHash_append:
  assumes "length ys = 32"
  shows "BytesToHash (xs @ ys) = BytesToHash ys"
proof -
  have "be_nat (xs @ ys) = be_nat xs * 2 ^ 256 + be_nat ys"
    using assms by (simp add: be_nat_append)
  moreover have "(word_of_nat (2 ^ 256) :: Hash) = 0"
    by (simp add: word_unat_eq_iff unat_of_nat)
  ultimately show ?thesis
    by (simp only: BytesToHash_def of_nat_add of_nat_mult) simp
qed

lemma BytesToHash_HashBytes [simp]: "BytesToHash (HashBytes h) = h"
proof -
  have "unat h mod 2 ^ 256 = unat h" using unat_less_pow [of h] by simp
  then show ?thesis by (simp add: BytesToHash_def HashBytes_def be_nat_be_bytes)
qed

lemma be_bytes_be_nat:
  "length bs = n \<Longrightarrow> 8 * n \<le> LENGTH('a::len) \<Longrightarrow>
    be_bytes n (word_of_nat (be_nat bs) :: 'a word) = bs"
proof (induction bs arbitrary: n rule: rev_induct)
  case Nil
  then show ?case by (simp add: be_bytes_def)
next
  case (snoc b bs)
  then obtain m where n: "n = Suc m" and m: "length bs = m" by auto
  have small: "be_nat (bs @ [b]) < 2 ^ LENGTH('a)"
  proof -
    have "be_nat (bs @ [b]) < 256 ^ length (bs @ [b])" by (rule be_nat_less)
    also have "\<dots> = 2 ^ (8 * n)" using snoc.prems by (simp add: power_mult)
    also have "\<dots> \<le> 2 ^ LENGTH('a)" using snoc.prems by (intro power_increasing) auto
    finally show ?thesis .
  qed
  let ?w = "word_of_nat (be_nat (bs @ [b])) :: 'a word"
  have w: "unat ?w = be_nat bs * 256 + unat b"
    using small by (simp only: unat_of_nat be_nat_snoc mod_less)
  have b: "unat b < 256" using unat_less_pow [of b] by simp
  have "unat (drop_bit 8 ?w) = be_nat bs"
    using w b by (simp add: unat_drop_bit_8)
  then have "drop_bit 8 ?w = word_of_nat (be_nat bs)"
    by (metis of_nat_unat ucast_id)
  moreover have "(ucast ?w :: byte) = b"
  proof -
    have "unat (ucast ?w :: byte) = (be_nat bs * 256 + unat b) mod 256"
      using w by (simp add: unsigned_ucast_eq take_bit_eq_mod)
    with b have "unat (ucast ?w :: byte) = unat b" by simp
    then show ?thesis by (simp add: word_unat_eq_iff)
  qed
  ultimately show ?case
    using snoc n m by (simp add: be_bytes_Suc)
qed

lemma HashBytes_BytesToHash: "length bs = 32 \<Longrightarrow> HashBytes (BytesToHash bs) = bs"
  by (simp add: HashBytes_def BytesToHash_def be_bytes_be_nat)

lemma BigEndianToUint64_inverse [simp]: "BigEndianToUint64 (Uint64ToBigEndian w) = w"
proof -
  have "unat w mod 2 ^ 64 = unat w" using unat_less_pow [of w] by simp
  then show ?thesis
    by (simp add: BigEndianToUint64_def Uint64ToBigEndian_def be_nat_be_bytes)
qed

subsection \<open>Maps with sorted iteration\<close>

text \<open>
  The sources collect the keys of a map into a slice and sort it before they iterate, so that
  every node visits them in the same order.
\<close>

definition fm_keys :: "('k::linorder, 'v) fmap \<Rightarrow> 'k list" where
  "fm_keys m = sorted_list_of_fset (fmdom m)"

lemma fm_keys_code [code]: "fm_keys (fmap_of_list m) = sort (remdups (map fst m))"
  unfolding fm_keys_def
  by (simp add: fmdom_of_list sorted_list_of_fset.rep_eq fset_of_list.rep_eq)
    (metis list.set_map sorted_list_of_set_sort_remdups)

lemma set_fm_keys [simp]: "set (fm_keys m) = fset (fmdom m)"
  by (simp add: fm_keys_def)

lemma sorted_fm_keys [simp]: "sorted (fm_keys m)"
  by (simp add: fm_keys_def sorted_list_of_fset.rep_eq)

lemma distinct_fm_keys [simp]: "distinct (fm_keys m)"
  by (simp add: fm_keys_def sorted_list_of_fset.rep_eq)

subsection \<open>Binary search\<close>

text \<open>
  \<open>sort.Search(n, f)\<close>: the smallest index in \<open>[0, n)\<close> at which \<open>f\<close> holds, if \<open>f\<close> is
  false on a prefix and true on the rest; \<open>n\<close> if there is none.
\<close>

function search_loop :: "(nat \<Rightarrow> bool) \<Rightarrow> nat \<Rightarrow> nat \<Rightarrow> nat" where
  "search_loop f i j =
     (if i < j then
        let h = (i + j) div 2
        in if \<not> f h then search_loop f (h + 1) j else search_loop f i h
      else i)"
  by pat_completeness auto
termination
  by (relation "measure (\<lambda>(f, i, j). j - i)") auto

declare search_loop.simps [simp del]

definition sort_Search :: "nat \<Rightarrow> (nat \<Rightarrow> bool) \<Rightarrow> nat" where
  "sort_Search n f = search_loop f 0 n"

text \<open>The loop keeps: \<open>f\<close> is false below \<open>i\<close> and true from \<open>j\<close> on.\<close>

definition upward :: "nat \<Rightarrow> (nat \<Rightarrow> bool) \<Rightarrow> bool" where
  "upward n f \<longleftrightarrow> (\<forall>x y. f x \<longrightarrow> x \<le> y \<longrightarrow> y < n \<longrightarrow> f y)"

definition searched :: "nat \<Rightarrow> (nat \<Rightarrow> bool) \<Rightarrow> nat \<Rightarrow> nat \<Rightarrow> bool" where
  "searched n f i j \<longleftrightarrow>
     i \<le> j \<and> j \<le> n \<and> (\<forall>k < i. \<not> f k) \<and> (\<forall>k. j \<le> k \<longrightarrow> k < n \<longrightarrow> f k)"

lemma searched_left: "searched n f i j \<Longrightarrow> upward n f \<Longrightarrow> i \<le> h \<Longrightarrow> h < j \<Longrightarrow> f h \<Longrightarrow> searched n f i h"
  unfolding searched_def upward_def by (meson less_imp_le_nat order_trans)

lemma searched_right:
  "searched n f i j \<Longrightarrow> upward n f \<Longrightarrow> h < j \<Longrightarrow> \<not> f h \<Longrightarrow> searched n f (h + 1) j"
  unfolding searched_def upward_def by (metis Suc_eq_plus1 less_Suc_eq_le less_le_trans Suc_leI)

lemma search_loop_correct:
  "upward n f \<Longrightarrow> searched n f i j \<Longrightarrow> searched n f (search_loop f i j) (search_loop f i j)"
proof (induction f i j rule: search_loop.induct)
  case (1 f i j)
  define h where "h = (i + j) div 2"
  have eq: "search_loop f i j =
      (if i < j then if \<not> f h then search_loop f (h + 1) j else search_loop f i h else i)"
    by (subst search_loop.simps) (simp add: h_def Let_def)
  consider (stop) "\<not> i < j" | (left) "i < j" "f h" | (right) "i < j" "\<not> f h" by blast
  then show ?case
  proof cases
    case stop
    with 1(4) have "i = j" by (simp add: searched_def)
    moreover have "search_loop f i j = i" using stop by (simp add: eq)
    ultimately show ?thesis using 1(4) by simp
  next
    case left
    then have "i \<le> h" "h < j" by (auto simp: h_def)
    with left 1(3,4) have "searched n f i h" by (blast intro: searched_left)
    with left 1(2) [OF left(1) h_def] 1(3) show ?thesis by (simp add: eq)
  next
    case right
    then have "h < j" by (auto simp: h_def)
    with right 1(3,4) have "searched n f (h + 1) j" by (blast intro: searched_right)
    with right 1(1) [OF right(1) h_def] 1(3) show ?thesis by (simp add: eq)
  qed
qed

lemma sort_Search_correct:
  assumes "upward n f"
  shows "sort_Search n f \<le> n" "\<And>k. k < n \<Longrightarrow> f k \<longleftrightarrow> sort_Search n f \<le> k"
proof -
  have "searched n f (sort_Search n f) (sort_Search n f)"
    unfolding sort_Search_def using assms
    by (rule search_loop_correct) (simp add: searched_def)
  then show "sort_Search n f \<le> n" "\<And>k. k < n \<Longrightarrow> f k \<longleftrightarrow> sort_Search n f \<le> k"
    by (auto simp: searched_def not_less [symmetric])
qed

end
