(* ===== verification/Access_List.thy ===== *)
theory Access_List
  imports Prelude
begin

text \<open>
  The EIP-2930 access list of a transaction, \<open>x/evm/statedb/access_list.go\<close>: the addresses
  map points into a slice of slot sets (or holds \<open>-1\<close> for an address without slots). The
  deletions are only meant to undo the latest additions; the theory shows that they do, and
  that the structure represents a set of addresses and a set of (address, slot) pairs.
\<close>

subsection \<open>The structure and its operations\<close>

record accessList =
  addresses :: "(Address, int) fmap"
  slots :: "Hash fset list"

definition newAccessList :: accessList where
  "newAccessList = \<lparr>addresses = fmempty, slots = []\<rparr>"

definition ContainsAddress :: "accessList \<Rightarrow> Address \<Rightarrow> bool" where
  "ContainsAddress al a = (fmlookup (addresses al) a \<noteq> None)"

text \<open>Indexing a slice: \<^const>\<open>None\<close> is the index-out-of-range panic.\<close>

definition slot_at :: "accessList \<Rightarrow> int \<Rightarrow> Hash fset option" where
  "slot_at al i =
     (if 0 \<le> i \<and> i < int (length (slots al)) then Some (slots al ! nat i) else None)"

definition Contains :: "accessList \<Rightarrow> Address \<Rightarrow> Hash \<Rightarrow> (bool \<times> bool) option" where
  "Contains al a s =
     (case fmlookup (addresses al) a of
        None \<Rightarrow> Some (False, False)
      | Some idx \<Rightarrow>
          if idx = -1 then Some (True, False)
          else do { slotmap \<leftarrow> slot_at al idx; Some (True, s |\<in>| slotmap) })"

definition AddAddress :: "accessList \<Rightarrow> Address \<Rightarrow> accessList \<times> bool" where
  "AddAddress al a =
     (if fmlookup (addresses al) a \<noteq> None then (al, False)
      else (al\<lparr>addresses := fmupd a (-1) (addresses al)\<rparr>, True))"

text \<open>The result pair is (address added, slot added).\<close>

definition AddSlot ::
  "accessList \<Rightarrow> Address \<Rightarrow> Hash \<Rightarrow> (accessList \<times> bool \<times> bool) option" where
  "AddSlot al a s =
     (let idx = fmlookup (addresses al) a
      in if idx = None \<or> idx = Some (-1) then
           Some (al\<lparr>addresses := fmupd a (int (length (slots al))) (addresses al),
                    slots := slots al @ [{|s|}]\<rparr>, idx = None, True)
         else do {
           slotmap \<leftarrow> slot_at al (the idx);
           if s |\<notin>| slotmap then
             Some (al\<lparr>slots := (slots al)[nat (the idx) := finsert s slotmap]\<rparr>, False, True)
           else Some (al, False, False) })"

definition DeleteSlot :: "accessList \<Rightarrow> Address \<Rightarrow> Hash \<Rightarrow> accessList option" where
  "DeleteSlot al a s =
     (case fmlookup (addresses al) a of
        None \<Rightarrow> None \<comment> \<open>panic: address not present in list\<close>
      | Some idx \<Rightarrow> do {
          slotmap \<leftarrow> slot_at al idx;
          let slotmap' = slotmap |-| {|s|};
          if slotmap' = {||} then
            Some (al\<lparr>slots := take (nat idx) (slots al),
                     addresses := fmupd a (-1) (addresses al)\<rparr>)
          else Some (al\<lparr>slots := (slots al)[nat idx := slotmap']\<rparr>) })"

definition DeleteAddress :: "accessList \<Rightarrow> Address \<Rightarrow> accessList" where
  "DeleteAddress al a = al\<lparr>addresses := fmdrop a (addresses al)\<rparr>"

subsection \<open>Well-formedness\<close>

text \<open>
  Every index is \<open>-1\<close> or points to a slot set, no two addresses share a slot set, and no
  slot set is empty.
\<close>

definition wf_al :: "accessList \<Rightarrow> bool" where
  "wf_al al \<longleftrightarrow>
     (\<forall>a i. fmlookup (addresses al) a = Some i \<longrightarrow> i = -1 \<or> 0 \<le> i \<and> i < int (length (slots al))) \<and>
     (\<forall>a b i. fmlookup (addresses al) a = Some i \<longrightarrow> fmlookup (addresses al) b = Some i \<longrightarrow>
        i \<noteq> -1 \<longrightarrow> a = b) \<and>
     (\<forall>S \<in> set (slots al). S \<noteq> {||})"

lemma wf_al_index:
  "wf_al al \<Longrightarrow> fmlookup (addresses al) a = Some i \<Longrightarrow> i \<noteq> -1 \<Longrightarrow>
    0 \<le> i \<and> i < int (length (slots al))"
  by (auto simp: wf_al_def)

lemma slot_at_wf:
  "wf_al al \<Longrightarrow> fmlookup (addresses al) a = Some i \<Longrightarrow> i \<noteq> -1 \<Longrightarrow>
    slot_at al i = Some (slots al ! nat i)"
  using wf_al_index [of al a i] by (simp add: slot_at_def)

lemma slot_nonempty:
  "wf_al al \<Longrightarrow> fmlookup (addresses al) a = Some i \<Longrightarrow> i \<noteq> -1 \<Longrightarrow> slots al ! nat i \<noteq> {||}"
  using wf_al_index [of al a i] by (auto simp: wf_al_def)

lemma wf_newAccessList [wf_intros]: "wf_al newAccessList"
  by (simp add: wf_al_def newAccessList_def)

lemma wf_AddAddress [wf_intros]: "wf_al al \<Longrightarrow> wf_al (fst (AddAddress al a))"
  by (auto simp: AddAddress_def wf_al_def)

lemma wf_AddSlot [wf_intros]:
  assumes wf: "wf_al al" and add: "AddSlot al a s = Some (al', ac, sc)"
  shows "wf_al al'"
proof (cases "fmlookup (addresses al) a = None \<or> fmlookup (addresses al) a = Some (-1)")
  case True
  with add have al': "al' = al\<lparr>addresses := fmupd a (int (length (slots al))) (addresses al),
      slots := slots al @ [{|s|}]\<rparr>"
    by (simp add: AddSlot_def)
  show ?thesis
    using wf unfolding al' wf_al_def by (auto split: if_splits) fastforce+
next
  case False
  then obtain i where i: "fmlookup (addresses al) a = Some i" "i \<noteq> -1" by auto
  with wf add have "al' = al \<or> al' = al\<lparr>slots := (slots al)[nat i := finsert s (slots al ! nat i)]\<rparr>"
    by (auto simp: AddSlot_def slot_at_wf split: if_splits)
  moreover have "wf_al (al\<lparr>slots := (slots al)[j := finsert t S]\<rparr>)" for j t S
    using wf unfolding wf_al_def
    by (intro conjI) (auto dest!: set_update_subset_insert [THEN subsetD] | blast)+
  ultimately show ?thesis using wf by auto
qed

subsection \<open>The deletions undo the additions\<close>

lemma DeleteAddress_AddAddress:
  "AddAddress al a = (al', True) \<Longrightarrow> DeleteAddress al' a = al"
  by (auto simp: AddAddress_def DeleteAddress_def fmlookup_dom_iff fmap_ext
      split: if_splits intro!: accessList.equality fmap_ext)

lemma DeleteSlot_AddSlot:
  assumes wf: "wf_al al" and add: "AddSlot al a s = Some (al', ac, True)"
  shows "\<exists>al''. DeleteSlot al' a s = Some al'' \<and> (if ac then DeleteAddress al'' a else al'') = al"
proof (cases "fmlookup (addresses al) a = None \<or> fmlookup (addresses al) a = Some (-1)")
  case True
  with add have al': "al' = al\<lparr>addresses := fmupd a (int (length (slots al))) (addresses al),
      slots := slots al @ [{|s|}]\<rparr>" and ac: "ac = (fmlookup (addresses al) a = None)"
    by (simp_all add: AddSlot_def)
  have "DeleteSlot al' a s = Some (al\<lparr>addresses := fmupd a (-1) (addresses al)\<rparr>)"
    by (simp add: DeleteSlot_def al' slot_at_def Let_def)
  moreover have "(if ac then DeleteAddress (al\<lparr>addresses := fmupd a (-1) (addresses al)\<rparr>) a
      else al\<lparr>addresses := fmupd a (-1) (addresses al)\<rparr>) = al"
    using True by (auto simp: ac DeleteAddress_def intro!: accessList.equality fmap_ext)
  ultimately show ?thesis by simp
next
  case False
  then obtain i where i: "fmlookup (addresses al) a = Some i" "i \<noteq> -1" by auto
  let ?S = "slots al ! nat i"
  have rng: "0 \<le> i" "nat i < length (slots al)" using wf_al_index [OF wf i] by auto
  from False i wf add have s: "s |\<notin>| ?S" and ac: "\<not> ac"
    and al': "al' = al\<lparr>slots := (slots al)[nat i := finsert s ?S]\<rparr>"
    by (auto simp: AddSlot_def slot_at_wf split: if_splits)
  have at: "slot_at al' i = Some (finsert s ?S)" using rng by (simp add: slot_at_def al')
  have look: "fmlookup (addresses al') a = Some i" using i by (simp add: al')
  have "finsert s ?S |-| {|s|} = ?S" using s by auto
  moreover have "?S \<noteq> {||}" using wf i by (rule slot_nonempty)
  ultimately have "DeleteSlot al' a s = Some (al'\<lparr>slots := (slots al')[nat i := ?S]\<rparr>)"
    unfolding DeleteSlot_def
    by (simp only: look at option.case bind.bind_lunit Let_def if_False refl)
  with ac show ?thesis by (simp add: al')
qed

subsection \<open>The set of addresses and slots it represents\<close>

definition al_slots :: "accessList \<Rightarrow> (Address \<times> Hash) set" where
  "al_slots al = {(a, s). Contains al a s = Some (True, True)}"

definition al_addresses :: "accessList \<Rightarrow> Address set" where
  "al_addresses al = {a. ContainsAddress al a}"

lemma Contains_total: "wf_al al \<Longrightarrow>
    Contains al a s = Some (a \<in> al_addresses al, (a, s) \<in> al_slots al)"
  by (auto simp: Contains_def al_slots_def al_addresses_def ContainsAddress_def slot_at_wf
      split: option.splits)

lemma AddSlot_total: "wf_al al \<Longrightarrow> AddSlot al a s \<noteq> None"
  by (auto simp: AddSlot_def slot_at_wf Let_def)

lemma mem_al_slots: "wf_al al \<Longrightarrow> (a, s) \<in> al_slots al \<longleftrightarrow>
    (\<exists>i. fmlookup (addresses al) a = Some i \<and> i \<noteq> -1 \<and> s |\<in>| slots al ! nat i)"
  by (auto simp: al_slots_def Contains_def slot_at_wf split: option.splits)

lemma mem_al_addresses: "a \<in> al_addresses al \<longleftrightarrow> fmlookup (addresses al) a \<noteq> None"
  by (simp add: al_addresses_def ContainsAddress_def)

lemma AddAddress_sets:
  assumes "wf_al al" "AddAddress al a = (al', c)"
  shows "al_addresses al' = insert a (al_addresses al)" "al_slots al' = al_slots al"
    "c = (a \<notin> al_addresses al)"
proof -
  have wf': "wf_al al'" using wf_AddAddress [OF assms(1), of a] assms(2) by simp
  show "al_addresses al' = insert a (al_addresses al)" "c = (a \<notin> al_addresses al)"
    using assms(2) by (auto simp: AddAddress_def mem_al_addresses split: if_splits)
  show "al_slots al' = al_slots al"
    using assms wf'
    by (auto simp: AddAddress_def mem_al_slots split: if_splits)
qed

lemma AddSlot_new_sets:
  assumes wf: "wf_al al"
    and new: "fmlookup (addresses al) a = None \<or> fmlookup (addresses al) a = Some (-1)"
    and al': "al' = al\<lparr>addresses := fmupd a (int (length (slots al))) (addresses al),
      slots := slots al @ [{|s|}]\<rparr>" and wf': "wf_al al'"
  shows "al_slots al' = insert (a, s) (al_slots al)"
proof (intro set_eqI)
  fix p :: "Address \<times> Hash"
  obtain b t where p: "p = (b, t)" by (cases p)
  have old: "(slots al @ [{|s|}]) ! nat i = slots al ! nat i"
    if "fmlookup (addresses al) b = Some i" "i \<noteq> -1" for i
    using wf_al_index [OF wf that] by (auto simp: nth_append)
  show "p \<in> al_slots al' \<longleftrightarrow> p \<in> insert (a, s) (al_slots al)"
    unfolding p insert_iff mem_al_slots [OF wf] mem_al_slots [OF wf'] using new
    by (auto simp: al' old)
qed

lemma AddSlot_old_sets:
  assumes wf: "wf_al al"
    and i: "fmlookup (addresses al) a = Some i" "i \<noteq> -1"
    and al': "al' = al\<lparr>slots := (slots al)[nat i := finsert s (slots al ! nat i)]\<rparr>"
    and wf': "wf_al al'"
  shows "al_slots al' = insert (a, s) (al_slots al)"
proof (intro set_eqI)
  fix p :: "Address \<times> Hash"
  obtain b t where p: "p = (b, t)" by (cases p)
  have other: "nat j \<noteq> nat i" if "fmlookup (addresses al) b = Some j" "j \<noteq> -1" "b \<noteq> a" for j
    using wf_al_index [OF wf that(1,2)] wf_al_index [OF wf i] wf i that
    by (auto simp: wf_al_def nat_eq_iff)
  have "nat i < length (slots al)" using wf_al_index [OF wf i] by auto
  then show "p \<in> al_slots al' \<longleftrightarrow> p \<in> insert (a, s) (al_slots al)"
    unfolding p insert_iff mem_al_slots [OF wf] mem_al_slots [OF wf'] using i
    by (cases "b = a") (auto simp: al' nth_list_update dest: other)
qed

lemma AddSlot_sets:
  assumes wf: "wf_al al" and add: "AddSlot al a s = Some (al', ac, sc)"
  shows "al_addresses al' = insert a (al_addresses al)"
    "al_slots al' = insert (a, s) (al_slots al)"
    "ac = (a \<notin> al_addresses al)" "sc = ((a, s) \<notin> al_slots al)"
proof -
  have wf': "wf_al al'" using wf add by (rule wf_AddSlot)
  show "al_addresses al' = insert a (al_addresses al)" "ac = (a \<notin> al_addresses al)"
    using add by (auto simp: AddSlot_def mem_al_addresses Let_def split: if_splits bind_splits)
  show "sc = ((a, s) \<notin> al_slots al)"
    using add by (auto simp: AddSlot_def mem_al_slots [OF wf] slot_at_wf [OF wf] Let_def
        split: if_splits bind_splits)
  show "al_slots al' = insert (a, s) (al_slots al)"
  proof (cases "fmlookup (addresses al) a = None \<or> fmlookup (addresses al) a = Some (-1)")
    case True
    with add have "al' = al\<lparr>addresses := fmupd a (int (length (slots al))) (addresses al),
      slots := slots al @ [{|s|}]\<rparr>" by (simp add: AddSlot_def)
    from AddSlot_new_sets [OF wf True this wf'] show ?thesis .
  next
    case False
    then obtain i where i: "fmlookup (addresses al) a = Some i" "i \<noteq> -1" by auto
    show ?thesis
    proof (cases "s |\<in>| slots al ! nat i")
      case True
      with i wf add have "al' = al" by (simp add: AddSlot_def slot_at_wf)
      with i True show ?thesis by (auto simp: mem_al_slots [OF wf])
    next
      case False
      with i wf add have "al' = al\<lparr>slots := (slots al)[nat i := finsert s (slots al ! nat i)]\<rparr>"
        by (simp add: AddSlot_def slot_at_wf)
      from AddSlot_old_sets [OF wf i this wf'] show ?thesis .
    qed
  qed
qed

subsection \<open>The contract its client relies on\<close>

text \<open>
  An access set: additions extend the sets and report what was new, and deleting what was
  reported as new, latest first, restores the value before the addition. The journal of the
  state database is a client of this contract.
\<close>

locale access_set =
  fixes invar :: "'al \<Rightarrow> bool"
    and addrs :: "'al \<Rightarrow> 'a set"
    and slts :: "'al \<Rightarrow> ('a \<times> 's) set"
    and add_addr :: "'al \<Rightarrow> 'a \<Rightarrow> 'al \<times> bool"
    and add_slot :: "'al \<Rightarrow> 'a \<Rightarrow> 's \<Rightarrow> ('al \<times> bool \<times> bool) option"
    and del_addr :: "'al \<Rightarrow> 'a \<Rightarrow> 'al"
    and del_slot :: "'al \<Rightarrow> 'a \<Rightarrow> 's \<Rightarrow> 'al option"
  assumes add_addr_sets: "invar al \<Longrightarrow> add_addr al a = (al', c) \<Longrightarrow>
      invar al' \<and> addrs al' = insert a (addrs al) \<and> slts al' = slts al \<and> (c \<longleftrightarrow> a \<notin> addrs al)"
    and add_addr_same: "add_addr al a = (al', False) \<Longrightarrow> al' = al"
    and add_slot_sets: "invar al \<Longrightarrow> \<exists>al' ac sc. add_slot al a s = Some (al', ac, sc) \<and>
      invar al' \<and> addrs al' = insert a (addrs al) \<and> slts al' = insert (a, s) (slts al) \<and>
      (ac \<longleftrightarrow> a \<notin> addrs al) \<and> (sc \<longleftrightarrow> (a, s) \<notin> slts al)"
    and add_slot_same: "invar al \<Longrightarrow> add_slot al a s = Some (al', ac, False) \<Longrightarrow> al' = al \<and> \<not> ac"
    and del_add_addr: "add_addr al a = (al', True) \<Longrightarrow> del_addr al' a = al"
    and del_add_slot: "invar al \<Longrightarrow> add_slot al a s = Some (al', ac, True) \<Longrightarrow>
      \<exists>al''. del_slot al' a s = Some al'' \<and> (if ac then del_addr al'' a else al'') = al"
begin

fun add_slots :: "'al \<Rightarrow> 'a \<Rightarrow> 's list \<Rightarrow> 'al option" where
  "add_slots al a [] = Some al"
| "add_slots al a (s # ss) =
     (case add_slot al a s of None \<Rightarrow> None | Some (al', _) \<Rightarrow> add_slots al' a ss)"

lemma add_slots_sets:
  "invar al \<Longrightarrow> \<exists>al'. add_slots al a ss = Some al' \<and> invar al' \<and>
    addrs al' = addrs al \<union> (if ss = [] then {} else {a}) \<and>
    slts al' = slts al \<union> Pair a ` set ss"
proof (induction ss arbitrary: al)
  case Nil
  then show ?case by simp
next
  case (Cons s ss)
  from add_slot_sets [OF Cons.prems, of a s] obtain al' ac sc where
    1: "add_slot al a s = Some (al', ac, sc)" "invar al'" "addrs al' = insert a (addrs al)"
    "slts al' = insert (a, s) (slts al)" by blast
  from Cons.IH [OF 1(2)] 1 show ?case by auto
qed

end

interpretation al: access_set wf_al al_addresses al_slots AddAddress AddSlot
  DeleteAddress DeleteSlot
proof unfold_locales
  show "\<And>al a al' c. wf_al al \<Longrightarrow> AddAddress al a = (al', c) \<Longrightarrow>
      wf_al al' \<and> al_addresses al' = insert a (al_addresses al) \<and> al_slots al' = al_slots al \<and>
      (c \<longleftrightarrow> a \<notin> al_addresses al)"
    using wf_AddAddress AddAddress_sets by (metis fst_conv)
  show "\<And>al a al'. AddAddress al a = (al', False) \<Longrightarrow> al' = al"
    by (auto simp: AddAddress_def split: if_splits)
  show "\<And>al a s. wf_al al \<Longrightarrow> \<exists>al' ac sc. AddSlot al a s = Some (al', ac, sc) \<and> wf_al al' \<and>
      al_addresses al' = insert a (al_addresses al) \<and> al_slots al' = insert (a, s) (al_slots al) \<and>
      (ac \<longleftrightarrow> a \<notin> al_addresses al) \<and> (sc \<longleftrightarrow> (a, s) \<notin> al_slots al)"
    subgoal for al a s
      using AddSlot_total [of al a s] AddSlot_sets [of al a s] wf_AddSlot [of al a s]
      by (cases "AddSlot al a s") auto
    done
  show "\<And>al a s al' ac. wf_al al \<Longrightarrow> AddSlot al a s = Some (al', ac, False) \<Longrightarrow> al' = al \<and> \<not> ac"
    by (auto simp: AddSlot_def slot_at_wf Let_def split: if_splits bind_splits)
qed (use DeleteAddress_AddAddress DeleteSlot_AddSlot in \<open>blast+\<close>)

end
