(* ===== verification/State_DB.thy ===== *)
theory State_DB
  imports Access_List
begin

text \<open>
  The journaled state database of the EVM, \<open>x/evm/statedb\<close>: accounts are cached as state
  objects, every change is recorded as a journal entry, \<open>Snapshot\<close> remembers a position of the
  journal and \<open>RevertToSnapshot\<close> undoes the entries behind it; \<open>Commit\<close> writes what is dirty
  to the keeper. This theory holds the definitions, in the order of the sources; the laws are
  in the theories that import it.

  The Go code works on pointers: an object obtained from the database is the one stored in its
  map. The model stores an updated object back under its address, so that an operation on an
  object returns the updated database. \<^const>\<open>None\<close> is a Go panic.
\<close>

subsection \<open>Interfaces: the keeper and the hash function\<close>

text \<open>
  \<open>Account\<close> is what the keeper stores; a nil balance pointer or code hash slice is
  \<^const>\<open>None\<close>. The record \<open>env\<close> holds the methods of the interface \<open>statedb.Keeper\<close> over a
  world \<open>'w\<close> (the context's stores), \<open>kForEachStorage\<close> being the sequence of pairs the
  callback is given, and the function \<open>crypto.Keccak256Hash\<close> of go-ethereum, of which
  \<open>crypto.Keccak256\<close> is the slice of 32 bytes.
\<close>

record Account =
  Nonce :: uint64
  Balance :: "int option"
  CodeHash :: "bytes option"

record 'w env =
  kGetAccount :: "'w \<Rightarrow> Address \<Rightarrow> Account option"
  kGetState :: "'w \<Rightarrow> Address \<Rightarrow> Hash \<Rightarrow> Hash"
  kGetCode :: "'w \<Rightarrow> Hash \<Rightarrow> bytes option"
  kForEachStorage :: "'w \<Rightarrow> Address \<Rightarrow> (Hash \<times> Hash) list"
  kSetAccount :: "'w \<Rightarrow> Address \<Rightarrow> Account \<Rightarrow> (string, 'w) outcome"
  kSetState :: "'w \<Rightarrow> Address \<Rightarrow> Hash \<Rightarrow> bytes \<Rightarrow> 'w"
  kSetCode :: "'w \<Rightarrow> bytes \<Rightarrow> bytes \<Rightarrow> 'w"
  kDeleteAccount :: "'w \<Rightarrow> Address \<Rightarrow> (string, 'w) outcome"
  Keccak256Hash :: "bytes \<Rightarrow> Hash"

definition Keccak256 :: "'w env \<Rightarrow> bytes \<Rightarrow> bytes" where
  "Keccak256 E bz = HashBytes (Keccak256Hash E bz)"

definition emptyCodeHash :: "'w env \<Rightarrow> bytes" where
  "emptyCodeHash E = Keccak256 E []"

definition NewEmptyAccount :: "'w env \<Rightarrow> Account" where
  "NewEmptyAccount E = \<lparr>Nonce = 0, Balance = Some 0, CodeHash = Some (emptyCodeHash E)\<rparr>"

definition IsContract :: "'w env \<Rightarrow> Account \<Rightarrow> bool" where
  "IsContract E acct = (CodeHash acct \<noteq> Some (emptyCodeHash E))"

subsection \<open>State objects, the journal and the database\<close>

type_synonym Storage = "(Hash, Hash) fmap"

definition SortedKeys :: "Storage \<Rightarrow> Hash list" where
  "SortedKeys s = fm_keys s"

text \<open>
  The embedded \<open>account\<close> of a state object is the three fields \<open>so_nonce\<close>, \<open>so_balance\<close> and
  \<open>so_codeHash\<close>: \<open>newObject\<close> replaces nil pointers, so they are values from then on.
\<close>

record stateObject =
  so_address :: Address
  so_nonce :: uint64
  so_balance :: int
  so_codeHash :: bytes
  so_code :: "bytes option"
  originStorage :: Storage
  dirtyStorage :: Storage
  dirtyCode :: bool
  suicided :: bool

definition so_account :: "stateObject \<Rightarrow> Account" where
  "so_account obj = \<lparr>Nonce = so_nonce obj, Balance = Some (so_balance obj),
     CodeHash = Some (so_codeHash obj)\<rparr>"

record TxConfig =
  BlockHash :: Hash
  TxHash :: Hash
  TxIndex :: uint64
  LogIndex :: uint64

definition NewEmptyTxConfig :: "Hash \<Rightarrow> TxConfig" where
  "NewEmptyTxConfig bhash = \<lparr>BlockHash = bhash, TxHash = 0, TxIndex = 0, LogIndex = 0\<rparr>"

record ethLog =
  log_Address :: Address
  log_Topics :: "Hash list"
  log_Data :: bytes
  log_TxHash :: Hash
  log_BlockHash :: Hash
  log_TxIndex :: uint64
  log_Index :: uint64

datatype JournalEntry =
    createObjectChange Address
  | resetObjectChange stateObject
  | suicideChange Address bool int
  | balanceChange Address int
  | nonceChange Address uint64
  | storageChange Address Hash Hash
  | codeChange Address "bytes option" bytes
  | refundChange uint64
  | addLogChange
  | accessListAddAccountChange Address
  | accessListAddSlotChange Address Hash

record journal =
  entries :: "JournalEntry list"
  dirties :: "(Address, int) fmap"

record revision =
  rev_id :: int
  journalIndex :: nat

record 'w StateDB =
  keeper :: "'w env"
  ctx :: 'w
  db_journal :: journal
  validRevisions :: "revision list"
  nextRevisionID :: int
  stateObjects :: "(Address, stateObject) fmap"
  txConfig :: TxConfig
  refund :: uint64
  logs :: "ethLog list"
  db_accessList :: accessList

subsection \<open>The journal\<close>

definition newJournal :: journal where
  "newJournal = \<lparr>entries = [], dirties = fmempty\<rparr>"

definition sortedDirties :: "journal \<Rightarrow> Address list" where
  "sortedDirties j = fm_keys (dirties j)"

fun Dirtied :: "JournalEntry \<Rightarrow> Address option" where
  "Dirtied (createObjectChange a) = Some a"
| "Dirtied (resetObjectChange _) = None"
| "Dirtied (suicideChange a _ _) = Some a"
| "Dirtied (balanceChange a _) = Some a"
| "Dirtied (nonceChange a _) = Some a"
| "Dirtied (codeChange a _ _) = Some a"
| "Dirtied (storageChange a _ _) = Some a"
| "Dirtied (refundChange _) = None"
| "Dirtied addLogChange = None"
| "Dirtied (accessListAddAccountChange _) = None"
| "Dirtied (accessListAddSlotChange _ _) = None"

text \<open>A missing key of the Go map reads as 0.\<close>

definition dirty_count :: "(Address, int) fmap \<Rightarrow> Address \<Rightarrow> int" where
  "dirty_count d a = (case fmlookup d a of None \<Rightarrow> 0 | Some n \<Rightarrow> n)"

definition journal_append :: "journal \<Rightarrow> JournalEntry \<Rightarrow> journal" where
  "journal_append j e =
     (let d = (case Dirtied e of
         None \<Rightarrow> dirties j
       | Some a \<Rightarrow> fmupd a (dirty_count (dirties j) a + 1) (dirties j))
      in \<lparr>entries = entries j @ [e], dirties = d\<rparr>)"

definition journal_length :: "journal \<Rightarrow> nat" where
  "journal_length j = length (entries j)"

definition append_entry :: "'w StateDB \<Rightarrow> JournalEntry \<Rightarrow> 'w StateDB" where
  "append_entry s e = s\<lparr>db_journal := journal_append (db_journal s) e\<rparr>"

subsection \<open>State objects\<close>

definition newObject :: "'w env \<Rightarrow> Address \<Rightarrow> Account \<Rightarrow> stateObject" where
  "newObject E addr account =
     \<lparr>so_address = addr, so_nonce = Nonce account,
      so_balance = (case Balance account of None \<Rightarrow> 0 | Some b \<Rightarrow> b),
      so_codeHash = (case CodeHash account of None \<Rightarrow> emptyCodeHash E | Some h \<Rightarrow> h),
      so_code = None, originStorage = fmempty, dirtyStorage = fmempty,
      dirtyCode = False, suicided = False\<rparr>"

definition obj_empty :: "'w env \<Rightarrow> stateObject \<Rightarrow> bool" where
  "obj_empty E obj \<longleftrightarrow>
     so_nonce obj = 0 \<and> so_balance obj = 0 \<and> so_codeHash obj = emptyCodeHash E"

definition markSuicided :: "stateObject \<Rightarrow> stateObject" where
  "markSuicided obj = obj\<lparr>suicided := True\<rparr>"

definition setBalance :: "stateObject \<Rightarrow> int \<Rightarrow> stateObject" where
  "setBalance obj amount = obj\<lparr>so_balance := amount\<rparr>"

definition setNonce :: "stateObject \<Rightarrow> uint64 \<Rightarrow> stateObject" where
  "setNonce obj nonce = obj\<lparr>so_nonce := nonce\<rparr>"

definition setCode :: "stateObject \<Rightarrow> Hash \<Rightarrow> bytes option \<Rightarrow> stateObject" where
  "setCode obj codeHash code =
     obj\<lparr>so_code := code, so_codeHash := HashBytes codeHash, dirtyCode := True\<rparr>"

definition setState :: "stateObject \<Rightarrow> Hash \<Rightarrow> Hash \<Rightarrow> stateObject" where
  "setState obj key value = obj\<lparr>dirtyStorage := fmupd key value (dirtyStorage obj)\<rparr>"

text \<open>The getters that cache what they read return the object with its cache filled.\<close>

definition Code :: "'w env \<Rightarrow> 'w \<Rightarrow> stateObject \<Rightarrow> bytes option \<times> stateObject" where
  "Code E w obj =
     (if so_code obj \<noteq> None then (so_code obj, obj)
      else if so_codeHash obj = emptyCodeHash E then (None, obj)
      else let code = kGetCode E w (BytesToHash (so_codeHash obj))
           in (code, obj\<lparr>so_code := code\<rparr>))"

definition CodeSize :: "'w env \<Rightarrow> 'w \<Rightarrow> stateObject \<Rightarrow> nat \<times> stateObject" where
  "CodeSize E w obj =
     (let (code, obj') = Code E w obj
      in (case code of None \<Rightarrow> 0 | Some bz \<Rightarrow> length bz, obj'))"

definition obj_GetCommittedState ::
  "'w env \<Rightarrow> 'w \<Rightarrow> stateObject \<Rightarrow> Hash \<Rightarrow> Hash \<times> stateObject" where
  "obj_GetCommittedState E w obj key =
     (case fmlookup (originStorage obj) key of
        Some value \<Rightarrow> (value, obj)
      | None \<Rightarrow>
          let value = kGetState E w (so_address obj) key
          in (value, obj\<lparr>originStorage := fmupd key value (originStorage obj)\<rparr>))"

definition obj_GetState ::
  "'w env \<Rightarrow> 'w \<Rightarrow> stateObject \<Rightarrow> Hash \<Rightarrow> Hash \<times> stateObject" where
  "obj_GetState E w obj key =
     (case fmlookup (dirtyStorage obj) key of
        Some value \<Rightarrow> (value, obj)
      | None \<Rightarrow> obj_GetCommittedState E w obj key)"

subsection \<open>Lookup and creation of objects\<close>

definition New :: "'w \<Rightarrow> 'w env \<Rightarrow> TxConfig \<Rightarrow> 'w StateDB" where
  "New w E cfg =
     \<lparr>keeper = E, ctx = w, db_journal = newJournal, validRevisions = [], nextRevisionID = 0,
      stateObjects = fmempty, txConfig = cfg, refund = 0, logs = [],
      db_accessList = newAccessList\<rparr>"

definition setStateObject :: "'w StateDB \<Rightarrow> stateObject \<Rightarrow> 'w StateDB" where
  "setStateObject s obj = s\<lparr>stateObjects := fmupd (so_address obj) obj (stateObjects s)\<rparr>"

definition getStateObject ::
  "'w StateDB \<Rightarrow> Address \<Rightarrow> stateObject option \<times> 'w StateDB" where
  "getStateObject s addr =
     (case fmlookup (stateObjects s) addr of
        Some obj \<Rightarrow> (Some obj, s)
      | None \<Rightarrow>
          (case kGetAccount (keeper s) (ctx s) addr of
             None \<Rightarrow> (None, s)
           | Some account \<Rightarrow>
               let obj = newObject (keeper s) addr account
               in (Some obj, setStateObject s obj)))"

text \<open>\<open>createObject\<close> returns the new object and the overwritten one.\<close>

definition createObject ::
  "'w StateDB \<Rightarrow> Address \<Rightarrow> (stateObject \<times> stateObject option) \<times> 'w StateDB" where
  "createObject s addr =
     (let (prev, s1) = getStateObject s addr;
          newobj = newObject (keeper s) addr
            \<lparr>Nonce = 0, Balance = None, CodeHash = None\<rparr>;
          s2 = (case prev of
                  None \<Rightarrow> append_entry s1 (createObjectChange addr)
                | Some obj \<Rightarrow> append_entry s1 (resetObjectChange obj))
      in ((newobj, prev), setStateObject s2 newobj))"

definition getOrNewStateObject ::
  "'w StateDB \<Rightarrow> Address \<Rightarrow> stateObject \<times> 'w StateDB" where
  "getOrNewStateObject s addr =
     (case getStateObject s addr of
        (Some obj, s1) \<Rightarrow> (obj, s1)
      | (None, s1) \<Rightarrow> (let ((newobj, _), s2) = createObject s1 addr in (newobj, s2)))"

definition CreateAccount :: "'w StateDB \<Rightarrow> Address \<Rightarrow> 'w StateDB" where
  "CreateAccount s addr =
     (let ((newobj, prev), s1) = createObject s addr
      in case prev of
           None \<Rightarrow> s1
         | Some obj \<Rightarrow> setStateObject s1 (setBalance newobj (so_balance obj)))"

subsection \<open>Journaled setters of an object\<close>

definition obj_SetBalance :: "'w StateDB \<Rightarrow> stateObject \<Rightarrow> int \<Rightarrow> 'w StateDB" where
  "obj_SetBalance s obj amount =
     setStateObject (append_entry s (balanceChange (so_address obj) (so_balance obj)))
       (setBalance obj amount)"

definition obj_AddBalance :: "'w StateDB \<Rightarrow> stateObject \<Rightarrow> int \<Rightarrow> 'w StateDB" where
  "obj_AddBalance s obj amount =
     (if amount = 0 then s else obj_SetBalance s obj (so_balance obj + amount))"

definition obj_SubBalance :: "'w StateDB \<Rightarrow> stateObject \<Rightarrow> int \<Rightarrow> 'w StateDB" where
  "obj_SubBalance s obj amount =
     (if amount = 0 then s else obj_SetBalance s obj (so_balance obj - amount))"

definition obj_SetNonce :: "'w StateDB \<Rightarrow> stateObject \<Rightarrow> uint64 \<Rightarrow> 'w StateDB" where
  "obj_SetNonce s obj nonce =
     setStateObject (append_entry s (nonceChange (so_address obj) (so_nonce obj)))
       (setNonce obj nonce)"

definition obj_SetCode :: "'w StateDB \<Rightarrow> stateObject \<Rightarrow> Hash \<Rightarrow> bytes \<Rightarrow> 'w StateDB" where
  "obj_SetCode s obj codeHash code =
     (let (prevcode, obj') = Code (keeper s) (ctx s) obj
      in setStateObject
           (append_entry s (codeChange (so_address obj') prevcode (so_codeHash obj')))
           (setCode obj' codeHash (Some code)))"

definition obj_SetState :: "'w StateDB \<Rightarrow> stateObject \<Rightarrow> Hash \<Rightarrow> Hash \<Rightarrow> 'w StateDB" where
  "obj_SetState s obj key value =
     (let (prev, obj') = obj_GetState (keeper s) (ctx s) obj key
      in if prev = value then setStateObject s obj'
         else setStateObject
                (append_entry s (storageChange (so_address obj') key prev))
                (setState obj' key value))"

subsection \<open>Setters of the database\<close>

definition AddBalance :: "'w StateDB \<Rightarrow> Address \<Rightarrow> int \<Rightarrow> 'w StateDB" where
  "AddBalance s addr amount =
     (let (obj, s1) = getOrNewStateObject s addr in obj_AddBalance s1 obj amount)"

definition SubBalance :: "'w StateDB \<Rightarrow> Address \<Rightarrow> int \<Rightarrow> 'w StateDB" where
  "SubBalance s addr amount =
     (let (obj, s1) = getOrNewStateObject s addr in obj_SubBalance s1 obj amount)"

definition SetNonce :: "'w StateDB \<Rightarrow> Address \<Rightarrow> uint64 \<Rightarrow> 'w StateDB" where
  "SetNonce s addr nonce =
     (let (obj, s1) = getOrNewStateObject s addr in obj_SetNonce s1 obj nonce)"

definition SetCode :: "'w StateDB \<Rightarrow> Address \<Rightarrow> bytes \<Rightarrow> 'w StateDB" where
  "SetCode s addr code =
     (let (obj, s1) = getOrNewStateObject s addr
      in obj_SetCode s1 obj (Keccak256Hash (keeper s) code) code)"

definition SetState :: "'w StateDB \<Rightarrow> Address \<Rightarrow> Hash \<Rightarrow> Hash \<Rightarrow> 'w StateDB" where
  "SetState s addr key value =
     (let (obj, s1) = getOrNewStateObject s addr in obj_SetState s1 obj key value)"

definition Suicide :: "'w StateDB \<Rightarrow> Address \<Rightarrow> bool \<times> 'w StateDB" where
  "Suicide s addr =
     (case getStateObject s addr of
        (None, s1) \<Rightarrow> (False, s1)
      | (Some obj, s1) \<Rightarrow>
          (True, setStateObject
                   (append_entry s1 (suicideChange addr (suicided obj) (so_balance obj)))
                   ((markSuicided obj)\<lparr>so_balance := 0\<rparr>)))"

definition AddLog :: "'w StateDB \<Rightarrow> ethLog \<Rightarrow> 'w StateDB" where
  "AddLog s l =
     (let s1 = append_entry s addLogChange;
          l1 = l\<lparr>log_TxHash := TxHash (txConfig s), log_BlockHash := BlockHash (txConfig s),
                 log_TxIndex := TxIndex (txConfig s),
                 log_Index := LogIndex (txConfig s) + of_nat (length (logs s))\<rparr>
      in s1\<lparr>logs := logs s @ [l1]\<rparr>)"

definition AddRefund :: "'w StateDB \<Rightarrow> uint64 \<Rightarrow> 'w StateDB" where
  "AddRefund s gas = (append_entry s (refundChange (refund s)))\<lparr>refund := refund s + gas\<rparr>"

definition SubRefund :: "'w StateDB \<Rightarrow> uint64 \<Rightarrow> 'w StateDB option" where
  "SubRefund s gas =
     (if gas > refund s then None
      else Some ((append_entry s (refundChange (refund s)))\<lparr>refund := refund s - gas\<rparr>))"

subsection \<open>Access list\<close>

definition AddAddressToAccessList :: "'w StateDB \<Rightarrow> Address \<Rightarrow> 'w StateDB" where
  "AddAddressToAccessList s addr =
     (let (al, added) = AddAddress (db_accessList s) addr;
          s1 = s\<lparr>db_accessList := al\<rparr>
      in if added then append_entry s1 (accessListAddAccountChange addr) else s1)"

definition AddSlotToAccessList :: "'w StateDB \<Rightarrow> Address \<Rightarrow> Hash \<Rightarrow> 'w StateDB option" where
  "AddSlotToAccessList s addr slot = do {
     (al, addrMod, slotMod) \<leftarrow> AddSlot (db_accessList s) addr slot;
     let s1 = s\<lparr>db_accessList := al\<rparr>;
     let s2 = (if addrMod then append_entry s1 (accessListAddAccountChange addr) else s1);
     Some (if slotMod then append_entry s2 (accessListAddSlotChange addr slot) else s2) }"

definition AddressInAccessList :: "'w StateDB \<Rightarrow> Address \<Rightarrow> bool" where
  "AddressInAccessList s addr = ContainsAddress (db_accessList s) addr"

definition SlotInAccessList :: "'w StateDB \<Rightarrow> Address \<Rightarrow> Hash \<Rightarrow> (bool \<times> bool) option" where
  "SlotInAccessList s addr slot = Contains (db_accessList s) addr slot"

fun AddSlotsToAccessList :: "'w StateDB \<Rightarrow> Address \<Rightarrow> Hash list \<Rightarrow> 'w StateDB option" where
  "AddSlotsToAccessList s addr [] = Some s"
| "AddSlotsToAccessList s addr (key # keys) = do {
     s1 \<leftarrow> AddSlotToAccessList s addr key;
     AddSlotsToAccessList s1 addr keys }"

fun AddTuplesToAccessList :: "'w StateDB \<Rightarrow> (Address \<times> Hash list) list \<Rightarrow> 'w StateDB option" where
  "AddTuplesToAccessList s [] = Some s"
| "AddTuplesToAccessList s ((addr, keys) # list) = do {
     s1 \<leftarrow> AddSlotsToAccessList (AddAddressToAccessList s addr) addr keys;
     AddTuplesToAccessList s1 list }"

definition PrepareAccessList ::
  "'w StateDB \<Rightarrow> Address \<Rightarrow> Address option \<Rightarrow> Address list \<Rightarrow> (Address \<times> Hash list) list
    \<Rightarrow> 'w StateDB option" where
  "PrepareAccessList s sender dst precompiles list =
     (let s1 = AddAddressToAccessList s sender;
          s2 = (case dst of None \<Rightarrow> s1 | Some d \<Rightarrow> AddAddressToAccessList s1 d);
          s3 = fold (\<lambda>addr s. AddAddressToAccessList s addr) precompiles s2
      in AddTuplesToAccessList s3 list)"

subsection \<open>Queries\<close>

definition Exist :: "'w StateDB \<Rightarrow> Address \<Rightarrow> bool \<times> 'w StateDB" where
  "Exist s addr = (let (obj, s1) = getStateObject s addr in (obj \<noteq> None, s1))"

definition Empty :: "'w StateDB \<Rightarrow> Address \<Rightarrow> bool \<times> 'w StateDB" where
  "Empty s addr =
     (case getStateObject s addr of
        (None, s1) \<Rightarrow> (True, s1)
      | (Some obj, s1) \<Rightarrow> (obj_empty (keeper s) obj, s1))"

definition GetBalance :: "'w StateDB \<Rightarrow> Address \<Rightarrow> int \<times> 'w StateDB" where
  "GetBalance s addr =
     (case getStateObject s addr of
        (None, s1) \<Rightarrow> (0, s1)
      | (Some obj, s1) \<Rightarrow> (so_balance obj, s1))"

definition GetNonce :: "'w StateDB \<Rightarrow> Address \<Rightarrow> uint64 \<times> 'w StateDB" where
  "GetNonce s addr =
     (case getStateObject s addr of
        (None, s1) \<Rightarrow> (0, s1)
      | (Some obj, s1) \<Rightarrow> (so_nonce obj, s1))"

definition GetCode :: "'w StateDB \<Rightarrow> Address \<Rightarrow> bytes option \<times> 'w StateDB" where
  "GetCode s addr =
     (case getStateObject s addr of
        (None, s1) \<Rightarrow> (None, s1)
      | (Some obj, s1) \<Rightarrow>
          let (code, obj') = Code (keeper s) (ctx s) obj in (code, setStateObject s1 obj'))"

definition GetCodeSize :: "'w StateDB \<Rightarrow> Address \<Rightarrow> nat \<times> 'w StateDB" where
  "GetCodeSize s addr =
     (case getStateObject s addr of
        (None, s1) \<Rightarrow> (0, s1)
      | (Some obj, s1) \<Rightarrow>
          let (n, obj') = CodeSize (keeper s) (ctx s) obj in (n, setStateObject s1 obj'))"

definition GetCodeHash :: "'w StateDB \<Rightarrow> Address \<Rightarrow> Hash \<times> 'w StateDB" where
  "GetCodeHash s addr =
     (case getStateObject s addr of
        (None, s1) \<Rightarrow> (0, s1)
      | (Some obj, s1) \<Rightarrow> (BytesToHash (so_codeHash obj), s1))"

definition GetState :: "'w StateDB \<Rightarrow> Address \<Rightarrow> Hash \<Rightarrow> Hash \<times> 'w StateDB" where
  "GetState s addr hash =
     (case getStateObject s addr of
        (None, s1) \<Rightarrow> (0, s1)
      | (Some obj, s1) \<Rightarrow>
          let (v, obj') = obj_GetState (keeper s) (ctx s) obj hash
          in (v, setStateObject s1 obj'))"

definition GetCommittedState :: "'w StateDB \<Rightarrow> Address \<Rightarrow> Hash \<Rightarrow> Hash \<times> 'w StateDB" where
  "GetCommittedState s addr hash =
     (case getStateObject s addr of
        (None, s1) \<Rightarrow> (0, s1)
      | (Some obj, s1) \<Rightarrow>
          let (v, obj') = obj_GetCommittedState (keeper s) (ctx s) obj hash
          in (v, setStateObject s1 obj'))"

definition GetRefund :: "'w StateDB \<Rightarrow> uint64" where
  "GetRefund s = refund s"

definition HasSuicided :: "'w StateDB \<Rightarrow> Address \<Rightarrow> bool \<times> 'w StateDB" where
  "HasSuicided s addr =
     (case getStateObject s addr of
        (None, s1) \<Rightarrow> (False, s1)
      | (Some obj, s1) \<Rightarrow> (suicided obj, s1))"

text \<open>
  \<open>ForEachStorage\<close>: the callback takes and returns an accumulator and says whether to go on.
\<close>

fun for_each :: "Storage \<Rightarrow> (Hash \<Rightarrow> Hash \<Rightarrow> 'b \<Rightarrow> bool \<times> 'b) \<Rightarrow> (Hash \<times> Hash) list \<Rightarrow> 'b \<Rightarrow> 'b" where
  "for_each dirty cb [] b = b"
| "for_each dirty cb ((key, value) # rest) b =
     (let (continue, b') = cb key (case fmlookup dirty key of Some v \<Rightarrow> v | None \<Rightarrow> value) b
      in if continue then for_each dirty cb rest b' else b')"

definition ForEachStorage ::
  "'w StateDB \<Rightarrow> Address \<Rightarrow> (Hash \<Rightarrow> Hash \<Rightarrow> 'b \<Rightarrow> bool \<times> 'b) \<Rightarrow> 'b \<Rightarrow> 'b \<times> 'w StateDB" where
  "ForEachStorage s addr cb b =
     (case getStateObject s addr of
        (None, s1) \<Rightarrow> (b, s1)
      | (Some obj, s1) \<Rightarrow>
          (for_each (dirtyStorage obj) cb (kForEachStorage (keeper s) (ctx s) addr) b, s1))"

subsection \<open>Reverting\<close>

text \<open>Applying a setter to what \<open>getStateObject\<close> returns; a nil pointer panics.\<close>

definition update_object ::
  "'w StateDB \<Rightarrow> Address \<Rightarrow> (stateObject \<Rightarrow> stateObject) \<Rightarrow> 'w StateDB option" where
  "update_object s addr f =
     (case getStateObject s addr of
        (None, s1) \<Rightarrow> None
      | (Some obj, s1) \<Rightarrow> Some (setStateObject s1 (f obj)))"

fun revert_entry :: "JournalEntry \<Rightarrow> 'w StateDB \<Rightarrow> 'w StateDB option" where
  "revert_entry (createObjectChange a) s =
     Some (s\<lparr>stateObjects := fmdrop a (stateObjects s)\<rparr>)"
| "revert_entry (resetObjectChange prev) s = Some (setStateObject s prev)"
| "revert_entry (suicideChange a prev prevbalance) s =
     (case getStateObject s a of
        (None, s1) \<Rightarrow> Some s1
      | (Some obj, s1) \<Rightarrow>
          Some (setStateObject s1 (setBalance (obj\<lparr>suicided := prev\<rparr>) prevbalance)))"
| "revert_entry (balanceChange a prev) s = update_object s a (\<lambda>obj. setBalance obj prev)"
| "revert_entry (nonceChange a prev) s = update_object s a (\<lambda>obj. setNonce obj prev)"
| "revert_entry (codeChange a prevcode prevhash) s =
     update_object s a (\<lambda>obj. setCode obj (BytesToHash prevhash) prevcode)"
| "revert_entry (storageChange a key prevalue) s =
     update_object s a (\<lambda>obj. setState obj key prevalue)"
| "revert_entry (refundChange prev) s = Some (s\<lparr>refund := prev\<rparr>)"
| "revert_entry addLogChange s =
     (if logs s = [] then None else Some (s\<lparr>logs := butlast (logs s)\<rparr>))"
| "revert_entry (accessListAddAccountChange a) s =
     Some (s\<lparr>db_accessList := DeleteAddress (db_accessList s) a\<rparr>)"
| "revert_entry (accessListAddSlotChange a slot) s =
     map_option (\<lambda>al. s\<lparr>db_accessList := al\<rparr>) (DeleteSlot (db_accessList s) a slot)"

definition undirty :: "JournalEntry \<Rightarrow> (Address, int) fmap \<Rightarrow> (Address, int) fmap" where
  "undirty e d =
     (case Dirtied e of
        None \<Rightarrow> d
      | Some a \<Rightarrow>
          let n = dirty_count d a - 1
          in if n = 0 then fmdrop a d else fmupd a n d)"

text \<open>The loop of \<open>journal.Revert\<close>, over the entries from the last one down.\<close>

fun journal_unwind :: "JournalEntry list \<Rightarrow> 'w StateDB \<Rightarrow> 'w StateDB option" where
  "journal_unwind [] s = Some s"
| "journal_unwind (e # es) s = do {
     s1 \<leftarrow> revert_entry e s;
     journal_unwind es
       (s1\<lparr>db_journal := (db_journal s1)\<lparr>dirties := undirty e (dirties (db_journal s1))\<rparr>\<rparr>) }"

text \<open>
  A snapshot index behind the end of the journal cannot occur in a database built by the
  operations; slicing the entries there counts as the panic.
\<close>

definition journal_Revert :: "'w StateDB \<Rightarrow> nat \<Rightarrow> 'w StateDB option" where
  "journal_Revert s snapshot =
     (let es = entries (db_journal s)
      in if snapshot > length es then None
         else do {
           s1 \<leftarrow> journal_unwind (rev (drop snapshot es)) s;
           Some (s1\<lparr>db_journal := (db_journal s1)\<lparr>entries := take snapshot es\<rparr>\<rparr>) })"

definition Snapshot :: "'w StateDB \<Rightarrow> int \<times> 'w StateDB" where
  "Snapshot s =
     (let id = nextRevisionID s
      in (id, s\<lparr>nextRevisionID := id + 1,
                validRevisions := validRevisions s @
                  [\<lparr>rev_id = id, journalIndex = journal_length (db_journal s)\<rparr>]\<rparr>))"

definition RevertToSnapshot :: "'w StateDB \<Rightarrow> int \<Rightarrow> 'w StateDB option" where
  "RevertToSnapshot s revid =
     (let revs = validRevisions s;
          idx = sort_Search (length revs) (\<lambda>i. rev_id (revs ! i) \<ge> revid)
      in if idx = length revs \<or> rev_id (revs ! idx) \<noteq> revid then None
         else do {
           s1 \<leftarrow> journal_Revert s (journalIndex (revs ! idx));
           Some (s1\<lparr>validRevisions := take idx revs\<rparr>) })"

subsection \<open>Commit\<close>

fun commit_storage :: "'w env \<Rightarrow> stateObject \<Rightarrow> Hash list \<Rightarrow> 'w \<Rightarrow> 'w" where
  "commit_storage E obj [] w = w"
| "commit_storage E obj (key # keys) w =
     (let value = the (fmlookup (dirtyStorage obj) key);
          origin = (case fmlookup (originStorage obj) key of None \<Rightarrow> 0 | Some v \<Rightarrow> v)
      in if value = origin then commit_storage E obj keys w
         else commit_storage E obj keys (kSetState E w (so_address obj) key (HashBytes value)))"

definition commit_object :: "'w env \<Rightarrow> stateObject \<Rightarrow> 'w \<Rightarrow> (string, 'w) outcome" where
  "commit_object E obj w =
     (if suicided obj then kDeleteAccount E w (so_address obj)
      else
        let w1 = (case so_code obj of
                    Some code \<Rightarrow> if dirtyCode obj then kSetCode E w (so_codeHash obj) code else w
                  | None \<Rightarrow> w)
        in bind_outcome (kSetAccount E w1 (so_address obj) (so_account obj))
             (\<lambda>w2. Ok (commit_storage E obj (SortedKeys (dirtyStorage obj)) w2)))"

definition commit_address :: "'w StateDB \<Rightarrow> Address \<Rightarrow> 'w \<Rightarrow> (string, 'w) outcome" where
  "commit_address s addr w =
     (case fmlookup (stateObjects s) addr of
        None \<Rightarrow> Panic \<comment> \<open>nil pointer dereference\<close>
      | Some obj \<Rightarrow> commit_object (keeper s) obj w)"

definition Commit :: "'w StateDB \<Rightarrow> (string, 'w StateDB) outcome" where
  "Commit s =
     bind_outcome (fold_outcome (commit_address s) (sortedDirties (db_journal s)) (ctx s))
       (\<lambda>w. Ok (s\<lparr>ctx := w\<rparr>))"

end
