(* ===== verification/Journal_Machine.thy ===== *)
theory Journal_Machine
  imports Prelude
begin

text \<open>
  The contract between a journaled state and the snapshots taken of it, as a locale: every
  step refines a step of an abstract state and extends the journal by entries that undo it,
  and cutting the journal back undoes the entries behind the cut. Its client is the machine
  of snapshots: whatever steps are taken after a snapshot, cutting the journal back to the
  recorded length gives the abstract state the snapshot was taken in.
\<close>

fun undo_all :: "('e \<Rightarrow> 'a \<Rightarrow> 'a option) \<Rightarrow> 'e list \<Rightarrow> 'a \<Rightarrow> 'a option" where
  "undo_all u [] a = Some a"
| "undo_all u (e # es) a = do { a1 \<leftarrow> u e a; undo_all u es a1 }"

lemma undo_all_append: "undo_all u (xs @ ys) a = undo_all u xs a \<bind> undo_all u ys"
  by (induction xs arbitrary: a) (auto split: bind_splits)

locale journaled =
  fixes abs :: "'s \<Rightarrow> 'a"
    and ents :: "'s \<Rightarrow> 'e list"
    and inv :: "'s \<Rightarrow> bool"
    and good :: "'a \<Rightarrow> bool"
    and undo :: "'e \<Rightarrow> 'a \<Rightarrow> 'a option"
    and step :: "'op \<Rightarrow> 's \<Rightarrow> 's option"
    and spec :: "'op \<Rightarrow> 'a \<Rightarrow> 'a option"
    and revert_to :: "nat \<Rightarrow> 's \<Rightarrow> 's option"
  assumes inv_good: "inv s \<Longrightarrow> good (abs s)"
    and step_inv: "inv s \<Longrightarrow> step c s = Some t \<Longrightarrow> inv t"
    and step_spec: "inv s \<Longrightarrow> map_option abs (step c s) = spec c (abs s)"
    and step_journal: "inv s \<Longrightarrow> step c s = Some t \<Longrightarrow>
      \<exists>es. ents t = ents s @ es \<and> undo_all undo (rev es) (abs t) = Some (abs s)"
    and revert_undo: "inv s \<Longrightarrow> n \<le> length (ents s) \<Longrightarrow>
      undo_all undo (rev (drop n (ents s))) (abs s) = Some a \<Longrightarrow> good a \<Longrightarrow>
      \<exists>t. revert_to n s = Some t \<and> inv t \<and> abs t = a \<and> ents t = take n (ents s)"
begin

text \<open>The snapshot with journal length \<open>n\<close> can be restored to the abstract state \<open>a\<close>.\<close>

definition restorable :: "'s \<Rightarrow> nat \<Rightarrow> 'a \<Rightarrow> bool" where
  "restorable s n a \<longleftrightarrow> n \<le> length (ents s) \<and> good a \<and>
     undo_all undo (rev (drop n (ents s))) (abs s) = Some a"

definition snaps_ok :: "'s \<Rightarrow> (int \<times> nat) list \<Rightarrow> (int \<times> 'a) list \<Rightarrow> bool" where
  "snaps_ok s revs saved \<longleftrightarrow>
     map fst saved = map fst revs \<and> sorted (map snd revs) \<and>
     (\<forall>i < length revs. restorable s (snd (revs ! i)) (snd (saved ! i)))"

lemma restorable_now: "inv s \<Longrightarrow> restorable s (length (ents s)) (abs s)"
  by (simp add: restorable_def inv_good)

lemma restorable_step:
  assumes "inv s" "step c s = Some t" "restorable s n a"
  shows "restorable t n a"
proof -
  from step_journal [OF assms(1,2)] obtain es
    where es: "ents t = ents s @ es" "undo_all undo (rev es) (abs t) = Some (abs s)" by blast
  with assms(3) show ?thesis
    by (auto simp: restorable_def undo_all_append)
qed

lemma restorable_revert:
  assumes s: "restorable s m b" and n: "restorable s n a" and le: "n \<le> m"
    and t: "abs t = b" "ents t = take m (ents s)"
  shows "restorable t n a"
proof -
  have m: "m \<le> length (ents s)" using s by (simp add: restorable_def)
  have "drop n (ents s) = drop n (take m (ents s)) @ drop m (ents s)"
    using le m by (simp add: drop_take) (metis add_diff_inverse_nat append_take_drop_id drop_drop
        not_less add.commute)
  then have "undo_all undo (rev (drop n (take m (ents s)))) b = Some a"
    using s n by (auto simp: restorable_def undo_all_append split: bind_splits)
  with n t le m show ?thesis by (simp add: restorable_def)
qed

lemma snaps_ok_Nil [simp]: "snaps_ok s [] []"
  by (simp add: snaps_ok_def)

lemma snaps_ok_length: "snaps_ok s revs saved \<Longrightarrow> length saved = length revs"
  by (auto simp: snaps_ok_def dest: map_eq_imp_length_eq)

lemma snaps_ok_step:
  assumes "inv s" "step c s = Some t" "snaps_ok s revs saved"
  shows "snaps_ok t revs saved"
  using assms(3) restorable_step [OF assms(1,2)] by (simp add: snaps_ok_def)

lemma snaps_ok_frame:
  assumes "snaps_ok s revs saved" "abs t = abs s" "ents t = ents s"
  shows "snaps_ok t revs saved"
  using assms unfolding snaps_ok_def restorable_def by simp

lemma snaps_ok_snapshot:
  assumes "inv s" "snaps_ok s revs saved"
  shows "snaps_ok s (revs @ [(i, length (ents s))]) (saved @ [(i, abs s)])"
proof -
  have "n \<le> length (ents s)" if "n \<in> set (map snd revs)" for n
    using that assms(2) unfolding snaps_ok_def restorable_def
    by (auto simp: in_set_conv_nth) (metis snd_conv)
  with assms restorable_now snaps_ok_length [OF assms(2)] show ?thesis
    by (auto simp: snaps_ok_def sorted_append nth_append less_Suc_eq)
qed

lemma snaps_ok_revert:
  assumes ok: "snaps_ok s revs saved" and k: "k < length revs"
    and t: "abs t = snd (saved ! k)" "ents t = take (snd (revs ! k)) (ents s)"
  shows "snaps_ok t (take k revs) (take k saved)"
proof -
  have at: "restorable s (snd (revs ! i)) (snd (saved ! i))" if "i < length revs" for i
    using ok that by (simp add: snaps_ok_def)
  have "restorable t (snd (revs ! i)) (snd (saved ! i))" if "i < k" for i
  proof (rule restorable_revert [OF at at _ t])
    show "snd (revs ! i) \<le> snd (revs ! k)"
      using ok that k sorted_nth_mono [of "map snd revs" i k] by (simp add: snaps_ok_def)
  qed (use that k in auto)
  moreover have "map fst (take k saved) = map fst (take k revs)"
    using ok by (metis snaps_ok_def take_map)
  moreover have "sorted (map snd (take k revs))"
    using ok by (metis snaps_ok_def sorted_wrt_take take_map)
  ultimately show ?thesis using k by (simp add: snaps_ok_def)
qed

lemma revert_restores:
  assumes "inv s" "snaps_ok s revs saved" "k < length revs"
  shows "\<exists>t. revert_to (snd (revs ! k)) s = Some t \<and> inv t \<and> abs t = snd (saved ! k) \<and>
    ents t = take (snd (revs ! k)) (ents s)"
  using assms(2,3) revert_undo [OF assms(1)] by (simp add: snaps_ok_def restorable_def)

end

end
