(* ===== verification/State_DB_Spec.thy ===== *)
theory State_DB_Spec
  imports State_DB Journal_Machine
begin

text \<open>
  What the state database promises: an abstract state (every account with its nonce, balance,
  code, storage and suicide flag, the refund counter, the logs and the access list), on which
  an operation acts directly and a snapshot is a copy. The caches, the journal and the
  revisions of the implementation do not appear in it. The invariant of the implementation,
  the undoing of journal entries seen on the abstract state, and the preservation lemmas.
\<close>

subsection \<open>The abstract state\<close>

record absobj =
  a_nonce :: uint64
  a_balance :: int
  a_codeHash :: bytes
  a_code :: "bytes option"
  a_storage :: "Hash \<Rightarrow> Hash"
  a_suicided :: bool

record absst =
  a_accts :: "Address \<Rightarrow> absobj option"
  a_refund :: uint64
  a_logs :: "ethLog list"
  a_access :: accessList

definition code_view :: "'w env \<Rightarrow> 'w \<Rightarrow> bytes option \<Rightarrow> bytes \<Rightarrow> bytes option" where
  "code_view E w c h =
     (if c \<noteq> None then c else if h = emptyCodeHash E then None
      else kGetCode E w (BytesToHash h))"

definition storage_view :: "'w env \<Rightarrow> 'w \<Rightarrow> Address \<Rightarrow> Storage \<Rightarrow> Hash \<Rightarrow> Hash" where
  "storage_view E w a d k = (case fmlookup d k of Some v \<Rightarrow> v | None \<Rightarrow> kGetState E w a k)"

definition obj_view :: "'w env \<Rightarrow> 'w \<Rightarrow> stateObject \<Rightarrow> absobj" where
  "obj_view E w obj =
     \<lparr>a_nonce = so_nonce obj, a_balance = so_balance obj, a_codeHash = so_codeHash obj,
      a_code = code_view E w (so_code obj) (so_codeHash obj),
      a_storage = storage_view E w (so_address obj) (dirtyStorage obj),
      a_suicided = suicided obj\<rparr>"

definition load :: "'w env \<Rightarrow> 'w \<Rightarrow> Address \<Rightarrow> absobj option" where
  "load E w a = map_option (\<lambda>acct. obj_view E w (newObject E a acct)) (kGetAccount E w a)"

definition abs_db :: "'w env \<Rightarrow> 'w \<Rightarrow> 'w StateDB \<Rightarrow> absst" where
  "abs_db E w s =
     \<lparr>a_accts = (\<lambda>a. case fmlookup (stateObjects s) a of
         Some obj \<Rightarrow> Some (obj_view E w obj) | None \<Rightarrow> load E w a),
      a_refund = refund s, a_logs = logs s, a_access = db_accessList s\<rparr>"

definition abs_put :: "Address \<Rightarrow> absobj \<Rightarrow> absst \<Rightarrow> absst" where
  "abs_put a ob A = A\<lparr>a_accts := (a_accts A)(a \<mapsto> ob)\<rparr>"

text \<open>A new account: its committed storage is what the keeper holds under its address.\<close>

definition fresh :: "'w env \<Rightarrow> 'w \<Rightarrow> Address \<Rightarrow> absobj" where
  "fresh E w a = obj_view E w (newObject E a \<lparr>Nonce = 0, Balance = None, CodeHash = None\<rparr>)"

definition get_or_new :: "'w env \<Rightarrow> 'w \<Rightarrow> absst \<Rightarrow> Address \<Rightarrow> absobj" where
  "get_or_new E w A a = (case a_accts A a of Some ob \<Rightarrow> ob | None \<Rightarrow> fresh E w a)"

subsection \<open>Operations\<close>

datatype db_op =
    opCreateAccount Address
  | opAddBalance Address int
  | opSubBalance Address int
  | opSetNonce Address uint64
  | opSetCode Address bytes
  | opSetState Address Hash Hash
  | opSuicide Address
  | opAddLog ethLog
  | opAddRefund uint64
  | opSubRefund uint64
  | opAddAddressToAccessList Address
  | opAddSlotToAccessList Address Hash
  | opExist Address
  | opEmpty Address
  | opGetBalance Address
  | opGetNonce Address
  | opGetCode Address
  | opGetCodeSize Address
  | opGetCodeHash Address
  | opGetState Address Hash
  | opGetCommittedState Address Hash
  | opHasSuicided Address

fun db_step :: "db_op \<Rightarrow> 'w StateDB \<Rightarrow> 'w StateDB option" where
  "db_step (opCreateAccount a) s = Some (CreateAccount s a)"
| "db_step (opAddBalance a n) s = Some (AddBalance s a n)"
| "db_step (opSubBalance a n) s = Some (SubBalance s a n)"
| "db_step (opSetNonce a n) s = Some (SetNonce s a n)"
| "db_step (opSetCode a c) s = Some (SetCode s a c)"
| "db_step (opSetState a k v) s = Some (SetState s a k v)"
| "db_step (opSuicide a) s = Some (snd (Suicide s a))"
| "db_step (opAddLog l) s = Some (AddLog s l)"
| "db_step (opAddRefund g) s = Some (AddRefund s g)"
| "db_step (opSubRefund g) s = SubRefund s g"
| "db_step (opAddAddressToAccessList a) s = Some (AddAddressToAccessList s a)"
| "db_step (opAddSlotToAccessList a k) s = AddSlotToAccessList s a k"
| "db_step (opExist a) s = Some (snd (Exist s a))"
| "db_step (opEmpty a) s = Some (snd (Empty s a))"
| "db_step (opGetBalance a) s = Some (snd (GetBalance s a))"
| "db_step (opGetNonce a) s = Some (snd (GetNonce s a))"
| "db_step (opGetCode a) s = Some (snd (GetCode s a))"
| "db_step (opGetCodeSize a) s = Some (snd (GetCodeSize s a))"
| "db_step (opGetCodeHash a) s = Some (snd (GetCodeHash s a))"
| "db_step (opGetState a k) s = Some (snd (GetState s a k))"
| "db_step (opGetCommittedState a k) s = Some (snd (GetCommittedState s a k))"
| "db_step (opHasSuicided a) s = Some (snd (HasSuicided s a))"

fun spec_step :: "'w env \<Rightarrow> 'w \<Rightarrow> TxConfig \<Rightarrow> db_op \<Rightarrow> absst \<Rightarrow> absst option" where
  "spec_step E w cfg (opCreateAccount a) A =
     Some (abs_put a ((fresh E w a)\<lparr>a_balance := a_balance (get_or_new E w A a)\<rparr>) A)"
| "spec_step E w cfg (opAddBalance a n) A =
     (let ob = get_or_new E w A a in Some (abs_put a (ob\<lparr>a_balance := a_balance ob + n\<rparr>) A))"
| "spec_step E w cfg (opSubBalance a n) A =
     (let ob = get_or_new E w A a in Some (abs_put a (ob\<lparr>a_balance := a_balance ob - n\<rparr>) A))"
| "spec_step E w cfg (opSetNonce a n) A =
     Some (abs_put a ((get_or_new E w A a)\<lparr>a_nonce := n\<rparr>) A)"
| "spec_step E w cfg (opSetCode a c) A =
     Some (abs_put a ((get_or_new E w A a)\<lparr>a_code := Some c, a_codeHash := Keccak256 E c\<rparr>) A)"
| "spec_step E w cfg (opSetState a k v) A =
     (let ob = get_or_new E w A a in Some (abs_put a (ob\<lparr>a_storage := (a_storage ob)(k := v)\<rparr>) A))"
| "spec_step E w cfg (opSuicide a) A =
     (case a_accts A a of
        None \<Rightarrow> Some A
      | Some ob \<Rightarrow> Some (abs_put a (ob\<lparr>a_suicided := True, a_balance := 0\<rparr>) A))"
| "spec_step E w cfg (opAddLog l) A =
     Some (A\<lparr>a_logs := a_logs A @
       [l\<lparr>log_TxHash := TxHash cfg, log_BlockHash := BlockHash cfg, log_TxIndex := TxIndex cfg,
          log_Index := LogIndex cfg + of_nat (length (a_logs A))\<rparr>]\<rparr>)"
| "spec_step E w cfg (opAddRefund g) A = Some (A\<lparr>a_refund := a_refund A + g\<rparr>)"
| "spec_step E w cfg (opSubRefund g) A =
     (if g > a_refund A then None else Some (A\<lparr>a_refund := a_refund A - g\<rparr>))"
| "spec_step E w cfg (opAddAddressToAccessList a) A =
     Some (A\<lparr>a_access := fst (AddAddress (a_access A) a)\<rparr>)"
| "spec_step E w cfg (opAddSlotToAccessList a k) A =
     map_option (\<lambda>(al, _). A\<lparr>a_access := al\<rparr>) (AddSlot (a_access A) a k)"
| "spec_step E w cfg _ A = Some A"

subsection \<open>Undoing a journal entry on the abstract state\<close>

definition abs_update :: "absst \<Rightarrow> Address \<Rightarrow> (absobj \<Rightarrow> absobj) \<Rightarrow> absst option" where
  "abs_update A a f = map_option (\<lambda>ob. abs_put a (f ob) A) (a_accts A a)"

fun undo_entry :: "'w env \<Rightarrow> 'w \<Rightarrow> JournalEntry \<Rightarrow> absst \<Rightarrow> absst option" where
  "undo_entry E w (createObjectChange a) A =
     Some (A\<lparr>a_accts := (a_accts A)(a := load E w a)\<rparr>)"
| "undo_entry E w (resetObjectChange p) A = Some (abs_put (so_address p) (obj_view E w p) A)"
| "undo_entry E w (suicideChange a p b) A =
     (case a_accts A a of
        None \<Rightarrow> Some A
      | Some ob \<Rightarrow> Some (abs_put a (ob\<lparr>a_suicided := p, a_balance := b\<rparr>) A))"
| "undo_entry E w (balanceChange a b) A = abs_update A a (\<lambda>ob. ob\<lparr>a_balance := b\<rparr>)"
| "undo_entry E w (nonceChange a n) A = abs_update A a (\<lambda>ob. ob\<lparr>a_nonce := n\<rparr>)"
| "undo_entry E w (codeChange a c h) A =
     abs_update A a (\<lambda>ob. ob\<lparr>a_code := code_view E w c h, a_codeHash := h\<rparr>)"
| "undo_entry E w (storageChange a k v) A =
     abs_update A a (\<lambda>ob. ob\<lparr>a_storage := (a_storage ob)(k := v)\<rparr>)"
| "undo_entry E w (refundChange g) A = Some (A\<lparr>a_refund := g\<rparr>)"
| "undo_entry E w addLogChange A =
     (if a_logs A = [] then None else Some (A\<lparr>a_logs := butlast (a_logs A)\<rparr>))"
| "undo_entry E w (accessListAddAccountChange a) A =
     Some (A\<lparr>a_access := DeleteAddress (a_access A) a\<rparr>)"
| "undo_entry E w (accessListAddSlotChange a k) A =
     map_option (\<lambda>al. A\<lparr>a_access := al\<rparr>) (DeleteSlot (a_access A) a k)"

subsection \<open>The invariant\<close>

definition wf_obj :: "'w env \<Rightarrow> 'w \<Rightarrow> stateObject \<Rightarrow> bool" where
  "wf_obj E w obj \<longleftrightarrow>
     length (so_codeHash obj) = 32 \<and>
     (\<forall>k v. fmlookup (originStorage obj) k = Some v \<longrightarrow> v = kGetState E w (so_address obj) k) \<and>
     fset (fmdom (dirtyStorage obj)) \<subseteq> fset (fmdom (originStorage obj))"

fun wf_entry :: "'w env \<Rightarrow> 'w \<Rightarrow> JournalEntry \<Rightarrow> bool" where
  "wf_entry E w (resetObjectChange p) \<longleftrightarrow> wf_obj E w p"
| "wf_entry E w (codeChange a c h) \<longleftrightarrow> length h = 32"
| "wf_entry E w _ \<longleftrightarrow> True"

text \<open>
  The storage keys cached in the live object at an address, \<^const>\<open>None\<close> if there is no live
  object. \<open>journal_ok\<close> follows the journal backwards: an entry that dirties an address finds
  a live object there, and a storage change finds its key cached.
\<close>

definition cached_keys :: "stateObject \<Rightarrow> Hash set" where
  "cached_keys obj = fset (fmdom (originStorage obj))"

definition keymap :: "(Address, stateObject) fmap \<Rightarrow> Address \<Rightarrow> Hash set option" where
  "keymap objs a = map_option cached_keys (fmlookup objs a)"

fun journal_ok :: "JournalEntry list \<Rightarrow> (Address \<Rightarrow> Hash set option) \<Rightarrow> bool" where
  "journal_ok [] K = True"
| "journal_ok (e # es) K =
     ((case Dirtied e of None \<Rightarrow> True | Some a \<Rightarrow> K a \<noteq> None) \<and>
      (case e of
         createObjectChange a \<Rightarrow> journal_ok es (K(a := None))
       | resetObjectChange p \<Rightarrow>
           K (so_address p) \<noteq> None \<and> journal_ok es (K(so_address p := Some (cached_keys p)))
       | storageChange a k v \<Rightarrow> k \<in> the (K a) \<and> journal_ok es K
       | _ \<Rightarrow> journal_ok es K))"

definition dirtied_by :: "JournalEntry list \<Rightarrow> Address \<Rightarrow> nat" where
  "dirtied_by es a = length (filter (\<lambda>e. Dirtied e = Some a) es)"

definition counts_ok :: "JournalEntry list \<Rightarrow> (Address, int) fmap \<Rightarrow> bool" where
  "counts_ok es d \<longleftrightarrow> (\<forall>a. fmlookup d a =
     (if dirtied_by es a = 0 then None else Some (int (dirtied_by es a))))"

definition objs_ok :: "'w env \<Rightarrow> 'w \<Rightarrow> (Address, stateObject) fmap \<Rightarrow> bool" where
  "objs_ok E w objs \<longleftrightarrow>
     (\<forall>a obj. fmlookup objs a = Some obj \<longrightarrow> so_address obj = a \<and> wf_obj E w obj)"

text \<open>
  \<open>unwinding\<close> is the invariant between the iterations of \<open>journal.Revert\<close>, with the entries
  that are left, last one first.
\<close>

definition unwinding ::
  "'w env \<Rightarrow> 'w \<Rightarrow> TxConfig \<Rightarrow> JournalEntry list \<Rightarrow> 'w StateDB \<Rightarrow> bool" where
  "unwinding E w cfg es s \<longleftrightarrow>
     keeper s = E \<and> ctx s = w \<and> txConfig s = cfg \<and> objs_ok E w (stateObjects s) \<and>
     (\<forall>e \<in> set es. wf_entry E w e) \<and> journal_ok es (keymap (stateObjects s)) \<and>
     counts_ok es (dirties (db_journal s))"

definition db_inv :: "'w env \<Rightarrow> 'w \<Rightarrow> TxConfig \<Rightarrow> 'w StateDB \<Rightarrow> bool" where
  "db_inv E w cfg s \<longleftrightarrow>
     unwinding E w cfg (rev (entries (db_journal s))) s \<and> wf_al (db_accessList s)"

end
