(* ===== verification/State_DB_Refines.thy ===== *)
theory State_DB_Refines
  imports State_DB_Spec
begin

text \<open>
  The state database keeps its invariant and refines the abstract state: every operation does
  to the abstract state what the specification says, extends the journal by entries that undo
  it, and cutting the journal back undoes them. With the locale of journaled states this gives
  the correctness of \<open>Snapshot\<close> and \<open>RevertToSnapshot\<close>.
\<close>

subsection \<open>Views\<close>

lemma obj_view_simps [simp]:
  "obj_view E w (setBalance ob b) = (obj_view E w ob)\<lparr>a_balance := b\<rparr>"
  "obj_view E w (setNonce ob n) = (obj_view E w ob)\<lparr>a_nonce := n\<rparr>"
  "obj_view E w (setCode ob h c) = (obj_view E w ob)
     \<lparr>a_code := code_view E w c (HashBytes h), a_codeHash := HashBytes h\<rparr>"
  "obj_view E w (ob\<lparr>suicided := p\<rparr>) = (obj_view E w ob)\<lparr>a_suicided := p\<rparr>"
  "obj_view E w (ob\<lparr>so_balance := b\<rparr>) = (obj_view E w ob)\<lparr>a_balance := b\<rparr>"
  "obj_view E w (markSuicided ob) = (obj_view E w ob)\<lparr>a_suicided := True\<rparr>"
  by (simp_all add: obj_view_def setBalance_def setNonce_def setCode_def markSuicided_def)

lemma obj_view_setState [simp]:
  "obj_view E w (setState ob k v) =
     (obj_view E w ob)\<lparr>a_storage := (a_storage (obj_view E w ob))(k := v)\<rparr>"
  by (auto simp: obj_view_def setState_def storage_view_def fun_eq_iff)

lemma obj_view_fields [simp]:
  "a_balance (obj_view E w ob) = so_balance ob"
  "a_nonce (obj_view E w ob) = so_nonce ob"
  "a_codeHash (obj_view E w ob) = so_codeHash ob"
  "a_suicided (obj_view E w ob) = suicided ob"
  by (simp_all add: obj_view_def)

lemma absobj_upd_same:
  "a_balance x = b \<Longrightarrow> x\<lparr>a_balance := b\<rparr> = x" "a_nonce x = n \<Longrightarrow> x\<lparr>a_nonce := n\<rparr> = x"
  "a_codeHash x = h \<Longrightarrow> x\<lparr>a_codeHash := h\<rparr> = x" "a_code x = c \<Longrightarrow> x\<lparr>a_code := c\<rparr> = x"
  "a_storage x = f \<Longrightarrow> x\<lparr>a_storage := f\<rparr> = x" for x :: absobj
  by auto

lemma so_address_simps [simp]:
  "so_address (setBalance ob b) = so_address ob"
  "so_address (setNonce ob n) = so_address ob"
  "so_address (setCode ob h c) = so_address ob"
  "so_address (setState ob k v) = so_address ob"
  "so_address (markSuicided ob) = so_address ob"
  "so_address (newObject E a acct) = a"
  by (simp_all add: setBalance_def setNonce_def setCode_def setState_def markSuicided_def
      newObject_def)

lemma cached_keys_simps [simp]:
  "cached_keys (setBalance ob b) = cached_keys ob"
  "cached_keys (setNonce ob n) = cached_keys ob"
  "cached_keys (setCode ob h c) = cached_keys ob"
  "cached_keys (setState ob k v) = cached_keys ob"
  "cached_keys (markSuicided ob) = cached_keys ob"
  "cached_keys (ob\<lparr>suicided := p\<rparr>) = cached_keys ob"
  "cached_keys (ob\<lparr>so_balance := b\<rparr>) = cached_keys ob"
  "cached_keys (newObject E a acct) = {}"
  by (simp_all add: cached_keys_def setBalance_def setNonce_def setCode_def setState_def
      markSuicided_def newObject_def)

lemma wf_obj_setters [simp]:
  "wf_obj E w (setBalance ob b) = wf_obj E w ob"
  "wf_obj E w (setNonce ob n) = wf_obj E w ob"
  "wf_obj E w (ob\<lparr>suicided := p\<rparr>) = wf_obj E w ob"
  "wf_obj E w (ob\<lparr>so_balance := b\<rparr>) = wf_obj E w ob"
  "wf_obj E w (markSuicided ob) = wf_obj E w ob"
  by (simp_all add: wf_obj_def setBalance_def setNonce_def markSuicided_def)

lemma wf_obj_setCode [wf_intros]: "wf_obj E w ob \<Longrightarrow> wf_obj E w (setCode ob h c)"
  by (simp add: wf_obj_def setCode_def)

lemma wf_obj_setState [wf_intros]:
  "wf_obj E w ob \<Longrightarrow> k \<in> cached_keys ob \<Longrightarrow> wf_obj E w (setState ob k v)"
  by (auto simp: wf_obj_def setState_def cached_keys_def)

lemma length_emptyCodeHash [simp]: "length (emptyCodeHash E) = 32"
  by (simp add: emptyCodeHash_def Keccak256_def)

lemma wf_newObject [wf_intros]:
  "(\<And>h. CodeHash acct = Some h \<Longrightarrow> length h = 32) \<Longrightarrow> wf_obj E w (newObject E a acct)"
  by (auto simp: wf_obj_def newObject_def split: option.splits)

text \<open>Filling the caches of an object changes nothing that is visible.\<close>

lemma Code_correct:
  "fst (Code E w ob) = a_code (obj_view E w ob)"
  "obj_view E w (snd (Code E w ob)) = obj_view E w ob"
  "so_address (snd (Code E w ob)) = so_address ob"
  "so_codeHash (snd (Code E w ob)) = so_codeHash ob"
  "cached_keys (snd (Code E w ob)) = cached_keys ob"
  "wf_obj E w (snd (Code E w ob)) = wf_obj E w ob"
  by (auto simp: Code_def obj_view_def code_view_def Let_def cached_keys_def wf_obj_def)

lemma obj_GetCommittedState_correct:
  assumes "wf_obj E w ob"
  shows "fst (obj_GetCommittedState E w ob k) = kGetState E w (so_address ob) k"
    "obj_view E w (snd (obj_GetCommittedState E w ob k)) = obj_view E w ob"
    "so_address (snd (obj_GetCommittedState E w ob k)) = so_address ob"
    "wf_obj E w (snd (obj_GetCommittedState E w ob k))"
    "cached_keys (snd (obj_GetCommittedState E w ob k)) = insert k (cached_keys ob)"
  using assms
  by (auto simp: obj_GetCommittedState_def Let_def obj_view_def wf_obj_def cached_keys_def
      fmlookup_dom_iff split: option.splits)

lemma obj_GetState_correct:
  assumes "wf_obj E w ob"
  shows "fst (obj_GetState E w ob k) = a_storage (obj_view E w ob) k"
    "obj_view E w (snd (obj_GetState E w ob k)) = obj_view E w ob"
    "so_address (snd (obj_GetState E w ob k)) = so_address ob"
    "wf_obj E w (snd (obj_GetState E w ob k))"
    "cached_keys (snd (obj_GetState E w ob k)) = insert k (cached_keys ob)"
proof -
  have *: "k \<in> cached_keys ob" if "fmlookup (dirtyStorage ob) k = Some v" for v
    using that assms fmdomI [of "dirtyStorage ob" k] by (auto simp: wf_obj_def cached_keys_def)
  note obj_GetCommittedState_correct [OF assms, simp]
  show "fst (obj_GetState E w ob k) = a_storage (obj_view E w ob) k"
    by (simp add: obj_GetState_def obj_view_def storage_view_def split: option.splits)
  show "obj_view E w (snd (obj_GetState E w ob k)) = obj_view E w ob"
    "so_address (snd (obj_GetState E w ob k)) = so_address ob"
    "wf_obj E w (snd (obj_GetState E w ob k))"
    "cached_keys (snd (obj_GetState E w ob k)) = insert k (cached_keys ob)"
    using assms * by (auto simp: obj_GetState_def split: option.splits)
qed

subsection \<open>Frame properties\<close>

lemma append_entry_frame [simp]:
  "keeper (append_entry s e) = keeper s" "ctx (append_entry s e) = ctx s"
  "txConfig (append_entry s e) = txConfig s" "stateObjects (append_entry s e) = stateObjects s"
  "refund (append_entry s e) = refund s" "logs (append_entry s e) = logs s"
  "db_accessList (append_entry s e) = db_accessList s"
  "validRevisions (append_entry s e) = validRevisions s"
  "nextRevisionID (append_entry s e) = nextRevisionID s"
  "entries (db_journal (append_entry s e)) = entries (db_journal s) @ [e]"
  "abs_db E w (append_entry s e) = abs_db E w s"
  by (simp_all add: append_entry_def journal_append_def Let_def abs_db_def)

lemma setStateObject_frame [simp]:
  "keeper (setStateObject s ob) = keeper s" "ctx (setStateObject s ob) = ctx s"
  "txConfig (setStateObject s ob) = txConfig s" "db_journal (setStateObject s ob) = db_journal s"
  "refund (setStateObject s ob) = refund s" "logs (setStateObject s ob) = logs s"
  "db_accessList (setStateObject s ob) = db_accessList s"
  "validRevisions (setStateObject s ob) = validRevisions s"
  "nextRevisionID (setStateObject s ob) = nextRevisionID s"
  "stateObjects (setStateObject s ob) = fmupd (so_address ob) ob (stateObjects s)"
  by (simp_all add: setStateObject_def)

lemma abs_setStateObject [simp]:
  "abs_db E w (setStateObject s ob) = abs_put (so_address ob) (obj_view E w ob) (abs_db E w s)"
  by (auto simp: abs_db_def abs_put_def fun_eq_iff)

lemma abs_put_put [simp]: "abs_put a x (abs_put a y A) = abs_put a x A"
  by (simp add: abs_put_def)

lemma abs_put_accts [simp]: "a_accts (abs_put a x A) = (a_accts A)(a \<mapsto> x)"
  by (simp add: abs_put_def)

lemma abs_put_id: "a_accts A a = Some x \<Longrightarrow> abs_put a x A = A"
  by (simp add: abs_put_def fun_upd_idem)

lemma abs_db_fields [simp]:
  "a_refund (abs_db E w s) = refund s" "a_logs (abs_db E w s) = logs s"
  "a_access (abs_db E w s) = db_accessList s"
  by (simp_all add: abs_db_def)

lemma abs_db_upd [simp]:
  "abs_db E w (s\<lparr>refund := g\<rparr>) = (abs_db E w s)\<lparr>a_refund := g\<rparr>"
  "abs_db E w (s\<lparr>logs := ls\<rparr>) = (abs_db E w s)\<lparr>a_logs := ls\<rparr>"
  "abs_db E w (s\<lparr>db_accessList := al\<rparr>) = (abs_db E w s)\<lparr>a_access := al\<rparr>"
  "abs_db E w (s\<lparr>db_journal := j\<rparr>) = abs_db E w s"
  "abs_db E w (s\<lparr>validRevisions := rs\<rparr>) = abs_db E w s"
  "abs_db E w (s\<lparr>nextRevisionID := i\<rparr>) = abs_db E w s"
  by (simp_all add: abs_db_def)

lemma abs_live: "fmlookup (stateObjects s) a = Some ob \<Longrightarrow>
    a_accts (abs_db E w s) a = Some (obj_view E w ob)"
  by (simp add: abs_db_def)

subsection \<open>The journal invariants\<close>

definition key_le :: "(Address \<Rightarrow> Hash set option) \<Rightarrow> (Address \<Rightarrow> Hash set option) \<Rightarrow> bool" where
  "key_le K L \<longleftrightarrow> (\<forall>a S. K a = Some S \<longrightarrow> (\<exists>T. L a = Some T \<and> S \<subseteq> T))"

lemma key_le_refl [simp]: "key_le K K"
  by (simp add: key_le_def)

lemma key_le_upd: "key_le K L \<Longrightarrow> key_le (K(a := x)) (L(a := x))"
  by (simp add: key_le_def)

lemma journal_ok_mono: "key_le K L \<Longrightarrow> journal_ok es K \<Longrightarrow> journal_ok es L"
proof (induction es arbitrary: K L)
  case (Cons e es)
  have live: "K a \<noteq> None \<Longrightarrow> L a \<noteq> None" for a
    using Cons.prems(1) unfolding key_le_def by (metis not_Some_eq option.distinct(1))
  have key: "K a \<noteq> None \<Longrightarrow> k \<in> the (K a) \<Longrightarrow> k \<in> the (L a)" for a k
    using Cons.prems(1) by (fastforce simp: key_le_def)
  have dirty: "case Dirtied e of None \<Rightarrow> True | Some a \<Rightarrow> L a \<noteq> None"
    using Cons.prems(2) live by (auto split: option.splits)
  show ?case
    using Cons.prems dirty live key
    by (cases e) (auto intro: Cons.IH [OF Cons.prems(1)] Cons.IH [OF key_le_upd [OF Cons.prems(1)]])
qed simp

lemma journal_ok_dead: "journal_ok es K \<Longrightarrow> K a = None \<Longrightarrow> dirtied_by es a = 0"
proof (induction es arbitrary: K)
  case (Cons e es)
  then have "Dirtied e \<noteq> Some a" by (auto split: option.splits)
  moreover have "\<exists>L. journal_ok es L \<and> L a = None"
  proof (cases e)
    case (resetObjectChange p)
    with Cons.prems show ?thesis
      by (intro exI [of _ "K(so_address p \<mapsto> cached_keys p)"]) auto
  next
    case (createObjectChange b)
    with Cons.prems show ?thesis by (intro exI [of _ "K(b := None)"]) auto
  qed (use Cons.prems in auto)
  then have "dirtied_by es a = 0" using Cons.IH by blast
  ultimately show ?case by (simp add: dirtied_by_def)
qed (simp add: dirtied_by_def)

lemma dirtied_by_Cons [simp]:
  "dirtied_by (e # es) a = (if Dirtied e = Some a then Suc (dirtied_by es a) else dirtied_by es a)"
  by (simp add: dirtied_by_def)

lemma dirtied_by_rev [simp]: "dirtied_by (rev es) a = dirtied_by es a"
  by (simp add: dirtied_by_def rev_filter [symmetric])

lemma counts_ok_append:
  assumes "counts_ok es (dirties j)"
  shows "counts_ok (e # es) (dirties (journal_append j e))"
proof (cases "Dirtied e")
  case (Some b)
  have "dirty_count (dirties j) b = int (dirtied_by es b)"
    using assms by (simp add: counts_ok_def dirty_count_def)
  with assms Some show ?thesis by (auto simp: counts_ok_def journal_append_def)
qed (use assms in \<open>simp add: counts_ok_def journal_append_def\<close>)

lemma counts_ok_undirty:
  assumes "counts_ok (e # es) d"
  shows "counts_ok es (undirty e d)"
proof (cases "Dirtied e")
  case (Some b)
  then have "dirty_count d b - 1 = int (dirtied_by es b)"
    using assms by (simp add: counts_ok_def dirty_count_def)
  with assms Some show ?thesis by (auto simp: counts_ok_def undirty_def Let_def)
qed (use assms in \<open>simp add: counts_ok_def undirty_def\<close>)

lemma counts_ok_dom: "counts_ok es d \<Longrightarrow> a |\<in>| fmdom d \<longleftrightarrow> dirtied_by es a \<noteq> 0"
  by (auto simp: counts_ok_def fmlookup_dom_iff split: if_splits)

subsection \<open>Looking an object up\<close>

text \<open>
  The keeper is read through the interface \<open>statedb.Keeper\<close>. The code hash slices it hands
  out have 32 bytes; that is all the journal relies on.
\<close>

locale statedb_env =
  fixes E :: "'w env" and w :: 'w and cfg :: TxConfig
  assumes hash_length: "kGetAccount E w a = Some acct \<Longrightarrow> CodeHash acct = Some h \<Longrightarrow> length h = 32"
begin

abbreviation abs_s where "abs_s \<equiv> abs_db E w"
abbreviation inv_s where "inv_s \<equiv> db_inv E w cfg"

lemma objs_ok_live: "objs_ok E w (stateObjects s) \<Longrightarrow> fmlookup (stateObjects s) a = Some ob \<Longrightarrow>
    so_address ob = a \<and> wf_obj E w ob"
  by (simp add: objs_ok_def)

lemma objs_ok_set: "objs_ok E w objs \<Longrightarrow> wf_obj E w ob \<Longrightarrow>
    objs_ok E w (fmupd (so_address ob) ob objs)"
  by (auto simp: objs_ok_def)

lemma objs_ok_drop: "objs_ok E w objs \<Longrightarrow> objs_ok E w (fmdrop a objs)"
  by (auto simp: objs_ok_def)

lemma keymap_set: "keymap (fmupd a ob objs) = (keymap objs)(a \<mapsto> cached_keys ob)"
  by (auto simp: keymap_def fun_eq_iff)

lemma keymap_drop: "keymap (fmdrop a objs) = (keymap objs)(a := None)"
  by (auto simp: keymap_def fun_eq_iff)

text \<open>Storing an object that caches at least the keys of the live one.\<close>

lemma unwinding_set:
  assumes "unwinding E w cfg es s" "wf_obj E w ob"
    and "\<And>S. keymap (stateObjects s) (so_address ob) = Some S \<Longrightarrow> S \<subseteq> cached_keys ob"
  shows "unwinding E w cfg es (setStateObject s ob)"
proof -
  have "key_le (keymap (stateObjects s)) ((keymap (stateObjects s))(so_address ob \<mapsto> cached_keys ob))"
    using assms(3) by (auto simp: key_le_def)
  with assms show ?thesis
    by (auto simp: unwinding_def objs_ok_set keymap_set intro: journal_ok_mono)
qed

lemma unwinding_same:
  assumes "unwinding E w cfg es s" "fmlookup (stateObjects s) (so_address ob) = Some ob'"
    "wf_obj E w ob" "cached_keys ob' \<subseteq> cached_keys ob"
  shows "unwinding E w cfg es (setStateObject s ob)"
  using assms by (intro unwinding_set) (auto simp: keymap_def)

lemma getStateObject_None:
  "unwinding E w cfg es s \<Longrightarrow> getStateObject s a = (None, s1) \<Longrightarrow>
    s1 = s \<and> fmlookup (stateObjects s) a = None \<and> load E w a = None \<and> a_accts (abs_s s) a = None"
  by (auto simp: getStateObject_def unwinding_def load_def abs_db_def Let_def split: option.splits)

definition found :: "JournalEntry list \<Rightarrow> 'w StateDB \<Rightarrow> Address \<Rightarrow> stateObject \<Rightarrow> 'w StateDB \<Rightarrow> bool"
  where "found es s a ob s1 \<longleftrightarrow>
    unwinding E w cfg es s1 \<and> abs_s s1 = abs_s s \<and> db_journal s1 = db_journal s \<and>
    fmlookup (stateObjects s1) a = Some ob \<and> so_address ob = a \<and> wf_obj E w ob \<and>
    a_accts (abs_s s) a = Some (obj_view E w ob) \<and>
    db_accessList s1 = db_accessList s \<and> validRevisions s1 = validRevisions s \<and>
    nextRevisionID s1 = nextRevisionID s"

lemma getStateObject_Some:
  assumes u: "unwinding E w cfg es s" and get: "getStateObject s a = (Some ob, s1)"
  shows "found es s a ob s1"
proof -
  consider (live) "fmlookup (stateObjects s) a = Some ob" "s1 = s"
    | (loaded) acct where "fmlookup (stateObjects s) a = None" "kGetAccount E w a = Some acct"
      "ob = newObject E a acct" "s1 = setStateObject s ob"
    using u get by (auto simp: getStateObject_def unwinding_def Let_def split: option.splits)
  then show ?thesis
  proof cases
    case live
    with u have "so_address ob = a \<and> wf_obj E w ob" by (metis objs_ok_live unwinding_def)
    with u live show ?thesis by (simp add: found_def abs_db_def)
  next
    case loaded
    have wf: "wf_obj E w ob"
      using loaded hash_length by (auto intro: wf_newObject)
    moreover have "unwinding E w cfg es s1"
      unfolding loaded(4) using u wf loaded by (intro unwinding_set) (auto simp: keymap_def)
    moreover have acct: "a_accts (abs_s s) a = Some (obj_view E w ob)"
      using loaded by (simp add: abs_db_def load_def)
    moreover have "abs_s s1 = abs_s s"
      using loaded acct by (simp add: abs_put_id)
    ultimately show ?thesis using loaded by (simp add: found_def)
  qed
qed

subsection \<open>Undoing one entry\<close>

abbreviation drop_dirty where
  "drop_dirty e s \<equiv>
     s\<lparr>db_journal := (db_journal s)\<lparr>dirties := undirty e (dirties (db_journal s))\<rparr>\<rparr>"

lemma unwinding_drop_dirty:
  "unwinding E w cfg (e # es) s \<Longrightarrow> journal_ok es (keymap (stateObjects s)) \<Longrightarrow>
    unwinding E w cfg es (drop_dirty e s)"
  by (auto simp: unwinding_def intro: counts_ok_undirty)

text \<open>The result of undoing \<open>e\<close>, with the entries \<open>es\<close> left, is the abstract state \<open>r'\<close>.\<close>

definition undone ::
  "JournalEntry \<Rightarrow> JournalEntry list \<Rightarrow> 'w StateDB \<Rightarrow> 'w StateDB option \<Rightarrow> absst option \<Rightarrow> bool" where
  "undone e es s r r' \<longleftrightarrow> map_option abs_s r = r' \<and>
     (\<forall>t. r = Some t \<longrightarrow> unwinding E w cfg es (drop_dirty e t) \<and>
        entries (db_journal t) = entries (db_journal s))"

lemma update_object_correct:
  assumes u: "unwinding E w cfg (e # es) s"
    and e: "Dirtied e = Some a" "\<And>K. journal_ok (e # es) K \<Longrightarrow> journal_ok es K"
    and f: "\<And>ob. wf_obj E w ob \<Longrightarrow> so_address ob = a \<Longrightarrow> keymap (stateObjects s) a = Some (cached_keys ob) \<Longrightarrow>
      wf_obj E w (f ob) \<and> so_address (f ob) = a \<and> cached_keys (f ob) = cached_keys ob \<and>
      obj_view E w (f ob) = g (obj_view E w ob)"
  shows "undone e es s (update_object s a f) (abs_update (abs_s s) a g)"
proof (cases "getStateObject s a")
  case (Pair r1 s1)
  have "keymap (stateObjects s) a \<noteq> None" using u e(1) by (auto simp: unwinding_def)
  then obtain ob where ob: "fmlookup (stateObjects s) a = Some ob" by (auto simp: keymap_def)
  then have r1: "r1 = Some ob" "s1 = s" using Pair by (auto simp: getStateObject_def)
  have fnd: "found (e # es) s a ob s" using getStateObject_Some [OF u] Pair r1 by simp
  have fob: "wf_obj E w (f ob)" "so_address (f ob) = a" "cached_keys (f ob) = cached_keys ob"
    "obj_view E w (f ob) = g (obj_view E w ob)"
    using f [of ob] fnd ob by (auto simp: found_def keymap_def)
  have r: "update_object s a f = Some (setStateObject s (f ob))"
    using Pair r1 by (simp add: update_object_def)
  have u': "unwinding E w cfg (e # es) (setStateObject s (f ob))"
    using u ob fob by (intro unwinding_same) auto
  moreover have "journal_ok es (keymap (stateObjects (setStateObject s (f ob))))"
    using u' e(2) unfolding unwinding_def by blast
  ultimately have "unwinding E w cfg es (drop_dirty e (setStateObject s (f ob)))"
    by (rule unwinding_drop_dirty)
  with r fob fnd show ?thesis by (simp add: undone_def abs_update_def found_def)
qed

lemma revert_suicide_correct:
  assumes u: "unwinding E w cfg (suicideChange a p b # es) s"
  shows "undone (suicideChange a p b) es s (revert_entry (suicideChange a p b) s)
    (undo_entry E w (suicideChange a p b) (abs_s s))"
proof -
  let ?f = "\<lambda>ob. setBalance (ob\<lparr>suicided := p\<rparr>) b"
  have "keymap (stateObjects s) a \<noteq> None" using u by (auto simp: unwinding_def)
  then obtain ob where ob: "fmlookup (stateObjects s) a = Some ob" by (auto simp: keymap_def)
  have "undone (suicideChange a p b) es s (update_object s a ?f)
      (abs_update (abs_s s) a (\<lambda>ob. ob\<lparr>a_suicided := p, a_balance := b\<rparr>))"
    by (rule update_object_correct [OF u]) auto
  moreover have "update_object s a ?f = revert_entry (suicideChange a p b) s"
    using ob by (simp add: update_object_def getStateObject_def)
  moreover have "abs_update (abs_s s) a (\<lambda>ob. ob\<lparr>a_suicided := p, a_balance := b\<rparr>) =
      undo_entry E w (suicideChange a p b) (abs_s s)"
    using abs_live [OF ob] by (simp add: abs_update_def)
  ultimately show ?thesis by simp
qed

lemma revert_create_correct:
  assumes u: "unwinding E w cfg (createObjectChange a # es) s"
  shows "undone (createObjectChange a) es s (revert_entry (createObjectChange a) s)
    (undo_entry E w (createObjectChange a) (abs_s s))"
  using u by (auto simp: undone_def unwinding_def objs_ok_drop keymap_drop abs_db_def fun_eq_iff
      intro: counts_ok_undirty)

lemma revert_reset_correct:
  assumes u: "unwinding E w cfg (resetObjectChange p # es) s"
  shows "undone (resetObjectChange p) es s (revert_entry (resetObjectChange p) s)
    (undo_entry E w (resetObjectChange p) (abs_s s))"
  using u by (auto simp: undone_def unwinding_def objs_ok_set keymap_set intro: counts_ok_undirty)

lemma revert_entry_correct:
  assumes u: "unwinding E w cfg (e # es) s"
  shows "undone e es s (revert_entry e s) (undo_entry E w e (abs_s s))"
proof (cases e)
  case (createObjectChange a)
  with u revert_create_correct show ?thesis by simp
next
  case (resetObjectChange p)
  with u revert_reset_correct show ?thesis by simp
next
  case (suicideChange a p b)
  with u revert_suicide_correct show ?thesis by simp
next
  case (balanceChange a b)
  with u show ?thesis by (auto intro!: update_object_correct)
next
  case (nonceChange a n)
  with u show ?thesis by (auto intro!: update_object_correct)
next
  case (codeChange a c h)
  with u have "HashBytes (BytesToHash h) = h"
    by (auto simp: unwinding_def HashBytes_BytesToHash)
  with u codeChange show ?thesis by (auto intro!: update_object_correct wf_obj_setCode)
next
  case (storageChange a k v)
  with u have "k \<in> the (keymap (stateObjects s) a)" by (simp add: unwinding_def)
  with u storageChange show ?thesis by (auto intro!: update_object_correct wf_obj_setState)
next
  case (refundChange g)
  with u show ?thesis by (auto simp: undone_def unwinding_def intro: counts_ok_undirty)
next
  case addLogChange
  with u show ?thesis by (auto simp: undone_def unwinding_def intro: counts_ok_undirty)
next
  case (accessListAddAccountChange a)
  with u show ?thesis by (auto simp: undone_def unwinding_def intro: counts_ok_undirty)
next
  case (accessListAddSlotChange a k)
  with u show ?thesis
    by (auto simp: undone_def unwinding_def option.map_comp comp_def intro: counts_ok_undirty)
qed

lemma journal_unwind_correct:
  assumes "unwinding E w cfg (es @ rest) s" "undo_all (undo_entry E w) es (abs_s s) = Some A"
  shows "\<exists>t. journal_unwind es s = Some t \<and> abs_s t = A \<and> unwinding E w cfg rest t \<and>
    entries (db_journal t) = entries (db_journal s)"
  using assms
proof (induction es arbitrary: s)
  case Nil
  then show ?case by simp
next
  case (Cons e es)
  from Cons.prems(2) obtain A1 where A1: "undo_entry E w e (abs_s s) = Some A1"
    "undo_all (undo_entry E w) es A1 = Some A" by (auto split: bind_splits)
  have "undone e (es @ rest) s (revert_entry e s) (undo_entry E w e (abs_s s))"
    using Cons.prems(1) by (intro revert_entry_correct) simp
  with A1 obtain s1 where s1: "revert_entry e s = Some s1" "abs_s s1 = A1"
    "unwinding E w cfg (es @ rest) (drop_dirty e s1)"
    "entries (db_journal s1) = entries (db_journal s)"
    by (auto simp: undone_def)
  from Cons.IH [OF s1(3)] A1 s1 show ?case by simp
qed

lemma journal_Revert_correct:
  assumes inv: "inv_s s" and n: "n \<le> length (entries (db_journal s))"
    and undo: "undo_all (undo_entry E w) (rev (drop n (entries (db_journal s)))) (abs_s s) = Some A"
    and good: "wf_al (a_access A)"
  shows "\<exists>t. journal_Revert s n = Some t \<and> inv_s t \<and> abs_s t = A \<and>
    entries (db_journal t) = take n (entries (db_journal s))"
proof -
  let ?es = "entries (db_journal s)"
  have "rev ?es = rev (drop n ?es) @ rev (take n ?es)"
    by (metis append_take_drop_id rev_append)
  then have "unwinding E w cfg (rev (drop n ?es) @ rev (take n ?es)) s"
    using inv by (simp add: db_inv_def)
  from journal_unwind_correct [OF this undo] obtain t where
    t: "journal_unwind (rev (drop n ?es)) s = Some t" "abs_s t = A"
      "unwinding E w cfg (rev (take n ?es)) t" by blast
  let ?t = "t\<lparr>db_journal := (db_journal t)\<lparr>entries := take n ?es\<rparr>\<rparr>"
  have "inv_s ?t" using t good by (auto simp: db_inv_def unwinding_def)
  moreover have "journal_Revert s n = Some ?t" using t n by (simp add: journal_Revert_def)
  ultimately show ?thesis using t by auto
qed

subsection \<open>Operations extend the journal\<close>

definition grows :: "'w StateDB \<Rightarrow> 'w StateDB \<Rightarrow> bool" where
  "grows s t \<longleftrightarrow> inv_s t \<and> validRevisions t = validRevisions s \<and>
     nextRevisionID t = nextRevisionID s \<and>
     (\<exists>es. entries (db_journal t) = entries (db_journal s) @ es \<and>
        undo_all (undo_entry E w) (rev es) (abs_s t) = Some (abs_s s))"

lemma grows_refl: "inv_s s \<Longrightarrow> grows s s"
  by (simp add: grows_def)

lemma grows_trans:
  assumes "grows s t" "grows t v"
  shows "grows s v"
proof -
  obtain xs ys where "entries (db_journal t) = entries (db_journal s) @ xs"
    "undo_all (undo_entry E w) (rev xs) (abs_s t) = Some (abs_s s)"
    "entries (db_journal v) = entries (db_journal t) @ ys"
    "undo_all (undo_entry E w) (rev ys) (abs_s v) = Some (abs_s t)"
    using assms by (auto simp: grows_def)
  then have "entries (db_journal v) = entries (db_journal s) @ (xs @ ys) \<and>
      undo_all (undo_entry E w) (rev (xs @ ys)) (abs_s v) = Some (abs_s s)"
    by (simp add: undo_all_append)
  with assms show ?thesis unfolding grows_def by metis
qed

lemma grows_inv: "grows s t \<Longrightarrow> inv_s t"
  by (simp add: grows_def)

lemma growsI_entry:
  assumes "inv_s t" "entries (db_journal t) = entries (db_journal s) @ [e]"
    "undo_entry E w e (abs_s t) = Some (abs_s s)"
    "validRevisions t = validRevisions s" "nextRevisionID t = nextRevisionID s"
  shows "grows s t"
  using assms by (auto simp: grows_def intro!: exI [of _ "[e]"])

lemma growsI_silent:
  assumes "inv_s t" "entries (db_journal t) = entries (db_journal s)" "abs_s t = abs_s s"
    "validRevisions t = validRevisions s" "nextRevisionID t = nextRevisionID s"
  shows "grows s t"
  using assms by (auto simp: grows_def intro!: exI [of _ "[]"])

lemma counts_append_entry:
  "counts_ok (rev (entries (db_journal s))) (dirties (db_journal s)) \<Longrightarrow>
    counts_ok (e # rev (entries (db_journal s))) (dirties (db_journal (append_entry s e)))"
  by (simp add: append_entry_def counts_ok_append)

text \<open>An entry about something else than the objects.\<close>

lemma inv_append_other:
  assumes "inv_s s" "Dirtied e = None" "\<And>p. e \<noteq> resetObjectChange p"
  shows "inv_s (append_entry s e)"
  using assms counts_append_entry [of s e]
  by (cases e) (auto simp: db_inv_def unwinding_def)

text \<open>An entry of the live object at \<open>a\<close>, which is replaced by \<open>ob'\<close>.\<close>

definition object_entry :: "Address \<Rightarrow> stateObject \<Rightarrow> JournalEntry \<Rightarrow> bool" where
  "object_entry a ob' e \<longleftrightarrow> Dirtied e = Some a \<and> wf_entry E w e \<and> (\<forall>b. e \<noteq> createObjectChange b) \<and>
     (\<forall>k v. e = storageChange a k v \<longrightarrow> k \<in> cached_keys ob')"

lemma inv_append_set:
  assumes inv: "inv_s s" and ob: "fmlookup (stateObjects s) a = Some ob"
    and ob': "wf_obj E w ob'" "so_address ob' = a" "cached_keys ob \<subseteq> cached_keys ob'"
    and e: "object_entry a ob' e"
  shows "inv_s (setStateObject (append_entry s e) ob')"
proof -
  let ?es = "rev (entries (db_journal s))"
  have u: "unwinding E w cfg ?es (setStateObject s ob')"
    using inv ob ob' by (intro unwinding_same) (auto simp: db_inv_def)
  then have "journal_ok (e # ?es) (keymap (fmupd a ob' (stateObjects s)))"
    using e ob' by (cases e) (auto simp: object_entry_def unwinding_def keymap_set)
  with u inv e ob' counts_append_entry [of s e] show ?thesis
    by (auto simp: db_inv_def unwinding_def object_entry_def)
qed

lemma grows_set:
  assumes "inv_s s" "fmlookup (stateObjects s) a = Some ob"
    "wf_obj E w ob'" "so_address ob' = a" "cached_keys ob \<subseteq> cached_keys ob'"
    "object_entry a ob' e"
    "undo_entry E w e (abs_put a (obj_view E w ob') (abs_s s)) = Some (abs_s s)"
  shows "grows s (setStateObject (append_entry s e) ob')"
  using assms by (intro growsI_entry [of _ _ e] inv_append_set) auto

lemma grows_get:
  assumes "inv_s s" "getStateObject s a = (r, s1)"
  shows "grows s s1" "abs_s s1 = abs_s s"
proof -
  have "grows s s1 \<and> abs_s s1 = abs_s s"
  proof (cases r)
    case None
    with assms have "s1 = s" using getStateObject_None by (auto simp: db_inv_def)
    with assms show ?thesis by (simp add: grows_refl)
  next
    case (Some ob)
    with assms have "found (rev (entries (db_journal s))) s a ob s1"
      by (auto simp: db_inv_def intro: getStateObject_Some)
    with assms show ?thesis
      by (auto simp: found_def db_inv_def intro!: growsI_silent)
  qed
  then show "grows s s1" "abs_s s1 = abs_s s" by auto
qed

lemma getStateObject_found:
  "inv_s s \<Longrightarrow> getStateObject s a = (Some ob, s1) \<Longrightarrow>
    fmlookup (stateObjects s1) a = Some ob \<and> so_address ob = a \<and> wf_obj E w ob \<and>
    a_accts (abs_s s) a = Some (obj_view E w ob)"
  using getStateObject_Some by (auto simp: db_inv_def found_def)

lemma getStateObject_missing:
  "inv_s s \<Longrightarrow> getStateObject s a = (None, s1) \<Longrightarrow>
    s1 = s \<and> fmlookup (stateObjects s) a = None \<and> load E w a = None \<and> a_accts (abs_s s) a = None"
  using getStateObject_None by (auto simp: db_inv_def)

abbreviation new_obj where
  "new_obj a \<equiv> newObject E a \<lparr>Nonce = 0, Balance = None, CodeHash = None\<rparr>"

lemma wf_new_obj: "wf_obj E w (new_obj a)"
  by (auto intro: wf_newObject)

lemma grows_create:
  assumes inv: "inv_s s" and none: "fmlookup (stateObjects s) a = None" "load E w a = None"
  shows "grows s (setStateObject (append_entry s (createObjectChange a)) (new_obj a))"
proof (rule growsI_entry [of _ _ "createObjectChange a"])
  have "(keymap (stateObjects s))(a := None) = keymap (stateObjects s)"
    using none by (auto simp: keymap_def fun_eq_iff)
  then show "inv_s (setStateObject (append_entry s (createObjectChange a)) (new_obj a))"
    using inv counts_append_entry [of s "createObjectChange a"] wf_new_obj
    by (auto simp: db_inv_def unwinding_def objs_ok_def keymap_set)
  have "a_accts (abs_s s) a = None" using none by (simp add: abs_db_def)
  then show "undo_entry E w (createObjectChange a)
      (abs_s (setStateObject (append_entry s (createObjectChange a)) (new_obj a))) = Some (abs_s s)"
    using none by (simp add: abs_put_def fun_upd_idem)
qed auto

lemma grows_reset:
  assumes inv: "inv_s s"
    and p: "fmlookup (stateObjects s) a = Some p" "so_address p = a" "wf_obj E w p"
  shows "grows s (setStateObject (append_entry s (resetObjectChange p)) (new_obj a))"
proof (rule growsI_entry [of _ _ "resetObjectChange p"])
  have "(keymap (stateObjects s))(a \<mapsto> cached_keys p) = keymap (stateObjects s)"
    using p by (auto simp: keymap_def fun_eq_iff)
  then show "inv_s (setStateObject (append_entry s (resetObjectChange p)) (new_obj a))"
    using inv p counts_append_entry [of s "resetObjectChange p"] wf_new_obj
    by (auto simp: db_inv_def unwinding_def objs_ok_def keymap_set)
  show "undo_entry E w (resetObjectChange p)
      (abs_s (setStateObject (append_entry s (resetObjectChange p)) (new_obj a))) = Some (abs_s s)"
    using p abs_live [OF p(1)] by (simp add: abs_put_id)
qed auto

lemma createObject_correct:
  assumes inv: "inv_s s" and create: "createObject s a = ((ob, prev), t)"
  shows "ob = new_obj a \<and> grows s t \<and> fmlookup (stateObjects t) a = Some ob \<and>
    abs_s t = abs_put a (obj_view E w ob) (abs_s s) \<and>
    map_option (obj_view E w) prev = a_accts (abs_s s) a \<and>
    (\<forall>p. prev = Some p \<longrightarrow> so_address p = a \<and>
       entries (db_journal t) = entries (db_journal s) @ [resetObjectChange p])"
proof -
  obtain s1 where get: "getStateObject s a = (prev, s1)"
    using create by (auto simp: createObject_def Let_def split: prod.splits)
  have E: "keeper s = E" using inv by (simp add: db_inv_def unwinding_def)
  have s1: "grows s s1" "inv_s s1" "abs_s s1 = abs_s s"
    using grows_get [OF inv get] by (auto simp: grows_def)
  show ?thesis
  proof (cases prev)
    case None
    with create get E have t: "ob = new_obj a"
      "t = setStateObject (append_entry s1 (createObjectChange a)) (new_obj a)"
      by (auto simp: createObject_def Let_def)
    with None get s1 getStateObject_missing [OF inv, of a s1] show ?thesis
      by (auto intro: grows_create)
  next
    case (Some p)
    with create get E have t: "ob = new_obj a"
      "t = setStateObject (append_entry s1 (resetObjectChange p)) (new_obj a)"
      by (auto simp: createObject_def Let_def)
    from Some get getStateObject_found [OF inv] have p: "fmlookup (stateObjects s1) a = Some p"
      "so_address p = a" "wf_obj E w p" "a_accts (abs_s s) a = Some (obj_view E w p)" by auto
    have "db_journal s1 = db_journal s"
      using getStateObject_Some [of "rev (entries (db_journal s))" s a p s1] inv get Some
      by (auto simp: db_inv_def found_def)
    with grows_reset [OF s1(2) p(1-3)] t p s1 Some show ?thesis
      by (auto intro: grows_trans)
  qed
qed

lemma getOrNewStateObject_correct:
  assumes inv: "inv_s s" and get: "getOrNewStateObject s a = (ob, t)"
  shows "grows s t" "fmlookup (stateObjects t) a = Some ob" "so_address ob = a" "wf_obj E w ob"
    "abs_s t = abs_put a (obj_view E w ob) (abs_s s)"
    "obj_view E w ob = get_or_new E w (abs_s s) a"
proof -
  obtain r s1 where g: "getStateObject s a = (r, s1)" by (cases "getStateObject s a")
  have "grows s t \<and> fmlookup (stateObjects t) a = Some ob \<and> so_address ob = a \<and> wf_obj E w ob \<and>
    abs_s t = abs_put a (obj_view E w ob) (abs_s s) \<and> obj_view E w ob = get_or_new E w (abs_s s) a"
  proof (cases r)
    case None
    obtain prev where c: "createObject s a = ((ob, prev), t)"
      using get g None getStateObject_missing [OF inv, of a s1]
      by (auto simp: getOrNewStateObject_def split: prod.splits)
    have "a_accts (abs_s s) a = None" using getStateObject_missing [OF inv] g None by blast
    with createObject_correct [OF inv c] show ?thesis
      by (auto simp: get_or_new_def fresh_def intro: wf_newObject)
  next
    case (Some p)
    then have "p = ob" "s1 = t" using get g by (auto simp: getOrNewStateObject_def)
    with getStateObject_found [OF inv] g Some grows_get [OF inv g] show ?thesis
      by (auto simp: get_or_new_def abs_put_id)
  qed
  then show "grows s t" "fmlookup (stateObjects t) a = Some ob" "so_address ob = a" "wf_obj E w ob"
    "abs_s t = abs_put a (obj_view E w ob) (abs_s s)"
    "obj_view E w ob = get_or_new E w (abs_s s) a" by auto
qed

subsection \<open>Every operation refines its specification\<close>

definition implements :: "db_op \<Rightarrow> 'w StateDB \<Rightarrow> bool" where
  "implements c s \<longleftrightarrow> map_option abs_s (db_step c s) = spec_step E w cfg c (abs_s s) \<and>
     (\<forall>t. db_step c s = Some t \<longrightarrow> grows s t)"

lemma setter_correct:
  assumes inv: "inv_s s" and get: "getOrNewStateObject s a = (ob, s1)"
    and ob': "wf_obj E w ob'" "so_address ob' = a" "cached_keys ob \<subseteq> cached_keys ob'"
    and e: "object_entry a ob' e"
    and undo: "undo_entry E w e (abs_put a (obj_view E w ob') (abs_s s)) =
      Some (abs_put a (obj_view E w ob) (abs_s s))"
  shows "grows s (setStateObject (append_entry s1 e) ob') \<and>
    abs_s (setStateObject (append_entry s1 e) ob') = abs_put a (obj_view E w ob') (abs_s s)"
proof -
  note g = getOrNewStateObject_correct [OF inv get]
  have "grows s1 (setStateObject (append_entry s1 e) ob')"
    using g(1,2,5) ob' e undo by (intro grows_set) (auto simp: grows_def)
  with g(1,5) ob' show ?thesis by (auto intro: grows_trans)
qed

lemma keeper_inv: "inv_s s \<Longrightarrow> keeper s = E \<and> ctx s = w \<and> txConfig s = cfg"
  by (simp add: db_inv_def unwinding_def)

lemma get_keeper: "inv_s s \<Longrightarrow> getOrNewStateObject s a = (ob, s1) \<Longrightarrow>
    inv_s s1 \<and> keeper s1 = E \<and> ctx s1 = w"
  using getOrNewStateObject_correct(1) [of s a ob s1] by (auto simp: grows_def keeper_inv)

lemma SetBalance_correct:
  assumes inv: "inv_s s" and get: "getOrNewStateObject s a = (ob, s1)"
  shows "grows s (obj_SetBalance s1 ob n) \<and>
    abs_s (obj_SetBalance s1 ob n) =
      abs_put a ((get_or_new E w (abs_s s) a)\<lparr>a_balance := n\<rparr>) (abs_s s)"
proof -
  note g = getOrNewStateObject_correct [OF inv get]
  have "grows s (setStateObject (append_entry s1 (balanceChange a (so_balance ob))) (setBalance ob n)) \<and>
    abs_s (setStateObject (append_entry s1 (balanceChange a (so_balance ob))) (setBalance ob n)) =
      abs_put a (obj_view E w (setBalance ob n)) (abs_s s)"
    using g(1-5) by (intro setter_correct [OF inv get])
      (auto simp: object_entry_def abs_update_def absobj_upd_same)
  with g(3) show ?thesis by (simp add: obj_SetBalance_def flip: g(6))
qed

lemma AddBalance_correct: "inv_s s \<Longrightarrow> implements (opAddBalance a n) s"
proof (cases "getOrNewStateObject s a")
  case (Pair ob s1)
  assume inv: "inv_s s"
  note g = getOrNewStateObject_correct [OF inv Pair]
  from g(1-5) SetBalance_correct [OF inv Pair, of "so_balance ob + n"] Pair show ?thesis
    by (auto simp: implements_def AddBalance_def obj_AddBalance_def Let_def absobj_upd_same
        simp flip: g(6))
qed

lemma SubBalance_correct: "inv_s s \<Longrightarrow> implements (opSubBalance a n) s"
proof (cases "getOrNewStateObject s a")
  case (Pair ob s1)
  assume inv: "inv_s s"
  note g = getOrNewStateObject_correct [OF inv Pair]
  from g(1-5) SetBalance_correct [OF inv Pair, of "so_balance ob - n"] Pair show ?thesis
    by (auto simp: implements_def SubBalance_def obj_SubBalance_def Let_def absobj_upd_same
        simp flip: g(6))
qed

lemma SetNonce_correct: "inv_s s \<Longrightarrow> implements (opSetNonce a n) s"
proof (cases "getOrNewStateObject s a")
  case (Pair ob s1)
  assume inv: "inv_s s"
  note g = getOrNewStateObject_correct [OF inv Pair]
  have "grows s (setStateObject (append_entry s1 (nonceChange a (so_nonce ob))) (setNonce ob n)) \<and>
    abs_s (setStateObject (append_entry s1 (nonceChange a (so_nonce ob))) (setNonce ob n)) =
      abs_put a (obj_view E w (setNonce ob n)) (abs_s s)"
    using g(1-5) by (intro setter_correct [OF inv Pair])
      (auto simp: object_entry_def abs_update_def absobj_upd_same)
  with g(3) Pair show ?thesis
    by (simp add: implements_def SetNonce_def obj_SetNonce_def flip: g(6))
qed

lemma SetCode_correct: "inv_s s \<Longrightarrow> implements (opSetCode a c) s"
proof (cases "getOrNewStateObject s a")
  case (Pair ob s1)
  assume inv: "inv_s s"
  note g = getOrNewStateObject_correct [OF inv Pair]
  define ob1 where "ob1 = snd (Code E w ob)"
  have ob1: "obj_view E w ob1 = obj_view E w ob" "so_address ob1 = a" "wf_obj E w ob1"
    "so_codeHash ob1 = so_codeHash ob" "cached_keys ob1 = cached_keys ob"
    "Code E w ob = (a_code (obj_view E w ob), ob1)"
    using g(3,4) Code_correct [of E w ob] by (auto simp: ob1_def prod_eq_iff)
  let ?e = "codeChange a (a_code (obj_view E w ob)) (so_codeHash ob)"
  let ?ob' = "setCode ob1 (Keccak256Hash E c) (Some c)"
  have "code_view E w (a_code (obj_view E w ob)) (so_codeHash ob) = a_code (obj_view E w ob)"
    by (auto simp: code_view_def obj_view_def)
  moreover have "length (so_codeHash ob) = 32" using g(4) by (simp add: wf_obj_def)
  moreover have "wf_obj E w ?ob'" using ob1 by (intro wf_obj_setCode)
  ultimately have "grows s (setStateObject (append_entry s1 ?e) ?ob') \<and>
      abs_s (setStateObject (append_entry s1 ?e) ?ob') = abs_put a (obj_view E w ?ob') (abs_s s)"
    using g(1-5) ob1 by (intro setter_correct [OF inv Pair])
      (auto simp: object_entry_def abs_update_def absobj_upd_same)
  with g(3) ob1 Pair get_keeper [OF inv Pair] keeper_inv [OF inv] show ?thesis
    by (simp add: implements_def SetCode_def obj_SetCode_def code_view_def Keccak256_def
        flip: g(6))
qed

lemma SetState_same:
  assumes inv: "inv_s s" and get: "getOrNewStateObject s a = (ob, s1)"
    and ob1: "obj_view E w ob1 = obj_view E w ob" "so_address ob1 = a" "wf_obj E w ob1"
      "cached_keys ob \<subseteq> cached_keys ob1"
  shows "grows s (setStateObject s1 ob1) \<and>
    abs_s (setStateObject s1 ob1) = abs_put a (obj_view E w ob) (abs_s s)"
proof -
  note g = getOrNewStateObject_correct [OF inv get]
  have "inv_s (setStateObject s1 ob1)"
    using g(1,2) ob1 unwinding_same [of _ s1 ob1 ob] by (auto simp: grows_def db_inv_def)
  then have "grows s1 (setStateObject s1 ob1)"
    using g(5) ob1 by (intro growsI_silent) auto
  with g(1,5) ob1 show ?thesis by (auto intro: grows_trans)
qed

lemma SetState_correct: "inv_s s \<Longrightarrow> implements (opSetState a k v) s"
proof (cases "getOrNewStateObject s a")
  case (Pair ob s1)
  assume inv: "inv_s s"
  note g = getOrNewStateObject_correct [OF inv Pair]
  define prev where "prev = a_storage (obj_view E w ob) k"
  define ob1 where "ob1 = snd (obj_GetState E w ob k)"
  have ob1: "obj_view E w ob1 = obj_view E w ob" "so_address ob1 = a" "wf_obj E w ob1"
    "cached_keys ob1 = insert k (cached_keys ob)" "obj_GetState E w ob k = (prev, ob1)"
    using g(3) obj_GetState_correct [OF g(4), of k] by (auto simp: ob1_def prev_def prod_eq_iff)
  have step: "db_step (opSetState a k v) s = Some (if prev = v then setStateObject s1 ob1
      else setStateObject (append_entry s1 (storageChange a k prev)) (setState ob1 k v))"
    using Pair ob1 get_keeper [OF inv Pair] by (simp add: SetState_def obj_SetState_def)
  show ?thesis
  proof (cases "prev = v")
    case True
    then have "(a_storage (obj_view E w ob))(k := v) = a_storage (obj_view E w ob)"
      by (auto simp: prev_def)
    with True SetState_same [OF inv Pair ob1(1-3)] ob1 step show ?thesis
      by (auto simp: implements_def Let_def absobj_upd_same simp flip: g(6))
  next
    case False
    have "(a_storage (obj_view E w ob))(k := prev) = a_storage (obj_view E w ob)"
      by (simp add: prev_def)
    then have "grows s (setStateObject (append_entry s1 (storageChange a k prev)) (setState ob1 k v)) \<and>
      abs_s (setStateObject (append_entry s1 (storageChange a k prev)) (setState ob1 k v)) =
        abs_put a (obj_view E w (setState ob1 k v)) (abs_s s)"
      using g(1-5) ob1 by (intro setter_correct [OF inv Pair])
        (auto simp: object_entry_def abs_update_def absobj_upd_same intro!: wf_obj_setState)
    with False ob1 step show ?thesis by (simp add: implements_def Let_def flip: g(6))
  qed
qed

lemma CreateAccount_correct: "inv_s s \<Longrightarrow> implements (opCreateAccount a) s"
proof -
  assume inv: "inv_s s"
  obtain ob prev t where c: "createObject s a = ((ob, prev), t)" by (metis prod.collapse)
  note cc = createObject_correct [OF inv c]
  have bal: "a_balance (fresh E w a) = 0" by (simp add: fresh_def newObject_def)
  show ?thesis
  proof (cases prev)
    case None
    with c cc bal show ?thesis
      by (auto simp: implements_def CreateAccount_def get_or_new_def fresh_def absobj_upd_same)
  next
    case (Some p)
    let ?ob' = "setBalance ob (so_balance p)"
    let ?t = "setStateObject t ?ob'"
    from Some cc have acct: "Some (obj_view E w p) = a_accts (abs_s s) a" by simp
    have inv': "inv_s ?t"
      using cc unwinding_same [of _ t ?ob' ob] by (auto simp: grows_def db_inv_def wf_new_obj)
    have "grows s ?t"
      using Some cc inv' acct
      by (intro growsI_entry [of _ _ "resetObjectChange p"]) (auto simp: grows_def abs_put_id)
    with Some c cc acct show ?thesis
      by (auto simp: implements_def CreateAccount_def get_or_new_def fresh_def)
        (metis obj_view_fields(1) option.simps(5))
  qed
qed

lemma Suicide_correct: "inv_s s \<Longrightarrow> implements (opSuicide a) s"
proof -
  assume inv: "inv_s s"
  obtain r s1 where get: "getStateObject s a = (r, s1)" by (cases "getStateObject s a")
  note s1 = grows_get [OF inv get]
  show ?thesis
  proof (cases r)
    case None
    with get getStateObject_missing [OF inv] show ?thesis
      by (auto simp: implements_def Suicide_def intro: grows_refl [OF inv])
  next
    case (Some ob)
    let ?e = "suicideChange a (suicided ob) (so_balance ob)"
    let ?ob' = "(markSuicided ob)\<lparr>so_balance := 0\<rparr>"
    from Some get getStateObject_found [OF inv]
    have ob: "fmlookup (stateObjects s1) a = Some ob" "so_address ob = a" "wf_obj E w ob"
      "a_accts (abs_s s) a = Some (obj_view E w ob)" by auto
    have "grows s1 (setStateObject (append_entry s1 ?e) ?ob')"
      using s1 ob by (intro grows_set [OF grows_inv [OF s1(1)] ob(1)])
        (auto simp: object_entry_def abs_put_id intro!: abs_put_id)
    with s1 get Some ob show ?thesis
      by (auto simp: implements_def Suicide_def intro: grows_trans)
  qed
qed

lemma db_inv_other:
  assumes "inv_s s" "wf_al (db_accessList t)"
    and "keeper t = keeper s" "ctx t = ctx s" "txConfig t = txConfig s"
    "stateObjects t = stateObjects s" "db_journal t = db_journal s"
  shows "inv_s t"
  using assms by (simp add: db_inv_def unwinding_def)

lemma AddLog_correct: "inv_s s \<Longrightarrow> implements (opAddLog l) s"
proof -
  assume inv: "inv_s s"
  have "inv_s (AddLog s l)"
    using inv inv_append_other [OF inv, of addLogChange]
    by (auto simp: AddLog_def Let_def db_inv_def unwinding_def)
  then have "grows s (AddLog s l)"
    by (intro growsI_entry [of _ _ addLogChange]) (auto simp: AddLog_def Let_def)
  with keeper_inv [OF inv] show ?thesis by (simp add: implements_def AddLog_def Let_def)
qed

lemma refund_entry:
  assumes inv: "inv_s s"
  shows "grows s ((append_entry s (refundChange (refund s)))\<lparr>refund := g\<rparr>)"
proof (rule growsI_entry [of _ _ "refundChange (refund s)"])
  show "inv_s ((append_entry s (refundChange (refund s)))\<lparr>refund := g\<rparr>)"
    using inv_append_other [OF inv, of "refundChange (refund s)"] inv
    by (auto simp: db_inv_def unwinding_def)
  show "undo_entry E w (refundChange (refund s))
      (abs_s ((append_entry s (refundChange (refund s)))\<lparr>refund := g\<rparr>)) = Some (abs_s s)"
    by (simp add: abs_db_def)
qed auto

lemma AddRefund_correct: "inv_s s \<Longrightarrow> implements (opAddRefund g) s"
  using refund_entry by (simp add: implements_def AddRefund_def)

lemma SubRefund_correct: "inv_s s \<Longrightarrow> implements (opSubRefund g) s"
  using refund_entry by (auto simp: implements_def SubRefund_def)

lemma access_update:
  assumes inv: "inv_s s" and al: "wf_al al"
  shows "inv_s (s\<lparr>db_accessList := al\<rparr>)"
  using al by (rule db_inv_other [OF inv, of "s\<lparr>db_accessList := al\<rparr>", simplified])

lemma AddAddress_correct: "inv_s s \<Longrightarrow> implements (opAddAddressToAccessList a) s"
proof -
  assume inv: "inv_s s"
  obtain al c where add: "AddAddress (db_accessList s) a = (al, c)" by (metis prod.exhaust)
  have wf: "wf_al al" using inv add al.add_addr_sets by (auto simp: db_inv_def)
  let ?e = "accessListAddAccountChange a"
  let ?s1 = "s\<lparr>db_accessList := al\<rparr>"
  have s1: "inv_s ?s1" using inv wf by (rule access_update)
  show ?thesis
  proof (cases c)
    case True
    have "inv_s (append_entry ?s1 ?e)" using s1 by (rule inv_append_other) auto
    moreover have "DeleteAddress al a = db_accessList s" using add True by (simp add: al.del_add_addr)
    ultimately have "grows s (append_entry ?s1 ?e)"
      by (intro growsI_entry [of _ _ ?e]) (auto simp: abs_db_def)
    with True add show ?thesis by (simp add: implements_def AddAddressToAccessList_def)
  next
    case False
    then have "al = db_accessList s" using add al.add_addr_same [of "db_accessList s" a al] False by simp
    with False add inv show ?thesis
      by (simp add: implements_def AddAddressToAccessList_def grows_refl abs_db_def)
  qed
qed

lemma AddSlot_correct: "inv_s s \<Longrightarrow> implements (opAddSlotToAccessList a k) s"
proof -
  assume inv: "inv_s s"
  have wf0: "wf_al (db_accessList s)" using inv by (simp add: db_inv_def)
  obtain al ac sc where add: "AddSlot (db_accessList s) a k = Some (al, ac, sc)"
    and wf: "wf_al al" using al.add_slot_sets [OF wf0] by blast
  let ?e1 = "accessListAddAccountChange a" and ?e2 = "accessListAddSlotChange a k"
  let ?s1 = "s\<lparr>db_accessList := al\<rparr>"
  let ?es = "(if ac then [?e1] else []) @ (if sc then [?e2] else [])"
  let ?t = "fold (\<lambda>e s. append_entry s e) ?es ?s1"
  have t: "db_step (opAddSlotToAccessList a k) s = Some ?t"
    using add by (simp add: AddSlotToAccessList_def)
  have "inv_s ?t"
    using access_update [OF inv wf] inv_append_other by (auto intro!: inv_append_other)
  moreover have "undo_all (undo_entry E w) (rev ?es) (abs_s ?t) = Some (abs_s s)"
  proof (cases sc)
    case True
    then obtain al' where "DeleteSlot al a k = Some al'"
      "(if ac then DeleteAddress al' a else al') = db_accessList s"
      using al.del_add_slot [OF wf0, of a k al ac] add by auto
    with True show ?thesis by (auto simp: abs_db_def)
  next
    case False
    then have "al = db_accessList s" "\<not> ac" using al.add_slot_same [OF wf0] add by auto
    with False show ?thesis by (simp add: abs_db_def)
  qed
  ultimately have "grows s ?t" by (auto simp: grows_def intro!: exI [of _ ?es])
  with t add show ?thesis by (auto simp: implements_def)
qed

text \<open>Queries only fill caches.\<close>

lemma query_correct:
  assumes inv: "inv_s s" and get: "getStateObject s a = (r, s1)"
    and t: "t = (case r of None \<Rightarrow> s1 | Some ob \<Rightarrow> setStateObject s1 (f ob))"
    and f: "\<And>ob. wf_obj E w ob \<Longrightarrow> so_address ob = a \<Longrightarrow> wf_obj E w (f ob) \<and> so_address (f ob) = a \<and>
      cached_keys ob \<subseteq> cached_keys (f ob) \<and> obj_view E w (f ob) = obj_view E w ob"
  shows "grows s t \<and> abs_s t = abs_s s"
proof (cases r)
  case None
  with t grows_get [OF inv get] show ?thesis by simp
next
  case (Some ob)
  note s1 = grows_get [OF inv get]
  from Some get getStateObject_found [OF inv]
  have ob: "fmlookup (stateObjects s1) a = Some ob" "so_address ob = a" "wf_obj E w ob"
    "a_accts (abs_s s) a = Some (obj_view E w ob)" by auto
  note fob = f [OF ob(3,2)]
  have "inv_s (setStateObject s1 (f ob))"
    using s1 ob fob unwinding_same [of _ s1 "f ob" ob] by (auto simp: grows_def db_inv_def)
  then have "grows s1 (setStateObject s1 (f ob))"
    using fob ob s1 by (intro growsI_silent) (auto simp: abs_put_id)
  with Some t s1 fob ob show ?thesis by (auto simp: abs_put_id intro: grows_trans)
qed

lemma read_correct:
  "inv_s s \<Longrightarrow> grows s (snd (getStateObject s a)) \<and> abs_s (snd (getStateObject s a)) = abs_s s"
  using grows_get by (metis prod.collapse)

lemma load_query_correct: "inv_s s \<Longrightarrow>
    c \<in> {opExist a, opEmpty a, opGetBalance a, opGetNonce a, opGetCodeHash a, opHasSuicided a} \<Longrightarrow>
    implements c s"
  using read_correct [of s a]
  by (auto simp: implements_def Exist_def Empty_def GetBalance_def GetNonce_def GetCodeHash_def
      HasSuicided_def split: prod.splits option.splits)

lemma cache_query_correct:
  assumes inv: "inv_s s"
  shows "implements (opGetCode a) s" "implements (opGetCodeSize a) s"
    "implements (opGetState a k) s" "implements (opGetCommittedState a k) s"
proof -
  obtain r s1 where get: "getStateObject s a = (r, s1)" by (cases "getStateObject s a")
  have E: "keeper s = E" "ctx s = w" using keeper_inv [OF inv] by auto
  note q = query_correct [OF inv get refl]
  have code: "grows s t \<and> abs_s t = abs_s s"
    if "t = (case r of None \<Rightarrow> s1 | Some ob \<Rightarrow> setStateObject s1 (snd (Code E w ob)))" for t
    unfolding that by (rule q) (simp add: Code_correct)
  show "implements (opGetCode a) s" "implements (opGetCodeSize a) s"
    using code [OF refl] get E
    by (auto simp: implements_def GetCode_def GetCodeSize_def CodeSize_def
        split: option.splits prod.splits)
  have "grows s t \<and> abs_s t = abs_s s"
    if "t = (case r of None \<Rightarrow> s1 | Some ob \<Rightarrow> setStateObject s1 (snd (obj_GetState E w ob k)))" for t
    unfolding that by (rule q) (auto simp: obj_GetState_correct)
  from this [OF refl] show "implements (opGetState a k) s"
    using get E by (auto simp: implements_def GetState_def split: option.splits prod.splits)
  have "grows s t \<and> abs_s t = abs_s s"
    if "t = (case r of None \<Rightarrow> s1
      | Some ob \<Rightarrow> setStateObject s1 (snd (obj_GetCommittedState E w ob k)))" for t
    unfolding that by (rule q) (auto simp: obj_GetCommittedState_correct)
  from this [OF refl] show "implements (opGetCommittedState a k) s"
    using get E by (auto simp: implements_def GetCommittedState_def split: option.splits prod.splits)
qed

lemmas op_correct = CreateAccount_correct AddBalance_correct SubBalance_correct SetNonce_correct
  SetCode_correct SetState_correct Suicide_correct AddLog_correct AddRefund_correct
  SubRefund_correct AddAddress_correct AddSlot_correct cache_query_correct

lemma db_step_implements: "inv_s s \<Longrightarrow> implements c s"
  by (cases c) (simp_all add: op_correct load_query_correct)

end

sublocale statedb_env \<subseteq> j: journaled "abs_db E w" "\<lambda>s. entries (db_journal s)" "db_inv E w cfg"
  "\<lambda>A. wf_al (a_access A)" "undo_entry E w" db_step "spec_step E w cfg" "\<lambda>n s. journal_Revert s n"
proof unfold_locales
  show "\<And>s. inv_s s \<Longrightarrow> wf_al (a_access (abs_s s))" by (simp add: db_inv_def)
  show "\<And>s c t. inv_s s \<Longrightarrow> db_step c s = Some t \<Longrightarrow> inv_s t"
    using db_step_implements by (auto simp: implements_def grows_def)
  show "\<And>s c. inv_s s \<Longrightarrow> map_option abs_s (db_step c s) = spec_step E w cfg c (abs_s s)"
    using db_step_implements by (auto simp: implements_def)
  show "\<And>s c t. inv_s s \<Longrightarrow> db_step c s = Some t \<Longrightarrow>
      \<exists>es. entries (db_journal t) = entries (db_journal s) @ es \<and>
        undo_all (undo_entry E w) (rev es) (abs_s t) = Some (abs_s s)"
    using db_step_implements by (auto simp: implements_def grows_def)
qed (rule journal_Revert_correct)

subsection \<open>Snapshots\<close>

text \<open>
  A run of the database: operations, snapshots and reverts in any order. The specification
  keeps, for every valid snapshot, a copy of the abstract state.
\<close>

datatype db_cmd = Do db_op | TakeSnapshot | RevertTo int

fun db_exec :: "db_cmd \<Rightarrow> 'w StateDB \<Rightarrow> 'w StateDB option" where
  "db_exec (Do c) s = db_step c s"
| "db_exec TakeSnapshot s = Some (snd (Snapshot s))"
| "db_exec (RevertTo i) s = RevertToSnapshot s i"

fun db_run :: "db_cmd list \<Rightarrow> 'w StateDB \<Rightarrow> 'w StateDB option" where
  "db_run [] s = Some s"
| "db_run (c # cs) s = do { s1 \<leftarrow> db_exec c s; db_run cs s1 }"

lemma db_run_append: "db_run (xs @ ys) s = Option.bind (db_run xs s) (db_run ys)"
  by (induction xs arbitrary: s) (auto split: bind_splits)

record spec_state =
  current :: absst
  saved :: "(int \<times> absst) list"
  next_id :: int

fun spec_exec :: "'w env \<Rightarrow> 'w \<Rightarrow> TxConfig \<Rightarrow> db_cmd \<Rightarrow> spec_state \<Rightarrow> spec_state option" where
  "spec_exec E w cfg (Do c) st =
     map_option (\<lambda>A. st\<lparr>current := A\<rparr>) (spec_step E w cfg c (current st))"
| "spec_exec E w cfg TakeSnapshot st =
     Some (st\<lparr>saved := saved st @ [(next_id st, current st)], next_id := next_id st + 1\<rparr>)"
| "spec_exec E w cfg (RevertTo i) st =
     (case map_of (saved st) i of
        None \<Rightarrow> None
      | Some A \<Rightarrow> Some (st\<lparr>current := A, saved := takeWhile (\<lambda>(j, _). j \<noteq> i) (saved st)\<rparr>))"

fun spec_run :: "'w env \<Rightarrow> 'w \<Rightarrow> TxConfig \<Rightarrow> db_cmd list \<Rightarrow> spec_state \<Rightarrow> spec_state option" where
  "spec_run E w cfg [] st = Some st"
| "spec_run E w cfg (c # cs) st = do { st1 \<leftarrow> spec_exec E w cfg c st; spec_run E w cfg cs st1 }"

definition spec_init :: "'w env \<Rightarrow> 'w \<Rightarrow> spec_state" where
  "spec_init E w =
     \<lparr>current = \<lparr>a_accts = load E w, a_refund = 0, a_logs = [], a_access = newAccessList\<rparr>,
      saved = [], next_id = 0\<rparr>"

text \<open>In a list sorted by id, the binary search of \<open>RevertToSnapshot\<close> finds the revision.\<close>

lemma search_id:
  fixes f :: "'r \<Rightarrow> int"
  assumes sorted: "sorted_wrt (<) (map f rs)"
    and idx: "idx = sort_Search (length rs) (\<lambda>i. f (rs ! i) \<ge> x)"
  shows "x \<in> f ` set rs \<Longrightarrow> idx < length rs \<and> f (rs ! idx) = x"
    "x \<notin> f ` set rs \<Longrightarrow> idx = length rs \<or> f (rs ! idx) \<noteq> x"
proof -
  have less: "f (rs ! i) < f (rs ! k)" if "i < k" "k < length rs" for i k
    using sorted sorted_wrt_nth_less [of "(<)" "map f rs" i k] that by simp
  have "upward (length rs) (\<lambda>i. f (rs ! i) \<ge> x)"
    unfolding upward_def using less by (metis le_neq_implies_less less_imp_le order_trans)
  note srch = sort_Search_correct [OF this, folded idx]
  show "idx < length rs \<and> f (rs ! idx) = x" if "x \<in> f ` set rs"
  proof -
    from that obtain k where k: "k < length rs" "f (rs ! k) = x" by (auto simp: in_set_conv_nth)
    with srch(2) [OF k(1)] have le: "idx \<le> k" by simp
    with k have idx_lt: "idx < length rs" by simp
    with srch(2) [OF idx_lt] have "f (rs ! idx) \<ge> x" by simp
    with le k idx_lt less [of idx k] show ?thesis by (cases "idx = k") auto
  qed
  show "idx = length rs \<or> f (rs ! idx) \<noteq> x" if "x \<notin> f ` set rs"
    using that srch(1) by (metis image_eqI le_neq_implies_less nth_mem)
qed

lemma takeWhile_nth_id:
  assumes "distinct (map fst xs)" "k < length xs" "fst (xs ! k) = i"
  shows "takeWhile (\<lambda>(j, _). j \<noteq> i) xs = take k xs" "map_of xs i = Some (snd (xs ! k))"
proof -
  have "fst (xs ! l) \<noteq> i" if "l < k" for l
    using assms that by (auto simp: distinct_conv_nth)
  then show "takeWhile (\<lambda>(j, _). j \<noteq> i) xs = take k xs"
    using assms(2,3) by (intro takeWhile_eq_take_P_nth) (auto simp: split_beta)
  show "map_of xs i = Some (snd (xs ! k))"
    using assms by (metis map_of_is_SomeI nth_mem prod.collapse)
qed

lemma getStateObject_nextRevisionID:
  "getStateObject s a = (r, s1) \<Longrightarrow> nextRevisionID s1 = nextRevisionID s"
  by (auto simp: getStateObject_def Let_def split: option.splits)

lemma revert_entry_nextRevisionID [frame_simps]:
  "revert_entry e s = Some t \<Longrightarrow> nextRevisionID t = nextRevisionID s"
  by (cases e) (auto simp: update_object_def split: prod.splits option.splits if_splits
      dest: getStateObject_nextRevisionID)

lemma journal_unwind_nextRevisionID [frame_simps]:
  "journal_unwind es s = Some t \<Longrightarrow> nextRevisionID t = nextRevisionID s"
  by (induction es arbitrary: s) (auto split: bind_splits dest: revert_entry_nextRevisionID)

lemma journal_Revert_nextRevisionID [frame_simps]:
  "journal_Revert s n = Some t \<Longrightarrow> nextRevisionID t = nextRevisionID s"
  by (auto simp: journal_Revert_def Let_def split: if_splits bind_splits
      dest: journal_unwind_nextRevisionID)

context statedb_env
begin

definition revs :: "'w StateDB \<Rightarrow> (int \<times> nat) list" where
  "revs s = map (\<lambda>r. (rev_id r, journalIndex r)) (validRevisions s)"

definition sim :: "'w StateDB \<Rightarrow> spec_state \<Rightarrow> bool" where
  "sim s st \<longleftrightarrow> inv_s s \<and> current st = abs_s s \<and> next_id st = nextRevisionID s \<and>
     j.snaps_ok s (revs s) (saved st) \<and> sorted_wrt (<) (map rev_id (validRevisions s)) \<and>
     (\<forall>r \<in> set (validRevisions s). rev_id r < nextRevisionID s)"

lemma revs_frame: "validRevisions t = validRevisions s \<Longrightarrow> revs t = revs s"
  by (simp add: revs_def)

lemma map_fst_revs: "map fst (revs s) = map rev_id (validRevisions s)"
  by (simp add: revs_def)

lemma sim_step:
  assumes sim: "sim s st"
  shows "rel_option sim (db_exec (Do c) s) (spec_exec E w cfg (Do c) st)"
proof -
  have inv: "inv_s s" and ok: "j.snaps_ok s (revs s) (saved st)" and cur: "current st = abs_s s"
    using sim by (auto simp: sim_def)
  show ?thesis
  proof (cases "db_step c s")
    case None
    with cur j.step_spec [OF inv, of c] show ?thesis by simp
  next
    case (Some t)
    have g: "grows s t" using Some db_step_implements [OF inv] by (simp add: implements_def)
    have "sim t (st\<lparr>current := abs_s t\<rparr>)"
      using sim g j.snaps_ok_step [OF inv Some ok] revs_frame [of t s]
      by (simp add: sim_def grows_def)
    moreover have "spec_step E w cfg c (abs_s s) = Some (abs_s t)"
      using j.step_spec [OF inv, of c] Some by simp
    ultimately show ?thesis using Some cur by simp
  qed
qed

lemma sim_snapshot:
  assumes sim: "sim s st"
  shows "rel_option sim (db_exec TakeSnapshot s) (spec_exec E w cfg TakeSnapshot st)"
proof -
  define t where "t = snd (Snapshot s)"
  have t: "validRevisions t = validRevisions s @
      [\<lparr>rev_id = nextRevisionID s, journalIndex = length (entries (db_journal s))\<rparr>]"
    "abs_s t = abs_s s" "db_journal t = db_journal s" "inv_s t = inv_s s"
    "nextRevisionID t = nextRevisionID s + 1"
    by (simp_all add: t_def Snapshot_def Let_def journal_length_def db_inv_def unwinding_def)
  have inv: "inv_s s" and ok: "j.snaps_ok s (revs s) (saved st)" using sim by (auto simp: sim_def)
  have "revs t = revs s @ [(nextRevisionID s, length (entries (db_journal s)))]"
    using t by (simp add: revs_def)
  with j.snaps_ok_snapshot [OF inv ok] t
  have "j.snaps_ok t (revs t) (saved st @ [(nextRevisionID s, abs_s s)])"
    by (metis j.snaps_ok_frame)
  then show ?thesis
    using sim t by (auto simp: sim_def sorted_wrt_append simp flip: t_def)
qed

lemma sim_revert_found:
  assumes sim: "sim s st" and k: "k < length (validRevisions s)"
    and idx: "k = sort_Search (length (validRevisions s)) (\<lambda>l. rev_id (validRevisions s ! l) \<ge> i)"
    and i: "rev_id (validRevisions s ! k) = i"
  shows "rel_option sim (RevertToSnapshot s i)
    (Some (st\<lparr>current := snd (saved st ! k), saved := take k (saved st)\<rparr>))"
proof -
  have inv: "inv_s s" and ok: "j.snaps_ok s (revs s) (saved st)" using sim by (auto simp: sim_def)
  have k': "k < length (revs s)" "snd (revs s ! k) = journalIndex (validRevisions s ! k)"
    using k by (auto simp: revs_def)
  from j.revert_restores [OF inv ok k'(1)] obtain t where
    t: "journal_Revert s (journalIndex (validRevisions s ! k)) = Some t" "inv_s t"
      "abs_s t = snd (saved st ! k)" "entries (db_journal t) = take (snd (revs s ! k)) (entries (db_journal s))"
    using k' by auto
  let ?t = "t\<lparr>validRevisions := take k (validRevisions s)\<rparr>"
  have "RevertToSnapshot s i = Some ?t"
    using t k i by (simp add: RevertToSnapshot_def Let_def flip: idx)
  moreover have "nextRevisionID t = nextRevisionID s"
    using t(1) by (rule journal_Revert_nextRevisionID)
  moreover have "j.snaps_ok ?t (revs ?t) (take k (saved st))"
    using j.snaps_ok_revert [OF ok k'(1), of ?t] t by (simp add: revs_def take_map)
  moreover have "inv_s ?t" using t(2) by (simp add: db_inv_def unwinding_def)
  ultimately show ?thesis
    using sim t by (auto simp: sim_def take_map [symmetric] sorted_wrt_take dest: in_set_takeD)
qed

lemma sim_revert:
  assumes sim: "sim s st"
  shows "rel_option sim (db_exec (RevertTo i) s) (spec_exec E w cfg (RevertTo i) st)"
proof -
  let ?rs = "validRevisions s"
  have sorted: "sorted_wrt (<) (map rev_id ?rs)" and ok: "j.snaps_ok s (revs s) (saved st)"
    using sim by (auto simp: sim_def)
  have ids: "map fst (saved st) = map rev_id ?rs"
    using ok by (simp add: j.snaps_ok_def map_fst_revs)
  define idx where "idx = sort_Search (length ?rs) (\<lambda>l. rev_id (?rs ! l) \<ge> i)"
  note srch = search_id [OF sorted idx_def]
  show ?thesis
  proof (cases "i \<in> rev_id ` set ?rs")
    case True
    note k = srch(1) [OF True]
    have "idx < length (saved st)" "fst (saved st ! idx) = i"
      using k ids by (metis length_map) (metis k ids length_map nth_map)
    moreover have "distinct (map fst (saved st))"
      unfolding ids using sorted by (simp add: strict_sorted_iff)
    ultimately show ?thesis
      using sim_revert_found [OF sim _ idx_def] k takeWhile_nth_id [of "saved st" idx i] by simp
  next
    case False
    then have "i \<notin> set (map fst (saved st))" unfolding ids by simp
    then have "map_of (saved st) i = None" by (simp add: map_of_eq_None_iff)
    with srch(2) [OF False] show ?thesis
      by (simp add: RevertToSnapshot_def Let_def flip: idx_def)
  qed
qed

lemma sim_exec: "sim s st \<Longrightarrow> rel_option sim (db_exec c s) (spec_exec E w cfg c st)"
  by (cases c) (blast intro: sim_step sim_snapshot sim_revert)+

lemma sim_run: "sim s st \<Longrightarrow> rel_option sim (db_run cs s) (spec_run E w cfg cs st)"
proof (induction cs arbitrary: s st)
  case (Cons c cs)
  from sim_exec [OF Cons.prems, of c] Cons.IH show ?case
    by (cases rule: option.rel_cases) auto
qed simp

lemma inv_New: "inv_s (New w E cfg)"
  by (simp add: db_inv_def unwinding_def New_def newJournal_def objs_ok_def counts_ok_def
      dirtied_by_def wf_newAccessList)

lemma abs_New: "abs_s (New w E cfg) = current (spec_init E w)"
  by (simp add: abs_db_def New_def spec_init_def)

lemma sim_New: "sim (New w E cfg) (spec_init E w)"
  using inv_New abs_New by (simp add: sim_def New_def spec_init_def revs_def)

text \<open>The main result: a run of the database is a run of the specification.\<close>

lemma run_refines_spec:
  "map_option (\<lambda>s. (abs_s s, map rev_id (validRevisions s), nextRevisionID s)) (db_run cs (New w E cfg)) =
   map_option (\<lambda>st. (current st, map fst (saved st), next_id st)) (spec_run E w cfg cs (spec_init E w))"
  using sim_run [OF sim_New, of cs]
  by (cases rule: option.rel_cases) (auto simp: sim_def j.snaps_ok_def map_fst_revs)

lemma run_inv: "db_run cs (New w E cfg) = Some s \<Longrightarrow> inv_s s"
  using sim_run [OF sim_New, of cs] by (cases rule: option.rel_cases) (auto simp: sim_def)

text \<open>
  As long as a snapshot stays valid, reverting to it gives back the state it was taken in,
  whatever ran in between (operations, further snapshots, reverts to either).
\<close>

lemma map_of_takeWhile_keep:
  assumes "distinct (map fst xs)" "map_of (takeWhile P xs) i = Some v"
  shows "map_of xs i = Some v"
  using assms by (meson map_of_SomeD map_of_is_SomeI set_takeWhileD)

lemma map_of_snoc_other: "i \<noteq> j \<Longrightarrow> map_of (xs @ [(j, v)]) i = map_of xs i"
  by (induction xs) auto

lemma spec_exec_saved:
  assumes "spec_exec E w cfg c st = Some st'" "i < next_id st" "map_of (saved st') i = Some A"
    "distinct (map fst (saved st))"
  shows "map_of (saved st) i = Some A \<and> next_id st \<le> next_id st' \<and> i < next_id st'"
proof (cases c)
  case (Do x1)
  with assms show ?thesis by (auto split: option.splits bind_splits)
next
  case TakeSnapshot
  with assms have "st' = st\<lparr>saved := saved st @ [(next_id st, current st)], next_id := next_id st + 1\<rparr>"
    by simp
  with assms have "map_of (saved st @ [(next_id st, current st)]) i = Some A"
    "next_id st' = next_id st + 1" by simp_all
  with assms(2) show ?thesis by (simp only: map_of_snoc_other [of i "next_id st"]) simp
next
  case (RevertTo k)
  with assms(1) have "saved st' = takeWhile (\<lambda>(j, _). j \<noteq> k) (saved st)" "next_id st' = next_id st"
    by (auto split: option.splits)
  with assms show ?thesis by (simp add: map_of_takeWhile_keep)
qed

lemma sim_saved_distinct: "sim s st \<Longrightarrow> distinct (map fst (saved st))"
  by (simp add: sim_def j.snaps_ok_def map_fst_revs strict_sorted_iff)

lemma sim_run_saved:
  assumes "sim s st" "db_run cs s = Some s'" "spec_run E w cfg cs st = Some st'"
    "i < next_id st" "map_of (saved st') i = Some A"
  shows "map_of (saved st) i = Some A"
  using assms
proof (induction cs arbitrary: s st)
  case (Cons c cs)
  from Cons.prems obtain s1 st1 where 1: "db_exec c s = Some s1" "db_run cs s1 = Some s'"
    "spec_exec E w cfg c st = Some st1" "spec_run E w cfg cs st1 = Some st'"
    by (auto split: bind_splits)
  have "sim s1 st1" using sim_exec [OF Cons.prems(1), of c] 1 by simp
  moreover have "next_id st \<le> next_id st1"
    using 1(3) by (cases c) (auto split: option.splits)
  ultimately have "map_of (saved st1) i = Some A"
    using Cons.IH [of s1 st1] 1 Cons.prems by simp
  with spec_exec_saved [OF 1(3)] Cons.prems sim_saved_distinct [OF Cons.prems(1)]
  show ?case by blast
qed simp

lemma snapshot_restores:
  assumes run: "db_run cs0 (New w E cfg) = Some s" and snap: "Snapshot s = (i, s1)"
    and cs: "db_run cs s1 = Some s2" and valid: "i \<in> rev_id ` set (validRevisions s2)"
  shows "\<exists>t. RevertToSnapshot s2 i = Some t \<and> abs_s t = abs_s s"
proof -
  obtain st where st: "sim s st" using sim_run [OF sim_New, of cs0] run
    by (cases rule: option.rel_cases) auto
  obtain st1 where st1: "sim s1 st1" "spec_exec E w cfg TakeSnapshot st = Some st1"
    using sim_snapshot [OF st] snap by auto
  obtain st2 where st2: "sim s2 st2" "spec_run E w cfg cs st1 = Some st2"
    using sim_run [OF st1(1), of cs] cs by (auto simp: option_rel_Some1)
  have i: "i = next_id st" using snap st by (auto simp: Snapshot_def Let_def sim_def)
  have "i \<in> set (map fst (saved st2))"
    using valid st2(1) by (simp add: sim_def j.snaps_ok_def map_fst_revs)
  then obtain A where A: "map_of (saved st2) i = Some A"
    by (metis map_of_eq_None_iff not_None_eq set_map)
  have "map_of (saved st1) i = Some A"
    using sim_run_saved [OF st1(1) cs st2(2) _ A] st1(2) i by auto
  moreover have "map_of (saved st1) i = Some (abs_s s)"
    using st1 i st sim_saved_distinct [OF st1(1)] by (auto simp: sim_def intro: map_of_is_SomeI)
  ultimately have "map_of (saved st2) i = Some (abs_s s)" using A by simp
  with sim_revert [OF st2(1), of i] show ?thesis
    by (auto simp: option_rel_Some2 sim_def)
qed

subsection \<open>Queries answer from the abstract state\<close>

lemma queries_correct:
  assumes inv: "inv_s s"
  shows "fst (Exist s a) = (a_accts (abs_s s) a \<noteq> None)"
    "fst (GetBalance s a) = (case a_accts (abs_s s) a of None \<Rightarrow> 0 | Some ob \<Rightarrow> a_balance ob)"
    "fst (GetNonce s a) = (case a_accts (abs_s s) a of None \<Rightarrow> 0 | Some ob \<Rightarrow> a_nonce ob)"
    "fst (GetCode s a) = (case a_accts (abs_s s) a of None \<Rightarrow> None | Some ob \<Rightarrow> a_code ob)"
    "fst (GetState s a k) = (case a_accts (abs_s s) a of None \<Rightarrow> 0 | Some ob \<Rightarrow> a_storage ob k)"
    "fst (GetCommittedState s a k) =
      (case a_accts (abs_s s) a of None \<Rightarrow> 0 | Some ob \<Rightarrow> kGetState E w a k)"
    "fst (HasSuicided s a) = (case a_accts (abs_s s) a of None \<Rightarrow> False | Some ob \<Rightarrow> a_suicided ob)"
proof -
  obtain r s1 where get: "getStateObject s a = (r, s1)" by (cases "getStateObject s a")
  have E: "keeper s = E" "ctx s = w" using keeper_inv [OF inv] by auto
  have r: "map_option (obj_view E w) r = a_accts (abs_s s) a"
    "\<And>ob. r = Some ob \<Longrightarrow> so_address ob = a \<and> wf_obj E w ob"
    using get getStateObject_missing [OF inv] getStateObject_found [OF inv] by (cases r; auto)+
  show "fst (Exist s a) = (a_accts (abs_s s) a \<noteq> None)"
    "fst (GetBalance s a) = (case a_accts (abs_s s) a of None \<Rightarrow> 0 | Some ob \<Rightarrow> a_balance ob)"
    "fst (GetNonce s a) = (case a_accts (abs_s s) a of None \<Rightarrow> 0 | Some ob \<Rightarrow> a_nonce ob)"
    "fst (HasSuicided s a) = (case a_accts (abs_s s) a of None \<Rightarrow> False | Some ob \<Rightarrow> a_suicided ob)"
    using get by (auto simp: Exist_def GetBalance_def GetNonce_def HasSuicided_def simp flip: r(1)
        split: option.splits)
  show "fst (GetCode s a) = (case a_accts (abs_s s) a of None \<Rightarrow> None | Some ob \<Rightarrow> a_code ob)"
    using get E Code_correct(1) [of E w] by (auto simp: GetCode_def split_beta simp flip: r(1)
        split: option.splits)
  show "fst (GetState s a k) = (case a_accts (abs_s s) a of None \<Rightarrow> 0 | Some ob \<Rightarrow> a_storage ob k)"
    "fst (GetCommittedState s a k) =
      (case a_accts (abs_s s) a of None \<Rightarrow> 0 | Some ob \<Rightarrow> kGetState E w a k)"
    using get E r(2) by (auto simp: GetState_def GetCommittedState_def split_beta
        obj_GetState_correct obj_GetCommittedState_correct simp flip: r(1) split: option.splits)
qed

end

end
