(* ===== verification/Eth_Types.thy ===== *)
theory Eth_Types
  imports Prelude
begin

text \<open>
  The shared types of the chain, package \<open>types\<close>: the gas meter that Ethereum transactions
  run under, the checked conversions between integer widths, the block gas limit, and the
  chain identifier \<open>name_number-epoch\<close>, whose number is the EIP-155 chain ID.
\<close>

subsection \<open>The infinite gas meter with a limit\<close>

record infiniteGasMeterWithLimit =
  consumed :: uint64
  limit :: uint64

definition NewInfiniteGasMeterWithLimit :: "uint64 \<Rightarrow> infiniteGasMeterWithLimit" where
  "NewInfiniteGasMeterWithLimit l = \<lparr>consumed = 0, limit = l\<rparr>"

definition GasConsumed :: "infiniteGasMeterWithLimit \<Rightarrow> uint64" where
  "GasConsumed g = consumed g"

definition GasConsumedToLimit :: "infiniteGasMeterWithLimit \<Rightarrow> uint64" where
  "GasConsumedToLimit g = consumed g"

definition Limit :: "infiniteGasMeterWithLimit \<Rightarrow> uint64" where
  "Limit g = limit g"

definition addUint64Overflow :: "uint64 \<Rightarrow> uint64 \<Rightarrow> uint64 \<times> bool" where
  "addUint64Overflow a b = (if - 1 - a < b then (0, True) else (a + b, False))"

definition ConsumeGas :: "infiniteGasMeterWithLimit \<Rightarrow> uint64 \<Rightarrow> infiniteGasMeterWithLimit option" where
  "ConsumeGas g amount =
     (let (c, overflow) = addUint64Overflow (consumed g) amount
      in if overflow then None else Some (g\<lparr>consumed := c\<rparr>))"

definition meter_RefundGas :: "infiniteGasMeterWithLimit \<Rightarrow> uint64 \<Rightarrow> infiniteGasMeterWithLimit option" where
  "meter_RefundGas g amount =
     (if consumed g < amount then None else Some (g\<lparr>consumed := consumed g - amount\<rparr>))"

definition IsPastLimit :: "infiniteGasMeterWithLimit \<Rightarrow> bool" where
  "IsPastLimit g = False"

definition IsOutOfGas :: "infiniteGasMeterWithLimit \<Rightarrow> bool" where
  "IsOutOfGas g = False"

definition GasRemaining :: "infiniteGasMeterWithLimit \<Rightarrow> uint64" where
  "GasRemaining g = - 1"

lemma unat_max_minus: "unat (- 1 - (a :: uint64)) = 18446744073709551615 - unat a"
proof -
  have "a \<le> - 1" by simp
  then have "unat (- 1 - a) = unat (- 1 :: uint64) - unat a" by (rule unat_sub)
  moreover have "unat (- 1 :: uint64) = 18446744073709551615" by (simp add: unat_eq_nat_uint uint_word_ariths)
  ultimately show ?thesis by simp
qed

lemma add_overflow_iff: "- 1 - (a :: uint64) < b \<longleftrightarrow> 2 ^ 64 \<le> unat a + unat b"
  using unat_less_pow [of a] by (simp add: word_less_nat_alt unat_max_minus) arith

lemma addUint64Overflow_correct:
  "addUint64Overflow a b =
     (if unat a + unat b < 2 ^ 64 then (word_of_nat (unat a + unat b), False) else (0, True))"
  by (simp add: addUint64Overflow_def add_overflow_iff not_less)

lemma ConsumeGas_Some_iff:
  "ConsumeGas g amount = Some g' \<longleftrightarrow>
     unat (consumed g) + unat amount < 2 ^ 64 \<and> g' = g\<lparr>consumed := consumed g + amount\<rparr>"
  by (auto simp: ConsumeGas_def addUint64Overflow_correct)

lemma meter_RefundGas_Some_iff:
  "meter_RefundGas g amount = Some g' \<longleftrightarrow>
     unat amount \<le> unat (consumed g) \<and> g' = g\<lparr>consumed := consumed g - amount\<rparr>"
  by (auto simp: meter_RefundGas_def word_less_nat_alt not_less)

lemma unat_add_noverflow: "unat a + unat b < 2 ^ 64 \<Longrightarrow> unat (a + b :: uint64) = unat a + unat b"
  by (simp add: unat_word_ariths)

text \<open>A refund of what was consumed gives the meter back.\<close>

lemma refund_after_consume:
  "ConsumeGas g amount = Some g' \<Longrightarrow> meter_RefundGas g' amount = Some g"
  by (auto simp: ConsumeGas_Some_iff meter_RefundGas_Some_iff unat_add_noverflow)

text \<open>
  Resetting a meter, as \<open>ResetGasMeterAndConsumeGas\<close> does: refunding all that was consumed and
  consuming an amount never panics.
\<close>

lemma reset_meter:
  "Option.bind (meter_RefundGas g (GasConsumed g)) (\<lambda>g1. ConsumeGas g1 amount) =
     Some (g\<lparr>consumed := amount\<rparr>)"
  using unat_less_pow [of amount]
  by (simp add: meter_RefundGas_def GasConsumed_def ConsumeGas_def addUint64Overflow_correct)

subsection \<open>Checked conversions\<close>

definition SafeInt64 :: "uint64 \<Rightarrow> (string, int) outcome" where
  "SafeInt64 value =
     (if uint value > max_int64 then Err ''uint64 value cannot exceed MaxInt64'' else Ok (uint value))"

text \<open>\<open>BitLen\<close> of the package \<open>math/big\<close>: the length of the absolute value in bits.\<close>

function BitLen_nat :: "nat \<Rightarrow> nat" where
  "BitLen_nat n = (if n = 0 then 0 else Suc (BitLen_nat (n div 2)))"
  by auto
termination by (relation "measure id") auto

declare BitLen_nat.simps [simp del]

definition BitLen :: "int \<Rightarrow> nat" where
  "BitLen i = BitLen_nat (nat \<bar>i\<bar>)"

definition IsValidInt256 :: "int option \<Rightarrow> bool" where
  "IsValidInt256 i = (case i of None \<Rightarrow> True | Some v \<Rightarrow> BitLen v \<le> 256)"

text \<open>
  \<open>sdkmath.NewIntFromBigInt\<close> is a parameter, \<^const>\<open>None\<close> standing for its panic on a value of
  more than 256 bits.
\<close>

definition SafeNewIntFromBigInt :: "(int \<Rightarrow> int option) \<Rightarrow> int \<Rightarrow> (string, int) outcome" where
  "SafeNewIntFromBigInt newInt i =
     (if \<not> IsValidInt256 (Some i) then Err ''big int out of bound''
      else case newInt i of None \<Rightarrow> Panic | Some v \<Rightarrow> Ok v)"

lemma BitLen_nat_le_iff: "BitLen_nat n \<le> k \<longleftrightarrow> n < 2 ^ k"
proof (induction n arbitrary: k rule: BitLen_nat.induct)
  case (1 n)
  show ?case
  proof (cases "n = 0")
    case False
    note IH = "1.IH" [OF False]
    show ?thesis
    proof (cases k)
      case 0
      with False show ?thesis by (simp add: BitLen_nat.simps [of n])
    next
      case (Suc k')
      have "n div 2 < 2 ^ k' \<longleftrightarrow> n < 2 ^ k" by (simp add: Suc less_mult_imp_div_less) arith
      with IH [of k'] False Suc show ?thesis by (simp add: BitLen_nat.simps [of n])
    qed
  qed (simp add: BitLen_nat.simps)
qed

lemma IsValidInt256_iff: "IsValidInt256 (Some v) \<longleftrightarrow> \<bar>v\<bar> < 2 ^ 256"
proof -
  have "nat \<bar>v\<bar> < 2 ^ 256 \<longleftrightarrow> \<bar>v\<bar> < 2 ^ 256" by (simp add: nat_less_iff)
  then show ?thesis by (simp only: IsValidInt256_def BitLen_def BitLen_nat_le_iff option.case)
qed

lemma SafeInt64_Ok_iff: "SafeInt64 v = Ok i \<longleftrightarrow> i = uint v \<and> uint v \<le> max_int64"
  by (auto simp: SafeInt64_def)

subsection \<open>The block gas limit\<close>

text \<open>
  The block gas meter's limit (\<^const>\<open>None\<close>: no meter) and the \<open>MaxGas\<close> of the consensus
  parameters (\<^const>\<open>None\<close>: nil, or nil block parameters).
\<close>

definition BlockGasLimit :: "uint64 option \<Rightarrow> int option \<Rightarrow> uint64" where
  "BlockGasLimit meterLimit maxGas =
     (case meterLimit of
        Some l \<Rightarrow> if l \<noteq> 0 then l else
          (case maxGas of None \<Rightarrow> 0 | Some g \<Rightarrow> if g = -1 then - 1 else if g > 0 then word_of_int g else 0)
      | None \<Rightarrow>
          (case maxGas of None \<Rightarrow> 0 | Some g \<Rightarrow> if g = -1 then - 1 else if g > 0 then word_of_int g else 0))"

lemma BlockGasLimit_params:
  assumes "meterLimit = None \<or> meterLimit = Some 0" "0 < g" "g \<le> max_int64"
  shows "uint (BlockGasLimit meterLimit (Some g)) = g"
  using assms by (auto simp: BlockGasLimit_def uint_word_of_int)

subsection \<open>Chain identifiers\<close>

text \<open>
  The regular expression \<open>^([a-z]{1,})_{1}([1-9][0-9]*)-{1}([1-9][0-9]*)$\<close>. The three classes
  exclude the separators behind them, so a match is unique and is found by splitting off the
  longest run of each class. The result is the second group, the EIP-155 number.
\<close>

definition is_lower :: "char \<Rightarrow> bool" where
  "is_lower c = (97 \<le> (of_char c :: nat) \<and> (of_char c :: nat) \<le> 122)"

definition is_digit :: "char \<Rightarrow> bool" where
  "is_digit c = (48 \<le> (of_char c :: nat) \<and> (of_char c :: nat) \<le> 57)"

fun is_number :: "string \<Rightarrow> bool" where
  "is_number [] = False"
| "is_number (c # cs) = (is_digit c \<and> c \<noteq> CHR ''0'' \<and> list_all is_digit cs)"

definition match_chainID :: "string \<Rightarrow> (string \<times> string \<times> string) option" where
  "match_chainID s =
     (let name = takeWhile is_lower s; r1 = dropWhile is_lower s
      in case r1 of
           [] \<Rightarrow> None
         | c # r1' \<Rightarrow>
             if name = [] \<or> c \<noteq> CHR ''_'' then None
             else let num = takeWhile is_digit r1'; r2 = dropWhile is_digit r1'
                  in case r2 of
                       [] \<Rightarrow> None
                     | d # epoch \<Rightarrow>
                         if d = CHR ''-'' \<and> is_number num \<and> is_number epoch
                         then Some (name, num, epoch) else None)"

definition IsValidChainID :: "string \<Rightarrow> bool" where
  "IsValidChainID chainID = (length chainID \<le> 48 \<and> match_chainID chainID \<noteq> None)"

text \<open>\<open>strings.TrimSpace\<close> on ASCII text, and \<open>big.Int.SetString\<close> of decimal digits.\<close>

definition is_space :: "char \<Rightarrow> bool" where
  "is_space c = ((of_char c :: nat) \<in> {9, 10, 11, 12, 13, 32})"

definition TrimSpace :: "string \<Rightarrow> string" where
  "TrimSpace s = rev (dropWhile is_space (rev (dropWhile is_space s)))"

definition decimal :: "string \<Rightarrow> int" where
  "decimal s = foldl (\<lambda>a c. a * 10 + (of_char c - 48)) 0 s"

definition ParseChainID :: "string \<Rightarrow> (string, int) outcome" where
  "ParseChainID s =
     (let chainID = TrimSpace s
      in if length chainID > 48 then Err ''chain-id cannot exceed 48 chars''
         else case match_chainID chainID of
                None \<Rightarrow> Err ''invalid chain ID''
              | Some (_, num, _) \<Rightarrow> Ok (decimal num))"

lemma takeWhile_run: "list_all P xs \<Longrightarrow> \<not> P y \<Longrightarrow> takeWhile P (xs @ y # ys) = xs"
  by (induction xs) auto

lemma dropWhile_run: "list_all P xs \<Longrightarrow> \<not> P y \<Longrightarrow> dropWhile P (xs @ y # ys) = y # ys"
  by (induction xs) auto

lemma list_all_takeWhile: "list_all P (takeWhile P xs)"
  by (induction xs) auto

lemma is_number_digits: "is_number s \<Longrightarrow> list_all is_digit s"
  by (cases s) auto

lemma chars_classes [simp]:
  "\<not> is_lower CHR ''_''" "\<not> is_digit CHR ''-''" "\<not> is_space CHR ''_''"
  by (simp_all add: is_lower_def is_digit_def is_space_def)

lemma match_chainID_iff:
  "match_chainID s = Some (name, num, epoch) \<longleftrightarrow>
     name \<noteq> [] \<and> list_all is_lower name \<and> is_number num \<and> is_number epoch \<and>
     s = name @ CHR ''_'' # num @ CHR ''-'' # epoch"
proof
  assume m: "match_chainID s = Some (name, num, epoch)"
  then obtain r1' where r1: "dropWhile is_lower s = CHR ''_'' # r1'" "name = takeWhile is_lower s" "name \<noteq> []"
    by (auto simp: match_chainID_def Let_def split: list.splits if_splits)
  then have r2: "dropWhile is_digit r1' = CHR ''-'' # epoch" "num = takeWhile is_digit r1'"
    "is_number num" "is_number epoch"
    using m by (auto simp: match_chainID_def Let_def split: list.splits if_splits)
  have "s = name @ dropWhile is_lower s" "r1' = num @ dropWhile is_digit r1'"
    unfolding r1(2) r2(2) by (simp_all only: takeWhile_dropWhile_id)
  then have "s = name @ CHR ''_'' # num @ CHR ''-'' # epoch" using r1 r2 by simp
  then show "name \<noteq> [] \<and> list_all is_lower name \<and> is_number num \<and> is_number epoch \<and>
     s = name @ CHR ''_'' # num @ CHR ''-'' # epoch"
    using r1(2,3) r2(3,4) list_all_takeWhile [of is_lower s] by auto
next
  assume "name \<noteq> [] \<and> list_all is_lower name \<and> is_number num \<and> is_number epoch \<and>
     s = name @ CHR ''_'' # num @ CHR ''-'' # epoch"
  then show "match_chainID s = Some (name, num, epoch)"
    by (simp add: match_chainID_def Let_def takeWhile_run dropWhile_run is_number_digits)
qed

lemma lower_not_space: "is_lower c \<Longrightarrow> \<not> is_space c"
  by (auto simp: is_lower_def is_space_def)

lemma digit_not_space: "is_digit c \<Longrightarrow> \<not> is_space c"
  by (auto simp: is_digit_def is_space_def)

lemma TrimSpace_id: "s \<noteq> [] \<Longrightarrow> \<not> is_space (hd s) \<Longrightarrow> \<not> is_space (last s) \<Longrightarrow> TrimSpace s = s"
  unfolding TrimSpace_def by (metis dropWhile_eq_self_iff hd_rev rev_rev_ident)

lemma match_trimmed:
  assumes "match_chainID s = Some (name, num, epoch)"
  shows "TrimSpace s = s"
proof (rule TrimSpace_id)
  from assms have s: "name \<noteq> []" "list_all is_lower name" "is_number epoch"
    "s = name @ CHR ''_'' # num @ CHR ''-'' # epoch" by (auto simp: match_chainID_iff)
  then show "s \<noteq> []" by simp
  show "\<not> is_space (hd s)" using s by (cases name) (auto dest: lower_not_space)
  from s have "list_all is_digit epoch" "epoch \<noteq> []" by (auto dest: is_number_digits)
  then have "is_digit (last epoch)" by (auto simp: list_all_iff)
  then show "\<not> is_space (last s)" using s \<open>epoch \<noteq> []\<close> by (auto dest: digit_not_space)
qed

end
