(* ===== verification/Evm_Keeper.thy ===== *)
theory Evm_Keeper
  imports State_DB_Refines Eth_Types
begin

text \<open>
  The keeper of the EVM module, \<open>x/evm/keeper\<close>: accounts, balances, code and storage over the
  module's key-value store (\<open>statedb.go\<close>), the module parameters, and the counters of the
  current block in the transient store (\<open>keeper.go\<close>). It implements the interface the state
  database runs on. What belongs to the Cosmos SDK (the account and bank keepers, coins, the
  codec) is a parameter, the record \<open>sdk\<close>.
\<close>

subsection \<open>The context and the modules called\<close>

type_synonym kvstore = "(bytes, bytes) fmap"
type_synonym coins = "(string \<times> int) list"

text \<open>
  The parameters of the module; \<open>ChainConfig\<close> is a type variable, the fork rules it
  holds are read through the functions that use them.
\<close>

record 'cc Params =
  EvmDenom :: string
  EnableCreate :: bool
  EnableCall :: bool
  ExtraEIPs :: "int list"
  ChainConfig :: 'cc
  AllowUnprotectedTxs :: bool
  ActivePrecompiles :: "string list"

text \<open>
  An account of the auth module: \<open>EthAccount\<close> of \<open>types/account.go\<close> embeds a base account
  \<open>'b\<close> and holds the code hash; any other account type is not an \<open>EthAccountI\<close>.
\<close>

datatype 'b AccountI = EthAccount 'b Hash | OtherAccount 'b

fun base_of :: "'b AccountI \<Rightarrow> 'b" where
  "base_of (EthAccount b h) = b"
| "base_of (OtherAccount b) = b"

text \<open>
  \<open>'r\<close> is the state of the other modules. Addresses of the SDK are byte slices. Where a Go call
  returns an error and changes the stores, the field returns an outcome. The field \<open>NewCoins\<close>
  is \<open>sdk.NewCoins(sdk.NewCoin(denom, sdkmath.NewIntFromBigInt(amount)))\<close>, which panics on an
  amount out of range.
\<close>

record ('b, 'r, 'cc) sdk =
  akGetAccount :: "'r \<Rightarrow> bytes \<Rightarrow> 'b AccountI option"
  akNewAccountWithAddress :: "'r \<Rightarrow> bytes \<Rightarrow> 'b AccountI \<times> 'r"
  akSetAccount :: "'r \<Rightarrow> 'b AccountI \<Rightarrow> 'r"
  akRemoveAccount :: "'r \<Rightarrow> 'b AccountI \<Rightarrow> 'r"
  GetSequence :: "'b \<Rightarrow> uint64"
  SetSequence :: "'b \<Rightarrow> uint64 \<Rightarrow> (string, 'b) outcome"
  bkGetBalance :: "'r \<Rightarrow> bytes \<Rightarrow> string \<Rightarrow> int"
  bkMintCoins :: "'r \<Rightarrow> string \<Rightarrow> coins \<Rightarrow> (string, 'r) outcome"
  bkBurnCoins :: "'r \<Rightarrow> string \<Rightarrow> coins \<Rightarrow> (string, 'r) outcome"
  bkSendCoinsFromModuleToAccount :: "'r \<Rightarrow> string \<Rightarrow> bytes \<Rightarrow> coins \<Rightarrow> (string, 'r) outcome"
  bkSendCoinsFromAccountToModule :: "'r \<Rightarrow> bytes \<Rightarrow> string \<Rightarrow> coins \<Rightarrow> (string, 'r) outcome"
  NewCoins :: "string \<Rightarrow> int \<Rightarrow> (string, coins) outcome"
  MustUnmarshalParams :: "bytes \<Rightarrow> 'cc Params"
  MarshalParams :: "'cc Params \<Rightarrow> (string, bytes) outcome"
  ssGetParamSetIfExists :: "'r \<Rightarrow> 'cc Params"
  cryptoKeccak256Hash :: "bytes \<Rightarrow> Hash"

record 'r Ctx =
  kvStore :: kvstore
  transientStore :: kvstore
  modules :: 'r
  BlockHeight :: int
  HeaderHash :: bytes
  ChainIDString :: string
  GasMeter :: infiniteGasMeterWithLimit
  BlockGasMeter :: "(uint64 \<times> uint64) option" \<comment> \<open>limit and gas consumed\<close>

subsection \<open>Keys of the stores\<close>

definition KeyPrefixCode :: bytes where "KeyPrefixCode = [1]"
definition KeyPrefixStorage :: bytes where "KeyPrefixStorage = [2]"
definition KeyPrefixParams :: bytes where "KeyPrefixParams = [3]"
definition KeyPrefixTransientBloom :: bytes where "KeyPrefixTransientBloom = [1]"
definition KeyPrefixTransientTxIndex :: bytes where "KeyPrefixTransientTxIndex = [2]"
definition KeyPrefixTransientLogSize :: bytes where "KeyPrefixTransientLogSize = [3]"
definition KeyPrefixTransientGasUsed :: bytes where "KeyPrefixTransientGasUsed = [4]"

lemmas store_keys = KeyPrefixCode_def KeyPrefixStorage_def KeyPrefixParams_def
  KeyPrefixTransientBloom_def KeyPrefixTransientTxIndex_def KeyPrefixTransientLogSize_def
  KeyPrefixTransientGasUsed_def

definition AddressStoragePrefix :: "Address \<Rightarrow> bytes" where
  "AddressStoragePrefix address = KeyPrefixStorage @ AddressBytes address"

definition StateKey :: "Address \<Rightarrow> bytes \<Rightarrow> bytes" where
  "StateKey address key = AddressStoragePrefix address @ key"

text \<open>
  Reading a key gives nil when it is absent. A prefix store puts its prefix before the key. An
  iterator over a prefix runs through the keys with that prefix in ascending order.
\<close>

definition store_Get :: "kvstore \<Rightarrow> bytes \<Rightarrow> bytes" where
  "store_Get st key = (case fmlookup st key of None \<Rightarrow> [] | Some v \<Rightarrow> v)"

definition KVStorePrefixIterator :: "kvstore \<Rightarrow> bytes \<Rightarrow> (bytes \<times> bytes) list" where
  "KVStorePrefixIterator st pre =
     map (\<lambda>k. (k, store_Get st k)) (filter (\<lambda>k. take (length pre) k = pre) (fm_keys st))"

subsection \<open>Parameters\<close>

definition GetLegacyParams :: "('b, 'r, 'cc) sdk \<Rightarrow> 'r Ctx \<Rightarrow> 'cc Params" where
  "GetLegacyParams D c = ssGetParamSetIfExists D (modules c)"

definition GetParams :: "('b, 'r, 'cc) sdk \<Rightarrow> 'r Ctx \<Rightarrow> 'cc Params" where
  "GetParams D c =
     (let bz = store_Get (kvStore c) KeyPrefixParams
      in if bz = [] then GetLegacyParams D c else MustUnmarshalParams D bz)"

text \<open>\<open>Validate\<close>, with the checks of the SDK and go-ethereum it calls as arguments.\<close>

fun validateEIPs :: "(int \<Rightarrow> bool) \<Rightarrow> int list \<Rightarrow> (string, unit) outcome" where
  "validateEIPs ValidEip [] = Ok ()"
| "validateEIPs ValidEip (eip # eips) =
     (if \<not> ValidEip eip then Err ''EIP is not activateable'' else validateEIPs ValidEip eips)"

fun validatePrecompiles_loop :: "(string \<Rightarrow> bool) \<Rightarrow> string list \<Rightarrow> string list \<Rightarrow> (string, unit) outcome" where
  "validatePrecompiles_loop IsHexAddress seen [] = Ok ()"
| "validatePrecompiles_loop IsHexAddress seen (p # ps) =
     (if p \<in> set seen then Err ''duplicate precompile''
      else if \<not> IsHexAddress p then Err ''invalid precompile''
      else validatePrecompiles_loop IsHexAddress (p # seen) ps)"

definition validatePrecompiles :: "(string \<Rightarrow> bool) \<Rightarrow> string list \<Rightarrow> (string, unit) outcome" where
  "validatePrecompiles IsHexAddress ps = validatePrecompiles_loop IsHexAddress [] ps"

record 'cc param_checks =
  ValidateDenom :: "string \<Rightarrow> (string, unit) outcome"
  ValidEip :: "int \<Rightarrow> bool"
  ValidateChainConfig :: "'cc \<Rightarrow> (string, unit) outcome"
  IsHexAddress :: "string \<Rightarrow> bool"

definition Params_Validate :: "'cc param_checks \<Rightarrow> 'cc Params \<Rightarrow> (string, unit) outcome" where
  "Params_Validate C p =
     bind_outcome (ValidateDenom C (EvmDenom p)) (\<lambda>_.
     bind_outcome (validateEIPs (ValidEip C) (ExtraEIPs p)) (\<lambda>_.
     bind_outcome (ValidateChainConfig C (ChainConfig p)) (\<lambda>_.
     validatePrecompiles (IsHexAddress C) (ActivePrecompiles p))))"

definition HasCustomPrecompiles :: "'cc Params \<Rightarrow> bool" where
  "HasCustomPrecompiles p = (length (ActivePrecompiles p) > 0)"

definition SetParams ::
  "('b, 'r, 'cc) sdk \<Rightarrow> 'cc param_checks \<Rightarrow> 'r Ctx \<Rightarrow> 'cc Params \<Rightarrow> (string, 'r Ctx) outcome" where
  "SetParams D C c p =
     bind_outcome (Params_Validate C p) (\<lambda>_.
     bind_outcome (MarshalParams D p) (\<lambda>bz.
     Ok (c\<lparr>kvStore := fmupd KeyPrefixParams bz (kvStore c)\<rparr>)))"

definition UpdateParams ::
  "('b, 'r, 'cc) sdk \<Rightarrow> 'cc param_checks \<Rightarrow> string \<Rightarrow> 'r Ctx \<Rightarrow> string \<Rightarrow> 'cc Params \<Rightarrow>
     (string, 'r Ctx) outcome" where
  "UpdateParams D C authority c reqAuthority p =
     (if authority \<noteq> reqAuthority then Err ''invalid authority'' else SetParams D C c p)"

subsection \<open>Accounts and balances\<close>

definition EmptyCodeHash :: "('b, 'r, 'cc) sdk \<Rightarrow> bytes" where
  "EmptyCodeHash D = HashBytes (cryptoKeccak256Hash D [])"

definition GetAccountWithoutBalance ::
  "('b, 'r, 'cc) sdk \<Rightarrow> 'r Ctx \<Rightarrow> Address \<Rightarrow> Account option" where
  "GetAccountWithoutBalance D c addr =
     (case akGetAccount D (modules c) (AddressBytes addr) of
        None \<Rightarrow> None
      | Some acct \<Rightarrow>
          let codeHash = (case acct of EthAccount _ h \<Rightarrow> HashBytes h | OtherAccount _ \<Rightarrow> EmptyCodeHash D)
          in Some \<lparr>Nonce = GetSequence D (base_of acct), Balance = None, CodeHash = Some codeHash\<rparr>)"

definition keeper_GetBalance :: "('b, 'r, 'cc) sdk \<Rightarrow> 'r Ctx \<Rightarrow> Address \<Rightarrow> int" where
  "keeper_GetBalance D c addr =
     (let evmDenom = EvmDenom (GetParams D c)
      in if evmDenom = [] then - 1 else bkGetBalance D (modules c) (AddressBytes addr) evmDenom)"

definition keeper_GetAccount :: "('b, 'r, 'cc) sdk \<Rightarrow> 'r Ctx \<Rightarrow> Address \<Rightarrow> Account option" where
  "keeper_GetAccount D c addr =
     (case GetAccountWithoutBalance D c addr of
        None \<Rightarrow> None
      | Some acct \<Rightarrow> Some (acct\<lparr>Balance := Some (keeper_GetBalance D c addr)\<rparr>))"

definition GetAccountOrEmpty :: "('b, 'r, 'cc) sdk \<Rightarrow> 'r Ctx \<Rightarrow> Address \<Rightarrow> Account" where
  "GetAccountOrEmpty D c addr =
     (case keeper_GetAccount D c addr of
        Some acct \<Rightarrow> acct
      | None \<Rightarrow> \<lparr>Nonce = 0, Balance = Some 0, CodeHash = Some (EmptyCodeHash D)\<rparr>)"

definition keeper_GetNonce :: "('b, 'r, 'cc) sdk \<Rightarrow> 'r Ctx \<Rightarrow> Address \<Rightarrow> uint64" where
  "keeper_GetNonce D c addr =
     (case akGetAccount D (modules c) (AddressBytes addr) of
        None \<Rightarrow> 0 | Some acct \<Rightarrow> GetSequence D (base_of acct))"

text \<open>Go's \<open>ModuleName\<close>.\<close>

abbreviation evm_ModuleName :: string where "evm_ModuleName \<equiv> ''evm''"

text \<open>
  \<open>SetBalance\<close> of a nil amount dereferences a nil pointer; the other arguments mint or burn
  the difference.
\<close>

definition keeper_SetBalance ::
  "('b, 'r, 'cc) sdk \<Rightarrow> 'r Ctx \<Rightarrow> Address \<Rightarrow> int option \<Rightarrow> (string, 'r Ctx) outcome" where
  "keeper_SetBalance D c addr amt =
     (case amt of
        None \<Rightarrow> Panic
      | Some amount \<Rightarrow>
          let cosmosAddr = AddressBytes addr;
              denom = EvmDenom (GetParams D c);
              delta = amount - bkGetBalance D (modules c) cosmosAddr denom
          in if delta > 0 then
               bind_outcome (NewCoins D denom delta) (\<lambda>coins.
               bind_outcome (bkMintCoins D (modules c) evm_ModuleName coins) (\<lambda>r1.
               bind_outcome (bkSendCoinsFromModuleToAccount D r1 evm_ModuleName cosmosAddr coins) (\<lambda>r2.
               Ok (c\<lparr>modules := r2\<rparr>))))
             else if delta < 0 then
               bind_outcome (NewCoins D denom (- delta)) (\<lambda>coins.
               bind_outcome (bkSendCoinsFromAccountToModule D (modules c) cosmosAddr evm_ModuleName coins) (\<lambda>r1.
               bind_outcome (bkBurnCoins D r1 evm_ModuleName coins) (\<lambda>r2.
               Ok (c\<lparr>modules := r2\<rparr>))))
             else Ok c)"

text \<open>\<open>SetCodeHash\<close> of \<open>EthAccount\<close>; on other accounts the type assertion fails and nothing is set.\<close>

fun SetCodeHash :: "'b AccountI \<Rightarrow> Hash \<Rightarrow> 'b AccountI" where
  "SetCodeHash (EthAccount b _) h = EthAccount b h"
| "SetCodeHash (OtherAccount b) h = OtherAccount b"

fun with_base :: "'b AccountI \<Rightarrow> 'b \<Rightarrow> 'b AccountI" where
  "with_base (EthAccount _ h) b = EthAccount b h"
| "with_base (OtherAccount _) b = OtherAccount b"

definition keeper_SetAccount ::
  "('b, 'r, 'cc) sdk \<Rightarrow> 'r Ctx \<Rightarrow> Address \<Rightarrow> Account \<Rightarrow> (string, 'r Ctx) outcome" where
  "keeper_SetAccount D c addr account =
     (let cosmosAddr = AddressBytes addr;
          (acct, r0) = (case akGetAccount D (modules c) cosmosAddr of
             Some acct \<Rightarrow> (acct, modules c)
           | None \<Rightarrow> akNewAccountWithAddress D (modules c) cosmosAddr)
      in bind_outcome (SetSequence D (base_of acct) (Nonce account)) (\<lambda>b.
         let codeHash = BytesToHash (case CodeHash account of None \<Rightarrow> [] | Some h \<Rightarrow> h);
             acct' = SetCodeHash (with_base acct b) codeHash
         in keeper_SetBalance D (c\<lparr>modules := akSetAccount D r0 acct'\<rparr>) addr (Balance account)))"

subsection \<open>Storage and code\<close>

definition keeper_GetState :: "'r Ctx \<Rightarrow> Address \<Rightarrow> Hash \<Rightarrow> Hash" where
  "keeper_GetState c addr key =
     (let value = store_Get (kvStore c) (AddressStoragePrefix addr @ HashBytes key)
      in if length value = 0 then 0 else BytesToHash value)"

text \<open>Go returns nil for absent code; a stored value is never empty (\<open>SetCode\<close> deletes then).\<close>

definition keeper_GetCode :: "'r Ctx \<Rightarrow> Hash \<Rightarrow> bytes option" where
  "keeper_GetCode c codeHash = fmlookup (kvStore c) (KeyPrefixCode @ HashBytes codeHash)"

text \<open>The pairs the callback of \<open>ForEachStorage\<close> is given, in order.\<close>

definition storage_pairs :: "'r Ctx \<Rightarrow> Address \<Rightarrow> (Hash \<times> Hash) list" where
  "storage_pairs c addr =
     map (\<lambda>(k, v). (BytesToHash k, BytesToHash v))
       (KVStorePrefixIterator (kvStore c) (AddressStoragePrefix addr))"

fun each_pair :: "(Hash \<Rightarrow> Hash \<Rightarrow> 's \<Rightarrow> bool \<times> 's) \<Rightarrow> (Hash \<times> Hash) list \<Rightarrow> 's \<Rightarrow> 's" where
  "each_pair cb [] s = s"
| "each_pair cb ((k, v) # rest) s =
     (let (continue, s') = cb k v s in if continue then each_pair cb rest s' else s')"

definition keeper_ForEachStorage ::
  "'r Ctx \<Rightarrow> Address \<Rightarrow> (Hash \<Rightarrow> Hash \<Rightarrow> 's \<Rightarrow> bool \<times> 's) \<Rightarrow> 's \<Rightarrow> 's" where
  "keeper_ForEachStorage c addr cb s = each_pair cb (storage_pairs c addr) s"

definition GetAccountStorage :: "'r Ctx \<Rightarrow> Address \<Rightarrow> (Hash \<times> Hash) list" where
  "GetAccountStorage c addr =
     keeper_ForEachStorage c addr (\<lambda>k v storage. (True, storage @ [(k, v)])) []"

definition keeper_SetState :: "'r Ctx \<Rightarrow> Address \<Rightarrow> Hash \<Rightarrow> bytes \<Rightarrow> 'r Ctx" where
  "keeper_SetState c addr key value =
     (let k = AddressStoragePrefix addr @ HashBytes key
      in if length value = 0 then c\<lparr>kvStore := fmdrop k (kvStore c)\<rparr>
         else c\<lparr>kvStore := fmupd k value (kvStore c)\<rparr>)"

definition keeper_SetCode :: "'r Ctx \<Rightarrow> bytes \<Rightarrow> bytes \<Rightarrow> 'r Ctx" where
  "keeper_SetCode c codeHash code =
     (if length code = 0 then c\<lparr>kvStore := fmdrop (KeyPrefixCode @ codeHash) (kvStore c)\<rparr>
      else c\<lparr>kvStore := fmupd (KeyPrefixCode @ codeHash) code (kvStore c)\<rparr>)"

definition keeper_DeleteAccount ::
  "('b, 'r, 'cc) sdk \<Rightarrow> 'r Ctx \<Rightarrow> Address \<Rightarrow> (string, 'r Ctx) outcome" where
  "keeper_DeleteAccount D c addr =
     (case akGetAccount D (modules c) (AddressBytes addr) of
        None \<Rightarrow> Ok c
      | Some (OtherAccount b) \<Rightarrow> Err ''invalid account type''
      | Some (EthAccount b h) \<Rightarrow>
          bind_outcome (keeper_SetBalance D c addr (Some 0)) (\<lambda>c1.
          let c2 = keeper_ForEachStorage c1 addr
                (\<lambda>key _ s. (True, keeper_SetState s addr key [])) c1
          in Ok (c2\<lparr>modules := akRemoveAccount D (modules c2) (EthAccount b h)\<rparr>)))"

subsection \<open>The interface of the state database, implemented\<close>

definition evm_env :: "('b, 'r, 'cc) sdk \<Rightarrow> 'r Ctx env" where
  "evm_env D =
     \<lparr>kGetAccount = keeper_GetAccount D, kGetState = keeper_GetState, kGetCode = keeper_GetCode,
      kForEachStorage = storage_pairs, kSetAccount = keeper_SetAccount D,
      kSetState = keeper_SetState, kSetCode = keeper_SetCode,
      kDeleteAccount = keeper_DeleteAccount D, Keccak256Hash = cryptoKeccak256Hash D\<rparr>"

lemma evm_env_simps [simp]:
  "kGetAccount (evm_env D) = keeper_GetAccount D"
  "kGetState (evm_env D) = keeper_GetState"
  "kGetCode (evm_env D) = keeper_GetCode"
  "kForEachStorage (evm_env D) = storage_pairs"
  "kSetAccount (evm_env D) = keeper_SetAccount D"
  "kSetState (evm_env D) = keeper_SetState"
  "kSetCode (evm_env D) = keeper_SetCode"
  "kDeleteAccount (evm_env D) = keeper_DeleteAccount D"
  "Keccak256Hash (evm_env D) = cryptoKeccak256Hash D"
  by (simp_all add: evm_env_def)

text \<open>The keeper meets what the state database relies on, whatever the other modules do.\<close>

interpretation evm: statedb_env "evm_env D" c cfg for D c cfg
  by unfold_locales
    (auto simp: keeper_GetAccount_def GetAccountWithoutBalance_def EmptyCodeHash_def Let_def
      split: option.splits AccountI.splits)

subsection \<open>The transient store: counters of the current block\<close>

text \<open>
  \<open>big.Int.Bytes\<close> is the shortest big-endian representation of the absolute value, and
  \<open>SetBytes\<close> reads one.
\<close>

function big_bytes :: "nat \<Rightarrow> bytes" where
  "big_bytes n = (if n = 0 then [] else big_bytes (n div 256) @ [word_of_nat (n mod 256)])"
  by auto
termination by (relation "measure id") auto

declare big_bytes.simps [simp del]

definition big_Bytes :: "int \<Rightarrow> bytes" where
  "big_Bytes x = big_bytes (nat \<bar>x\<bar>)"

definition SetBytes :: "bytes \<Rightarrow> int" where
  "SetBytes bz = int (be_nat bz)"

lemma be_nat_big_bytes: "be_nat (big_bytes n) = n"
proof (induction n rule: big_bytes.induct)
  case (1 n)
  have "unat (word_of_nat (n mod 256) :: byte) = n mod 256"
    using unat_of_nat [where ?'a = 8, of "n mod 256"] by (simp del: unat_of_nat)
  with 1 show ?case
    by (cases "n = 0") (simp_all add: big_bytes.simps [of n] be_nat_snoc, simp add: be_nat_def big_bytes.simps)
qed

lemma SetBytes_big_Bytes [simp]: "SetBytes (big_Bytes x) = \<bar>x\<bar>"
  by (simp add: SetBytes_def big_Bytes_def be_nat_big_bytes)

definition bloom_key :: "'r Ctx \<Rightarrow> bytes" where
  "bloom_key c = KeyPrefixTransientBloom @ Uint64ToBigEndian (word_of_int (BlockHeight c))"

definition GetBlockBloomTransient :: "'r Ctx \<Rightarrow> int" where
  "GetBlockBloomTransient c =
     (let bz = store_Get (transientStore c) (bloom_key c)
      in if length bz = 0 then 0 else SetBytes bz)"

definition SetBlockBloomTransient :: "'r Ctx \<Rightarrow> int \<Rightarrow> 'r Ctx" where
  "SetBlockBloomTransient c bloom =
     c\<lparr>transientStore := fmupd (bloom_key c) (big_Bytes bloom) (transientStore c)\<rparr>"

definition get_counter :: "'r Ctx \<Rightarrow> bytes \<Rightarrow> uint64" where
  "get_counter c key =
     (let bz = store_Get (transientStore c) key
      in if length bz = 0 then 0 else BigEndianToUint64 bz)"

definition set_counter :: "'r Ctx \<Rightarrow> bytes \<Rightarrow> uint64 \<Rightarrow> 'r Ctx" where
  "set_counter c key n = c\<lparr>transientStore := fmupd key (Uint64ToBigEndian n) (transientStore c)\<rparr>"

definition SetTxIndexTransient :: "'r Ctx \<Rightarrow> uint64 \<Rightarrow> 'r Ctx" where
  "SetTxIndexTransient c index = set_counter c KeyPrefixTransientTxIndex index"

definition GetTxIndexTransient :: "'r Ctx \<Rightarrow> uint64" where
  "GetTxIndexTransient c = get_counter c KeyPrefixTransientTxIndex"

definition GetLogSizeTransient :: "'r Ctx \<Rightarrow> uint64" where
  "GetLogSizeTransient c = get_counter c KeyPrefixTransientLogSize"

definition SetLogSizeTransient :: "'r Ctx \<Rightarrow> uint64 \<Rightarrow> 'r Ctx" where
  "SetLogSizeTransient c logSize = set_counter c KeyPrefixTransientLogSize logSize"

definition ResetTransientGasUsed :: "'r Ctx \<Rightarrow> 'r Ctx" where
  "ResetTransientGasUsed c =
     c\<lparr>transientStore := fmdrop KeyPrefixTransientGasUsed (transientStore c)\<rparr>"

definition GetTransientGasUsed :: "'r Ctx \<Rightarrow> uint64" where
  "GetTransientGasUsed c = get_counter c KeyPrefixTransientGasUsed"

definition SetTransientGasUsed :: "'r Ctx \<Rightarrow> uint64 \<Rightarrow> 'r Ctx" where
  "SetTransientGasUsed c gasUsed = set_counter c KeyPrefixTransientGasUsed gasUsed"

definition AddTransientGasUsed :: "'r Ctx \<Rightarrow> uint64 \<Rightarrow> (string, uint64 \<times> 'r Ctx) outcome" where
  "AddTransientGasUsed c gasUsed =
     (let result = GetTransientGasUsed c + gasUsed
      in if result < gasUsed then Err ''transient gas used''
         else Ok (result, SetTransientGasUsed c result))"

definition keeper_TxConfig :: "'r Ctx \<Rightarrow> Hash \<Rightarrow> TxConfig" where
  "keeper_TxConfig c txHash =
     \<lparr>BlockHash = BytesToHash (HeaderHash c), TxHash = txHash,
      TxIndex = GetTxIndexTransient c, LogIndex = GetLogSizeTransient c\<rparr>"

lemma length_Uint64ToBigEndian [simp]: "length (Uint64ToBigEndian n) = 8"
  by (simp add: Uint64ToBigEndian_def)

lemma Uint64ToBigEndian_nonempty [simp]: "Uint64ToBigEndian n \<noteq> []"
  by (metis length_Uint64ToBigEndian list.size(3) zero_neq_numeral)

lemma get_set_counter [simp]:
  "get_counter (set_counter c k n) k' = (if k = k' then n else get_counter c k')"
  by (simp add: get_counter_def set_counter_def store_Get_def)

lemma set_counter_frame [simp]:
  "kvStore (set_counter c k n) = kvStore c" "modules (set_counter c k n) = modules c"
  "GasMeter (set_counter c k n) = GasMeter c" "BlockHeight (set_counter c k n) = BlockHeight c"
  by (simp_all add: set_counter_def)

lemma bloom_key_counters [simp]:
  "bloom_key c \<noteq> KeyPrefixTransientTxIndex" "bloom_key c \<noteq> KeyPrefixTransientLogSize"
  "bloom_key c \<noteq> KeyPrefixTransientGasUsed"
  by (auto simp: bloom_key_def store_keys)

lemma GetBlockBloomTransient_Set: "GetBlockBloomTransient (SetBlockBloomTransient c b) = \<bar>b\<bar>"
proof -
  have "big_Bytes b = [] \<longleftrightarrow> b = 0"
    by (simp add: big_Bytes_def big_bytes.simps [of "nat \<bar>b\<bar>"])
  then show ?thesis
    by (simp add: GetBlockBloomTransient_def SetBlockBloomTransient_def bloom_key_def store_Get_def)
qed

lemma add_wraps_iff: "(a :: uint64) + b < b \<longleftrightarrow> 2 ^ 64 \<le> unat a + unat b"
  using unat_less_pow [of a] unat_less_pow [of b]
  by (simp add: word_less_nat_alt unat_word_ariths mod_if) linarith

lemma AddTransientGasUsed_Ok_iff:
  "AddTransientGasUsed c g = Ok (t, c') \<longleftrightarrow>
     unat (GetTransientGasUsed c) + unat g < 2 ^ 64 \<and> t = GetTransientGasUsed c + g \<and>
     c' = SetTransientGasUsed c t"
  by (auto simp: AddTransientGasUsed_def Let_def add_wraps_iff)

end
