(* ===== verification/Evm_Commit.thy ===== *)
theory Evm_Commit
  imports Evm_Keeper
begin

text \<open>
  What \<open>Commit\<close> leaves in the stores: every dirty account is written through the keeper with
  the nonce, balance, code hash and storage the state database showed, suicided accounts are
  removed with their storage, and other accounts are not touched. The account and bank
  keepers of the SDK enter through the laws \<open>account_laws\<close> and \<open>bank_laws\<close>, which state
  what they document.
\<close>

subsection \<open>What the account and bank keepers promise\<close>

definition credit :: "bytes \<Rightarrow> string \<Rightarrow> int \<Rightarrow> (bytes \<Rightarrow> string \<Rightarrow> int) \<Rightarrow> bytes \<Rightarrow> string \<Rightarrow> int" where
  "credit a d n bal = (\<lambda>x e. if x = a \<and> e = d then bal x e + n else bal x e)"

lemma credit_comm: "credit a d n (credit b e k bal) = credit b e k (credit a d n bal)"
  by (auto simp: credit_def fun_eq_iff)

lemma credit_cancel [simp]: "credit a d (- n) (credit a d n bal) = bal"
  "credit a d n (credit a d (- n) bal) = bal"
  by (auto simp: credit_def fun_eq_iff)

text \<open>The account keeper stores accounts under their address, \<open>adr\<close> being \<open>GetAddress\<close>.\<close>

definition account_laws :: "('b, 'r, 'cc) sdk \<Rightarrow> ('b \<Rightarrow> bytes) \<Rightarrow> bool" where
  "account_laws D adr \<longleftrightarrow>
     (\<forall>r a acct. akGetAccount D r a = Some acct \<longrightarrow> adr (base_of acct) = a) \<and>
     (\<forall>r a. adr (base_of (fst (akNewAccountWithAddress D r a))) = a \<and>
        akGetAccount D (snd (akNewAccountWithAddress D r a)) = akGetAccount D r \<and>
        bkGetBalance D (snd (akNewAccountWithAddress D r a)) = bkGetBalance D r \<and>
        ssGetParamSetIfExists D (snd (akNewAccountWithAddress D r a)) = ssGetParamSetIfExists D r) \<and>
     (\<forall>r acct. akGetAccount D (akSetAccount D r acct) = (akGetAccount D r)(adr (base_of acct) \<mapsto> acct) \<and>
        bkGetBalance D (akSetAccount D r acct) = bkGetBalance D r \<and>
        ssGetParamSetIfExists D (akSetAccount D r acct) = ssGetParamSetIfExists D r) \<and>
     (\<forall>r acct. akGetAccount D (akRemoveAccount D r acct) = (akGetAccount D r)(adr (base_of acct) := None) \<and>
        bkGetBalance D (akRemoveAccount D r acct) = bkGetBalance D r \<and>
        ssGetParamSetIfExists D (akRemoveAccount D r acct) = ssGetParamSetIfExists D r) \<and>
     (\<forall>b b' n. SetSequence D b n = Ok b' \<longrightarrow> adr b' = adr b \<and> GetSequence D b' = n)"

text \<open>
  A bank operation moves the coins it is given. It may create the account of the module, at
  address \<open>m\<close>, and leaves the other accounts as they are.
\<close>

definition moves ::
  "('b, 'r, 'cc) sdk \<Rightarrow> bytes \<Rightarrow> 'r \<Rightarrow> ((bytes \<Rightarrow> string \<Rightarrow> int) \<Rightarrow> bytes \<Rightarrow> string \<Rightarrow> int) \<Rightarrow> 'r \<Rightarrow> bool" where
  "moves D m r f r' \<longleftrightarrow>
     bkGetBalance D r' = f (bkGetBalance D r) \<and>
     ssGetParamSetIfExists D r' = ssGetParamSetIfExists D r \<and>
     (\<forall>x. x \<noteq> m \<or> akGetAccount D r x \<noteq> None \<longrightarrow> akGetAccount D r' x = akGetAccount D r x)"

definition bank_laws :: "('b, 'r, 'cc) sdk \<Rightarrow> bytes \<Rightarrow> bool" where
  "bank_laws D m \<longleftrightarrow>
     (\<forall>d n cs. n > 0 \<longrightarrow> NewCoins D d n = Ok cs \<longrightarrow> cs = [(d, n)]) \<and>
     (\<forall>r r' d n. bkMintCoins D r evm_ModuleName [(d, n)] = Ok r' \<longrightarrow> moves D m r (credit m d n) r') \<and>
     (\<forall>r r' d n. bkBurnCoins D r evm_ModuleName [(d, n)] = Ok r' \<longrightarrow> moves D m r (credit m d (- n)) r') \<and>
     (\<forall>r r' a d n. akGetAccount D r a \<noteq> None \<longrightarrow>
        bkSendCoinsFromModuleToAccount D r evm_ModuleName a [(d, n)] = Ok r' \<longrightarrow>
        moves D m r (credit a d n \<circ> credit m d (- n)) r') \<and>
     (\<forall>r r' a d n. bkSendCoinsFromAccountToModule D r a evm_ModuleName [(d, n)] = Ok r' \<longrightarrow>
        moves D m r (credit m d n \<circ> credit a d (- n)) r')"

lemma moves_trans:
  "moves D m r f r1 \<Longrightarrow> moves D m r1 g r2 \<Longrightarrow> moves D m r (g \<circ> f) r2"
  unfolding moves_def by (metis comp_apply)

subsection \<open>Storage cells\<close>

lemma StateKey_inject [simp]:
  "AddressStoragePrefix a @ HashBytes k = AddressStoragePrefix b @ HashBytes l \<longleftrightarrow> a = b \<and> k = l"
  by (auto simp: AddressStoragePrefix_def)

lemma storage_not_params [simp]:
  "KeyPrefixParams \<noteq> AddressStoragePrefix a @ k" "AddressStoragePrefix a @ k \<noteq> KeyPrefixParams"
  "KeyPrefixCode @ h \<noteq> AddressStoragePrefix a @ k" "AddressStoragePrefix a @ k \<noteq> KeyPrefixCode @ h"
  "KeyPrefixCode @ h \<noteq> KeyPrefixParams" "KeyPrefixParams \<noteq> KeyPrefixCode @ h"
  by (auto simp: AddressStoragePrefix_def store_keys)

lemma GetState_SetState:
  "keeper_GetState (keeper_SetState c a k v) b l =
     (if a = b \<and> k = l then BytesToHash v else keeper_GetState c b l)"
proof -
  have "BytesToHash [] = 0" by (simp add: BytesToHash_def be_nat_def)
  then show ?thesis by (auto simp: keeper_GetState_def keeper_SetState_def store_Get_def Let_def)
qed

lemma SetState_frame [simp]:
  "modules (keeper_SetState c a k v) = modules c"
  "store_Get (kvStore (keeper_SetState c a k v)) KeyPrefixParams = store_Get (kvStore c) KeyPrefixParams"
  by (simp_all add: keeper_SetState_def store_Get_def Let_def)

lemma SetCode_frame [simp]:
  "modules (keeper_SetCode c h code) = modules c"
  "store_Get (kvStore (keeper_SetCode c h code)) KeyPrefixParams = store_Get (kvStore c) KeyPrefixParams"
  "keeper_GetState (keeper_SetCode c h code) a k = keeper_GetState c a k"
  by (simp_all add: keeper_SetCode_def store_Get_def keeper_GetState_def)

lemma each_pair_delete:
  "each_pair (\<lambda>key _ s. (True, keeper_SetState s a key [])) ps c =
     foldl (\<lambda>s p. keeper_SetState s a (fst p) []) c ps"
  by (induction ps arbitrary: c) auto

lemma delete_states_frame:
  "modules (foldl (\<lambda>s p. keeper_SetState s a (fst p) []) c ps) = modules c \<and>
   store_Get (kvStore (foldl (\<lambda>s p. keeper_SetState s a (fst p) []) c ps)) KeyPrefixParams =
     store_Get (kvStore c) KeyPrefixParams"
  by (induction ps arbitrary: c) auto

lemma delete_states:
  "keeper_GetState (foldl (\<lambda>s p. keeper_SetState s a (fst p) []) c ps) b k =
     (if a = b \<and> k \<in> fst ` set ps then 0 else keeper_GetState c b k)"
proof (induction ps arbitrary: c)
  case (Cons p ps)
  have "BytesToHash [] = 0" by (simp add: BytesToHash_def be_nat_def)
  with Cons show ?case by (auto simp: GetState_SetState)
qed simp

text \<open>The iterator gives every cell of the account, under the key it was stored with.\<close>

lemma storage_pairs_complete:
  assumes "keeper_GetState c a k \<noteq> 0"
  shows "(k, keeper_GetState c a k) \<in> set (storage_pairs c a)"
proof -
  let ?K = "AddressStoragePrefix a @ HashBytes k"
  have v: "store_Get (kvStore c) ?K \<noteq> []" "BytesToHash (store_Get (kvStore c) ?K) = keeper_GetState c a k"
    using assms by (auto simp: keeper_GetState_def Let_def split: if_splits)
  then have "?K |\<in>| fmdom (kvStore c)"
    by (auto simp: store_Get_def split: option.splits intro: fmdomI)
  then have "(?K, store_Get (kvStore c) ?K) \<in>
      set (KVStorePrefixIterator (kvStore c) (AddressStoragePrefix a))"
    by (auto simp: KVStorePrefixIterator_def)
  moreover have "BytesToHash ?K = k" by (simp add: BytesToHash_append)
  ultimately show ?thesis using v(2) by (force simp: storage_pairs_def)
qed

lemma storage_pairs_sound:
  assumes "(k, v) \<in> set (storage_pairs c a)"
    and keys: "\<And>key. key |\<in>| fmdom (kvStore c) \<Longrightarrow>
      take 21 key = AddressStoragePrefix a \<Longrightarrow> length key = 53 \<and> store_Get (kvStore c) key \<noteq> []"
  shows "keeper_GetState c a k = v"
proof -
  from assms(1) obtain key where key: "key |\<in>| fmdom (kvStore c)" "take 21 key = AddressStoragePrefix a"
    "k = BytesToHash key" "v = BytesToHash (store_Get (kvStore c) key)"
    by (auto simp: storage_pairs_def KVStorePrefixIterator_def AddressStoragePrefix_def store_keys)
  with keys have len: "length key = 53" "store_Get (kvStore c) key \<noteq> []" by auto
  have split: "key = AddressStoragePrefix a @ drop 21 key"
    using key(2) by (metis append_take_drop_id)
  have "length (drop 21 key) = 32" using len(1) by simp
  moreover have "k = BytesToHash (drop 21 key)"
    using key(3) split BytesToHash_append [OF calculation, of "AddressStoragePrefix a"] by simp
  ultimately have "HashBytes k = drop 21 key" by (simp add: HashBytes_BytesToHash)
  with split len key(4) show ?thesis by (simp add: keeper_GetState_def)
qed

subsection \<open>What the keeper's writes do\<close>

abbreviation bal_of :: "('b, 'r, 'cc) sdk \<Rightarrow> 'r Ctx \<Rightarrow> bytes \<Rightarrow> string \<Rightarrow> int" where
  "bal_of D c \<equiv> bkGetBalance D (modules c)"

abbreviation acc_of :: "('b, 'r, 'cc) sdk \<Rightarrow> 'r Ctx \<Rightarrow> Address \<Rightarrow> 'b AccountI option" where
  "acc_of D c a \<equiv> akGetAccount D (modules c) (AddressBytes a)"

lemma GetParams_cong:
  "store_Get (kvStore c') KeyPrefixParams = store_Get (kvStore c) KeyPrefixParams \<Longrightarrow>
   ssGetParamSetIfExists D (modules c') = ssGetParamSetIfExists D (modules c) \<Longrightarrow>
   GetParams D c' = GetParams D c"
  by (simp add: GetParams_def GetLegacyParams_def Let_def)

lemma SetBalance_moves:
  assumes bank: "bank_laws D m" and acct: "acc_of D c a \<noteq> None"
    and ok: "keeper_SetBalance D c a (Some n) = Ok c'"
  defines "d \<equiv> EvmDenom (GetParams D c)"
  shows "moves D m (modules c) (credit (AddressBytes a) d (n - bal_of D c (AddressBytes a) d)) (modules c')"
    "kvStore c' = kvStore c"
proof -
  let ?A = "AddressBytes a" and ?r = "modules c"
  define dl where "dl = n - bal_of D c ?A d"
  have ok': "(if dl > 0 then
       bind_outcome (NewCoins D d dl) (\<lambda>coins.
       bind_outcome (bkMintCoins D ?r evm_ModuleName coins) (\<lambda>r1.
       bind_outcome (bkSendCoinsFromModuleToAccount D r1 evm_ModuleName ?A coins) (\<lambda>r2.
       Ok (c\<lparr>modules := r2\<rparr>))))
     else if dl < 0 then
       bind_outcome (NewCoins D d (- dl)) (\<lambda>coins.
       bind_outcome (bkSendCoinsFromAccountToModule D ?r ?A evm_ModuleName coins) (\<lambda>r1.
       bind_outcome (bkBurnCoins D r1 evm_ModuleName coins) (\<lambda>r2.
       Ok (c\<lparr>modules := r2\<rparr>))))
     else Ok c) = Ok c'"
    using ok unfolding keeper_SetBalance_def Let_def dl_def d_def option.case .
  consider (up) "dl > 0" | (down) "dl < 0" | (same) "dl = 0" by linarith
  then have "moves D m ?r (credit ?A d dl) (modules c') \<and> kvStore c' = kvStore c"
  proof cases
    case up
    then obtain cs r1 r2 where st: "NewCoins D d dl = Ok cs" "bkMintCoins D ?r evm_ModuleName cs = Ok r1"
      "bkSendCoinsFromModuleToAccount D r1 evm_ModuleName ?A cs = Ok r2" "c' = c\<lparr>modules := r2\<rparr>"
      using ok' by auto
    have cs: "cs = [(d, dl)]" using bank st(1) up by (auto simp: bank_laws_def)
    have 1: "moves D m ?r (credit m d dl) r1" using bank st(2) cs by (auto simp: bank_laws_def)
    then have "akGetAccount D r1 ?A \<noteq> None" using acct by (auto simp: moves_def)
    then have "moves D m r1 (credit ?A d dl \<circ> credit m d (- dl)) r2"
      using bank st(3) cs by (auto simp: bank_laws_def)
    from moves_trans [OF 1 this] st(4) show ?thesis by (simp add: comp_def)
  next
    case down
    then obtain cs r1 r2 where st: "NewCoins D d (- dl) = Ok cs"
      "bkSendCoinsFromAccountToModule D ?r ?A evm_ModuleName cs = Ok r1"
      "bkBurnCoins D r1 evm_ModuleName cs = Ok r2" "c' = c\<lparr>modules := r2\<rparr>"
      using ok' by auto
    have cs: "cs = [(d, - dl)]" using bank st(1) down by (auto simp: bank_laws_def)
    have 1: "moves D m ?r (credit m d (- dl) \<circ> credit ?A d (- (- dl))) r1"
      using bank st(2) cs unfolding bank_laws_def by blast
    have 2: "moves D m r1 (credit m d (- (- dl))) r2"
      using bank st(3) cs unfolding bank_laws_def by blast
    from moves_trans [OF 1 2] st(4) show ?thesis by (simp add: comp_def)
  next
    case same
    with ok' show ?thesis by (auto simp: moves_def credit_def fun_eq_iff)
  qed
  then show "moves D m ?r (credit ?A d (n - bal_of D c ?A d)) (modules c')" "kvStore c' = kvStore c"
    by (simp_all add: dl_def)
qed

text \<open>What stays of an account when another one is written.\<close>

definition keeps :: "('b, 'r, 'cc) sdk \<Rightarrow> bytes \<Rightarrow> Address \<Rightarrow> 'r Ctx \<Rightarrow> 'r Ctx \<Rightarrow> bool" where
  "keeps D m a c c' \<longleftrightarrow>
     GetParams D c' = GetParams D c \<and>
     (AddressBytes a \<noteq> m \<or> acc_of D c a \<noteq> None \<longrightarrow> acc_of D c' a = acc_of D c a) \<and>
     bal_of D c' (AddressBytes a) = bal_of D c (AddressBytes a) \<and>
     (\<forall>k. keeper_GetState c' a k = keeper_GetState c a k)"

lemma keeps_refl [simp]: "keeps D m a c c"
  by (simp add: keeps_def)

lemma keeps_trans: "keeps D m a c c1 \<Longrightarrow> keeps D m a c1 c2 \<Longrightarrow> keeps D m a c c2"
  by (auto simp: keeps_def)

lemma SetBalance_effect:
  assumes bank: "bank_laws D m" and acct: "acc_of D c a \<noteq> None"
    and ok: "keeper_SetBalance D c a (Some n) = Ok c'"
  shows "bal_of D c' (AddressBytes a) (EvmDenom (GetParams D c)) = n"
    "GetParams D c' = GetParams D c" "acc_of D c' a = acc_of D c a" "kvStore c' = kvStore c"
    "b \<noteq> a \<Longrightarrow> keeps D m b c c'"
proof -
  note mv = SetBalance_moves [OF bank acct ok]
  show P: "GetParams D c' = GetParams D c"
    using mv by (intro GetParams_cong) (simp_all add: moves_def)
  show "bal_of D c' (AddressBytes a) (EvmDenom (GetParams D c)) = n" "acc_of D c' a = acc_of D c a"
    "kvStore c' = kvStore c"
    using mv acct by (auto simp: moves_def credit_def)
  show "keeps D m b c c'" if "b \<noteq> a"
    using mv P that by (auto simp: moves_def credit_def keeps_def keeper_GetState_def)
qed

text \<open>
  Written: the account the keeper returns holds the nonce and balance given; the code hash
  when the stored account has one.
\<close>

lemma SetAccount_effect:
  assumes acc: "account_laws D adr" and bank: "bank_laws D m"
    and ok: "keeper_SetAccount D c a account = Ok c'"
  shows "\<exists>acct n. acc_of D c' a = Some acct \<and> GetSequence D (base_of acct) = Nonce account \<and>
      (\<forall>b h. acct = EthAccount b h \<longrightarrow> h = BytesToHash (case CodeHash account of None \<Rightarrow> [] | Some h \<Rightarrow> h)) \<and>
      (case acc_of D c a of Some (OtherAccount b) \<Rightarrow> (\<exists>b'. acct = OtherAccount b') | Some (EthAccount b h) \<Rightarrow> (\<exists>b' h'. acct = EthAccount b' h') | None \<Rightarrow> True) \<and>
      Balance account = Some n \<and> bal_of D c' (AddressBytes a) (EvmDenom (GetParams D c)) = n"
    "GetParams D c' = GetParams D c" "kvStore c' = kvStore c" "b \<noteq> a \<Longrightarrow> keeps D m b c c'"
proof -
  let ?A = "AddressBytes a" and ?h = "BytesToHash (case CodeHash account of None \<Rightarrow> [] | Some h \<Rightarrow> h)"
  obtain acct r0 where ar: "(case akGetAccount D (modules c) ?A of
      Some acct \<Rightarrow> (acct, modules c) | None \<Rightarrow> akNewAccountWithAddress D (modules c) ?A) = (acct, r0)"
    by fastforce
  have r0: "adr (base_of acct) = ?A" "akGetAccount D r0 = akGetAccount D (modules c)"
    "bkGetBalance D r0 = bkGetBalance D (modules c)"
    "ssGetParamSetIfExists D r0 = ssGetParamSetIfExists D (modules c)"
    "acc_of D c a \<noteq> None \<Longrightarrow> acc_of D c a = Some acct"
    using ar acc by (auto simp: account_laws_def split: option.splits) (metis fst_conv snd_conv)+
  obtain b0 where b0: "SetSequence D (base_of acct) (Nonce account) = Ok b0"
    and ok': "keeper_SetBalance D (c\<lparr>modules := akSetAccount D r0 (SetCodeHash (with_base acct b0) ?h)\<rparr>)
      a (Balance account) = Ok c'"
    using ok by (auto simp: keeper_SetAccount_def Let_def ar)
  define acct' where "acct' = SetCodeHash (with_base acct b0) ?h"
  define c1 where "c1 = c\<lparr>modules := akSetAccount D r0 acct'\<rparr>"
  have base: "base_of acct' = b0" by (cases acct) (simp_all add: acct'_def)
  have b0': "adr b0 = ?A" "GetSequence D b0 = Nonce account"
    using acc b0 r0(1) by (auto simp: account_laws_def)
  have c1: "akGetAccount D (modules c1) = (akGetAccount D (modules c))(?A \<mapsto> acct')"
    "bkGetBalance D (modules c1) = bkGetBalance D (modules c)"
    "ssGetParamSetIfExists D (modules c1) = ssGetParamSetIfExists D (modules c)" "kvStore c1 = kvStore c"
    using acc r0 base b0' by (auto simp: account_laws_def c1_def)
  obtain n where n: "Balance account = Some n"
    using ok' by (cases "Balance account") (auto simp: keeper_SetBalance_def)
  have ok1: "keeper_SetBalance D c1 a (Some n) = Ok c'" using ok' n by (simp add: c1_def acct'_def)
  have "acc_of D c1 a \<noteq> None" by (simp add: c1)
  note eff = SetBalance_effect [OF bank this ok1]
  have P: "GetParams D c1 = GetParams D c" by (rule GetParams_cong) (simp_all add: c1)
  have "acc_of D c' a = Some acct'" using eff(3) c1(1) by simp
  moreover have "\<And>b h. acct' = EthAccount b h \<Longrightarrow> h = ?h" by (cases acct) (auto simp: acct'_def)
  moreover have "case acc_of D c a of Some (OtherAccount b) \<Rightarrow> (\<exists>b'. acct' = OtherAccount b') | Some (EthAccount b h) \<Rightarrow> (\<exists>b' h'. acct' = EthAccount b' h') | None \<Rightarrow> True"
    using r0(5) by (cases acct) (auto simp: acct'_def split: option.splits AccountI.splits)
  ultimately show "\<exists>acct n. acc_of D c' a = Some acct \<and> GetSequence D (base_of acct) = Nonce account \<and>
      (\<forall>b h. acct = EthAccount b h \<longrightarrow> h = ?h) \<and>
      (case acc_of D c a of Some (OtherAccount b) \<Rightarrow> (\<exists>b'. acct = OtherAccount b') | Some (EthAccount b h) \<Rightarrow> (\<exists>b' h'. acct = EthAccount b' h') | None \<Rightarrow> True) \<and>
      Balance account = Some n \<and> bal_of D c' ?A (EvmDenom (GetParams D c)) = n"
    using eff(1) P n base b0'(2) by auto
  show "GetParams D c' = GetParams D c" using eff(2) P by simp
  show "kvStore c' = kvStore c" using eff(4) c1 by simp
  show "keeps D m b c c'" if "b \<noteq> a"
    using eff(5) [OF that] that P c1 by (auto simp: keeps_def keeper_GetState_def)
qed

lemma DeleteAccount_effect:
  assumes acc: "account_laws D adr" and bank: "bank_laws D m"
    and ok: "keeper_DeleteAccount D c a = Ok c'"
  shows "acc_of D c a \<noteq> None \<Longrightarrow> acc_of D c' a = None \<and> keeper_GetState c' a k = 0 \<and>
      bal_of D c' (AddressBytes a) (EvmDenom (GetParams D c)) = 0"
    "acc_of D c a = None \<Longrightarrow> c' = c" "GetParams D c' = GetParams D c" "b \<noteq> a \<Longrightarrow> keeps D m b c c'"
proof -
  let ?A = "AddressBytes a"
  have "(acc_of D c a \<noteq> None \<longrightarrow> acc_of D c' a = None \<and> keeper_GetState c' a k = 0 \<and>
      bal_of D c' ?A (EvmDenom (GetParams D c)) = 0) \<and> (acc_of D c a = None \<longrightarrow> c' = c) \<and>
      GetParams D c' = GetParams D c \<and> (b \<noteq> a \<longrightarrow> keeps D m b c c')"
  proof (cases "acc_of D c a")
    case None
    with ok show ?thesis by (simp add: keeper_DeleteAccount_def)
  next
    case (Some acct)
    then obtain b0 h0 where acct: "acct = EthAccount b0 h0"
      using ok by (cases acct) (auto simp: keeper_DeleteAccount_def)
    define del where "del c = foldl (\<lambda>s p. keeper_SetState s a (fst p) []) c (storage_pairs c a)" for c :: "'b Ctx"
    obtain c1 where c1: "keeper_SetBalance D c a (Some 0) = Ok c1"
      "c' = (del c1)\<lparr>modules := akRemoveAccount D (modules (del c1)) acct\<rparr>"
      using ok Some acct
      by (auto simp: keeper_DeleteAccount_def keeper_ForEachStorage_def each_pair_delete Let_def del_def)
    note eff = SetBalance_effect [OF bank _ c1(1)]
    have mods: "modules (del c1) = modules c1"
      "store_Get (kvStore (del c1)) KeyPrefixParams = store_Get (kvStore c1) KeyPrefixParams"
      unfolding del_def using delete_states_frame by blast+
    have st: "keeper_GetState (del c1) x l = (if x = a then 0 else keeper_GetState c1 x l)" for x l
      using storage_pairs_complete [of c1 a l] unfolding del_def delete_states by force
    have adr: "adr (base_of acct) = ?A" using acc Some by (auto simp: account_laws_def)
    have c': "akGetAccount D (modules c') = (akGetAccount D (modules c1))(?A := None)"
      "bkGetBalance D (modules c') = bkGetBalance D (modules c1)"
      "ssGetParamSetIfExists D (modules c') = ssGetParamSetIfExists D (modules c1)"
      "kvStore c' = kvStore (del c1)"
      using acc adr mods by (auto simp: account_laws_def c1(2))
    have P: "GetParams D c' = GetParams D c1" by (rule GetParams_cong) (simp_all add: c' mods)
    have st': "keeper_GetState c' x l = keeper_GetState (del c1) x l" for x l
      using c'(4) by (simp add: keeper_GetState_def)
    have K: "b \<noteq> a \<longrightarrow> keeps D m b c c'"
      using eff(5) [of b] Some P st st' c' by (auto simp: keeps_def)
    show ?thesis using eff(1,2) Some P c' st st' K by simp
  qed
  then show "acc_of D c a \<noteq> None \<Longrightarrow> acc_of D c' a = None \<and> keeper_GetState c' a k = 0 \<and>
      bal_of D c' ?A (EvmDenom (GetParams D c)) = 0" "acc_of D c a = None \<Longrightarrow> c' = c"
    "GetParams D c' = GetParams D c" "b \<noteq> a \<Longrightarrow> keeps D m b c c'" by auto
qed

subsection \<open>Committing one object\<close>

lemma commit_storage_effect:
  assumes "\<And>k. k \<in> set keys \<Longrightarrow> fmlookup (originStorage obj) k = Some (keeper_GetState c (so_address obj) k)"
    and "distinct keys"
  shows "keeper_GetState (commit_storage (evm_env D) obj keys c) (so_address obj) k =
     (if k \<in> set keys then the (fmlookup (dirtyStorage obj) k) else keeper_GetState c (so_address obj) k)"
  using assms
proof (induction keys arbitrary: c)
  case (Cons l keys)
  let ?a = "so_address obj" and ?v = "the (fmlookup (dirtyStorage obj) l)"
  let ?c = "keeper_SetState c ?a l (HashBytes ?v)"
  have l: "fmlookup (originStorage obj) l = Some (keeper_GetState c ?a l)" using Cons.prems by simp
  have "fmlookup (originStorage obj) k' = Some (keeper_GetState ?c ?a k')" if "k' \<in> set keys" for k'
    using Cons.prems that by (auto simp: GetState_SetState)
  with Cons.IH [of ?c] Cons.IH [of c] Cons.prems l show ?case
    by (auto simp: GetState_SetState Let_def)
qed simp

lemma commit_storage_frame:
  "modules (commit_storage (evm_env D) obj keys c) = modules c \<and>
   store_Get (kvStore (commit_storage (evm_env D) obj keys c)) KeyPrefixParams =
     store_Get (kvStore c) KeyPrefixParams \<and>
   (b \<noteq> so_address obj \<longrightarrow>
     keeper_GetState (commit_storage (evm_env D) obj keys c) b k = keeper_GetState c b k)"
  by (induction keys arbitrary: c) (auto simp: Let_def GetState_SetState)

lemma keeps_stores:
  "modules c' = modules c \<Longrightarrow>
   store_Get (kvStore c') KeyPrefixParams = store_Get (kvStore c) KeyPrefixParams \<Longrightarrow>
   (\<And>k. keeper_GetState c' b k = keeper_GetState c b k) \<Longrightarrow> keeps D m b c c'"
  using GetParams_cong [of c' c D] by (simp add: keeps_def)

text \<open>
  \<open>written\<close> says what the commit of an object leaves: the account with its nonce, balance,
  code hash and storage, or nothing after a suicide. \<open>c\<close> is the context before the commit.
\<close>

definition written ::
  "('b, 'r, 'cc) sdk \<Rightarrow> 'r Ctx \<Rightarrow> stateObject \<Rightarrow> 'r Ctx \<Rightarrow> bool" where
  "written D c obj c' \<longleftrightarrow>
     (let a = so_address obj; d = EvmDenom (GetParams D c)
      in GetParams D c' = GetParams D c \<and>
         (if suicided obj then
            acc_of D c' a = None \<and>
            (acc_of D c a \<noteq> None \<longrightarrow>
              (\<forall>k. keeper_GetState c' a k = 0) \<and> bal_of D c' (AddressBytes a) d = 0)
          else
            (\<exists>acct. acc_of D c' a = Some acct \<and> GetSequence D (base_of acct) = so_nonce obj \<and>
               (case acct of EthAccount b h \<Rightarrow> HashBytes h = so_codeHash obj | OtherAccount b \<Rightarrow> True)) \<and>
            bal_of D c' (AddressBytes a) d = so_balance obj \<and>
            (\<forall>k. keeper_GetState c' a k = storage_view (evm_env D) c a (dirtyStorage obj) k)))"

lemma commit_object_live:
  assumes "\<not> suicided obj" "commit_object (evm_env D) obj c = Ok c'"
  shows "\<exists>c2. keeper_SetAccount D (case so_code obj of
      Some code \<Rightarrow> if dirtyCode obj then keeper_SetCode c (so_codeHash obj) code else c | None \<Rightarrow> c)
      (so_address obj) (so_account obj) = Ok c2 \<and>
    c' = commit_storage (evm_env D) obj (SortedKeys (dirtyStorage obj)) c2"
  using assms unfolding commit_object_def Let_def evm_env_simps by auto

lemma commit_object_frame:
  assumes acc: "account_laws D adr" and bank: "bank_laws D m"
    and ok: "commit_object (evm_env D) obj c = Ok c'" and b: "b \<noteq> so_address obj"
  shows "keeps D m b c c'"
proof (cases "suicided obj")
  case True
  with ok have "keeper_DeleteAccount D c (so_address obj) = Ok c'" by (simp add: commit_object_def)
  from DeleteAccount_effect(4) [OF acc bank this b] show ?thesis .
next
  case False
  define c1 where "c1 = (case so_code obj of
      Some code \<Rightarrow> if dirtyCode obj then keeper_SetCode c (so_codeHash obj) code else c | None \<Rightarrow> c)"
  from False ok obtain c2 where c2: "keeper_SetAccount D c1 (so_address obj) (so_account obj) = Ok c2"
    "c' = commit_storage (evm_env D) obj (SortedKeys (dirtyStorage obj)) c2"
    using commit_object_live unfolding c1_def by blast
  have "keeps D m b c c1" by (rule keeps_stores) (auto simp: c1_def split: option.splits)
  moreover have "keeps D m b c1 c2" by (rule SetAccount_effect(4) [OF acc bank c2(1) b])
  moreover have "keeps D m b c2 c'"
    using commit_storage_frame [of D obj _ c2 b] b unfolding c2(2) by (intro keeps_stores) blast+
  ultimately show ?thesis by (blast intro: keeps_trans)
qed

lemma commit_object_written:
  assumes acc: "account_laws D adr" and bank: "bank_laws D m"
    and ok: "commit_object (evm_env D) obj c = Ok c'" and wf: "wf_obj (evm_env D) c obj"
  shows "written D c obj c'"
proof (cases "suicided obj")
  case True
  with ok have "keeper_DeleteAccount D c (so_address obj) = Ok c'" by (simp add: commit_object_def)
  from DeleteAccount_effect [OF acc bank this] True show ?thesis
    by (cases "acc_of D c (so_address obj)") (auto simp: written_def Let_def)
next
  case False
  let ?a = "so_address obj"
  define c1 where "c1 = (case so_code obj of
      Some code \<Rightarrow> if dirtyCode obj then keeper_SetCode c (so_codeHash obj) code else c | None \<Rightarrow> c)"
  from False ok obtain c2 where c2: "keeper_SetAccount D c1 ?a (so_account obj) = Ok c2"
    "c' = commit_storage (evm_env D) obj (SortedKeys (dirtyStorage obj)) c2"
    using commit_object_live unfolding c1_def by blast
  have c1: "modules c1 = modules c" "GetParams D c1 = GetParams D c"
    "\<And>k. keeper_GetState c1 ?a k = keeper_GetState c ?a k"
    by (auto simp: c1_def split: option.splits intro!: GetParams_cong)
  note eff = SetAccount_effect [OF acc bank c2(1)]
  have st2: "keeper_GetState c2 ?a k = keeper_GetState c ?a k" for k
    using eff(3) c1(3) [of k] by (simp add: keeper_GetState_def)
  note fr = commit_storage_frame [of D obj "SortedKeys (dirtyStorage obj)" c2]
  have P: "GetParams D c' = GetParams D c"
    using fr eff(2) c1(2) unfolding c2(2) by (metis GetParams_cong)
  have dirty: "k \<in> set (SortedKeys (dirtyStorage obj)) \<longleftrightarrow> fmlookup (dirtyStorage obj) k \<noteq> None" for k
    by (auto simp: SortedKeys_def fmlookup_dom_iff)
  have cells: "fmlookup (originStorage obj) k = Some (keeper_GetState c2 ?a k)"
    if "k \<in> set (SortedKeys (dirtyStorage obj))" for k
  proof -
    have "k |\<in>| fmdom (originStorage obj)" using that wf by (auto simp: SortedKeys_def wf_obj_def)
    then obtain v where "fmlookup (originStorage obj) k = Some v" by (auto simp: fmlookup_dom_iff)
    with wf st2 show ?thesis by (auto simp: wf_obj_def)
  qed
  have st: "keeper_GetState c' ?a k = storage_view (evm_env D) c ?a (dirtyStorage obj) k" for k
    unfolding c2(2) using cells dirty [of k]
    by (subst commit_storage_effect) (auto simp: SortedKeys_def st2 storage_view_def)
  have "HashBytes (BytesToHash (so_codeHash obj)) = so_codeHash obj"
    using wf by (simp add: HashBytes_BytesToHash wf_obj_def)
  then have "\<exists>acct. acc_of D c2 ?a = Some acct \<and> GetSequence D (base_of acct) = so_nonce obj \<and>
      (case acct of EthAccount b h \<Rightarrow> HashBytes h = so_codeHash obj | OtherAccount b \<Rightarrow> True)"
    "bal_of D c2 (AddressBytes ?a) (EvmDenom (GetParams D c1)) = so_balance obj"
    using eff(1) by (auto simp: so_account_def split: AccountI.splits)
  then show ?thesis using False P st fr c1(2) c2(2) by (auto simp: written_def Let_def)
qed

subsection \<open>Committing the database\<close>

lemma dirty_live:
  assumes inv: "db_inv E w cfg s" and a: "a \<in> set (sortedDirties (db_journal s))"
  obtains obj where "fmlookup (stateObjects s) a = Some obj" "so_address obj = a" "wf_obj E w obj"
proof -
  have "dirtied_by (rev (entries (db_journal s))) a \<noteq> 0"
    using inv a counts_ok_dom [of "rev (entries (db_journal s))" "dirties (db_journal s)" a]
    by (auto simp: db_inv_def unwinding_def sortedDirties_def)
  moreover have "journal_ok (rev (entries (db_journal s))) (keymap (stateObjects s))"
    using inv unfolding db_inv_def unwinding_def by blast
  ultimately have "keymap (stateObjects s) a \<noteq> None" using journal_ok_dead by fastforce
  then obtain obj where "fmlookup (stateObjects s) a = Some obj" by (auto simp: keymap_def)
  with inv that show ?thesis by (auto simp: db_inv_def unwinding_def objs_ok_def)
qed

lemma commit_address_frame:
  assumes acc: "account_laws D adr" and bank: "bank_laws D m" and inv: "db_inv (evm_env D) c cfg s"
    and ok: "commit_address s a c1 = Ok c2" and b: "b \<noteq> a"
  shows "keeps D m b c1 c2"
proof -
  from ok obtain obj where obj: "fmlookup (stateObjects s) a = Some obj"
    by (cases "fmlookup (stateObjects s) a") (auto simp: commit_address_def)
  have "keeper s = evm_env D" "so_address obj = a"
    using inv obj by (auto simp: db_inv_def unwinding_def objs_ok_def)
  with ok obj b show ?thesis
    by (intro commit_object_frame [OF acc bank, of obj]) (auto simp: commit_address_def)
qed

lemma commit_fold_frame:
  assumes acc: "account_laws D adr" and bank: "bank_laws D m" and inv: "db_inv (evm_env D) c cfg s"
    and ok: "fold_outcome (commit_address s) as c1 = Ok c2" and b: "b \<notin> set as"
  shows "keeps D m b c1 c2"
  using ok b
proof (induction "as" arbitrary: c1)
  case (Cons a as1)
  then obtain c' where "commit_address s a c1 = Ok c'" "fold_outcome (commit_address s) as1 c' = Ok c2"
    by auto
  with Cons commit_address_frame [OF acc bank inv, of a c1 c' b] show ?case
    by (auto intro: keeps_trans)
qed simp

lemma written_keeps:
  assumes before: "keeps D m a c c1" and wr: "written D c1 obj c2" and after: "keeps D m a c2 c'"
    and a: "so_address obj = a" "AddressBytes a \<noteq> m"
  shows "written D c obj c'"
proof -
  have P: "GetParams D c1 = GetParams D c" "GetParams D c2 = GetParams D c" "GetParams D c' = GetParams D c"
    using before wr after by (auto simp: keeps_def written_def Let_def)
  have "storage_view (evm_env D) c1 a (dirtyStorage obj) k = storage_view (evm_env D) c a (dirtyStorage obj) k" for k
    using before by (auto simp: keeps_def storage_view_def split: option.splits)
  then show ?thesis
    using before wr after a P unfolding written_def Let_def keeps_def by auto
qed

lemma Commit_fold:
  assumes inv: "db_inv (evm_env D) c cfg s" and ok: "Commit s = Ok s'"
  shows "fold_outcome (commit_address s) (sortedDirties (db_journal s)) c = Ok (ctx s')"
  using ok inv by (auto simp: Commit_def db_inv_def unwinding_def)

lemma Commit_written:
  assumes acc: "account_laws D adr" and bank: "bank_laws D m" and inv: "db_inv (evm_env D) c cfg s"
    and ok: "Commit s = Ok s'" and a: "a \<in> set (sortedDirties (db_journal s))" "AddressBytes a \<noteq> m"
  shows "\<exists>obj. fmlookup (stateObjects s) a = Some obj \<and> so_address obj = a \<and> written D c obj (ctx s')"
proof -
  obtain obj where obj: "fmlookup (stateObjects s) a = Some obj" "so_address obj = a" "wf_obj (evm_env D) c obj"
    using dirty_live [OF inv a(1)] .
  obtain as1 as2 where split: "sortedDirties (db_journal s) = as1 @ a # as2"
    using a(1) by (auto simp: in_set_conv_decomp)
  then have distinct: "a \<notin> set as1" "a \<notin> set as2"
    using distinct_fm_keys [of "dirties (db_journal s)"] by (auto simp: sortedDirties_def)
  obtain c1 c2 where run: "fold_outcome (commit_address s) as1 c = Ok c1" "commit_address s a c1 = Ok c2"
    "fold_outcome (commit_address s) as2 c2 = Ok (ctx s')"
    using Commit_fold [OF inv ok] split by (auto simp: fold_outcome_append)
  note frame = commit_fold_frame [OF acc bank inv]
  have before: "keeps D m a c c1" and after: "keeps D m a c2 (ctx s')"
    using frame run distinct by blast+
  have "wf_obj (evm_env D) c1 obj" using obj before by (auto simp: wf_obj_def keeps_def)
  moreover have "commit_object (evm_env D) obj c1 = Ok c2"
    using run(2) obj inv by (auto simp: commit_address_def db_inv_def unwinding_def)
  ultimately have "written D c1 obj c2" by (intro commit_object_written [OF acc bank])
  with written_keeps [OF before _ after obj(2) a(2)] obj show ?thesis by blast
qed

text \<open>The nil dereference in \<open>Commit\<close> is never reached.\<close>

lemma Commit_no_nil:
  assumes "db_inv E w cfg s"
  shows "\<forall>a \<in> set (sortedDirties (db_journal s)). \<exists>obj. fmlookup (stateObjects s) a = Some obj"
  using dirty_live [OF assms] by metis

text \<open>What was written, as the keeper reads it back.\<close>

lemma written_account:
  assumes wr: "written D c obj c'" and denom: "EvmDenom (GetParams D c) \<noteq> []"
  defines "a \<equiv> so_address obj"
  shows "if suicided obj then keeper_GetAccount D c' a = None
     else \<exists>acct. keeper_GetAccount D c' a = Some acct \<and> Nonce acct = so_nonce obj \<and>
       Balance acct = Some (so_balance obj) \<and>
       (\<forall>b h. acc_of D c' a = Some (EthAccount b h) \<longrightarrow> CodeHash acct = Some (so_codeHash obj))"
proof (cases "suicided obj")
  case True
  with wr show ?thesis
    by (simp add: written_def Let_def keeper_GetAccount_def GetAccountWithoutBalance_def a_def)
next
  case False
  with wr obtain acct where acct: "acc_of D c' a = Some acct" "GetSequence D (base_of acct) = so_nonce obj"
    "case acct of EthAccount b h \<Rightarrow> HashBytes h = so_codeHash obj | OtherAccount b \<Rightarrow> True"
    by (auto simp: written_def Let_def a_def)
  have "keeper_GetBalance D c' a = so_balance obj"
    using wr denom False by (simp add: keeper_GetBalance_def written_def Let_def a_def)
  with acct False show ?thesis
    by (cases acct) (simp_all add: keeper_GetAccount_def GetAccountWithoutBalance_def)
qed

end
