(* ===== verification/Fee_Market.thy ===== *)
theory Fee_Market
  imports Evm_Keeper
begin

text \<open>
  The fee market, \<open>x/feemarket\<close>: the EIP-1559 base fee of a block computed from the gas the
  previous block wanted, the module parameters it is kept in, and the counters of gas wanted.
  The codec, the decimals \<open>sdk.Dec\<close> and the bound of \<open>sdk.NewIntFromBigInt\<close> are parameters,
  the record \<open>fm_sdk\<close>; what the results rely on is stated by \<open>codec_laws\<close> and \<open>dec_laws\<close>.
\<close>

subsection \<open>Parameters and context\<close>

text \<open>A nil \<open>sdk.Int\<close> or \<open>sdk.Dec\<close> is \<^const>\<open>None\<close>.\<close>

record 'd fm_Params =
  NoBaseFee :: bool
  BaseFeeChangeDenominator :: uint32
  ElasticityMultiplier :: uint32
  BaseFee :: "int option"
  EnableHeight :: int
  MinGasPrice :: "'d option"
  MinGasMultiplier :: "'d option"

record 'd dec_ops =
  NewDec :: "int \<Rightarrow> 'd"
  Dec_Mul :: "'d \<Rightarrow> 'd \<Rightarrow> 'd option"
  MaxDec :: "'d \<Rightarrow> 'd \<Rightarrow> 'd"
  TruncateInt :: "'d \<Rightarrow> int"
  IsNegative :: "'d \<Rightarrow> bool"
  Dec_GT :: "'d \<Rightarrow> 'd \<Rightarrow> bool"

record 'd fm_sdk =
  decs :: "'d dec_ops"
  fmMarshal :: "'d fm_Params \<Rightarrow> (string, bytes) outcome"
  fmMustUnmarshal :: "bytes \<Rightarrow> 'd fm_Params"
  fmNewIntFromBigInt :: "int \<Rightarrow> int option"

record 'd fm_Ctx =
  fm_store :: kvstore
  fm_transient :: kvstore
  fm_legacy :: "'d fm_Params" \<comment> \<open>what the legacy subspace holds\<close>
  fm_height :: int
  fm_maxGas :: "int option" \<comment> \<open>\<open>MaxGas\<close> of the consensus parameters, \<open>None\<close> when nil\<close>
  fm_blockGas :: "uint64 option" \<comment> \<open>\<open>GasConsumedToLimit\<close> of the block gas meter, \<open>None\<close> when nil\<close>

definition ParamsKey :: bytes where
  "ParamsKey = map (\<lambda>c. word_of_nat (of_char c)) ''Params''"

definition KeyPrefixBlockGasWanted :: bytes where "KeyPrefixBlockGasWanted = [1]"
definition KeyPrefixBaseFeeV1 :: bytes where "KeyPrefixBaseFeeV1 = [2]"
definition KeyPrefixTransientBlockGasWanted :: bytes where "KeyPrefixTransientBlockGasWanted = [1]"

definition ZeroDec :: "'d fm_sdk \<Rightarrow> 'd" where "ZeroDec F = NewDec (decs F) 0"
definition OneDec :: "'d fm_sdk \<Rightarrow> 'd" where "OneDec F = NewDec (decs F) 1"

definition IsBaseFeeEnabled :: "'d fm_Params \<Rightarrow> int \<Rightarrow> bool" where
  "IsBaseFeeEnabled p height = (\<not> NoBaseFee p \<and> height \<ge> EnableHeight p)"

definition validateMinGasMultiplier :: "'d fm_sdk \<Rightarrow> 'd option \<Rightarrow> (string, unit) outcome" where
  "validateMinGasMultiplier F i =
     (case i of
        None \<Rightarrow> Err ''invalid parameter: nil''
      | Some v \<Rightarrow>
          if IsNegative (decs F) v then Err ''value cannot be negative''
          else if Dec_GT (decs F) v (OneDec F) then Err ''value cannot be greater than 1''
          else Ok ())"

definition validateMinGasPrice :: "'d fm_sdk \<Rightarrow> 'd option \<Rightarrow> (string, unit) outcome" where
  "validateMinGasPrice F i =
     (case i of
        None \<Rightarrow> Err ''invalid parameter: nil''
      | Some v \<Rightarrow> if IsNegative (decs F) v then Err ''value cannot be negative'' else Ok ())"

text \<open>\<open>IsNegative\<close> of a nil \<open>sdk.Int\<close> dereferences a nil pointer.\<close>

definition fm_Validate :: "'d fm_sdk \<Rightarrow> 'd fm_Params \<Rightarrow> (string, unit) outcome" where
  "fm_Validate F p =
     (if BaseFeeChangeDenominator p = 0 then Err ''base fee change denominator cannot be 0''
      else case BaseFee p of
        None \<Rightarrow> Panic
      | Some fee \<Rightarrow>
          if fee < 0 then Err ''initial base fee cannot be negative''
          else if EnableHeight p < 0 then Err ''enable height cannot be negative''
          else bind_outcome (validateMinGasMultiplier F (MinGasMultiplier p))
                 (\<lambda>_. validateMinGasPrice F (MinGasPrice p)))"

definition fm_GetParams :: "'d fm_sdk \<Rightarrow> 'd fm_Ctx \<Rightarrow> 'd fm_Params" where
  "fm_GetParams F c =
     (let bz = store_Get (fm_store c) ParamsKey;
          p = (if length bz = 0 then fm_legacy c else fmMustUnmarshal F bz);
          p1 = (if MinGasPrice p = None then p\<lparr>MinGasPrice := Some (ZeroDec F)\<rparr> else p)
      in if MinGasMultiplier p1 = None then p1\<lparr>MinGasMultiplier := Some (ZeroDec F)\<rparr> else p1)"

definition fm_SetParams :: "'d fm_sdk \<Rightarrow> 'd fm_Ctx \<Rightarrow> 'd fm_Params \<Rightarrow> (string, 'd fm_Ctx) outcome" where
  "fm_SetParams F c p =
     bind_outcome (fmMarshal F p) (\<lambda>bz. Ok (c\<lparr>fm_store := fmupd ParamsKey bz (fm_store c)\<rparr>))"

definition fm_UpdateParams ::
  "'d fm_sdk \<Rightarrow> string \<Rightarrow> 'd fm_Ctx \<Rightarrow> string \<Rightarrow> 'd fm_Params \<Rightarrow> (string, 'd fm_Ctx) outcome" where
  "fm_UpdateParams F authority c reqAuthority p =
     (if authority \<noteq> reqAuthority then Err ''invalid authority'' else fm_SetParams F c p)"

text \<open>\<open>ValidateBasic\<close> of \<open>MsgUpdateParams\<close>; \<open>validAddr\<close> is \<open>sdk.AccAddressFromBech32\<close> succeeding.\<close>

definition fm_ValidateBasic :: "'d fm_sdk \<Rightarrow> (string \<Rightarrow> bool) \<Rightarrow> string \<Rightarrow> 'd fm_Params \<Rightarrow> (string, unit) outcome" where
  "fm_ValidateBasic F validAddr authority p =
     (if \<not> validAddr authority then Err ''invalid authority address'' else fm_Validate F p)"

subsection \<open>Gas wanted\<close>

definition SetBlockGasWanted :: "'d fm_Ctx \<Rightarrow> uint64 \<Rightarrow> 'd fm_Ctx" where
  "SetBlockGasWanted c gas =
     c\<lparr>fm_store := fmupd KeyPrefixBlockGasWanted (Uint64ToBigEndian gas) (fm_store c)\<rparr>"

definition GetBlockGasWanted :: "'d fm_Ctx \<Rightarrow> uint64" where
  "GetBlockGasWanted c =
     (let bz = store_Get (fm_store c) KeyPrefixBlockGasWanted
      in if length bz = 0 then 0 else BigEndianToUint64 bz)"

definition GetTransientGasWanted :: "'d fm_Ctx \<Rightarrow> uint64" where
  "GetTransientGasWanted c =
     (let bz = store_Get (fm_transient c) KeyPrefixTransientBlockGasWanted
      in if length bz = 0 then 0 else BigEndianToUint64 bz)"

definition SetTransientBlockGasWanted :: "'d fm_Ctx \<Rightarrow> uint64 \<Rightarrow> 'd fm_Ctx" where
  "SetTransientBlockGasWanted c gasWanted =
     c\<lparr>fm_transient := fmupd KeyPrefixTransientBlockGasWanted (Uint64ToBigEndian gasWanted) (fm_transient c)\<rparr>"

definition AddTransientGasWanted :: "'d fm_Ctx \<Rightarrow> uint64 \<Rightarrow> (string, uint64 \<times> 'd fm_Ctx) outcome" where
  "AddTransientGasWanted c gasWanted =
     (let result = GetTransientGasWanted c + gasWanted
      in Ok (result, SetTransientBlockGasWanted c result))"

subsection \<open>The base fee\<close>

definition GetBaseFeeV1 :: "'d fm_Ctx \<Rightarrow> int option" where
  "GetBaseFeeV1 c =
     (let bz = store_Get (fm_store c) KeyPrefixBaseFeeV1
      in if length bz = 0 then None else Some (SetBytes bz))"

definition GetBaseFeeEnabled :: "'d fm_sdk \<Rightarrow> 'd fm_Ctx \<Rightarrow> bool" where
  "GetBaseFeeEnabled F c =
     (let p = fm_GetParams F c in \<not> NoBaseFee p \<and> fm_height c \<ge> EnableHeight p)"

definition fm_GetBaseFee :: "'d fm_sdk \<Rightarrow> 'd fm_Ctx \<Rightarrow> int option" where
  "fm_GetBaseFee F c =
     (let p = fm_GetParams F c
      in if NoBaseFee p then None
         else case BaseFee p of
                None \<Rightarrow> GetBaseFeeV1 c
              | Some fee \<Rightarrow> if fee = 0 then GetBaseFeeV1 c else Some fee)"

text \<open>A marshalling error is swallowed; the conversion to \<open>sdk.Int\<close> panics out of range.\<close>

definition SetBaseFee :: "'d fm_sdk \<Rightarrow> 'd fm_Ctx \<Rightarrow> int \<Rightarrow> 'd fm_Ctx option" where
  "SetBaseFee F c baseFee =
     (case fmNewIntFromBigInt F baseFee of
        None \<Rightarrow> None
      | Some fee \<Rightarrow>
          (case fm_SetParams F c ((fm_GetParams F c)\<lparr>BaseFee := Some fee\<rparr>) of
             Ok c' \<Rightarrow> Some c'
           | Err e \<Rightarrow> Some c
           | Panic \<Rightarrow> None))"

text \<open>
  The step from the parent's base fee, with the parent's gas used and target. \<open>big.Int.Div\<close>
  is Euclidean and panics on a zero divisor; the divisors here are not negative.
\<close>

definition big_Div :: "int \<Rightarrow> int \<Rightarrow> int option" where
  "big_Div x y = (if y = 0 then None else Some (if y > 0 then x div y else - (x div (- y))))"

definition next_base_fee :: "int \<Rightarrow> int \<Rightarrow> int \<Rightarrow> int \<Rightarrow> int \<Rightarrow> int option" where
  "next_base_fee parentBaseFee gasUsed target denominator minGasPrice =
     (if gasUsed = target then Some parentBaseFee
      else if gasUsed > target then
        do { y \<leftarrow> big_Div (parentBaseFee * (gasUsed - target)) target;
             x \<leftarrow> big_Div y denominator;
             Some (parentBaseFee + max x 1) }
      else
        do { y \<leftarrow> big_Div (parentBaseFee * (target - gasUsed)) target;
             x \<leftarrow> big_Div y denominator;
             Some (max (parentBaseFee - x) minGasPrice) })"

text \<open>The gas limit of the block: \<open>MaxGas\<close> unless it is nil or negative (unlimited).\<close>

definition gasLimit :: "'d fm_Ctx \<Rightarrow> int" where
  "gasLimit c =
     (case fm_maxGas c of
        Some g \<Rightarrow> if g > -1 then g else max_uint64
      | None \<Rightarrow> max_uint64)"

text \<open>The result is \<^const>\<open>None\<close> for a panic, \<open>Some None\<close> for nil.\<close>

definition CalculateBaseFee :: "'d fm_sdk \<Rightarrow> 'd fm_Ctx \<Rightarrow> int option option" where
  "CalculateBaseFee F c =
     (let p = fm_GetParams F c
      in if \<not> IsBaseFeeEnabled p (fm_height c) then Some None
         else if fm_height c = EnableHeight p then Some (BaseFee p)
         else case BaseFee p of
           None \<Rightarrow> Some None
         | Some parentBaseFee \<Rightarrow>
             let parentGasUsed = GetBlockGasWanted c
             in case big_Div (gasLimit c) (uint (ElasticityMultiplier p)) of
                  None \<Rightarrow> None
                | Some target \<Rightarrow>
                    if \<not> (0 \<le> target \<and> target \<le> max_uint64) then Some None
                    else map_option Some (next_base_fee parentBaseFee (uint parentGasUsed) target
                           (uint (BaseFeeChangeDenominator p))
                           (TruncateInt (decs F) (the (MinGasPrice p)))))"

subsection \<open>Block hooks and genesis\<close>

definition fm_BeginBlock :: "'d fm_sdk \<Rightarrow> 'd fm_Ctx \<Rightarrow> 'd fm_Ctx option" where
  "fm_BeginBlock F c =
     (case CalculateBaseFee F c of
        None \<Rightarrow> None
      | Some None \<Rightarrow> Some c
      | Some (Some baseFee) \<Rightarrow> SetBaseFee F c baseFee)"

text \<open>\<open>Uint64\<close> of an \<open>sdk.Int\<close> out of the range of \<open>uint64\<close> panics.\<close>

definition fm_EndBlock :: "'d fm_sdk \<Rightarrow> 'd fm_Ctx \<Rightarrow> 'd fm_Ctx option" where
  "fm_EndBlock F c =
     (case fm_blockGas c of
        None \<Rightarrow> Some c
      | Some used \<Rightarrow>
          let gasWanted = uint (GetTransientGasWanted c); gasUsed = uint used
          in if gasWanted > max_int64 then Some c
             else if gasUsed > max_int64 then Some c
             else do {
               limitedGasWanted \<leftarrow> Dec_Mul (decs F) (NewDec (decs F) gasWanted)
                 (the (MinGasMultiplier (fm_GetParams F c)));
               let updated = TruncateInt (decs F) (MaxDec (decs F) limitedGasWanted (NewDec (decs F) gasUsed));
               if 0 \<le> updated \<and> updated \<le> max_uint64
               then Some (SetBlockGasWanted c (word_of_int updated)) else None })"

record 'd fm_GenesisState =
  gs_Params :: "'d fm_Params"
  gs_BlockGas :: uint64

definition fm_GenesisValidate :: "'d fm_sdk \<Rightarrow> 'd fm_GenesisState \<Rightarrow> (string, unit) outcome" where
  "fm_GenesisValidate F gs = fm_Validate F (gs_Params gs)"

definition fm_InitGenesis :: "'d fm_sdk \<Rightarrow> 'd fm_Ctx \<Rightarrow> 'd fm_GenesisState \<Rightarrow> 'd fm_Ctx option" where
  "fm_InitGenesis F c data =
     (case fm_SetParams F c (gs_Params data) of
        Ok c1 \<Rightarrow> Some (SetBlockGasWanted c1 (gs_BlockGas data))
      | _ \<Rightarrow> None)"

definition fm_ExportGenesis :: "'d fm_sdk \<Rightarrow> 'd fm_Ctx \<Rightarrow> 'd fm_GenesisState" where
  "fm_ExportGenesis F c = \<lparr>gs_Params = fm_GetParams F c, gs_BlockGas = GetBlockGasWanted c\<rparr>"

subsection \<open>The step of the base fee\<close>

lemma big_Div_pos [simp]: "0 < y \<Longrightarrow> big_Div x y = Some (x div y)"
  by (simp add: big_Div_def)

lemma big_Div_zero [simp]: "big_Div x 0 = None"
  by (simp add: big_Div_def)

text \<open>
  The reference formula of EIP-1559: the fee moves by the fraction of the target the block was
  over or under it, divided by the change denominator and rounded down, by at least one unit
  upwards and down to the minimum gas price downwards.
\<close>

definition eip1559 :: "int \<Rightarrow> int \<Rightarrow> int \<Rightarrow> int \<Rightarrow> int \<Rightarrow> int" where
  "eip1559 fee used target denom minPrice =
     (let delta = (\<lambda>gap. \<lfloor>of_int fee * of_int gap / of_int target / of_int denom :: rat\<rfloor>)
      in if used = target then fee
         else if used > target then fee + max (delta (used - target)) 1
         else max (fee - delta (target - used)) minPrice)"

lemma floor_two_divs: "0 < t \<Longrightarrow> 0 < d \<Longrightarrow> \<lfloor>of_int x / of_int t / of_int d :: rat\<rfloor> = x div t div d"
proof -
  assume "0 < t" "0 < d"
  then have "\<lfloor>of_int x / of_int t / of_int d :: rat\<rfloor> = \<lfloor>of_int x / of_int (t * d) :: rat\<rfloor>" by simp
  also have "\<dots> = x div (t * d)" by (rule floor_divide_of_int_eq)
  also have "\<dots> = x div t div d" using \<open>0 < t\<close> by (simp add: zdiv_zmult2_eq \<open>0 < d\<close> less_imp_le)
  finally show ?thesis .
qed

lemma next_base_fee_eq:
  assumes "0 < target" "0 < denom"
  shows "next_base_fee fee used target denom minPrice = Some (eip1559 fee used target denom minPrice)"
  using assms floor_two_divs [of target denom "fee * (used - target)"]
    floor_two_divs [of target denom "fee * (target - used)"]
  by (simp add: next_base_fee_def eip1559_def Let_def)

lemma eip1559_divs:
  assumes "0 < target" "0 < denom"
  shows "eip1559 fee used target denom minPrice =
    (if used = target then fee
     else if used > target then fee + max (fee * (used - target) div target div denom) 1
     else max (fee - fee * (target - used) div target div denom) minPrice)"
  using assms floor_two_divs [of target denom "fee * (used - target)"]
    floor_two_divs [of target denom "fee * (target - used)"]
  by (simp add: eip1559_def Let_def)

lemma div_mono_2: "a \<le> b \<Longrightarrow> 0 < t \<Longrightarrow> 0 < d \<Longrightarrow> a div t div d \<le> b div t div (d :: int)"
  by (intro zdiv_mono1) auto

lemma eip1559_mono:
  assumes fee: "0 \<le> fee" "minPrice \<le> fee" and pos: "0 < target" "0 < denom" and le: "u \<le> v"
  shows "eip1559 fee u target denom minPrice \<le> eip1559 fee v target denom minPrice"
proof -
  let ?up = "\<lambda>w. fee * (w - target) div target div denom"
  let ?down = "\<lambda>w. fee * (target - w) div target div denom"
  have nonneg: "w \<le> target \<Longrightarrow> 0 \<le> ?down w" for w using fee pos by (simp add: pos_imp_zdiv_nonneg_iff)
  have "fee * (u - target) \<le> fee * (v - target)" "fee * (target - v) \<le> fee * (target - u)"
    using fee le by (auto intro: mult_left_mono)
  then have "?up u \<le> ?up v" "?down v \<le> ?down u" using pos by (auto intro: div_mono_2)
  then show ?thesis
    using nonneg [of u] nonneg [of v] fee le unfolding eip1559_divs [OF pos] by auto
qed

lemma down_le: "0 \<le> fee \<Longrightarrow> 0 \<le> gap \<Longrightarrow> gap \<le> target \<Longrightarrow> 0 < target \<Longrightarrow> 0 < denom \<Longrightarrow>
    fee * gap div target div denom \<le> fee div (denom :: int)"
proof -
  assume a: "0 \<le> fee" "0 \<le> gap" "gap \<le> target" "0 < target" "0 < denom"
  then have "fee * gap \<le> fee * target" by (simp add: mult_left_mono)
  then have "fee * gap div target div denom \<le> fee * target div target div denom"
    using a by (intro div_mono_2)
  then show ?thesis using a by simp
qed

lemma eip1559_bounds:
  assumes fee: "0 \<le> fee" and pos: "0 < target" "0 < denom" and used: "0 \<le> used" "used \<le> 2 * target"
    and price: "minPrice \<le> fee"
  shows "fee - fee div denom \<le> eip1559 fee used target denom minPrice \<and>
    eip1559 fee used target denom minPrice \<le> fee + max (fee div denom) 1"
proof -
  have nn: "0 \<le> fee div denom" using fee pos by (simp add: pos_imp_zdiv_nonneg_iff)
  have "used > target \<Longrightarrow> fee * (used - target) div target div denom \<le> fee div denom"
    "used < target \<Longrightarrow> fee * (target - used) div target div denom \<le> fee div denom"
    "used < target \<Longrightarrow> 0 \<le> fee * (target - used) div target div denom"
    using fee pos used by (auto intro: down_le simp: pos_imp_zdiv_nonneg_iff)
  then show ?thesis using nn fee price unfolding eip1559_divs [OF pos] by auto
qed

subsection \<open>Laws of the codec and the decimals\<close>

text \<open>
  What the module relies on: unmarshalling gives back what was marshalled, and \<open>sdk.Dec\<close>
  computes with the value \<open>val\<close> of a decimal, exactly when one factor is an integer.
\<close>

definition codec_laws :: "'d fm_sdk \<Rightarrow> bool" where
  "codec_laws F \<longleftrightarrow>
     (\<forall>p bz. fmMarshal F p = Ok bz \<longrightarrow> bz \<noteq> [] \<and> fmMustUnmarshal F bz = p) \<and>
     (\<forall>n m. fmNewIntFromBigInt F n = Some m \<longrightarrow> m = n)"

definition dec_laws :: "'d dec_ops \<Rightarrow> ('d \<Rightarrow> rat) \<Rightarrow> bool" where
  "dec_laws Q val \<longleftrightarrow>
     (\<forall>n. val (NewDec Q n) = of_int n) \<and>
     (\<forall>n d p. Dec_Mul Q (NewDec Q n) d = Some p \<longrightarrow> val p = of_int n * val d) \<and>
     (\<forall>n d. 0 \<le> n \<longrightarrow> n \<le> max_uint64 \<longrightarrow> 0 \<le> val d \<longrightarrow> val d \<le> 1 \<longrightarrow> Dec_Mul Q (NewDec Q n) d \<noteq> None) \<and>
     (\<forall>a b. val (MaxDec Q a b) = max (val a) (val b)) \<and>
     (\<forall>d. 0 \<le> val d \<longrightarrow> TruncateInt Q d = \<lfloor>val d\<rfloor>) \<and>
     (\<forall>d. IsNegative Q d \<longleftrightarrow> val d < 0) \<and>
     (\<forall>a b. Dec_GT Q a b \<longleftrightarrow> val b < val a)"

lemma fm_Validate_Ok_iff:
  assumes "dec_laws (decs F) val"
  shows "fm_Validate F p = Ok () \<longleftrightarrow>
    BaseFeeChangeDenominator p \<noteq> 0 \<and> (\<exists>fee. BaseFee p = Some fee \<and> 0 \<le> fee) \<and> 0 \<le> EnableHeight p \<and>
    (\<exists>m. MinGasMultiplier p = Some m \<and> 0 \<le> val m \<and> val m \<le> 1) \<and>
    (\<exists>g. MinGasPrice p = Some g \<and> 0 \<le> val g)"
proof -
  have "IsNegative (decs F) d \<longleftrightarrow> val d < 0" "Dec_GT (decs F) d (OneDec F) \<longleftrightarrow> 1 < val d" for d
    using assms by (simp_all add: dec_laws_def OneDec_def)
  then show ?thesis
    by (cases "BaseFee p"; cases "MinGasMultiplier p"; cases "MinGasPrice p")
      (simp_all add: fm_Validate_def validateMinGasMultiplier_def validateMinGasPrice_def not_less)
qed

lemma ParamsKey_distinct [simp]: "ParamsKey \<noteq> KeyPrefixBlockGasWanted" "KeyPrefixBlockGasWanted \<noteq> ParamsKey"
  by (simp_all add: ParamsKey_def KeyPrefixBlockGasWanted_def)

lemma fm_GetParams_cong:
  "store_Get (fm_store c') ParamsKey = store_Get (fm_store c) ParamsKey \<Longrightarrow> fm_legacy c' = fm_legacy c \<Longrightarrow>
    fm_GetParams F c' = fm_GetParams F c"
  by (simp only: fm_GetParams_def)

lemma fm_GetParams_frame [simp]:
  "fm_GetParams F (SetBlockGasWanted c g) = fm_GetParams F c"
  "fm_GetParams F (SetTransientBlockGasWanted c g) = fm_GetParams F c"
  by (rule fm_GetParams_cong; simp add: SetBlockGasWanted_def SetTransientBlockGasWanted_def store_Get_def)+

lemma fm_GetParams_total:
  "MinGasPrice (fm_GetParams F c) \<noteq> None" "MinGasMultiplier (fm_GetParams F c) \<noteq> None"
  by (auto simp: fm_GetParams_def Let_def)

lemma fm_GetParams_SetParams:
  assumes "codec_laws F" "fm_SetParams F c p = Ok c'" "MinGasPrice p \<noteq> None" "MinGasMultiplier p \<noteq> None"
  shows "fm_GetParams F c' = p"
  using assms by (auto simp: fm_SetParams_def fm_GetParams_def codec_laws_def store_Get_def Let_def)

lemma gas_wanted_roundtrip [simp]:
  "GetBlockGasWanted (SetBlockGasWanted c g) = g"
  "GetTransientGasWanted (SetTransientBlockGasWanted c g) = g"
  "GetBlockGasWanted (SetTransientBlockGasWanted c g) = GetBlockGasWanted c"
  by (simp_all add: GetBlockGasWanted_def SetBlockGasWanted_def GetTransientGasWanted_def
      SetTransientBlockGasWanted_def store_Get_def)

subsection \<open>The base fee of a block\<close>

text \<open>\<open>MaxGas\<close> is an \<open>int64\<close>.\<close>

definition fm_ctx_ok :: "'d fm_Ctx \<Rightarrow> bool" where
  "fm_ctx_ok c = (case fm_maxGas c of None \<Rightarrow> True | Some g \<Rightarrow> - 9223372036854775808 \<le> g \<and> g \<le> max_int64)"

text \<open>The base fee is computed for this block: it is enabled, past its first block, and set.\<close>

definition fee_running :: "'d fm_sdk \<Rightarrow> 'd fm_Ctx \<Rightarrow> bool" where
  "fee_running F c =
     (let p = fm_GetParams F c
      in IsBaseFeeEnabled p (fm_height c) \<and> fm_height c \<noteq> EnableHeight p \<and> BaseFee p \<noteq> None)"

definition gasTarget :: "'d fm_sdk \<Rightarrow> 'd fm_Ctx \<Rightarrow> int" where
  "gasTarget F c = gasLimit c div uint (ElasticityMultiplier (fm_GetParams F c))"

lemma gasLimit_range: "fm_ctx_ok c \<Longrightarrow> 0 \<le> gasLimit c \<and> gasLimit c \<le> max_uint64"
  by (auto simp: gasLimit_def fm_ctx_ok_def split: option.splits)

lemma uint_pos_iff: "0 < uint w \<longleftrightarrow> w \<noteq> 0"
  by (metis less_le unsigned_eq_0_iff uint_ge_0)

lemma gasTarget_range:
  assumes "fm_ctx_ok c" "ElasticityMultiplier (fm_GetParams F c) \<noteq> 0"
  shows "0 \<le> gasTarget F c \<and> gasTarget F c \<le> max_uint64"
proof -
  let ?e = "uint (ElasticityMultiplier (fm_GetParams F c))"
  have "0 < ?e" using assms(2) by (simp add: uint_pos_iff)
  moreover have "gasLimit c div ?e \<le> gasLimit c" using \<open>0 < ?e\<close> gasLimit_range [OF assms(1)]
    by (metis zdiv_mono2 div_by_1 int_one_le_iff_zero_less zero_less_one)
  ultimately show ?thesis using gasLimit_range [OF assms(1)]
    by (auto simp: gasTarget_def pos_imp_zdiv_nonneg_iff)
qed

lemma CalculateBaseFee_running:
  assumes "fm_ctx_ok c" "fee_running F c"
  shows "CalculateBaseFee F c =
    (let p = fm_GetParams F c
     in if ElasticityMultiplier p = 0 then None
        else map_option Some (next_base_fee (the (BaseFee p)) (uint (GetBlockGasWanted c)) (gasTarget F c)
               (uint (BaseFeeChangeDenominator p)) (TruncateInt (decs F) (the (MinGasPrice p)))))"
proof (cases "ElasticityMultiplier (fm_GetParams F c) = 0")
  case True
  with assms show ?thesis by (auto simp: CalculateBaseFee_def fee_running_def Let_def)
next
  case False
  then have "big_Div (gasLimit c) (uint (ElasticityMultiplier (fm_GetParams F c))) = Some (gasTarget F c)"
    by (simp add: uint_pos_iff gasTarget_def)
  with assms False gasTarget_range [OF assms(1) False] show ?thesis
    by (auto simp: CalculateBaseFee_def fee_running_def Let_def)
qed

lemma CalculateBaseFee_not_running:
  "\<not> fee_running F c \<Longrightarrow> CalculateBaseFee F c \<noteq> None"
  by (auto simp: CalculateBaseFee_def fee_running_def Let_def split: option.splits)

lemma next_base_fee_None_iff:
  assumes "0 \<le> target" "0 \<le> used" "0 \<le> denom"
  shows "next_base_fee fee used target denom minPrice = None \<longleftrightarrow>
    used \<noteq> target \<and> (target = 0 \<or> denom = 0)"
  using assms by (auto simp: next_base_fee_def big_Div_def split: bind_splits)

lemma fm_BeginBlock_stores:
  assumes laws: "codec_laws F" and fee: "CalculateBaseFee F c = Some (Some fee)"
    and int: "fmNewIntFromBigInt F fee \<noteq> None"
    and ok: "is_ok (fmMarshal F ((fm_GetParams F c)\<lparr>BaseFee := Some fee\<rparr>))"
  shows "\<exists>c'. fm_BeginBlock F c = Some c' \<and>
    fm_GetParams F c' = (fm_GetParams F c)\<lparr>BaseFee := Some fee\<rparr> \<and>
    GetBlockGasWanted c' = GetBlockGasWanted c"
proof -
  let ?p = "(fm_GetParams F c)\<lparr>BaseFee := Some fee\<rparr>"
  have int': "fmNewIntFromBigInt F fee = Some fee" using laws int by (auto simp: codec_laws_def)
  obtain bz where bz: "fmMarshal F ?p = Ok bz" using ok by (auto simp: is_ok_iff)
  let ?c = "c\<lparr>fm_store := fmupd ParamsKey bz (fm_store c)\<rparr>"
  have set: "fm_SetParams F c ?p = Ok ?c" using bz by (simp add: fm_SetParams_def)
  have "fm_GetParams F ?c = ?p"
    by (rule fm_GetParams_SetParams [OF laws set]) (use fm_GetParams_total [of F c] in auto)
  moreover have "GetBlockGasWanted ?c = GetBlockGasWanted c"
    by (simp add: GetBlockGasWanted_def store_Get_def)
  moreover have "fm_BeginBlock F c = Some ?c"
    using fee int' set by (simp add: fm_BeginBlock_def SetBaseFee_def)
  ultimately show ?thesis by blast
qed

lemma fm_EndBlock_correct:
  assumes dec: "dec_laws (decs F) val" and meter: "fm_blockGas c = Some used"
    and small: "uint (GetTransientGasWanted c) \<le> max_int64" "uint used \<le> max_int64"
    and mult: "MinGasMultiplier (fm_GetParams F c) = Some m" "0 \<le> val m" "val m \<le> 1"
  shows "\<exists>c'. fm_EndBlock F c = Some c' \<and> fm_GetParams F c' = fm_GetParams F c \<and>
    uint (GetBlockGasWanted c') =
      max \<lfloor>of_int (uint (GetTransientGasWanted c)) * val m\<rfloor> (uint used)"
proof -
  let ?D = "decs F"
  define w u where "w = uint (GetTransientGasWanted c)" and "u = uint used"
  note wu = w_def [symmetric] u_def [symmetric]
  have w: "0 \<le> w" "w \<le> max_int64" and u: "0 \<le> u" "u \<le> max_int64"
    using small by (auto simp: w_def u_def)
  obtain l where l: "Dec_Mul ?D (NewDec ?D w) m = Some l"
    using dec w mult by (force simp: dec_laws_def)
  then have val_l: "val l = of_int w * val m" using dec by (auto simp: dec_laws_def)
  define g where "g = MaxDec ?D l (NewDec ?D u)"
  have val_g: "val g = max (of_int w * val m) (of_int u)" using dec val_l by (auto simp: dec_laws_def g_def)
  have "0 \<le> val g" using val_g u by (simp add: le_max_iff_disj)
  then have tr: "TruncateInt ?D g = \<lfloor>val g\<rfloor>" using dec by (auto simp: dec_laws_def)
  have "\<lfloor>val g\<rfloor> = max \<lfloor>of_int w * val m\<rfloor> u"
    unfolding val_g max_def by (auto simp: le_floor_iff floor_le_iff not_le intro: floor_unique)
  moreover have "of_int w * val m \<le> of_int w"
    using mult(3) w(1) by (metis mult.right_neutral mult_left_mono of_int_0_le_iff)
  then have "\<lfloor>of_int w * val m\<rfloor> \<le> w" by (metis floor_mono floor_of_int)
  ultimately have "TruncateInt ?D g = max \<lfloor>of_int w * val m\<rfloor> u" "max \<lfloor>of_int w * val m\<rfloor> u \<le> max_uint64"
    "0 \<le> max \<lfloor>of_int w * val m\<rfloor> u"
    using tr u w by (simp, linarith, linarith)
  then have g: "TruncateInt ?D g = max \<lfloor>of_int w * val m\<rfloor> u" "TruncateInt ?D g \<le> max_uint64"
    "0 \<le> TruncateInt ?D g" by metis+
  have "fm_EndBlock F c = Some (SetBlockGasWanted c (word_of_int (TruncateInt ?D g)))"
    using meter w u l g(2,3) mult(1) by (simp add: fm_EndBlock_def Let_def g_def wu)
  moreover have "uint (word_of_int (TruncateInt ?D g) :: uint64) = TruncateInt ?D g"
    using g(2,3) by (simp add: uint_word_of_int)
  ultimately show ?thesis using g(1) unfolding wu by simp
qed

subsection \<open>An instance\<close>

text \<open>
  Decimals as integers scaled by \<open>10^18\<close>, a codec for two parameter sets, and a block whose
  parent used 30 million gas of a limit of 40 million.
\<close>

definition fixed_point :: "int dec_ops" where
  "fixed_point =
     \<lparr>NewDec = (\<lambda>n. n * 10 ^ 18), Dec_Mul = (\<lambda>a b. Some (a * b div 10 ^ 18)), MaxDec = max,
      TruncateInt = (\<lambda>a. a div 10 ^ 18), IsNegative = (\<lambda>a. a < 0), Dec_GT = (\<lambda>a b. b < a)\<rparr>"

lemma fixed_point_laws: "dec_laws fixed_point (\<lambda>d. of_int d / 10 ^ 18)"
proof -
  have mul: "(of_int (n * 10 ^ 18 * d div 10 ^ 18) / 10 ^ 18 :: rat) = of_int n * (of_int d / 10 ^ 18)" for n d :: int
  proof -
    have "n * 10 ^ 18 * d div 10 ^ 18 = n * d"
      by (metis mult.assoc mult.commute nonzero_mult_div_cancel_left power_not_zero zero_neq_numeral)
    then show ?thesis by simp
  qed
  have trunc: "d div 10 ^ 18 = \<lfloor>of_int d / 10 ^ 18 :: rat\<rfloor>" for d :: int
    using floor_divide_of_int_eq [of d "10 ^ 18", where ?'a = rat] by simp
  have max: "(of_int (max a b) / 10 ^ 18 :: rat) = max (of_int a / 10 ^ 18) (of_int b / 10 ^ 18)" for a b :: int
    by (simp add: max_def divide_right_mono)
  show ?thesis
    unfolding dec_laws_def fixed_point_def dec_ops.simps
  proof (intro conjI allI impI, goal_cases)
    case (2 n d p)
    then show ?case using mul by auto
  next
    case (5 d)
    then show ?case using trunc by blast
  qed (auto simp: mul max divide_less_cancel simp del: of_int_max)
qed

definition sample_params :: "int fm_Params" where
  "sample_params =
     \<lparr>NoBaseFee = False, BaseFeeChangeDenominator = 8, ElasticityMultiplier = 2,
      BaseFee = Some 1000000000, EnableHeight = 0, MinGasPrice = Some 0,
      MinGasMultiplier = Some 500000000000000000\<rparr>"

definition sample_sdk :: "int fm_sdk" where
  "sample_sdk =
     \<lparr>decs = fixed_point,
      fmMarshal = (\<lambda>p. if p = sample_params then Ok [1]
        else if p = sample_params\<lparr>BaseFee := Some 1062500000\<rparr> then Ok [2] else Err ''unknown''),
      fmMustUnmarshal = (\<lambda>bz. if bz = [2] then sample_params\<lparr>BaseFee := Some 1062500000\<rparr> else sample_params),
      fmNewIntFromBigInt = (\<lambda>n. Some n)\<rparr>"

definition sample_ctx :: "int fm_Ctx" where
  "sample_ctx =
     \<lparr>fm_store = fmupd KeyPrefixBlockGasWanted (Uint64ToBigEndian 30000000) fmempty,
      fm_transient = fmupd KeyPrefixTransientBlockGasWanted (Uint64ToBigEndian 50000000) fmempty,
      fm_legacy = sample_params, fm_height = 7, fm_maxGas = Some 40000000, fm_blockGas = Some 21000\<rparr>"

lemma sample_GetParams [simp]: "fm_GetParams sample_sdk sample_ctx = sample_params"
  by (simp add: fm_GetParams_def sample_ctx_def store_Get_def sample_params_def Let_def)

lemma sample_wanted [simp]: "GetBlockGasWanted sample_ctx = 30000000"
  "GetTransientGasWanted sample_ctx = 50000000"
  by (simp_all add: GetBlockGasWanted_def GetTransientGasWanted_def sample_ctx_def store_Get_def)

lemma sample_ctx_fields [simp]:
  "fm_height sample_ctx = 7" "fm_maxGas sample_ctx = Some 40000000" "fm_blockGas sample_ctx = Some 21000"
  "decs sample_sdk = fixed_point"
  by (simp_all add: sample_ctx_def sample_sdk_def)

lemma sample_fields [simp]:
  "fm_ctx_ok sample_ctx" "fee_running sample_sdk sample_ctx"
  "gasLimit sample_ctx = 40000000" "gasTarget sample_sdk sample_ctx = 20000000"
  by (simp_all add: fm_ctx_ok_def fee_running_def IsBaseFeeEnabled_def gasTarget_def gasLimit_def)
    (simp_all add: sample_params_def)

lemma sample_codec: "codec_laws sample_sdk"
  by (simp add: codec_laws_def sample_sdk_def sample_params_def)

subsection \<open>Properties\<close>

text \<open>C4. Past its first block and with parameters that are not degenerate, the base fee of a
  block is the EIP-1559 formula applied to the parent's base fee, the gas the parent block
  wanted, the gas target (block gas limit over elasticity) and the change denominator, and
  never falls below the minimum gas price.\<close>
theorem base_fee_eip1559:
  assumes ctx: "fm_ctx_ok c" and run: "fee_running F c"
    and params: "p = fm_GetParams F c" "ElasticityMultiplier p \<noteq> 0" "BaseFeeChangeDenominator p \<noteq> 0"
    and target: "0 < gasTarget F c"
  shows "CalculateBaseFee F c =
    Some (Some (eip1559 (the (BaseFee p)) (uint (GetBlockGasWanted c)) (gasTarget F c)
      (uint (BaseFeeChangeDenominator p)) (TruncateInt (decs F) (the (MinGasPrice p)))))"
  using assms by (simp add: CalculateBaseFee_running Let_def next_base_fee_eq uint_pos_iff)

theorem base_fee_eip1559_witness:
  "CalculateBaseFee sample_sdk sample_ctx =
     Some (Some (eip1559 1000000000 30000000 20000000 8 0)) \<and>
   eip1559 1000000000 30000000 20000000 8 0 = 1062500000"
proof
  show "CalculateBaseFee sample_sdk sample_ctx = Some (Some (eip1559 1000000000 30000000 20000000 8 0))"
    using base_fee_eip1559 [of sample_ctx sample_sdk sample_params]
    by (simp add: sample_params_def fixed_point_def)
  show "eip1559 1000000000 30000000 20000000 8 0 = 1062500000" by (simp add: eip1559_divs)
qed

text \<open>C5. \<open>CalculateBaseFee\<close> panics exactly when the base fee is to be computed and the elasticity
  multiplier is zero, or the gas wanted is off the target and the target or the change
  denominator is zero. The validation of the parameters excludes only the last of these.\<close>
theorem base_fee_panics_iff:
  assumes "fm_ctx_ok c" "p = fm_GetParams F c"
  shows "CalculateBaseFee F c = None \<longleftrightarrow>
    fee_running F c \<and>
    (ElasticityMultiplier p = 0 \<or>
     uint (GetBlockGasWanted c) \<noteq> gasTarget F c \<and>
       (gasTarget F c = 0 \<or> BaseFeeChangeDenominator p = 0))"
proof (cases "fee_running F c")
  case True
  with assms gasTarget_range [OF assms(1), of F] show ?thesis
    by (auto simp: CalculateBaseFee_running Let_def next_base_fee_None_iff unsigned_eq_0_iff)
qed (simp add: CalculateBaseFee_not_running)

theorem base_fee_panics_iff_witness:
  "CalculateBaseFee sample_sdk (sample_ctx\<lparr>fm_legacy := sample_params\<lparr>ElasticityMultiplier := 0\<rparr>\<rparr>) = None \<and>
   fm_Validate sample_sdk (sample_params\<lparr>ElasticityMultiplier := 0\<rparr>) = Ok ()"
proof
  let ?p = "sample_params\<lparr>ElasticityMultiplier := 0\<rparr>" and ?c = "sample_ctx\<lparr>fm_legacy := sample_params\<lparr>ElasticityMultiplier := 0\<rparr>\<rparr>"
  have "fm_GetParams sample_sdk ?c = ?p"
    by (simp add: fm_GetParams_def sample_ctx_def store_Get_def sample_params_def Let_def)
  then show "CalculateBaseFee sample_sdk ?c = None"
    using base_fee_panics_iff [of ?c ?p sample_sdk]
    by (simp add: fee_running_def IsBaseFeeEnabled_def fm_ctx_ok_def) (simp add: sample_ctx_def sample_params_def)
  show "fm_Validate sample_sdk ?p = Ok ()"
    by (simp add: fm_Validate_def validateMinGasMultiplier_def validateMinGasPrice_def sample_params_def
        sample_sdk_def fixed_point_def OneDec_def)
qed

text \<open>More gas wanted by the parent block never gives a lower base fee: for the same
  parameters and limits, the computed fee is monotone in the gas wanted.\<close>
theorem base_fee_monotone:
  assumes "fm_ctx_ok c" "fee_running F c" "p = fm_GetParams F c" "ElasticityMultiplier p \<noteq> 0"
    "BaseFeeChangeDenominator p \<noteq> 0" "0 < gasTarget F c" "0 \<le> the (BaseFee p)"
    "TruncateInt (decs F) (the (MinGasPrice p)) \<le> the (BaseFee p)"
    and le: "GetBlockGasWanted c \<le> g"
  shows "\<exists>f f'. CalculateBaseFee F c = Some (Some f) \<and>
    CalculateBaseFee F (SetBlockGasWanted c g) = Some (Some f') \<and> f \<le> f'"
proof -
  let ?c = "SetBlockGasWanted c g"
  have same: "fm_ctx_ok ?c" "fee_running F ?c" "gasTarget F ?c = gasTarget F c"
    using assms by (simp_all add: fm_ctx_ok_def fee_running_def gasTarget_def gasLimit_def)
      (simp_all add: SetBlockGasWanted_def)
  have "uint (GetBlockGasWanted c) \<le> uint g" using le by (simp add: word_le_def)
  then show ?thesis
    using assms same eip1559_mono
    by (simp add: CalculateBaseFee_running Let_def next_base_fee_eq uint_pos_iff)
qed

theorem base_fee_monotone_witness:
  "\<exists>f f'. CalculateBaseFee sample_sdk sample_ctx = Some (Some f) \<and>
    CalculateBaseFee sample_sdk (SetBlockGasWanted sample_ctx 40000000) = Some (Some f') \<and> f \<le> f'"
  by (rule base_fee_monotone [where p = sample_params])
    (simp_all add: sample_params_def fixed_point_def)

text \<open>One block changes the base fee by at most one part in the change denominator (or one
  unit upwards): for a parent that wanted at most twice its target, as with the default
  elasticity, the new fee lies between \<open>fee - fee/d\<close> and \<open>fee + max (fee/d) 1\<close>.\<close>
theorem base_fee_bounded_change:
  assumes "fm_ctx_ok c" "fee_running F c" "p = fm_GetParams F c" "ElasticityMultiplier p \<noteq> 0"
    "d = uint (BaseFeeChangeDenominator p)" "d \<noteq> 0" "0 < gasTarget F c" "fee = the (BaseFee p)" "0 \<le> fee"
    "TruncateInt (decs F) (the (MinGasPrice p)) \<le> fee"
    "uint (GetBlockGasWanted c) \<le> 2 * gasTarget F c"
  shows "\<exists>f. CalculateBaseFee F c = Some (Some f) \<and> fee - fee div d \<le> f \<and> f \<le> fee + max (fee div d) 1"
proof -
  have "0 < d" using assms(5,6) uint_ge_0 [of "BaseFeeChangeDenominator p"] by linarith
  with assms eip1559_bounds [of fee "gasTarget F c" d "uint (GetBlockGasWanted c)"
      "TruncateInt (decs F) (the (MinGasPrice p))"] show ?thesis
    by (simp add: CalculateBaseFee_running Let_def next_base_fee_eq)
qed

theorem base_fee_bounded_change_witness:
  "\<exists>f. CalculateBaseFee sample_sdk sample_ctx = Some (Some f) \<and>
     1000000000 - 1000000000 div 8 \<le> f \<and> f \<le> 1000000000 + max (1000000000 div 8) 1"
  by (rule base_fee_bounded_change [where p = sample_params])
    (simp_all add: sample_params_def fixed_point_def)

text \<open>\<open>BeginBlock\<close> stores the computed base fee: afterwards the keeper returns it as the
  base fee of the block (a zero fee falls back to the old store format), and the other
  parameters and the gas wanted are unchanged.\<close>
theorem begin_block_sets_base_fee:
  assumes "codec_laws F" "CalculateBaseFee F c = Some (Some fee)" "fee \<noteq> 0"
    "fmNewIntFromBigInt F fee \<noteq> None" "is_ok (fmMarshal F ((fm_GetParams F c)\<lparr>BaseFee := Some fee\<rparr>))"
  shows "\<exists>c'. fm_BeginBlock F c = Some c' \<and> fm_GetBaseFee F c' = Some fee \<and>
    fm_GetParams F c' = (fm_GetParams F c)\<lparr>BaseFee := Some fee\<rparr> \<and>
    GetBlockGasWanted c' = GetBlockGasWanted c"
proof -
  have "\<not> NoBaseFee (fm_GetParams F c)"
    using assms(2) by (auto simp: CalculateBaseFee_def IsBaseFeeEnabled_def Let_def split: if_splits)
  moreover obtain c' where "fm_BeginBlock F c = Some c'"
    "fm_GetParams F c' = (fm_GetParams F c)\<lparr>BaseFee := Some fee\<rparr>"
    "GetBlockGasWanted c' = GetBlockGasWanted c"
    using fm_BeginBlock_stores [OF assms(1,2,4,5)] by blast
  ultimately show ?thesis using assms(3) by (simp add: fm_GetBaseFee_def Let_def)
qed

theorem begin_block_sets_base_fee_witness:
  "\<exists>c'. fm_BeginBlock sample_sdk sample_ctx = Some c' \<and> fm_GetBaseFee sample_sdk c' = Some 1062500000 \<and>
    fm_GetParams sample_sdk c' = (fm_GetParams sample_sdk sample_ctx)\<lparr>BaseFee := Some 1062500000\<rparr> \<and>
    GetBlockGasWanted c' = GetBlockGasWanted sample_ctx"
proof (rule begin_block_sets_base_fee [OF sample_codec])
  show "CalculateBaseFee sample_sdk sample_ctx = Some (Some 1062500000)"
    by (simp add: CalculateBaseFee_running Let_def next_base_fee_eq uint_pos_iff eip1559_divs
        sample_params_def fixed_point_def)
  show "is_ok (fmMarshal sample_sdk ((fm_GetParams sample_sdk sample_ctx)\<lparr>BaseFee := Some 1062500000\<rparr>))"
    unfolding sample_GetParams by (simp add: sample_sdk_def)
qed (simp_all add: sample_sdk_def)

text \<open>At the end of a block the gas wanted that the next base fee is computed from is the
  larger of the gas used and the gas wanted by the transactions scaled by the minimum gas
  multiplier, rounded down; it never exceeds the larger of the two, so the conversion to
  \<open>uint64\<close> does not panic.\<close>
theorem end_block_gas_wanted:
  assumes "dec_laws (decs F) val" "fm_blockGas c = Some used"
    "uint (GetTransientGasWanted c) \<le> max_int64" "uint used \<le> max_int64"
    "MinGasMultiplier (fm_GetParams F c) = Some m" "0 \<le> val m" "val m \<le> 1"
  shows "\<exists>c'. fm_EndBlock F c = Some c' \<and> fm_GetParams F c' = fm_GetParams F c \<and>
    uint (GetBlockGasWanted c') = max \<lfloor>of_int (uint (GetTransientGasWanted c)) * val m\<rfloor> (uint used)"
  by (rule fm_EndBlock_correct [OF assms])

theorem end_block_gas_wanted_witness:
  "\<exists>c'. fm_EndBlock sample_sdk sample_ctx = Some c' \<and>
    fm_GetParams sample_sdk c' = fm_GetParams sample_sdk sample_ctx \<and>
    uint (GetBlockGasWanted c') =
      max \<lfloor>of_int (uint (GetTransientGasWanted sample_ctx)) * (of_int 500000000000000000 / 10 ^ 18 :: rat)\<rfloor>
        (uint (21000 :: uint64))"
  by (rule end_block_gas_wanted [where val = "\<lambda>d. of_int d / 10 ^ 18"])
    (simp_all add: fixed_point_laws [simplified] sample_params_def)

end
