(* ===== verification/Ledger.thy ===== *)
theory Ledger
  imports Evm_Commit
begin

text \<open>
  A concrete account and bank module: accounts with an address and a sequence, balances per
  address and denomination, transfers that fail on insufficient funds. It satisfies the laws
  of \<open>Evm_Commit\<close>, so those can hold, and it is what the closed instances of the properties
  are evaluated on.
\<close>

record ledger =
  l_accounts :: "bytes \<Rightarrow> (bytes \<times> uint64) AccountI option"
  l_balance :: "bytes \<Rightarrow> string \<Rightarrow> int"

definition module_address :: bytes where
  "module_address = replicate 20 255"

fun l_credit :: "bytes \<Rightarrow> coins \<Rightarrow> ledger \<Rightarrow> ledger" where
  "l_credit a [] r = r"
| "l_credit a ((d, n) # cs) r = l_credit a cs (r\<lparr>l_balance := credit a d n (l_balance r)\<rparr>)"

definition l_debit :: "bytes \<Rightarrow> coins \<Rightarrow> ledger \<Rightarrow> (string, ledger) outcome" where
  "l_debit a cs r =
     (if list_all (\<lambda>(d, n). n \<le> l_balance r a d) cs then Ok (l_credit a (map (\<lambda>(d, n). (d, - n)) cs) r)
      else Err ''insufficient funds'')"

definition ledger_params :: "unit Params" where
  "ledger_params =
     \<lparr>EvmDenom = ''anryton'', EnableCreate = True, EnableCall = True, ExtraEIPs = [],
      ChainConfig = (), AllowUnprotectedTxs = False, ActivePrecompiles = []\<rparr>"

text \<open>The hash stands in for Keccak: any function gives an instance.\<close>

definition ledger_sdk :: "(bytes \<times> uint64, ledger, unit) sdk" where
  "ledger_sdk =
     \<lparr>akGetAccount = (\<lambda>r a. case l_accounts r a of
          Some x \<Rightarrow> if fst (base_of x) = a then Some x else None | None \<Rightarrow> None),
      akNewAccountWithAddress = (\<lambda>r a. (EthAccount (a, 0) 0, r)),
      akSetAccount = (\<lambda>r x. r\<lparr>l_accounts := (l_accounts r)(fst (base_of x) \<mapsto> x)\<rparr>),
      akRemoveAccount = (\<lambda>r x. r\<lparr>l_accounts := (l_accounts r)(fst (base_of x) := None)\<rparr>),
      GetSequence = snd, SetSequence = (\<lambda>b n. Ok (fst b, n)),
      bkGetBalance = l_balance,
      bkMintCoins = (\<lambda>r m cs. Ok (l_credit module_address cs r)),
      bkBurnCoins = (\<lambda>r m cs. l_debit module_address cs r),
      bkSendCoinsFromModuleToAccount = (\<lambda>r m a cs.
        bind_outcome (l_debit module_address cs r) (\<lambda>r1. Ok (l_credit a cs r1))),
      bkSendCoinsFromAccountToModule = (\<lambda>r a m cs.
        bind_outcome (l_debit a cs r) (\<lambda>r1. Ok (l_credit module_address cs r1))),
      NewCoins = (\<lambda>d n. if 0 < n \<and> n < 2 ^ 256 then Ok [(d, n)] else Panic),
      MustUnmarshalParams = (\<lambda>bz. ledger_params), MarshalParams = (\<lambda>p. Ok [1]),
      ssGetParamSetIfExists = (\<lambda>r. ledger_params),
      cryptoKeccak256Hash = (\<lambda>bz. 1 + word_of_nat (be_nat bz))\<rparr>"

lemma ledger_account_laws: "account_laws ledger_sdk fst"
  by (auto simp: account_laws_def ledger_sdk_def fun_eq_iff split: option.splits if_splits)

lemma ledger_bank_laws: "bank_laws ledger_sdk module_address"
  by (auto simp: bank_laws_def ledger_sdk_def moves_def l_debit_def)

definition genesis :: "ledger Ctx" where
  "genesis =
     \<lparr>kvStore = fmempty, transientStore = fmempty,
      modules = \<lparr>l_accounts = (\<lambda>_. None), l_balance = (\<lambda>_ _. 0)\<rparr>,
      BlockHeight = 1, HeaderHash = [], ChainIDString = ''anryton_9000-1'',
      GasMeter = \<lparr>consumed = 0, limit = 0\<rparr>, BlockGasMeter = None\<rparr>"

definition cfg0 :: TxConfig where
  "cfg0 = \<lparr>BlockHash = 0, TxHash = 0, TxIndex = 0, LogIndex = 0\<rparr>"

end
