(* ===== verification/Evm_Tx.thy ===== *)
theory Evm_Tx
  imports Evm_Keeper
begin

text \<open>
  Ethereum transactions as the EVM module stores them, \<open>x/evm/types\<close>: legacy, access list and
  dynamic fee transactions, their conversion from and to the transactions of go-ethereum,
  stateless validation, and the fee and cost of a transaction. Hexadecimal strings and
  \<open>sdkmath.NewIntFromBigInt\<close> are parameters, the record \<open>txlib\<close>.
\<close>

subsection \<open>Library functions and go-ethereum transactions\<close>

record txlib =
  AddressHex :: "Address \<Rightarrow> string"
  HexToAddress :: "string \<Rightarrow> Address"
  HashHex :: "Hash \<Rightarrow> string"
  HexToHash :: "string \<Rightarrow> Hash"
  libIsHexAddress :: "string \<Rightarrow> bool"
  NewIntFromBigInt :: "int \<Rightarrow> int option"

text \<open>An access list: addresses with storage keys.\<close>

type_synonym ethAccessList = "(Address \<times> Hash list) list"
type_synonym AccessList = "(string \<times> string list) list"

text \<open>
  What a go-ethereum transaction's accessors return; the type is 0 (legacy), 1 (access list)
  or 2 (dynamic fee). Where a type has no such field its accessor is meant (the gas price of
  an access list transaction is also its fee cap and tip cap). A nil pointer or slice is \<^const>\<open>None\<close>.
\<close>

record ethTx =
  e_Type :: nat
  e_ChainId :: "int option"
  e_Nonce :: uint64
  e_GasPrice :: "int option"
  e_GasTipCap :: "int option"
  e_GasFeeCap :: "int option"
  e_Gas :: uint64
  e_To :: "Address option"
  e_Value :: "int option"
  e_Data :: bytes
  e_AccessList :: "ethAccessList option"
  e_V :: "int option"
  e_R :: "int option"
  e_S :: "int option"

definition NewAccessList :: "txlib \<Rightarrow> ethAccessList option \<Rightarrow> AccessList option" where
  "NewAccessList L al = map_option (map (\<lambda>(a, ks). (AddressHex L a, map (HashHex L) ks))) al"

text \<open>Appending to a nil slice: an empty list stays nil.\<close>

definition ToEthAccessList :: "txlib \<Rightarrow> AccessList \<Rightarrow> ethAccessList option" where
  "ToEthAccessList L al =
     (if al = [] then None
      else Some (map (\<lambda>(a, ks). (HexToAddress L a, map (HexToHash L) ks)) al))"

subsection \<open>Helpers shared by the transaction types\<close>

definition DeriveChainID :: "int option \<Rightarrow> int option" where
  "DeriveChainID v0 =
     (case v0 of
        None \<Rightarrow> None
      | Some v \<Rightarrow>
          if v < 1 then None
          else if BitLen v \<le> 64 then
            let w = (word_of_int v :: uint64)
            in if w = 27 \<or> w = 28 then Some 0
               else if w < 35 then None
               else Some (uint ((w - 35) div 2))
          else Some ((v - 35) div 2))"

definition raw_value :: "bytes \<Rightarrow> int option" where
  "raw_value bz = (if length bz > 0 then Some (SetBytes bz) else None)"

definition rawSignatureValues :: "bytes \<Rightarrow> bytes \<Rightarrow> bytes \<Rightarrow> int option \<times> int option \<times> int option" where
  "rawSignatureValues vBz rBz sBz = (raw_value vBz, raw_value rBz, raw_value sBz)"

text \<open>Multiplying with a nil gas price dereferences a nil pointer.\<close>

definition fee :: "int option \<Rightarrow> uint64 \<Rightarrow> int option" where
  "fee gasPrice gas = map_option (\<lambda>p. p * uint gas) gasPrice"

definition cost :: "int option \<Rightarrow> int option \<Rightarrow> int option" where
  "cost f value = (case value of Some v \<Rightarrow> map_option (\<lambda>x. x + v) f | None \<Rightarrow> f)"

text \<open>\<open>EffectiveGasPrice\<close> of \<open>utils.go\<close>; nil arguments panic.\<close>

definition EffectiveGasPrice :: "int option \<Rightarrow> int option \<Rightarrow> int option \<Rightarrow> int option" where
  "EffectiveGasPrice baseFee feeCap tipCap =
     (case (baseFee, feeCap, tipCap) of
        (Some b, Some c, Some t) \<Rightarrow> Some (min (t + b) c)
      | _ \<Rightarrow> None)"

definition ValidateAddress :: "txlib \<Rightarrow> string \<Rightarrow> (string, unit) outcome" where
  "ValidateAddress L address =
     (if \<not> libIsHexAddress L address then Err ''address is not a valid ethereum hex address'' else Ok ())"

definition check :: "bool \<Rightarrow> string \<Rightarrow> (string, unit) outcome \<Rightarrow> (string, unit) outcome" where
  "check bad msg rest = (if bad then Err msg else rest)"

definition opt_Safe :: "txlib \<Rightarrow> int option \<Rightarrow> (string, int option) outcome" where
  "opt_Safe L i =
     (case i of None \<Rightarrow> Ok None
      | Some v \<Rightarrow> bind_outcome (SafeNewIntFromBigInt (NewIntFromBigInt L) v) (\<lambda>x. Ok (Some x)))"

text \<open>A field set to the bytes of a value that is not nil.\<close>

definition sig_bytes :: "int option \<Rightarrow> bytes \<Rightarrow> bytes" where
  "sig_bytes v old = (case v of Some x \<Rightarrow> big_Bytes x | None \<Rightarrow> old)"

subsection \<open>\<open>LegacyTx\<close>\<close>

record LegacyTx =
  l_Nonce :: uint64
  l_GasPrice :: "int option"
  l_GasLimit :: uint64
  l_To :: string
  l_Amount :: "int option"
  l_Data :: bytes
  l_V :: bytes
  l_R :: bytes
  l_S :: bytes

definition LegacyTx_TxType :: "LegacyTx \<Rightarrow> nat" where
  "LegacyTx_TxType tx = 0"

definition LegacyTx_Copy :: "LegacyTx \<Rightarrow> LegacyTx" where
  "LegacyTx_Copy tx = 
     \<lparr>l_Nonce = l_Nonce tx, l_GasPrice = l_GasPrice tx, l_GasLimit = l_GasLimit tx, l_To = l_To tx, l_Amount = l_Amount tx, l_Data = l_Data tx, l_V = l_V tx, l_R = l_R tx, l_S = l_S tx\<rparr>"

definition LegacyTx_GetRawSignatureValues :: "LegacyTx \<Rightarrow> int option \<times> int option \<times> int option" where
  "LegacyTx_GetRawSignatureValues tx = rawSignatureValues (l_V tx) (l_R tx) (l_S tx)"

definition LegacyTx_GetChainID :: "LegacyTx \<Rightarrow> int option" where
  "LegacyTx_GetChainID tx = DeriveChainID (fst (LegacyTx_GetRawSignatureValues tx))"

definition LegacyTx_GetAccessList :: "txlib \<Rightarrow> LegacyTx \<Rightarrow> ethAccessList option" where
  "LegacyTx_GetAccessList L tx = None"

definition LegacyTx_GetData :: "LegacyTx \<Rightarrow> bytes" where
  "LegacyTx_GetData tx = l_Data tx"

definition LegacyTx_GetGas :: "LegacyTx \<Rightarrow> uint64" where
  "LegacyTx_GetGas tx = l_GasLimit tx"

definition LegacyTx_GetGasPrice :: "LegacyTx \<Rightarrow> int option" where
  "LegacyTx_GetGasPrice tx = l_GasPrice tx"

definition LegacyTx_GetGasTipCap :: "LegacyTx \<Rightarrow> int option" where
  "LegacyTx_GetGasTipCap tx = LegacyTx_GetGasPrice tx"

definition LegacyTx_GetGasFeeCap :: "LegacyTx \<Rightarrow> int option" where
  "LegacyTx_GetGasFeeCap tx = LegacyTx_GetGasPrice tx"

definition LegacyTx_GetValue :: "LegacyTx \<Rightarrow> int option" where
  "LegacyTx_GetValue tx = l_Amount tx"

definition LegacyTx_GetNonce :: "LegacyTx \<Rightarrow> uint64" where
  "LegacyTx_GetNonce tx = l_Nonce tx"

definition LegacyTx_GetTo :: "txlib \<Rightarrow> LegacyTx \<Rightarrow> Address option" where
  "LegacyTx_GetTo L tx = (if l_To tx = [] then None else Some (HexToAddress L (l_To tx)))"

definition LegacyTx_AsEthereumData :: "txlib \<Rightarrow> LegacyTx \<Rightarrow> ethTx" where
  "LegacyTx_AsEthereumData L tx = 
     (let (v, r, s) = LegacyTx_GetRawSignatureValues tx
      in \<lparr>e_Type = 0, e_ChainId = None, e_Nonce = LegacyTx_GetNonce tx, e_GasPrice = LegacyTx_GetGasPrice tx,
          e_GasTipCap = LegacyTx_GetGasPrice tx, e_GasFeeCap = LegacyTx_GetGasPrice tx, e_Gas = LegacyTx_GetGas tx,
          e_To = LegacyTx_GetTo L tx, e_Value = LegacyTx_GetValue tx, e_Data = LegacyTx_GetData tx,
          e_AccessList = LegacyTx_GetAccessList L tx, e_V = v, e_R = r, e_S = s\<rparr>)"

definition LegacyTx_SetSignatureValues :: "LegacyTx \<Rightarrow> int option \<Rightarrow> int option \<Rightarrow> int option \<Rightarrow> int option \<Rightarrow> (string, LegacyTx) outcome" where
  "LegacyTx_SetSignatureValues tx chainID v r s = 
     Ok (tx\<lparr>l_V := sig_bytes v (l_V tx), l_R := sig_bytes r (l_R tx), l_S := sig_bytes s (l_S tx)\<rparr>)"

definition LegacyTx_Fee :: "LegacyTx \<Rightarrow> int option" where
  "LegacyTx_Fee tx = fee (LegacyTx_GetGasPrice tx) (LegacyTx_GetGas tx)"

definition LegacyTx_Cost :: "LegacyTx \<Rightarrow> int option" where
  "LegacyTx_Cost tx = cost (LegacyTx_Fee tx) (LegacyTx_GetValue tx)"

definition LegacyTx_EffectiveGasPrice :: "LegacyTx \<Rightarrow> int option \<Rightarrow> int option" where
  "LegacyTx_EffectiveGasPrice tx baseFee = LegacyTx_GetGasPrice tx"

definition LegacyTx_EffectiveFee :: "LegacyTx \<Rightarrow> int option \<Rightarrow> int option" where
  "LegacyTx_EffectiveFee tx baseFee = LegacyTx_Fee tx"

definition LegacyTx_EffectiveCost :: "LegacyTx \<Rightarrow> int option \<Rightarrow> int option" where
  "LegacyTx_EffectiveCost tx baseFee = LegacyTx_Cost tx"

definition LegacyTx_Validate :: "txlib \<Rightarrow> LegacyTx \<Rightarrow> (string, unit) outcome" where
  "LegacyTx_Validate L tx = 
     (case LegacyTx_GetGasPrice tx of
        None \<Rightarrow> Err ''gas price cannot be nil''
      | Some gasPrice \<Rightarrow>
        check (gasPrice < 0) ''gas price cannot be negative''
        (check (\<not> IsValidInt256 (Some gasPrice)) ''gas price out of bound'' 
        (check (\<not> IsValidInt256 (LegacyTx_Fee tx)) ''fee out of bound'' 
        (check (case LegacyTx_GetValue tx of Some a \<Rightarrow> a < 0 | None \<Rightarrow> False) ''amount cannot be negative''
        (check (\<not> IsValidInt256 (LegacyTx_GetValue tx)) ''amount out of bound'' 
        (bind_outcome (if l_To tx \<noteq> [] then ValidateAddress L (l_To tx) else Ok ()) (\<lambda>_.
         check (LegacyTx_GetChainID tx = None) ''chain ID must be present''
           (Ok ()))))))))"

definition NewLegacyTx :: "txlib \<Rightarrow> ethTx \<Rightarrow> (string, LegacyTx) outcome" where
  "NewLegacyTx L tx = 
     bind_outcome (opt_Safe L (e_Value tx)) (\<lambda>amount.
     bind_outcome (opt_Safe L (e_GasPrice tx)) (\<lambda>price.
     LegacyTx_SetSignatureValues
       \<lparr>l_Nonce = e_Nonce tx, l_GasPrice = price, l_GasLimit = e_Gas tx, l_To = (case e_To tx of None \<Rightarrow> [] | Some a \<Rightarrow> AddressHex L a), l_Amount = amount, l_Data = e_Data tx, l_V = [], l_R = [], l_S = []\<rparr>
       (e_ChainId tx) (e_V tx) (e_R tx) (e_S tx)))"

subsection \<open>\<open>AccessListTx\<close>\<close>

record AccessListTx =
  al_ChainID :: "int option"
  al_Nonce :: uint64
  al_GasPrice :: "int option"
  al_GasLimit :: uint64
  al_To :: string
  al_Amount :: "int option"
  al_Data :: bytes
  al_Accesses :: "AccessList option"
  al_V :: bytes
  al_R :: bytes
  al_S :: bytes

definition AccessListTx_TxType :: "AccessListTx \<Rightarrow> nat" where
  "AccessListTx_TxType tx = 1"

definition AccessListTx_Copy :: "AccessListTx \<Rightarrow> AccessListTx" where
  "AccessListTx_Copy tx = 
     \<lparr>al_ChainID = al_ChainID tx, al_Nonce = al_Nonce tx, al_GasPrice = al_GasPrice tx, al_GasLimit = al_GasLimit tx, al_To = al_To tx, al_Amount = al_Amount tx, al_Data = al_Data tx, al_Accesses = al_Accesses tx, al_V = al_V tx, al_R = al_R tx, al_S = al_S tx\<rparr>"

definition AccessListTx_GetRawSignatureValues :: "AccessListTx \<Rightarrow> int option \<times> int option \<times> int option" where
  "AccessListTx_GetRawSignatureValues tx = rawSignatureValues (al_V tx) (al_R tx) (al_S tx)"

definition AccessListTx_GetChainID :: "AccessListTx \<Rightarrow> int option" where
  "AccessListTx_GetChainID tx = al_ChainID tx"

definition AccessListTx_GetAccessList :: "txlib \<Rightarrow> AccessListTx \<Rightarrow> ethAccessList option" where
  "AccessListTx_GetAccessList L tx = Option.bind (al_Accesses tx) (ToEthAccessList L)"

definition AccessListTx_GetData :: "AccessListTx \<Rightarrow> bytes" where
  "AccessListTx_GetData tx = al_Data tx"

definition AccessListTx_GetGas :: "AccessListTx \<Rightarrow> uint64" where
  "AccessListTx_GetGas tx = al_GasLimit tx"

definition AccessListTx_GetGasPrice :: "AccessListTx \<Rightarrow> int option" where
  "AccessListTx_GetGasPrice tx = al_GasPrice tx"

definition AccessListTx_GetGasTipCap :: "AccessListTx \<Rightarrow> int option" where
  "AccessListTx_GetGasTipCap tx = AccessListTx_GetGasPrice tx"

definition AccessListTx_GetGasFeeCap :: "AccessListTx \<Rightarrow> int option" where
  "AccessListTx_GetGasFeeCap tx = AccessListTx_GetGasPrice tx"

definition AccessListTx_GetValue :: "AccessListTx \<Rightarrow> int option" where
  "AccessListTx_GetValue tx = al_Amount tx"

definition AccessListTx_GetNonce :: "AccessListTx \<Rightarrow> uint64" where
  "AccessListTx_GetNonce tx = al_Nonce tx"

definition AccessListTx_GetTo :: "txlib \<Rightarrow> AccessListTx \<Rightarrow> Address option" where
  "AccessListTx_GetTo L tx = (if al_To tx = [] then None else Some (HexToAddress L (al_To tx)))"

definition AccessListTx_AsEthereumData :: "txlib \<Rightarrow> AccessListTx \<Rightarrow> ethTx" where
  "AccessListTx_AsEthereumData L tx = 
     (let (v, r, s) = AccessListTx_GetRawSignatureValues tx
      in \<lparr>e_Type = 1, e_ChainId = AccessListTx_GetChainID tx, e_Nonce = AccessListTx_GetNonce tx, e_GasPrice = AccessListTx_GetGasPrice tx,
          e_GasTipCap = AccessListTx_GetGasPrice tx, e_GasFeeCap = AccessListTx_GetGasPrice tx, e_Gas = AccessListTx_GetGas tx,
          e_To = AccessListTx_GetTo L tx, e_Value = AccessListTx_GetValue tx, e_Data = AccessListTx_GetData tx,
          e_AccessList = AccessListTx_GetAccessList L tx, e_V = v, e_R = r, e_S = s\<rparr>)"

definition AccessListTx_SetSignatureValues :: "txlib \<Rightarrow> AccessListTx \<Rightarrow> int option \<Rightarrow> int option \<Rightarrow> int option \<Rightarrow> int option \<Rightarrow> (string, AccessListTx) outcome" where
  "AccessListTx_SetSignatureValues L tx chainID v r s = 
     (let tx1 = tx\<lparr>al_V := sig_bytes v (al_V tx), al_R := sig_bytes r (al_R tx), al_S := sig_bytes s (al_S tx)\<rparr>
      in case chainID of
           None \<Rightarrow> Ok tx1
         | Some c \<Rightarrow> (case NewIntFromBigInt L c of None \<Rightarrow> Panic | Some i \<Rightarrow> Ok (tx1\<lparr>al_ChainID := Some i\<rparr>)))"

definition AccessListTx_Fee :: "AccessListTx \<Rightarrow> int option" where
  "AccessListTx_Fee tx = fee (AccessListTx_GetGasPrice tx) (AccessListTx_GetGas tx)"

definition AccessListTx_Cost :: "AccessListTx \<Rightarrow> int option" where
  "AccessListTx_Cost tx = cost (AccessListTx_Fee tx) (AccessListTx_GetValue tx)"

definition AccessListTx_EffectiveGasPrice :: "AccessListTx \<Rightarrow> int option \<Rightarrow> int option" where
  "AccessListTx_EffectiveGasPrice tx baseFee = AccessListTx_GetGasPrice tx"

definition AccessListTx_EffectiveFee :: "AccessListTx \<Rightarrow> int option \<Rightarrow> int option" where
  "AccessListTx_EffectiveFee tx baseFee = AccessListTx_Fee tx"

definition AccessListTx_EffectiveCost :: "AccessListTx \<Rightarrow> int option \<Rightarrow> int option" where
  "AccessListTx_EffectiveCost tx baseFee = AccessListTx_Cost tx"

definition AccessListTx_Validate :: "txlib \<Rightarrow> AccessListTx \<Rightarrow> (string, unit) outcome" where
  "AccessListTx_Validate L tx = 
     (case AccessListTx_GetGasPrice tx of
        None \<Rightarrow> Err ''gas price cannot be nil''
      | Some gasPrice \<Rightarrow>
        check (\<not> IsValidInt256 (Some gasPrice)) ''gas price out of bound''
        (check (gasPrice < 0) ''gas price cannot be negative'' 
        (check (case AccessListTx_GetValue tx of Some a \<Rightarrow> a < 0 | None \<Rightarrow> False) ''amount cannot be negative''
        (check (\<not> IsValidInt256 (AccessListTx_GetValue tx)) ''amount out of bound'' 
        (check (\<not> IsValidInt256 (AccessListTx_Fee tx)) ''fee out of bound'' 
        (bind_outcome (if al_To tx \<noteq> [] then ValidateAddress L (al_To tx) else Ok ()) (\<lambda>_.
         check (AccessListTx_GetChainID tx = None) ''chain ID must be present''
           (Ok ()))))))))"

definition newAccessListTx :: "txlib \<Rightarrow> ethTx \<Rightarrow> (string, AccessListTx) outcome" where
  "newAccessListTx L tx = 
     bind_outcome (opt_Safe L (e_Value tx)) (\<lambda>amount.
     bind_outcome (opt_Safe L (e_GasPrice tx)) (\<lambda>price.
     AccessListTx_SetSignatureValues L
       \<lparr>al_ChainID = None, al_Nonce = e_Nonce tx, al_GasPrice = price, al_GasLimit = e_Gas tx, al_To = (case e_To tx of None \<Rightarrow> [] | Some a \<Rightarrow> AddressHex L a), al_Amount = amount, al_Data = e_Data tx, al_Accesses = NewAccessList L (e_AccessList tx), al_V = [], al_R = [], al_S = []\<rparr>
       (e_ChainId tx) (e_V tx) (e_R tx) (e_S tx)))"

subsection \<open>\<open>DynamicFeeTx\<close>\<close>

record DynamicFeeTx =
  df_ChainID :: "int option"
  df_Nonce :: uint64
  df_GasTipCap :: "int option"
  df_GasFeeCap :: "int option"
  df_GasLimit :: uint64
  df_To :: string
  df_Amount :: "int option"
  df_Data :: bytes
  df_Accesses :: "AccessList option"
  df_V :: bytes
  df_R :: bytes
  df_S :: bytes

definition DynamicFeeTx_TxType :: "DynamicFeeTx \<Rightarrow> nat" where
  "DynamicFeeTx_TxType tx = 2"

definition DynamicFeeTx_Copy :: "DynamicFeeTx \<Rightarrow> DynamicFeeTx" where
  "DynamicFeeTx_Copy tx = 
     \<lparr>df_ChainID = df_ChainID tx, df_Nonce = df_Nonce tx, df_GasTipCap = df_GasTipCap tx, df_GasFeeCap = df_GasFeeCap tx, df_GasLimit = df_GasLimit tx, df_To = df_To tx, df_Amount = df_Amount tx, df_Data = df_Data tx, df_Accesses = df_Accesses tx, df_V = df_V tx, df_R = df_R tx, df_S = df_S tx\<rparr>"

definition DynamicFeeTx_GetRawSignatureValues :: "DynamicFeeTx \<Rightarrow> int option \<times> int option \<times> int option" where
  "DynamicFeeTx_GetRawSignatureValues tx = rawSignatureValues (df_V tx) (df_R tx) (df_S tx)"

definition DynamicFeeTx_GetChainID :: "DynamicFeeTx \<Rightarrow> int option" where
  "DynamicFeeTx_GetChainID tx = df_ChainID tx"

definition DynamicFeeTx_GetAccessList :: "txlib \<Rightarrow> DynamicFeeTx \<Rightarrow> ethAccessList option" where
  "DynamicFeeTx_GetAccessList L tx = Option.bind (df_Accesses tx) (ToEthAccessList L)"

definition DynamicFeeTx_GetData :: "DynamicFeeTx \<Rightarrow> bytes" where
  "DynamicFeeTx_GetData tx = df_Data tx"

definition DynamicFeeTx_GetGas :: "DynamicFeeTx \<Rightarrow> uint64" where
  "DynamicFeeTx_GetGas tx = df_GasLimit tx"

definition DynamicFeeTx_GetGasTipCap :: "DynamicFeeTx \<Rightarrow> int option" where
  "DynamicFeeTx_GetGasTipCap tx = df_GasTipCap tx"

definition DynamicFeeTx_GetGasFeeCap :: "DynamicFeeTx \<Rightarrow> int option" where
  "DynamicFeeTx_GetGasFeeCap tx = df_GasFeeCap tx"

definition DynamicFeeTx_GetGasPrice :: "DynamicFeeTx \<Rightarrow> int option" where
  "DynamicFeeTx_GetGasPrice tx = DynamicFeeTx_GetGasFeeCap tx"

definition DynamicFeeTx_GetValue :: "DynamicFeeTx \<Rightarrow> int option" where
  "DynamicFeeTx_GetValue tx = df_Amount tx"

definition DynamicFeeTx_GetNonce :: "DynamicFeeTx \<Rightarrow> uint64" where
  "DynamicFeeTx_GetNonce tx = df_Nonce tx"

definition DynamicFeeTx_GetTo :: "txlib \<Rightarrow> DynamicFeeTx \<Rightarrow> Address option" where
  "DynamicFeeTx_GetTo L tx = (if df_To tx = [] then None else Some (HexToAddress L (df_To tx)))"

definition DynamicFeeTx_AsEthereumData :: "txlib \<Rightarrow> DynamicFeeTx \<Rightarrow> ethTx" where
  "DynamicFeeTx_AsEthereumData L tx = 
     (let (v, r, s) = DynamicFeeTx_GetRawSignatureValues tx
      in \<lparr>e_Type = 2, e_ChainId = DynamicFeeTx_GetChainID tx, e_Nonce = DynamicFeeTx_GetNonce tx, e_GasPrice = DynamicFeeTx_GetGasFeeCap tx,
          e_GasTipCap = DynamicFeeTx_GetGasTipCap tx, e_GasFeeCap = DynamicFeeTx_GetGasFeeCap tx, e_Gas = DynamicFeeTx_GetGas tx,
          e_To = DynamicFeeTx_GetTo L tx, e_Value = DynamicFeeTx_GetValue tx, e_Data = DynamicFeeTx_GetData tx,
          e_AccessList = DynamicFeeTx_GetAccessList L tx, e_V = v, e_R = r, e_S = s\<rparr>)"

definition DynamicFeeTx_SetSignatureValues :: "txlib \<Rightarrow> DynamicFeeTx \<Rightarrow> int option \<Rightarrow> int option \<Rightarrow> int option \<Rightarrow> int option \<Rightarrow> (string, DynamicFeeTx) outcome" where
  "DynamicFeeTx_SetSignatureValues L tx chainID v r s = 
     (let tx1 = tx\<lparr>df_V := sig_bytes v (df_V tx), df_R := sig_bytes r (df_R tx), df_S := sig_bytes s (df_S tx)\<rparr>
      in case chainID of
           None \<Rightarrow> Ok tx1
         | Some c \<Rightarrow> (case NewIntFromBigInt L c of None \<Rightarrow> Panic | Some i \<Rightarrow> Ok (tx1\<lparr>df_ChainID := Some i\<rparr>)))"

definition DynamicFeeTx_Fee :: "DynamicFeeTx \<Rightarrow> int option" where
  "DynamicFeeTx_Fee tx = fee (DynamicFeeTx_GetGasFeeCap tx) (DynamicFeeTx_GetGas tx)"

definition DynamicFeeTx_Cost :: "DynamicFeeTx \<Rightarrow> int option" where
  "DynamicFeeTx_Cost tx = cost (DynamicFeeTx_Fee tx) (DynamicFeeTx_GetValue tx)"

definition DynamicFeeTx_EffectiveGasPrice :: "DynamicFeeTx \<Rightarrow> int option \<Rightarrow> int option" where
  "DynamicFeeTx_EffectiveGasPrice tx baseFee = EffectiveGasPrice baseFee (df_GasFeeCap tx) (df_GasTipCap tx)"

definition DynamicFeeTx_EffectiveFee :: "DynamicFeeTx \<Rightarrow> int option \<Rightarrow> int option" where
  "DynamicFeeTx_EffectiveFee tx baseFee = fee (DynamicFeeTx_EffectiveGasPrice tx baseFee) (df_GasLimit tx)"

definition DynamicFeeTx_EffectiveCost :: "DynamicFeeTx \<Rightarrow> int option \<Rightarrow> int option" where
  "DynamicFeeTx_EffectiveCost tx baseFee = cost (DynamicFeeTx_EffectiveFee tx baseFee) (DynamicFeeTx_GetValue tx)"

definition DynamicFeeTx_Validate :: "txlib \<Rightarrow> DynamicFeeTx \<Rightarrow> (string, unit) outcome" where
  "DynamicFeeTx_Validate L tx = 
     (case (df_GasTipCap tx, df_GasFeeCap tx) of
        (None, _) \<Rightarrow> Err ''gas tip cap cannot nil''
      | (_, None) \<Rightarrow> Err ''gas fee cap cannot nil''
      | (Some tip, Some cap) \<Rightarrow>
        check (tip < 0) ''gas tip cap cannot be negative''
        (check (cap < 0) ''gas fee cap cannot be negative''
        (check (\<not> IsValidInt256 (DynamicFeeTx_GetGasTipCap tx)) ''gas tip cap out of bound''
        (check (\<not> IsValidInt256 (DynamicFeeTx_GetGasFeeCap tx)) ''gas fee cap out of bound''
        (check (cap < tip) ''max priority fee per gas higher than max fee per gas'' 
        (check (\<not> IsValidInt256 (DynamicFeeTx_Fee tx)) ''fee out of bound'' 
        (check (case DynamicFeeTx_GetValue tx of Some a \<Rightarrow> a < 0 | None \<Rightarrow> False) ''amount cannot be negative''
        (check (\<not> IsValidInt256 (DynamicFeeTx_GetValue tx)) ''amount out of bound'' 
        (bind_outcome (if df_To tx \<noteq> [] then ValidateAddress L (df_To tx) else Ok ()) (\<lambda>_.
         check (DynamicFeeTx_GetChainID tx = None) ''chain ID must be present''
           (Ok ())))))))))))"

definition NewDynamicFeeTx :: "txlib \<Rightarrow> ethTx \<Rightarrow> (string, DynamicFeeTx) outcome" where
  "NewDynamicFeeTx L tx = 
     bind_outcome (opt_Safe L (e_Value tx)) (\<lambda>amount.
     bind_outcome (opt_Safe L (e_GasFeeCap tx)) (\<lambda>cap.
     bind_outcome (opt_Safe L (e_GasTipCap tx)) (\<lambda>tip.
     DynamicFeeTx_SetSignatureValues L
       \<lparr>df_ChainID = None, df_Nonce = e_Nonce tx, df_GasTipCap = tip, df_GasFeeCap = cap, df_GasLimit = e_Gas tx, df_To = (case e_To tx of None \<Rightarrow> [] | Some a \<Rightarrow> AddressHex L a), df_Amount = amount, df_Data = e_Data tx, df_Accesses = NewAccessList L (e_AccessList tx), df_V = [], df_R = [], df_S = []\<rparr>
       (e_ChainId tx) (e_V tx) (e_R tx) (e_S tx))))"

subsection \<open>The interface \<open>TxData\<close>\<close>

datatype TxData = Legacy LegacyTx | AccessListT AccessListTx | DynamicFee DynamicFeeTx

definition NewTxDataFromTx :: "txlib \<Rightarrow> ethTx \<Rightarrow> (string, TxData) outcome" where
  "NewTxDataFromTx L tx =
     (if e_Type tx = 2 then bind_outcome (NewDynamicFeeTx L tx) (\<lambda>t. Ok (DynamicFee t))
      else if e_Type tx = 1 then bind_outcome (newAccessListTx L tx) (\<lambda>t. Ok (AccessListT t))
      else bind_outcome (NewLegacyTx L tx) (\<lambda>t. Ok (Legacy t)))"

fun tx_TxType :: "TxData \<Rightarrow> nat" where
  "tx_TxType (Legacy t) = LegacyTx_TxType t"
| "tx_TxType (AccessListT t) = AccessListTx_TxType t"
| "tx_TxType (DynamicFee t) = DynamicFeeTx_TxType t"

fun tx_GetChainID :: "TxData \<Rightarrow> int option" where
  "tx_GetChainID (Legacy t) = LegacyTx_GetChainID t"
| "tx_GetChainID (AccessListT t) = AccessListTx_GetChainID t"
| "tx_GetChainID (DynamicFee t) = DynamicFeeTx_GetChainID t"

fun tx_GetAccessList :: "txlib \<Rightarrow> TxData \<Rightarrow> ethAccessList option" where
  "tx_GetAccessList L (Legacy t) = LegacyTx_GetAccessList L t"
| "tx_GetAccessList L (AccessListT t) = AccessListTx_GetAccessList L t"
| "tx_GetAccessList L (DynamicFee t) = DynamicFeeTx_GetAccessList L t"

fun tx_GetData :: "TxData \<Rightarrow> bytes" where
  "tx_GetData (Legacy t) = LegacyTx_GetData t"
| "tx_GetData (AccessListT t) = AccessListTx_GetData t"
| "tx_GetData (DynamicFee t) = DynamicFeeTx_GetData t"

fun tx_GetNonce :: "TxData \<Rightarrow> uint64" where
  "tx_GetNonce (Legacy t) = LegacyTx_GetNonce t"
| "tx_GetNonce (AccessListT t) = AccessListTx_GetNonce t"
| "tx_GetNonce (DynamicFee t) = DynamicFeeTx_GetNonce t"

fun tx_GetGas :: "TxData \<Rightarrow> uint64" where
  "tx_GetGas (Legacy t) = LegacyTx_GetGas t"
| "tx_GetGas (AccessListT t) = AccessListTx_GetGas t"
| "tx_GetGas (DynamicFee t) = DynamicFeeTx_GetGas t"

fun tx_GetGasPrice :: "TxData \<Rightarrow> int option" where
  "tx_GetGasPrice (Legacy t) = LegacyTx_GetGasPrice t"
| "tx_GetGasPrice (AccessListT t) = AccessListTx_GetGasPrice t"
| "tx_GetGasPrice (DynamicFee t) = DynamicFeeTx_GetGasPrice t"

fun tx_GetGasTipCap :: "TxData \<Rightarrow> int option" where
  "tx_GetGasTipCap (Legacy t) = LegacyTx_GetGasTipCap t"
| "tx_GetGasTipCap (AccessListT t) = AccessListTx_GetGasTipCap t"
| "tx_GetGasTipCap (DynamicFee t) = DynamicFeeTx_GetGasTipCap t"

fun tx_GetGasFeeCap :: "TxData \<Rightarrow> int option" where
  "tx_GetGasFeeCap (Legacy t) = LegacyTx_GetGasFeeCap t"
| "tx_GetGasFeeCap (AccessListT t) = AccessListTx_GetGasFeeCap t"
| "tx_GetGasFeeCap (DynamicFee t) = DynamicFeeTx_GetGasFeeCap t"

fun tx_GetValue :: "TxData \<Rightarrow> int option" where
  "tx_GetValue (Legacy t) = LegacyTx_GetValue t"
| "tx_GetValue (AccessListT t) = AccessListTx_GetValue t"
| "tx_GetValue (DynamicFee t) = DynamicFeeTx_GetValue t"

fun tx_GetTo :: "txlib \<Rightarrow> TxData \<Rightarrow> Address option" where
  "tx_GetTo L (Legacy t) = LegacyTx_GetTo L t"
| "tx_GetTo L (AccessListT t) = AccessListTx_GetTo L t"
| "tx_GetTo L (DynamicFee t) = DynamicFeeTx_GetTo L t"

fun tx_AsEthereumData :: "txlib \<Rightarrow> TxData \<Rightarrow> ethTx" where
  "tx_AsEthereumData L (Legacy t) = LegacyTx_AsEthereumData L t"
| "tx_AsEthereumData L (AccessListT t) = AccessListTx_AsEthereumData L t"
| "tx_AsEthereumData L (DynamicFee t) = DynamicFeeTx_AsEthereumData L t"

fun tx_Validate :: "txlib \<Rightarrow> TxData \<Rightarrow> (string, unit) outcome" where
  "tx_Validate L (Legacy t) = LegacyTx_Validate L t"
| "tx_Validate L (AccessListT t) = AccessListTx_Validate L t"
| "tx_Validate L (DynamicFee t) = DynamicFeeTx_Validate L t"

fun tx_Fee :: "TxData \<Rightarrow> int option" where
  "tx_Fee (Legacy t) = LegacyTx_Fee t"
| "tx_Fee (AccessListT t) = AccessListTx_Fee t"
| "tx_Fee (DynamicFee t) = DynamicFeeTx_Fee t"

fun tx_Cost :: "TxData \<Rightarrow> int option" where
  "tx_Cost (Legacy t) = LegacyTx_Cost t"
| "tx_Cost (AccessListT t) = AccessListTx_Cost t"
| "tx_Cost (DynamicFee t) = DynamicFeeTx_Cost t"

fun tx_EffectiveGasPrice :: "TxData \<Rightarrow> int option \<Rightarrow> int option" where
  "tx_EffectiveGasPrice (Legacy t) baseFee = LegacyTx_EffectiveGasPrice t baseFee"
| "tx_EffectiveGasPrice (AccessListT t) baseFee = AccessListTx_EffectiveGasPrice t baseFee"
| "tx_EffectiveGasPrice (DynamicFee t) baseFee = DynamicFeeTx_EffectiveGasPrice t baseFee"

fun tx_EffectiveFee :: "TxData \<Rightarrow> int option \<Rightarrow> int option" where
  "tx_EffectiveFee (Legacy t) baseFee = LegacyTx_EffectiveFee t baseFee"
| "tx_EffectiveFee (AccessListT t) baseFee = AccessListTx_EffectiveFee t baseFee"
| "tx_EffectiveFee (DynamicFee t) baseFee = DynamicFeeTx_EffectiveFee t baseFee"

fun tx_EffectiveCost :: "TxData \<Rightarrow> int option \<Rightarrow> int option" where
  "tx_EffectiveCost (Legacy t) baseFee = LegacyTx_EffectiveCost t baseFee"
| "tx_EffectiveCost (AccessListT t) baseFee = AccessListTx_EffectiveCost t baseFee"
| "tx_EffectiveCost (DynamicFee t) baseFee = DynamicFeeTx_EffectiveCost t baseFee"

lemmas LegacyTx_defs = LegacyTx_TxType_def LegacyTx_GetRawSignatureValues_def LegacyTx_GetChainID_def
  LegacyTx_GetAccessList_def LegacyTx_GetData_def LegacyTx_GetGas_def LegacyTx_GetGasPrice_def
  LegacyTx_GetGasTipCap_def LegacyTx_GetGasFeeCap_def LegacyTx_GetValue_def LegacyTx_GetNonce_def
  LegacyTx_GetTo_def LegacyTx_Fee_def LegacyTx_Cost_def LegacyTx_EffectiveGasPrice_def
  LegacyTx_EffectiveFee_def LegacyTx_EffectiveCost_def

lemmas AccessListTx_defs = AccessListTx_TxType_def AccessListTx_GetRawSignatureValues_def
  AccessListTx_GetChainID_def AccessListTx_GetAccessList_def AccessListTx_GetData_def
  AccessListTx_GetGas_def AccessListTx_GetGasPrice_def AccessListTx_GetGasTipCap_def
  AccessListTx_GetGasFeeCap_def AccessListTx_GetValue_def AccessListTx_GetNonce_def
  AccessListTx_GetTo_def AccessListTx_Fee_def AccessListTx_Cost_def AccessListTx_EffectiveGasPrice_def
  AccessListTx_EffectiveFee_def AccessListTx_EffectiveCost_def

lemmas DynamicFeeTx_defs = DynamicFeeTx_TxType_def DynamicFeeTx_GetRawSignatureValues_def
  DynamicFeeTx_GetChainID_def DynamicFeeTx_GetAccessList_def DynamicFeeTx_GetData_def
  DynamicFeeTx_GetGas_def DynamicFeeTx_GetGasPrice_def DynamicFeeTx_GetGasTipCap_def
  DynamicFeeTx_GetGasFeeCap_def DynamicFeeTx_GetValue_def DynamicFeeTx_GetNonce_def
  DynamicFeeTx_GetTo_def DynamicFeeTx_Fee_def DynamicFeeTx_Cost_def DynamicFeeTx_EffectiveGasPrice_def
  DynamicFeeTx_EffectiveFee_def DynamicFeeTx_EffectiveCost_def

subsection \<open>Validation\<close>

lemma check_Ok_iff [simp]: "check b msg rest = Ok u \<longleftrightarrow> \<not> b \<and> rest = Ok u"
  by (simp add: check_def)

text \<open>What a transaction that passes the stateless validation satisfies, for every type.\<close>

definition sane_tx :: "TxData \<Rightarrow> bool" where
  "sane_tx t \<longleftrightarrow>
     (\<exists>cap tip. tx_GetGasFeeCap t = Some cap \<and> tx_GetGasTipCap t = Some tip \<and> 0 \<le> tip \<and> tip \<le> cap \<and>
        cap < 2 ^ 256 \<and> cap * uint (tx_GetGas t) < 2 ^ 256) \<and>
     (\<forall>v. tx_GetValue t = Some v \<longrightarrow> 0 \<le> v \<and> v < 2 ^ 256) \<and>
     tx_GetChainID t \<noteq> None"

lemma abs_mult_uint: "0 \<le> p \<Longrightarrow> \<bar>p * uint (g :: uint64)\<bar> = p * uint g"
  by simp

lemma IsValidInt256_None [simp]: "IsValidInt256 None"
  by (simp add: IsValidInt256_def)

lemma amount_ok:
  "\<not> (case v of None \<Rightarrow> False | Some a \<Rightarrow> a < 0) \<and> IsValidInt256 v \<longleftrightarrow>
     (\<forall>a. v = Some a \<longrightarrow> 0 \<le> a \<and> a < 2 ^ 256)"
  by (cases v) (auto simp: IsValidInt256_iff simp del: power_numeral)

lemma ValidateAddress_Ok [simp]: "ValidateAddress L t = Ok u \<longleftrightarrow> libIsHexAddress L t"
  by (simp add: ValidateAddress_def)

lemma fee_valid:
  "IsValidInt256 (fee (Some p) g) \<longleftrightarrow> \<bar>p * uint g\<bar> < 2 ^ 256"
  by (simp only: fee_def option.map IsValidInt256_iff)

lemma Validate_Ok_iff:
  "tx_Validate L t = Ok () \<longleftrightarrow>
     sane_tx t \<and> (case t of Legacy x \<Rightarrow> l_To x = [] \<or> libIsHexAddress L (l_To x)
       | AccessListT x \<Rightarrow> al_To x = [] \<or> libIsHexAddress L (al_To x)
       | DynamicFee x \<Rightarrow> df_To x = [] \<or> libIsHexAddress L (df_To x))"
proof (cases t)
  case (Legacy x)
  have "LegacyTx_Validate L x = Ok () \<longleftrightarrow> (\<exists>p. l_GasPrice x = Some p \<and> 0 \<le> p \<and> p < 2 ^ 256 \<and>
      p * uint (l_GasLimit x) < 2 ^ 256 \<and> (\<forall>v. l_Amount x = Some v \<longrightarrow> 0 \<le> v \<and> v < 2 ^ 256) \<and>
      LegacyTx_GetChainID x \<noteq> None \<and> (l_To x = [] \<or> libIsHexAddress L (l_To x)))"
    unfolding LegacyTx_Validate_def using amount_ok [of "l_Amount x"]
    by (cases "l_GasPrice x")
      (auto simp: LegacyTx_defs fee_valid IsValidInt256_iff abs_mult_uint
        simp del: power_numeral)
  then show ?thesis by (auto simp: Legacy sane_tx_def LegacyTx_defs simp del: power_numeral)
next
  case (AccessListT x)
  have "AccessListTx_Validate L x = Ok () \<longleftrightarrow> (\<exists>p. al_GasPrice x = Some p \<and> 0 \<le> p \<and> p < 2 ^ 256 \<and>
      p * uint (al_GasLimit x) < 2 ^ 256 \<and> (\<forall>v. al_Amount x = Some v \<longrightarrow> 0 \<le> v \<and> v < 2 ^ 256) \<and>
      AccessListTx_GetChainID x \<noteq> None \<and> (al_To x = [] \<or> libIsHexAddress L (al_To x)))"
    unfolding AccessListTx_Validate_def using amount_ok [of "al_Amount x"]
    by (cases "al_GasPrice x")
      (auto simp: AccessListTx_defs fee_valid IsValidInt256_iff abs_mult_uint
        simp del: power_numeral)
  then show ?thesis by (auto simp: AccessListT sane_tx_def AccessListTx_defs simp del: power_numeral)
next
  case (DynamicFee x)
  have "DynamicFeeTx_Validate L x = Ok () \<longleftrightarrow> (\<exists>cap tip. df_GasFeeCap x = Some cap \<and> df_GasTipCap x = Some tip \<and>
      0 \<le> tip \<and> tip \<le> cap \<and> cap < 2 ^ 256 \<and> cap * uint (df_GasLimit x) < 2 ^ 256 \<and>
      (\<forall>v. df_Amount x = Some v \<longrightarrow> 0 \<le> v \<and> v < 2 ^ 256) \<and>
      DynamicFeeTx_GetChainID x \<noteq> None \<and> (df_To x = [] \<or> libIsHexAddress L (df_To x)))"
    unfolding DynamicFeeTx_Validate_def using amount_ok [of "df_Amount x"]
    by (cases "df_GasFeeCap x"; cases "df_GasTipCap x")
      (auto simp: DynamicFeeTx_defs fee_valid IsValidInt256_iff abs_mult_uint
        simp del: power_numeral)
  then show ?thesis by (auto simp: DynamicFee sane_tx_def DynamicFeeTx_defs simp del: power_numeral)
qed

subsection \<open>Fees\<close>

lemma tx_Fee_eq: "tx_Fee t = fee (tx_GetGasFeeCap t) (tx_GetGas t)"
  by (cases t) (simp_all add: LegacyTx_defs AccessListTx_defs DynamicFeeTx_defs)

lemma tx_Cost_eq: "tx_Cost t = cost (tx_Fee t) (tx_GetValue t)"
  by (cases t) (simp_all add: LegacyTx_defs AccessListTx_defs DynamicFeeTx_defs)

lemma tx_EffectiveFee_eq: "tx_EffectiveFee t b = fee (tx_EffectiveGasPrice t b) (tx_GetGas t)"
  by (cases t) (simp_all add: LegacyTx_defs AccessListTx_defs DynamicFeeTx_defs)

lemma tx_EffectiveCost_eq: "tx_EffectiveCost t b = cost (tx_EffectiveFee t b) (tx_GetValue t)"
  by (cases t) (simp_all add: LegacyTx_defs AccessListTx_defs DynamicFeeTx_defs)

lemma effective_price:
  assumes "sane_tx t" "0 \<le> b"
  obtains p cap where "tx_EffectiveGasPrice t (Some b) = Some p" "tx_GetGasFeeCap t = Some cap"
    "0 \<le> p" "p \<le> cap" "b \<le> cap \<longrightarrow> b \<le> p \<or> (\<forall>x. t \<noteq> DynamicFee x)"
  using assms
  by (cases t) (auto simp: sane_tx_def EffectiveGasPrice_def LegacyTx_defs AccessListTx_defs DynamicFeeTx_defs
      simp del: power_numeral)

lemma SetBytes_raw_value: "raw_value (big_Bytes x) = (if x = 0 then None else Some \<bar>x\<bar>)"
proof -
  have "big_Bytes x = [] \<longleftrightarrow> x = 0" by (simp add: big_Bytes_def big_bytes.simps [of "nat \<bar>x\<bar>"])
  then show ?thesis by (simp add: raw_value_def)
qed

lemma BitLen_le_64: "0 \<le> x \<Longrightarrow> BitLen x \<le> 64 \<longleftrightarrow> x < 2 ^ 64"
  by (simp add: BitLen_def BitLen_nat_le_iff nat_less_iff)

lemma DeriveChainID_protected:
  assumes "35 \<le> x"
  shows "DeriveChainID (Some x) = Some ((x - 35) div 2)"
proof (cases "BitLen x \<le> 64")
  case True
  with assms have small: "x < 2 ^ 64" by (simp add: BitLen_le_64)
  define w where "w = (word_of_int x :: uint64)"
  have w: "uint w = x" using small assms by (simp add: w_def uint_word_of_int)
  then have big: "\<not> w < 35" "w \<noteq> 27" "w \<noteq> 28" using assms by (auto simp: word_less_def)
  have "uint (w - 35) = x - 35" using w assms uint_sub_lem [of 35 w] by auto
  then have "uint ((w - 35) div 2) = (x - 35) div 2" by (simp add: uint_div)
  with big True assms show ?thesis by (simp add: DeriveChainID_def Let_def flip: w_def)
next
  case False
  with assms show ?thesis by (simp add: DeriveChainID_def)
qed

subsection \<open>Conversion from and to go-ethereum\<close>

text \<open>
  What the conversions rely on: the hexadecimal form of an address or a hash reads back as
  it, an address never prints as the empty string, and \<open>NewIntFromBigInt\<close> keeps a value of at
  most 256 bits.
\<close>

definition lib_laws :: "txlib \<Rightarrow> bool" where
  "lib_laws L \<longleftrightarrow>
     (\<forall>a. HexToAddress L (AddressHex L a) = a \<and> AddressHex L a \<noteq> [] \<and> libIsHexAddress L (AddressHex L a)) \<and>
     (\<forall>h. HexToHash L (HashHex L h) = h) \<and>
     (\<forall>i. \<bar>i\<bar> < 2 ^ 256 \<longrightarrow> NewIntFromBigInt L i = Some i)"

text \<open>A missing signature value or access list stands for zero or the empty list.\<close>

definition zero_nil :: "int option \<Rightarrow> int option" where
  "zero_nil v = (if v = Some 0 then None else v)"

definition normal_tx :: "ethTx \<Rightarrow> ethTx" where
  "normal_tx tx = tx\<lparr>e_V := zero_nil (e_V tx), e_R := zero_nil (e_R tx), e_S := zero_nil (e_S tx),
     e_AccessList := (if e_AccessList tx = Some [] then None else e_AccessList tx)\<rparr>"

definition nonneg_sig :: "int option \<Rightarrow> bool" where
  "nonneg_sig v = (case v of None \<Rightarrow> True | Some x \<Rightarrow> 0 \<le> x)"

definition in_range :: "int option \<Rightarrow> bool" where
  "in_range v = (case v of None \<Rightarrow> True | Some x \<Rightarrow> \<bar>x\<bar> < 2 ^ 256)"

text \<open>A transaction as go-ethereum builds it: values in range, the price fields of its type.\<close>

definition eth_ok :: "ethTx \<Rightarrow> bool" where
  "eth_ok tx \<longleftrightarrow> in_range (e_Value tx) \<and> in_range (e_GasPrice tx) \<and> in_range (e_GasFeeCap tx) \<and>
     in_range (e_GasTipCap tx) \<and> in_range (e_ChainId tx) \<and>
     nonneg_sig (e_V tx) \<and> nonneg_sig (e_R tx) \<and> nonneg_sig (e_S tx) \<and> e_Type tx \<le> 2 \<and>
     (e_Type tx < 2 \<longrightarrow> e_GasFeeCap tx = e_GasPrice tx \<and> e_GasTipCap tx = e_GasPrice tx) \<and>
     (e_Type tx = 2 \<longrightarrow> e_GasPrice tx = e_GasFeeCap tx) \<and>
     (e_Type tx = 0 \<longrightarrow> e_AccessList tx = None)"

lemma opt_Safe_in_range: "lib_laws L \<Longrightarrow> in_range v \<Longrightarrow> opt_Safe L v = Ok v"
  by (cases v) (simp_all add: opt_Safe_def SafeNewIntFromBigInt_def IsValidInt256_iff lib_laws_def
      in_range_def del: power_numeral)

lemma raw_sig_bytes: "nonneg_sig v \<Longrightarrow> raw_value (sig_bytes v []) = zero_nil v"
  by (cases v) (simp_all add: sig_bytes_def SetBytes_raw_value zero_nil_def nonneg_sig_def, simp add: raw_value_def)

lemma access_list_roundtrip:
  assumes "lib_laws L"
  shows "Option.bind (NewAccessList L al) (ToEthAccessList L) = (if al = Some [] then None else al)"
proof (cases al)
  case (Some xs)
  have "map (\<lambda>(a, ks). (HexToAddress L a, map (HexToHash L) ks))
      (map (\<lambda>(a, ks). (AddressHex L a, map (HashHex L) ks)) xs) = xs"
    using assms by (induction xs) (auto simp: lib_laws_def comp_def)
  with Some show ?thesis by (simp add: NewAccessList_def ToEthAccessList_def)
qed (simp add: NewAccessList_def)

lemma hex_facts:
  assumes "lib_laws L"
  shows "HexToAddress L (AddressHex L a) = a" "AddressHex L a \<noteq> []"
  using assms by (simp_all add: lib_laws_def)

lemma newInt_in_range: "lib_laws L \<Longrightarrow> in_range (Some i) \<Longrightarrow> NewIntFromBigInt L i = Some i"
  by (simp add: lib_laws_def in_range_def)

lemma legacy_roundtrip:
  assumes L: "lib_laws L" and tx: "eth_ok tx" "e_Type tx = 0"
  shows "\<exists>t. NewLegacyTx L tx = Ok t \<and> LegacyTx_AsEthereumData L t = (normal_tx tx)\<lparr>e_ChainId := None\<rparr>"
proof -
  have r: "in_range (e_Value tx)" "in_range (e_GasPrice tx)" "nonneg_sig (e_V tx)" "nonneg_sig (e_R tx)"
    "nonneg_sig (e_S tx)" "e_GasFeeCap tx = e_GasPrice tx" "e_GasTipCap tx = e_GasPrice tx" "e_AccessList tx = None"
    using tx by (auto simp: eth_ok_def)
  then show ?thesis
    using hex_facts [OF L] tx(2)
    by (cases tx; cases "e_To tx")
     (simp_all add: NewLegacyTx_def LegacyTx_SetSignatureValues_def LegacyTx_AsEthereumData_def normal_tx_def
        LegacyTx_defs rawSignatureValues_def opt_Safe_in_range [OF L] raw_sig_bytes)
qed

lemma access_list_tx_roundtrip:
  assumes L: "lib_laws L" and tx: "eth_ok tx" "e_Type tx = 1"
  shows "\<exists>t. newAccessListTx L tx = Ok t \<and> AccessListTx_AsEthereumData L t = normal_tx tx"
proof -
  have r: "in_range (e_Value tx)" "in_range (e_GasPrice tx)" "in_range (e_ChainId tx)" "nonneg_sig (e_V tx)"
    "nonneg_sig (e_R tx)" "nonneg_sig (e_S tx)" "e_GasFeeCap tx = e_GasPrice tx" "e_GasTipCap tx = e_GasPrice tx"
    using tx by (auto simp: eth_ok_def)
  then show ?thesis
    using hex_facts [OF L] tx(2) access_list_roundtrip [OF L, of "e_AccessList tx"]
    by (cases tx; cases "e_To tx"; cases "e_ChainId tx")
      (simp_all add: newAccessListTx_def AccessListTx_SetSignatureValues_def AccessListTx_AsEthereumData_def
        normal_tx_def AccessListTx_defs rawSignatureValues_def opt_Safe_in_range [OF L] raw_sig_bytes
        newInt_in_range [OF L])
qed

lemma dynamic_fee_roundtrip:
  assumes L: "lib_laws L" and tx: "eth_ok tx" "e_Type tx = 2"
  shows "\<exists>t. NewDynamicFeeTx L tx = Ok t \<and> DynamicFeeTx_AsEthereumData L t = normal_tx tx"
proof -
  have r: "in_range (e_Value tx)" "in_range (e_GasFeeCap tx)" "in_range (e_GasTipCap tx)" "in_range (e_ChainId tx)"
    "nonneg_sig (e_V tx)" "nonneg_sig (e_R tx)" "nonneg_sig (e_S tx)" "e_GasPrice tx = e_GasFeeCap tx"
    using tx by (auto simp: eth_ok_def)
  then show ?thesis
    using hex_facts [OF L] tx(2) access_list_roundtrip [OF L, of "e_AccessList tx"]
    by (cases tx; cases "e_To tx"; cases "e_ChainId tx")
      (simp_all add: NewDynamicFeeTx_def DynamicFeeTx_SetSignatureValues_def DynamicFeeTx_AsEthereumData_def
        normal_tx_def DynamicFeeTx_defs rawSignatureValues_def opt_Safe_in_range [OF L] raw_sig_bytes
        newInt_in_range [OF L])
qed

subsection \<open>An instance of the library\<close>

definition chars_of :: "bytes \<Rightarrow> string" where
  "chars_of bz = map (\<lambda>b. char_of (unat b)) bz"

definition bytes_of :: "string \<Rightarrow> bytes" where
  "bytes_of s = map (\<lambda>c. word_of_nat (of_char c)) s"

definition raw_lib :: txlib where
  "raw_lib =
     \<lparr>AddressHex = (\<lambda>a. chars_of (AddressBytes a)), HexToAddress = (\<lambda>s. word_of_nat (be_nat (bytes_of s))),
      HashHex = (\<lambda>h. chars_of (HashBytes h)), HexToHash = (\<lambda>s. BytesToHash (bytes_of s)),
      libIsHexAddress = (\<lambda>s. length s = 20), NewIntFromBigInt = (\<lambda>i. if \<bar>i\<bar> < 2 ^ 256 then Some i else None)\<rparr>"

lemma bytes_of_chars_of [simp]: "bytes_of (chars_of bz) = bz"
proof -
  have "word_of_nat (of_char (char_of (unat b) :: char)) = b" for b :: byte
    using unat_less_pow [of b] by (simp add: of_char_of)
  then show ?thesis by (induction bz) (simp_all add: bytes_of_def chars_of_def)
qed

lemma raw_lib_laws: "lib_laws raw_lib"
proof -
  have "word_of_nat (be_nat (AddressBytes a)) = a" for a
    using unat_less_pow [of a] by (simp add: AddressBytes_def be_nat_be_bytes)
  moreover have "length (chars_of (AddressBytes a)) = 20" for a by (simp add: chars_of_def)
  ultimately show ?thesis
    unfolding lib_laws_def raw_lib_def
    by (auto simp: simp del: power_numeral) (metis length_0_conv zero_neq_numeral)
qed

definition sample_eth_tx :: ethTx where
  "sample_eth_tx =
     \<lparr>e_Type = 2, e_ChainId = Some 9000, e_Nonce = 4, e_GasPrice = Some 100, e_GasTipCap = Some 2,
      e_GasFeeCap = Some 100, e_Gas = 21000, e_To = Some 77, e_Value = Some 5, e_Data = [],
      e_AccessList = Some [(77, [1, 2])], e_V = Some 1, e_R = Some 11, e_S = Some 12\<rparr>"

definition sample_tx_data :: TxData where
  "sample_tx_data =
     DynamicFee \<lparr>df_ChainID = Some 9000, df_Nonce = 4, df_GasTipCap = Some 2, df_GasFeeCap = Some 100,
       df_GasLimit = 21000, df_To = [], df_Amount = Some 5, df_Data = [], df_Accesses = None,
       df_V = [1], df_R = [11], df_S = [12]\<rparr>"

subsection \<open>Properties\<close>

text \<open>C6. A go-ethereum transaction of any type whose values fit in 256 bits is accepted by
  \<open>NewTxDataFromTx\<close>, keeps its type, and converts back to the same transaction: no field is
  lost (a zero signature value and an empty access list read back as absent, and a legacy
  transaction carries its chain ID in the signature only).\<close>
theorem tx_data_roundtrip:
  assumes "lib_laws L" "eth_ok tx"
  shows "\<exists>t. NewTxDataFromTx L tx = Ok t \<and> tx_TxType t = e_Type tx \<and>
    tx_AsEthereumData L t =
      (if e_Type tx = 0 then (normal_tx tx)\<lparr>e_ChainId := None\<rparr> else normal_tx tx)"
proof -
  have "e_Type tx \<le> 2" using assms(2) by (simp add: eth_ok_def)
  then consider "e_Type tx = 0" | "e_Type tx = 1" | "e_Type tx = 2" by linarith
  then show ?thesis
  proof cases
    case 1
    with legacy_roundtrip [OF assms] show ?thesis
      by (auto simp: NewTxDataFromTx_def LegacyTx_TxType_def)
  next
    case 2
    with access_list_tx_roundtrip [OF assms] show ?thesis
      by (auto simp: NewTxDataFromTx_def AccessListTx_TxType_def)
  next
    case 3
    with dynamic_fee_roundtrip [OF assms] show ?thesis
      by (auto simp: NewTxDataFromTx_def DynamicFeeTx_TxType_def)
  qed
qed

theorem tx_data_roundtrip_witness:
  "\<exists>t. NewTxDataFromTx raw_lib sample_eth_tx = Ok t \<and> tx_TxType t = 2 \<and>
     tx_AsEthereumData raw_lib t = sample_eth_tx"
  using tx_data_roundtrip [OF raw_lib_laws, of sample_eth_tx]
  by (simp add: eth_ok_def sample_eth_tx_def in_range_def nonneg_sig_def normal_tx_def zero_nil_def)

text \<open>For a transaction of any type that passes \<open>Validate\<close> and any base fee, the fee, cost,
  effective fee and effective cost are all defined (no nil dereference), the fee fits in 256
  bits, and what is effectively charged is at least zero and never more than the fee and cost
  the sender signed for.\<close>
theorem validated_tx_fees:
  assumes "tx_Validate L t = Ok ()" "0 \<le> b"
  shows "\<exists>f c ef ec. tx_Fee t = Some f \<and> tx_Cost t = Some c \<and>
    tx_EffectiveFee t (Some b) = Some ef \<and> tx_EffectiveCost t (Some b) = Some ec \<and>
    0 \<le> ef \<and> ef \<le> f \<and> f < 2 ^ 256 \<and> 0 \<le> ec \<and> ec \<le> c"
proof -
  have sane: "sane_tx t" using assms(1) by (simp add: Validate_Ok_iff)
  obtain p cap where p: "tx_EffectiveGasPrice t (Some b) = Some p" "tx_GetGasFeeCap t = Some cap"
    "0 \<le> p" "p \<le> cap"
    using effective_price [OF sane assms(2)] by metis
  have le: "0 \<le> p * uint (tx_GetGas t)" "p * uint (tx_GetGas t) \<le> cap * uint (tx_GetGas t)"
    using p by (auto intro: mult_right_mono)
  have "cap * uint (tx_GetGas t) < 2 ^ 256" and v: "\<And>v. tx_GetValue t = Some v \<Longrightarrow> 0 \<le> v"
    using sane p(2) by (auto simp: sane_tx_def simp del: power_numeral)
  with le p show ?thesis
    by (cases "tx_GetValue t")
      (auto simp: tx_EffectiveCost_eq tx_EffectiveFee_eq tx_Cost_eq tx_Fee_eq fee_def cost_def simp del: power_numeral)
qed

theorem validated_tx_fees_witness:
  "\<exists>f c ef ec. tx_Fee sample_tx_data = Some f \<and> tx_Cost sample_tx_data = Some c \<and>
    tx_EffectiveFee sample_tx_data (Some 10) = Some ef \<and> tx_EffectiveCost sample_tx_data (Some 10) = Some ec \<and>
    0 \<le> ef \<and> ef \<le> f \<and> f < 2 ^ 256 \<and> 0 \<le> ec \<and> ec \<le> c"
proof (rule validated_tx_fees)
  show "tx_Validate raw_lib sample_tx_data = Ok ()"
    unfolding Validate_Ok_iff by (simp add: sane_tx_def sample_tx_data_def DynamicFeeTx_defs)
qed simp

text \<open>The chain ID of an EIP-155 signature is recovered for every chain ID, also past 64 bits:
  \<open>DeriveChainID\<close> of \<open>v = {0,1} + 2 c + 35\<close> is \<open>c\<close>, so the chain ID of a legacy transaction
  cannot be confused with another's.\<close>
theorem derive_chain_id_eip155:
  assumes "0 \<le> c" "p = 0 \<or> p = 1"
  shows "DeriveChainID (Some (p + 2 * c + 35)) = Some c"
  using DeriveChainID_protected [of "p + 2 * c + 35"] assms by auto

theorem derive_chain_id_eip155_witness: "DeriveChainID (Some (1 + 2 * 9000 + 35)) = Some 9000"
  by (rule derive_chain_id_eip155) simp_all

end

