(* ===== verification/Evm_Transition.thy ===== *)
theory Evm_Transition
  imports Evm_Commit Evm_Tx Fee_Market
begin

text \<open>
  The state transition of the EVM module, \<open>x/evm/keeper\<close> (\<open>state_transition.go\<close>, \<open>gas.go\<close>,
  \<open>fees.go\<close>, \<open>hooks.go\<close>): applying a message on a fresh state database, charging gas and
  refunding the rest, running the hooks of other modules and keeping the counters of the
  block. The EVM interpreter of go-ethereum, the fork rules of a chain configuration and the
  other modules are fields of the record \<open>chain\<close>.
\<close>

subsection \<open>Messages, receipts and the environment\<close>

record Message =
  msg_From :: Address
  msg_To :: "Address option"
  msg_Nonce :: uint64
  msg_Gas :: uint64
  msg_GasPrice :: int
  msg_GasFeeCap :: int
  msg_GasTipCap :: int
  msg_Value :: int
  msg_Data :: bytes
  msg_AccessList :: ethAccessList
  msg_IsFake :: bool

record 'cc EVMConfig =
  cfg_Params :: "'cc Params"
  cfg_CoinBase :: Address
  cfg_BaseFee :: "int option"

record MsgEthereumTxResponse =
  res_Hash :: Hash
  res_Logs :: "ethLog list"
  res_Ret :: bytes
  res_VmError :: string
  res_GasUsed :: uint64

definition Failed :: "MsgEthereumTxResponse \<Rightarrow> bool" where
  "Failed m = (length (res_VmError m) > 0)"

definition res_Return :: "MsgEthereumTxResponse \<Rightarrow> bytes" where
  "res_Return m = (if Failed m then [] else res_Ret m)"

record Receipt =
  rc_Type :: nat
  rc_CumulativeGasUsed :: uint64
  rc_Bloom :: int
  rc_Logs :: "ethLog list"
  rc_TxHash :: Hash
  rc_ContractAddress :: Address
  rc_GasUsed :: uint64
  rc_BlockHash :: Hash
  rc_BlockNumber :: int
  rc_TransactionIndex :: uint64
  rc_Status :: nat

text \<open>
  What the keeper calls. \<open>xCreate\<close> and \<open>xCall\<close> are \<open>evm.Create\<close> and \<open>evm.Call\<close>: they get the
  state database and the gas left and return the return data, the gas left over, the error (empty
  for none) and the database as they leave it; \<^const>\<open>None\<close> is a panic. \<open>xHooks\<close> is the hook set on
  the keeper; it may change the receipt. \<open>xPrecompiles\<close> are the addresses of the keeper's map.
\<close>

record ('b, 'r, 'cc, 'd) chain =
  xsdk :: "('b, 'r, 'cc) sdk"
  xlib :: txlib
  xdecs :: "'d dec_ops"
  xMinGasMultiplier :: "'r Ctx \<Rightarrow> 'd"
  xGetBaseFee :: "'r Ctx \<Rightarrow> int option"
  xCoinbase :: "'r Ctx \<Rightarrow> (string, Address) outcome"
  xIsHomestead :: "'cc \<Rightarrow> int \<Rightarrow> bool"
  xIsIstanbul :: "'cc \<Rightarrow> int \<Rightarrow> bool"
  xIsBerlin :: "'cc \<Rightarrow> int \<Rightarrow> bool"
  xIsLondon :: "'cc \<Rightarrow> int \<Rightarrow> bool"
  xIntrinsicGas :: "bytes \<Rightarrow> ethAccessList \<Rightarrow> bool \<Rightarrow> bool \<Rightarrow> bool \<Rightarrow> (string, uint64) outcome"
  xBerlinPrecompiles :: "Address list"
  xActivePrecompiles :: "'cc \<Rightarrow> int \<Rightarrow> Address list"
  xPrecompiles :: "Address list"
  xCreate :: "'cc EVMConfig \<Rightarrow> Message \<Rightarrow> 'r Ctx StateDB \<Rightarrow> uint64 \<Rightarrow> (bytes \<times> uint64 \<times> string \<times> 'r Ctx StateDB) option"
  xCall :: "'cc EVMConfig \<Rightarrow> Message \<Rightarrow> 'r Ctx StateDB \<Rightarrow> Address \<Rightarrow> uint64 \<Rightarrow> (bytes \<times> uint64 \<times> string \<times> 'r Ctx StateDB) option"
  xHooks :: "('r Ctx \<Rightarrow> Message \<Rightarrow> Receipt \<Rightarrow> (string, Receipt \<times> 'r Ctx) outcome) option"
  xLogsBloom :: "ethLog list \<Rightarrow> int"
  xBytesToBloom :: "int \<Rightarrow> int"
  xCreateAddress :: "Address \<Rightarrow> uint64 \<Rightarrow> Address"
  xAsMessage :: "ethTx \<Rightarrow> 'cc \<Rightarrow> int \<Rightarrow> int option \<Rightarrow> (string, Message) outcome"
  xTxHash :: "ethTx \<Rightarrow> Hash"

subsection \<open>Gas\<close>

definition GetEthIntrinsicGas ::
  "('b, 'r, 'cc, 'd) chain \<Rightarrow> 'r Ctx \<Rightarrow> Message \<Rightarrow> 'cc \<Rightarrow> bool \<Rightarrow> (string, uint64) outcome" where
  "GetEthIntrinsicGas X c msg cc isContractCreation =
     (let height = BlockHeight c
      in xIntrinsicGas X (msg_Data msg) (msg_AccessList msg) isContractCreation
           (xIsHomestead X cc height) (xIsIstanbul X cc height))"

text \<open>A refund quotient of zero panics (integer division by zero).\<close>

definition GasToRefund :: "uint64 \<Rightarrow> uint64 \<Rightarrow> uint64 \<Rightarrow> uint64 option" where
  "GasToRefund availableRefund gasConsumed refundQuotient =
     (if refundQuotient = 0 then None
      else let r = gasConsumed div refundQuotient
           in Some (if r > availableRefund then availableRefund else r))"

definition ResetGasMeterAndConsumeGas :: "'r Ctx \<Rightarrow> uint64 \<Rightarrow> 'r Ctx option" where
  "ResetGasMeterAndConsumeGas c gasUsed = do {
     g1 \<leftarrow> meter_RefundGas (GasMeter c) (GasConsumed (GasMeter c));
     g2 \<leftarrow> ConsumeGas g1 gasUsed;
     Some (c\<lparr>GasMeter := g2\<rparr>) }"

text \<open>The coins are built by a literal and \<open>sdk.NewCoin\<close>; \<open>fee_collector\<close> is the SDK's fee account.\<close>

definition RefundGas ::
  "('b, 'r, 'cc) sdk \<Rightarrow> 'r Ctx \<Rightarrow> Message \<Rightarrow> uint64 \<Rightarrow> string \<Rightarrow> (string, 'r Ctx) outcome" where
  "RefundGas D c msg leftoverGas denom =
     (let remaining = uint leftoverGas * msg_GasPrice msg
      in if remaining < 0 then Err ''refunded amount value cannot be negative''
         else if remaining > 0 then
           bind_outcome (NewCoins D denom remaining) (\<lambda>coins.
           case bkSendCoinsFromModuleToAccount D (modules c) ''fee_collector'' (AddressBytes (msg_From msg)) coins of
             Ok r \<Rightarrow> Ok (c\<lparr>modules := r\<rparr>)
           | Err e \<Rightarrow> Err ''fee collector account failed to refund fees''
           | Panic \<Rightarrow> Panic)
         else Ok c)"

subsection \<open>Hooks and precompiles\<close>

text \<open>\<open>MultiEvmHooks.PostTxProcessing\<close>: the hooks run in sequence; the first error stops.\<close>

fun MultiEvmHooks_PostTxProcessing ::
  "('r Ctx \<Rightarrow> Message \<Rightarrow> Receipt \<Rightarrow> (string, Receipt \<times> 'r Ctx) outcome) list \<Rightarrow>
     'r Ctx \<Rightarrow> Message \<Rightarrow> Receipt \<Rightarrow> (string, Receipt \<times> 'r Ctx) outcome" where
  "MultiEvmHooks_PostTxProcessing [] c msg receipt = Ok (receipt, c)"
| "MultiEvmHooks_PostTxProcessing (h # hs) c msg receipt =
     bind_outcome (h c msg receipt) (\<lambda>(receipt', c'). MultiEvmHooks_PostTxProcessing hs c' msg receipt')"

definition PostTxProcessing ::
  "('b, 'r, 'cc, 'd) chain \<Rightarrow> 'r Ctx \<Rightarrow> Message \<Rightarrow> Receipt \<Rightarrow> (string, Receipt \<times> 'r Ctx) outcome" where
  "PostTxProcessing X c msg receipt =
     (case xHooks X of None \<Rightarrow> Ok (receipt, c) | Some hook \<Rightarrow> hook c msg receipt)"

definition AvailableEVMExtensions :: "string list" where
  "AvailableEVMExtensions =
     [''0x0000000000000000000000000000000000000800'', ''0x0000000000000000000000000000000000000801'',
      ''0x0000000000000000000000000000000000000802'', ''0x0000000000000000000000000000000000000803'']"

definition GetActivePrecompilesAddrs :: "txlib \<Rightarrow> 'cc Params \<Rightarrow> Address list" where
  "GetActivePrecompilesAddrs L p = map (HexToAddress L) (ActivePrecompiles p)"

text \<open>\<open>Precompiles\<close> panics on an address the keeper has no contract for.\<close>

definition Precompiles :: "('b, 'r, 'cc, 'd) chain \<Rightarrow> Address list \<Rightarrow> Address list option" where
  "Precompiles X active = (if list_all (\<lambda>a. a \<in> set (xPrecompiles X)) active then Some active else None)"

text \<open>
  The precompiles step of \<open>ApplyMessageWithConfig\<close>: the addresses the EVM treats as
  precompiled, or the error for a call to an inactive extension.
\<close>

definition active_precompiles ::
  "('b, 'r, 'cc, 'd) chain \<Rightarrow> 'r Ctx \<Rightarrow> 'cc EVMConfig \<Rightarrow> Message \<Rightarrow> (string, Address list) outcome" where
  "active_precompiles X c cfg msg =
     (let params = cfg_Params cfg
      in if HasCustomPrecompiles params then
           let active = xBerlinPrecompiles X @ GetActivePrecompilesAddrs (xlib X) params
           in if (case msg_To msg of
                    None \<Rightarrow> False
                  | Some a \<Rightarrow> AddressHex (xlib X) a \<in> set AvailableEVMExtensions \<and> a \<notin> set active)
              then Err ''failed to call precompile''
              else case Precompiles X active of None \<Rightarrow> Panic | Some as \<Rightarrow> Ok as
         else Ok (xActivePrecompiles X (ChainConfig params) (BlockHeight c)))"

subsection \<open>Applying a message\<close>

text \<open>\<open>sdk.Int.IsUint64\<close> and \<open>Uint64\<close>, which panics out of range.\<close>

definition IsUint64 :: "int \<Rightarrow> bool" where
  "IsUint64 i = (0 \<le> i \<and> i \<le> max_uint64)"

text \<open>
  The gas charged: the gas the execution used, less the refund, but at least the gas limit
  times the minimum gas multiplier. \<open>int64(gas)\<close> reads a \<open>uint64\<close> in two's complement.
\<close>

definition charged_gas ::
  "'d dec_ops \<Rightarrow> 'd \<Rightarrow> uint64 \<Rightarrow> uint64 \<Rightarrow> uint64 \<Rightarrow> (string, uint64) outcome" where
  "charged_gas Q minGasMultiplier gas leftoverGas temporaryGasUsed =
     (case Dec_Mul Q (NewDec Q (sint gas)) minGasMultiplier of
        None \<Rightarrow> Panic
      | Some minimumGasUsed \<Rightarrow>
          if \<not> IsUint64 (TruncateInt Q minimumGasUsed) then Err ''minimumGasUsed is not a uint64''
          else if gas < leftoverGas then Err ''message gas limit < leftover gas''
          else let used = TruncateInt Q (MaxDec Q minimumGasUsed (NewDec Q (sint temporaryGasUsed)))
               in if IsUint64 used then Ok (word_of_int used) else Panic)"

definition RefundQuotient :: uint64 where "RefundQuotient = 2"
definition RefundQuotientEIP3529 :: uint64 where "RefundQuotientEIP3529 = 5"

definition option_outcome :: "'a option \<Rightarrow> ('e, 'a) outcome" where
  "option_outcome x = (case x of None \<Rightarrow> Panic | Some a \<Rightarrow> Ok a)"

definition run_evm ::
  "('b, 'r, 'cc, 'd) chain \<Rightarrow> 'cc EVMConfig \<Rightarrow> Message \<Rightarrow> 'r Ctx StateDB \<Rightarrow> uint64 \<Rightarrow>
     (bytes \<times> uint64 \<times> string \<times> 'r Ctx StateDB) option" where
  "run_evm X cfg msg db gas =
     (case msg_To msg of
        None \<Rightarrow> do {
          (ret, left, err, db1) \<leftarrow> xCreate X cfg msg (SetNonce db (msg_From msg) (msg_Nonce msg)) gas;
          Some (ret, left, err, SetNonce db1 (msg_From msg) (msg_Nonce msg + 1)) }
      | Some to \<Rightarrow> xCall X cfg msg db to gas)"

text \<open>
  \<open>ApplyMessageWithConfig\<close> in three parts: the checks up to the prepared access list, with the
  database and the gas left for the EVM; the execution, above; and what follows it.
\<close>

definition start_message ::
  "('b, 'r, 'cc, 'd) chain \<Rightarrow> 'r Ctx \<Rightarrow> Message \<Rightarrow> 'cc EVMConfig \<Rightarrow> TxConfig \<Rightarrow>
     (string, 'r Ctx StateDB \<times> uint64) outcome" where
  "start_message X c msg cfg txCfg =
     (if \<not> EnableCreate (cfg_Params cfg) \<and> msg_To msg = None then Err ''failed to create new contract''
      else if \<not> EnableCall (cfg_Params cfg) \<and> msg_To msg \<noteq> None then Err ''failed to call contract''
      else
        bind_outcome (active_precompiles X c cfg msg) (\<lambda>precompiles.
        bind_outcome (GetEthIntrinsicGas X c msg (ChainConfig (cfg_Params cfg)) (msg_To msg = None)) (\<lambda>intrinsicGas.
        if msg_Gas msg < intrinsicGas then Err ''intrinsic gas too low''
        else
          let stateDB = New c (evm_env (xsdk X)) txCfg in
          bind_outcome (option_outcome
            (if xIsBerlin X (ChainConfig (cfg_Params cfg)) (BlockHeight c)
             then PrepareAccessList stateDB (msg_From msg) (msg_To msg) precompiles (msg_AccessList msg)
             else Some stateDB)) (\<lambda>db.
          Ok (db, msg_Gas msg - intrinsicGas)))))"

definition finish_message ::
  "('b, 'r, 'cc, 'd) chain \<Rightarrow> 'r Ctx \<Rightarrow> Message \<Rightarrow> bool \<Rightarrow> 'cc EVMConfig \<Rightarrow> TxConfig \<Rightarrow> bytes \<Rightarrow> uint64 \<Rightarrow>
     string \<Rightarrow> 'r Ctx StateDB \<Rightarrow> (string, MsgEthereumTxResponse \<times> 'r Ctx) outcome" where
  "finish_message X c msg commit cfg txCfg ret leftoverGas vmError db =
     (if msg_Gas msg < leftoverGas then Err ''gas overflow: apply message''
      else
        let refundQuotient = (if xIsLondon X (ChainConfig (cfg_Params cfg)) (BlockHeight c)
              then RefundQuotientEIP3529 else RefundQuotient);
            temporaryGasUsed = msg_Gas msg - leftoverGas
        in bind_outcome (option_outcome (GasToRefund (GetRefund db) temporaryGasUsed refundQuotient)) (\<lambda>rf.
        bind_outcome (if commit then bind_outcome (Commit db) (\<lambda>db1. Ok (ctx db1)) else Ok c) (\<lambda>c'.
        bind_outcome (charged_gas (xdecs X) (xMinGasMultiplier X c') (msg_Gas msg)
            (leftoverGas + rf) (temporaryGasUsed - rf)) (\<lambda>gasUsed.
        Ok (\<lparr>res_Hash = TxHash txCfg, res_Logs = logs db, res_Ret = ret, res_VmError = vmError,
             res_GasUsed = gasUsed\<rparr>, c')))))"

definition ApplyMessageWithConfig ::
  "('b, 'r, 'cc, 'd) chain \<Rightarrow> 'r Ctx \<Rightarrow> Message \<Rightarrow> bool \<Rightarrow> 'cc EVMConfig \<Rightarrow> TxConfig \<Rightarrow>
     (string, MsgEthereumTxResponse \<times> 'r Ctx) outcome" where
  "ApplyMessageWithConfig X c msg commit cfg txCfg =
     bind_outcome (start_message X c msg cfg txCfg) (\<lambda>(db, gas).
     bind_outcome (option_outcome (run_evm X cfg msg db gas)) (\<lambda>(ret, leftoverGas, vmError, db1).
     finish_message X c msg commit cfg txCfg ret leftoverGas vmError db1))"

subsection \<open>Applying a transaction\<close>

definition getBaseFee :: "('b, 'r, 'cc, 'd) chain \<Rightarrow> 'r Ctx \<Rightarrow> bool \<Rightarrow> int option" where
  "getBaseFee X c london =
     (if \<not> london then None
      else case xGetBaseFee X c of None \<Rightarrow> Some 0 | Some b \<Rightarrow> Some b)"

definition GetBaseFee :: "('b, 'r, 'cc, 'd) chain \<Rightarrow> 'r Ctx \<Rightarrow> 'cc \<Rightarrow> int option" where
  "GetBaseFee X c cc = getBaseFee X c (xIsLondon X cc (BlockHeight c))"

definition keeper_EVMConfig :: "('b, 'r, 'cc, 'd) chain \<Rightarrow> 'r Ctx \<Rightarrow> (string, 'cc EVMConfig) outcome" where
  "keeper_EVMConfig X c =
     (let params = GetParams (xsdk X) c
      in bind_outcome (xCoinbase X c) (\<lambda>coinbase.
         Ok \<lparr>cfg_Params = params, cfg_CoinBase = coinbase, cfg_BaseFee = GetBaseFee X c (ChainConfig params)\<rparr>))"

text \<open>\<open>ApplyMessage\<close>: an empty transaction configuration.\<close>

definition ApplyMessage ::
  "('b, 'r, 'cc, 'd) chain \<Rightarrow> 'r Ctx \<Rightarrow> Message \<Rightarrow> bool \<Rightarrow> (string, MsgEthereumTxResponse \<times> 'r Ctx) outcome" where
  "ApplyMessage X c msg commit =
     bind_outcome (keeper_EVMConfig X c) (\<lambda>cfg.
     ApplyMessageWithConfig X c msg commit cfg (NewEmptyTxConfig (BytesToHash (HeaderHash c))))"

definition cumulative_gas :: "'r Ctx \<Rightarrow> uint64 \<Rightarrow> uint64" where
  "cumulative_gas c gasUsed =
     (case BlockGasMeter c of
        None \<Rightarrow> gasUsed
      | Some (lim, used) \<Rightarrow> let g = gasUsed + used in if g > lim then lim else g)"

definition make_receipt ::
  "('b, 'r, 'cc, 'd) chain \<Rightarrow> 'r Ctx \<Rightarrow> ethTx \<Rightarrow> Message \<Rightarrow> TxConfig \<Rightarrow> MsgEthereumTxResponse \<Rightarrow> Receipt" where
  "make_receipt X c tx msg txCfg res =
     \<lparr>rc_Type = e_Type tx, rc_CumulativeGasUsed = cumulative_gas c (res_GasUsed res),
      rc_Bloom = (if length (res_Logs res) > 0
        then xBytesToBloom X (Bit_Operations.or (GetBlockBloomTransient c) (xLogsBloom X (res_Logs res))) else 0),
      rc_Logs = res_Logs res, rc_TxHash = TxHash txCfg,
      rc_ContractAddress = (if msg_To msg = None then xCreateAddress X (msg_From msg) (msg_Nonce msg) else 0),
      rc_GasUsed = res_GasUsed res, rc_BlockHash = BlockHash txCfg, rc_BlockNumber = BlockHeight c,
      rc_TransactionIndex = TxIndex txCfg, rc_Status = (if Failed res then 0 else 1)\<rparr>"

text \<open>
  Post processing. Without hooks the message was applied on \<open>ctx\<close> itself. With hooks it was
  applied on a cached copy, which is written back only if the transaction and the hooks
  succeeded. The result is the response, the receipt and the context to go on with.
\<close>

definition post_process ::
  "('b, 'r, 'cc, 'd) chain \<Rightarrow> 'r Ctx \<Rightarrow> 'r Ctx \<Rightarrow> Message \<Rightarrow> MsgEthereumTxResponse \<Rightarrow> Receipt \<Rightarrow>
     (MsgEthereumTxResponse \<times> Receipt \<times> 'r Ctx) option" where
  "post_process X c tmpCtx msg res receipt =
     (let base = (if xHooks X = None then tmpCtx else c)
      in if Failed res then Some (res, receipt, base)
         else case PostTxProcessing X tmpCtx msg receipt of
                Panic \<Rightarrow> None
              | Err e \<Rightarrow> Some (res\<lparr>res_VmError := ''failed to execute post processing'', res_Logs := []\<rparr>, receipt, base)
              | Ok (receipt', tmpCtx') \<Rightarrow>
                  if xHooks X = None then Some (res, receipt', tmpCtx')
                  else Some (res\<lparr>res_Logs := rc_Logs receipt'\<rparr>, receipt', tmpCtx'))"

text \<open>The counters after the refund: bloom and log size, if the receipt has logs, and the index.\<close>

definition count_tx :: "'r Ctx \<Rightarrow> TxConfig \<Rightarrow> Receipt \<Rightarrow> 'r Ctx" where
  "count_tx c t receipt =
     (let c3 = (if length (rc_Logs receipt) > 0
               then SetLogSizeTransient (SetBlockBloomTransient c (rc_Bloom receipt))
                      (LogIndex t + of_nat (length (rc_Logs receipt)))
               else c)
      in SetTxIndexTransient c3 (TxIndex t + 1))"

definition ApplyTransaction ::
  "('b, 'r, 'cc, 'd) chain \<Rightarrow> 'r Ctx \<Rightarrow> ethTx \<Rightarrow> (string, MsgEthereumTxResponse \<times> 'r Ctx) outcome" where
  "ApplyTransaction X c tx =
     bind_outcome (keeper_EVMConfig X c) (\<lambda>cfg.
     let txCfg = keeper_TxConfig c (xTxHash X tx) in
     bind_outcome (xAsMessage X tx (ChainConfig (cfg_Params cfg)) (BlockHeight c) (cfg_BaseFee cfg)) (\<lambda>msg.
     bind_outcome (ApplyMessageWithConfig X c msg True cfg txCfg) (\<lambda>(res, tmpCtx).
     bind_outcome (option_outcome (post_process X c tmpCtx msg res (make_receipt X c tx msg txCfg res)))
       (\<lambda>(res1, receipt, c1).
     bind_outcome (RefundGas (xsdk X) c1 msg (msg_Gas msg - res_GasUsed res1) (EvmDenom (cfg_Params cfg))) (\<lambda>c2.
     bind_outcome (AddTransientGasUsed (count_tx c2 txCfg receipt) (res_GasUsed res1)) (\<lambda>(totalGasUsed, c5).
     bind_outcome (option_outcome (ResetGasMeterAndConsumeGas c5 totalGasUsed)) (\<lambda>c6.
     Ok (res1, c6))))))))"

subsection \<open>What the interpreter promises\<close>

text \<open>
  The EVM returns at most the gas it was given and changes the state database only through
  its interface, in some sequence of operations, snapshots and reverts.
\<close>

definition evm_laws :: "('b, 'r, 'cc, 'd) chain \<Rightarrow> bool" where
  "evm_laws X \<longleftrightarrow>
     (\<forall>cfg msg db g ret left err db'. xCreate X cfg msg db g = Some (ret, left, err, db') \<longrightarrow>
        left \<le> g \<and> (\<exists>cs. db_run cs db = Some db')) \<and>
     (\<forall>cfg msg db to g ret left err db'. xCall X cfg msg db to g = Some (ret, left, err, db') \<longrightarrow>
        left \<le> g \<and> (\<exists>cs. db_run cs db = Some db'))"

definition runs :: "'w StateDB \<Rightarrow> 'w StateDB \<Rightarrow> bool" where
  "runs s t \<longleftrightarrow> (\<exists>cs. db_run cs s = Some t)"

lemma runs_refl [simp]: "runs s s"
  unfolding runs_def by (rule exI [of _ "[]"]) simp

lemma runs_trans: "runs s t \<Longrightarrow> runs t u \<Longrightarrow> runs s u"
  unfolding runs_def by (metis db_run_append bind.bind_lunit)

lemma runs_step: "db_step c s = Some t \<Longrightarrow> runs s t"
  unfolding runs_def by (rule exI [of _ "[Do c]"]) simp

lemma runs_SetNonce: "runs s (SetNonce s a n)"
  by (rule runs_step [of "opSetNonce a n"]) simp

lemma runs_AddAddress: "runs s (AddAddressToAccessList s a)"
  by (rule runs_step [of "opAddAddressToAccessList a"]) simp

lemma runs_AddSlots: "AddSlotsToAccessList s a ks = Some t \<Longrightarrow> runs s t"
proof (induction ks arbitrary: s)
  case (Cons k ks)
  then obtain s1 where "AddSlotToAccessList s a k = Some s1" "AddSlotsToAccessList s1 a ks = Some t"
    by (auto split: bind_splits)
  moreover from this have "runs s s1" by (intro runs_step [of "opAddSlotToAccessList a k"]) simp
  ultimately show ?case using Cons.IH runs_trans by blast
qed simp

lemma runs_AddTuples: "AddTuplesToAccessList s list = Some t \<Longrightarrow> runs s t"
proof (induction list arbitrary: s)
  case (Cons x list)
  obtain a ks where "x = (a, ks)" by (cases x)
  with Cons.prems obtain s1 where "AddSlotsToAccessList (AddAddressToAccessList s a) a ks = Some s1"
    "AddTuplesToAccessList s1 list = Some t"
    by (auto split: bind_splits)
  with Cons.IH show ?case by (meson runs_AddAddress runs_AddSlots runs_trans)
qed simp

lemma runs_fold_addresses: "runs s (fold (\<lambda>addr s. AddAddressToAccessList s addr) as s)"
  by (induction "as" arbitrary: s) (auto intro: runs_AddAddress runs_trans)

lemma runs_PrepareAccessList: "PrepareAccessList s a dst ps list = Some t \<Longrightarrow> runs s t"
  unfolding PrepareAccessList_def Let_def
  by (drule runs_AddTuples, erule runs_trans [rotated], rule runs_trans [OF _ runs_fold_addresses],
      cases dst) (simp_all add: runs_AddAddress runs_trans [OF runs_AddAddress runs_AddAddress])

lemma run_evm_laws:
  assumes "evm_laws X" "run_evm X cfg msg db gas = Some (ret, left, err, db')"
  shows "left \<le> gas" "runs db db'"
proof -
  have "left \<le> gas \<and> runs db db'"
  proof (cases "msg_To msg")
    case None
    then obtain db1 where "xCreate X cfg msg (SetNonce db (msg_From msg) (msg_Nonce msg)) gas = Some (ret, left, err, db1)"
      "db' = SetNonce db1 (msg_From msg) (msg_Nonce msg + 1)"
      using assms(2) by (auto simp: run_evm_def split: bind_splits)
    moreover from this assms(1) have "left \<le> gas" "runs (SetNonce db (msg_From msg) (msg_Nonce msg)) db1"
      by (auto simp: evm_laws_def runs_def)
    ultimately show ?thesis using runs_SetNonce runs_trans by metis
  next
    case (Some to)
    then show ?thesis using assms by (auto simp: run_evm_def evm_laws_def runs_def)
  qed
  then show "left \<le> gas" "runs db db'" by auto
qed

subsection \<open>Gas charged\<close>

lemma sint_small: "uint (w :: uint64) \<le> max_int64 \<Longrightarrow> sint w = uint w"
  by (simp add: sint_uint signed_take_bit_int_eq_self_iff) (meson dual_order.trans neg_numeral_le_zero uint_ge_0)

lemma uint_word_of_int_id: "0 \<le> x \<Longrightarrow> x \<le> max_uint64 \<Longrightarrow> uint (word_of_int x :: uint64) = x"
  by (simp add: uint_word_of_int)

lemma word_add_le: "(l :: uint64) \<le> g \<Longrightarrow> r \<le> g - l \<Longrightarrow> l + r \<le> g"
proof -
  assume "l \<le> g" "r \<le> g - l"
  then have "unat l + unat r \<le> unat g" by (simp add: word_le_nat_alt unat_sub)
  moreover from this have "unat (l + r) = unat l + unat r"
    using unat_less_pow [of g] by (intro unat_add_noverflow) simp
  ultimately show ?thesis by (simp add: word_le_nat_alt)
qed

lemma charged_gas_correct:
  assumes dec: "dec_laws Q val" and m: "0 \<le> val m" "val m \<le> 1"
    and gas: "uint gas \<le> max_int64" and left: "left \<le> gas" and temp: "temp \<le> gas"
  shows "\<exists>g. charged_gas Q m gas left temp = Ok g \<and>
    uint g = max \<lfloor>of_int (uint gas) * val m\<rfloor> (uint temp) \<and> g \<le> gas"
proof -
  define G T where "G = uint gas" and "T = uint temp"
  have T: "0 \<le> T" "T \<le> G" "G \<le> max_int64" "0 \<le> G"
    using temp gas by (auto simp: G_def T_def word_le_def)
  have s: "sint gas = G" "sint temp = T"
    using T by (simp_all add: sint_small G_def T_def)
  obtain l where l: "Dec_Mul Q (NewDec Q G) m = Some l"
    using dec T m by (force simp: dec_laws_def)
  then have val_l: "val l = of_int G * val m" using dec by (auto simp: dec_laws_def)
  have nn: "0 \<le> of_int G * val m" using T m by simp
  have up: "of_int G * val m \<le> of_int G"
    using m(2) T by (metis mult.right_neutral mult_left_mono of_int_0_le_iff)
  have trunc_l: "TruncateInt Q l = \<lfloor>of_int G * val m\<rfloor>" using dec val_l nn by (auto simp: dec_laws_def)
  have fl: "0 \<le> \<lfloor>of_int G * val m\<rfloor>" "\<lfloor>of_int G * val m\<rfloor> \<le> G"
    using nn up by (simp, metis floor_mono floor_of_int)
  define h where "h = MaxDec Q l (NewDec Q T)"
  have val_h: "val h = max (of_int G * val m) (of_int T)" using dec val_l by (auto simp: dec_laws_def h_def)
  have "0 \<le> val h" using val_h nn by (simp add: le_max_iff_disj)
  then have "TruncateInt Q h = \<lfloor>val h\<rfloor>" using dec by (auto simp: dec_laws_def)
  also have "\<lfloor>val h\<rfloor> = max \<lfloor>of_int G * val m\<rfloor> T"
    unfolding val_h max_def by (auto simp: le_floor_iff floor_le_iff not_le intro: floor_unique)
  finally have h: "TruncateInt Q h = max \<lfloor>of_int G * val m\<rfloor> T" .
  let ?u = "max \<lfloor>of_int G * val m\<rfloor> T"
  have u: "0 \<le> ?u" "?u \<le> G" using fl T by linarith+
  have ok: "IsUint64 ?u" "IsUint64 \<lfloor>of_int G * val m\<rfloor>" using u fl T unfolding IsUint64_def by linarith+
  have "charged_gas Q m gas left temp = Ok (word_of_int ?u)"
    using l left ok h by (simp add: charged_gas_def s trunc_l Let_def flip: h_def)
  moreover have w: "uint (word_of_int ?u :: uint64) = ?u"
    using u T(3) by (intro uint_word_of_int_id) linarith+
  moreover have "(word_of_int ?u :: uint64) \<le> gas" using w u(2) by (simp add: word_le_def G_def)
  ultimately show ?thesis by (auto simp: G_def T_def)
qed

lemma GasToRefund_Some:
  assumes "GasToRefund avail used q = Some r"
  shows "r \<le> used" "r \<le> avail" "uint r \<le> uint used div uint q"
proof -
  have "used div q \<le> used" by (simp add: word_le_nat_alt unat_div)
  then show "r \<le> used" "r \<le> avail"
    using assms by (auto simp: GasToRefund_def Let_def split: if_splits)
  show "uint r \<le> uint used div uint q"
    using assms by (auto simp: GasToRefund_def Let_def uint_div word_less_def split: if_splits)
qed

subsection \<open>The parts of a message that was applied\<close>

lemma option_outcome_Ok [simp]: "option_outcome x = Ok a \<longleftrightarrow> x = Some a"
  by (simp add: option_outcome_def split: option.splits)

lemma start_message_Ok:
  assumes "start_message X c msg cfg t = Ok (db, gas)"
  shows "runs (New c (evm_env (xsdk X)) t) db" "gas \<le> msg_Gas msg"
    "msg_To msg = None \<Longrightarrow> EnableCreate (cfg_Params cfg)"
    "msg_To msg \<noteq> None \<Longrightarrow> EnableCall (cfg_Params cfg)"
proof -
  obtain ps ig where ig: "\<not> msg_Gas msg < ig" "gas = msg_Gas msg - ig"
    and db: "(if xIsBerlin X (ChainConfig (cfg_Params cfg)) (BlockHeight c)
      then PrepareAccessList (New c (evm_env (xsdk X)) t) (msg_From msg) (msg_To msg) ps (msg_AccessList msg)
      else Some (New c (evm_env (xsdk X)) t)) = Some db"
    using assms by (fastforce simp: start_message_def Let_def split: if_splits)
  show "gas \<le> msg_Gas msg" using ig by (simp add: word_sub_le not_less)
  show "runs (New c (evm_env (xsdk X)) t) db"
    using db runs_PrepareAccessList by (auto split: if_splits)
  show "msg_To msg = None \<Longrightarrow> EnableCreate (cfg_Params cfg)"
    "msg_To msg \<noteq> None \<Longrightarrow> EnableCall (cfg_Params cfg)"
    using assms by (auto simp: start_message_def split: if_splits)
qed

lemma finish_message_Ok:
  assumes "finish_message X c msg commit cfg t ret left err db = Ok (res, c')"
  obtains rf q where "left \<le> msg_Gas msg" "GasToRefund (GetRefund db) (msg_Gas msg - left) q = Some rf"
    "q = 2 \<or> q = 5"
    "if commit then (\<exists>db1. Commit db = Ok db1 \<and> c' = ctx db1) else c' = c"
    "charged_gas (xdecs X) (xMinGasMultiplier X c') (msg_Gas msg) (left + rf) (msg_Gas msg - left - rf)
       = Ok (res_GasUsed res)"
    "res_Logs res = logs db" "res_VmError res = err" "res_Ret res = ret"
  using assms
  by (cases commit)
    (auto simp: finish_message_def Let_def not_less RefundQuotient_def RefundQuotientEIP3529_def split: if_splits)

lemma ApplyMessageWithConfig_Ok:
  assumes "ApplyMessageWithConfig X c msg commit cfg t = Ok (res, c')"
  obtains db gas ret left err db1 where "start_message X c msg cfg t = Ok (db, gas)"
    "run_evm X cfg msg db gas = Some (ret, left, err, db1)"
    "finish_message X c msg commit cfg t ret left err db1 = Ok (res, c')"
  using assms by (auto simp: ApplyMessageWithConfig_def)

lemma applied_message_run:
  assumes X: "evm_laws X" and ok: "ApplyMessageWithConfig X c msg commit cfg t = Ok (res, c')"
  shows "\<exists>cs db. db_run cs (New c (evm_env (xsdk X)) t) = Some db \<and> res_Logs res = logs db \<and>
    (if commit then (\<exists>db1. Commit db = Ok db1 \<and> c' = ctx db1) else c' = c)"
proof -
  obtain db gas ret left err db1 where st: "start_message X c msg cfg t = Ok (db, gas)"
    "run_evm X cfg msg db gas = Some (ret, left, err, db1)"
    "finish_message X c msg commit cfg t ret left err db1 = Ok (res, c')"
    using ApplyMessageWithConfig_Ok [OF ok] .
  have "runs (New c (evm_env (xsdk X)) t) db1"
    using start_message_Ok(1) [OF st(1)] run_evm_laws(2) [OF X st(2)] runs_trans by blast
  then obtain cs where "db_run cs (New c (evm_env (xsdk X)) t) = Some db1" by (auto simp: runs_def)
  moreover have "res_Logs res = logs db1" "if commit then (\<exists>db2. Commit db1 = Ok db2 \<and> c' = ctx db2) else c' = c"
    using finish_message_Ok [OF st(3)] by metis+
  ultimately show ?thesis by blast
qed

lemma applied_message_gas:
  assumes X: "evm_laws X" and dec: "dec_laws (xdecs X) val"
    and m: "0 \<le> val (xMinGasMultiplier X c')" "val (xMinGasMultiplier X c') \<le> 1"
    and gas: "uint (msg_Gas msg) \<le> max_int64"
    and ok: "ApplyMessageWithConfig X c msg commit cfg t = Ok (res, c')"
  shows "res_GasUsed res \<le> msg_Gas msg"
    "\<lfloor>of_int (uint (msg_Gas msg)) * val (xMinGasMultiplier X c')\<rfloor> \<le> uint (res_GasUsed res)"
proof -
  obtain db gas' ret left err db1 where st: "finish_message X c msg commit cfg t ret left err db1 = Ok (res, c')"
    using ApplyMessageWithConfig_Ok [OF ok] by metis
  obtain rf q where f: "left \<le> msg_Gas msg" "GasToRefund (GetRefund db1) (msg_Gas msg - left) q = Some rf"
    "charged_gas (xdecs X) (xMinGasMultiplier X c') (msg_Gas msg) (left + rf) (msg_Gas msg - left - rf)
       = Ok (res_GasUsed res)"
    using finish_message_Ok [OF st] by metis
  have rf: "rf \<le> msg_Gas msg - left" using GasToRefund_Some(1) [OF f(2)] .
  have "left + rf \<le> msg_Gas msg" using f(1) rf by (rule word_add_le)
  moreover have "msg_Gas msg - left - rf \<le> msg_Gas msg"
    using f(1) rf by (meson order_trans word_sub_le)
  ultimately show "res_GasUsed res \<le> msg_Gas msg"
    "\<lfloor>of_int (uint (msg_Gas msg)) * val (xMinGasMultiplier X c')\<rfloor> \<le> uint (res_GasUsed res)"
    using charged_gas_correct [OF dec m gas, of "left + rf" "msg_Gas msg - left - rf"] f(3) by auto
qed

subsection \<open>What a commit leaves of the block context\<close>

definition same_block :: "'r Ctx \<Rightarrow> 'r Ctx \<Rightarrow> bool" where
  "same_block c c' \<longleftrightarrow> transientStore c' = transientStore c \<and> BlockHeight c' = BlockHeight c \<and>
     HeaderHash c' = HeaderHash c \<and> GasMeter c' = GasMeter c \<and> BlockGasMeter c' = BlockGasMeter c"

lemma same_block_refl [simp]: "same_block c c"
  by (simp add: same_block_def)

lemma same_block_trans: "same_block c c1 \<Longrightarrow> same_block c1 c2 \<Longrightarrow> same_block c c2"
  by (simp add: same_block_def)

lemma same_block_upd [simp]:
  "same_block c (c\<lparr>modules := r\<rparr>)" "same_block c (c\<lparr>kvStore := k\<rparr>)"
  "same_block c (keeper_SetState c a key v)" "same_block c (keeper_SetCode c h code)"
  by (simp_all add: same_block_def keeper_SetState_def keeper_SetCode_def Let_def)

lemma same_block_from [simp]:
  "same_block (c\<lparr>modules := r\<rparr>) d = same_block c d" "same_block (c\<lparr>kvStore := k\<rparr>) d = same_block c d"
  "same_block (keeper_SetState c a key v) d = same_block c d"
  "same_block (keeper_SetCode c h code) d = same_block c d" "same_block c (d\<lparr>modules := r\<rparr>) = same_block c d"
  by (simp_all add: same_block_def keeper_SetState_def keeper_SetCode_def Let_def)

lemma same_block_SetBalance: "keeper_SetBalance D c a n = Ok c' \<Longrightarrow> same_block c c'"
  by (auto simp: keeper_SetBalance_def Let_def split: option.splits if_splits)

lemma same_block_SetAccount:
  assumes "keeper_SetAccount D c a acct = Ok c'"
  shows "same_block c c'"
proof -
  obtain r where "keeper_SetBalance D (c\<lparr>modules := r\<rparr>) a (Balance acct) = Ok c'"
    using assms by (auto simp: keeper_SetAccount_def Let_def split: prod.splits)
  from same_block_SetBalance [OF this] show ?thesis by simp
qed

lemma same_block_delete: "same_block c (foldl (\<lambda>s p. keeper_SetState s a (fst p) []) c ps)"
proof (induction ps arbitrary: c)
  case (Cons p ps)
  from Cons [of "keeper_SetState c a (fst p) []"] show ?case by simp
qed simp

lemma same_block_DeleteAccount:
  assumes "keeper_DeleteAccount D c a = Ok c'"
  shows "same_block c c'"
proof (cases "akGetAccount D (modules c) (AddressBytes a)")
  case None
  with assms show ?thesis by (simp add: keeper_DeleteAccount_def)
next
  case (Some acct)
  then obtain c1 r where c1: "keeper_SetBalance D c a (Some 0) = Ok c1"
    "c' = (foldl (\<lambda>s p. keeper_SetState s a (fst p) []) c1 (storage_pairs c1 a))\<lparr>modules := r\<rparr>"
    using assms by (cases acct)
      (auto simp: keeper_DeleteAccount_def keeper_ForEachStorage_def each_pair_delete Let_def)
  have "same_block c (foldl (\<lambda>s p. keeper_SetState s a (fst p) []) c1 (storage_pairs c1 a))"
    using same_block_SetBalance [OF c1(1)] same_block_delete by (rule same_block_trans)
  then show ?thesis by (simp add: c1(2))
qed

lemma same_block_commit_storage: "same_block c (commit_storage (evm_env D) obj keys c)"
proof (induction keys arbitrary: c)
  case (Cons k keys)
  from Cons [of c] Cons [of "keeper_SetState c (so_address obj) k (HashBytes (the (fmlookup (dirtyStorage obj) k)))"]
  show ?case by (simp add: Let_def)
qed simp

lemma same_block_commit_object:
  assumes "commit_object (evm_env D) obj c = Ok c'"
  shows "same_block c c'"
proof (cases "suicided obj")
  case True
  with assms show ?thesis by (auto simp: commit_object_def intro: same_block_DeleteAccount)
next
  case False
  let ?c1 = "case so_code obj of
      Some code \<Rightarrow> if dirtyCode obj then keeper_SetCode c (so_codeHash obj) code else c | None \<Rightarrow> c"
  have "same_block c ?c1" by (simp split: option.splits)
  moreover obtain c2 where "keeper_SetAccount D ?c1 (so_address obj) (so_account obj) = Ok c2"
    "c' = commit_storage (evm_env D) obj (SortedKeys (dirtyStorage obj)) c2"
    using commit_object_live [OF False assms] by blast
  ultimately show ?thesis
    using same_block_SetAccount same_block_commit_storage same_block_trans by metis
qed

lemma same_block_Commit:
  assumes inv: "db_inv (evm_env D) c t db" and ok: "Commit db = Ok db1"
  shows "same_block c (ctx db1)"
proof (rule fold_outcome_invariant [where P = "same_block c", OF same_block_refl _ Commit_fold [OF inv ok]])
  fix a c1 c2
  assume "same_block c c1" and step: "commit_address db a c1 = Ok c2"
  moreover have "keeper db = evm_env D" using inv by (simp add: db_inv_def unwinding_def)
  ultimately show "same_block c c2"
    using same_block_commit_object same_block_trans
    by (cases "fmlookup (stateObjects db) a") (fastforce simp: commit_address_def)+
qed

lemma applied_message_same_block:
  assumes "evm_laws X" "ApplyMessageWithConfig X c msg commit cfg t = Ok (res, c')"
  shows "same_block c c'"
proof -
  obtain cs db where "db_run cs (New c (evm_env (xsdk X)) t) = Some db"
    "if commit then (\<exists>db1. Commit db = Ok db1 \<and> c' = ctx db1) else c' = c"
    using applied_message_run [OF assms] by blast
  then show ?thesis using evm.run_inv same_block_Commit by (cases commit) fastforce+
qed

subsection \<open>The parts of a transaction that was applied\<close>

lemma ApplyTransaction_Ok:
  assumes "ApplyTransaction X c tx = Ok (res, c')"
  obtains cfg msg res0 tmp receipt c1 c2 c4 tot where
    "keeper_EVMConfig X c = Ok cfg"
    "xAsMessage X tx (ChainConfig (cfg_Params cfg)) (BlockHeight c) (cfg_BaseFee cfg) = Ok msg"
    "ApplyMessageWithConfig X c msg True cfg (keeper_TxConfig c (xTxHash X tx)) = Ok (res0, tmp)"
    "post_process X c tmp msg res0 (make_receipt X c tx msg (keeper_TxConfig c (xTxHash X tx)) res0)
       = Some (res, receipt, c1)"
    "RefundGas (xsdk X) c1 msg (msg_Gas msg - res_GasUsed res) (EvmDenom (cfg_Params cfg)) = Ok c2"
    "AddTransientGasUsed (count_tx c2 (keeper_TxConfig c (xTxHash X tx)) receipt) (res_GasUsed res) = Ok (tot, c4)"
    "ResetGasMeterAndConsumeGas c4 tot = Some c'"
  using that assms unfolding ApplyTransaction_def Let_def by (auto split: prod.split_asm)

lemma case_outcome_Ok:
  "(case m of Panic \<Rightarrow> Panic | Err e \<Rightarrow> Err x | Ok r \<Rightarrow> Ok (f r)) = Ok y \<longleftrightarrow> (\<exists>r. m = Ok r \<and> f r = y)"
  by (cases m) auto

lemma RefundGas_frame:
  assumes "RefundGas D c msg left denom = Ok c'"
  shows "\<exists>r. c' = c\<lparr>modules := r\<rparr>"
proof -
  have "c' = c \<or> (\<exists>r. c' = c\<lparr>modules := r\<rparr>)"
    using assms by (auto simp: RefundGas_def Let_def case_outcome_Ok split: if_splits)
  moreover have "c = c\<lparr>modules := modules c\<rparr>" by simp
  ultimately show ?thesis by metis
qed

lemma ResetGasMeter_eq:
  "ResetGasMeterAndConsumeGas c tot = Some (c\<lparr>GasMeter := (GasMeter c)\<lparr>consumed := tot\<rparr>\<rparr>)"
  using unat_less_pow [of tot]
  by (simp add: ResetGasMeterAndConsumeGas_def meter_RefundGas_def GasConsumed_def ConsumeGas_def
      addUint64Overflow_correct)

lemma get_counter_bloom [simp]:
  "k \<noteq> bloom_key c \<Longrightarrow> get_counter (SetBlockBloomTransient c b) k = get_counter c k"
  by (simp add: get_counter_def SetBlockBloomTransient_def store_Get_def)

lemma get_counter_frame [simp]:
  "get_counter (c\<lparr>GasMeter := g\<rparr>) k = get_counter c k"
  "get_counter (c\<lparr>modules := r\<rparr>) k = get_counter c k"
  by (simp_all add: get_counter_def)

lemma counter_keys_distinct [simp]:
  "KeyPrefixTransientGasUsed \<noteq> KeyPrefixTransientTxIndex" "KeyPrefixTransientTxIndex \<noteq> KeyPrefixTransientGasUsed"
  "KeyPrefixTransientLogSize \<noteq> KeyPrefixTransientTxIndex" "KeyPrefixTransientTxIndex \<noteq> KeyPrefixTransientLogSize"
  "KeyPrefixTransientLogSize \<noteq> KeyPrefixTransientGasUsed" "KeyPrefixTransientGasUsed \<noteq> KeyPrefixTransientLogSize"
  by (simp_all add: store_keys)

lemma SetBlockBloom_frame [simp]:
  "kvStore (SetBlockBloomTransient c b) = kvStore c" "modules (SetBlockBloomTransient c b) = modules c"
  "GasMeter (SetBlockBloomTransient c b) = GasMeter c"
  by (simp_all add: SetBlockBloomTransient_def)

lemmas counter_defs = GetTxIndexTransient_def SetTxIndexTransient_def GetLogSizeTransient_def
  SetLogSizeTransient_def GetTransientGasUsed_def SetTransientGasUsed_def

end
