(* ===== verification/Evm_Transition_Laws.thy ===== *)
theory Evm_Transition_Laws
  imports Evm_Transition Ledger
begin

text \<open>
  The properties of the EVM state transition, and a small chain they are evaluated on: an
  interpreter that transfers the value of a call and returns all gas, over the ledger.
\<close>

subsection \<open>An instance\<close>

definition transfer_evm ::
  "'cc EVMConfig \<Rightarrow> Message \<Rightarrow> ledger Ctx StateDB \<Rightarrow> Address \<Rightarrow> uint64 \<Rightarrow>
     (bytes \<times> uint64 \<times> string \<times> ledger Ctx StateDB) option" where
  "transfer_evm cfg msg db to gas =
     Some ([], gas, [], AddBalance (SubBalance db (msg_From msg) (msg_Value msg)) to (msg_Value msg))"

definition demo_msg :: Message where
  "demo_msg = \<lparr>msg_From = 5, msg_To = Some 6, msg_Nonce = 0, msg_Gas = 21010, msg_GasPrice = 1,
     msg_GasFeeCap = 1, msg_GasTipCap = 1, msg_Value = 30, msg_Data = [], msg_AccessList = [], msg_IsFake = False\<rparr>"

definition demo_chain :: "(bytes \<times> uint64, ledger, unit, int) chain" where
  "demo_chain =
     \<lparr>xsdk = ledger_sdk, xlib = raw_lib, xdecs = fixed_point, xMinGasMultiplier = (\<lambda>_. 500000000000000000),
      xGetBaseFee = (\<lambda>_. None), xCoinbase = (\<lambda>_. Ok 1), xIsHomestead = (\<lambda>_ _. True),
      xIsIstanbul = (\<lambda>_ _. True), xIsBerlin = (\<lambda>_ _. True), xIsLondon = (\<lambda>_ _. True),
      xIntrinsicGas = (\<lambda>_ _ _ _ _. Ok 21000), xBerlinPrecompiles = [1, 2], xActivePrecompiles = (\<lambda>_ _. [1, 2]),
      xPrecompiles = [1, 2],
      xCreate = (\<lambda>cfg msg db gas. Some ([], gas, ''no code'', db)), xCall = transfer_evm,
      xHooks = None, xLogsBloom = (\<lambda>_. 0), xBytesToBloom = (\<lambda>b. b), xCreateAddress = (\<lambda>a n. a),
      xAsMessage = (\<lambda>_ _ _ _. Ok demo_msg), xTxHash = (\<lambda>_. 77)\<rparr>"

definition funded :: "ledger Ctx" where
  "funded = genesis\<lparr>modules := \<lparr>l_accounts = (\<lambda>a. Some (EthAccount (a, 0) 1)), l_balance = (\<lambda>_ _. 100)\<rparr>\<rparr>"

definition demo_cfg :: "unit EVMConfig" where
  "demo_cfg = \<lparr>cfg_Params = ledger_params, cfg_CoinBase = 1, cfg_BaseFee = Some 0\<rparr>"

lemma demo_laws: "evm_laws demo_chain"
proof -
  have "\<exists>cs. db_run cs db = Some (AddBalance (SubBalance db a v) b v)" for db :: "ledger Ctx StateDB" and a b v
    by (rule exI [of _ "[Do (opSubBalance a v), Do (opAddBalance b v)]"]) simp
  moreover have "\<exists>cs. db_run cs db = Some db" for db :: "ledger Ctx StateDB"
    by (rule exI [of _ "[]"]) simp
  ultimately show ?thesis by (auto simp: evm_laws_def demo_chain_def transfer_evm_def)
qed

lemma demo_applies:
  "is_ok (ApplyMessageWithConfig demo_chain funded demo_msg True demo_cfg cfg0)"
  by code_simp

lemma demo_tx_applies: "is_ok (ApplyTransaction demo_chain funded sample_eth_tx)"
  by code_simp

subsection \<open>Properties\<close>

text \<open>C7. A message that is applied is charged at most its gas limit and at least the limit times
  the minimum gas multiplier (rounded down), so that the refund \<open>gas limit - gas used\<close> does not
  wrap around. The interpreter is assumed to return at most the gas it was given.\<close>
theorem message_gas_bounds:
  assumes "evm_laws X" "dec_laws (xdecs X) val"
    "ApplyMessageWithConfig X c msg commit cfg t = Ok (res, c')"
    "0 \<le> val (xMinGasMultiplier X c')" "val (xMinGasMultiplier X c') \<le> 1"
    "uint (msg_Gas msg) \<le> max_int64"
  shows "res_GasUsed res \<le> msg_Gas msg \<and>
    \<lfloor>of_int (uint (msg_Gas msg)) * val (xMinGasMultiplier X c')\<rfloor> \<le> uint (res_GasUsed res)"
  using applied_message_gas [OF assms(1,2,4,5,6,3)] by blast

theorem message_gas_bounds_witness:
  "\<exists>res c'. ApplyMessageWithConfig demo_chain funded demo_msg True demo_cfg cfg0 = Ok (res, c') \<and>
     res_GasUsed res \<le> 21010 \<and> 10505 \<le> uint (res_GasUsed res)"
proof -
  obtain res c' where ok: "ApplyMessageWithConfig demo_chain funded demo_msg True demo_cfg cfg0 = Ok (res, c')"
    using demo_applies by (auto simp: is_ok_iff)
  have "dec_laws (xdecs demo_chain) (\<lambda>d. of_int d / 10 ^ 18)"
    using fixed_point_laws by (simp add: demo_chain_def)
  from message_gas_bounds [OF demo_laws this ok] ok show ?thesis
    by (simp add: demo_chain_def demo_msg_def)
qed



text \<open>Hooks that leave the transient store of the EVM module alone.\<close>

definition hooks_keep_counters :: "('b, 'r, 'cc, 'd) chain \<Rightarrow> bool" where
  "hooks_keep_counters X \<longleftrightarrow>
     (\<forall>h c msg rc rc' c'. xHooks X = Some h \<longrightarrow> h c msg rc = Ok (rc', c') \<longrightarrow>
        transientStore c' = transientStore c)"

lemma post_process_counters:
  assumes "hooks_keep_counters X" "post_process X c tmp msg res0 rc0 = Some (res, rc, c1)"
    "transientStore tmp = transientStore c"
  shows "transientStore c1 = transientStore c"
  using assms
  by (auto simp: post_process_def PostTxProcessing_def hooks_keep_counters_def Let_def
      split: if_splits outcome.splits option.splits)

lemma count_tx_counters [simp]:
  "get_counter (count_tx c t rc) KeyPrefixTransientTxIndex = TxIndex t + 1"
  "get_counter (count_tx c t rc) KeyPrefixTransientGasUsed = get_counter c KeyPrefixTransientGasUsed"
  "get_counter (count_tx c t rc) KeyPrefixTransientLogSize =
     (if rc_Logs rc = [] then get_counter c KeyPrefixTransientLogSize
      else LogIndex t + of_nat (length (rc_Logs rc)))"
  by (simp_all add: count_tx_def counter_defs Let_def bloom_key_counters [symmetric])

lemma get_counter_cong: "transientStore c = transientStore c' \<Longrightarrow> get_counter c k = get_counter c' k"
  by (simp add: get_counter_def)

text \<open>The counters of the block advance exactly: a transaction that is applied raises the
  transaction index by one and the gas used in the block's current Cosmos transaction by the
  gas it was charged, without overflow, and sets the gas meter to that total.\<close>
theorem transaction_counters:
  assumes "evm_laws X" "hooks_keep_counters X" "ApplyTransaction X c tx = Ok (res, c')"
  shows "GetTxIndexTransient c' = GetTxIndexTransient c + 1 \<and>
    unat (GetTransientGasUsed c) + unat (res_GasUsed res) < 2 ^ 64 \<and>
    GetTransientGasUsed c' = GetTransientGasUsed c + res_GasUsed res \<and>
    GasConsumed (GasMeter c') = GetTransientGasUsed c'"
proof -
  let ?t = "keeper_TxConfig c (xTxHash X tx)"
  obtain cfg msg res0 tmp receipt c1 c2 c4 tot where st:
    "ApplyMessageWithConfig X c msg True cfg ?t = Ok (res0, tmp)"
    "post_process X c tmp msg res0 (make_receipt X c tx msg ?t res0) = Some (res, receipt, c1)"
    "RefundGas (xsdk X) c1 msg (msg_Gas msg - res_GasUsed res) (EvmDenom (cfg_Params cfg)) = Ok c2"
    "AddTransientGasUsed (count_tx c2 ?t receipt) (res_GasUsed res) = Ok (tot, c4)"
    "ResetGasMeterAndConsumeGas c4 tot = Some c'"
    using ApplyTransaction_Ok [OF assms(3)] by metis
  have "transientStore tmp = transientStore c"
    using applied_message_same_block [OF assms(1) st(1)] by (simp add: same_block_def)
  then have "transientStore c1 = transientStore c"
    using post_process_counters [OF assms(2) st(2)] by simp
  moreover obtain r where "c2 = c1\<lparr>modules := r\<rparr>" using RefundGas_frame [OF st(3)] by blast
  ultimately have c2: "get_counter c2 k = get_counter c k" for k by (simp add: get_counter_def)
  have c': "c' = c4\<lparr>GasMeter := (GasMeter c4)\<lparr>consumed := tot\<rparr>\<rparr>"
    using st(5) by (simp add: ResetGasMeter_eq)
  show ?thesis
    using st(4) by (simp add: AddTransientGasUsed_Ok_iff c' counter_defs c2 keeper_TxConfig_def GasConsumed_def)
qed

theorem transaction_counters_witness:
  "\<exists>res c'. ApplyTransaction demo_chain funded sample_eth_tx = Ok (res, c') \<and>
     GetTxIndexTransient c' = GetTxIndexTransient funded + 1 \<and>
     GetTransientGasUsed c' = GetTransientGasUsed funded + res_GasUsed res \<and>
     GasConsumed (GasMeter c') = GetTransientGasUsed c'"
proof -
  obtain res c' where ok: "ApplyTransaction demo_chain funded sample_eth_tx = Ok (res, c')"
    using demo_tx_applies by (auto simp: is_ok_iff)
  have "hooks_keep_counters demo_chain" by (simp add: hooks_keep_counters_def demo_chain_def)
  from transaction_counters [OF demo_laws this ok] ok show ?thesis by blast
qed

text \<open>The chain with a hook that refuses every transaction.\<close>

definition strict_chain :: "(bytes \<times> uint64, ledger, unit, int) chain" where
  "strict_chain = demo_chain\<lparr>xHooks := Some (\<lambda>_ _ _. Err ''refused'')\<rparr>"

lemma post_process_failed:
  assumes "xHooks X \<noteq> None" "post_process X c tmp msg res0 rc0 = Some (res, rc, c1)" "Failed res"
  shows "c1 = c"
proof (cases "Failed res0")
  case True
  with assms show ?thesis by (auto simp: post_process_def)
next
  case False
  with assms show ?thesis
    by (cases "PostTxProcessing X tmp msg rc0") (auto simp: post_process_def Failed_def)
qed

lemma count_tx_frame [simp]:
  "kvStore (count_tx c t rc) = kvStore c" "modules (count_tx c t rc) = modules c"
  by (simp_all add: count_tx_def counter_defs Let_def)

text \<open>C9. When hooks are set and the transaction fails, in the EVM or because a hook refuses it,
  nothing of its execution remains: the EVM store is as before and the other modules have
  only the gas refund; the response carries the error.\<close>
theorem failed_transaction_reverts:
  assumes "xHooks X \<noteq> None" "ApplyTransaction X c tx = Ok (res, c')" "Failed res"
  shows "kvStore c' = kvStore c \<and>
    (\<exists>cfg msg c2. keeper_EVMConfig X c = Ok cfg \<and>
       xAsMessage X tx (ChainConfig (cfg_Params cfg)) (BlockHeight c) (cfg_BaseFee cfg) = Ok msg \<and>
       RefundGas (xsdk X) c msg (msg_Gas msg - res_GasUsed res) (EvmDenom (cfg_Params cfg)) = Ok c2 \<and>
       modules c' = modules c2)"
proof -
  let ?t = "keeper_TxConfig c (xTxHash X tx)"
  obtain cfg msg res0 tmp receipt c1 c2 c4 tot where st:
    "keeper_EVMConfig X c = Ok cfg"
    "xAsMessage X tx (ChainConfig (cfg_Params cfg)) (BlockHeight c) (cfg_BaseFee cfg) = Ok msg"
    "ApplyMessageWithConfig X c msg True cfg ?t = Ok (res0, tmp)"
    "post_process X c tmp msg res0 (make_receipt X c tx msg ?t res0) = Some (res, receipt, c1)"
    "RefundGas (xsdk X) c1 msg (msg_Gas msg - res_GasUsed res) (EvmDenom (cfg_Params cfg)) = Ok c2"
    "AddTransientGasUsed (count_tx c2 ?t receipt) (res_GasUsed res) = Ok (tot, c4)"
    "ResetGasMeterAndConsumeGas c4 tot = Some c'"
    by (rule ApplyTransaction_Ok [OF assms(2)])
  have "c1 = c" using post_process_failed [OF assms(1) st(4) assms(3)] .
  moreover obtain r where "c2 = c1\<lparr>modules := r\<rparr>" using RefundGas_frame [OF st(5)] by blast
  moreover have "kvStore c' = kvStore c2 \<and> modules c' = modules c2"
    using st(6,7) by (auto simp: ResetGasMeter_eq AddTransientGasUsed_Ok_iff counter_defs)
  ultimately show ?thesis using st(1,2,5) by auto
qed

theorem failed_transaction_reverts_witness:
  "\<exists>res c'. ApplyTransaction strict_chain funded sample_eth_tx = Ok (res, c') \<and> Failed res \<and>
     kvStore c' = kvStore funded"
proof -
  have "case ApplyTransaction strict_chain funded sample_eth_tx of Ok (res, c') \<Rightarrow> Failed res | _ \<Rightarrow> False"
    by code_simp
  then obtain res c' where ok: "ApplyTransaction strict_chain funded sample_eth_tx = Ok (res, c')" "Failed res"
    by (auto split: outcome.splits)
  have "xHooks strict_chain \<noteq> None" by (simp add: strict_chain_def)
  from failed_transaction_reverts [OF this ok] ok show ?thesis by blast
qed

end
