(* ===== verification/Evm_Fees.thy ===== *)
theory Evm_Fees
  imports Evm_Transition
begin

text \<open>
  Fees and gas of Ethereum transaction messages: the message \<open>MsgEthereumTx\<close> with its stateless
  checks (\<open>x/evm/types/msg.go\<close>), what a sender must be able to pay (\<open>x/evm/keeper/fees.go\<close>), the
  priority of a transaction (\<open>x/evm/types/tx.go\<close>), the arguments of a call made over JSON-RPC
  (\<open>x/evm/types/tx_args.go\<close>), and the estimation of gas by bisection (\<open>BinSearch\<close> of
  \<open>x/evm/types/utils.go\<close> under \<open>EstimateGas\<close> of \<open>x/evm/keeper/grpc_query.go\<close>).
\<close>

subsection \<open>The message\<close>

text \<open>
  \<open>Data\<close> is the protobuf \<open>Any\<close> holding the transaction data, \<^const>\<open>None\<close> when it is nil or does not
  hold a \<open>TxData\<close>. Of the deprecated field \<open>Size_\<close> only whether it is zero matters.
\<close>

record MsgEthereumTx =
  m_Data :: "TxData option"
  m_SizeSet :: bool
  m_Hash :: string
  m_From :: string

definition PackTxData :: "TxData \<Rightarrow> TxData option" where
  "PackTxData txData = Some txData"

definition UnpackTxData :: "TxData option \<Rightarrow> (string, TxData) outcome" where
  "UnpackTxData a = (case a of None \<Rightarrow> Err ''cannot unpack Any into TxData'' | Some d \<Rightarrow> Ok d)"

text \<open>\<open>ethtypes.NewTx\<close> copies the data; a nil value becomes zero there.\<close>

definition AsTransaction :: "txlib \<Rightarrow> MsgEthereumTx \<Rightarrow> ethTx option" where
  "AsTransaction L msg =
     (case UnpackTxData (m_Data msg) of Ok d \<Rightarrow> Some (tx_AsEthereumData L d) | _ \<Rightarrow> None)"

definition eth_Value :: "ethTx \<Rightarrow> int" where
  "eth_Value tx = (case e_Value tx of None \<Rightarrow> 0 | Some v \<Rightarrow> v)"

definition msg_hash :: "('b, 'r, 'cc, 'd) chain \<Rightarrow> MsgEthereumTx \<Rightarrow> string option" where
  "msg_hash X msg = map_option (\<lambda>tx. HashHex (xlib X) (xTxHash X tx)) (AsTransaction (xlib X) msg)"

definition FromEthereumTx ::
  "('b, 'r, 'cc, 'd) chain \<Rightarrow> MsgEthereumTx \<Rightarrow> ethTx \<Rightarrow> (string, MsgEthereumTx) outcome" where
  "FromEthereumTx X msg tx =
     bind_outcome (NewTxDataFromTx (xlib X) tx) (\<lambda>txData.
     Ok (msg\<lparr>m_Data := PackTxData txData, m_Hash := HashHex (xlib X) (xTxHash X tx)\<rparr>))"

definition msg_ValidateBasic :: "('b, 'r, 'cc, 'd) chain \<Rightarrow> MsgEthereumTx \<Rightarrow> (string, unit) outcome" where
  "msg_ValidateBasic X msg =
     bind_outcome (if m_From msg \<noteq> [] then ValidateAddress (xlib X) (m_From msg) else Ok ()) (\<lambda>_.
     check (m_SizeSet msg) ''tx size is deprecated''
     (bind_outcome (UnpackTxData (m_Data msg)) (\<lambda>txData.
      let gas = tx_GetGas txData
      in check (gas = 0) ''gas limit must not be zero''
         (check (uint gas > max_int64) ''gas limit must be less than math.MaxInt64''
         (bind_outcome (tx_Validate (xlib X) txData) (\<lambda>_.
          case msg_hash X msg of
            None \<Rightarrow> Panic
          | Some h \<Rightarrow> check (m_Hash msg \<noteq> h) ''invalid tx hash'' (Ok ())))))))"

definition msg_GetGas :: "MsgEthereumTx \<Rightarrow> uint64" where
  "msg_GetGas msg = (case UnpackTxData (m_Data msg) of Ok d \<Rightarrow> tx_GetGas d | _ \<Rightarrow> 0)"

text \<open>\<^const>\<open>None\<close> is nil; a fee that panics is nil data of a transaction that was not validated.\<close>

definition msg_GetFee :: "MsgEthereumTx \<Rightarrow> int option" where
  "msg_GetFee msg = (case UnpackTxData (m_Data msg) of Ok d \<Rightarrow> tx_Fee d | _ \<Rightarrow> None)"

definition msg_GetEffectiveFee :: "MsgEthereumTx \<Rightarrow> int option \<Rightarrow> int option" where
  "msg_GetEffectiveFee msg baseFee =
     (case UnpackTxData (m_Data msg) of Ok d \<Rightarrow> tx_EffectiveFee d baseFee | _ \<Rightarrow> None)"

definition msg_GetFrom :: "txlib \<Rightarrow> MsgEthereumTx \<Rightarrow> bytes" where
  "msg_GetFrom L msg = (if m_From msg = [] then [] else AddressBytes (HexToAddress L (m_From msg)))"

subsection \<open>Building a message\<close>

record EvmTxArgs =
  ta_Nonce :: uint64
  ta_GasLimit :: uint64
  ta_Input :: bytes
  ta_GasFeeCap :: "int option"
  ta_GasPrice :: "int option"
  ta_ChainID :: "int option"
  ta_Amount :: "int option"
  ta_GasTipCap :: "int option"
  ta_To :: "Address option"
  ta_Accesses :: "ethAccessList option"

text \<open>\<open>sdkmath.NewIntFromBigInt\<close> of an optional value, \<^const>\<open>None\<close> outside for its panic.\<close>

definition opt_Int :: "txlib \<Rightarrow> int option \<Rightarrow> int option option" where
  "opt_Int L i = (case i of None \<Rightarrow> Some None | Some v \<Rightarrow> map_option Some (NewIntFromBigInt L v))"

definition newMsgEthereumTx :: "('b, 'r, 'cc, 'd) chain \<Rightarrow> EvmTxArgs \<Rightarrow> MsgEthereumTx option" where
  "newMsgEthereumTx X tx =
     (let L = xlib X; toAddr = (case ta_To tx of None \<Rightarrow> [] | Some a \<Rightarrow> AddressHex L a) in do {
       amt \<leftarrow> opt_Int L (ta_Amount tx);
       cid \<leftarrow> opt_Int L (ta_ChainID tx);
       gp \<leftarrow> opt_Int L (ta_GasPrice tx);
       txData \<leftarrow>
         (if ta_Accesses tx = None then
            Some (Legacy \<lparr>l_Nonce = ta_Nonce tx, l_GasPrice = gp, l_GasLimit = ta_GasLimit tx, l_To = toAddr,
              l_Amount = amt, l_Data = ta_Input tx, l_V = [], l_R = [], l_S = []\<rparr>)
          else if ta_GasFeeCap tx \<noteq> None \<and> ta_GasTipCap tx \<noteq> None then do {
            gtc \<leftarrow> opt_Int L (ta_GasTipCap tx);
            gfc \<leftarrow> opt_Int L (ta_GasFeeCap tx);
            Some (DynamicFee \<lparr>df_ChainID = cid, df_Nonce = ta_Nonce tx, df_GasTipCap = gtc, df_GasFeeCap = gfc,
              df_GasLimit = ta_GasLimit tx, df_To = toAddr, df_Amount = amt, df_Data = ta_Input tx,
              df_Accesses = NewAccessList L (ta_Accesses tx), df_V = [], df_R = [], df_S = []\<rparr>) }
          else
            Some (AccessListT \<lparr>al_ChainID = cid, al_Nonce = ta_Nonce tx, al_GasPrice = gp,
              al_GasLimit = ta_GasLimit tx, al_To = toAddr, al_Amount = amt, al_Data = ta_Input tx,
              al_Accesses = NewAccessList L (ta_Accesses tx), al_V = [], al_R = [], al_S = []\<rparr>));
       let msg = \<lparr>m_Data = PackTxData txData, m_SizeSet = False, m_Hash = [], m_From = []\<rparr> in do {
         h \<leftarrow> msg_hash X msg;
         Some (msg\<lparr>m_Hash := h\<rparr>) } })"

subsection \<open>What a sender pays\<close>

definition CheckSenderBalance :: "int \<Rightarrow> TxData \<Rightarrow> (string, unit) outcome" where
  "CheckSenderBalance balance txData =
     (case tx_Cost txData of
        None \<Rightarrow> Panic
      | Some c \<Rightarrow>
          if c < 0 then Err ''tx cost is negative and invalid''
          else if balance < 0 \<or> balance < c then Err ''sender balance < tx cost''
          else Ok ())"

definition VerifyFee ::
  "('b, 'r, 'cc, 'd) chain \<Rightarrow> TxData \<Rightarrow> string \<Rightarrow> int option \<Rightarrow> bool \<Rightarrow> bool \<Rightarrow> bool \<Rightarrow> (string, coins) outcome" where
  "VerifyFee X txData denom baseFee homestead istanbul isCheckTx =
     (let isContractCreation = (tx_GetTo (xlib X) txData = None);
          gasLimit = tx_GetGas txData;
          accessList = (case tx_GetAccessList (xlib X) txData of None \<Rightarrow> [] | Some al \<Rightarrow> al)
      in bind_outcome (xIntrinsicGas X (tx_GetData txData) accessList isContractCreation homestead istanbul) (\<lambda>intrinsicGas.
         if isCheckTx \<and> gasLimit < intrinsicGas then Err ''gas limit too low''
         else bind_outcome
           (case baseFee of
              None \<Rightarrow> Ok ()
            | Some b \<Rightarrow>
                (case tx_GetGasFeeCap txData of
                   None \<Rightarrow> Panic
                 | Some cap \<Rightarrow> if cap < b then Err ''the tx gasfeecap is lower than the tx baseFee'' else Ok ())) (\<lambda>_.
         bind_outcome (option_outcome (tx_EffectiveFee txData baseFee)) (\<lambda>feeAmt.
         if feeAmt = 0 then Ok []
         else bind_outcome (option_outcome (NewIntFromBigInt (xlib X) feeAmt)) (\<lambda>amount. Ok [(denom, amount)])))))"

text \<open>
  \<open>DeductTxCostsFromUserBalance\<close>; the SDK's \<open>authante.DeductFees\<close> is the argument \<open>deduct\<close>, from
  the account at an address.
\<close>

definition DeductTxCostsFromUserBalance ::
  "('b, 'r, 'cc) sdk \<Rightarrow> ('r \<Rightarrow> 'b AccountI \<Rightarrow> coins \<Rightarrow> (string, 'r) outcome) \<Rightarrow> 'r Ctx \<Rightarrow> coins \<Rightarrow> Address \<Rightarrow>
     (string, 'r Ctx) outcome" where
  "DeductTxCostsFromUserBalance D deduct c fees from =
     (case akGetAccount D (modules c) (AddressBytes from) of
        None \<Rightarrow> Err ''account not found for sender''
      | Some signerAcc \<Rightarrow>
          bind_outcome (deduct (modules c) signerAcc fees) (\<lambda>r. Ok (c\<lparr>modules := r\<rparr>)))"

text \<open>\<open>big.Int.Quo\<close> truncates towards zero; \<open>priorityReduction\<close> is the variable \<open>DefaultPriorityReduction\<close>.\<close>

definition big_Quo :: "int \<Rightarrow> int \<Rightarrow> int option" where
  "big_Quo x y = (if y = 0 then None else Some (sgn x * sgn y * (\<bar>x\<bar> div \<bar>y\<bar>)))"

definition IsInt64 :: "int \<Rightarrow> bool" where
  "IsInt64 i \<longleftrightarrow> - max_int64 - 1 \<le> i \<and> i \<le> max_int64"

definition clamp_priority :: "int \<Rightarrow> int" where
  "clamp_priority p = (if IsInt64 p then p else max_int64)"

definition GetTxPriority :: "int \<Rightarrow> TxData \<Rightarrow> int option \<Rightarrow> int option" where
  "GetTxPriority priorityReduction txData baseFee = do {
     price \<leftarrow> tx_EffectiveGasPrice txData baseFee;
     let tipPrice = (case baseFee of None \<Rightarrow> price | Some b \<Rightarrow> price - b) in
     map_option clamp_priority (big_Quo tipPrice priorityReduction) }"

text \<open>The text of go-ethereum's \<open>vm.ErrExecutionReverted\<close> and \<open>vm.ErrOutOfGas\<close>.\<close>

definition ErrExecutionReverted :: string where "ErrExecutionReverted = ''execution reverted''"
definition ErrOutOfGas :: string where "ErrOutOfGas = ''out of gas''"

definition res_Revert :: "MsgEthereumTxResponse \<Rightarrow> bytes" where
  "res_Revert m = (if res_VmError m \<noteq> ErrExecutionReverted then [] else res_Ret m)"

subsection \<open>Calls over JSON-RPC\<close>

record TransactionArgs =
  a_From :: "Address option"
  a_To :: "Address option"
  a_Gas :: "uint64 option"
  a_GasPrice :: "int option"
  a_MaxFeePerGas :: "int option"
  a_MaxPriorityFeePerGas :: "int option"
  a_Value :: "int option"
  a_Nonce :: "uint64 option"
  a_Data :: "bytes option"
  a_Input :: "bytes option"
  a_AccessList :: "ethAccessList option"
  a_ChainID :: "int option"

definition args_GetFrom :: "TransactionArgs \<Rightarrow> Address" where
  "args_GetFrom args = (case a_From args of None \<Rightarrow> 0 | Some a \<Rightarrow> a)"

definition args_GetData :: "TransactionArgs \<Rightarrow> bytes" where
  "args_GetData args =
     (case a_Input args of Some i \<Rightarrow> i | None \<Rightarrow> (case a_Data args of Some d \<Rightarrow> d | None \<Rightarrow> []))"

definition or_zero :: "int option \<Rightarrow> int" where
  "or_zero i = (case i of None \<Rightarrow> 0 | Some v \<Rightarrow> v)"

text \<open>The gas price, fee cap and tip cap of the call.\<close>

definition args_prices :: "TransactionArgs \<Rightarrow> int option \<Rightarrow> int \<times> int \<times> int" where
  "args_prices args baseFee =
     (case baseFee of
        None \<Rightarrow> let gasPrice = or_zero (a_GasPrice args) in (gasPrice, gasPrice, gasPrice)
      | Some b \<Rightarrow>
          (case a_GasPrice args of
             Some gasPrice \<Rightarrow> (gasPrice, gasPrice, gasPrice)
           | None \<Rightarrow>
               let gasFeeCap = or_zero (a_MaxFeePerGas args);
                   gasTipCap = or_zero (a_MaxPriorityFeePerGas args)
               in (if BitLen gasFeeCap > 0 \<or> BitLen gasTipCap > 0 then min (gasTipCap + b) gasFeeCap else 0,
                   gasFeeCap, gasTipCap)))"

definition ToMessage :: "TransactionArgs \<Rightarrow> uint64 \<Rightarrow> int option \<Rightarrow> (string, Message) outcome" where
  "ToMessage args globalGasCap baseFee =
     (if a_GasPrice args \<noteq> None \<and> (a_MaxFeePerGas args \<noteq> None \<or> a_MaxPriorityFeePerGas args \<noteq> None)
      then Err ''both gasPrice and (maxFeePerGas or maxPriorityFeePerGas) specified''
      else
        let gas0 = (if globalGasCap = 0 then - 1 div 2 else globalGasCap);
            gas1 = (case a_Gas args of None \<Rightarrow> gas0 | Some g \<Rightarrow> g);
            gas = (if globalGasCap \<noteq> 0 \<and> globalGasCap < gas1 then globalGasCap else gas1);
            (gasPrice, gasFeeCap, gasTipCap) = args_prices args baseFee
        in Ok \<lparr>msg_From = args_GetFrom args, msg_To = a_To args,
              msg_Nonce = (case a_Nonce args of None \<Rightarrow> 0 | Some n \<Rightarrow> n), msg_Gas = gas,
              msg_GasPrice = gasPrice, msg_GasFeeCap = gasFeeCap, msg_GasTipCap = gasTipCap,
              msg_Value = or_zero (a_Value args), msg_Data = args_GetData args,
              msg_AccessList = (case a_AccessList args of None \<Rightarrow> [] | Some al \<Rightarrow> al), msg_IsFake = True\<rparr>)"

text \<open>
  A request: the arguments (\<^const>\<open>None\<close> when the JSON does not parse) and the gas cap. The chain
  identifier and the proposer given with it only enter the EVM configuration, which the
  environment supplies.
\<close>

record EthCallRequest =
  req_Args :: "TransactionArgs option"
  req_GasCap :: uint64

definition EthCall ::
  "('b, 'r, 'cc, 'd) chain \<Rightarrow> 'r Ctx \<Rightarrow> EthCallRequest \<Rightarrow> (string, MsgEthereumTxResponse) outcome" where
  "EthCall X c req =
     (case req_Args req of
        None \<Rightarrow> Err ''invalid arguments''
      | Some args0 \<Rightarrow>
          bind_outcome (keeper_EVMConfig X c) (\<lambda>cfg.
          let args = args0\<lparr>a_Nonce := Some (keeper_GetNonce (xsdk X) c (args_GetFrom args0))\<rparr> in
          bind_outcome (ToMessage args (req_GasCap req) (cfg_BaseFee cfg)) (\<lambda>msg.
          bind_outcome (ApplyMessageWithConfig X c msg False cfg (NewEmptyTxConfig (BytesToHash (HeaderHash c))))
            (\<lambda>(res, _). Ok res))))"

subsection \<open>Estimating gas\<close>

text \<open>
  \<open>BinSearch\<close>. The sum \<open>hi + lo\<close> is of width 64 and may wrap, so that the loop need not end:
  \<^const>\<open>None\<close> stands for that.
\<close>

partial_function (option) BinSearch ::
  "uint64 \<Rightarrow> uint64 \<Rightarrow> (uint64 \<Rightarrow> (string, bool) outcome) \<Rightarrow> (string, uint64) outcome option" where
  "BinSearch lo hi executable =
     (if lo + 1 < hi then
        let mid = (hi + lo) div 2
        in case executable mid of
             Panic \<Rightarrow> Some Panic
           | Err e \<Rightarrow> Some (Err e)
           | Ok failed \<Rightarrow> if failed then BinSearch mid hi executable else BinSearch lo mid executable
      else Some (Ok hi))"

declare BinSearch.simps [code]

definition TxGas :: uint64 where "TxGas = 21000"

text \<open>The helper \<open>executable\<close> of \<open>EstimateGas\<close>, with the response.\<close>

definition try_gas ::
  "('b, 'r, 'cc, 'd) chain \<Rightarrow> 'r Ctx \<Rightarrow> Message \<Rightarrow> 'cc EVMConfig \<Rightarrow> uint64 \<Rightarrow>
     (string, bool \<times> MsgEthereumTxResponse option) outcome" where
  "try_gas X c msg cfg gas =
     (case ApplyMessageWithConfig X c (msg\<lparr>msg_Gas := gas\<rparr>) False cfg (NewEmptyTxConfig (BytesToHash (HeaderHash c))) of
        Panic \<Rightarrow> Panic
      | Err e \<Rightarrow> if e = ''intrinsic gas too low'' then Ok (True, None) else Err e
      | Ok (rsp, _) \<Rightarrow> Ok (length (res_VmError rsp) > 0, Some rsp))"

definition try_failed ::
  "('b, 'r, 'cc, 'd) chain \<Rightarrow> 'r Ctx \<Rightarrow> Message \<Rightarrow> 'cc EVMConfig \<Rightarrow> uint64 \<Rightarrow> (string, bool) outcome" where
  "try_failed X c msg cfg gas = bind_outcome (try_gas X c msg cfg gas) (\<lambda>(failed, _). Ok failed)"

text \<open>The highest gas limit tried; \<open>maxGas\<close> is that of the consensus parameters.\<close>

definition highest_gas :: "TransactionArgs \<Rightarrow> int option \<Rightarrow> uint64 \<Rightarrow> uint64" where
  "highest_gas args maxGas gasCap =
     (let hi0 = (case a_Gas args of
                   Some g \<Rightarrow> if g \<ge> TxGas then Some g else None | None \<Rightarrow> None);
          hi = (case hi0 of Some g \<Rightarrow> g
                | None \<Rightarrow> (case maxGas of Some m \<Rightarrow> if m > 0 then word_of_int m else gasCap | None \<Rightarrow> gasCap))
      in if gasCap \<noteq> 0 \<and> hi > gasCap then gasCap else hi)"

text \<open>The result of the search is checked if it is the highest limit, which was not tried.\<close>

definition check_highest ::
  "('b, 'r, 'cc, 'd) chain \<Rightarrow> 'r Ctx \<Rightarrow> Message \<Rightarrow> 'cc EVMConfig \<Rightarrow> uint64 \<Rightarrow> uint64 \<Rightarrow> (string, uint64) outcome" where
  "check_highest X c msg cfg gasCap hi =
     (if hi = gasCap then
        bind_outcome (try_gas X c msg cfg hi) (\<lambda>(failed, rsp).
        if failed then
          case rsp of
            None \<Rightarrow> Err ''gas required exceeds allowance''
          | Some result \<Rightarrow>
              if res_VmError result = ErrOutOfGas then Err ''gas required exceeds allowance''
              else Err (res_VmError result)
        else Ok hi)
      else Ok hi)"

definition EstimateGas ::
  "('b, 'r, 'cc, 'd) chain \<Rightarrow> int option \<Rightarrow> 'r Ctx \<Rightarrow> EthCallRequest \<Rightarrow> (string, uint64) outcome option" where
  "EstimateGas X maxGas c req =
     (if req_GasCap req < TxGas then Some (Err ''gas cap cannot be lower than 21,000'')
      else case req_Args req of
        None \<Rightarrow> Some (Err ''invalid arguments'')
      | Some args0 \<Rightarrow>
          let lo = TxGas - 1; gasCap = highest_gas args0 maxGas (req_GasCap req)
          in case keeper_EVMConfig X c of
               Panic \<Rightarrow> Some Panic
             | Err e \<Rightarrow> Some (Err ''failed to load evm config'')
             | Ok cfg \<Rightarrow>
                 let args = args0\<lparr>a_Nonce := Some (keeper_GetNonce (xsdk X) c (args_GetFrom args0))\<rparr>
                 in case ToMessage args (req_GasCap req) (cfg_BaseFee cfg) of
                      Panic \<Rightarrow> Some Panic
                    | Err e \<Rightarrow> Some (Err e)
                    | Ok msg \<Rightarrow> do {
                        r \<leftarrow> BinSearch lo gasCap (try_failed X c msg cfg);
                        Some (bind_outcome r (check_highest X c msg cfg gasCap)) })"

end
