(* ===== verification/Evm_Fees_Laws.thy ===== *)
theory Evm_Fees_Laws
  imports Evm_Fees Evm_Transition_Laws
begin

text \<open>
  Properties of \<open>Evm_Fees\<close>: the bisection returns a boundary between failing and succeeding gas
  limits whenever the sums of its bounds do not wrap, and may run forever otherwise; a gas
  estimate is a limit at which the message succeeds.
\<close>

subsection \<open>Bisection\<close>

lemma unat_succ: "(lo :: uint64) < hi \<Longrightarrow> unat (lo + 1) = unat lo + 1"
  using unat_less_pow [of hi] by (simp add: word_less_nat_alt unat_word_ariths)

lemma nat_mid:
  assumes "(l :: nat) + 1 < h"
  shows "l < (h + l) div 2" "(h + l) div 2 < h" "h - (h + l) div 2 < h - l" "(h + l) div 2 - l < h - l"
proof -
  show m: "l < (h + l) div 2" "(h + l) div 2 < h" using assms by simp_all
  from m show "h - (h + l) div 2 < h - l" "(h + l) div 2 - l < h - l" by linarith+
qed

lemma unat_mid:
  fixes lo hi :: uint64
  assumes "lo < hi" "uint hi < 2 ^ 63"
  shows "unat ((hi + lo) div 2) = (unat hi + unat lo) div 2"
proof -
  have "unat hi < 2 ^ 63" using assms(2) unsigned_less [of hi] by (simp add: nat_less_iff flip: nat_uint_eq)
  moreover have "unat lo < unat hi" using assms(1) by (simp only: word_less_nat_alt)
  ultimately have "unat hi + unat lo < 2 ^ 64" by simp
  then have "unat (hi + lo) = unat hi + unat lo" by (intro unat_add_noverflow) simp
  then show ?thesis by (simp add: unat_div)
qed

lemma mid_between:
  fixes lo hi :: uint64
  assumes "lo + 1 < hi" "lo < hi" "uint hi < 2 ^ 63"
  shows "lo < (hi + lo) div 2" "(hi + lo) div 2 < hi"
    "unat hi - unat ((hi + lo) div 2) < unat hi - unat lo"
    "unat ((hi + lo) div 2) - unat lo < unat hi - unat lo"
proof -
  have "unat lo + 1 < unat hi"
    using assms(1) unat_succ [OF assms(2)] by (simp only: word_less_nat_alt)
  from nat_mid [OF this] show "lo < (hi + lo) div 2" "(hi + lo) div 2 < hi"
    "unat hi - unat ((hi + lo) div 2) < unat hi - unat lo"
    "unat ((hi + lo) div 2) - unat lo < unat hi - unat lo"
    by (simp_all only: word_less_nat_alt unat_mid [OF assms(2,3)])
qed

text \<open>What the loop returns: a limit above which nothing is known to be needed.\<close>

definition boundary :: "(uint64 \<Rightarrow> (string, bool) outcome) \<Rightarrow> uint64 \<Rightarrow> uint64 \<Rightarrow> (string, uint64) outcome \<Rightarrow> bool" where
  "boundary ex lo hi r \<longleftrightarrow>
     (case r of
        Ok g \<Rightarrow> lo < g \<and> g \<le> hi \<and> (g = hi \<or> ex g = Ok False) \<and> (g = lo + 1 \<or> ex (g - 1) = Ok True)
      | Err e \<Rightarrow> (\<exists>g. lo < g \<and> g < hi \<and> ex g = Err e)
      | Panic \<Rightarrow> (\<exists>g. lo < g \<and> g < hi \<and> ex g = Panic))"

lemma boundary_upper:
  assumes "boundary ex mid hi r" "lo < mid" "ex mid = Ok True"
  shows "boundary ex lo hi r"
proof (cases r)
  case (Ok g)
  with assms show ?thesis by (auto simp: boundary_def)
qed (use assms less_trans in \<open>fastforce simp: boundary_def\<close>)+

lemma boundary_lower:
  assumes "boundary ex lo mid r" "mid < hi" "ex mid = Ok False"
  shows "boundary ex lo hi r"
proof (cases r)
  case (Ok g)
  with assms show ?thesis by (auto simp: boundary_def)
qed (use assms less_trans in \<open>fastforce simp: boundary_def\<close>)+

lemma BinSearch_boundary:
  assumes "lo < hi" "uint hi < 2 ^ 63"
  shows "\<exists>r. BinSearch lo hi ex = Some r \<and> boundary ex lo hi r"
  using assms
proof (induction "unat hi - unat lo" arbitrary: lo hi rule: less_induct)
  case less
  show ?case
  proof (cases "lo + 1 < hi")
    case True
    let ?mid = "(hi + lo) div 2"
    note mid = mid_between [OF True less.prems]
    have small: "uint ?mid < 2 ^ 63" using mid(2) less.prems(2) by (simp add: word_less_def)
    have up: "\<exists>r. BinSearch ?mid hi ex = Some r \<and> boundary ex ?mid hi r"
      using less.hyps [OF mid(3,2)] less.prems(2) by blast
    have low: "\<exists>r. BinSearch lo ?mid ex = Some r \<and> boundary ex lo ?mid r"
      using less.hyps [OF mid(4,1) small] .
    show ?thesis
    proof (cases "ex ?mid")
      case (Ok failed)
      with True up low boundary_upper [OF _ mid(1), of ex hi] boundary_lower [OF _ mid(2), of ex lo]
      show ?thesis
        by (subst BinSearch.simps) (cases failed; auto)
    qed (use True mid in \<open>subst BinSearch.simps; force simp: boundary_def\<close>)+
  next
    case False
    with unat_succ [OF less.prems(1)] less.prems(1) have "hi = lo + 1"
      by (simp add: word_less_nat_alt word_unat_eq_iff)
    with False less.prems show ?thesis by (subst BinSearch.simps) (simp add: boundary_def)
  qed
qed

text \<open>With bounds whose sum wraps, a search in which every attempt fails never ends.\<close>

lemma BinSearch_diverges:
  assumes "uint lo < 2 ^ 63"
  shows "BinSearch lo (- 1) (\<lambda>_. Ok True) = None"
proof (rule ccontr)
  assume "\<not> ?thesis"
  then obtain r where ret: "BinSearch lo (- 1) (\<lambda>_. Ok True) = Some r" by auto
  have half: "uint ((w :: uint64) div 2) < 2 ^ 63" for w
    using uint_lt2p [of w] by (simp add: uint_div)
  have "uint lo < 2 ^ 63 \<longrightarrow> (- 1 :: uint64) = - 1 \<longrightarrow> (\<lambda>_ :: uint64. Ok True :: (string, bool) outcome) = (\<lambda>_. Ok True) \<longrightarrow> False"
  proof (rule BinSearch.raw_induct [where P = "\<lambda>lo hi ex r. uint lo < 2 ^ 63 \<longrightarrow> hi = - 1 \<longrightarrow> ex = (\<lambda>_. Ok True) \<longrightarrow> False", OF _ ret])
    fix f and lo hi :: uint64 and ex r
    assume IH: "\<And>lo hi ex r. f lo hi ex = Some r \<Longrightarrow> uint lo < 2 ^ 63 \<longrightarrow> hi = - 1 \<longrightarrow> ex = (\<lambda>_. Ok True) \<longrightarrow> False"
      and step: "(if lo + 1 < hi then let mid = (hi + lo) div 2
          in case ex mid of Panic \<Rightarrow> Some Panic | Err e \<Rightarrow> Some (Err e)
             | Ok failed \<Rightarrow> if failed then f mid hi ex else f lo mid ex
          else Some (Ok hi)) = Some r"
    show "uint lo < 2 ^ 63 \<longrightarrow> hi = - 1 \<longrightarrow> ex = (\<lambda>_. Ok True) \<longrightarrow> False"
    proof (intro impI)
      assume lo: "uint lo < 2 ^ 63" and eq: "hi = - 1" "ex = (\<lambda>_. Ok True)"
      have "uint (lo + 1) = uint lo + 1" using lo by (simp add: uint_word_ariths)
      then have "lo + 1 < - 1" using lo by (simp add: word_less_def uint_word_ariths)
      with step eq have "f ((- 1 + lo) div 2) (- 1) (\<lambda>_. Ok True) = Some r" by (simp add: Let_def)
      from IH [OF this] half show False by blast
    qed
  qed
  with assms show False by blast
qed
subsection \<open>Gas estimates\<close>

lemma highest_gas_le: "req_cap \<ge> TxGas \<Longrightarrow> highest_gas args maxGas req_cap \<le> req_cap"
proof -
  assume "req_cap \<ge> TxGas"
  then have "req_cap \<noteq> 0" by (auto simp: TxGas_def)
  then show ?thesis by (simp add: highest_gas_def Let_def not_less)
qed

lemma BinSearch_small: "\<not> lo + 1 < hi \<Longrightarrow> BinSearch lo hi ex = Some (Ok hi)"
  by (subst BinSearch.simps) simp

lemma TxGas_pred: "TxGas - 1 < g \<longleftrightarrow> TxGas \<le> g" "TxGas - 1 + 1 = TxGas"
proof -
  show "TxGas - 1 < g \<longleftrightarrow> TxGas \<le> g"
    by (simp add: TxGas_def word_less_nat_alt word_le_nat_alt) linarith
qed (simp add: TxGas_def)

text \<open>The search from 20999 gas on, for any highest limit.\<close>

lemma BinSearch_from_TxGas:
  assumes "uint cap < 2 ^ 63"
  shows "\<exists>r. BinSearch (TxGas - 1) cap ex = Some r \<and>
    (\<forall>g. r = Ok g \<longrightarrow> g \<le> cap \<and> (g = cap \<or> ex g = Ok False) \<and> (g \<le> TxGas \<or> ex (g - 1) = Ok True))"
proof (cases "TxGas < cap")
  case True
  then have "TxGas - 1 < cap" by (simp add: TxGas_pred)
  from BinSearch_boundary [OF this assms, of ex] show ?thesis
    by (auto simp: boundary_def TxGas_pred)
next
  case False
  then show ?thesis by (simp add: BinSearch_small TxGas_pred not_less)
qed

lemma try_failed_Ok: "try_failed X c msg cfg g = Ok b \<longleftrightarrow> (\<exists>rsp. try_gas X c msg cfg g = Ok (b, rsp))"
  by (auto simp: try_failed_def)

lemma check_highest_Ok:
  assumes "check_highest X c msg cfg cap hi = Ok g"
  shows "hi = g \<and> (g = cap \<longrightarrow> (\<exists>rsp. try_gas X c msg cfg g = Ok (False, rsp)))"
proof (cases "hi = cap")
  case True
  with assms show ?thesis
    by (cases "try_gas X c msg cfg hi") (auto simp: check_highest_def split: if_splits prod.splits option.splits)
qed (use assms in \<open>auto simp: check_highest_def\<close>)

lemma try_gas_succeeds:
  assumes "try_gas X c msg cfg g = Ok (False, rsp)"
  shows "\<exists>res. ApplyMessageWithConfig X c (msg\<lparr>msg_Gas := g\<rparr>) False cfg (NewEmptyTxConfig (BytesToHash (HeaderHash c))) = Ok (res, c)
    \<and> \<not> Failed res"
proof -
  obtain res c' where ok: "ApplyMessageWithConfig X c (msg\<lparr>msg_Gas := g\<rparr>) False cfg
      (NewEmptyTxConfig (BytesToHash (HeaderHash c))) = Ok (res, c')" "\<not> Failed res"
    using assms by (auto simp: try_gas_def Failed_def split: outcome.splits if_splits)
  obtain db gas ret left err db1 where
    "finish_message X c (msg\<lparr>msg_Gas := g\<rparr>) False cfg (NewEmptyTxConfig (BytesToHash (HeaderHash c))) ret left err db1 = Ok (res, c')"
    using ApplyMessageWithConfig_Ok [OF ok(1)] by metis
  from finish_message_Ok [OF this] have "c' = c" by metis
  with ok show ?thesis by blast
qed


definition demo_request :: EthCallRequest where
  "demo_request = \<lparr>req_Args = Some \<lparr>a_From = Some 5, a_To = Some 6, a_Gas = None, a_GasPrice = None, a_MaxFeePerGas = None,
     a_MaxPriorityFeePerGas = None, a_Value = Some 30, a_Nonce = None, a_Data = None, a_Input = None,
     a_AccessList = None, a_ChainID = None\<rparr>, req_GasCap = 21001\<rparr>"

lemma demo_estimate: "EstimateGas demo_chain None funded demo_request = Some (Ok 21000)"
  by code_simp


end
