(* ===== verification/Coins.thy ===== *)
theory Coins
  imports Prelude "HOL-Library.Char_ord"
begin

text \<open>
  The coin sets of the Cosmos SDK (\<open>sdk.Coins\<close>) and its vesting periods, which the vesting
  module computes with. The SDK is not part of the repository: its operations are a record of
  functions, and the locale \<open>coin_laws\<close> states what their documentation promises for valid coins in terms of \<open>AmountOf\<close>.
  An operation that panics returns \<^const>\<open>None\<close>: addition beyond the 256 bits of \<open>math.Int\<close>,
  subtraction below zero. The slices \<open>nil\<close> and \<open>sdk.Coins{}\<close> are one value here, since no
  operation tells them apart. The locale is interpreted on sorted lists of positive amounts,
  the representation the SDK uses.
\<close>

record 'c Period =
  Length :: int
  Amount :: 'c

type_synonym 'c Periods = "'c Period list"

text \<open>\<open>TotalLength\<close> and \<open>TotalAmount\<close> are the methods of \<open>sdkvesting.Periods\<close>.\<close>

record 'c coin_ops =
  NoCoins :: 'c
  CoinsOf :: "string \<Rightarrow> int \<Rightarrow> 'c option"
  Coins_Add :: "'c \<Rightarrow> 'c \<Rightarrow> 'c option"
  Coins_Sub :: "'c \<Rightarrow> 'c \<Rightarrow> 'c option"
  Coins_Min :: "'c \<Rightarrow> 'c \<Rightarrow> 'c"
  IsAllLTE :: "'c \<Rightarrow> 'c \<Rightarrow> bool"
  Coins_IsZero :: "'c \<Rightarrow> bool"
  Coins_IsValid :: "'c \<Rightarrow> bool"
  AmountOf :: "'c \<Rightarrow> string \<Rightarrow> int"
  TotalLength :: "'c Periods \<Rightarrow> int"
  TotalAmount :: "'c Periods \<Rightarrow> 'c option"

abbreviation max_amount :: int where
  "max_amount \<equiv> 2 ^ 256"

definition plen :: "'c Periods \<Rightarrow> int" where
  "plen ps = (\<Sum>p\<leftarrow>ps. Length p)"

definition ptotal :: "'c coin_ops \<Rightarrow> 'c Periods \<Rightarrow> string \<Rightarrow> int" where
  "ptotal C ps d = (\<Sum>p\<leftarrow>ps. AmountOf C (Amount p) d)"

text \<open>Periods that a schedule may have: lengths that are not negative and valid amounts.\<close>

definition periods_ok :: "'c coin_ops \<Rightarrow> 'c Periods \<Rightarrow> bool" where
  "periods_ok C ps \<longleftrightarrow> list_all (\<lambda>p. 0 \<le> Length p \<and> Coins_IsValid C (Amount p)) ps"

lemma plen_simps [simp]:
  "plen [] = 0" "plen (p # ps) = Length p + plen ps" "plen (ps @ qs) = plen ps + plen qs"
  by (simp_all add: plen_def)

lemma ptotal_simps [simp]:
  "ptotal C [] d = 0" "ptotal C (p # ps) d = AmountOf C (Amount p) d + ptotal C ps d"
  "ptotal C (ps @ qs) d = ptotal C ps d + ptotal C qs d"
  by (simp_all add: ptotal_def)

lemma periods_ok_simps [simp]:
  "periods_ok C []"
  "periods_ok C (p # ps) \<longleftrightarrow> 0 \<le> Length p \<and> Coins_IsValid C (Amount p) \<and> periods_ok C ps"
  "periods_ok C (ps @ qs) \<longleftrightarrow> periods_ok C ps \<and> periods_ok C qs"
  by (simp_all add: periods_ok_def)

lemma periods_ok_take: "periods_ok C ps \<Longrightarrow> periods_ok C (take n ps)"
  by (simp add: periods_ok_def list_all_iff) (meson in_set_takeD)

lemma plen_nonneg: "periods_ok C ps \<Longrightarrow> 0 \<le> plen ps"
  by (induction ps) auto

locale coin_laws =
  fixes C :: "'c coin_ops"
  assumes valid_NoCoins [simp]: "Coins_IsValid C (NoCoins C)"
    and amount_NoCoins [simp]: "AmountOf C (NoCoins C) d = 0"
    and amount_nonneg [simp]: "Coins_IsValid C a \<Longrightarrow> 0 \<le> AmountOf C a d"
    and CoinsOf: "0 \<le> v \<Longrightarrow> v < max_amount \<Longrightarrow>
      \<exists>c. CoinsOf C d v = Some c \<and> Coins_IsValid C c \<and> (\<forall>e. AmountOf C c e = (if e = d then v else 0))"
    and Add: "Coins_IsValid C a \<Longrightarrow> Coins_IsValid C b \<Longrightarrow> (\<And>d. AmountOf C a d + AmountOf C b d < max_amount) \<Longrightarrow>
      \<exists>c. Coins_Add C a b = Some c \<and> Coins_IsValid C c \<and> (\<forall>d. AmountOf C c d = AmountOf C a d + AmountOf C b d)"
    and Add_overflow: "Coins_IsValid C a \<Longrightarrow> Coins_IsValid C b \<Longrightarrow> max_amount \<le> AmountOf C a d + AmountOf C b d \<Longrightarrow>
      Coins_Add C a b = None"
    and Sub: "Coins_IsValid C a \<Longrightarrow> Coins_IsValid C b \<Longrightarrow> (\<And>d. AmountOf C b d \<le> AmountOf C a d) \<Longrightarrow>
      \<exists>c. Coins_Sub C a b = Some c \<and> Coins_IsValid C c \<and> (\<forall>d. AmountOf C c d = AmountOf C a d - AmountOf C b d)"
    and Sub_negative: "Coins_IsValid C a \<Longrightarrow> Coins_IsValid C b \<Longrightarrow> AmountOf C a d < AmountOf C b d \<Longrightarrow>
      Coins_Sub C a b = None"
    and valid_Min [simp]: "Coins_IsValid C a \<Longrightarrow> Coins_IsValid C b \<Longrightarrow> Coins_IsValid C (Coins_Min C a b)"
    and amount_Min [simp]: "Coins_IsValid C a \<Longrightarrow> Coins_IsValid C b \<Longrightarrow>
      AmountOf C (Coins_Min C a b) d = min (AmountOf C a d) (AmountOf C b d)"
    and IsAllLTE_iff: "Coins_IsValid C a \<Longrightarrow> Coins_IsValid C b \<Longrightarrow>
      IsAllLTE C a b \<longleftrightarrow> (\<forall>d. AmountOf C a d \<le> AmountOf C b d)"
    and TotalLength: "periods_ok C ps \<Longrightarrow> plen ps \<le> max_int64 \<Longrightarrow> TotalLength C ps = plen ps"
    and TotalAmount: "periods_ok C ps \<Longrightarrow> (\<And>d. ptotal C ps d < max_amount) \<Longrightarrow>
      \<exists>c. TotalAmount C ps = Some c \<and> Coins_IsValid C c \<and> (\<forall>d. AmountOf C c d = ptotal C ps d)"
    and IsZero_iff: "Coins_IsValid C a \<Longrightarrow> Coins_IsZero C a \<longleftrightarrow> (\<forall>d. AmountOf C a d = 0)"
begin

text \<open>A sum or difference that is defined has the amounts it should have.\<close>

lemma Add_Some:
  assumes "Coins_Add C a b = Some c" "Coins_IsValid C a" "Coins_IsValid C b"
  shows "Coins_IsValid C c" "AmountOf C c d = AmountOf C a d + AmountOf C b d"
    "AmountOf C a d + AmountOf C b d < max_amount"
proof -
  have lt: "AmountOf C a e + AmountOf C b e < max_amount" for e
    using Add_overflow [OF assms(2,3)] assms(1) by (metis not_less option.distinct(1))
  from Add [OF assms(2,3) lt] assms(1) lt
  show "Coins_IsValid C c" "AmountOf C c d = AmountOf C a d + AmountOf C b d"
    "AmountOf C a d + AmountOf C b d < max_amount" by auto
qed

lemma Sub_Some:
  assumes "Coins_Sub C a b = Some c" "Coins_IsValid C a" "Coins_IsValid C b"
  shows "Coins_IsValid C c" "AmountOf C c d = AmountOf C a d - AmountOf C b d"
    "AmountOf C b d \<le> AmountOf C a d"
proof -
  have le: "AmountOf C b e \<le> AmountOf C a e" for e
    using Sub_negative [OF assms(2,3)] assms(1) by (metis not_less option.distinct(1))
  from Sub [OF assms(2,3) le] assms(1) le
  show "Coins_IsValid C c" "AmountOf C c d = AmountOf C a d - AmountOf C b d"
    "AmountOf C b d \<le> AmountOf C a d" by auto
qed

lemma ptotal_nonneg [simp]: "periods_ok C ps \<Longrightarrow> 0 \<le> ptotal C ps d"
  by (induction ps) auto

end

subsection \<open>Coins as sorted lists\<close>

definition list_amount :: "(string \<times> int) list \<Rightarrow> string \<Rightarrow> int" where
  "list_amount a d = (case map_of a d of Some v \<Rightarrow> v | None \<Rightarrow> 0)"

definition list_valid :: "(string \<times> int) list \<Rightarrow> bool" where
  "list_valid a \<longleftrightarrow> sorted (map fst a) \<and> distinct (map fst a) \<and> (\<forall>(d, v) \<in> set a. 0 < v)"

text \<open>The coins of the given denominations with the amounts of a function, zeros removed.\<close>

definition pick :: "string list \<Rightarrow> (string \<Rightarrow> int) \<Rightarrow> (string \<times> int) list" where
  "pick ds f = filter (\<lambda>(d, v). v \<noteq> 0) (map (\<lambda>d. (d, f d)) (sort (remdups ds)))"

definition pick_checked :: "(int \<Rightarrow> bool) \<Rightarrow> string list \<Rightarrow> (string \<Rightarrow> int) \<Rightarrow> (string \<times> int) list option" where
  "pick_checked ok ds f = (if list_all (\<lambda>d. ok (f d)) ds then Some (pick ds f) else None)"

definition denoms :: "(string \<times> int) list \<Rightarrow> (string \<times> int) list \<Rightarrow> string list" where
  "denoms a b = map fst a @ map fst b"

definition list_add :: "(string \<times> int) list \<Rightarrow> (string \<times> int) list \<Rightarrow> (string \<times> int) list option" where
  "list_add a b = pick_checked (\<lambda>i. i < max_amount) (denoms a b) (\<lambda>d. list_amount a d + list_amount b d)"

fun list_sum :: "(string \<times> int) list Periods \<Rightarrow> (string \<times> int) list \<Rightarrow> (string \<times> int) list option" where
  "list_sum [] a = Some a"
| "list_sum (p # ps) a = Option.bind (list_add a (Amount p)) (list_sum ps)"

definition coin_list :: "(string \<times> int) list coin_ops" where
  "coin_list = \<lparr>NoCoins = [],
     CoinsOf = (\<lambda>d v. pick_checked (\<lambda>i. 0 \<le> i) [d] (\<lambda>_. v)),
     Coins_Add = list_add,
     Coins_Sub = (\<lambda>a b. pick_checked (\<lambda>i. 0 \<le> i) (denoms a b) (\<lambda>d. list_amount a d - list_amount b d)),
     Coins_Min = (\<lambda>a b. pick (denoms a b) (\<lambda>d. min (list_amount a d) (list_amount b d))),
     IsAllLTE = (\<lambda>a b. list_all (\<lambda>d. list_amount a d \<le> list_amount b d) (denoms a b)),
     Coins_IsZero = (\<lambda>a. list_all (\<lambda>(d, v). v = 0) a),
     Coins_IsValid = list_valid,
     AmountOf = list_amount,
     TotalLength = foldl (\<lambda>l p. wrap64 (l + Length p)) 0,
     TotalAmount = (\<lambda>ps. list_sum ps [])\<rparr>"

lemma list_amount_nonneg: "list_valid a \<Longrightarrow> 0 \<le> list_amount a d"
  by (auto simp: list_valid_def list_amount_def split: option.split dest!: map_of_SomeD)

lemma list_amount_outside: "d \<notin> fst ` set a \<Longrightarrow> list_amount a d = 0"
  using map_of_eq_None_iff [of a d] by (simp add: list_amount_def)

lemma map_of_pairs: "map_of (filter (\<lambda>(d, v). v \<noteq> 0) (map (\<lambda>d. (d, f d)) ds)) d =
    (if d \<in> set ds \<and> f d \<noteq> (0::int) then Some (f d) else None)"
  by (induction ds) auto

lemma list_amount_pick [simp]: "list_amount (pick ds f) d = (if d \<in> set ds then f d else 0)"
  by (simp add: pick_def list_amount_def map_of_pairs)

lemma fst_pick: "map fst (pick ds f) = filter (\<lambda>d. f d \<noteq> 0) (sort (remdups ds))"
proof -
  have "map fst (filter (\<lambda>(d, v). v \<noteq> 0) (map (\<lambda>d. (d, f d)) xs)) = filter (\<lambda>d. f d \<noteq> 0) xs" for xs
    by (induction xs) auto
  then show ?thesis by (simp add: pick_def)
qed

lemma list_valid_pick: "(\<And>d. d \<in> set ds \<Longrightarrow> 0 \<le> f d) \<Longrightarrow> list_valid (pick ds f)"
  using sorted_filter [of "\<lambda>x. x" "sort (remdups ds)" "\<lambda>d. f d \<noteq> 0"]
  by (auto simp: list_valid_def fst_pick) (auto simp: pick_def order_less_le)

lemma denoms_amount: "d \<notin> set (denoms a b) \<Longrightarrow> list_amount a d = 0 \<and> list_amount b d = 0"
  by (simp add: denoms_def list_amount_outside)

lemma pick_checked_Some:
  assumes "\<And>d. d \<in> set ds \<Longrightarrow> ok (f d) \<and> 0 \<le> f d" "\<And>d. d \<notin> set ds \<Longrightarrow> f d = 0"
  shows "\<exists>c. pick_checked ok ds f = Some c \<and> list_valid c \<and> (\<forall>d. list_amount c d = f d)"
  using assms list_valid_pick [of ds f] by (auto simp: pick_checked_def list_all_iff)

lemma list_all_denoms:
  "(\<And>d. list_amount a d = 0 \<Longrightarrow> list_amount b d = 0 \<Longrightarrow> P d) \<Longrightarrow> list_all P (denoms a b) \<longleftrightarrow> (\<forall>d. P d)"
  using denoms_amount [of _ a b] by (auto simp: list_all_iff)

lemma list_IsZero: "list_valid a \<Longrightarrow> list_all (\<lambda>(d, v). v = 0) a \<longleftrightarrow> (\<forall>d. list_amount a d = 0)"
proof
  assume "list_valid a" "\<forall>d. list_amount a d = 0"
  then have "a = []"
    by (cases a) (auto simp: list_valid_def list_amount_def split: option.splits if_splits)
  then show "list_all (\<lambda>(d, v). v = 0) a" by simp
qed (auto simp: list_all_iff list_amount_def split: option.split dest!: map_of_SomeD)

lemma coin_list_sel [simp]:
  "Coins_IsValid coin_list = list_valid" "AmountOf coin_list = list_amount"
  "Coins_Add coin_list = list_add" "NoCoins coin_list = []"
  by (simp_all add: coin_list_def)

lemma list_add_Some:
  assumes "list_valid a" "list_valid b" "\<And>d. list_amount a d + list_amount b d < max_amount"
  shows "\<exists>c. list_add a b = Some c \<and> list_valid c \<and> (\<forall>d. list_amount c d = list_amount a d + list_amount b d)"
  unfolding list_add_def using assms
  by (intro pick_checked_Some) (auto simp: list_amount_nonneg dest: denoms_amount)

lemma list_ptotal_nonneg: "periods_ok coin_list ps \<Longrightarrow> 0 \<le> ptotal coin_list ps d"
  by (induction ps) (auto simp: list_amount_nonneg)

lemma list_sum_Some:
  "periods_ok coin_list ps \<Longrightarrow> list_valid a \<Longrightarrow> (\<And>d. list_amount a d + ptotal coin_list ps d < max_amount) \<Longrightarrow>
    \<exists>c. list_sum ps a = Some c \<and> list_valid c \<and> (\<forall>d. list_amount c d = list_amount a d + ptotal coin_list ps d)"
proof (induction ps arbitrary: a)
  case (Cons p ps)
  have "list_amount a d + list_amount (Amount p) d < max_amount" for d
    using Cons.prems(1) Cons.prems(3) [of d] list_ptotal_nonneg [of ps d] by simp
  then obtain b where b: "list_add a (Amount p) = Some b" "list_valid b"
    "\<forall>d. list_amount b d = list_amount a d + list_amount (Amount p) d"
    using list_add_Some [of a "Amount p"] Cons.prems(1,2) by auto
  have "list_amount b d + ptotal coin_list ps d < max_amount" for d
    using Cons.prems(3) [of d] b(3) by (simp add: add.assoc)
  then show ?case using Cons.IH [of b] Cons.prems(1) b by (auto simp: add.assoc)
qed simp

lemma wrap64_sum:
  "periods_ok C ps \<Longrightarrow> 0 \<le> l \<Longrightarrow> l + plen ps \<le> max_int64 \<Longrightarrow>
    foldl (\<lambda>l p. wrap64 (l + Length p)) l ps = l + plen ps"
proof (induction ps arbitrary: l)
  case (Cons p ps)
  then show ?case using plen_nonneg [of C ps] Cons.IH [of "l + Length p"] by simp
qed simp

interpretation coin_list: coin_laws coin_list
proof (unfold_locales, goal_cases)
  case (3 a d)
  then show ?case by (simp add: coin_list_def list_amount_nonneg)
next
  case (4 v d)
  show ?case
    using pick_checked_Some [of "[d]" "\<lambda>i. 0 \<le> i" "\<lambda>e. if e = d then v else 0"] 4
    by (simp add: coin_list_def pick_checked_def pick_def cong: if_cong)
next
  case (5 a b)
  then show ?case using list_add_Some by simp
next
  case (6 a b d)
  then have "d \<in> set (denoms a b)" using denoms_amount [of d a b] by fastforce
  with 6 show ?case by (auto simp: list_add_def pick_checked_def list_all_iff not_less)
next
  case (7 a b)
  then show ?case
    by (simp add: coin_list_def) (rule pick_checked_Some, auto simp: list_amount_nonneg dest: denoms_amount)
next
  case (8 a b d)
  then have "d \<in> set (denoms a b)" using denoms_amount [of d a b] by (fastforce simp: coin_list_def)
  with 8 show ?case by (auto simp: coin_list_def pick_checked_def list_all_iff not_le)
next
  case (9 a b)
  then show ?case by (simp add: coin_list_def list_valid_pick list_amount_nonneg)
next
  case (10 a b d)
  then show ?case using denoms_amount [of d a b] by (auto simp: coin_list_def)
next
  case (11 a b)
  then show ?case by (simp add: coin_list_def list_all_denoms)
next
  case (12 ps)
  then show ?case using wrap64_sum [of coin_list ps 0] by (simp add: coin_list_def)
next
  case (13 ps)
  then show ?case
    using list_sum_Some [of ps "[]"] by (simp add: coin_list_def list_valid_def list_amount_def)
next
  case (14 a)
  then show ?case by (simp add: coin_list_def list_IsZero)
qed (simp_all add: coin_list_def list_valid_def list_amount_def)

end
