(* ===== verification/Vesting_Schedule_Laws.thy ===== *)
theory Vesting_Schedule_Laws
  imports Vesting_Schedule
begin

text \<open>
  What the schedule functions compute, proved in the locale of the coin operations: the loops
  of \<open>ReadSchedule\<close>, \<open>DisjunctPeriods\<close> and \<open>ConjunctPeriods\<close> keep a quantity that at the start
  is the claimed step function and at the end that of the result.
\<close>

text \<open>What the loops of both merges keep about the times.\<close>

definition times_inv :: "'c coin_ops \<Rightarrow> int \<Rightarrow> 'c Periods \<Rightarrow> 'c Periods \<Rightarrow> ('c, 'z) merge_scheme \<Rightarrow> bool" where
  "times_inv C st as bs s \<longleftrightarrow>
     periods_ok C as \<and> periods_ok C bs \<and> periods_ok C (periods s) \<and>
     in_time (timePeriodA s) as \<and> in_time (timePeriodB s) bs \<and>
     - (2 ^ 62) \<le> endTime s \<and> endTime s < 2 ^ 62 \<and> endTime s = st + plen (periods s) \<and>
     (as \<noteq> [] \<longrightarrow> endTime s \<le> timePeriodA s + Length (hd as)) \<and>
     (bs \<noteq> [] \<longrightarrow> endTime s \<le> timePeriodB s + Length (hd bs))"

text \<open>The step function the result will have: what it has now and the events still to come.\<close>

definition disjunct_pending ::
  "'c coin_ops \<Rightarrow> int \<Rightarrow> 'c Periods \<Rightarrow> 'c Periods \<Rightarrow> 'c merge \<Rightarrow> int \<Rightarrow> string \<Rightarrow> int" where
  "disjunct_pending C st as bs s t d =
     sched_amount C st (periods s) t d + sched_amount C (timePeriodA s) as t d + sched_amount C (timePeriodB s) bs t d"

text \<open>
  For the minimum, the totals of the events so far are kept as well, and the amount of the
  result is their minimum.
\<close>

definition totals_inv :: "'c coin_ops \<Rightarrow> 'c Periods \<Rightarrow> 'c Periods \<Rightarrow> 'c conjunct \<Rightarrow> bool" where
  "totals_inv C as bs s \<longleftrightarrow>
     Coins_IsValid C (totalAmountA s) \<and> Coins_IsValid C (totalAmountB s) \<and> Coins_IsValid C (resultingAmount s) \<and>
     (\<forall>d. AmountOf C (resultingAmount s) d = min (AmountOf C (totalAmountA s) d) (AmountOf C (totalAmountB s) d) \<and>
          AmountOf C (totalAmountA s) d + ptotal C as d < max_amount \<and>
          AmountOf C (totalAmountB s) d + ptotal C bs d < max_amount)"

definition conjunct_pending ::
  "'c coin_ops \<Rightarrow> int \<Rightarrow> 'c Periods \<Rightarrow> 'c Periods \<Rightarrow> 'c conjunct \<Rightarrow> int \<Rightarrow> string \<Rightarrow> int" where
  "conjunct_pending C st as bs s t d =
     sched_amount C st (periods s) t d - min (AmountOf C (totalAmountA s) d) (AmountOf C (totalAmountB s) d) +
     min (AmountOf C (totalAmountA s) d + sched_amount C (timePeriodA s) as t d)
         (AmountOf C (totalAmountB s) d + sched_amount C (timePeriodB s) bs t d)"

context coin_laws
begin

subsection \<open>Reading\<close>

lemma read_loop_amount:
  "periods_ok C ps \<Longrightarrow> in_time e ps \<Longrightarrow> Coins_IsValid C coins \<Longrightarrow>
    (\<And>d. AmountOf C coins d + ptotal C ps d < max_amount) \<Longrightarrow>
    \<exists>c. read_loop C t ps e coins = Some c \<and> Coins_IsValid C c \<and>
      (\<forall>d. AmountOf C c d = AmountOf C coins d + sched_amount C e ps t d)"
proof (induction ps arbitrary: e coins)
  case (Cons p ps)
  show ?case
  proof (cases "t < e + Length p")
    case True
    then show ?thesis
      using Cons.prems sched_before [of C ps t "e + Length p"] by (simp add: in_time_next [OF Cons.prems(1,2)])
  next
    case False
    have nn: "0 \<le> ptotal C ps d" for d using Cons.prems(1) by simp
    have small: "AmountOf C coins d + AmountOf C (Amount p) d < max_amount" for d
      using Cons.prems(4) [of d] nn [of d] by simp
    obtain b where b: "Coins_Add C coins (Amount p) = Some b" "Coins_IsValid C b"
      "\<And>d. AmountOf C b d = AmountOf C coins d + AmountOf C (Amount p) d"
      using Add [OF Cons.prems(3) _ small] Cons.prems(1) by auto
    have "AmountOf C b d + ptotal C ps d < max_amount" for d
      using Cons.prems(4) [of d] b(3) by (simp add: add.assoc)
    with Cons.IH [OF _ in_time_Cons [OF Cons.prems(1,2)] b(2)] False b Cons.prems(1) show ?thesis
      by (simp add: in_time_next [OF Cons.prems(1,2)] add.assoc)
  qed
qed simp

lemma ReadSchedule_amount:
  assumes "periods_ok C ps" "in_time s ps" "s + plen ps \<le> e" "\<And>d. ptotal C ps d < max_amount"
    "Coins_IsValid C tot" "\<And>d. AmountOf C tot d = ptotal C ps d"
  shows "\<exists>c. ReadSchedule C s e ps tot t = Some c \<and> Coins_IsValid C c \<and>
    (\<forall>d. AmountOf C c d = (if t \<le> s then 0 else sched_amount C s ps t d))"
proof -
  have "\<exists>c. read_loop C t ps s (NoCoins C) = Some c \<and> Coins_IsValid C c \<and>
      (\<forall>d. AmountOf C c d = sched_amount C s ps t d)"
    using read_loop_amount [OF assms(1,2), of "NoCoins C" t] assms(4) by simp
  then show ?thesis
    using assms sched_after [of C ps s t] by (auto simp: ReadSchedule_def)
qed

lemma sched_mono: "periods_ok C ps \<Longrightarrow> t \<le> u \<Longrightarrow> sched_amount C s ps t d \<le> sched_amount C s ps u d"
  by (induction ps arbitrary: s) (auto intro: add_mono add_increasing)

lemma sched_nonneg: "periods_ok C ps \<Longrightarrow> 0 \<le> sched_amount C s ps t d"
  by (induction ps arbitrary: s) auto

lemma sched_le_total: "periods_ok C ps \<Longrightarrow> sched_amount C s ps t d \<le> ptotal C ps d"
  by (induction ps arbitrary: s) (auto intro: add_mono add_increasing)

text \<open>The periods that have passed are those whose amounts the reading adds up.\<close>

lemma count_loop_take:
  "periods_ok C ps \<Longrightarrow> in_time e ps \<Longrightarrow>
    n \<le> count_loop t ps e n \<and> count_loop t ps e n \<le> n + length ps \<and>
    (\<forall>d. ptotal C (take (count_loop t ps e n - n) ps) d = sched_amount C e ps t d) \<and>
    e + plen (take (count_loop t ps e n - n) ps) \<le> max e t"
proof (induction ps arbitrary: e n)
  case (Cons p ps)
  note nx = in_time_next [OF Cons.prems]
  show ?case
  proof (cases "t < e + Length p")
    case True
    then show ?thesis using Cons.prems sched_before [of C ps t "e + Length p"] by (simp add: nx)
  next
    case False
    define k where "k = count_loop t ps (e + Length p) (Suc n)"
    have "n + 1 \<le> k" "k \<le> n + 1 + length ps"
      "\<forall>d. ptotal C (take (k - (n + 1)) ps) d = sched_amount C (e + Length p) ps t d"
      "e + Length p + plen (take (k - (n + 1)) ps) \<le> max (e + Length p) t"
      using Cons.IH [OF _ in_time_Cons [OF Cons.prems], of "Suc n"] Cons.prems(1) by (simp_all add: k_def)
    moreover from \<open>n + 1 \<le> k\<close> have "k - n = Suc (k - (n + 1))" by simp
    ultimately show ?thesis using False Cons.prems(1) by (simp add: nx flip: k_def)
  qed
qed simp

subsection \<open>The union\<close>

lemma times_inv_next:
  "times_inv C st (p # ps) bs s \<Longrightarrow> wrap64 (timePeriodA s + Length p) = timePeriodA s + Length p"
  "times_inv C st as (q # qs) s \<Longrightarrow> wrap64 (timePeriodB s + Length q) = timePeriodB s + Length q"
  by (simp_all only: times_inv_def) (metis in_time_next(1))+

lemma times_inv_nextA:
  assumes "times_inv C st (p # ps) bs s"
  shows "endTime s \<le> timePeriodA s + Length p" "timePeriodA s + Length p < 2 ^ 62"
    "in_time (timePeriodA s + Length p) ps" "periods_ok C ps" "Coins_IsValid C (Amount p)"
    "ps \<noteq> [] \<longrightarrow> timePeriodA s + Length p \<le> timePeriodA s + Length p + Length (hd ps)"
  using assms in_time_next [of C p ps "timePeriodA s"] in_time_Cons [of C p ps "timePeriodA s"]
  by (cases ps; simp add: times_inv_def)+

lemma times_inv_nextB:
  assumes "times_inv C st as (q # qs) s"
  shows "endTime s \<le> timePeriodB s + Length q" "timePeriodB s + Length q < 2 ^ 62"
    "in_time (timePeriodB s + Length q) qs" "periods_ok C qs" "Coins_IsValid C (Amount q)"
    "qs \<noteq> [] \<longrightarrow> timePeriodB s + Length q \<le> timePeriodB s + Length q + Length (hd qs)"
  using assms in_time_next [of C q qs "timePeriodB s"] in_time_Cons [of C q qs "timePeriodB s"]
  by (cases qs; simp add: times_inv_def)+

text \<open>An event appended to the result at a time not before its end.\<close>

lemma times_inv_emit:
  assumes "times_inv C st as bs s" "endTime s \<le> n" "n < 2 ^ 62" "Coins_IsValid C c"
  shows "wrap64 (n - endTime s) = n - endTime s" "- (2 ^ 62) \<le> n"
    "periods_ok C (periods s @ [\<lparr>Length = n - endTime s, Amount = c\<rparr>])"
    "st + plen (periods s @ [\<lparr>Length = n - endTime s, Amount = c\<rparr>]) = n"
    "sched_amount C st (periods s @ [\<lparr>Length = n - endTime s, Amount = c\<rparr>]) t d =
       sched_amount C st (periods s) t d + (if n \<le> t then AmountOf C c d else 0)"
  using assms wrap64_diff [of "endTime s" n] by (simp_all add: times_inv_def sched_append)

lemma disjunct_consumeA_step:
  assumes inv: "times_inv C st (p # ps) bs s"
    and nxt: "bs \<noteq> [] \<longrightarrow> timePeriodA s + Length p \<le> timePeriodB s + Length (hd bs)"
  defines "s' \<equiv> disjunct_consumeA p (timePeriodA s + Length p) s"
  shows "times_inv C st ps bs s'" "disjunct_pending C st ps bs s' t d = disjunct_pending C st (p # ps) bs s t d"
  using inv nxt times_inv_nextA [OF inv] times_inv_emit [OF inv times_inv_nextA(1,2,5) [OF inv]]
  by (simp_all add: s'_def disjunct_consumeA_def disjunct_emit_def disjunct_pending_def times_inv_def)

lemma disjunct_consumeB_step:
  assumes inv: "times_inv C st as (q # qs) s"
    and nxt: "as \<noteq> [] \<longrightarrow> timePeriodB s + Length q \<le> timePeriodA s + Length (hd as)"
  defines "s' \<equiv> disjunct_consumeB q (timePeriodB s + Length q) s"
  shows "times_inv C st as qs s'" "disjunct_pending C st as qs s' t d = disjunct_pending C st as (q # qs) s t d"
  using inv nxt times_inv_nextB [OF inv] times_inv_emit [OF inv times_inv_nextB(1,2,5) [OF inv]]
  by (simp_all add: s'_def disjunct_consumeB_def disjunct_emit_def disjunct_pending_def times_inv_def)

lemma disjunct_consumeBoth_step:
  assumes inv: "times_inv C st (p # ps) (q # qs) s"
    and nxt: "timePeriodA s + Length p = timePeriodB s + Length q"
    and small: "\<And>d. AmountOf C (Amount p) d + AmountOf C (Amount q) d < max_amount"
  shows "\<exists>s'. disjunct_consumeBoth C p q (timePeriodA s + Length p) s = Some s' \<and> times_inv C st ps qs s' \<and>
    (\<forall>t d. disjunct_pending C st ps qs s' t d = disjunct_pending C st (p # ps) (q # qs) s t d)"
proof -
  note A = times_inv_nextA [OF inv] and B = times_inv_nextB [OF inv]
  obtain c where c: "Coins_Add C (Amount p) (Amount q) = Some c" "Coins_IsValid C c"
    "\<And>d. AmountOf C c d = AmountOf C (Amount p) d + AmountOf C (Amount q) d"
    using Add [OF A(5) B(5) small] by blast
  show ?thesis
    using inv nxt A B c times_inv_emit [OF inv A(1,2) c(2)]
    by (simp add: disjunct_consumeBoth_def disjunct_emit_def disjunct_pending_def times_inv_def)
qed

text \<open>One round of the loops: an event of one schedule, or of both, moves into the result.\<close>

definition disjunct_round where
  "disjunct_round st as bs s as' bs' s' \<longleftrightarrow>
     disjunct_loop C as bs s = disjunct_loop C as' bs' s' \<and> length as' + length bs' < length as + length bs \<and>
     times_inv C st as' bs' s' \<and> (\<forall>d. ptotal C as' d + ptotal C bs' d \<le> ptotal C as d + ptotal C bs d) \<and>
     (\<forall>t d. disjunct_pending C st as' bs' s' t d = disjunct_pending C st as bs s t d)"

lemma disjunct_roundA:
  assumes inv: "times_inv C st (p # ps) bs s"
    and nxt: "bs = [] \<or> (\<exists>q qs. bs = q # qs \<and> timePeriodA s + Length p < timePeriodB s + Length q)"
  shows "disjunct_round st (p # ps) bs s ps bs (disjunct_consumeA p (timePeriodA s + Length p) s)"
proof -
  have "disjunct_loop C (p # ps) bs s = disjunct_loop C ps bs (disjunct_consumeA p (timePeriodA s + Length p) s)"
    using nxt inv by (auto simp: times_inv_next)
  moreover have "bs \<noteq> [] \<longrightarrow> timePeriodA s + Length p \<le> timePeriodB s + Length (hd bs)" using nxt by auto
  ultimately show ?thesis
    using disjunct_consumeA_step [OF inv] times_inv_nextA(5) [OF inv] by (simp add: disjunct_round_def)
qed

lemma disjunct_roundB:
  assumes inv: "times_inv C st as (q # qs) s"
    and nxt: "as = [] \<or> (\<exists>p ps. as = p # ps \<and> timePeriodB s + Length q < timePeriodA s + Length p)"
  shows "disjunct_round st as (q # qs) s as qs (disjunct_consumeB q (timePeriodB s + Length q) s)"
proof -
  have "disjunct_loop C as (q # qs) s = disjunct_loop C as qs (disjunct_consumeB q (timePeriodB s + Length q) s)"
    using nxt inv by (auto simp: times_inv_next)
  moreover have "as \<noteq> [] \<longrightarrow> timePeriodB s + Length q \<le> timePeriodA s + Length (hd as)" using nxt by auto
  ultimately show ?thesis
    using disjunct_consumeB_step [OF inv] times_inv_nextB(5) [OF inv] by (simp add: disjunct_round_def)
qed

lemma disjunct_roundBoth:
  assumes inv: "times_inv C st (p # ps) (q # qs) s"
    and nxt: "timePeriodA s + Length p = timePeriodB s + Length q"
    and small: "\<And>d. ptotal C (p # ps) d + ptotal C (q # qs) d < max_amount"
  shows "\<exists>s'. disjunct_round st (p # ps) (q # qs) s ps qs s'"
proof -
  have nn: "0 \<le> AmountOf C (Amount p) d" "0 \<le> AmountOf C (Amount q) d" "0 \<le> ptotal C ps d" "0 \<le> ptotal C qs d" for d
    using inv by (simp_all add: times_inv_def)
  have "AmountOf C (Amount p) d + AmountOf C (Amount q) d < max_amount" for d
    using small [of d] nn [of d] unfolding ptotal_simps by linarith
  with disjunct_consumeBoth_step [OF inv nxt] obtain s' where
    "disjunct_consumeBoth C p q (timePeriodA s + Length p) s = Some s'" "times_inv C st ps qs s'"
    "\<forall>t d. disjunct_pending C st ps qs s' t d = disjunct_pending C st (p # ps) (q # qs) s t d" by blast
  then show ?thesis using nxt nn times_inv_next(1,2) [OF inv] by (auto simp: disjunct_round_def)
qed

lemma disjunct_round_exists:
  assumes "times_inv C st as bs s" "\<And>d. ptotal C as d + ptotal C bs d < max_amount" "as \<noteq> [] \<or> bs \<noteq> []"
  shows "\<exists>as' bs' s'. disjunct_round st as bs s as' bs' s'"
proof (cases as; cases bs)
  fix p ps q qs assume "as = p # ps" "bs = q # qs"
  with assms disjunct_roundA [of st p ps bs s] disjunct_roundB [of st as q qs s] disjunct_roundBoth [of st p ps q qs s]
  show ?thesis by (metis linorder_neqE)
qed (use assms disjunct_roundA disjunct_roundB in blast)+

lemma disjunct_loop_correct:
  "times_inv C st as bs s \<Longrightarrow> (\<And>d. ptotal C as d + ptotal C bs d < max_amount) \<Longrightarrow>
    \<exists>s'. disjunct_loop C as bs s = Some s' \<and> times_inv C st [] [] s' \<and>
      (\<forall>t d. sched_amount C st (periods s') t d = disjunct_pending C st as bs s t d)"
proof (induction "length as + length bs" arbitrary: as bs s rule: less_induct)
  case less
  show ?case
  proof (cases "as = [] \<and> bs = []")
    case True
    then show ?thesis using less.prems by (simp add: disjunct_pending_def)
  next
    case False
    then obtain as' bs' s' where r: "disjunct_round st as bs s as' bs' s'"
      using disjunct_round_exists less.prems by blast
    then have "ptotal C as' d + ptotal C bs' d < max_amount" for d
      using less.prems(2) by (metis disjunct_round_def order_le_less_trans)
    with less.hyps [of as' bs' s'] r show ?thesis by (simp add: disjunct_round_def)
  qed
qed

lemma times_inv_start:
  "periods_ok C as \<Longrightarrow> periods_ok C bs \<Longrightarrow> in_time a as \<Longrightarrow> in_time b bs \<Longrightarrow>
    timePeriodA s = a \<Longrightarrow> timePeriodB s = b \<Longrightarrow> endTime s = min a b \<Longrightarrow> periods s = [] \<Longrightarrow>
    times_inv C (min a b) as bs s"
  using plen_nonneg [of C as] by (cases as; cases bs) (auto simp: times_inv_def in_time_def)

lemma DisjunctPeriods_correct:
  assumes "periods_ok C as" "periods_ok C bs" "in_time a as" "in_time b bs"
    "\<And>d. ptotal C as d + ptotal C bs d < max_amount"
  shows "\<exists>ps. DisjunctPeriods C a b as bs = Some (min a b, min a b + plen ps, ps) \<and>
    periods_ok C ps \<and> in_time (min a b) ps \<and>
    (\<forall>t d. sched_amount C (min a b) ps t d = sched_amount C a as t d + sched_amount C b bs t d)"
proof -
  let ?s = "\<lparr>timePeriodA = a, timePeriodB = b, endTime = min a b, periods = []\<rparr>"
  obtain s' where s': "disjunct_loop C as bs ?s = Some s'" "times_inv C (min a b) [] [] s'"
    "\<forall>t d. sched_amount C (min a b) (periods s') t d = disjunct_pending C (min a b) as bs ?s t d"
    using disjunct_loop_correct [OF times_inv_start [of as bs a b ?s] assms(5)] assms by auto
  moreover have "in_time (min a b) (periods s')" using s'(2) assms(3,4) by (auto simp: times_inv_def in_time_def)
  ultimately show ?thesis by (auto simp: DisjunctPeriods_def Let_def times_inv_def disjunct_pending_def)
qed

subsection \<open>The minimum\<close>

lemma conjunct_emit_correct:
  assumes "times_inv C st as bs s" "endTime s \<le> n" "n < 2 ^ 62" "Coins_IsValid C c" "Coins_IsValid C (resultingAmount s)"
    "\<And>d. AmountOf C (resultingAmount s) d + AmountOf C c d < max_amount"
  shows "\<exists>r. conjunct_emit C n c s = Some (s\<lparr>periods := periods s @ [\<lparr>Length = n - endTime s, Amount = c\<rparr>],
      endTime := n, resultingAmount := r\<rparr>) \<and> Coins_IsValid C r \<and>
      (\<forall>d. AmountOf C r d = AmountOf C (resultingAmount s) d + AmountOf C c d)"
proof -
  obtain r where "Coins_Add C (resultingAmount s) c = Some r" "Coins_IsValid C r"
    "\<forall>d. AmountOf C r d = AmountOf C (resultingAmount s) d + AmountOf C c d"
    using Add [OF assms(5,4,6)] by blast
  then show ?thesis using times_inv_emit(1) [OF assms(1-4)] by (auto simp: conjunct_emit_def)
qed

lemma conjunct_step_correct:
  fixes s :: "'c conjunct"
  defines "m \<equiv> \<lambda>d. min (AmountOf C (totalAmountA s) d) (AmountOf C (totalAmountB s) d)"
  assumes inv: "times_inv C st as bs s" and n: "endTime s \<le> n" "n < 2 ^ 62"
    and val: "Coins_IsValid C (totalAmountA s)" "Coins_IsValid C (totalAmountB s)" "Coins_IsValid C (resultingAmount s)"
    and le: "\<And>d. AmountOf C (resultingAmount s) d \<le> m d" and small: "\<And>d. m d < max_amount"
  shows "\<exists>ps e r. conjunct_step C n s = Some (s\<lparr>periods := ps, endTime := e, resultingAmount := r\<rparr>) \<and>
    Coins_IsValid C r \<and> (\<forall>d. AmountOf C r d = m d) \<and>
    periods_ok C ps \<and> e = st + plen ps \<and> endTime s \<le> e \<and> e \<le> n \<and>
    (\<forall>t d. sched_amount C st ps t d = sched_amount C st (periods s) t d +
       (if n \<le> t then m d - AmountOf C (resultingAmount s) d else 0))"
proof -
  let ?m = "Coins_Min C (totalAmountA s) (totalAmountB s)"
  obtain c where c: "Coins_Sub C ?m (resultingAmount s) = Some c" "Coins_IsValid C c"
    "\<And>d. AmountOf C c d = m d - AmountOf C (resultingAmount s) d"
    using Sub [of ?m "resultingAmount s"] val le by (auto simp: m_def)
  have lte: "IsAllLTE C (resultingAmount s) ?m" using val le by (simp add: IsAllLTE_iff m_def)
  show ?thesis
  proof (cases "Coins_IsZero C c")
    case True
    then have "\<And>d. AmountOf C (resultingAmount s) d = m d" using IsZero_iff [OF c(2)] c(3) by simp
    moreover have "conjunct_step C n s = Some s" using True c(1) lte by (simp add: conjunct_step_def Let_def)
    ultimately show ?thesis
      using inv n val(3) by (intro exI [of _ "periods s"] exI [of _ "endTime s"] exI [of _ "resultingAmount s"])
        (simp add: times_inv_def)
  next
    case False
    obtain r where r: "conjunct_emit C n c s = Some (s\<lparr>periods := periods s @ [\<lparr>Length = n - endTime s, Amount = c\<rparr>],
        endTime := n, resultingAmount := r\<rparr>)" "Coins_IsValid C r"
      "\<forall>d. AmountOf C r d = AmountOf C (resultingAmount s) d + AmountOf C c d"
      using conjunct_emit_correct [OF inv n c(2) val(3)] small c(3) by auto
    have "conjunct_step C n s = conjunct_emit C n c s" using False c(1) lte by (simp add: conjunct_step_def Let_def)
    with r c(3) n(1) times_inv_emit(3-5) [OF inv n c(2)] show ?thesis
      by (intro exI [of _ "periods s @ [\<lparr>Length = n - endTime s, Amount = c\<rparr>]"] exI [of _ n] exI [of _ r]) simp
  qed
qed

text \<open>No event of a schedule is due before its first one.\<close>

lemma sched_before_first:
  "periods_ok C ps \<Longrightarrow> ps \<noteq> [] \<longrightarrow> t < s + Length (hd ps) \<Longrightarrow> sched_amount C s ps t d = 0"
  by (cases ps) (auto simp: sched_before)

definition conjunct_round where
  "conjunct_round st as bs s as' bs' s' \<longleftrightarrow>
     conjunct_loop C as bs s = conjunct_loop C as' bs' s' \<and> length as' + length bs' < length as + length bs \<and>
     times_inv C st as' bs' s' \<and> totals_inv C as' bs' s' \<and>
     (\<forall>t d. conjunct_pending C st as' bs' s' t d = conjunct_pending C st as bs s t d)"

text \<open>
  A step at time \<open>n\<close> that moves events into the totals, leaving \<open>as'\<close> and \<open>bs'\<close> to come:
  \<open>moves\<close> says that one schedule's events up to \<open>n\<close> are those moved.
\<close>

definition moves where
  "moves n a tm ps a' tm' ps' \<longleftrightarrow>
     Coins_IsValid C a' \<and> periods_ok C ps' \<and> in_time tm' ps' \<and> (ps' \<noteq> [] \<longrightarrow> n \<le> tm' + Length (hd ps')) \<and>
     (\<forall>d. AmountOf C a d \<le> AmountOf C a' d \<and> AmountOf C a' d + ptotal C ps' d = AmountOf C a d + ptotal C ps d) \<and>
     (\<forall>t d. (if n \<le> t then AmountOf C a' d + sched_amount C tm' ps' t d = AmountOf C a d + sched_amount C tm ps t d
        else sched_amount C tm ps t d = 0 \<and> sched_amount C tm' ps' t d = 0))"

lemma moves_stay:
  assumes "periods_ok C ps" "in_time tm ps" "ps \<noteq> [] \<longrightarrow> n \<le> tm + Length (hd ps)" "Coins_IsValid C a"
  shows "moves n a tm ps a tm ps"
  using assms sched_before_first [OF assms(1)] by (auto simp: moves_def)

lemma moves_event:
  assumes "periods_ok C (p # ps)" "in_time tm (p # ps)" "Coins_IsValid C a"
    "\<And>d. AmountOf C a d + ptotal C (p # ps) d < max_amount"
  shows "\<exists>a'. Coins_Add C a (Amount p) = Some a' \<and> moves (tm + Length p) a tm (p # ps) a' (tm + Length p) ps"
proof -
  have nn: "0 \<le> ptotal C ps d" for d using assms(1) by simp
  have small: "AmountOf C a d + AmountOf C (Amount p) d < max_amount" for d
    using assms(4) [of d] nn [of d] by simp
  have "Coins_IsValid C (Amount p)" using assms(1) by simp
  from Add [OF assms(3) this small] obtain a' where a': "Coins_Add C a (Amount p) = Some a'" "Coins_IsValid C a'"
    "\<And>d. AmountOf C a' d = AmountOf C a d + AmountOf C (Amount p) d" by blast
  have "0 \<le> Length (hd ps)" if "ps \<noteq> []" using assms(1) that by (cases ps) auto
  with a' in_time_Cons [OF assms(1,2)] assms(1) show ?thesis
    by (auto simp: moves_def sched_before)
qed

lemma conjunct_advance:
  assumes inv: "times_inv C st as bs s" and tot: "totals_inv C as bs s" and n: "endTime s \<le> n" "n < 2 ^ 62"
    and mA: "moves n (totalAmountA s) (timePeriodA s) as a tA as'"
    and mB: "moves n (totalAmountB s) (timePeriodB s) bs b tB bs'"
  shows "\<exists>s1. conjunct_step C n (s\<lparr>totalAmountA := a, totalAmountB := b\<rparr>) = Some s1 \<and>
    timePeriodA s1 = timePeriodA s \<and> timePeriodB s1 = timePeriodB s \<and>
    (let s' = s1\<lparr>timePeriodA := tA, timePeriodB := tB\<rparr> in times_inv C st as' bs' s' \<and> totals_inv C as' bs' s' \<and>
       (\<forall>t d. conjunct_pending C st as' bs' s' t d = conjunct_pending C st as bs s t d))"
proof -
  let ?s = "s\<lparr>totalAmountA := a, totalAmountB := b\<rparr>"
  let ?m = "\<lambda>d. min (AmountOf C (totalAmountA ?s) d) (AmountOf C (totalAmountB ?s) d)"
  have nnB: "0 \<le> ptotal C bs' d" for d using mB by (simp add: moves_def)
  have le: "AmountOf C (resultingAmount ?s) d \<le> ?m d" for d
    using tot mA mB by (auto simp: totals_inv_def moves_def min.coboundedI1 min.coboundedI2)
  have ltB: "AmountOf C b d + ptotal C bs' d < max_amount" for d
    using tot mB by (simp add: totals_inv_def moves_def)
  have small: "?m d < max_amount" for d using ltB [of d] nnB [of d] by (simp add: min.strict_coboundedI2)
  have inv': "times_inv C st as bs ?s" using inv by (auto simp: times_inv_def)
  have val: "Coins_IsValid C (totalAmountA ?s)" "Coins_IsValid C (totalAmountB ?s)" "Coins_IsValid C (resultingAmount ?s)"
    using tot mA mB by (simp_all add: totals_inv_def moves_def)
  obtain es e r where st: "conjunct_step C n ?s = Some (?s\<lparr>periods := es, endTime := e, resultingAmount := r\<rparr>)"
    "Coins_IsValid C r" "\<forall>d. AmountOf C r d = ?m d" "periods_ok C es" "e = st + plen es" "endTime ?s \<le> e" "e \<le> n"
    "\<forall>t d. sched_amount C st es t d = sched_amount C st (periods ?s) t d +
       (if n \<le> t then ?m d - AmountOf C (resultingAmount ?s) d else 0)"
    using conjunct_step_correct [OF inv' _ n(2) val le small] n(1) by auto
  let ?s' = "?s\<lparr>periods := es, endTime := e, resultingAmount := r, timePeriodA := tA, timePeriodB := tB\<rparr>"
  have "times_inv C st as' bs' ?s'" using inv st(4-7) mA mB n by (auto simp: times_inv_def moves_def)
  moreover have "totals_inv C as' bs' ?s'" using tot st(2,3) mA mB by (simp add: totals_inv_def moves_def)
  moreover have "conjunct_pending C st as' bs' ?s' t d = conjunct_pending C st as bs s t d" for t d
    using st(8) mA mB tot by (cases "n \<le> t") (simp_all add: conjunct_pending_def moves_def totals_inv_def)
  ultimately show ?thesis using st(1) by (simp add: Let_def)
qed

lemma moves_nextA:
  assumes "times_inv C st (p # ps) bs s" "totals_inv C (p # ps) bs s"
  shows "\<exists>a. Coins_Add C (totalAmountA s) (Amount p) = Some a \<and>
    moves (timePeriodA s + Length p) (totalAmountA s) (timePeriodA s) (p # ps) a (timePeriodA s + Length p) ps"
  using assms by (intro moves_event) (simp_all add: times_inv_def totals_inv_def)

lemma moves_nextB:
  assumes "times_inv C st as (q # qs) s" "totals_inv C as (q # qs) s"
  shows "\<exists>b. Coins_Add C (totalAmountB s) (Amount q) = Some b \<and>
    moves (timePeriodB s + Length q) (totalAmountB s) (timePeriodB s) (q # qs) b (timePeriodB s + Length q) qs"
  using assms by (intro moves_event) (simp_all add: times_inv_def totals_inv_def)

lemma keep_time:
  fixes s :: "'c conjunct"
  shows "timePeriodB s = x \<Longrightarrow> s\<lparr>timePeriodA := y, timePeriodB := x\<rparr> = s\<lparr>timePeriodA := y\<rparr>"
    "timePeriodA s = x \<Longrightarrow> s\<lparr>timePeriodA := x, timePeriodB := y\<rparr> = s\<lparr>timePeriodB := y\<rparr>"
  by auto

lemma conjunct_roundA:
  assumes inv: "times_inv C st (p # ps) bs s" "totals_inv C (p # ps) bs s"
    and nxt: "bs = [] \<or> (\<exists>q qs. bs = q # qs \<and> timePeriodA s + Length p < timePeriodB s + Length q)"
  shows "\<exists>s'. conjunct_round st (p # ps) bs s ps bs s'"
proof -
  let ?n = "timePeriodA s + Length p"
  obtain a where a: "Coins_Add C (totalAmountA s) (Amount p) = Some a"
    "moves ?n (totalAmountA s) (timePeriodA s) (p # ps) a ?n ps" using moves_nextA [OF inv] by blast
  have "moves ?n (totalAmountB s) (timePeriodB s) bs (totalAmountB s) (timePeriodB s) bs"
    using inv nxt by (intro moves_stay) (auto simp: times_inv_def totals_inv_def)
  from conjunct_advance [OF inv times_inv_nextA(1,2) [OF inv(1)] a(2) this] obtain s1 where s1:
    "conjunct_step C ?n (s\<lparr>totalAmountA := a\<rparr>) = Some s1" "timePeriodB s1 = timePeriodB s"
    "times_inv C st ps bs (s1\<lparr>timePeriodA := ?n\<rparr>)" "totals_inv C ps bs (s1\<lparr>timePeriodA := ?n\<rparr>)"
    "\<forall>t d. conjunct_pending C st ps bs (s1\<lparr>timePeriodA := ?n\<rparr>) t d = conjunct_pending C st (p # ps) bs s t d"
    by (auto simp: Let_def keep_time)
  moreover have "conjunct_consumeA C p ?n s = Some (s1\<lparr>timePeriodA := ?n\<rparr>)"
    using s1(1) a(1) by (simp add: conjunct_consumeA_def)
  then have "conjunct_loop C (p # ps) bs s = conjunct_loop C ps bs (s1\<lparr>timePeriodA := ?n\<rparr>)"
    using nxt inv(1) by (auto simp: times_inv_next)
  ultimately show ?thesis by (auto simp: conjunct_round_def)
qed

lemma conjunct_roundB:
  assumes inv: "times_inv C st as (q # qs) s" "totals_inv C as (q # qs) s"
    and nxt: "as = [] \<or> (\<exists>p ps. as = p # ps \<and> timePeriodB s + Length q < timePeriodA s + Length p)"
  shows "\<exists>s'. conjunct_round st as (q # qs) s as qs s'"
proof -
  let ?n = "timePeriodB s + Length q"
  obtain b where b: "Coins_Add C (totalAmountB s) (Amount q) = Some b"
    "moves ?n (totalAmountB s) (timePeriodB s) (q # qs) b ?n qs" using moves_nextB [OF inv] by blast
  have "moves ?n (totalAmountA s) (timePeriodA s) as (totalAmountA s) (timePeriodA s) as"
    using inv nxt by (intro moves_stay) (auto simp: times_inv_def totals_inv_def)
  from conjunct_advance [OF inv times_inv_nextB(1,2) [OF inv(1)] this b(2)] obtain s1 where s1:
    "conjunct_step C ?n (s\<lparr>totalAmountB := b\<rparr>) = Some s1" "timePeriodA s1 = timePeriodA s"
    "times_inv C st as qs (s1\<lparr>timePeriodB := ?n\<rparr>)" "totals_inv C as qs (s1\<lparr>timePeriodB := ?n\<rparr>)"
    "\<forall>t d. conjunct_pending C st as qs (s1\<lparr>timePeriodB := ?n\<rparr>) t d = conjunct_pending C st as (q # qs) s t d"
    by (auto simp: Let_def keep_time)
  moreover have "conjunct_consumeB C q ?n s = Some (s1\<lparr>timePeriodB := ?n\<rparr>)"
    using s1(1) b(1) by (simp add: conjunct_consumeB_def)
  then have "conjunct_loop C as (q # qs) s = conjunct_loop C as qs (s1\<lparr>timePeriodB := ?n\<rparr>)"
    using nxt inv(1) by (auto simp: times_inv_next)
  ultimately show ?thesis by (auto simp: conjunct_round_def)
qed

lemma conjunct_roundBoth:
  assumes inv: "times_inv C st (p # ps) (q # qs) s" "totals_inv C (p # ps) (q # qs) s"
    and nxt: "timePeriodA s + Length p = timePeriodB s + Length q"
  shows "\<exists>s'. conjunct_round st (p # ps) (q # qs) s ps qs s'"
proof -
  let ?n = "timePeriodA s + Length p"
  obtain a b where ab: "Coins_Add C (totalAmountA s) (Amount p) = Some a" "Coins_Add C (totalAmountB s) (Amount q) = Some b"
    "moves ?n (totalAmountA s) (timePeriodA s) (p # ps) a ?n ps" "moves ?n (totalAmountB s) (timePeriodB s) (q # qs) b ?n qs"
    using moves_nextA [OF inv] moves_nextB [OF inv] nxt by auto
  from conjunct_advance [OF inv times_inv_nextA(1,2) [OF inv(1)] ab(3,4)] obtain s1 where s1:
    "conjunct_step C ?n (s\<lparr>totalAmountA := a, totalAmountB := b\<rparr>) = Some s1"
    "times_inv C st ps qs (s1\<lparr>timePeriodA := ?n, timePeriodB := ?n\<rparr>)"
    "totals_inv C ps qs (s1\<lparr>timePeriodA := ?n, timePeriodB := ?n\<rparr>)"
    "\<forall>t d. conjunct_pending C st ps qs (s1\<lparr>timePeriodA := ?n, timePeriodB := ?n\<rparr>) t d =
       conjunct_pending C st (p # ps) (q # qs) s t d"
    by (auto simp: Let_def)
  moreover have "conjunct_consumeBoth C p q ?n s = Some (s1\<lparr>timePeriodA := ?n, timePeriodB := ?n\<rparr>)"
    using s1(1) ab(1,2) by (simp add: conjunct_consumeBoth_def)
  then have "conjunct_loop C (p # ps) (q # qs) s = conjunct_loop C ps qs (s1\<lparr>timePeriodA := ?n, timePeriodB := ?n\<rparr>)"
    using nxt times_inv_next(1,2) [OF inv(1)] by (simp add: Let_def)
  ultimately show ?thesis by (auto simp: conjunct_round_def)
qed

lemma conjunct_loop_correct:
  "times_inv C st as bs s \<Longrightarrow> totals_inv C as bs s \<Longrightarrow>
    \<exists>s'. conjunct_loop C as bs s = Some s' \<and> times_inv C st [] [] s' \<and>
      (\<forall>t d. sched_amount C st (periods s') t d = conjunct_pending C st as bs s t d)"
proof (induction "length as + length bs" arbitrary: as bs s rule: less_induct)
  case less
  show ?case
  proof (cases "as = [] \<and> bs = []")
    case True
    then show ?thesis using less.prems by (simp add: conjunct_pending_def)
  next
    case False
    then have "\<exists>as' bs' s'. conjunct_round st as bs s as' bs' s'"
      using less.prems conjunct_roundA conjunct_roundB conjunct_roundBoth
      by (cases as; cases bs) (metis linorder_neqE)+
    with less.hyps show ?thesis by (fastforce simp: conjunct_round_def)
  qed
qed

lemma ConjunctPeriods_correct:
  assumes "periods_ok C as" "periods_ok C bs" "in_time a as" "in_time b bs"
    "\<And>d. ptotal C as d < max_amount" "\<And>d. ptotal C bs d < max_amount"
  shows "\<exists>ps. ConjunctPeriods C a b as bs = Some (min a b, min a b + plen ps, ps) \<and>
    periods_ok C ps \<and> in_time (min a b) ps \<and>
    (\<forall>t d. sched_amount C (min a b) ps t d = min (sched_amount C a as t d) (sched_amount C b bs t d))"
proof -
  let ?s = "\<lparr>timePeriodA = a, timePeriodB = b, endTime = min a b, periods = [],
    resultingAmount = NoCoins C, totalAmountA = NoCoins C, totalAmountB = NoCoins C\<rparr>"
  have "totals_inv C as bs ?s" using assms(5,6) by (simp add: totals_inv_def)
  with conjunct_loop_correct times_inv_start [of as bs a b ?s] assms obtain s' where
    s': "conjunct_loop C as bs ?s = Some s'" "times_inv C (min a b) [] [] s'"
    "\<forall>t d. sched_amount C (min a b) (periods s') t d = conjunct_pending C (min a b) as bs ?s t d"
    by (metis conjunct.select_convs merge.select_convs)
  moreover have "in_time (min a b) (periods s')" using s'(2) assms(3,4) by (auto simp: times_inv_def in_time_def)
  ultimately show ?thesis by (auto simp: ConjunctPeriods_def Let_def times_inv_def conjunct_pending_def)
qed

end

end
