(* ===== verification/Vesting_Account.thy ===== *)
theory Vesting_Account
  imports Vesting_Schedule_Laws
begin

text \<open>
  The clawback vesting account, \<open>x/vesting/types/clawback_vesting_account.go\<close>: an account with a
  lockup and a vesting schedule for the same coins. Coins are free once they are both unlocked
  and vested; a clawback takes what is not vested. The SDK's \<open>BaseVestingAccount\<close> is embedded:
  its fields are a record, its methods the record \<open>base_ops\<close>. Times are Unix seconds, the
  resolution the code computes with.
\<close>

subsection \<open>Accounts\<close>

record ('b, 'c) BaseVestingAccount =
  BaseAccount :: 'b
  OriginalVesting :: 'c
  DelegatedFree :: 'c
  DelegatedVesting :: 'c
  EndTime :: int

record ('b, 'c) ClawbackVestingAccount = "('b, 'c) BaseVestingAccount" +
  FunderAddress :: string
  StartTime :: int
  LockupPeriods :: "'c Periods"
  VestingPeriods :: "'c Periods"

record ('b, 'c) base_ops =
  LockedCoinsFromVesting :: "('b, 'c) BaseVestingAccount \<Rightarrow> 'c \<Rightarrow> 'c option"
  base_TrackDelegation :: "('b, 'c) BaseVestingAccount \<Rightarrow> 'c \<Rightarrow> 'c \<Rightarrow> 'c \<Rightarrow> ('b, 'c) BaseVestingAccount option"
  base_Validate :: "('b, 'c) BaseVestingAccount \<Rightarrow> (string, unit) outcome"

text \<open>The account with another embedded part.\<close>

definition with_base ::
  "('b, 'c) ClawbackVestingAccount \<Rightarrow> ('b, 'c) BaseVestingAccount \<Rightarrow> ('b, 'c) ClawbackVestingAccount" where
  "with_base va bva =
     va\<lparr>BaseAccount := BaseAccount bva, OriginalVesting := OriginalVesting bva,
        DelegatedFree := DelegatedFree bva, DelegatedVesting := DelegatedVesting bva, EndTime := EndTime bva\<rparr>"

definition base_of :: "('b, 'c) ClawbackVestingAccount \<Rightarrow> ('b, 'c) BaseVestingAccount" where
  "base_of va = BaseVestingAccount.truncate va"

definition NewClawbackVestingAccount ::
  "'c coin_ops \<Rightarrow> 'b \<Rightarrow> string \<Rightarrow> 'c \<Rightarrow> int \<Rightarrow> 'c Periods \<Rightarrow> 'c Periods \<Rightarrow> ('b, 'c) ClawbackVestingAccount" where
  "NewClawbackVestingAccount C baseAcc funder originalVesting startTime lockupPeriods vestingPeriods =
     (let (_, endTime, lp, vp) = AlignSchedules C startTime startTime lockupPeriods vestingPeriods
      in \<lparr>BaseAccount = baseAcc, OriginalVesting = originalVesting, DelegatedFree = NoCoins C,
          DelegatedVesting = NoCoins C, EndTime = endTime, FunderAddress = funder, StartTime = startTime,
          LockupPeriods = lp, VestingPeriods = vp\<rparr>)"

definition GetStartTime :: "('b, 'c) ClawbackVestingAccount \<Rightarrow> int" where
  "GetStartTime va = StartTime va"

definition GetVestingPeriods :: "('b, 'c) ClawbackVestingAccount \<Rightarrow> 'c Periods" where
  "GetVestingPeriods va = VestingPeriods va"

subsection \<open>What is unlocked, vested and free at a time\<close>

definition GetUnlockedOnly :: "'c coin_ops \<Rightarrow> ('b, 'c) ClawbackVestingAccount \<Rightarrow> int \<Rightarrow> 'c option" where
  "GetUnlockedOnly C va blockTime =
     ReadSchedule C (GetStartTime va) (EndTime va) (LockupPeriods va) (OriginalVesting va) blockTime"

definition GetLockedOnly :: "'c coin_ops \<Rightarrow> ('b, 'c) ClawbackVestingAccount \<Rightarrow> int \<Rightarrow> 'c option" where
  "GetLockedOnly C va blockTime =
     Option.bind (GetUnlockedOnly C va blockTime) (Coins_Sub C (OriginalVesting va))"

definition GetVestedOnly :: "'c coin_ops \<Rightarrow> ('b, 'c) ClawbackVestingAccount \<Rightarrow> int \<Rightarrow> 'c option" where
  "GetVestedOnly C va blockTime =
     ReadSchedule C (GetStartTime va) (EndTime va) (VestingPeriods va) (OriginalVesting va) blockTime"

definition GetUnvestedOnly :: "'c coin_ops \<Rightarrow> ('b, 'c) ClawbackVestingAccount \<Rightarrow> int \<Rightarrow> 'c option" where
  "GetUnvestedOnly C va blockTime =
     Option.bind (GetVestedOnly C va blockTime) (Coins_Sub C (OriginalVesting va))"

definition GetPassedPeriodCount :: "('b, 'c) ClawbackVestingAccount \<Rightarrow> int \<Rightarrow> nat" where
  "GetPassedPeriodCount va blockTime =
     ReadPastPeriodCount (GetStartTime va) (EndTime va) (VestingPeriods va) blockTime"

definition GetVestedCoins :: "'c coin_ops \<Rightarrow> ('b, 'c) ClawbackVestingAccount \<Rightarrow> int \<Rightarrow> 'c option" where
  "GetVestedCoins C va blockTime = do {
     unlocked \<leftarrow> GetUnlockedOnly C va blockTime;
     vested \<leftarrow> GetVestedOnly C va blockTime;
     let coins = Coins_Min C unlocked vested;
     Some (if Coins_IsZero C coins then NoCoins C else coins) }"

definition GetVestingCoins :: "'c coin_ops \<Rightarrow> ('b, 'c) ClawbackVestingAccount \<Rightarrow> int \<Rightarrow> 'c option" where
  "GetVestingCoins C va blockTime =
     Option.bind (GetVestedCoins C va blockTime) (Coins_Sub C (OriginalVesting va))"

definition LockedCoins ::
  "'c coin_ops \<Rightarrow> ('b, 'c) base_ops \<Rightarrow> ('b, 'c) ClawbackVestingAccount \<Rightarrow> int \<Rightarrow> 'c option" where
  "LockedCoins C B va blockTime =
     Option.bind (GetVestingCoins C va blockTime) (LockedCoinsFromVesting B (base_of va))"

definition TrackDelegation ::
  "'c coin_ops \<Rightarrow> ('b, 'c) base_ops \<Rightarrow> ('b, 'c) ClawbackVestingAccount \<Rightarrow> int \<Rightarrow> 'c \<Rightarrow> 'c \<Rightarrow>
     ('b, 'c) ClawbackVestingAccount option" where
  "TrackDelegation C B va blockTime balance amount = do {
     vesting \<leftarrow> GetVestingCoins C va blockTime;
     bva \<leftarrow> base_TrackDelegation B (base_of va) balance vesting amount;
     Some (with_base va bva) }"

definition HasLockedCoins :: "'c coin_ops \<Rightarrow> ('b, 'c) ClawbackVestingAccount \<Rightarrow> int \<Rightarrow> bool option" where
  "HasLockedCoins C va blockTime = map_option (\<lambda>c. \<not> Coins_IsZero C c) (GetLockedOnly C va blockTime)"

subsection \<open>Validation\<close>

text \<open>The end and the coins of a schedule, as the loops of \<open>Validate\<close> add them up.\<close>

fun schedule_sum :: "'c coin_ops \<Rightarrow> 'c Periods \<Rightarrow> int \<times> 'c \<Rightarrow> (int \<times> 'c) option" where
  "schedule_sum C [] r = Some r"
| "schedule_sum C (p # ps) (e, c) =
     Option.bind (Coins_Add C c (Amount p)) (\<lambda>c'. schedule_sum C ps (wrap64 (e + Length p), c'))"

definition va_Validate ::
  "'c coin_ops \<Rightarrow> ('b, 'c) base_ops \<Rightarrow> ('b, 'c) ClawbackVestingAccount \<Rightarrow> (string, unit) outcome" where
  "va_Validate C B va =
     (if GetStartTime va \<ge> EndTime va then Err ''vesting start-time must be before end-time''
      else case schedule_sum C (LockupPeriods va) (GetStartTime va, NoCoins C) of
        None \<Rightarrow> Panic
      | Some (lockupEnd, lockupCoins) \<Rightarrow>
          if lockupEnd > EndTime va then Err ''lockup schedule extends beyond account end time''
          else if \<not> CoinEq C lockupCoins (OriginalVesting va)
          then Err ''original vesting coins does not match the sum of all coins in lockup periods''
          else case schedule_sum C (VestingPeriods va) (GetStartTime va, NoCoins C) of
            None \<Rightarrow> Panic
          | Some (vestingEnd, vestingCoins) \<Rightarrow>
              if vestingEnd > EndTime va then Err ''vesting schedule exteds beyond account end time''
              else if \<not> CoinEq C vestingCoins (OriginalVesting va)
              then Err ''original vesting coins does not match the sum of all coins in vesting periods''
              else base_Validate B (base_of va))"

subsection \<open>Clawback\<close>

definition ComputeClawback ::
  "'c coin_ops \<Rightarrow> ('b, 'c) ClawbackVestingAccount \<Rightarrow> int \<Rightarrow> (('b, 'c) ClawbackVestingAccount \<times> 'c) option" where
  "ComputeClawback C va clawbackTime = do {
     totalVested \<leftarrow> GetVestedOnly C va clawbackTime;
     totalUnvested \<leftarrow> GetUnvestedOnly C va clawbackTime;
     let newVestingPeriods = take (GetPassedPeriodCount va clawbackTime) (VestingPeriods va);
     let newVestingEnd = wrap64 (GetStartTime va + TotalLength C newVestingPeriods);
     let capPeriods = [\<lparr>Length = 0, Amount = totalVested\<rparr>];
     (_, newLockingEnd, newLockupPeriods) \<leftarrow>
       ConjunctPeriods C (GetStartTime va) (GetStartTime va) (LockupPeriods va) capPeriods;
     Some (va\<lparr>OriginalVesting := totalVested, EndTime := Max64 newVestingEnd newLockingEnd,
            LockupPeriods := newLockupPeriods, VestingPeriods := newVestingPeriods\<rparr>, totalUnvested) }"

subsection \<open>Well-formed accounts\<close>

text \<open>
  Both schedules start with the account, end by its end time and add up to the original vesting.
\<close>

definition va_ok :: "'c coin_ops \<Rightarrow> ('b, 'c) ClawbackVestingAccount \<Rightarrow> bool" where
  "va_ok C va \<longleftrightarrow>
     periods_ok C (LockupPeriods va) \<and> periods_ok C (VestingPeriods va) \<and>
     in_time (StartTime va) (LockupPeriods va) \<and> in_time (StartTime va) (VestingPeriods va) \<and>
     StartTime va + plen (LockupPeriods va) \<le> EndTime va \<and> StartTime va + plen (VestingPeriods va) \<le> EndTime va \<and>
     Coins_IsValid C (OriginalVesting va) \<and>
     (\<forall>d. ptotal C (LockupPeriods va) d = AmountOf C (OriginalVesting va) d \<and>
          ptotal C (VestingPeriods va) d = AmountOf C (OriginalVesting va) d \<and>
          AmountOf C (OriginalVesting va) d < max_amount)"

text \<open>The amounts unlocked and vested at a time, by the step functions of the schedules.\<close>

definition unlocked_at :: "'c coin_ops \<Rightarrow> ('b, 'c) ClawbackVestingAccount \<Rightarrow> int \<Rightarrow> string \<Rightarrow> int" where
  "unlocked_at C va t d = (if t \<le> StartTime va then 0 else sched_amount C (StartTime va) (LockupPeriods va) t d)"

definition vested_at :: "'c coin_ops \<Rightarrow> ('b, 'c) ClawbackVestingAccount \<Rightarrow> int \<Rightarrow> string \<Rightarrow> int" where
  "vested_at C va t d = (if t \<le> StartTime va then 0 else sched_amount C (StartTime va) (VestingPeriods va) t d)"

context coin_laws
begin

lemma GetUnlockedOnly_amount:
  assumes "va_ok C va"
  shows "\<exists>c. GetUnlockedOnly C va t = Some c \<and> Coins_IsValid C c \<and> (\<forall>d. AmountOf C c d = unlocked_at C va t d)"
  unfolding GetUnlockedOnly_def GetStartTime_def unlocked_at_def
  by (rule ReadSchedule_amount) (use assms in \<open>simp_all add: va_ok_def\<close>)

lemma GetVestedOnly_amount:
  assumes "va_ok C va"
  shows "\<exists>c. GetVestedOnly C va t = Some c \<and> Coins_IsValid C c \<and> (\<forall>d. AmountOf C c d = vested_at C va t d)"
  unfolding GetVestedOnly_def GetStartTime_def vested_at_def
  by (rule ReadSchedule_amount) (use assms in \<open>simp_all add: va_ok_def\<close>)

lemma amounts_at_bounds:
  assumes "va_ok C va"
  shows "0 \<le> unlocked_at C va t d" "unlocked_at C va t d \<le> AmountOf C (OriginalVesting va) d"
    "0 \<le> vested_at C va t d" "vested_at C va t d \<le> AmountOf C (OriginalVesting va) d"
    "unlocked_at C va t d < max_amount" "vested_at C va t d < max_amount"
  using assms sched_nonneg [of "LockupPeriods va" "StartTime va" t d] sched_nonneg [of "VestingPeriods va" "StartTime va" t d]
    sched_le_total [of "LockupPeriods va" "StartTime va" t d] sched_le_total [of "VestingPeriods va" "StartTime va" t d]
  by (auto simp: va_ok_def unlocked_at_def vested_at_def intro: order_le_less_trans)

lemma amounts_at_mono:
  assumes "va_ok C va" "t \<le> u"
  shows "unlocked_at C va t d \<le> unlocked_at C va u d" "vested_at C va t d \<le> vested_at C va u d"
  using assms sched_mono sched_nonneg by (auto simp: va_ok_def unlocked_at_def vested_at_def)

lemma amounts_at_end:
  assumes "va_ok C va" "EndTime va \<le> t" "StartTime va < t"
  shows "unlocked_at C va t d = AmountOf C (OriginalVesting va) d" "vested_at C va t d = AmountOf C (OriginalVesting va) d"
  using assms by (auto simp: va_ok_def unlocked_at_def vested_at_def sched_after)

lemma GetUnvestedOnly_amount:
  assumes "va_ok C va"
  shows "\<exists>c. GetUnvestedOnly C va t = Some c \<and> Coins_IsValid C c \<and>
    (\<forall>d. AmountOf C c d = AmountOf C (OriginalVesting va) d - vested_at C va t d)"
proof -
  obtain c where "GetVestedOnly C va t = Some c" "Coins_IsValid C c" "\<forall>d. AmountOf C c d = vested_at C va t d"
    using GetVestedOnly_amount [OF assms] by blast
  with Sub [of "OriginalVesting va" c] amounts_at_bounds(4) [OF assms] assms show ?thesis
    by (auto simp: GetUnvestedOnly_def va_ok_def)
qed

lemma GetVestedCoins_amount:
  assumes "va_ok C va"
  shows "\<exists>c. GetVestedCoins C va t = Some c \<and> Coins_IsValid C c \<and>
    (\<forall>d. AmountOf C c d = min (unlocked_at C va t d) (vested_at C va t d))"
proof -
  obtain u v where "GetUnlockedOnly C va t = Some u" "Coins_IsValid C u" "\<forall>d. AmountOf C u d = unlocked_at C va t d"
    "GetVestedOnly C va t = Some v" "Coins_IsValid C v" "\<forall>d. AmountOf C v d = vested_at C va t d"
    using GetUnlockedOnly_amount [OF assms] GetVestedOnly_amount [OF assms] by metis
  then show ?thesis
    using IsZero_iff [of "Coins_Min C u v"] by (auto simp: GetVestedCoins_def)
qed

lemma GetVestingCoins_amount:
  assumes "va_ok C va"
  shows "\<exists>c. GetVestingCoins C va t = Some c \<and> Coins_IsValid C c \<and>
    (\<forall>d. AmountOf C c d = AmountOf C (OriginalVesting va) d - min (unlocked_at C va t d) (vested_at C va t d))"
proof -
  obtain c where "GetVestedCoins C va t = Some c" "Coins_IsValid C c"
    "\<forall>d. AmountOf C c d = min (unlocked_at C va t d) (vested_at C va t d)"
    using GetVestedCoins_amount [OF assms] by blast
  with Sub [of "OriginalVesting va" c] amounts_at_bounds(4) [OF assms] assms show ?thesis
    by (auto simp: GetVestingCoins_def va_ok_def min.coboundedI2)
qed

subsection \<open>Validation is well-formedness\<close>

lemma schedule_sum_amount:
  "periods_ok C ps \<Longrightarrow> in_time e ps \<Longrightarrow> Coins_IsValid C c \<Longrightarrow> (\<And>d. AmountOf C c d + ptotal C ps d < max_amount) \<Longrightarrow>
    \<exists>c'. schedule_sum C ps (e, c) = Some (e + plen ps, c') \<and> Coins_IsValid C c' \<and>
      (\<forall>d. AmountOf C c' d = AmountOf C c d + ptotal C ps d)"
proof (induction ps arbitrary: e c)
  case (Cons p ps)
  have nn: "0 \<le> ptotal C ps d" for d using Cons.prems(1) by simp
  have small: "AmountOf C c d + AmountOf C (Amount p) d < max_amount" for d
    using Cons.prems(4) [of d] nn [of d] by simp
  have "Coins_IsValid C (Amount p)" using Cons.prems(1) by simp
  from Add [OF Cons.prems(3) this small] obtain b where b: "Coins_Add C c (Amount p) = Some b" "Coins_IsValid C b"
    "\<And>d. AmountOf C b d = AmountOf C c d + AmountOf C (Amount p) d" by blast
  have "AmountOf C b d + ptotal C ps d < max_amount" for d
    using Cons.prems(4) [of d] b(3) by (simp add: add.assoc)
  with Cons.IH [OF _ in_time_Cons [OF Cons.prems(1,2)] b(2)] b Cons.prems(1) show ?case
    by (simp add: in_time_next [OF Cons.prems(1,2)] add.assoc)
qed simp

lemma CoinEq_iff:
  "Coins_IsValid C a \<Longrightarrow> Coins_IsValid C b \<Longrightarrow> CoinEq C a b \<longleftrightarrow> (\<forall>d. AmountOf C a d = AmountOf C b d)"
  by (auto simp: CoinEq_def IsAllLTE_iff intro: antisym)

lemma va_Validate_iff:
  assumes "periods_ok C (LockupPeriods va)" "periods_ok C (VestingPeriods va)"
    "in_time (StartTime va) (LockupPeriods va)" "in_time (StartTime va) (VestingPeriods va)"
    "Coins_IsValid C (OriginalVesting va)" "\<And>d. AmountOf C (OriginalVesting va) d < max_amount"
    "\<And>d. ptotal C (LockupPeriods va) d < max_amount" "\<And>d. ptotal C (VestingPeriods va) d < max_amount"
  shows "va_Validate C B va = Ok () \<longleftrightarrow>
    StartTime va < EndTime va \<and> va_ok C va \<and> base_Validate B (base_of va) = Ok ()"
proof -
  obtain l v where l: "schedule_sum C (LockupPeriods va) (StartTime va, NoCoins C) =
      Some (StartTime va + plen (LockupPeriods va), l)" "Coins_IsValid C l" "\<forall>d. AmountOf C l d = ptotal C (LockupPeriods va) d"
    and v: "schedule_sum C (VestingPeriods va) (StartTime va, NoCoins C) =
      Some (StartTime va + plen (VestingPeriods va), v)" "Coins_IsValid C v" "\<forall>d. AmountOf C v d = ptotal C (VestingPeriods va) d"
    using schedule_sum_amount [OF assms(1,3) valid_NoCoins] schedule_sum_amount [OF assms(2,4) valid_NoCoins] assms(7,8)
    by auto
  have "CoinEq C l (OriginalVesting va) \<longleftrightarrow> (\<forall>d. ptotal C (LockupPeriods va) d = AmountOf C (OriginalVesting va) d)"
    "CoinEq C v (OriginalVesting va) \<longleftrightarrow> (\<forall>d. ptotal C (VestingPeriods va) d = AmountOf C (OriginalVesting va) d)"
    using CoinEq_iff [OF l(2) assms(5)] CoinEq_iff [OF v(2) assms(5)] l(3) v(3) by simp_all
  then show ?thesis
    using l(1) v(1) assms(1-6) by (auto simp: va_Validate_def GetStartTime_def va_ok_def not_le not_less)
qed

subsection \<open>Clawback\<close>

lemma plen_take_le: "periods_ok C ps \<Longrightarrow> plen (take n ps) \<le> plen ps"
  using plen_simps(3) [of "take n ps" "drop n ps"] plen_nonneg [of C "drop n ps"] periods_ok_simps(3) [of C "take n ps" "drop n ps"]
  by simp

text \<open>The periods that a clawback keeps: those whose amounts have vested, all ended by then.\<close>

lemma passed_periods:
  fixes t :: int
  assumes "va_ok C va"
  defines "ps \<equiv> take (GetPassedPeriodCount va t) (VestingPeriods va)"
  shows "periods_ok C ps" "in_time (StartTime va) ps" "ptotal C ps d = vested_at C va t d"
    "StartTime va + plen ps \<le> max (StartTime va) t"
proof -
  have ok: "periods_ok C (VestingPeriods va)" "in_time (StartTime va) (VestingPeriods va)"
    using assms by (simp_all add: va_ok_def)
  show "periods_ok C ps" using ok by (simp add: ps_def periods_ok_take)
  show "in_time (StartTime va) ps"
    using ok plen_take_le [OF ok(1), of "GetPassedPeriodCount va t"] by (simp add: ps_def in_time_def)
  have loop: "ptotal C (take (count_loop t (VestingPeriods va) (StartTime va) 0) (VestingPeriods va)) d =
      sched_amount C (StartTime va) (VestingPeriods va) t d"
    "StartTime va + plen (take (count_loop t (VestingPeriods va) (StartTime va) 0) (VestingPeriods va)) \<le> max (StartTime va) t"
    using count_loop_take [OF ok, of 0 t] by simp_all
  show "ptotal C ps d = vested_at C va t d" "StartTime va + plen ps \<le> max (StartTime va) t"
    using loop assms(1) amounts_at_end(2) [OF assms(1), of t d]
    by (auto simp: ps_def GetPassedPeriodCount_def ReadPastPeriodCount_def GetStartTime_def vested_at_def va_ok_def)
qed

lemma sched_total: "periods_ok C ps \<Longrightarrow> s + plen ps \<le> t \<Longrightarrow> ptotal C ps d = sched_amount C s ps t d"
  by (simp add: sched_after)

lemma ComputeClawback_correct:
  assumes ok: "va_ok C va"
  obtains va' c where "ComputeClawback C va t = Some (va', c)" "va_ok C va'" "Coins_IsValid C c"
    "\<And>d. AmountOf C c d = AmountOf C (OriginalVesting va) d - vested_at C va t d"
    "\<And>d. AmountOf C (OriginalVesting va') d = vested_at C va t d"
    "\<And>u d. unlocked_at C va' u d = min (unlocked_at C va u d) (vested_at C va t d)"
    "VestingPeriods va' = take (GetPassedPeriodCount va t) (VestingPeriods va)"
    "StartTime va' = StartTime va" "BaseAccount va' = BaseAccount va"
proof -
  let ?s = "StartTime va" and ?vp = "take (GetPassedPeriodCount va t) (VestingPeriods va)"
  note pp = passed_periods [OF ok, of t]
  obtain v where v: "GetVestedOnly C va t = Some v" "Coins_IsValid C v" "\<And>d. AmountOf C v d = vested_at C va t d"
    using GetVestedOnly_amount [OF ok] by blast
  obtain c where c: "GetUnvestedOnly C va t = Some c" "Coins_IsValid C c"
    "\<And>d. AmountOf C c d = AmountOf C (OriginalVesting va) d - vested_at C va t d"
    using GetUnvestedOnly_amount [OF ok] by blast
  let ?cap = "[\<lparr>Length = 0, Amount = v\<rparr>]"
  have lk: "periods_ok C (LockupPeriods va)" "in_time ?s (LockupPeriods va)" "ptotal C (LockupPeriods va) d < max_amount"
    "ptotal C (LockupPeriods va) d = AmountOf C (OriginalVesting va) d" for d using ok by (simp_all add: va_ok_def)
  have cap: "periods_ok C ?cap" "in_time ?s ?cap" "ptotal C ?cap d < max_amount" for d
    using v amounts_at_bounds(6) [OF ok] pp(2) lk(2) plen_nonneg [OF lk(1)] by (simp_all add: in_time_def)
  obtain lp where lp: "ConjunctPeriods C ?s ?s (LockupPeriods va) ?cap = Some (?s, ?s + plen lp, lp)"
    "periods_ok C lp" "in_time ?s lp"
    "\<And>u d. sched_amount C ?s lp u d = min (sched_amount C ?s (LockupPeriods va) u d) (sched_amount C ?s ?cap u d)"
    using ConjunctPeriods_correct [OF lk(1) cap(1) lk(2) cap(2) lk(3) cap(3)] by auto
  have tot: "ptotal C lp d = vested_at C va t d" for d
  proof -
    let ?T = "max (?s + plen lp) (?s + plen (LockupPeriods va))"
    have "ptotal C lp d = min (ptotal C (LockupPeriods va) d) (AmountOf C v d)"
      using lp(4) [of ?T d] sched_after [OF lp(2), of ?s ?T d] sched_after [OF lk(1), of ?s ?T d] plen_nonneg [OF lp(2)] by simp
    then show ?thesis using v(3) lk(4) amounts_at_bounds(4) [OF ok] by (simp add: min_absorb2)
  qed
  have "TotalLength C ?vp = plen ?vp" using pp(1,2) by (intro TotalLength) (simp_all add: in_time_def)
  then have len: "wrap64 (?s + TotalLength C ?vp) = ?s + plen ?vp"
    using pp(2) plen_nonneg [OF pp(1)] by (simp add: in_time_def)
  let ?va = "va\<lparr>OriginalVesting := v, EndTime := max (?s + plen ?vp) (?s + plen lp), LockupPeriods := lp, VestingPeriods := ?vp\<rparr>"
  show ?thesis
  proof (rule that)
    show "ComputeClawback C va t = Some (?va, c)"
      using v(1) c(1) lp(1) len by (simp add: ComputeClawback_def GetStartTime_def Let_def)
    show "va_ok C ?va" using pp lp(2,3) v tot amounts_at_bounds(6) [OF ok] by (simp add: va_ok_def)
    show "unlocked_at C ?va u d = min (unlocked_at C va u d) (vested_at C va t d)" for u d
      using lp(4) v(3) amounts_at_bounds(3) [OF ok] by (simp add: unlocked_at_def)
  qed (use c v(3) in simp_all)
qed

end

end
