(* ===== verification/Ante_Evm.thy ===== *)
theory Ante_Evm
  imports Evm_Fees Vesting_Account
begin

text \<open>
  The ante handler of Ethereum transactions, \<open>app/ante/evm\<close>: the chain of decorators that checks a
  transaction before it runs, deducts its fee and raises the senders' sequences. A decorator
  gets the context, the transaction, whether the run is a simulation, and the handler of the
  decorators behind it; where the code returns an error the context is thrown away by the
  caller, so the error alone is the result. The transaction is passed along because the
  signature check writes the senders into its messages. Keepers of the Cosmos SDK, signature
  recovery and the EVM's transfer check are parameters, the record \<open>ante_env\<close>.
\<close>

subsection \<open>Transactions and the context\<close>

text \<open>
  A message of a transaction. \<open>MsgExec\<close> holds packed messages, \<^const>\<open>None\<close> where one does not unpack;
  \<open>MsgGrant\<close> the type URL its authorization is for; \<open>MsgDelegate\<close> its signers and amount; any
  other message is its type URL.
\<close>

datatype Msg =
  EthMsg MsgEthereumTx
| MsgExec "Msg option list"
| MsgGrant "string option"
| MsgDelegate "bytes list" int
| OtherMsg string

text \<open>
  The interfaces a transaction may implement are options: \<open>FeeTx\<close>, the protobuf transaction, the
  extension options. Of lists that must be empty or have length one only the length is kept. An
  extension option has a type URL and, for \<open>ExtensionOptionDynamicFeeTx\<close>, the maximal priority price.
\<close>

record FeeTx =
  FeePayer :: bytes
  FeeGranter :: "bytes option"
  GetFee :: "coins option"
  feeTx_GetGas :: uint64

record ProtoTx =
  Memo :: string
  TimeoutHeight :: uint64
  NonCriticalExtensionOptions :: nat
  ExtensionOptions :: nat
  SignerInfos :: nat
  Payer :: string
  Granter :: string
  FeeAmount :: coins
  FeeGasLimit :: uint64
  Signatures :: nat

record Tx =
  GetMsgs :: "Msg list"
  isGasTx :: bool
  asFeeTx :: "FeeTx option"
  asProtoTx :: "ProtoTx option"
  asExtensionOptions :: "(string \<times> int option) list option"

datatype AnteEvent = TxFee coins | TxFeeFrom coins bytes | EthereumTx string uint64

record ('r, 'd) AnteCtx =
  evmCtx :: "'r Ctx"
  fmCtx :: "'d fm_Ctx"
  IsCheckTx :: bool
  IsReCheckTx :: bool
  Priority :: int
  MinGasPrices :: "(string \<times> 'd) list"
  ante_BlockTime :: int
  Events :: "AnteEvent list"
  wasmStore :: kvstore
  TXCounter :: "32 word option"

type_synonym ('r, 'd) AnteHandler =
  "('r, 'd) AnteCtx \<Rightarrow> Tx \<Rightarrow> bool \<Rightarrow> (string, ('r, 'd) AnteCtx \<times> Tx) outcome"

type_synonym ('r, 'd) AnteDecorator =
  "('r, 'd) AnteCtx \<Rightarrow> Tx \<Rightarrow> bool \<Rightarrow> ('r, 'd) AnteHandler \<Rightarrow> (string, ('r, 'd) AnteCtx \<times> Tx) outcome"

text \<open>
  What the decorators call. \<open>aSender\<close> recovers the signer of a transaction under a chain
  configuration and height, \<open>aAsClawback\<close> is the type assertion to a clawback vesting account,
  \<open>aDelegations\<close> lists the validators an address delegates to, \<open>aWithdraw\<close> is
  \<open>WithdrawDelegationRewards\<close>, \<open>aDeductFees\<close> the SDK's \<open>authante.DeductFees\<close>, \<open>aMaxGasWanted\<close> the node's
  cap on the gas counted for a transaction in its mempool.
\<close>

record ('b, 'r, 'cc, 'd, 'vb) ante_env =
  achain :: "('b, 'r, 'cc, 'd) chain"
  afm :: "'d fm_sdk"
  acoins :: "coins coin_ops"
  abase :: "('vb, coins) base_ops"
  aIsEqual :: "coins \<Rightarrow> coins \<Rightarrow> bool"
  aDecIsZero :: "'d \<Rightarrow> bool"
  aNewDecFromBigInt :: "int \<Rightarrow> 'd"
  aTxValidateBasic :: "Tx \<Rightarrow> (string, unit) outcome"
  aSender :: "'cc \<Rightarrow> int \<Rightarrow> ethTx \<Rightarrow> (string, Address) outcome"
  aProtected :: "ethTx \<Rightarrow> bool"
  aCanTransfer :: "'r Ctx StateDB \<Rightarrow> Address \<Rightarrow> int \<Rightarrow> bool"
  aAsClawback :: "'b AccountI \<Rightarrow> ('vb, coins) ClawbackVestingAccount option"
  aVestingAddress :: "('vb, coins) ClawbackVestingAccount \<Rightarrow> bytes"
  aAccString :: "bytes \<Rightarrow> string"
  aBondDenom :: "'r \<Rightarrow> string"
  aGetValidator :: "'r \<Rightarrow> bytes \<Rightarrow> bool"
  aDelegations :: "'r \<Rightarrow> bytes \<Rightarrow> bytes list"
  aWithdraw :: "'r \<Rightarrow> bytes \<Rightarrow> bytes \<Rightarrow> (string, coins \<times> 'r) outcome"
  aDeductFees :: "'r \<Rightarrow> 'b AccountI \<Rightarrow> coins \<Rightarrow> (string, 'r) outcome"
  aPriorityReduction :: int
  aInfiniteGasMeter :: infiniteGasMeterWithLimit
  aMaxGasWanted :: uint64

abbreviation ante_sdk :: "('b, 'r, 'cc, 'd, 'vb) ante_env \<Rightarrow> ('b, 'r, 'cc) sdk" where
  "ante_sdk A \<equiv> xsdk (achain A)"

abbreviation ante_lib :: "('b, 'r, 'cc, 'd, 'vb) ante_env \<Rightarrow> txlib" where
  "ante_lib A \<equiv> xlib (achain A)"

text \<open>\<open>common.BytesToAddress\<close> keeps the last 20 bytes.\<close>

definition BytesToAddress :: "bytes \<Rightarrow> Address" where
  "BytesToAddress bs = word_of_nat (be_nat bs)"

definition ante_Params :: "('b, 'r, 'cc, 'd, 'vb) ante_env \<Rightarrow> ('r, 'd) AnteCtx \<Rightarrow> 'cc Params" where
  "ante_Params A c = GetParams (ante_sdk A) (evmCtx c)"

text \<open>The keeper's \<open>GetBaseFee\<close>, on the fee market of the context.\<close>

definition ante_BaseFee :: "('b, 'r, 'cc, 'd, 'vb) ante_env \<Rightarrow> ('r, 'd) AnteCtx \<Rightarrow> int option" where
  "ante_BaseFee A c =
     (if \<not> xIsLondon (achain A) (ChainConfig (ante_Params A c)) (BlockHeight (evmCtx c)) then None
      else case fm_GetBaseFee (afm A) (fmCtx c) of None \<Rightarrow> Some 0 | Some b \<Rightarrow> Some b)"

definition ante_BlockGasLimit :: "('r, 'd) AnteCtx \<Rightarrow> uint64" where
  "ante_BlockGasLimit c = BlockGasLimit (map_option fst (BlockGasMeter (evmCtx c))) (fm_maxGas (fmCtx c))"

text \<open>The type assertion every decorator makes on the messages.\<close>

fun eth_msg :: "Msg \<Rightarrow> (string, MsgEthereumTx) outcome" where
  "eth_msg (EthMsg m) = Ok m"
| "eth_msg _ = Err ''invalid message type''"

subsection \<open>Set-up and basic validation\<close>

definition EthSetupContext_AnteHandle ::
  "('b, 'r, 'cc, 'd, 'vb) ante_env \<Rightarrow> ('r, 'd) AnteDecorator" where
  "EthSetupContext_AnteHandle A c tx simulate next_handler =
     (if \<not> isGasTx tx then Err ''invalid transaction type, expected GasTx''
      else next_handler
        (c\<lparr>evmCtx := ResetTransientGasUsed ((evmCtx c)\<lparr>GasMeter := aInfiniteGasMeter A\<rparr>)\<rparr>) tx simulate)"

fun emit_events :: "uint64 \<Rightarrow> nat \<Rightarrow> Msg list \<Rightarrow> (string, AnteEvent list) outcome" where
  "emit_events txIndex i [] = Ok []"
| "emit_events txIndex i (msg # msgs) =
     bind_outcome (eth_msg msg) (\<lambda>m.
     bind_outcome (emit_events txIndex (Suc i) msgs) (\<lambda>evs.
     Ok (EthereumTx (m_Hash m) (txIndex + of_nat i) # evs)))"

definition EthEmitEvent_AnteHandle :: "('r, 'd) AnteDecorator" where
  "EthEmitEvent_AnteHandle c tx simulate next_handler =
     bind_outcome (emit_events (GetTxIndexTransient (evmCtx c)) 0 (GetMsgs tx)) (\<lambda>evs.
     next_handler (c\<lparr>Events := Events c @ evs\<rparr>) tx simulate)"

text \<open>
  One round of the loop of \<open>EthValidateBasicDecorator\<close>: the state is the sum of the fees and of the
  gas limits so far.
\<close>

definition validate_eth_msg ::
  "('b, 'r, 'cc, 'd, 'vb) ante_env \<Rightarrow> ('r, 'd) AnteCtx \<Rightarrow> Msg \<Rightarrow> coins \<times> uint64 \<Rightarrow> (string, coins \<times> uint64) outcome" where
  "validate_eth_msg A c msg st =
     (let (txFee, txGasLimit) = st; params = ante_Params A c in
      bind_outcome (eth_msg msg) (\<lambda>m.
      if m_From m \<noteq> [] then Err ''invalid From, expect empty string''
      else bind_outcome (UnpackTxData (m_Data m)) (\<lambda>txData.
        if \<not> EnableCreate params \<and> tx_GetTo (ante_lib A) txData = None then Err ''failed to create new contract''
        else if \<not> EnableCall params \<and> tx_GetTo (ante_lib A) txData \<noteq> None then Err ''failed to call contract''
        else if ante_BaseFee A c = None \<and> tx_TxType txData = 2 then Err ''dynamic fee tx not supported''
        else bind_outcome (option_outcome (tx_Fee txData)) (\<lambda>f.
             bind_outcome (option_outcome (NewIntFromBigInt (ante_lib A) f)) (\<lambda>amount.
             bind_outcome (option_outcome (Coins_Add (acoins A) txFee [(EvmDenom params, amount)])) (\<lambda>sum.
             Ok (sum, txGasLimit + msg_GetGas m)))))))"

definition EthValidateBasic_AnteHandle ::
  "('b, 'r, 'cc, 'd, 'vb) ante_env \<Rightarrow> ('r, 'd) AnteDecorator" where
  "EthValidateBasic_AnteHandle A c tx simulate next_handler =
     (if IsReCheckTx c then next_handler c tx simulate
      else bind_outcome
        (case aTxValidateBasic A tx of
           Err e \<Rightarrow> if e = ''no signatures supplied'' then Ok () else Err ''tx basic validation failed''
         | r \<Rightarrow> r) (\<lambda>_.
        case asProtoTx tx of
          None \<Rightarrow> Err ''invalid tx type, did not implement interface protoTxProvider''
        | Some p \<Rightarrow>
            if Memo p \<noteq> [] \<or> TimeoutHeight p \<noteq> 0 \<or> NonCriticalExtensionOptions p > 0
            then Err ''for eth tx body Memo TimeoutHeight NonCriticalExtensionOptions should be empty''
            else if ExtensionOptions p \<noteq> 1 then Err ''for eth tx length of ExtensionOptions should be 1''
            else if SignerInfos p > 0 then Err ''for eth tx AuthInfo SignerInfos should be empty''
            else if Payer p \<noteq> [] \<or> Granter p \<noteq> [] then Err ''for eth tx AuthInfo Fee payer and granter should be empty''
            else if Signatures p > 0 then Err ''for eth tx Signatures should be empty''
            else bind_outcome (fold_outcome (validate_eth_msg A c) (GetMsgs tx) ([], 0)) (\<lambda>(txFee, txGasLimit).
              if \<not> aIsEqual A (FeeAmount p) txFee then Err ''invalid AuthInfo Fee Amount''
              else if FeeGasLimit p \<noteq> txGasLimit then Err ''invalid AuthInfo Fee GasLimit''
              else next_handler c tx simulate)))"

subsection \<open>Minimal gas prices\<close>

text \<open>The fee that counts: for a legacy transaction the fee, for others the effective fee.\<close>

definition min_price_msg ::
  "('b, 'r, 'cc, 'd, 'vb) ante_env \<Rightarrow> 'd \<Rightarrow> int option \<Rightarrow> Msg \<Rightarrow> unit \<Rightarrow> (string, unit) outcome" where
  "min_price_msg A minGasPrice baseFee msg _ =
     bind_outcome (eth_msg msg) (\<lambda>m.
     bind_outcome (UnpackTxData (m_Data m)) (\<lambda>txData.
     let feeAmt = (if tx_TxType txData \<noteq> 0 then msg_GetEffectiveFee m baseFee else msg_GetFee m);
         gasLimit = aNewDecFromBigInt A (uint (msg_GetGas m))
     in bind_outcome (option_outcome (Dec_Mul (xdecs (achain A)) minGasPrice gasLimit)) (\<lambda>requiredFee.
        bind_outcome (option_outcome (map_option (aNewDecFromBigInt A) feeAmt)) (\<lambda>f.
        if Dec_GT (xdecs (achain A)) requiredFee f then Err ''provided fee < minimum global fee'' else Ok ()))))"

definition EthMinGasPrice_AnteHandle ::
  "('b, 'r, 'cc, 'd, 'vb) ante_env \<Rightarrow> ('r, 'd) AnteDecorator" where
  "EthMinGasPrice_AnteHandle A c tx simulate next_handler =
     (case MinGasPrice (fm_GetParams (afm A) (fmCtx c)) of
        None \<Rightarrow> Panic
      | Some minGasPrice \<Rightarrow>
          if aDecIsZero A minGasPrice then next_handler c tx simulate
          else bind_outcome (fold_outcome (min_price_msg A minGasPrice (ante_BaseFee A c)) (GetMsgs tx) ())
                 (\<lambda>_. next_handler c tx simulate))"

definition mempool_fee_msg ::
  "('b, 'r, 'cc, 'd, 'vb) ante_env \<Rightarrow> 'd \<Rightarrow> Msg \<Rightarrow> unit \<Rightarrow> (string, unit) outcome" where
  "mempool_fee_msg A minGasPrice msg _ =
     bind_outcome (eth_msg msg) (\<lambda>m.
     bind_outcome (option_outcome (map_option (aNewDecFromBigInt A) (msg_GetFee m))) (\<lambda>f.
     bind_outcome (option_outcome (Dec_Mul (xdecs (achain A)) minGasPrice (aNewDecFromBigInt A (uint (msg_GetGas m))))) (\<lambda>requiredFee.
     if Dec_GT (xdecs (achain A)) requiredFee f then Err ''insufficient fee'' else Ok ())))"

text \<open>\<open>AmountOf\<close> of decimal coins is zero for a missing denomination.\<close>

definition EthMempoolFee_AnteHandle ::
  "('b, 'r, 'cc, 'd, 'vb) ante_env \<Rightarrow> ('r, 'd) AnteDecorator" where
  "EthMempoolFee_AnteHandle A c tx simulate next_handler =
     (if \<not> IsCheckTx c \<or> simulate then next_handler c tx simulate
      else if ante_BaseFee A c \<noteq> None then next_handler c tx simulate
      else
        let minGasPrice = (case map_of (MinGasPrices c) (EvmDenom (ante_Params A c)) of
              None \<Rightarrow> aNewDecFromBigInt A 0 | Some p \<Rightarrow> p)
        in bind_outcome (fold_outcome (mempool_fee_msg A minGasPrice) (GetMsgs tx) ())
             (\<lambda>_. next_handler c tx simulate))"

subsection \<open>Signatures\<close>

text \<open>The sender is written into the message.\<close>

definition recover_sender ::
  "('b, 'r, 'cc, 'd, 'vb) ante_env \<Rightarrow> ('r, 'd) AnteCtx \<Rightarrow> Msg \<Rightarrow> (string, Msg) outcome" where
  "recover_sender A c msg =
     (let params = ante_Params A c in
      bind_outcome (eth_msg msg) (\<lambda>m.
      case AsTransaction (ante_lib A) m of
        None \<Rightarrow> Panic
      | Some ethTx \<Rightarrow>
          if \<not> AllowUnprotectedTxs params \<and> \<not> aProtected A ethTx then Err ''rejected unprotected Ethereum transaction''
          else case aSender A (ChainConfig params) (BlockHeight (evmCtx c)) ethTx of
                 Panic \<Rightarrow> Panic
               | Err e \<Rightarrow> Err ''could not retrieve sender address from the ethereum transaction''
               | Ok sender \<Rightarrow> Ok (EthMsg (m\<lparr>m_From := AddressHex (ante_lib A) sender\<rparr>))))"

fun map_outcome :: "('x \<Rightarrow> ('e, 'y) outcome) \<Rightarrow> 'x list \<Rightarrow> ('e, 'y list) outcome" where
  "map_outcome f [] = Ok []"
| "map_outcome f (x # xs) = bind_outcome (f x) (\<lambda>y. bind_outcome (map_outcome f xs) (\<lambda>ys. Ok (y # ys)))"

definition EthSigVerification_AnteHandle ::
  "('b, 'r, 'cc, 'd, 'vb) ante_env \<Rightarrow> ('r, 'd) AnteDecorator" where
  "EthSigVerification_AnteHandle A c tx simulate next_handler =
     bind_outcome (map_outcome (recover_sender A c) (GetMsgs tx)) (\<lambda>msgs.
     next_handler c (tx\<lparr>GetMsgs := msgs\<rparr>) simulate)"
subsection \<open>Accounts and transfers\<close>

definition verify_account ::
  "('b, 'r, 'cc, 'd, 'vb) ante_env \<Rightarrow> Msg \<Rightarrow> 'r Ctx \<Rightarrow> (string, 'r Ctx) outcome" where
  "verify_account A msg c =
     bind_outcome (eth_msg msg) (\<lambda>m.
     bind_outcome (UnpackTxData (m_Data m)) (\<lambda>txData.
     let from = msg_GetFrom (ante_lib A) m; D = ante_sdk A; E = evm_env D in
     if from = [] then Err ''from address cannot be empty''
     else bind_outcome
       (case keeper_GetAccount D c (BytesToAddress from) of
          None \<Rightarrow>
            let (acc, r) = akNewAccountWithAddress D (modules c) from
            in Ok (NewEmptyAccount E, c\<lparr>modules := akSetAccount D r acc\<rparr>)
        | Some acct \<Rightarrow> if IsContract E acct then Err ''the sender is not EOA'' else Ok (acct, c)) (\<lambda>(acct, c1).
     bind_outcome (option_outcome (Option.bind (Balance acct) (NewIntFromBigInt (ante_lib A)))) (\<lambda>balance.
     bind_outcome (CheckSenderBalance balance txData) (\<lambda>_. Ok c1)))))"

definition EthAccountVerification_AnteHandle ::
  "('b, 'r, 'cc, 'd, 'vb) ante_env \<Rightarrow> ('r, 'd) AnteDecorator" where
  "EthAccountVerification_AnteHandle A c tx simulate next_handler =
     (if \<not> IsCheckTx c then next_handler c tx simulate
      else bind_outcome (fold_outcome (verify_account A) (GetMsgs tx) (evmCtx c)) (\<lambda>ec.
           next_handler (c\<lparr>evmCtx := ec\<rparr>) tx simulate))"

text \<open>
  \<open>AsMessage\<close> with the block's signer is the environment's \<open>xAsMessage\<close>. The state database is a
  fresh one over the context; the EVM object only supplies the transfer check.
\<close>

definition can_transfer_msg ::
  "('b, 'r, 'cc, 'd, 'vb) ante_env \<Rightarrow> ('r, 'd) AnteCtx \<Rightarrow> Msg \<Rightarrow> unit \<Rightarrow> (string, unit) outcome" where
  "can_transfer_msg A c msg _ =
     bind_outcome (eth_msg msg) (\<lambda>m.
     case AsTransaction (ante_lib A) m of
       None \<Rightarrow> Panic
     | Some tx \<Rightarrow>
         let cc = ChainConfig (ante_Params A c); height = BlockHeight (evmCtx c); baseFee = ante_BaseFee A c in
         bind_outcome (xAsMessage (achain A) tx cc height baseFee) (\<lambda>coreMsg.
         bind_outcome
           (if xIsLondon (achain A) cc height then
              case baseFee of
                None \<Rightarrow> Err ''base fee is supported but evm block context value is nil''
              | Some b \<Rightarrow> if msg_GasFeeCap coreMsg < b then Err ''max fee per gas less than block base fee'' else Ok ()
            else Ok ()) (\<lambda>_.
         let stateDB = New (evmCtx c) (evm_env (ante_sdk A)) (NewEmptyTxConfig (BytesToHash (HeaderHash (evmCtx c))))
         in if msg_Value coreMsg > 0 \<and> \<not> aCanTransfer A stateDB (msg_From coreMsg) (msg_Value coreMsg)
            then Err ''failed to transfer using the EVM block context transfer function'' else Ok ())))"

definition CanTransfer_AnteHandle :: "('b, 'r, 'cc, 'd, 'vb) ante_env \<Rightarrow> ('r, 'd) AnteDecorator" where
  "CanTransfer_AnteHandle A c tx simulate next_handler =
     bind_outcome (fold_outcome (can_transfer_msg A c) (GetMsgs tx) ()) (\<lambda>_. next_handler c tx simulate)"

subsection \<open>Vesting accounts\<close>

text \<open>What a vesting account spends over a transaction and what it may spend.\<close>

record ethVestingExpenseTracker =
  total :: int
  spendable :: int

definition updateAccountExpenses ::
  "('b, 'r, 'cc, 'd, 'vb) ante_env \<Rightarrow> ('r, 'd) AnteCtx \<Rightarrow> (string \<rightharpoonup> ethVestingExpenseTracker) \<Rightarrow>
     ('vb, coins) ClawbackVestingAccount \<Rightarrow> int \<Rightarrow> string \<Rightarrow>
     (string, ethVestingExpenseTracker \<times> (string \<rightharpoonup> ethVestingExpenseTracker)) outcome" where
  "updateAccountExpenses A c accountExpenses account addedExpense denom =
     (let address = aVestingAddress A account; addrStr = aAccString A address in
      case accountExpenses addrStr of
        Some expenses \<Rightarrow>
          let e = expenses\<lparr>total := total expenses + addedExpense\<rparr>
          in Ok (e, accountExpenses(addrStr \<mapsto> e))
      | None \<Rightarrow>
          let balance = bkGetBalance (ante_sdk A) (modules (evmCtx c)) address denom
          in if balance = 0 then Err ''account has no balance to execute transaction''
             else bind_outcome (option_outcome (LockedCoins (acoins A) (abase A) account (ante_BlockTime c))) (\<lambda>lockedBalances.
               let lockedBalance = (case map_of lockedBalances denom of None \<Rightarrow> 0 | Some v \<Rightarrow> v);
                   spendableValue = (if balance - lockedBalance < 0 then 0 else balance - lockedBalance);
                   e = \<lparr>total = addedExpense, spendable = spendableValue\<rparr>
               in Ok (e, accountExpenses(addrStr \<mapsto> e))))"

definition vesting_msg ::
  "('b, 'r, 'cc, 'd, 'vb) ante_env \<Rightarrow> ('r, 'd) AnteCtx \<Rightarrow> Msg \<Rightarrow> (string \<rightharpoonup> ethVestingExpenseTracker) \<Rightarrow>
     (string, string \<rightharpoonup> ethVestingExpenseTracker) outcome" where
  "vesting_msg A c msg accountExpenses =
     bind_outcome (eth_msg msg) (\<lambda>m.
     case akGetAccount (ante_sdk A) (modules (evmCtx c)) (msg_GetFrom (ante_lib A) m) of
       None \<Rightarrow> Err ''account does not exist''
     | Some acc \<Rightarrow>
         (case aAsClawback A acc of
            None \<Rightarrow> Ok accountExpenses
          | Some clawbackAccount \<Rightarrow>
              (case AsTransaction (ante_lib A) m of
                 None \<Rightarrow> Panic
               | Some tx \<Rightarrow>
                   bind_outcome (updateAccountExpenses A c accountExpenses clawbackAccount (eth_Value tx)
                     (EvmDenom (ante_Params A c))) (\<lambda>(expenses, accountExpenses').
                   if total expenses > spendable expenses
                   then Err ''clawback vesting account has insufficient unlocked tokens to execute transaction''
                   else Ok accountExpenses'))))"

definition EthVestingTransaction_AnteHandle ::
  "('b, 'r, 'cc, 'd, 'vb) ante_env \<Rightarrow> ('r, 'd) AnteDecorator" where
  "EthVestingTransaction_AnteHandle A c tx simulate next_handler =
     bind_outcome (fold_outcome (vesting_msg A c) (GetMsgs tx) (\<lambda>_. None)) (\<lambda>_. next_handler c tx simulate)"

subsection \<open>Fees and gas\<close>

text \<open>
  \<open>ClaimSufficientStakingRewards\<close>: rewards are withdrawn delegation by delegation until they
  suffice, on a cached context that is written only if they did.
\<close>

fun withdraw_rewards ::
  "('b, 'r, 'cc, 'd, 'vb) ante_env \<Rightarrow> bytes \<Rightarrow> string \<Rightarrow> int \<Rightarrow> bytes list \<Rightarrow> coins \<Rightarrow> 'r \<Rightarrow> (string, coins \<times> 'r) outcome" where
  "withdraw_rewards A addr denom amount [] rewards r = Ok (rewards, r)"
| "withdraw_rewards A addr denom amount (val # vals) rewards r =
     bind_outcome (aWithdraw A r addr val) (\<lambda>(reward, r1).
     bind_outcome (option_outcome (Coins_Add (acoins A) rewards reward)) (\<lambda>rewards1.
     if AmountOf (acoins A) rewards1 denom \<ge> amount then Ok (rewards1, r1)
     else withdraw_rewards A addr denom amount vals rewards1 r1))"

definition ClaimSufficientStakingRewards ::
  "('b, 'r, 'cc, 'd, 'vb) ante_env \<Rightarrow> 'r \<Rightarrow> bytes \<Rightarrow> string \<Rightarrow> int \<Rightarrow> (string, 'r) outcome" where
  "ClaimSufficientStakingRewards A r addr denom amount =
     bind_outcome (withdraw_rewards A addr denom amount (aDelegations A r addr) (NoCoins (acoins A)) r) (\<lambda>(rewards, r1).
     if AmountOf (acoins A) rewards denom < amount then Err ''insufficient staking rewards to cover transaction fees''
     else Ok r1)"

definition ClaimStakingRewardsIfNecessary ::
  "('b, 'r, 'cc, 'd, 'vb) ante_env \<Rightarrow> 'r \<Rightarrow> bytes \<Rightarrow> coins \<Rightarrow> (string, 'r) outcome" where
  "ClaimStakingRewardsIfNecessary A r addr amount =
     (let stakingDenom = aBondDenom A r in
      case map_of amount stakingDenom of
        None \<Rightarrow> Err ''wrong fee denomination''
      | Some amountInStakingDenom \<Rightarrow>
          let balance = bkGetBalance (ante_sdk A) r addr stakingDenom
          in if balance < 0 then Err ''balance is negative''
             else if balance \<ge> amountInStakingDenom then Ok r
             else ClaimSufficientStakingRewards A r addr stakingDenom (amountInStakingDenom - balance))"

definition evm_deductFee ::
  "('b, 'r, 'cc, 'd, 'vb) ante_env \<Rightarrow> 'r Ctx \<Rightarrow> coins \<Rightarrow> bytes \<Rightarrow> (string, 'r Ctx) outcome" where
  "evm_deductFee A c fees feePayer =
     (if Coins_IsZero (acoins A) fees then Ok c
      else bind_outcome (ClaimStakingRewardsIfNecessary A (modules c) feePayer fees) (\<lambda>r.
           DeductTxCostsFromUserBalance (ante_sdk A) (aDeductFees A) (c\<lparr>modules := r\<rparr>) fees (BytesToAddress feePayer)))"

text \<open>The payer of a transaction's fee is exempt if it is a validator or delegates to one.\<close>

definition fee_exempt :: "('b, 'r, 'cc, 'd, 'vb) ante_env \<Rightarrow> 'r \<Rightarrow> bytes \<Rightarrow> bool" where
  "fee_exempt A r feePayer = (aGetValidator A r feePayer \<or> length (take 10 (aDelegations A r feePayer)) \<noteq> 0)"

text \<open>The state of the loop over the messages.\<close>

record ('r, 'd) gas_loop =
  gl_ctx :: "'r Ctx"
  gasWanted :: uint64
  minPriority :: int
  gl_events :: "AnteEvent list"

definition consume_gas_msg ::
  "('b, 'r, 'cc, 'd, 'vb) ante_env \<Rightarrow> ('r, 'd) AnteCtx \<Rightarrow> bool \<Rightarrow> Msg \<Rightarrow> ('r, 'd) gas_loop \<Rightarrow> (string, ('r, 'd) gas_loop) outcome" where
  "consume_gas_msg A c exempt msg s =
     (let params = ante_Params A c; cc = ChainConfig params; height = BlockHeight (evmCtx c); baseFee = ante_BaseFee A c in
      bind_outcome (eth_msg msg) (\<lambda>m.
      bind_outcome (UnpackTxData (m_Data m)) (\<lambda>txData.
      let gas = tx_GetGas txData;
          wanted = (if IsCheckTx c \<and> aMaxGasWanted A \<noteq> 0 \<and> gas > aMaxGasWanted A then aMaxGasWanted A else gas)
      in bind_outcome (VerifyFee (achain A) txData (EvmDenom params) baseFee (xIsHomestead (achain A) cc height)
           (xIsIstanbul (achain A) cc height) (IsCheckTx c)) (\<lambda>verified.
      let fees = (if exempt then NoCoins (acoins A) else verified) in
      bind_outcome (evm_deductFee A (gl_ctx s) fees (msg_GetFrom (ante_lib A) m)) (\<lambda>c1.
      bind_outcome (option_outcome (GetTxPriority (aPriorityReduction A) txData baseFee)) (\<lambda>priority.
      Ok \<lparr>gl_ctx = c1, gasWanted = gasWanted s + wanted, minPriority = min priority (minPriority s),
          gl_events = gl_events s @ [TxFee fees]\<rparr>))))))"

definition EthGasConsume_AnteHandle ::
  "('b, 'r, 'cc, 'd, 'vb) ante_env \<Rightarrow> ('r, 'd) AnteDecorator" where
  "EthGasConsume_AnteHandle A c tx simulate next_handler =
     (if IsReCheckTx c then
        next_handler (c\<lparr>evmCtx := (evmCtx c)\<lparr>GasMeter := NewInfiniteGasMeterWithLimit 0\<rparr>\<rparr>) tx simulate
      else case asFeeTx tx of
        None \<Rightarrow> Err ''Tx must be a FeeTx''
      | Some feeTx \<Rightarrow>
          bind_outcome (fold_outcome (consume_gas_msg A c (fee_exempt A (modules (evmCtx c)) (FeePayer feeTx))) (GetMsgs tx)
            \<lparr>gl_ctx = evmCtx c, gasWanted = 0, minPriority = max_int64, gl_events = []\<rparr>) (\<lambda>s.
          if gasWanted s > ante_BlockGasLimit c then Err ''tx gas exceeds block gas limit''
          else next_handler
            (c\<lparr>evmCtx := (gl_ctx s)\<lparr>GasMeter := NewInfiniteGasMeterWithLimit (gasWanted s)\<rparr>,
               Priority := minPriority s, Events := Events c @ gl_events s\<rparr>) tx simulate))"

subsection \<open>Sequences, gas wanted and the chain of decorators\<close>

definition increment_sequence ::
  "('b, 'r, 'cc, 'd, 'vb) ante_env \<Rightarrow> Msg \<Rightarrow> 'r \<Rightarrow> (string, 'r) outcome" where
  "increment_sequence A msg r =
     bind_outcome (eth_msg msg) (\<lambda>m.
     bind_outcome (UnpackTxData (m_Data m)) (\<lambda>txData.
     case akGetAccount (ante_sdk A) r (msg_GetFrom (ante_lib A) m) of
       None \<Rightarrow> Err ''account is nil''
     | Some acc \<Rightarrow>
         let nonce = GetSequence (ante_sdk A) (Evm_Keeper.base_of acc)
         in if tx_GetNonce txData \<noteq> nonce then Err ''invalid nonce''
            else bind_outcome (SetSequence (ante_sdk A) (Evm_Keeper.base_of acc) (nonce + 1)) (\<lambda>b.
                 Ok (akSetAccount (ante_sdk A) r (Evm_Keeper.with_base acc b)))))"

definition EthIncrementSenderSequence_AnteHandle ::
  "('b, 'r, 'cc, 'd, 'vb) ante_env \<Rightarrow> ('r, 'd) AnteDecorator" where
  "EthIncrementSenderSequence_AnteHandle A c tx simulate next_handler =
     bind_outcome (fold_outcome (increment_sequence A) (GetMsgs tx) (modules (evmCtx c))) (\<lambda>r.
     next_handler (c\<lparr>evmCtx := (evmCtx c)\<lparr>modules := r\<rparr>\<rparr>) tx simulate)"

definition GasWanted_AnteHandle :: "('b, 'r, 'cc, 'd, 'vb) ante_env \<Rightarrow> ('r, 'd) AnteDecorator" where
  "GasWanted_AnteHandle A c tx simulate next_handler =
     (let isLondon = xIsLondon (achain A) (ChainConfig (ante_Params A c)) (BlockHeight (evmCtx c)) in
      case asFeeTx tx of
        None \<Rightarrow> next_handler c tx simulate
      | Some feeTx \<Rightarrow>
          if \<not> isLondon then next_handler c tx simulate
          else if feeTx_GetGas feeTx > ante_BlockGasLimit c then Err ''tx gas exceeds block gas limit''
          else if GetBaseFeeEnabled (afm A) (fmCtx c) then
            bind_outcome (AddTransientGasWanted (fmCtx c) (feeTx_GetGas feeTx)) (\<lambda>(_, fm).
            next_handler (c\<lparr>fmCtx := fm\<rparr>) tx simulate)
          else next_handler c tx simulate)"

text \<open>The decorator of \<open>fee_checker.go\<close> sets the priority to zero; the rest of it is commented out.\<close>

definition GetValidator_AnteHandle :: "('r, 'd) AnteDecorator" where
  "GetValidator_AnteHandle c tx simulate next_handler = next_handler (c\<lparr>Priority := 0\<rparr>) tx simulate"

text \<open>\<open>sdk.ChainAnteDecorators\<close>: each decorator gets the rest of the chain; the end returns the context.\<close>

fun ChainAnteDecorators :: "('r, 'd) AnteDecorator list \<Rightarrow> ('r, 'd) AnteHandler" where
  "ChainAnteDecorators [] = (\<lambda>c tx simulate. Ok (c, tx))"
| "ChainAnteDecorators (d # ds) = (\<lambda>c tx simulate. d c tx simulate (ChainAnteDecorators ds))"

definition newEVMAnteHandler :: "('b, 'r, 'cc, 'd, 'vb) ante_env \<Rightarrow> ('r, 'd) AnteHandler" where
  "newEVMAnteHandler A = ChainAnteDecorators
     [EthSetupContext_AnteHandle A, EthMempoolFee_AnteHandle A, EthMinGasPrice_AnteHandle A,
      EthValidateBasic_AnteHandle A, EthSigVerification_AnteHandle A, EthAccountVerification_AnteHandle A,
      CanTransfer_AnteHandle A, EthVestingTransaction_AnteHandle A, EthGasConsume_AnteHandle A,
      EthIncrementSenderSequence_AnteHandle A, GasWanted_AnteHandle A, EthEmitEvent_AnteHandle,
      GetValidator_AnteHandle]"

end
