(* ===== verification/Ante_Cosmos.thy ===== *)
theory Ante_Cosmos
  imports Ante_Evm
begin

text \<open>
  The ante handler of Cosmos transactions, \<open>app/ante/cosmos\<close>, the fee checker of
  \<open>app/ante/evm/fee_checker.go\<close>, the gas for signatures of \<open>app/ante/sigverify.go\<close>, the two decorators of
  \<open>x/wasm/keeper/ante.go\<close> and the choice of the handler in \<open>app/ante/ante.go\<close>. Decorators of the Cosmos SDK
  and of IBC are parameters, as are decimals, coin comparisons, fee grants and, for the typed-data
  signatures, hashing and elliptic curves.
\<close>

subsection \<open>Messages that are refused\<close>

text \<open>\<open>sdk.MsgTypeURL\<close>: a slash and the registered name.\<close>

fun MsgTypeURL :: "Msg \<Rightarrow> string" where
  "MsgTypeURL (EthMsg m) = ''/ethermint.evm.v1.MsgEthereumTx''"
| "MsgTypeURL (MsgExec ms) = ''/cosmos.authz.v1beta1.MsgExec''"
| "MsgTypeURL (MsgGrant a) = ''/cosmos.authz.v1beta1.MsgGrant''"
| "MsgTypeURL (MsgDelegate s v) = ''/cosmos.staking.v1beta1.MsgDelegate''"
| "MsgTypeURL (OtherMsg url) = url"

fun is_eth :: "Msg \<Rightarrow> bool" where
  "is_eth (EthMsg m) \<longleftrightarrow> True"
| "is_eth _ \<longleftrightarrow> False"

definition RejectMessages_AnteHandle :: "('r, 'd) AnteDecorator" where
  "RejectMessages_AnteHandle c tx simulate next_handler =
     (if list_ex is_eth (GetMsgs tx) then Err ''MsgEthereumTx needs to be contained within a tx with ExtensionOptionsEthereumTx option''
      else next_handler c tx simulate)"

definition maxNestedMsgs :: nat where "maxNestedMsgs = 7"

definition isDisabledMsg :: "string list \<Rightarrow> string \<Rightarrow> bool" where
  "isDisabledMsg disabled url = list_ex (\<lambda>d. url = d) disabled"

text \<open>\<open>GetMessages\<close> of a \<open>MsgExec\<close>: all of them or an error.\<close>

fun unpack_msgs :: "Msg option list \<Rightarrow> Msg list option" where
  "unpack_msgs [] = Some []"
| "unpack_msgs (None # ms) = None"
| "unpack_msgs (Some m # ms) = map_option (\<lambda>l. m # l) (unpack_msgs ms)"

lemma unpack_msgs_size: "unpack_msgs packed = Some ms \<Longrightarrow> size_list size ms \<le> size_list (size_option size) packed"
  by (induction packed arbitrary: ms rule: unpack_msgs.induct) fastforce+

text \<open>
  \<open>checkDisabledMsgs\<close> tests the level, then \<open>check_msgs\<close> is its loop; the level is a variable of the loop
  that every \<open>MsgExec\<close> raises, for its own messages and for those behind it.
\<close>

function (sequential) checkDisabledMsgs :: "string list \<Rightarrow> Msg list \<Rightarrow> bool \<Rightarrow> nat \<Rightarrow> (string, unit) outcome"
  and check_msgs :: "string list \<Rightarrow> Msg list \<Rightarrow> bool \<Rightarrow> nat \<Rightarrow> (string, unit) outcome" where
  "checkDisabledMsgs disabled msgs isAuthzInnerMsg nestedLvl =
     (if nestedLvl \<ge> maxNestedMsgs then Err ''found more nested msgs than permited''
      else check_msgs disabled msgs isAuthzInnerMsg nestedLvl)"
| "check_msgs disabled [] isAuthzInnerMsg nestedLvl = Ok ()"
| "check_msgs disabled (MsgExec packed # msgs) isAuthzInnerMsg nestedLvl =
     (case unpack_msgs packed of
        None \<Rightarrow> Err ''messages contains an invalid message''
      | Some innerMsgs \<Rightarrow>
          bind_outcome (checkDisabledMsgs disabled innerMsgs True (nestedLvl + 1)) (\<lambda>_.
          check_msgs disabled msgs isAuthzInnerMsg (nestedLvl + 1)))"
| "check_msgs disabled (MsgGrant authorization # msgs) isAuthzInnerMsg nestedLvl =
     (case authorization of
        None \<Rightarrow> Err ''no authorization''
      | Some url \<Rightarrow>
          if isDisabledMsg disabled url then Err ''found disabled msg type''
          else check_msgs disabled msgs isAuthzInnerMsg nestedLvl)"
| "check_msgs disabled (msg # msgs) isAuthzInnerMsg nestedLvl =
     (if isAuthzInnerMsg \<and> isDisabledMsg disabled (MsgTypeURL msg) then Err ''found disabled msg type''
      else check_msgs disabled msgs isAuthzInnerMsg nestedLvl)"
  by pat_completeness auto

termination
  by (relation "measure (case_sum (\<lambda>(_, msgs, _). 2 * size_list size msgs + 1) (\<lambda>(_, msgs, _). 2 * size_list size msgs))")
    (auto dest: unpack_msgs_size)

definition AuthzLimiter_AnteHandle :: "string list \<Rightarrow> ('r, 'd) AnteDecorator" where
  "AuthzLimiter_AnteHandle disabled c tx simulate next_handler =
     bind_outcome (checkDisabledMsgs disabled (GetMsgs tx) False 1) (\<lambda>_. next_handler c tx simulate)"

definition disabledMsgTypes :: "string list" where
  "disabledMsgTypes = [''/ethermint.evm.v1.MsgEthereumTx'', ''/cosmos.vesting.v1beta1.MsgCreateVestingAccount'']"

subsection \<open>Gas for signatures\<close>

text \<open>Public keys and signatures by their Go types; the bit array of a multi-signature is a list.\<close>

datatype PubKey = EthSecp256k1 bytes | Ed25519 bytes | MultisigKey "PubKey list" | OtherKey string

datatype SigData = SingleSig nat bytes | MultiSig "bool list" "SigData list"

definition Secp256k1VerifyCost :: uint64 where "Secp256k1VerifyCost = 21000"

text \<open>
  The meter is the SDK's interface: \<open>consume\<close> is \<^const>\<open>None\<close> where it panics. The cost of an
  \<open>ed25519\<close> signature is a parameter of the auth module.
\<close>

function (sequential) SigVerificationGasConsumer ::
    "('m \<Rightarrow> uint64 \<Rightarrow> 'm option) \<Rightarrow> uint64 \<Rightarrow> 'm \<Rightarrow> PubKey \<Rightarrow> SigData \<Rightarrow> (string, 'm) outcome"
  and ConsumeMultisignatureVerificationGas ::
    "('m \<Rightarrow> uint64 \<Rightarrow> 'm option) \<Rightarrow> uint64 \<Rightarrow> 'm \<Rightarrow> bool list \<Rightarrow> SigData list \<Rightarrow> PubKey list \<Rightarrow> (string, 'm) outcome" where
  "SigVerificationGasConsumer consume ed m (EthSecp256k1 k) sig = option_outcome (consume m Secp256k1VerifyCost)"
| "SigVerificationGasConsumer consume ed m (Ed25519 k) sig =
     bind_outcome (option_outcome (consume m ed)) (\<lambda>_. Err ''ED25519 public keys are unsupported'')"
| "SigVerificationGasConsumer consume ed m (MultisigKey keys) (MultiSig bits sigs) =
     ConsumeMultisignatureVerificationGas consume ed m bits sigs keys"
| "SigVerificationGasConsumer consume ed m (MultisigKey keys) sig = Err ''expected MultiSignatureData''"
| "SigVerificationGasConsumer consume ed m (OtherKey t) sig = Err ''unrecognized/unsupported public key type''"
| "ConsumeMultisignatureVerificationGas consume ed m [] sigs keys = Ok m"
| "ConsumeMultisignatureVerificationGas consume ed m (False # bits) sigs keys =
     ConsumeMultisignatureVerificationGas consume ed m bits sigs (tl keys)"
| "ConsumeMultisignatureVerificationGas consume ed m (True # bits) sigs [] = Panic"
| "ConsumeMultisignatureVerificationGas consume ed m (True # bits) [] keys = Panic"
| "ConsumeMultisignatureVerificationGas consume ed m (True # bits) (sig # sigs) (key # keys) =
     bind_outcome (SigVerificationGasConsumer consume ed m key sig) (\<lambda>m1.
     ConsumeMultisignatureVerificationGas consume ed m1 bits sigs keys)"
  by pat_completeness auto

termination
  by (relation "inv_image (less_than <*lex*> less_than) (case_sum (\<lambda>(_, _, _, _, sig). (size sig, 0))
      (\<lambda>(_, _, _, bits, sigs, _). (size_list size sigs, length bits)))") auto

subsection \<open>Signatures of typed data\<close>

text \<open>
  \<open>LegacyEip712SigVerificationDecorator\<close> of \<open>cosmos/eip712.go\<close>. The record holds what it calls: the
  signatures of the transaction and its signers, accounts with key and number, the sign bytes of a
  legacy transaction, and for the fee payer the hash of the typed data (built from JSON by
  \<open>ethereum/eip712\<close>), recovery of a public key (unmarshalled and compressed), its address, and the
  verification of a signature. \<open>eWeb3\<close> is the first extension option if its value is a Web3 option.
\<close>

record SignatureV2 =
  sig_Data :: SigData
  sig_Sequence :: uint64

record ExtensionOptionsWeb3Tx =
  TypedDataChainID :: uint64
  web3_FeePayer :: string
  FeePayerSig :: bytes

record ('b, 'r) eip712_env =
  eIsSigVerifiableTx :: "Tx \<Rightarrow> bool"
  eIsSigningTx :: "Tx \<Rightarrow> bool"
  eGetSignaturesV2 :: "Tx \<Rightarrow> (string, SignatureV2 list) outcome"
  eGetSigners :: "Tx \<Rightarrow> bytes list"
  eGetSignerAcc :: "'r \<Rightarrow> bytes \<Rightarrow> (string, 'b AccountI) outcome"
  eGetPubKey :: "'b AccountI \<Rightarrow> PubKey option"
  eGetAccountNumber :: "'b AccountI \<Rightarrow> uint64"
  eStdSignBytes :: "string \<Rightarrow> uint64 \<Rightarrow> uint64 \<Rightarrow> Tx \<Rightarrow> bytes"
  eWeb3 :: "Tx \<Rightarrow> ExtensionOptionsWeb3Tx option"
  eAccAddressFromBech32 :: "string \<Rightarrow> (string, bytes) outcome"
  eTypedDataHash :: "uint64 \<Rightarrow> Msg \<Rightarrow> bytes \<Rightarrow> bytes \<Rightarrow> (string, bytes) outcome"
  eRecoverPubkey :: "bytes \<Rightarrow> bytes \<Rightarrow> (string, bytes) outcome"
  eAddress :: "PubKey \<Rightarrow> bytes"
  eKeyBytes :: "PubKey \<Rightarrow> bytes"
  eVerifySignature :: "bytes \<Rightarrow> bytes \<Rightarrow> bytes \<Rightarrow> bool"

text \<open>The recovery byte of a signature from a wallet is 27 or 28.\<close>

definition remove_offset :: "bytes \<Rightarrow> bytes" where
  "remove_offset sig = (if sig ! 64 = 27 \<or> sig ! 64 = 28 then sig[64 := sig ! 64 - 27] else sig)"

definition SIGN_MODE_LEGACY_AMINO_JSON :: nat where "SIGN_MODE_LEGACY_AMINO_JSON = 127"

definition VerifySignature ::
  "('b, 'r) eip712_env \<Rightarrow> PubKey \<Rightarrow> string \<Rightarrow> uint64 \<Rightarrow> uint64 \<Rightarrow> SigData \<Rightarrow> Tx \<Rightarrow> (string, unit) outcome" where
  "VerifySignature P pubKey chainID accountNumber sequence sigData tx =
     (case sigData of
        MultiSig bits sigs \<Rightarrow> Err ''unexpected SignatureData''
      | SingleSig signMode signature \<Rightarrow>
          if signMode \<noteq> SIGN_MODE_LEGACY_AMINO_JSON then Err ''unexpected SignatureData: wrong SignMode''
          else if signature \<noteq> [] then Err ''invalid signature value; EIP712 must have the cosmos transaction signature empty''
          else (case GetMsgs tx of
            [] \<Rightarrow> Err ''tx does not contain any msgs to verify signature''
          | msg # _ \<Rightarrow>
              let txBytes = eStdSignBytes P chainID accountNumber sequence tx in
              bind_outcome (ParseChainID chainID) (\<lambda>signerChainID.
              case asExtensionOptions tx of
                None \<Rightarrow> Err ''tx does not contain any extensions''
              | Some opts \<Rightarrow>
                  if length opts \<noteq> 1 then Err ''tx does not contain expected amount of extension options''
                  else (case eWeb3 P tx of
                    None \<Rightarrow> Err ''unknown extension option''
                  | Some extOpt \<Rightarrow>
                      if TypedDataChainID extOpt \<noteq> word_of_int signerChainID then Err ''invalid chain-id''
                      else if web3_FeePayer extOpt = [] then Err ''no feePayer on ExtensionOptionsWeb3Tx''
                      else bind_outcome (eAccAddressFromBech32 P (web3_FeePayer extOpt)) (\<lambda>feePayer.
                           bind_outcome (eTypedDataHash P (TypedDataChainID extOpt) msg txBytes feePayer) (\<lambda>sigHash.
                           if length (FeePayerSig extOpt) \<noteq> 65 then Err ''signature length does not match''
                           else
                             let feePayerSig = remove_offset (FeePayerSig extOpt) in
                             bind_outcome (eRecoverPubkey P sigHash feePayerSig) (\<lambda>key.
                             let pk = EthSecp256k1 key in
                             if pubKey \<noteq> pk then Err ''feePayer pubkey is different from transaction pubkey''
                             else if eAddress P pk \<noteq> feePayer then Err ''failed to verify delegated fee payer signature''
                             else if \<not> eVerifySignature P (eKeyBytes P pubKey) sigHash (butlast feePayerSig)
                             then Err ''unable to verify signer signature of EIP712 typed data''
                             else Ok ())))))))"

definition LegacyEip712SigVerification_AnteHandle :: "('b, 'r, 'cc) sdk \<Rightarrow> ('b, 'r) eip712_env \<Rightarrow> ('r, 'd) AnteDecorator" where
  "LegacyEip712SigVerification_AnteHandle D P c tx simulate next_handler =
     (if IsReCheckTx c then next_handler c tx simulate
      else if \<not> eIsSigVerifiableTx P tx then Err ''tx does not implement authsigning.SigVerifiableTx''
      else if \<not> eIsSigningTx P tx then Err ''tx does not implement the authsigning.Tx interface''
      else bind_outcome (eGetSignaturesV2 P tx) (\<lambda>sigs.
        case (sigs, eGetSigners P tx) of
          ([sig], [signer]) \<Rightarrow>
            bind_outcome (eGetSignerAcc P (modules (evmCtx c)) signer) (\<lambda>acc.
            let sequence = GetSequence D (Evm_Keeper.base_of acc);
                accNum = (if BlockHeight (evmCtx c) = 0 then 0 else eGetAccountNumber P acc)
            in if \<not> simulate \<and> eGetPubKey P acc = None then Err ''pubkey on account is not set''
               else if sig_Sequence sig \<noteq> sequence then Err ''account sequence mismatch''
               else if simulate then next_handler c tx simulate
               else (case eGetPubKey P acc of
                 None \<Rightarrow> Panic
               | Some pubKey \<Rightarrow>
                   (case VerifySignature P pubKey (ChainIDString (evmCtx c)) accNum sequence (sig_Data sig) tx of
                      Ok _ \<Rightarrow> next_handler c tx simulate
                    | Err e \<Rightarrow> Err ''signature verification failed''
                    | Panic \<Rightarrow> Panic)))
        | ([sig], _) \<Rightarrow> Err ''invalid number of signers''
        | _ \<Rightarrow> Err ''EIP712 signatures allows just one signature''))"

subsection \<open>What the decorators call\<close>

text \<open>
  \<open>cCeilRound\<close> is \<open>Ceil().RoundInt()\<close> of a decimal, \<open>cInt\<close> the overflow check of \<open>math.Int\<close>, \<open>cSafeSub\<close>
  subtraction with the flag for a negative amount, \<open>cUseGrantedFees\<close> the fee-grant keeper if there is one.
\<close>

record ('b, 'r, 'cc, 'd, 'vb) cosmos_env =
  cante :: "('b, 'r, 'cc, 'd, 'vb) ante_env"
  cCeilRound :: "'d \<Rightarrow> int option"
  cInt :: "int \<Rightarrow> int option"
  cNewCoin :: "string \<Rightarrow> int \<Rightarrow> (string \<times> int) option"
  cIsAnyGTE :: "coins \<Rightarrow> coins \<Rightarrow> bool"
  cSafeSub :: "coins \<Rightarrow> coins \<Rightarrow> coins \<times> bool"
  cDecCoinsIsZero :: "(string \<times> 'd) list \<Rightarrow> bool"
  cFeeCollectorSet :: bool
  cUseGrantedFees :: "('r \<Rightarrow> bytes \<Rightarrow> bytes \<Rightarrow> coins \<Rightarrow> Msg list \<Rightarrow> (string, 'r) outcome) option"
  cGetAddress :: "'b AccountI \<Rightarrow> bytes"
  ceip712 :: "('b, 'r) eip712_env"
  cSimulationGasLimit :: "uint64 option"
  cNewGasMeter :: "uint64 \<Rightarrow> infiniteGasMeterWithLimit"
  cSetUpContext :: "('r, 'd) AnteDecorator"
  cExtensionOptions :: "('r, 'd) AnteDecorator"
  cValidateBasic :: "('r, 'd) AnteDecorator"
  cTxTimeoutHeight :: "('r, 'd) AnteDecorator"
  cValidateMemo :: "('r, 'd) AnteDecorator"
  cConsumeGasForTxSize :: "('r, 'd) AnteDecorator"
  cSetPubKey :: "('r, 'd) AnteDecorator"
  cValidateSigCount :: "('r, 'd) AnteDecorator"
  cSigGasConsume :: "('r, 'd) AnteDecorator"
  cSigVerification :: "('r, 'd) AnteDecorator"
  cIncrementSequence :: "('r, 'd) AnteDecorator"
  cRedundantRelay :: "('r, 'd) AnteDecorator"

abbreviation cosmos_decs :: "('b, 'r, 'cc, 'd, 'vb) cosmos_env \<Rightarrow> 'd dec_ops" where
  "cosmos_decs C \<equiv> xdecs (achain (cante C))"

text \<open>A nil slice of coins counts as no coins.\<close>

definition fee_coins :: "('b, 'r, 'cc, 'd, 'vb) cosmos_env \<Rightarrow> FeeTx \<Rightarrow> coins" where
  "fee_coins C feeTx = (case GetFee feeTx of None \<Rightarrow> NoCoins (acoins (cante C)) | Some f \<Rightarrow> f)"

subsection \<open>Fees\<close>

definition MinGasPrice_AnteHandle :: "('b, 'r, 'cc, 'd, 'vb) cosmos_env \<Rightarrow> ('r, 'd) AnteDecorator" where
  "MinGasPrice_AnteHandle C c tx simulate next_handler =
     (let A = cante C in
      case asFeeTx tx of
        None \<Rightarrow> Err ''invalid transaction type, expected sdk.FeeTx''
      | Some feeTx \<Rightarrow>
          (case MinGasPrice (fm_GetParams (afm A) (fmCtx c)) of
             None \<Rightarrow> Panic
           | Some minGasPrice \<Rightarrow>
               if aDecIsZero A minGasPrice \<or> simulate then next_handler c tx simulate
               else
                 bind_outcome (option_outcome (Option.bind
                   (Dec_Mul (cosmos_decs C) minGasPrice (aNewDecFromBigInt A (uint (feeTx_GetGas feeTx)))) (cCeilRound C))) (\<lambda>fee.
                 bind_outcome (if fee > 0 then option_outcome (Coins_Add (acoins A) [] [(EvmDenom (ante_Params A c), fee)]) else Ok [])
                   (\<lambda>requiredFees.
                 case GetFee feeTx of
                   None \<Rightarrow> Err ''fee not provided''
                 | Some feeCoins \<Rightarrow>
                     if \<not> cIsAnyGTE C feeCoins requiredFees then Err ''provided fee < minimum global fee''
                     else next_handler c tx simulate))))"

text \<open>The fees required by the node's minimal gas prices; \<open>int64(gas)\<close> reads the word as signed.\<close>

fun required_fees ::
  "('b, 'r, 'cc, 'd, 'vb) cosmos_env \<Rightarrow> 'd \<Rightarrow> (string \<times> 'd) list \<Rightarrow> coins option" where
  "required_fees C glDec [] = Some []"
| "required_fees C glDec ((denom, price) # gps) =
     Option.bind (Dec_Mul (cosmos_decs C) price glDec) (\<lambda>fee.
     Option.bind (cCeilRound C fee) (\<lambda>amount.
     Option.bind (cNewCoin C denom amount) (\<lambda>coin.
     map_option (\<lambda>fees. coin # fees) (required_fees C glDec gps))))"

fun evm_getTxPriority :: "int \<Rightarrow> coins \<Rightarrow> int \<Rightarrow> int \<Rightarrow> int option" where
  "evm_getTxPriority reduction [] gas priority = Some priority"
| "evm_getTxPriority reduction ((d, amount) # fees) gas priority =
     Option.bind (big_Quo amount gas) (\<lambda>gasPrice.
     Option.bind (big_Quo gasPrice reduction) (\<lambda>amt.
     let p = clamp_priority amt
     in evm_getTxPriority reduction fees gas (if priority = 0 \<or> p < priority then p else priority)))"

definition evm_checkTxFeeWithValidatorMinGasPrices ::
  "('b, 'r, 'cc, 'd, 'vb) cosmos_env \<Rightarrow> ('r, 'd) AnteCtx \<Rightarrow> FeeTx \<Rightarrow> (string, coins \<times> int) outcome" where
  "evm_checkTxFeeWithValidatorMinGasPrices C c feeTx =
     (let feeCoins = fee_coins C feeTx; gas = sint (feeTx_GetGas feeTx) in
      bind_outcome
        (if IsCheckTx c \<and> \<not> cDecCoinsIsZero C (MinGasPrices c) then
           bind_outcome (option_outcome (required_fees C (NewDec (cosmos_decs C) gas) (MinGasPrices c))) (\<lambda>requiredFees.
           if \<not> cIsAnyGTE C feeCoins requiredFees then Err ''insufficient fees'' else Ok ())
         else Ok ()) (\<lambda>_.
      bind_outcome (option_outcome (evm_getTxPriority (aPriorityReduction (cante C)) feeCoins gas 0)) (\<lambda>priority.
      Ok (feeCoins, priority))))"

text \<open>The first extension option for dynamic fees has the maximal tip.\<close>

fun tip_option :: "(string \<times> int option) list \<Rightarrow> int" where
  "tip_option [] = max_int64"
| "tip_option ((url, Some price) # opts) = price"
| "tip_option ((url, None) # opts) = tip_option opts"

definition maxPriorityPrice :: "Tx \<Rightarrow> int" where
  "maxPriorityPrice tx = (case asExtensionOptions tx of None \<Rightarrow> max_int64 | Some opts \<Rightarrow> tip_option opts)"

definition NewDynamicFeeChecker ::
  "('b, 'r, 'cc, 'd, 'vb) cosmos_env \<Rightarrow> ('r, 'd) AnteCtx \<Rightarrow> Tx \<Rightarrow> FeeTx \<Rightarrow> (string, coins \<times> int) outcome" where
  "NewDynamicFeeChecker C c tx feeTx =
     (let A = cante C in
      if BlockHeight (evmCtx c) = 0 then evm_checkTxFeeWithValidatorMinGasPrices C c feeTx
      else case ante_BaseFee A c of
        None \<Rightarrow> evm_checkTxFeeWithValidatorMinGasPrices C c feeTx
      | Some baseFee \<Rightarrow>
          let denom = EvmDenom (ante_Params A c); gas = uint (feeTx_GetGas feeTx); tip = maxPriorityPrice tx in
          if tip < 0 then Err ''max priority price cannot be negative''
          else bind_outcome (option_outcome (big_Quo (AmountOf (acoins A) (fee_coins C feeTx) denom) gas)) (\<lambda>feeCap.
               bind_outcome (option_outcome (NewIntFromBigInt (ante_lib A) baseFee)) (\<lambda>baseFeeInt.
               bind_outcome (option_outcome (Option.bind (EffectiveGasPrice (Some baseFeeInt) (Some feeCap) (Some tip))
                 (NewIntFromBigInt (ante_lib A)))) (\<lambda>effectivePrice.
               bind_outcome (option_outcome (cInt C (effectivePrice * gas))) (\<lambda>amount.
               bind_outcome (option_outcome (Option.bind (cInt C (effectivePrice - baseFeeInt)) (\<lambda>p. big_Quo p (aPriorityReduction A))))
                 (\<lambda>bigPriority.
               Ok ([(denom, amount)], clamp_priority bigPriority)))))))"

text \<open>\<open>cosmos/fees.go\<close> has its own version of the fallback, used if no fee checker is configured.\<close>

definition checkFeeCoinsAgainstMinGasPrices ::
  "('b, 'r, 'cc, 'd, 'vb) cosmos_env \<Rightarrow> ('r, 'd) AnteCtx \<Rightarrow> coins \<Rightarrow> uint64 \<Rightarrow> (string, unit) outcome" where
  "checkFeeCoinsAgainstMinGasPrices C c feeCoins gas =
     (if cDecCoinsIsZero C (MinGasPrices c) then Ok ()
      else bind_outcome (option_outcome (required_fees C (NewDec (cosmos_decs C) (sint gas)) (MinGasPrices c))) (\<lambda>requiredFees.
           if \<not> cIsAnyGTE C feeCoins requiredFees then Err ''insufficient fees'' else Ok ()))"

fun cosmos_getTxPriority :: "coins \<Rightarrow> int \<Rightarrow> int \<Rightarrow> int option" where
  "cosmos_getTxPriority [] gas priority = Some priority"
| "cosmos_getTxPriority ((d, amount) # fees) gas priority =
     Option.bind (big_Quo amount gas) (\<lambda>gasPrice.
     let p = clamp_priority gasPrice
     in cosmos_getTxPriority fees gas (if priority = 0 \<or> p < priority then p else priority))"

definition cosmos_checkTxFeeWithValidatorMinGasPrices ::
  "('b, 'r, 'cc, 'd, 'vb) cosmos_env \<Rightarrow> ('r, 'd) AnteCtx \<Rightarrow> Tx \<Rightarrow> FeeTx \<Rightarrow> (string, coins \<times> int) outcome" where
  "cosmos_checkTxFeeWithValidatorMinGasPrices C c tx feeTx =
     (let feeCoins = fee_coins C feeTx; gas = feeTx_GetGas feeTx in
      bind_outcome (if IsCheckTx c then checkFeeCoinsAgainstMinGasPrices C c feeCoins gas else Ok ()) (\<lambda>_.
      bind_outcome (option_outcome (cosmos_getTxPriority feeCoins (sint gas) 0)) (\<lambda>priority.
      Ok (feeCoins, priority))))"

text \<open>Rewards are claimed if the balance is too low, then the SDK deducts the fees.\<close>

definition deductFeesFromBalanceOrUnclaimedStakingRewards ::
  "('b, 'r, 'cc, 'd, 'vb) cosmos_env \<Rightarrow> 'r \<Rightarrow> 'b AccountI \<Rightarrow> coins \<Rightarrow> (string, 'r) outcome" where
  "deductFeesFromBalanceOrUnclaimedStakingRewards C r acc fees =
     bind_outcome (ClaimStakingRewardsIfNecessary (cante C) r (cGetAddress C acc) fees) (\<lambda>r1.
     aDeductFees (cante C) r1 acc fees)"

definition use_grant ::
  "('b, 'r, 'cc, 'd, 'vb) cosmos_env \<Rightarrow> Tx \<Rightarrow> coins \<Rightarrow> bytes \<Rightarrow> bytes option \<Rightarrow> 'r \<Rightarrow> (string, bytes \<times> 'r) outcome" where
  "use_grant C tx fees feePayer feeGranter r =
     (case feeGranter of
        None \<Rightarrow> Ok (feePayer, r)
      | Some granter \<Rightarrow>
          (case cUseGrantedFees C of
             None \<Rightarrow> Err ''fee grants are not enabled''
           | Some useGrantedFees \<Rightarrow>
               if granter \<noteq> feePayer then
                 bind_outcome (useGrantedFees r granter feePayer fees (GetMsgs tx)) (\<lambda>r1. Ok (granter, r1))
               else Ok (granter, r)))"

definition cosmos_deductFee ::
  "('b, 'r, 'cc, 'd, 'vb) cosmos_env \<Rightarrow> ('r, 'd) AnteCtx \<Rightarrow> Tx \<Rightarrow> coins \<Rightarrow> bytes \<Rightarrow> bytes option \<Rightarrow>
     (string, ('r, 'd) AnteCtx) outcome" where
  "cosmos_deductFee C c tx fees feePayer feeGranter =
     (if Coins_IsZero (acoins (cante C)) fees then Ok c
      else if \<not> cFeeCollectorSet C then Err ''fee collector module account has not been set''
      else bind_outcome (use_grant C tx fees feePayer feeGranter (modules (evmCtx c))) (\<lambda>(deductFeesFrom, r).
        case akGetAccount (ante_sdk (cante C)) r deductFeesFrom of
          None \<Rightarrow> Err ''fee payer address does not exist''
        | Some acc \<Rightarrow>
            bind_outcome (deductFeesFromBalanceOrUnclaimedStakingRewards C r acc fees) (\<lambda>r1.
            Ok (c\<lparr>evmCtx := (evmCtx c)\<lparr>modules := r1\<rparr>, Events := Events c @ [TxFeeFrom fees deductFeesFrom]\<rparr>))))"

definition DeductFee_AnteHandle ::
  "('b, 'r, 'cc, 'd, 'vb) cosmos_env \<Rightarrow> (('r, 'd) AnteCtx \<Rightarrow> Tx \<Rightarrow> FeeTx \<Rightarrow> (string, coins \<times> int) outcome) \<Rightarrow>
     ('r, 'd) AnteDecorator" where
  "DeductFee_AnteHandle C txFeeChecker c tx simulate next_handler =
     (case asFeeTx tx of
        None \<Rightarrow> Err ''Tx must be a FeeTx''
      | Some feeTx \<Rightarrow>
          if \<not> simulate \<and> BlockHeight (evmCtx c) > 0 \<and> feeTx_GetGas feeTx = 0 then Err ''must provide positive gas''
          else bind_outcome (if simulate then Ok (fee_coins C feeTx, 0) else txFeeChecker c tx feeTx) (\<lambda>(fee, priority).
               bind_outcome (cosmos_deductFee C c tx
                 (if fee_exempt (cante C) (modules (evmCtx c)) (FeePayer feeTx) then NoCoins (acoins (cante C)) else fee)
                 (FeePayer feeTx) (FeeGranter feeTx)) (\<lambda>c1.
               next_handler (c1\<lparr>Priority := priority\<rparr>) tx simulate)))"

subsection \<open>Delegations of vesting accounts\<close>

text \<open>For each signer; a signer that is no vesting account ends the loop.\<close>

fun check_delegation ::
  "('b, 'r, 'cc, 'd, 'vb) cosmos_env \<Rightarrow> ('r, 'd) AnteCtx \<Rightarrow> int \<Rightarrow> bytes list \<Rightarrow> (string, unit) outcome" where
  "check_delegation C c amount [] = Ok ()"
| "check_delegation C c amount (addr # signers) =
     (let A = cante C in
      case akGetAccount (ante_sdk A) (modules (evmCtx c)) addr of
        None \<Rightarrow> Err ''account does not exist''
      | Some acc \<Rightarrow>
          (case aAsClawback A acc of
             None \<Rightarrow> Ok ()
           | Some clawbackAccount \<Rightarrow>
               bind_outcome (option_outcome (GetVestedOnly (acoins A) clawbackAccount (ante_BlockTime c))) (\<lambda>coins.
               if coins = [] then Err ''account has no vested coins''
               else
                 let bondDenom = aBondDenom A (modules (evmCtx c));
                     balance = bkGetBalance (ante_sdk A) (modules (evmCtx c)) addr bondDenom
                 in bind_outcome (option_outcome (GetUnvestedOnly (acoins A) clawbackAccount (ante_BlockTime c))) (\<lambda>unvestedOnly.
                    let (difference, hasNeg) = cSafeSub C [(bondDenom, balance)] unvestedOnly;
                        spendable = (if hasNeg then NoCoins (acoins A) else difference)
                    in if AmountOf (acoins A) spendable bondDenom < amount then Err ''cannot delegate unvested coins''
                       else check_delegation C c amount signers))))"

fun validateMsg ::
  "('b, 'r, 'cc, 'd, 'vb) cosmos_env \<Rightarrow> ('r, 'd) AnteCtx \<Rightarrow> Msg \<Rightarrow> (string, unit) outcome" where
  "validateMsg C c (MsgDelegate signers amount) = check_delegation C c amount signers"
| "validateMsg C c msg = Ok ()"

fun validateAuthz ::
  "('b, 'r, 'cc, 'd, 'vb) cosmos_env \<Rightarrow> ('r, 'd) AnteCtx \<Rightarrow> Msg option list \<Rightarrow> (string, unit) outcome" where
  "validateAuthz C c [] = Ok ()"
| "validateAuthz C c (None # ms) = Err ''cannot unmarshal authz exec msgs''"
| "validateAuthz C c (Some innerMsg # ms) = bind_outcome (validateMsg C c innerMsg) (\<lambda>_. validateAuthz C c ms)"

definition vesting_delegation ::
  "('b, 'r, 'cc, 'd, 'vb) cosmos_env \<Rightarrow> ('r, 'd) AnteCtx \<Rightarrow> Msg \<Rightarrow> unit \<Rightarrow> (string, unit) outcome" where
  "vesting_delegation C c msg _ = (case msg of MsgExec packed \<Rightarrow> validateAuthz C c packed | _ \<Rightarrow> validateMsg C c msg)"

definition VestingDelegation_AnteHandle :: "('b, 'r, 'cc, 'd, 'vb) cosmos_env \<Rightarrow> ('r, 'd) AnteDecorator" where
  "VestingDelegation_AnteHandle C c tx simulate next_handler =
     bind_outcome (fold_outcome (vesting_delegation C c) (GetMsgs tx) ()) (\<lambda>_. next_handler c tx simulate)"

subsection \<open>The decorators of x/wasm\<close>

definition TXCounterPrefix :: bytes where "TXCounterPrefix = [8]"

definition encodeHeightCounter :: "int \<Rightarrow> 32 word \<Rightarrow> bytes" where
  "encodeHeightCounter height counter = be_bytes 8 (word_of_int height :: uint64) @ be_bytes 4 counter"

text \<open>Slices that are too short panic.\<close>

definition decodeHeightCounter :: "bytes \<Rightarrow> (int \<times> 32 word) option" where
  "decodeHeightCounter bz =
     (if length bz < 12 then None
      else Some (sint (word_of_nat (be_nat (take 8 bz)) :: uint64), word_of_nat (be_nat (take 4 (drop 8 bz)))))"

definition CountTX_AnteHandle :: "('r, 'd) AnteDecorator" where
  "CountTX_AnteHandle c tx simulate next_handler =
     (if simulate then next_handler c tx simulate
      else
        let currentHeight = BlockHeight (evmCtx c) in
        bind_outcome
          (case fmlookup (wasmStore c) TXCounterPrefix of
             None \<Rightarrow> Ok 0
           | Some bz \<Rightarrow>
               bind_outcome (option_outcome (decodeHeightCounter bz)) (\<lambda>(lastHeight, val).
               Ok (if currentHeight = lastHeight then val else 0))) (\<lambda>txCounter.
        next_handler (c\<lparr>wasmStore := fmupd TXCounterPrefix (encodeHeightCounter currentHeight (txCounter + 1)) (wasmStore c),
            TXCounter := Some txCounter\<rparr>) tx simulate))"

text \<open>Consensus parameters without a block section are a nil pointer.\<close>

definition LimitSimulationGas_AnteHandle :: "('b, 'r, 'cc, 'd, 'vb) cosmos_env \<Rightarrow> ('r, 'd) AnteDecorator" where
  "LimitSimulationGas_AnteHandle C c tx simulate next_handler =
     (let with_limit = (\<lambda>l. c\<lparr>evmCtx := (evmCtx c)\<lparr>GasMeter := cNewGasMeter C l\<rparr>\<rparr>) in
      if \<not> simulate then next_handler c tx simulate
      else case cSimulationGasLimit C of
        Some l \<Rightarrow> next_handler (with_limit l) tx simulate
      | None \<Rightarrow>
          (case fm_maxGas (fmCtx c) of
             None \<Rightarrow> Panic
           | Some maxGas \<Rightarrow>
               if maxGas > 0 then next_handler (with_limit (word_of_int maxGas)) tx simulate else next_handler c tx simulate))"

subsection \<open>The handlers\<close>

text \<open>The simulation limit is checked when the decorator is built, for every transaction.\<close>

definition newCosmosAnteHandler :: "('b, 'r, 'cc, 'd, 'vb) cosmos_env \<Rightarrow> ('r, 'd) AnteHandler" where
  "newCosmosAnteHandler C c tx simulate =
     (if cSimulationGasLimit C = Some 0 then Panic
      else ChainAnteDecorators
        [RejectMessages_AnteHandle, AuthzLimiter_AnteHandle disabledMsgTypes, cSetUpContext C, cExtensionOptions C,
         cValidateBasic C, cTxTimeoutHeight C, cValidateMemo C, MinGasPrice_AnteHandle C, cConsumeGasForTxSize C,
         DeductFee_AnteHandle C (NewDynamicFeeChecker C), VestingDelegation_AnteHandle C, LimitSimulationGas_AnteHandle C,
         CountTX_AnteHandle, cSetPubKey C, cValidateSigCount C, cSigGasConsume C, cSigVerification C,
         cIncrementSequence C, cRedundantRelay C, GasWanted_AnteHandle (cante C), GetValidator_AnteHandle] c tx simulate)"

definition newLegacyCosmosAnteHandlerEip712 :: "('b, 'r, 'cc, 'd, 'vb) cosmos_env \<Rightarrow> ('r, 'd) AnteHandler" where
  "newLegacyCosmosAnteHandlerEip712 C = ChainAnteDecorators
     [RejectMessages_AnteHandle, AuthzLimiter_AnteHandle disabledMsgTypes, cSetUpContext C, cValidateBasic C,
      cTxTimeoutHeight C, MinGasPrice_AnteHandle C, cValidateMemo C, cConsumeGasForTxSize C,
      DeductFee_AnteHandle C (NewDynamicFeeChecker C), VestingDelegation_AnteHandle C, cSetPubKey C, cValidateSigCount C,
      cSigGasConsume C, LegacyEip712SigVerification_AnteHandle (ante_sdk (cante C)) (ceip712 C), cIncrementSequence C, cRedundantRelay C,
      GasWanted_AnteHandle (cante C)]"

text \<open>The first extension option decides.\<close>

definition NewAnteHandler :: "('b, 'r, 'cc, 'd, 'vb) cosmos_env \<Rightarrow> ('r, 'd) AnteHandler" where
  "NewAnteHandler C c tx sim =
     (case asExtensionOptions tx of
        Some ((typeURL, _) # _) \<Rightarrow>
          if typeURL = ''/ethermint.evm.v1.ExtensionOptionsEthereumTx'' then newEVMAnteHandler (cante C) c tx sim
          else if typeURL = ''/ethermint.types.v1.ExtensionOptionsWeb3Tx'' then newLegacyCosmosAnteHandlerEip712 C c tx sim
          else if typeURL = ''/ethermint.types.v1.ExtensionOptionDynamicFeeTx'' then newCosmosAnteHandler C c tx sim
          else Err ''rejecting tx with unsupported extension option''
      | _ \<Rightarrow> newCosmosAnteHandler C c tx sim)"

end
