(* ===== verification/Ante_Evm_Laws.thy ===== *)
theory Ante_Evm_Laws
  imports Ante_Evm Evm_Fees_Laws
begin

text \<open>
  Properties of the ante handler of Ethereum transactions. The SDK's keepers enter through the
  locale \<open>ante_modules\<close>: fee deduction and the withdrawal of rewards keep the accounts that exist, a
  vesting account is stored under its address, and addresses print differently.
  The lemmas of the first part say what a decorator that succeeds has passed on.
\<close>

subsection \<open>What the keepers promise\<close>

definition mods_keep :: "('b, 'r, 'cc) sdk \<Rightarrow> 'r \<Rightarrow> 'r \<Rightarrow> bool" where
  "mods_keep D r r' \<longleftrightarrow> ssGetParamSetIfExists D r' = ssGetParamSetIfExists D r \<and>
     (\<forall>a acc. akGetAccount D r a = Some acc \<longrightarrow> akGetAccount D r' a = Some acc)"

lemma mods_keep_refl [simp]: "mods_keep D r r"
  by (simp add: mods_keep_def)

lemma mods_keep_trans [trans]: "mods_keep D r r1 \<Longrightarrow> mods_keep D r1 r2 \<Longrightarrow> mods_keep D r r2"
  by (simp add: mods_keep_def)

text \<open>The part of the context that decides parameters and accounts.\<close>

definition ctx_keep :: "('b, 'r, 'cc) sdk \<Rightarrow> 'r Ctx \<Rightarrow> 'r Ctx \<Rightarrow> bool" where
  "ctx_keep D c c' \<longleftrightarrow> kvStore c' = kvStore c \<and> BlockHeight c' = BlockHeight c \<and> mods_keep D (modules c) (modules c')"

lemma ctx_keep_refl [simp]: "ctx_keep D c c"
  by (simp add: ctx_keep_def)

lemma ctx_keep_trans [trans]: "ctx_keep D c c1 \<Longrightarrow> ctx_keep D c1 c2 \<Longrightarrow> ctx_keep D c c2"
  by (auto simp: ctx_keep_def intro: mods_keep_trans)

lemma ctx_keep_modules: "mods_keep D (modules c) r \<Longrightarrow> ctx_keep D c (c\<lparr>modules := r\<rparr>)"
  by (simp add: ctx_keep_def)

lemma ctx_keep_gas [simp]:
  "ctx_keep D c (c'\<lparr>GasMeter := g\<rparr>) = ctx_keep D c c'"
  "ctx_keep D c (ResetTransientGasUsed c') = ctx_keep D c c'"
  by (simp_all add: ctx_keep_def ResetTransientGasUsed_def)

lemma ctx_keep_params: "ctx_keep D c c' \<Longrightarrow> GetParams D c' = GetParams D c"
  by (simp add: ctx_keep_def mods_keep_def GetParams_def GetLegacyParams_def Let_def)

lemma AddressBytes_BytesToAddress [simp]: "BytesToAddress (AddressBytes a) = a"
proof -
  have "be_nat (AddressBytes a) = unat a"
    using unat_less_pow [of a] by (simp add: AddressBytes_def be_nat_be_bytes)
  then show ?thesis by (simp add: BytesToAddress_def)
qed

locale ante_modules =
  fixes A :: "('b, 'r, 'cc, 'd, 'vb) ante_env" and adr :: "'b \<Rightarrow> bytes"
  assumes accounts: "account_laws (ante_sdk A) adr"
    and deduct_keeps: "aDeductFees A r acc fees = Ok r' \<Longrightarrow> mods_keep (ante_sdk A) r r'"
    and withdraw_keeps: "aWithdraw A r a v = Ok (reward, r') \<Longrightarrow> mods_keep (ante_sdk A) r r'"
    and clawback_address: "akGetAccount (ante_sdk A) r a = Some acc \<Longrightarrow> aAsClawback A acc = Some va \<Longrightarrow> aVestingAddress A va = a"
    and string_inj: "aAccString A a = aAccString A b \<Longrightarrow> a = b"
begin

lemma stored_address: "akGetAccount (ante_sdk A) r a = Some acc \<Longrightarrow> adr (Evm_Keeper.base_of acc) = a"
  using accounts unfolding account_laws_def by blast

lemma set_account [simp]:
  "akGetAccount (ante_sdk A) (akSetAccount (ante_sdk A) r acc) = (akGetAccount (ante_sdk A) r)(adr (Evm_Keeper.base_of acc) \<mapsto> acc)"
  "bkGetBalance (ante_sdk A) (akSetAccount (ante_sdk A) r acc) = bkGetBalance (ante_sdk A) r"
  "ssGetParamSetIfExists (ante_sdk A) (akSetAccount (ante_sdk A) r acc) = ssGetParamSetIfExists (ante_sdk A) r"
  using accounts unfolding account_laws_def by blast+

lemma set_sequence: "SetSequence (ante_sdk A) b n = Ok b' \<Longrightarrow> adr b' = adr b \<and> GetSequence (ante_sdk A) b' = n"
  using accounts unfolding account_laws_def by blast

lemma new_account:
  assumes "akNewAccountWithAddress (ante_sdk A) r a = (acc, r')"
  shows "adr (Evm_Keeper.base_of acc) = a" "akGetAccount (ante_sdk A) r' = akGetAccount (ante_sdk A) r"
    "bkGetBalance (ante_sdk A) r' = bkGetBalance (ante_sdk A) r"
    "ssGetParamSetIfExists (ante_sdk A) r' = ssGetParamSetIfExists (ante_sdk A) r"
  using accounts assms unfolding account_laws_def by (metis fst_conv snd_conv)+

lemma withdraw_rewards_keep:
  "withdraw_rewards A addr denom amount vals rewards r = Ok (rewards', r') \<Longrightarrow> mods_keep (ante_sdk A) r r'"
proof (induction vals arbitrary: rewards r)
  case (Cons v vals)
  from Cons.prems show ?case
    by (auto split: if_splits dest!: Cons.IH dest: withdraw_keeps intro: mods_keep_trans [OF withdraw_keeps])
qed simp

lemma claim_keep: "ClaimStakingRewardsIfNecessary A r addr amount = Ok r' \<Longrightarrow> mods_keep (ante_sdk A) r r'"
  by (auto simp: ClaimStakingRewardsIfNecessary_def ClaimSufficientStakingRewards_def Let_def
      dest: withdraw_rewards_keep split: option.splits if_splits)

lemma deductFee_keep:
  assumes "evm_deductFee A c fees payer = Ok c'"
  shows "ctx_keep (ante_sdk A) c c'"
proof (cases "Coins_IsZero (acoins A) fees")
  case False
  then obtain r acc r' where "ClaimStakingRewardsIfNecessary A (modules c) payer fees = Ok r"
    "aDeductFees A r acc fees = Ok r'" "c' = c\<lparr>modules := r'\<rparr>"
    using assms by (auto simp: evm_deductFee_def DeductTxCostsFromUserBalance_def split: option.splits)
  then show ?thesis using claim_keep deduct_keeps mods_keep_trans by (fastforce intro: ctx_keep_modules)
qed (use assms in \<open>simp add: evm_deductFee_def\<close>)

lemma consume_gas_keep:
  assumes "consume_gas_msg A c exempt msg s = Ok s'"
  shows "ctx_keep (ante_sdk A) (gl_ctx s) (gl_ctx s')"
proof -
  obtain fees payer where "evm_deductFee A (gl_ctx s) fees payer = Ok (gl_ctx s')"
    using assms by (auto simp: consume_gas_msg_def Let_def)
  then show ?thesis by (rule deductFee_keep)
qed

lemma consume_gas_loop_keep:
  "fold_outcome (consume_gas_msg A c exempt) msgs s = Ok s' \<Longrightarrow> ctx_keep (ante_sdk A) (gl_ctx s) (gl_ctx s')"
proof (induction msgs arbitrary: s)
  case (Cons msg msgs)
  then obtain s1 where "consume_gas_msg A c exempt msg s = Ok s1" "fold_outcome (consume_gas_msg A c exempt) msgs s1 = Ok s'"
    by auto
  with Cons.IH consume_gas_keep show ?case using ctx_keep_trans by blast
qed simp

lemma verify_account_keep:
  assumes "verify_account A msg c = Ok c'"
  shows "ctx_keep (ante_sdk A) c c'"
proof -
  obtain m where m: "eth_msg msg = Ok m" and ne: "msg_GetFrom (ante_lib A) m \<noteq> []"
    using assms by (auto simp: verify_account_def Let_def split: if_splits)
  obtain x where x: "msg_GetFrom (ante_lib A) m = AddressBytes x"
    using ne by (auto simp: msg_GetFrom_def split: if_splits)
  show ?thesis
  proof (cases "keeper_GetAccount (ante_sdk A) c x")
    case None
    obtain acc r where new: "akNewAccountWithAddress (ante_sdk A) (modules c) (AddressBytes x) = (acc, r)"
      by (cases "akNewAccountWithAddress (ante_sdk A) (modules c) (AddressBytes x)")
    have c': "c' = c\<lparr>modules := akSetAccount (ante_sdk A) r acc\<rparr>"
      using assms m ne None new by (auto simp: verify_account_def Let_def x)
    have "akGetAccount (ante_sdk A) (modules c) (AddressBytes x) = None"
      using None by (simp add: keeper_GetAccount_def GetAccountWithoutBalance_def Let_def split: option.splits)
    then have "mods_keep (ante_sdk A) (modules c) (akSetAccount (ante_sdk A) r acc)"
      using new_account [OF new] by (auto simp: mods_keep_def)
    then show ?thesis by (simp add: c' ctx_keep_modules)
  next
    case (Some acct)
    then have "c' = c" using assms m ne by (auto simp: verify_account_def Let_def x split: if_splits)
    then show ?thesis by simp
  qed
qed

lemma verify_accounts_keep:
  "fold_outcome (verify_account A) msgs c = Ok c' \<Longrightarrow> ctx_keep (ante_sdk A) c c'"
  by (rule fold_outcome_invariant [where P = "ctx_keep (ante_sdk A) c"])
    (auto intro: ctx_keep_trans verify_account_keep)

end
subsection \<open>What decorators pass on\<close>

lemma MempoolFee_Ok: "EthMempoolFee_AnteHandle A c tx simulate n = Ok r \<Longrightarrow> n c tx simulate = Ok r"
  by (auto simp: EthMempoolFee_AnteHandle_def Let_def split: if_splits)

lemma MinGasPrice_Ok: "EthMinGasPrice_AnteHandle A c tx simulate n = Ok r \<Longrightarrow> n c tx simulate = Ok r"
  by (auto simp: EthMinGasPrice_AnteHandle_def split: if_splits option.splits)

lemma ValidateBasic_Ok: "EthValidateBasic_AnteHandle A c tx simulate n = Ok r \<Longrightarrow> n c tx simulate = Ok r"
  by (auto simp: EthValidateBasic_AnteHandle_def split: if_splits option.splits prod.splits)

lemma AccountVerification_Ok:
  assumes "EthAccountVerification_AnteHandle A c tx simulate n = Ok r"
  obtains ec where "if IsCheckTx c then fold_outcome (verify_account A) (GetMsgs tx) (evmCtx c) = Ok ec else ec = evmCtx c"
    "n (c\<lparr>evmCtx := ec\<rparr>) tx simulate = Ok r"
  using assms by (auto simp: EthAccountVerification_AnteHandle_def split: if_splits)

lemma CanTransfer_Ok: "CanTransfer_AnteHandle A c tx simulate n = Ok r \<Longrightarrow> n c tx simulate = Ok r"
  by (auto simp: CanTransfer_AnteHandle_def)

lemma VestingTransaction_Ok:
  assumes "EthVestingTransaction_AnteHandle A c tx simulate n = Ok r"
  obtains ex where "fold_outcome (vesting_msg A c) (GetMsgs tx) (\<lambda>_. None) = Ok ex" "n c tx simulate = Ok r"
  using assms by (auto simp: EthVestingTransaction_AnteHandle_def)

text \<open>
  What \<open>EthGasConsumeDecorator\<close> did, from context \<open>c\<close> to \<open>c'\<close>: nothing but the meter on a recheck, and
  otherwise the loop over the messages and a meter with the gas wanted as its limit.
\<close>

definition gas_consumed :: "('b, 'r, 'cc, 'd, 'vb) ante_env \<Rightarrow> ('r, 'd) AnteCtx \<Rightarrow> Tx \<Rightarrow> ('r, 'd) AnteCtx \<Rightarrow> bool" where
  "gas_consumed A c tx c' \<longleftrightarrow>
     (if IsReCheckTx c then c' = c\<lparr>evmCtx := (evmCtx c)\<lparr>GasMeter := NewInfiniteGasMeterWithLimit 0\<rparr>\<rparr>
      else \<exists>feeTx s. asFeeTx tx = Some feeTx \<and>
        fold_outcome (consume_gas_msg A c (fee_exempt A (modules (evmCtx c)) (FeePayer feeTx))) (GetMsgs tx)
          \<lparr>gl_ctx = evmCtx c, gasWanted = 0, minPriority = max_int64, gl_events = []\<rparr> = Ok s \<and>
        gasWanted s \<le> ante_BlockGasLimit c \<and>
        c' = c\<lparr>evmCtx := (gl_ctx s)\<lparr>GasMeter := NewInfiniteGasMeterWithLimit (gasWanted s)\<rparr>,
           Priority := minPriority s, Events := Events c @ gl_events s\<rparr>)"

lemma GasConsume_Ok:
  assumes "EthGasConsume_AnteHandle A c tx simulate n = Ok r"
  obtains c' where "gas_consumed A c tx c'" "n c' tx simulate = Ok r"
  using assms by (auto simp: EthGasConsume_AnteHandle_def gas_consumed_def not_less split: if_splits option.splits)

lemma GasWanted_Ok:
  assumes "GasWanted_AnteHandle A c tx simulate n = Ok r"
  obtains fm where "n (c\<lparr>fmCtx := fm\<rparr>) tx simulate = Ok r"
proof -
  have "n c tx simulate = Ok r \<or> (\<exists>fm. n (c\<lparr>fmCtx := fm\<rparr>) tx simulate = Ok r)"
    using assms by (auto simp: GasWanted_AnteHandle_def Let_def split: if_splits option.splits)
  then show thesis using that that [of "fmCtx c"] by auto
qed

lemma recover_sender_cong:
  assumes "ante_Params A c' = ante_Params A c" "BlockHeight (evmCtx c') = BlockHeight (evmCtx c)"
  shows "recover_sender A c' = recover_sender A c"
  by (intro ext) (simp only: recover_sender_def assms)

text \<open>The stages of a run of the whole chain.\<close>

lemma chain_step:
  "ChainAnteDecorators (d # ds) c tx simulate = Ok r \<Longrightarrow> d c tx simulate (ChainAnteDecorators ds) = Ok r"
  by simp

lemma evm_chain_front:
  assumes "newEVMAnteHandler A c tx simulate = Ok r"
    and c0: "c0 = c\<lparr>evmCtx := ResetTransientGasUsed ((evmCtx c)\<lparr>GasMeter := aInfiniteGasMeter A\<rparr>)\<rparr>"
  obtains msgs where "map_outcome (recover_sender A c0) (GetMsgs tx) = Ok msgs"
    "ChainAnteDecorators
        [EthAccountVerification_AnteHandle A, CanTransfer_AnteHandle A, EthVestingTransaction_AnteHandle A,
         EthGasConsume_AnteHandle A, EthIncrementSenderSequence_AnteHandle A, GasWanted_AnteHandle A,
         EthEmitEvent_AnteHandle, GetValidator_AnteHandle] c0 (tx\<lparr>GetMsgs := msgs\<rparr>) simulate = Ok r"
proof -
  define ds where "ds =
        [EthAccountVerification_AnteHandle A, CanTransfer_AnteHandle A, EthVestingTransaction_AnteHandle A,
         EthGasConsume_AnteHandle A, EthIncrementSenderSequence_AnteHandle A, GasWanted_AnteHandle A,
         EthEmitEvent_AnteHandle, GetValidator_AnteHandle]"
  have "ChainAnteDecorators (EthMempoolFee_AnteHandle A # EthMinGasPrice_AnteHandle A #
      EthValidateBasic_AnteHandle A # EthSigVerification_AnteHandle A # ds) c0 tx simulate = Ok r"
    using chain_step [OF assms(1) [unfolded newEVMAnteHandler_def ds_def [symmetric]]] unfolding EthSetupContext_AnteHandle_def c0
    by (cases "isGasTx tx") (simp_all only: if_True if_False not_True_eq_False not_False_eq_True simp_thms outcome.distinct)
  from ValidateBasic_Ok [OF chain_step [OF MinGasPrice_Ok [OF chain_step [OF MempoolFee_Ok [OF chain_step [OF this]]]]]]
  have "EthSigVerification_AnteHandle A c0 tx simulate (ChainAnteDecorators ds) = Ok r" by (rule chain_step)
  then show thesis
    unfolding EthSigVerification_AnteHandle_def bind_outcome_Ok_iff by (elim exE conjE) (rule that [folded ds_def])
qed

lemma evm_chain_middle:
  assumes "ChainAnteDecorators
        [EthAccountVerification_AnteHandle A, CanTransfer_AnteHandle A, EthVestingTransaction_AnteHandle A,
         EthGasConsume_AnteHandle A, EthIncrementSenderSequence_AnteHandle A, GasWanted_AnteHandle A,
         EthEmitEvent_AnteHandle, GetValidator_AnteHandle] c t simulate = Ok r"
  obtains ec ex c2 where
    "if IsCheckTx c then fold_outcome (verify_account A) (GetMsgs t) (evmCtx c) = Ok ec else ec = evmCtx c"
    "fold_outcome (vesting_msg A (c\<lparr>evmCtx := ec\<rparr>)) (GetMsgs t) (\<lambda>_. None) = Ok ex"
    "gas_consumed A (c\<lparr>evmCtx := ec\<rparr>) t c2"
    "ChainAnteDecorators [EthIncrementSenderSequence_AnteHandle A, GasWanted_AnteHandle A,
         EthEmitEvent_AnteHandle, GetValidator_AnteHandle] c2 t simulate = Ok r"
proof -
  define ds where "ds = [EthIncrementSenderSequence_AnteHandle A, GasWanted_AnteHandle A,
         EthEmitEvent_AnteHandle, GetValidator_AnteHandle]"
  from AccountVerification_Ok [OF chain_step [OF assms [folded ds_def]]] obtain ec where
    ec: "if IsCheckTx c then fold_outcome (verify_account A) (GetMsgs t) (evmCtx c) = Ok ec else ec = evmCtx c"
    and tr: "ChainAnteDecorators (CanTransfer_AnteHandle A # EthVestingTransaction_AnteHandle A # EthGasConsume_AnteHandle A # ds)
      (c\<lparr>evmCtx := ec\<rparr>) t simulate = Ok r" .
  from VestingTransaction_Ok [OF chain_step [OF CanTransfer_Ok [OF chain_step [OF tr]]]] obtain ex where ex: "fold_outcome (vesting_msg A (c\<lparr>evmCtx := ec\<rparr>)) (GetMsgs t) (\<lambda>_. None) = Ok ex"
    and gas: "ChainAnteDecorators (EthGasConsume_AnteHandle A # ds) (c\<lparr>evmCtx := ec\<rparr>) t simulate = Ok r" .
  from GasConsume_Ok [OF chain_step [OF gas]] obtain c2 where "gas_consumed A (c\<lparr>evmCtx := ec\<rparr>) t c2" "ChainAnteDecorators ds c2 t simulate = Ok r" .
  then show thesis by (rule that [OF ec ex, folded ds_def])
qed

lemma evm_chain_end:
  assumes "ChainAnteDecorators [EthIncrementSenderSequence_AnteHandle A, GasWanted_AnteHandle A,
         EthEmitEvent_AnteHandle, GetValidator_AnteHandle] c t simulate = Ok (c', t')"
  obtains r fm evs where "fold_outcome (increment_sequence A) (GetMsgs t) (modules (evmCtx c)) = Ok r"
    "c' = c\<lparr>evmCtx := (evmCtx c)\<lparr>modules := r\<rparr>, fmCtx := fm, Events := Events c @ evs, Priority := 0\<rparr>" "t' = t"
proof -
  obtain r where r: "fold_outcome (increment_sequence A) (GetMsgs t) (modules (evmCtx c)) = Ok r"
    and gw: "ChainAnteDecorators [GasWanted_AnteHandle A, EthEmitEvent_AnteHandle, GetValidator_AnteHandle]
       (c\<lparr>evmCtx := (evmCtx c)\<lparr>modules := r\<rparr>\<rparr>) t simulate = Ok (c', t')"
    using chain_step [OF assms] unfolding EthIncrementSenderSequence_AnteHandle_def bind_outcome_Ok_iff by (elim exE conjE) rule
  from GasWanted_Ok [OF chain_step [OF gw]] obtain fm where "ChainAnteDecorators [EthEmitEvent_AnteHandle, GetValidator_AnteHandle]
       (c\<lparr>evmCtx := (evmCtx c)\<lparr>modules := r\<rparr>, fmCtx := fm\<rparr>) t simulate = Ok (c', t')" .
  then show thesis using that [OF r] by (auto simp: EthEmitEvent_AnteHandle_def GetValidator_AnteHandle_def)
qed

lemma newEVMAnteHandler_Ok:
  assumes "newEVMAnteHandler A c tx simulate = Ok (c', tx')"
  obtains c0 msgs ec c2 ex r where
    "c0 = c\<lparr>evmCtx := ResetTransientGasUsed ((evmCtx c)\<lparr>GasMeter := aInfiniteGasMeter A\<rparr>)\<rparr>"
    "map_outcome (recover_sender A c0) (GetMsgs tx) = Ok msgs" "tx' = tx\<lparr>GetMsgs := msgs\<rparr>"
    "if IsCheckTx c then fold_outcome (verify_account A) msgs (evmCtx c0) = Ok ec else ec = evmCtx c0"
    "fold_outcome (vesting_msg A (c0\<lparr>evmCtx := ec\<rparr>)) msgs (\<lambda>_. None) = Ok ex"
    "gas_consumed A (c0\<lparr>evmCtx := ec\<rparr>) tx' c2"
    "fold_outcome (increment_sequence A) msgs (modules (evmCtx c2)) = Ok r"
    "evmCtx c' = (evmCtx c2)\<lparr>modules := r\<rparr>" "Priority c' = 0"
    "IsCheckTx c' = IsCheckTx c2" "IsReCheckTx c' = IsReCheckTx c2"
proof -
  define c0 where "c0 = c\<lparr>evmCtx := ResetTransientGasUsed ((evmCtx c)\<lparr>GasMeter := aInfiniteGasMeter A\<rparr>)\<rparr>"
  have chk: "IsCheckTx c0 = IsCheckTx c" by (simp add: c0_def)
  from evm_chain_front [OF assms c0_def] obtain msgs where
    msgs: "map_outcome (recover_sender A c0) (GetMsgs tx) = Ok msgs" and
    rest: "ChainAnteDecorators
        [EthAccountVerification_AnteHandle A, CanTransfer_AnteHandle A, EthVestingTransaction_AnteHandle A,
         EthGasConsume_AnteHandle A, EthIncrementSenderSequence_AnteHandle A, GasWanted_AnteHandle A,
         EthEmitEvent_AnteHandle, GetValidator_AnteHandle] c0 (tx\<lparr>GetMsgs := msgs\<rparr>) simulate = Ok (c', tx')" .
  have get: "GetMsgs (tx\<lparr>GetMsgs := msgs\<rparr>) = msgs" by simp
  from evm_chain_middle [OF rest, unfolded get chk] obtain ec ex c2 where
    mid: "if IsCheckTx c then fold_outcome (verify_account A) msgs (evmCtx c0) = Ok ec else ec = evmCtx c0"
    "fold_outcome (vesting_msg A (c0\<lparr>evmCtx := ec\<rparr>)) msgs (\<lambda>_. None) = Ok ex"
    "gas_consumed A (c0\<lparr>evmCtx := ec\<rparr>) (tx\<lparr>GetMsgs := msgs\<rparr>) c2" and
    tail: "ChainAnteDecorators [EthIncrementSenderSequence_AnteHandle A, GasWanted_AnteHandle A,
         EthEmitEvent_AnteHandle, GetValidator_AnteHandle] c2 (tx\<lparr>GetMsgs := msgs\<rparr>) simulate = Ok (c', tx')" .
  from evm_chain_end [OF tail, unfolded get] obtain r fm evs where
    r: "fold_outcome (increment_sequence A) msgs (modules (evmCtx c2)) = Ok r" and
    c': "c' = c2\<lparr>evmCtx := (evmCtx c2)\<lparr>modules := r\<rparr>, fmCtx := fm, Events := Events c2 @ evs, Priority := 0\<rparr>" and
    tx': "tx' = tx\<lparr>GetMsgs := msgs\<rparr>" .
  show thesis by (rule that [OF c0_def msgs tx' mid(1,2) mid(3) [folded tx'] r]) (simp_all add: c')
qed
subsection \<open>Sequences\<close>

definition seq_of :: "('b, 'r, 'cc) sdk \<Rightarrow> 'r \<Rightarrow> bytes \<Rightarrow> uint64 option" where
  "seq_of D r a = map_option (\<lambda>acc. GetSequence D (Evm_Keeper.base_of acc)) (akGetAccount D r a)"

text \<open>The nonces of the messages whose sender is \<open>a\<close>, in order.\<close>

fun nonces_from :: "txlib \<Rightarrow> bytes \<Rightarrow> Msg list \<Rightarrow> uint64 list" where
  "nonces_from L a [] = []"
| "nonces_from L a (EthMsg m # msgs) =
     (case m_Data m of
        Some d \<Rightarrow> if msg_GetFrom L m = a then tx_GetNonce d # nonces_from L a msgs else nonces_from L a msgs
      | None \<Rightarrow> nonces_from L a msgs)"
| "nonces_from L a (_ # msgs) = nonces_from L a msgs"

definition counting_up :: "uint64 \<Rightarrow> uint64 list \<Rightarrow> bool" where
  "counting_up n ns \<longleftrightarrow> ns = map (\<lambda>i. n + of_nat i) [0..<length ns]"

lemma counting_up_Nil [simp]: "counting_up n []"
  by (simp add: counting_up_def)

lemma counting_up_Cons [simp]: "counting_up n (k # ns) \<longleftrightarrow> k = n \<and> counting_up (n + 1) ns"
proof -
  have "(\<lambda>i. n + of_nat (Suc i)) = (\<lambda>i. n + 1 + of_nat i)" by (simp add: fun_eq_iff algebra_simps)
  then show ?thesis by (simp add: counting_up_def map_upt_Suc del: upt_Suc of_nat_Suc)
qed

lemma length_nonces_from: "length (nonces_from L a msgs) \<le> length msgs"
  by (induction L a msgs rule: nonces_from.induct) (auto split: option.splits)

lemma base_with_base [simp]: "Evm_Keeper.base_of (Evm_Keeper.with_base acc b) = b"
  by (cases acc) auto

lemma eth_msg_Ok [simp]: "eth_msg msg = Ok m \<longleftrightarrow> msg = EthMsg m"
  by (cases msg) auto

lemma UnpackTxData_Ok [simp]: "UnpackTxData x = Ok d \<longleftrightarrow> x = Some d"
  by (cases x) (auto simp: UnpackTxData_def)

lemma seq_of_keep: "mods_keep D r r' \<Longrightarrow> seq_of D r a = Some n \<Longrightarrow> seq_of D r' a = Some n"
  by (auto simp: mods_keep_def seq_of_def)

context ante_modules
begin

lemma increment_step:
  assumes "increment_sequence A msg r = Ok r1"
  obtains m d n where "msg = EthMsg m" "m_Data m = Some d" "tx_GetNonce d = n"
    "seq_of (ante_sdk A) r (msg_GetFrom (ante_lib A) m) = Some n"
    "seq_of (ante_sdk A) r1 = (seq_of (ante_sdk A) r)(msg_GetFrom (ante_lib A) m \<mapsto> n + 1)"
    "ssGetParamSetIfExists (ante_sdk A) r1 = ssGetParamSetIfExists (ante_sdk A) r"
proof -
  let ?D = "ante_sdk A"
  obtain m d acc b where step: "msg = EthMsg m" "m_Data m = Some d"
    "akGetAccount ?D r (msg_GetFrom (ante_lib A) m) = Some acc"
    "tx_GetNonce d = GetSequence ?D (Evm_Keeper.base_of acc)"
    "SetSequence ?D (Evm_Keeper.base_of acc) (GetSequence ?D (Evm_Keeper.base_of acc) + 1) = Ok b"
    "r1 = akSetAccount ?D r (Evm_Keeper.with_base acc b)"
    using assms by (auto simp: increment_sequence_def Let_def split: option.splits if_splits)
  have "adr b = msg_GetFrom (ante_lib A) m" "GetSequence ?D b = GetSequence ?D (Evm_Keeper.base_of acc) + 1"
    using stored_address [OF step(3)] set_sequence [OF step(5)] by simp_all
  with step show thesis by (intro that [of m d "GetSequence ?D (Evm_Keeper.base_of acc)"]) (auto simp: seq_of_def fun_eq_iff)
qed

text \<open>
  A loop that succeeds: the nonces of every sender count up from its sequence, which is raised by
  their number.
\<close>

lemma increment_loop:
  assumes "fold_outcome (increment_sequence A) msgs r = Ok r'" "seq_of (ante_sdk A) r a = Some n"
  shows "counting_up n (nonces_from (ante_lib A) a msgs) \<and>
    seq_of (ante_sdk A) r' a = Some (n + of_nat (length (nonces_from (ante_lib A) a msgs)))"
  using assms
proof (induction msgs arbitrary: r n)
  case (Cons msg msgs)
  then obtain r1 where r1: "increment_sequence A msg r = Ok r1" "fold_outcome (increment_sequence A) msgs r1 = Ok r'" by auto
  from increment_step [OF r1(1)] obtain m d k where step: "msg = EthMsg m" "m_Data m = Some d" "tx_GetNonce d = k"
    "seq_of (ante_sdk A) r (msg_GetFrom (ante_lib A) m) = Some k"
    "seq_of (ante_sdk A) r1 = (seq_of (ante_sdk A) r)(msg_GetFrom (ante_lib A) m \<mapsto> k + 1)" .
  show ?case
  proof (cases "msg_GetFrom (ante_lib A) m = a")
    case True
    with step Cons.prems(2) have "k = n" "seq_of (ante_sdk A) r1 a = Some (n + 1)" by auto
    with Cons.IH [OF r1(2) this(2)] step True show ?thesis by (auto simp: add.assoc)
  next
    case False
    with step Cons.prems(2) have "seq_of (ante_sdk A) r1 a = Some n" by auto
    with Cons.IH [OF r1(2) this] step False show ?thesis by auto
  qed
qed simp

lemma increment_params:
  "fold_outcome (increment_sequence A) msgs r = Ok r' \<Longrightarrow>
    ssGetParamSetIfExists (ante_sdk A) r' = ssGetParamSetIfExists (ante_sdk A) r"
  by (induction msgs arbitrary: r) (auto elim!: increment_step)

lemma gas_consumed_keep: "gas_consumed A c tx c' \<Longrightarrow> ctx_keep (ante_sdk A) (evmCtx c) (evmCtx c')"
  by (auto simp: gas_consumed_def dest: consume_gas_loop_keep split: if_splits)

text \<open>From the start of the handler to the decorator that raises the sequences nothing of this changes.\<close>

lemma handler_stages:
  assumes "newEVMAnteHandler A c tx simulate = Ok (c', tx')"
  obtains c2 where "map_outcome (recover_sender A c) (GetMsgs tx) = Ok (GetMsgs tx')"
    "ctx_keep (ante_sdk A) (evmCtx c) c2"
    "fold_outcome (increment_sequence A) (GetMsgs tx') (modules c2) = Ok (modules (evmCtx c'))"
    "ante_Params A c' = ante_Params A c" "BlockHeight (evmCtx c') = BlockHeight (evmCtx c)"
proof -
  let ?D = "ante_sdk A"
  from newEVMAnteHandler_Ok [OF assms] obtain c0 msgs ec c2 ex r where
    c0: "c0 = c\<lparr>evmCtx := ResetTransientGasUsed ((evmCtx c)\<lparr>GasMeter := aInfiniteGasMeter A\<rparr>)\<rparr>"
    and msgs: "map_outcome (recover_sender A c0) (GetMsgs tx) = Ok msgs" "tx' = tx\<lparr>GetMsgs := msgs\<rparr>"
    and ec: "if IsCheckTx c then fold_outcome (verify_account A) msgs (evmCtx c0) = Ok ec else ec = evmCtx c0"
    and gas: "gas_consumed A (c0\<lparr>evmCtx := ec\<rparr>) tx' c2"
    and r: "fold_outcome (increment_sequence A) msgs (modules (evmCtx c2)) = Ok r"
    and c': "evmCtx c' = (evmCtx c2)\<lparr>modules := r\<rparr>" by metis
  have k0: "ctx_keep ?D (evmCtx c) (evmCtx c0)" by (simp add: c0)
  have "ctx_keep ?D (evmCtx c0) ec" using ec verify_accounts_keep by (cases "IsCheckTx c") auto
  moreover have "ctx_keep ?D ec (evmCtx c2)" using gas_consumed_keep [OF gas] by simp
  ultimately have k: "ctx_keep ?D (evmCtx c) (evmCtx c2)" using k0 ctx_keep_trans by blast
  have p0: "ante_Params A c0 = ante_Params A c" "BlockHeight (evmCtx c0) = BlockHeight (evmCtx c)"
    using k0 ctx_keep_params [OF k0] by (simp_all add: ante_Params_def ctx_keep_def)
  have "ante_Params A c' = GetParams ?D (evmCtx c2)"
    using increment_params [OF r] by (simp add: ante_Params_def c' GetParams_def GetLegacyParams_def Let_def)
  then have "ante_Params A c' = ante_Params A c" using ctx_keep_params [OF k] by (simp add: ante_Params_def)
  moreover have "BlockHeight (evmCtx c') = BlockHeight (evmCtx c)" using k c' by (simp add: ctx_keep_def)
  ultimately show thesis
    using that [of "evmCtx c2"] msgs k r c' recover_sender_cong [OF p0] by simp
qed

lemma handler_sequences:
  assumes "newEVMAnteHandler A c tx simulate = Ok (c', tx')" "seq_of (ante_sdk A) (modules (evmCtx c)) a = Some n"
  shows "counting_up n (nonces_from (ante_lib A) a (GetMsgs tx'))"
    "seq_of (ante_sdk A) (modules (evmCtx c')) a = Some (n + of_nat (length (nonces_from (ante_lib A) a (GetMsgs tx'))))"
proof -
  from handler_stages [OF assms(1)] obtain c2 where
    "ctx_keep (ante_sdk A) (evmCtx c) c2"
    "fold_outcome (increment_sequence A) (GetMsgs tx') (modules c2) = Ok (modules (evmCtx c'))" .
  moreover from this(1) have "seq_of (ante_sdk A) (modules c2) a = Some n"
    using assms(2) seq_of_keep by (auto simp: ctx_keep_def)
  ultimately show "counting_up n (nonces_from (ante_lib A) a (GetMsgs tx'))"
    "seq_of (ante_sdk A) (modules (evmCtx c')) a = Some (n + of_nat (length (nonces_from (ante_lib A) a (GetMsgs tx'))))"
    using increment_loop by blast+
qed

text \<open>The same transaction is not accepted again: its first nonce is used up.\<close>

lemma handler_no_replay:
  assumes ok: "newEVMAnteHandler A c tx simulate = Ok (c', tx')"
    and a: "seq_of (ante_sdk A) (modules (evmCtx c)) a = Some n" "nonces_from (ante_lib A) a (GetMsgs tx') \<noteq> []"
    and len: "length (GetMsgs tx') < 2 ^ 64"
  shows "newEVMAnteHandler A c' tx simulate' \<noteq> Ok res"
proof
  assume "newEVMAnteHandler A c' tx simulate' = Ok res"
  then obtain c'' tx'' where again: "newEVMAnteHandler A c' tx simulate' = Ok (c'', tx'')" by (cases res) auto
  let ?ns = "nonces_from (ante_lib A) a (GetMsgs tx')"
  from handler_stages [OF ok] have same: "ante_Params A c' = ante_Params A c" "BlockHeight (evmCtx c') = BlockHeight (evmCtx c)"
    and m1: "map_outcome (recover_sender A c) (GetMsgs tx) = Ok (GetMsgs tx')" by metis+
  from handler_stages [OF again] have "map_outcome (recover_sender A c') (GetMsgs tx) = Ok (GetMsgs tx'')" by metis
  with m1 recover_sender_cong [OF same] have "GetMsgs tx'' = GetMsgs tx'" by simp
  with handler_sequences(1) [OF again handler_sequences(2) [OF ok a(1)]] handler_sequences(1) [OF ok a(1)]
  have "counting_up n ?ns" "counting_up (n + of_nat (length ?ns)) ?ns" by simp_all
  with a(2) have "(of_nat (length ?ns) :: uint64) = 0" by (cases ?ns) auto
  moreover have "0 < length ?ns" "length ?ns < 2 ^ 64" using a(2) len length_nonces_from [of "ante_lib A" a "GetMsgs tx'"] by auto
  ultimately show False using nat_dvd_not_less [of "length ?ns" "2 ^ 64"] by (simp add: word_of_nat_eq_0_iff)
qed

end
subsection \<open>What vesting accounts spend\<close>

text \<open>The values sent by the messages of a sender.\<close>

fun values_from :: "txlib \<Rightarrow> bytes \<Rightarrow> Msg list \<Rightarrow> int list" where
  "values_from L a [] = []"
| "values_from L a (EthMsg m # msgs) =
     (case m_Data m of
        Some d \<Rightarrow> if msg_GetFrom L m = a then eth_Value (tx_AsEthereumData L d) # values_from L a msgs else values_from L a msgs
      | None \<Rightarrow> values_from L a msgs)"
| "values_from L a (_ # msgs) = values_from L a msgs"

text \<open>What an account may spend: its balance less what is locked.\<close>

definition spendable_now ::
  "('b, 'r, 'cc, 'd, 'vb) ante_env \<Rightarrow> ('r, 'd) AnteCtx \<Rightarrow> bytes \<Rightarrow> ('vb, coins) ClawbackVestingAccount \<Rightarrow> int option" where
  "spendable_now A c a va =
     map_option (\<lambda>locked. max 0 (bkGetBalance (ante_sdk A) (modules (evmCtx c)) a (EvmDenom (ante_Params A c)) -
         (case map_of locked (EvmDenom (ante_Params A c)) of None \<Rightarrow> 0 | Some v \<Rightarrow> v)))
       (LockedCoins (acoins A) (abase A) va (ante_BlockTime c))"

lemma AsTransaction_Some: "AsTransaction L m = Some tx \<longleftrightarrow> (\<exists>d. m_Data m = Some d \<and> tx = tx_AsEthereumData L d)"
  by (auto simp: AsTransaction_def UnpackTxData_def split: option.splits)

context ante_modules
begin

lemma vesting_step_other:
  assumes "vesting_msg A c (EthMsg m) ex = Ok ex'" "msg_GetFrom (ante_lib A) m \<noteq> a"
  shows "ex' (aAccString A a) = ex (aAccString A a)"
proof -
  obtain acc where acc: "akGetAccount (ante_sdk A) (modules (evmCtx c)) (msg_GetFrom (ante_lib A) m) = Some acc"
    using assms(1) by (auto simp: vesting_msg_def split: option.splits)
  show ?thesis
  proof (cases "aAsClawback A acc")
    case (Some va)
    have "aAccString A a \<noteq> aAccString A (aVestingAddress A va)"
      using clawback_address [OF acc Some] assms(2) string_inj by metis
    then show ?thesis using assms(1) acc Some
      by (auto simp: vesting_msg_def updateAccountExpenses_def Let_def split: option.splits if_splits)
  qed (use assms acc in \<open>simp add: vesting_msg_def\<close>)
qed

lemma vesting_step_own:
  assumes "vesting_msg A c (EthMsg m) ex = Ok ex'" "msg_GetFrom (ante_lib A) m = a"
    and va: "akGetAccount (ante_sdk A) (modules (evmCtx c)) a = Some acc" "aAsClawback A acc = Some va"
  obtains d t where "m_Data m = Some d" "ex' (aAccString A a) = Some t" "total t \<le> spendable t"
    "case ex (aAccString A a) of
       Some t0 \<Rightarrow> t = t0\<lparr>total := total t0 + eth_Value (tx_AsEthereumData (ante_lib A) d)\<rparr>
     | None \<Rightarrow> total t = eth_Value (tx_AsEthereumData (ante_lib A) d) \<and> spendable_now A c a va = Some (spendable t)"
proof -
  obtain d e where d: "m_Data m = Some d" and e: "total e \<le> spendable e"
    and upd: "updateAccountExpenses A c ex va (eth_Value (tx_AsEthereumData (ante_lib A) d)) (EvmDenom (ante_Params A c)) = Ok (e, ex')"
    using assms by (auto simp: vesting_msg_def AsTransaction_Some not_less split: option.splits if_splits)
  note upd = upd [unfolded updateAccountExpenses_def Let_def clawback_address [OF va]]
  show thesis
  proof (cases "ex (aAccString A a)")
    case None
    with upd have "spendable_now A c a va = Some (spendable e)" "ex' (aAccString A a) = Some e"
      "total e = eth_Value (tx_AsEthereumData (ante_lib A) d)"
      by (auto simp: spendable_now_def max_def split: if_splits)
    with that [OF d _ e] None show ?thesis by simp
  next
    case (Some t0)
    with upd have "ex' (aAccString A a) = Some e" "e = t0\<lparr>total := total t0 + eth_Value (tx_AsEthereumData (ante_lib A) d)\<rparr>"
      by auto
    with that [OF d _ e] Some show ?thesis by simp
  qed
qed

lemma vesting_loop:
  assumes "fold_outcome (vesting_msg A c) msgs ex = Ok ex'"
    and va: "akGetAccount (ante_sdk A) (modules (evmCtx c)) a = Some acc" "aAsClawback A acc = Some va"
  shows "values_from (ante_lib A) a msgs \<noteq> [] \<longrightarrow>
    (case ex (aAccString A a) of
       Some t \<Rightarrow> total t + sum_list (values_from (ante_lib A) a msgs) \<le> spendable t
     | None \<Rightarrow> \<exists>sp. spendable_now A c a va = Some sp \<and> sum_list (values_from (ante_lib A) a msgs) \<le> sp)"
  using assms(1)
proof (induction msgs arbitrary: ex)
  case (Cons msg msgs)
  then obtain ex1 where step: "vesting_msg A c msg ex = Ok ex1" and rest: "fold_outcome (vesting_msg A c) msgs ex1 = Ok ex'"
    by auto
  obtain m where msg: "msg = EthMsg m" using step by (auto simp: vesting_msg_def)
  note IH = Cons.IH [OF rest]
  show ?case
  proof (cases "msg_GetFrom (ante_lib A) m = a")
    case False
    then show ?thesis using IH vesting_step_other [OF step [unfolded msg] False]
      by (auto simp: msg split: option.splits)
  next
    case True
    from vesting_step_own [OF step [unfolded msg] True va] obtain d t where
      t: "m_Data m = Some d" "ex1 (aAccString A a) = Some t" "total t \<le> spendable t"
      "case ex (aAccString A a) of
         Some t0 \<Rightarrow> t = t0\<lparr>total := total t0 + eth_Value (tx_AsEthereumData (ante_lib A) d)\<rparr>
       | None \<Rightarrow> total t = eth_Value (tx_AsEthereumData (ante_lib A) d) \<and> spendable_now A c a va = Some (spendable t)" .
    have "total t + sum_list (values_from (ante_lib A) a msgs) \<le> spendable t"
      using IH t(2,3) by (cases "values_from (ante_lib A) a msgs = []") auto
    then show ?thesis using t by (auto simp: msg True split: option.splits)
  qed
qed simp

lemma verify_accounts_balance:
  "fold_outcome (verify_account A) msgs c = Ok c' \<Longrightarrow>
    bkGetBalance (ante_sdk A) (modules c') = bkGetBalance (ante_sdk A) (modules c)"
proof (induction msgs arbitrary: c)
  case (Cons msg msgs)
  then obtain c1 where c1: "verify_account A msg c = Ok c1" "fold_outcome (verify_account A) msgs c1 = Ok c'" by auto
  have "bkGetBalance (ante_sdk A) (modules c1) = bkGetBalance (ante_sdk A) (modules c)"
    using c1(1) new_account(3) by (fastforce simp: verify_account_def Let_def split: option.splits if_splits prod.splits)
  with Cons.IH [OF c1(2)] show ?case by simp
qed simp

lemma handler_vesting:
  assumes "newEVMAnteHandler A c tx simulate = Ok (c', tx')"
    and va: "akGetAccount (ante_sdk A) (modules (evmCtx c)) a = Some acc" "aAsClawback A acc = Some va"
    and some: "values_from (ante_lib A) a (GetMsgs tx') \<noteq> []"
  shows "\<exists>sp. spendable_now A c a va = Some sp \<and> sum_list (values_from (ante_lib A) a (GetMsgs tx')) \<le> sp"
proof -
  let ?D = "ante_sdk A"
  from newEVMAnteHandler_Ok [OF assms(1)] obtain c0 msgs ec ex where
    c0: "c0 = c\<lparr>evmCtx := ResetTransientGasUsed ((evmCtx c)\<lparr>GasMeter := aInfiniteGasMeter A\<rparr>)\<rparr>"
    and msgs: "tx' = tx\<lparr>GetMsgs := msgs\<rparr>"
    and ec: "if IsCheckTx c then fold_outcome (verify_account A) msgs (evmCtx c0) = Ok ec else ec = evmCtx c0"
    and ex: "fold_outcome (vesting_msg A (c0\<lparr>evmCtx := ec\<rparr>)) msgs (\<lambda>_. None) = Ok ex" by metis
  have k0: "ctx_keep ?D (evmCtx c) (evmCtx c0)" by (simp add: c0)
  then have k: "ctx_keep ?D (evmCtx c) ec"
    using ec verify_accounts_keep ctx_keep_trans by (cases "IsCheckTx c") (simp_all, blast)
  have bal: "bkGetBalance ?D (modules ec) = bkGetBalance ?D (modules (evmCtx c))"
    using ec verify_accounts_balance by (cases "IsCheckTx c") (auto simp: c0 ResetTransientGasUsed_def)
  have "akGetAccount ?D (modules ec) a = Some acc" using k va(1) by (simp add: ctx_keep_def mods_keep_def)
  with vesting_loop [OF ex, of a acc va] va(2) some have
    "\<exists>sp. spendable_now A (c0\<lparr>evmCtx := ec\<rparr>) a va = Some sp \<and> sum_list (values_from (ante_lib A) a msgs) \<le> sp"
    by (simp add: msgs)
  moreover have "spendable_now A (c0\<lparr>evmCtx := ec\<rparr>) a va = spendable_now A c a va"
    using ctx_keep_params [OF k] by (simp add: spendable_now_def bal ante_Params_def c0)
  ultimately show ?thesis by (simp add: msgs)
qed

end
subsection \<open>Fees\<close>

text \<open>
  The bank in terms of balances: deducting fees moves them from the account to the fee collector,
  withdrawing rewards does not touch the collector; coin slices with one amount are zero iff it is.
\<close>

locale ante_bank = ante_modules A adr for A :: "('b, 'r, 'cc, 'd, 'vb) ante_env" and adr :: "'b \<Rightarrow> bytes" +
  fixes collector :: bytes
  assumes deduct_moves: "aDeductFees A r acc [(d, n)] = Ok r' \<Longrightarrow>
      bkGetBalance (ante_sdk A) r' = credit collector d n (credit (adr (Evm_Keeper.base_of acc)) d (- n) (bkGetBalance (ante_sdk A) r))"
    and withdraw_collector: "aWithdraw A r a v = Ok (reward, r') \<Longrightarrow>
      bkGetBalance (ante_sdk A) r' collector = bkGetBalance (ante_sdk A) r collector"
    and zero_coins: "Coins_IsZero (acoins A) []" "Coins_IsZero (acoins A) [(d, n)] \<longleftrightarrow> n = 0" "NoCoins (acoins A) = []"
    and int_id: "NewIntFromBigInt (ante_lib A) i = Some j \<Longrightarrow> j = i"

definition msg_sender :: "('b, 'r, 'cc, 'd, 'vb) ante_env \<Rightarrow> Msg \<Rightarrow> bytes" where
  "msg_sender A msg = (case msg of EthMsg m \<Rightarrow> AddressBytes (BytesToAddress (msg_GetFrom (ante_lib A) m)) | _ \<Rightarrow> [])"

definition msg_fee :: "int option \<Rightarrow> Msg \<Rightarrow> int" where
  "msg_fee baseFee msg =
     (case msg of
        EthMsg m \<Rightarrow> (case m_Data m of Some d \<Rightarrow> or_zero (tx_EffectiveFee d baseFee) | None \<Rightarrow> 0)
      | _ \<Rightarrow> 0)"

lemma VerifyFee_Ok:
  assumes "VerifyFee X d denom baseFee h i k = Ok fees" "\<And>v w. NewIntFromBigInt (xlib X) v = Some w \<Longrightarrow> w = v"
  shows "\<exists>f. tx_EffectiveFee d baseFee = Some f \<and> fees = (if f = 0 then [] else [(denom, f)])"
  using assms by (auto simp: VerifyFee_def Let_def split: if_splits)

context ante_bank
begin

lemma withdraw_rewards_collector:
  "withdraw_rewards A addr denom amount vals rewards r = Ok (rewards', r') \<Longrightarrow>
    bkGetBalance (ante_sdk A) r' collector = bkGetBalance (ante_sdk A) r collector"
proof (induction vals arbitrary: rewards r)
  case (Cons v vals)
  from Cons.prems show ?case
    by (auto split: if_splits dest!: Cons.IH dest: withdraw_collector)
qed simp

lemma claim_collector:
  "ClaimStakingRewardsIfNecessary A r addr amount = Ok r' \<Longrightarrow>
    bkGetBalance (ante_sdk A) r' collector = bkGetBalance (ante_sdk A) r collector"
  by (auto simp: ClaimStakingRewardsIfNecessary_def ClaimSufficientStakingRewards_def Let_def
      dest: withdraw_rewards_collector split: option.splits if_splits)

lemma deductFee_collector:
  assumes "evm_deductFee A c (if f = 0 then [] else [(denom, f)]) payer = Ok c'"
    and "AddressBytes (BytesToAddress payer) \<noteq> collector"
  shows "bkGetBalance (ante_sdk A) (modules c') collector e =
    bkGetBalance (ante_sdk A) (modules c) collector e + (if e = denom then f else 0)"
proof (cases "f = 0")
  case True
  with assms show ?thesis by (simp add: evm_deductFee_def zero_coins)
next
  case False
  then obtain r acc r' where r: "ClaimStakingRewardsIfNecessary A (modules c) payer [(denom, f)] = Ok r"
    and acc: "akGetAccount (ante_sdk A) r (AddressBytes (BytesToAddress payer)) = Some acc"
    and r': "aDeductFees A r acc [(denom, f)] = Ok r'" "c' = c\<lparr>modules := r'\<rparr>"
    using assms(1) by (auto simp: evm_deductFee_def DeductTxCostsFromUserBalance_def zero_coins split: option.splits)
  have "adr (Evm_Keeper.base_of acc) \<noteq> collector" using stored_address [OF acc] assms(2) by simp
  with deduct_moves [OF r'(1)] claim_collector [OF r] show ?thesis by (simp add: r'(2) credit_def)
qed

lemma consume_gas_collector:
  assumes "consume_gas_msg A c exempt msg s = Ok s'" "msg_sender A msg \<noteq> collector"
  shows "bkGetBalance (ante_sdk A) (modules (gl_ctx s')) collector (EvmDenom (ante_Params A c)) =
    bkGetBalance (ante_sdk A) (modules (gl_ctx s)) collector (EvmDenom (ante_Params A c)) +
    (if exempt then 0 else msg_fee (ante_BaseFee A c) msg)"
proof -
  obtain m d verified h i k where m: "msg = EthMsg m" "m_Data m = Some d"
    and v: "VerifyFee (achain A) d (EvmDenom (ante_Params A c)) (ante_BaseFee A c) h i k = Ok verified"
    and ded: "evm_deductFee A (gl_ctx s) (if exempt then NoCoins (acoins A) else verified)
      (msg_GetFrom (ante_lib A) m) = Ok (gl_ctx s')"
    using assms(1) by (auto simp: consume_gas_msg_def Let_def)
  obtain f where f: "tx_EffectiveFee d (ante_BaseFee A c) = Some f"
    "verified = (if f = 0 then [] else [(EvmDenom (ante_Params A c), f)])"
    using VerifyFee_Ok [OF v] int_id by metis
  define f' where "f' = (if exempt then 0 else f)"
  have "(if exempt then NoCoins (acoins A) else verified) = (if f' = 0 then [] else [(EvmDenom (ante_Params A c), f')])"
    by (simp add: f f'_def zero_coins)
  from deductFee_collector [OF ded [unfolded this]] assms(2) show ?thesis
    by (simp add: m f f'_def msg_sender_def msg_fee_def or_zero_def)
qed

lemma consume_gas_loop_collector:
  "fold_outcome (consume_gas_msg A c exempt) msgs s = Ok s' \<Longrightarrow> list_all (\<lambda>msg. msg_sender A msg \<noteq> collector) msgs \<Longrightarrow>
    bkGetBalance (ante_sdk A) (modules (gl_ctx s')) collector (EvmDenom (ante_Params A c)) =
    bkGetBalance (ante_sdk A) (modules (gl_ctx s)) collector (EvmDenom (ante_Params A c)) +
    (if exempt then 0 else (\<Sum>msg\<leftarrow>msgs. msg_fee (ante_BaseFee A c) msg))"
proof (induction msgs arbitrary: s)
  case (Cons msg msgs)
  then obtain s1 where "consume_gas_msg A c exempt msg s = Ok s1" "fold_outcome (consume_gas_msg A c exempt) msgs s1 = Ok s'"
    by auto
  with Cons.IH consume_gas_collector Cons.prems(2) show ?case by auto
qed simp

lemma increment_balance:
  "fold_outcome (increment_sequence A) msgs r = Ok r' \<Longrightarrow> bkGetBalance (ante_sdk A) r' = bkGetBalance (ante_sdk A) r"
proof (induction msgs arbitrary: r)
  case (Cons msg msgs)
  then obtain r1 where r1: "increment_sequence A msg r = Ok r1" "fold_outcome (increment_sequence A) msgs r1 = Ok r'" by auto
  have "bkGetBalance (ante_sdk A) r1 = bkGetBalance (ante_sdk A) r"
    using r1(1) by (auto simp: increment_sequence_def Let_def split: option.splits if_splits)
  with Cons.IH [OF r1(2)] show ?case by simp
qed simp

lemma handler_fees:
  assumes ok: "newEVMAnteHandler A c tx simulate = Ok (c', tx')" and mode: "\<not> IsCheckTx c" "\<not> IsReCheckTx c"
    and senders: "list_all (\<lambda>msg. msg_sender A msg \<noteq> collector) (GetMsgs tx')"
  shows "\<exists>feeTx. asFeeTx tx = Some feeTx \<and>
    bkGetBalance (ante_sdk A) (modules (evmCtx c')) collector (EvmDenom (ante_Params A c)) =
    bkGetBalance (ante_sdk A) (modules (evmCtx c)) collector (EvmDenom (ante_Params A c)) +
    (if fee_exempt A (modules (evmCtx c)) (FeePayer feeTx) then 0
     else (\<Sum>msg\<leftarrow>GetMsgs tx'. msg_fee (ante_BaseFee A c) msg))"
proof -
  let ?D = "ante_sdk A"
  from newEVMAnteHandler_Ok [OF ok] obtain c0 msgs ec c2 r where
    c0: "c0 = c\<lparr>evmCtx := ResetTransientGasUsed ((evmCtx c)\<lparr>GasMeter := aInfiniteGasMeter A\<rparr>)\<rparr>"
    and tx': "tx' = tx\<lparr>GetMsgs := msgs\<rparr>"
    and ec: "if IsCheckTx c then fold_outcome (verify_account A) msgs (evmCtx c0) = Ok ec else ec = evmCtx c0"
    and gas: "gas_consumed A (c0\<lparr>evmCtx := ec\<rparr>) tx' c2"
    and r: "fold_outcome (increment_sequence A) msgs (modules (evmCtx c2)) = Ok r"
    and c': "evmCtx c' = (evmCtx c2)\<lparr>modules := r\<rparr>" by metis
  have c0': "c0\<lparr>evmCtx := ec\<rparr> = c0" "modules (evmCtx c0) = modules (evmCtx c)" "\<not> IsReCheckTx c0"
    using ec mode by (simp_all add: c0 ResetTransientGasUsed_def)
  have k: "ctx_keep ?D (evmCtx c) (evmCtx c0)" by (simp add: c0)
  have same: "ante_Params A c0 = ante_Params A c" using ctx_keep_params [OF k] by (simp add: ante_Params_def)
  then have "ante_BaseFee A c0 = ante_BaseFee A c" using k by (simp add: ante_BaseFee_def ctx_keep_def c0)
  moreover obtain feeTx s where s: "asFeeTx tx = Some feeTx"
    "fold_outcome (consume_gas_msg A c0 (fee_exempt A (modules (evmCtx c)) (FeePayer feeTx))) msgs
       \<lparr>gl_ctx = evmCtx c0, gasWanted = 0, minPriority = max_int64, gl_events = []\<rparr> = Ok s"
    "modules (evmCtx c2) = modules (gl_ctx s)"
    using gas c0' by (auto simp: gas_consumed_def tx')
  ultimately show ?thesis
    using consume_gas_loop_collector [OF s(2)] senders increment_balance [OF r] by (simp add: tx' c' s same c0')
qed

end

end
