(* ===== verification/Ante_Evm_Properties.thy ===== *)
theory Ante_Evm_Properties
  imports Ante_Evm_Laws
begin

text \<open>
  The properties of the ante handler of Ethereum transactions, and a chain they are evaluated on:
  the ledger as account and bank module, with an argument for who delegates to validators. The
  interpretations show that the contracts of \<open>Ante_Evm_Laws\<close> hold there.
\<close>

subsection \<open>An instance\<close>

definition ledger_va :: "bytes \<Rightarrow> (bytes, coins) ClawbackVestingAccount" where
  "ledger_va a =
     \<lparr>BaseAccount = a, OriginalVesting = [(''anryton'', 600)], DelegatedFree = [], DelegatedVesting = [],
      EndTime = 200, FunderAddress = [], StartTime = 100,
      LockupPeriods = [\<lparr>Length = 50, Amount = [(''anryton'', 600)]\<rparr>],
      VestingPeriods = [\<lparr>Length = 50, Amount = [(''anryton'', 200)]\<rparr>, \<lparr>Length = 50, Amount = [(''anryton'', 400)]\<rparr>]\<rparr>"

definition ledger_ante :: "(bytes \<Rightarrow> bytes list) \<Rightarrow> (bytes \<times> uint64, ledger, unit, int, bytes) ante_env" where
  "ledger_ante delegations =
     \<lparr>achain = demo_chain, afm = sample_sdk, acoins = coin_list,
      abase = \<lparr>LockedCoinsFromVesting = (\<lambda>_ v. Some v), base_TrackDelegation = (\<lambda>b _ _ _. Some b), base_Validate = (\<lambda>_. Ok ())\<rparr>,
      aIsEqual = (=), aDecIsZero = (\<lambda>d. d = 0), aNewDecFromBigInt = (\<lambda>i. i * 10 ^ 18), aTxValidateBasic = (\<lambda>_. Ok ()),
      aSender = (\<lambda>_ _ tx. Ok (if e_Nonce tx < 10 then 5 else 6)), aProtected = (\<lambda>_. True),
      aCanTransfer = (\<lambda>db a v. v \<le> fst (GetBalance db a)),
      aAsClawback = (\<lambda>acc. case acc of EthAccount _ _ \<Rightarrow> None | OtherAccount b \<Rightarrow> Some (ledger_va (fst b))),
      aVestingAddress = BaseAccount, aAccString = chars_of, aBondDenom = (\<lambda>_. ''anryton''),
      aGetValidator = (\<lambda>_ _. False), aDelegations = (\<lambda>_. delegations), aWithdraw = (\<lambda>r a v. Ok ([], r)),
      aDeductFees = (\<lambda>r acc fees. bind_outcome (l_debit (fst (Evm_Keeper.base_of acc)) fees r) (\<lambda>r1. Ok (l_credit module_address fees r1))),
      aPriorityReduction = 1000000, aInfiniteGasMeter = \<lparr>consumed = 0, limit = 0\<rparr>, aMaxGasWanted = 0\<rparr>"

lemma l_accounts_credit [simp]: "l_accounts (l_credit a cs r) = l_accounts r"
  by (induction a cs r rule: l_credit.induct) auto

lemma inj_chars_of: "chars_of a = chars_of b \<Longrightarrow> a = b"
  by (metis bytes_of_chars_of)

interpretation ledger_ante: ante_bank "ledger_ante delegations" fst module_address for delegations
proof (unfold_locales, goal_cases)
  case 1
  show ?case using ledger_account_laws by (simp add: ledger_ante_def demo_chain_def)
next
  case (2 r acc fees r')
  then show ?case by (auto simp: ledger_ante_def demo_chain_def ledger_sdk_def mods_keep_def l_debit_def split: if_splits)
next
  case (4 r a acc va)
  then show ?case
    by (auto simp: ledger_ante_def demo_chain_def ledger_sdk_def ledger_va_def split: option.splits if_splits AccountI.splits)
next
  case (6 r acc d n r')
  then show ?case by (auto simp: ledger_ante_def demo_chain_def ledger_sdk_def l_debit_def split: if_splits)
qed (auto simp: ledger_ante_def demo_chain_def raw_lib_def coin_list_def inj_chars_of split: if_splits)

definition legacy_msg :: "uint64 \<Rightarrow> int \<Rightarrow> Msg" where
  "legacy_msg nonce value = EthMsg
     \<lparr>m_Data = Some (Legacy \<lparr>l_Nonce = nonce, l_GasPrice = Some 1, l_GasLimit = 21010, l_To = chars_of (AddressBytes 6),
        l_Amount = Some value, l_Data = [], l_V = [], l_R = [], l_S = []\<rparr>),
      m_SizeSet = False, m_Hash = [], m_From = []\<rparr>"

definition transfer_tx :: Tx where
  "transfer_tx =
     \<lparr>GetMsgs = [legacy_msg 0 30], isGasTx = True,
      asFeeTx = Some \<lparr>FeePayer = AddressBytes 5, FeeGranter = None, GetFee = Some [(''anryton'', 21010)], feeTx_GetGas = 21010\<rparr>,
      asProtoTx = Some \<lparr>Memo = [], TimeoutHeight = 0, NonCriticalExtensionOptions = 0, ExtensionOptions = 1, SignerInfos = 0,
        Payer = [], Granter = [], FeeAmount = [(''anryton'', 21010)], FeeGasLimit = 21010, Signatures = 0\<rparr>,
      asExtensionOptions = Some [(''/ethermint.evm.v1.ExtensionOptionsEthereumTx'', None)]\<rparr>"

definition ledger_ctx :: "(bytes \<Rightarrow> (bytes \<times> uint64) AccountI) \<Rightarrow> (ledger, int) AnteCtx" where
  "ledger_ctx account =
     \<lparr>evmCtx = genesis\<lparr>modules := \<lparr>l_accounts = (\<lambda>a. Some (account a)), l_balance = (\<lambda>_ _. 100000)\<rparr>\<rparr>,
      fmCtx = sample_ctx\<lparr>fm_legacy := sample_params\<lparr>NoBaseFee := True\<rparr>\<rparr>,
      IsCheckTx = False, IsReCheckTx = False, Priority = 0, MinGasPrices = [], ante_BlockTime = 160, Events = [],
      wasmStore = fmempty, TXCounter = None\<rparr>"

definition ledger_account :: "bool \<Rightarrow> bytes \<Rightarrow> uint64 \<Rightarrow> (bytes \<times> uint64) AccountI" where
  "ledger_account vesting a n = (if vesting then OtherAccount (a, n) else EthAccount (a, n) 1)"

definition plain_ctx :: "bool \<Rightarrow> (ledger, int) AnteCtx" where
  "plain_ctx v = ledger_ctx (\<lambda>a. ledger_account v a 0)"

lemma ledger_account_base [simp]:
  "Evm_Keeper.base_of (ledger_account v a n) = (a, n)" "Evm_Keeper.with_base (ledger_account v a n) b = ledger_account v (fst b) (snd b)"
  by (simp_all add: ledger_account_def)

text \<open>
  The transaction is evaluated decorator by decorator, with whoever delegates, and with all
  accounts Ethereum accounts or all vesting accounts.
\<close>

definition start_ctx :: "bool \<Rightarrow> (ledger, int) AnteCtx" where
  "start_ctx v = (plain_ctx v)\<lparr>evmCtx := ResetTransientGasUsed ((evmCtx (plain_ctx v))\<lparr>GasMeter := \<lparr>consumed = 0, limit = 0\<rparr>\<rparr>)\<rparr>"

definition transfer_data :: TxData where
  "transfer_data = Legacy \<lparr>l_Nonce = 0, l_GasPrice = Some 1, l_GasLimit = 21010, l_To = chars_of (AddressBytes 6),
     l_Amount = Some 30, l_Data = [], l_V = [], l_R = [], l_S = []\<rparr>"

definition signed_msg :: MsgEthereumTx where
  "signed_msg = \<lparr>m_Data = Some transfer_data, m_SizeSet = False, m_Hash = [], m_From = chars_of (AddressBytes 5)\<rparr>"

definition signed_tx :: Tx where
  "signed_tx = transfer_tx\<lparr>GetMsgs := [EthMsg signed_msg]\<rparr>"

lemma signed_sender [simp]: "msg_GetFrom raw_lib signed_msg = AddressBytes 5"
  by code_simp

lemma ledger_ante_sel [simp]:
  "achain (ledger_ante d) = demo_chain" "afm (ledger_ante d) = sample_sdk" "acoins (ledger_ante d) = coin_list"
  "aInfiniteGasMeter (ledger_ante d) = \<lparr>consumed = 0, limit = 0\<rparr>" "xlib demo_chain = raw_lib" "xsdk demo_chain = ledger_sdk"
  "aIsEqual (ledger_ante d) = (=)" "aTxValidateBasic (ledger_ante d) tx = Ok ()" "aProtected (ledger_ante d) t"
  "aSender (ledger_ante d) cc h t = Ok (if e_Nonce t < 10 then 5 else 6)" "aDecIsZero (ledger_ante d) p \<longleftrightarrow> p = 0"
  "aCanTransfer (ledger_ante d) db a v \<longleftrightarrow> v \<le> fst (GetBalance db a)"
  "aAsClawback (ledger_ante d) (EthAccount b h') = None" "aAsClawback (ledger_ante d) (OtherAccount b) = Some (ledger_va (fst b))" "aBondDenom (ledger_ante d) r = ''anryton''"
  "aGetValidator (ledger_ante d) r b' = False" "aDelegations (ledger_ante d) r = d"
  "aDeductFees (ledger_ante d) r acc fees =
     bind_outcome (l_debit (fst (Evm_Keeper.base_of acc)) fees r) (\<lambda>r1. Ok (l_credit module_address fees r1))"
  "aPriorityReduction (ledger_ante d) = 1000000" "aMaxGasWanted (ledger_ante d) = 0"
  by (simp_all add: ledger_ante_def demo_chain_def)

lemma start_modes [simp]: "\<not> IsCheckTx (start_ctx v)" "\<not> IsReCheckTx (start_ctx v)" "\<not> IsCheckTx (plain_ctx v)" "\<not> IsReCheckTx (plain_ctx v)"
  by (simp_all add: start_ctx_def plain_ctx_def ledger_ctx_def)

lemma start_env [simp]: "ante_Params (ledger_ante d) (start_ctx v) = ledger_params" "ante_BaseFee (ledger_ante d) (start_ctx v) = Some 0"
proof -
  show "ante_Params (ledger_ante d) (start_ctx v) = ledger_params"
    by (simp add: ante_Params_def GetParams_def GetLegacyParams_def start_ctx_def plain_ctx_def ledger_ctx_def
        ledger_sdk_def genesis_def store_Get_def ResetTransientGasUsed_def Let_def)
  then show "ante_BaseFee (ledger_ante d) (start_ctx v) = Some 0"
    by (simp add: ante_BaseFee_def demo_chain_def fm_GetBaseFee_def fm_GetParams_def start_ctx_def plain_ctx_def ledger_ctx_def
        sample_ctx_def sample_params_def store_Get_def Let_def)
qed

lemma front_passes:
  "EthMempoolFee_AnteHandle (ledger_ante d) (start_ctx v) tx False n = n (start_ctx v) tx False"
  "EthMinGasPrice_AnteHandle (ledger_ante d) (start_ctx v) tx False n = n (start_ctx v) tx False"
  "EthAccountVerification_AnteHandle (ledger_ante d) (start_ctx v) tx False n = n (start_ctx v) tx False"
  by (simp_all add: EthMempoolFee_AnteHandle_def EthAccountVerification_AnteHandle_def EthMinGasPrice_AnteHandle_def
      fm_GetParams_def start_ctx_def plain_ctx_def ledger_ctx_def sample_ctx_def sample_params_def store_Get_def Let_def)

lemma validate_passes: "EthValidateBasic_AnteHandle (ledger_ante d) (start_ctx v) transfer_tx False n = n (start_ctx v) transfer_tx False"
proof -
  have "list_add [] [(''anryton'', 21010)] = Some [(''anryton'', 21010)]" by code_simp
  then show ?thesis
    by (simp add: EthValidateBasic_AnteHandle_def transfer_tx_def legacy_msg_def validate_eth_msg_def
        LegacyTx_defs raw_lib_def fee_def ledger_params_def msg_GetGas_def UnpackTxData_def option_outcome_def Let_def)
qed

lemma signature_passes: "EthSigVerification_AnteHandle (ledger_ante d) (start_ctx v) transfer_tx False n = n (start_ctx v) signed_tx False"
  by (simp add: EthSigVerification_AnteHandle_def transfer_tx_def recover_sender_def legacy_msg_def AsTransaction_def
      UnpackTxData_def signed_tx_def signed_msg_def transfer_data_def LegacyTx_AsEthereumData_def
      LegacyTx_defs rawSignatureValues_def raw_lib_def Let_def)

lemma transfer_passes: "CanTransfer_AnteHandle (ledger_ante d) (start_ctx v) signed_tx False n = n (start_ctx v) signed_tx False"
proof -
  have "30 \<le> fst (GetBalance (New (evmCtx (start_ctx v)) (evm_env ledger_sdk) (NewEmptyTxConfig (BytesToHash (HeaderHash (evmCtx (start_ctx v)))))) 5)"
    by (cases v; simp only:; code_simp)
  then show ?thesis
    by (simp add: CanTransfer_AnteHandle_def can_transfer_msg_def signed_tx_def signed_msg_def AsTransaction_def UnpackTxData_def
        demo_chain_def demo_msg_def Let_def)
qed

lemma start_modules [simp]:
  "modules (evmCtx (start_ctx v)) = \<lparr>l_accounts = (\<lambda>a. Some (ledger_account v a 0)), l_balance = (\<lambda>_ _. 100000)\<rparr>"
  "BlockHeight (evmCtx (start_ctx v)) = 1" "GasMeter (evmCtx (start_ctx v)) = \<lparr>consumed = 0, limit = 0\<rparr>"
  by (simp_all add: start_ctx_def plain_ctx_def ledger_ctx_def genesis_def ResetTransientGasUsed_def)

lemma start_time: "ante_BlockTime (start_ctx v) = 160" "aVestingAddress (ledger_ante d) (ledger_va a) = a"
  "aAccString (ledger_ante d) a = chars_of a"
  by (simp_all add: start_ctx_def plain_ctx_def ledger_ctx_def ledger_ante_def ledger_va_def)

lemma ledger_locked:
  "LockedCoins coin_list (abase (ledger_ante d)) (ledger_va (AddressBytes 5)) 160 = Some [(''anryton'', 400)]"
  by code_simp

lemma signed_value: "AsTransaction raw_lib signed_msg = Some (tx_AsEthereumData raw_lib transfer_data)"
  "eth_Value (tx_AsEthereumData raw_lib transfer_data) = 30"
  by (simp_all add: AsTransaction_def UnpackTxData_def signed_msg_def transfer_data_def LegacyTx_AsEthereumData_def
      LegacyTx_defs eth_Value_def split: prod.split)

lemma vesting_passes: "EthVestingTransaction_AnteHandle (ledger_ante d) (start_ctx v) signed_tx False n = n (start_ctx v) signed_tx False"
proof (cases v)
  case True
  have "updateAccountExpenses (ledger_ante d) (start_ctx True) (\<lambda>_. None) (ledger_va (AddressBytes 5)) 30 ''anryton'' =
      Ok (\<lparr>total = 30, spendable = 99600\<rparr>, [chars_of (AddressBytes 5) \<mapsto> \<lparr>total = 30, spendable = 99600\<rparr>])"
    using ledger_locked [of d] by (simp add: updateAccountExpenses_def ledger_sdk_def start_time Let_def)
  with True show ?thesis
    by (simp add: EthVestingTransaction_AnteHandle_def vesting_msg_def signed_tx_def ledger_sdk_def signed_value ledger_params_def ledger_account_def)
next
  case False
  then show ?thesis by (simp add: EthVestingTransaction_AnteHandle_def vesting_msg_def signed_tx_def ledger_sdk_def ledger_account_def)
qed


text \<open>After the fee, if there is one.\<close>

definition paid :: "bool \<Rightarrow> bool \<Rightarrow> ledger" where
  "paid v exempt = (if exempt then modules (evmCtx (start_ctx v))
     else l_credit module_address [(''anryton'', 21010)]
            (l_credit (AddressBytes 5) [(''anryton'', - 21010)] (modules (evmCtx (start_ctx v)))))"

definition after_gas :: "bool \<Rightarrow> bool \<Rightarrow> (ledger, int) AnteCtx" where
  "after_gas v exempt = (start_ctx v)\<lparr>evmCtx := (evmCtx (start_ctx v))\<lparr>modules := paid v exempt, GasMeter := \<lparr>consumed = 0, limit = 21010\<rparr>\<rparr>,
     Priority := 0, Events := [TxFee (if exempt then [] else [(''anryton'', 21010)])]\<rparr>"

lemma deduct_ledger:
  "evm_deductFee (ledger_ante d) (evmCtx (start_ctx v)) (if exempt then [] else [(''anryton'', 21010)]) (AddressBytes 5) =
     Ok ((evmCtx (start_ctx v))\<lparr>modules := paid v exempt\<rparr>)"
  by (cases exempt) (simp_all add: evm_deductFee_def ClaimStakingRewardsIfNecessary_def DeductTxCostsFromUserBalance_def
      ledger_sdk_def l_debit_def coin_list_def paid_def Let_def)

lemma transfer_fee:
  "VerifyFee demo_chain transfer_data ''anryton'' (Some 0) True True False = Ok [(''anryton'', 21010)]"
  "GetTxPriority 1000000 transfer_data (Some 0) = Some 0" "tx_GetGas transfer_data = 21010" "tx_GetNonce transfer_data = 0"
  by code_simp+

lemma gas_passes:
  assumes "exempt \<longleftrightarrow> d (AddressBytes 5) \<noteq> []"
  shows "EthGasConsume_AnteHandle (ledger_ante d) (start_ctx v) signed_tx False n = n (after_gas v exempt) signed_tx False"
proof -
  have ex: "fee_exempt (ledger_ante d) r (AddressBytes 5) = exempt" for r using assms by (simp add: fee_exempt_def)
  have lim: "ante_BlockGasLimit (start_ctx v) = 40000000"
    by (simp add: ante_BlockGasLimit_def BlockGasLimit_def start_ctx_def plain_ctx_def ledger_ctx_def sample_ctx_def genesis_def
        ResetTransientGasUsed_def)
  have "consume_gas_msg (ledger_ante d) (start_ctx v) exempt (EthMsg signed_msg)
      \<lparr>gl_ctx = evmCtx (start_ctx v), gasWanted = 0, minPriority = max_int64, gl_events = []\<rparr> =
    Ok \<lparr>gl_ctx = (evmCtx (start_ctx v))\<lparr>modules := paid v exempt\<rparr>, gasWanted = 21010, minPriority = 0,
        gl_events = [TxFee (if exempt then [] else [(''anryton'', 21010)])]\<rparr>"
    using deduct_ledger [of d v exempt]
    by (cases exempt) (simp_all add: consume_gas_msg_def signed_msg_def [THEN arg_cong [where f = m_Data]] transfer_fee ledger_params_def UnpackTxData_def
        option_outcome_def demo_chain_def [THEN arg_cong [where f = xIsHomestead]] demo_chain_def [THEN arg_cong [where f = xIsIstanbul]]
        coin_list_def [THEN arg_cong [where f = NoCoins]] Let_def)
  then show ?thesis
    by (simp add: EthGasConsume_AnteHandle_def signed_tx_def transfer_tx_def ex lim after_gas_def NewInfiniteGasMeterWithLimit_def
        start_ctx_def [THEN arg_cong [where f = Events]] plain_ctx_def [THEN arg_cong [where f = Events]] ledger_ctx_def [THEN arg_cong [where f = Events]])
qed


definition raised :: "bool \<Rightarrow> bool \<Rightarrow> ledger" where
  "raised v exempt = (paid v exempt)\<lparr>l_accounts := (l_accounts (paid v exempt))(AddressBytes 5 \<mapsto> ledger_account v (AddressBytes 5) 1)\<rparr>"

lemma sequence_passes:
  "EthIncrementSenderSequence_AnteHandle (ledger_ante d) (after_gas v exempt) signed_tx False n =
     n ((after_gas v exempt)\<lparr>evmCtx := (evmCtx (after_gas v exempt))\<lparr>modules := raised v exempt\<rparr>\<rparr>) signed_tx False"
proof -
  have acc: "l_accounts (paid v exempt) a = Some (ledger_account v a 0)" for a by (simp add: paid_def)
  have "increment_sequence (ledger_ante d) (EthMsg signed_msg) (modules (evmCtx (after_gas v exempt))) = Ok (raised v exempt)"
    by (simp add: increment_sequence_def after_gas_def raised_def signed_msg_def [THEN arg_cong [where f = m_Data]]
        transfer_fee UnpackTxData_def ledger_sdk_def acc Let_def)
  then show ?thesis by (simp add: EthIncrementSenderSequence_AnteHandle_def signed_tx_def)
qed

lemma end_passes:
  "\<exists>c'. ChainAnteDecorators [GasWanted_AnteHandle (ledger_ante d), EthEmitEvent_AnteHandle, GetValidator_AnteHandle]
      ((after_gas v exempt)\<lparr>evmCtx := (evmCtx (after_gas v exempt))\<lparr>modules := raised v exempt\<rparr>\<rparr>) signed_tx False = Ok (c', signed_tx) \<and>
    evmCtx c' = (evmCtx (after_gas v exempt))\<lparr>modules := raised v exempt\<rparr>"
proof -
  have lim: "\<not> ante_BlockGasLimit ((after_gas v exempt)\<lparr>evmCtx := (evmCtx (after_gas v exempt))\<lparr>modules := raised v exempt\<rparr>\<rparr>) < 21010"
    by (simp add: ante_BlockGasLimit_def BlockGasLimit_def after_gas_def start_ctx_def plain_ctx_def ledger_ctx_def sample_ctx_def
        genesis_def ResetTransientGasUsed_def)
  show ?thesis
    using lim by (simp add: GasWanted_AnteHandle_def signed_tx_def transfer_tx_def EthEmitEvent_AnteHandle_def
        GetValidator_AnteHandle_def AddTransientGasWanted_def Let_def)
qed

lemma transfer_accepted:
  assumes "exempt \<longleftrightarrow> d (AddressBytes 5) \<noteq> []"
  obtains c' where "newEVMAnteHandler (ledger_ante d) (plain_ctx v) transfer_tx False = Ok (c', signed_tx)"
    "evmCtx c' = (evmCtx (after_gas v exempt))\<lparr>modules := raised v exempt\<rparr>"
proof -
  have gas: "isGasTx transfer_tx" by (simp add: transfer_tx_def)
  have first: "EthSetupContext_AnteHandle (ledger_ante d) (plain_ctx v) transfer_tx False n = n (start_ctx v) transfer_tx False" for n
    by (simp add: EthSetupContext_AnteHandle_def gas start_ctx_def)
  have "newEVMAnteHandler (ledger_ante d) (plain_ctx v) transfer_tx False =
    ChainAnteDecorators [GasWanted_AnteHandle (ledger_ante d), EthEmitEvent_AnteHandle, GetValidator_AnteHandle]
      ((after_gas v exempt)\<lparr>evmCtx := (evmCtx (after_gas v exempt))\<lparr>modules := raised v exempt\<rparr>\<rparr>) signed_tx False"
    unfolding newEVMAnteHandler_def
    by (simp only: ChainAnteDecorators.simps first front_passes validate_passes signature_passes transfer_passes vesting_passes
        gas_passes [of exempt d, OF assms] sequence_passes)
  with end_passes [of d v exempt] that show thesis by auto
qed


lemma plain_env: "ante_Params (ledger_ante d) (plain_ctx v) = ledger_params" "ante_BaseFee (ledger_ante d) (plain_ctx v) = Some 0"
  using start_env [of d v]
  by (simp_all add: ante_Params_def ante_BaseFee_def start_ctx_def GetParams_def GetLegacyParams_def ResetTransientGasUsed_def
      ledger_sdk_def genesis_def plain_ctx_def ledger_ctx_def store_Get_def Let_def)

lemma plain_balance: "l_balance (modules (evmCtx (plain_ctx v))) a denom = 100000"
  by (simp add: plain_ctx_def ledger_ctx_def)

subsection \<open>Properties\<close>

text \<open>C22. When the handler accepts an Ethereum transaction, the nonces of each sender's messages count up
  from the sequence of its account, which is raised by their number; and the same transaction is
  not accepted again. The account and bank keepers enter by what they document, \<open>ante_modules\<close>.\<close>
theorem accepted_nonces_and_no_replay:
  assumes "ante_modules A adr" "newEVMAnteHandler A c tx simulate = Ok (c', tx')"
    "seq_of (ante_sdk A) (modules (evmCtx c)) a = Some n"
  shows "counting_up n (nonces_from (ante_lib A) a (GetMsgs tx')) \<and>
    seq_of (ante_sdk A) (modules (evmCtx c')) a = Some (n + of_nat (length (nonces_from (ante_lib A) a (GetMsgs tx')))) \<and>
    (nonces_from (ante_lib A) a (GetMsgs tx') \<noteq> [] \<longrightarrow> length (GetMsgs tx') < 2 ^ 64 \<longrightarrow>
       \<not> is_ok (newEVMAnteHandler A c' tx simulate'))"
  using ante_modules.handler_sequences [OF assms] ante_modules.handler_no_replay [OF assms]
  by (auto simp: is_ok_iff)

lemma transfer_from_5 [simp]:
  "nonces_from raw_lib (AddressBytes 5) (GetMsgs signed_tx) = [0]" "length (GetMsgs signed_tx) = 1"
  "seq_of ledger_sdk (modules (evmCtx (plain_ctx v))) (AddressBytes 5) = Some 0"
  by (simp_all add: signed_tx_def signed_msg_def [THEN arg_cong [where f = m_Data]] transfer_fee seq_of_def ledger_sdk_def
      plain_ctx_def ledger_ctx_def)

theorem accepted_nonces_and_no_replay_witness:
  "\<exists>c'. newEVMAnteHandler (ledger_ante (\<lambda>_. [])) (plain_ctx False) transfer_tx False = Ok (c', signed_tx) \<and>
     seq_of ledger_sdk (modules (evmCtx c')) (AddressBytes 5) = Some 1 \<and>
     \<not> is_ok (newEVMAnteHandler (ledger_ante (\<lambda>_. [])) c' transfer_tx False)"
proof -
  obtain c' where ok: "newEVMAnteHandler (ledger_ante (\<lambda>_. [])) (plain_ctx False) transfer_tx False = Ok (c', signed_tx)"
    using transfer_accepted [of False "\<lambda>_. []" False] by auto
  from accepted_nonces_and_no_replay [OF ledger_ante.ante_modules_axioms ok, of "AddressBytes 5" 0 False] ok
  show ?thesis by auto
qed

text \<open>C23. In an accepted Ethereum transaction the values sent by a clawback vesting account, over all its
  messages, are within what it can spend: its balance less the coins still locked at block time.\<close>
theorem vesting_account_spends_unlocked:
  assumes "ante_modules A adr" "newEVMAnteHandler A c tx simulate = Ok (c', tx')"
    "akGetAccount (ante_sdk A) (modules (evmCtx c)) a = Some acc" "aAsClawback A acc = Some va"
    "values_from (ante_lib A) a (GetMsgs tx') \<noteq> []"
  shows "\<exists>sp. spendable_now A c a va = Some sp \<and> sum_list (values_from (ante_lib A) a (GetMsgs tx')) \<le> sp"
  by (rule ante_modules.handler_vesting [OF assms])

theorem vesting_account_spends_unlocked_witness:
  "\<exists>c' sp. newEVMAnteHandler (ledger_ante (\<lambda>_. [])) (plain_ctx True) transfer_tx False = Ok (c', signed_tx) \<and>
     spendable_now (ledger_ante (\<lambda>_. [])) (plain_ctx True) (AddressBytes 5) (ledger_va (AddressBytes 5)) = Some sp \<and> 30 \<le> sp"
proof -
  obtain c' where ok: "newEVMAnteHandler (ledger_ante (\<lambda>_. [])) (plain_ctx True) transfer_tx False = Ok (c', signed_tx)"
    using transfer_accepted [of False "\<lambda>_. []" True] by auto
  have "akGetAccount ledger_sdk (modules (evmCtx (plain_ctx True))) (AddressBytes 5) = Some (OtherAccount (AddressBytes 5, 0))"
    "values_from raw_lib (AddressBytes 5) (GetMsgs signed_tx) = [30]"
    by (simp_all add: ledger_sdk_def plain_ctx_def ledger_ctx_def ledger_account_def signed_tx_def signed_value
        signed_msg_def [THEN arg_cong [where f = m_Data]])
  with vesting_account_spends_unlocked [OF ledger_ante.ante_modules_axioms ok, of "AddressBytes 5" "OtherAccount (AddressBytes 5, 0)"
      "ledger_va (AddressBytes 5)"] ok
  show ?thesis by auto
qed

text \<open>C24. Delivering an accepted Ethereum transaction, the fee collector receives exactly the effective
  fees of its messages, or nothing when the fee payer is a validator or delegates to one.\<close>
theorem fee_collector_receives_fees:
  assumes "ante_bank A adr collector" "newEVMAnteHandler A c tx simulate = Ok (c', tx')"
    "\<not> IsCheckTx c" "\<not> IsReCheckTx c" "list_all (\<lambda>msg. msg_sender A msg \<noteq> collector) (GetMsgs tx')"
  shows "\<exists>feeTx. asFeeTx tx = Some feeTx \<and>
    bkGetBalance (ante_sdk A) (modules (evmCtx c')) collector (EvmDenom (ante_Params A c)) =
    bkGetBalance (ante_sdk A) (modules (evmCtx c)) collector (EvmDenom (ante_Params A c)) +
    (if fee_exempt A (modules (evmCtx c)) (FeePayer feeTx) then 0
     else (\<Sum>msg\<leftarrow>GetMsgs tx'. msg_fee (ante_BaseFee A c) msg))"
  by (rule ante_bank.handler_fees [OF assms])

theorem fee_collector_receives_fees_witness:
  "\<exists>c'. newEVMAnteHandler (ledger_ante (\<lambda>_. [])) (plain_ctx False) transfer_tx False = Ok (c', signed_tx) \<and>
     l_balance (modules (evmCtx c')) module_address ''anryton'' = 100000 + 21010"
proof -
  obtain c' where ok: "newEVMAnteHandler (ledger_ante (\<lambda>_. [])) (plain_ctx False) transfer_tx False = Ok (c', signed_tx)"
    using transfer_accepted [of False "\<lambda>_. []" False] by auto
  have "AddressBytes (BytesToAddress (AddressBytes 5)) \<noteq> module_address" by code_simp
  then have "list_all (\<lambda>msg. msg_sender (ledger_ante (\<lambda>_. [])) msg \<noteq> module_address) (GetMsgs signed_tx)"
    by (simp add: signed_tx_def msg_sender_def)
  moreover have "msg_fee (Some 0) (EthMsg signed_msg) = 21010" by code_simp
  ultimately show ?thesis
    using fee_collector_receives_fees [OF ledger_ante.ante_bank_axioms ok] ok
    by (auto simp: transfer_tx_def fee_exempt_def ledger_sdk_def ledger_params_def plain_env plain_balance signed_tx_def)
qed


end
