(* ===== verification/Ante_Cosmos_Laws.thy ===== *)
theory Ante_Cosmos_Laws
  imports Ante_Cosmos Ante_Evm_Properties
begin

text \<open>
  Properties of the ante handler of Cosmos transactions and of the choice between the handlers:
  which messages get through, what a transaction pays, what a vesting account may delegate.
\<close>

subsection \<open>Messages executed by others\<close>

text \<open>The messages that a transaction executes by \<open>MsgExec\<close>, at any depth.\<close>

inductive executes :: "Msg list \<Rightarrow> Msg \<Rightarrow> bool" for msgs where
  inner: "MsgExec packed \<in> set msgs \<Longrightarrow> Some m \<in> set packed \<Longrightarrow> executes msgs m"
| deeper: "executes msgs (MsgExec packed) \<Longrightarrow> Some m \<in> set packed \<Longrightarrow> executes msgs m"

lemma executes_mono: "executes ms x \<Longrightarrow> set ms \<subseteq> set msgs \<Longrightarrow> executes msgs x"
  by (induction rule: executes.induct) (auto intro: executes.intros)

lemma executes_Nil [simp]: "\<not> executes [] x"
proof
  assume "executes [] x"
  then show False by (induction rule: executes.induct) auto
qed

lemma set_unpack_msgs: "unpack_msgs packed = Some ms \<Longrightarrow> set ms = {m. Some m \<in> set packed}"
  by (induction packed arbitrary: ms rule: unpack_msgs.induct) auto

text \<open>What \<open>MsgExec\<close> at the head of a list executes: its messages and what they execute.\<close>

lemma executes_Cons:
  "executes (m # msgs) x \<Longrightarrow>
    executes msgs x \<or> (\<exists>packed. m = MsgExec packed \<and> (Some x \<in> set packed \<or> (\<exists>ms. set ms = {y. Some y \<in> set packed} \<and> executes ms x)))"
proof (induction rule: executes.induct)
  case (inner packed x)
  then show ?case by (auto intro: executes.inner)
next
  case (deeper packed x)
  then consider "executes msgs (MsgExec packed)"
    | q where "m = MsgExec q" "Some (MsgExec packed) \<in> set q"
    | q ms where "m = MsgExec q" "set ms = {y. Some y \<in> set q}" "executes ms (MsgExec packed)"
    by blast
  then show ?case
  proof cases
    case 1
    with deeper.hyps show ?thesis by (auto intro: executes.deeper)
  next
    case 2
    let ?ms = "map the (filter (\<lambda>y. y \<noteq> None) q)"
    have ms: "set ?ms = {y. Some y \<in> set q}" by force
    with 2 have "MsgExec packed \<in> set ?ms" by blast
    then have "executes ?ms x" using deeper.hyps(2) by (rule executes.inner)
    with 2 ms show ?thesis by blast
  next
    case 3
    then show ?thesis using deeper.hyps(2) executes.deeper by blast
  qed
qed

lemma executes_Cons_MsgExec:
  assumes "executes (MsgExec packed # msgs) x" "unpack_msgs packed = Some ms"
  shows "executes msgs x \<or> x \<in> set ms \<or> executes ms x"
  using executes_Cons [OF assms(1)] set_unpack_msgs [OF assms(2)] executes_mono by fastforce

lemma executes_Cons_other:
  assumes "executes (m # msgs) x" "\<And>packed. m \<noteq> MsgExec packed"
  shows "executes msgs x"
  using executes_Cons [OF assms(1)] assms(2) by blast

text \<open>What the limiter lets through, inside a \<open>MsgExec\<close> or not.\<close>

fun allowed :: "string list \<Rightarrow> bool \<Rightarrow> Msg \<Rightarrow> bool" where
  "allowed disabled is_inner (MsgExec packed) \<longleftrightarrow> True"
| "allowed disabled is_inner (MsgGrant a) \<longleftrightarrow> (\<exists>url. a = Some url \<and> url \<notin> set disabled)"
| "allowed disabled is_inner m \<longleftrightarrow> (is_inner \<longrightarrow> MsgTypeURL m \<notin> set disabled)"

lemma isDisabledMsg_iff [simp]: "isDisabledMsg disabled url \<longleftrightarrow> url \<in> set disabled"
  by (auto simp: isDisabledMsg_def list_ex_iff)

lemma checked_msgs:
  "checkDisabledMsgs disabled msgs is_inner lvl = Ok () \<Longrightarrow>
    (\<forall>m\<in>set msgs. allowed disabled is_inner m) \<and> (\<forall>x. executes msgs x \<longrightarrow> allowed disabled True x)"
  "check_msgs disabled msgs is_inner lvl = Ok () \<Longrightarrow>
    (\<forall>m\<in>set msgs. allowed disabled is_inner m) \<and> (\<forall>x. executes msgs x \<longrightarrow> allowed disabled True x)"
proof (induction disabled msgs is_inner lvl and disabled msgs is_inner lvl rule: checkDisabledMsgs_check_msgs.induct)
  case (1 disabled msgs is_inner lvl)
  then show ?case by (simp split: if_splits)
next
  case (3 disabled packed msgs is_inner lvl)
  from 3(3) obtain ms where ms: "unpack_msgs packed = Some ms"
    and oks: "checkDisabledMsgs disabled ms True (lvl + 1) = Ok ()" "check_msgs disabled msgs is_inner (lvl + 1) = Ok ()"
    by (auto split: option.splits)
  from 3(1) [OF ms oks(1)] 3(2) [OF ms oks] show ?case
    by (simp, blast dest: executes_Cons_MsgExec [OF _ ms])
qed (auto split: option.splits if_splits dest: executes_Cons_other)
subsection \<open>The front of the chains\<close>

lemma cosmos_front:
  assumes "newCosmosAnteHandler C c tx simulate = Ok x \<or> newLegacyCosmosAnteHandlerEip712 C c tx simulate = Ok x"
  shows "\<not> list_ex is_eth (GetMsgs tx)" "checkDisabledMsgs disabledMsgTypes (GetMsgs tx) False 1 = Ok ()"
  using assms
  by (auto simp: newCosmosAnteHandler_def newLegacyCosmosAnteHandlerEip712_def RejectMessages_AnteHandle_def
      AuthzLimiter_AnteHandle_def split: if_splits)

lemma map_outcome_all: "map_outcome f xs = Ok ys \<Longrightarrow> (\<And>x y. f x = Ok y \<Longrightarrow> P x) \<Longrightarrow> list_all P xs"
  by (induction xs arbitrary: ys) auto

lemma recover_sender_eth: "recover_sender A c msg = Ok y \<Longrightarrow> is_eth msg"
  by (cases msg) (auto simp: recover_sender_def)

lemma evm_front: "newEVMAnteHandler A c tx simulate = Ok (c', tx') \<Longrightarrow> list_all is_eth (GetMsgs tx)"
  by (erule newEVMAnteHandler_Ok) (rule map_outcome_all, auto dest: recover_sender_eth)

definition evm_route :: "Tx \<Rightarrow> bool" where
  "evm_route tx = (case asExtensionOptions tx of
     Some ((url, _) # _) \<Rightarrow> url = ''/ethermint.evm.v1.ExtensionOptionsEthereumTx'' | _ \<Rightarrow> False)"

lemma NewAnteHandler_routes:
  assumes "NewAnteHandler C c tx sim = Ok (c', tx')"
  shows "if evm_route tx then newEVMAnteHandler (cante C) c tx sim = Ok (c', tx')
    else newCosmosAnteHandler C c tx sim = Ok (c', tx') \<or> newLegacyCosmosAnteHandlerEip712 C c tx sim = Ok (c', tx')"
  using assms by (auto simp: NewAnteHandler_def evm_route_def split: option.splits list.splits if_splits)

text \<open>None of the disabled types is a type of the authorization module.\<close>

lemma allowed_disabled: "allowed disabledMsgTypes True m \<Longrightarrow> MsgTypeURL m \<notin> set disabledMsgTypes"
  by (cases m) (auto simp: disabledMsgTypes_def)

subsection \<open>Delegations\<close>

lemma validateAuthz_all: "validateAuthz C c packed = Ok () \<Longrightarrow> Some m \<in> set packed \<Longrightarrow> validateMsg C c m = Ok ()"
  by (induction C c packed rule: validateAuthz.induct) auto

lemma fold_outcome_unit: "fold_outcome f xs () = Ok () \<Longrightarrow> x \<in> set xs \<Longrightarrow> f x () = Ok ()"
  by (induction xs) auto

subsection \<open>Counters and gas for signatures\<close>

lemma decode_encode_counter:
  assumes "- (2 ^ 63) \<le> h" "h < 2 ^ 63"
  shows "decodeHeightCounter (encodeHeightCounter h n) = Some (h, n)"
proof -
  have "be_nat (be_bytes 8 (word_of_int h :: uint64)) = unat (word_of_int h :: uint64)" "be_nat (be_bytes 4 n) = unat n"
    using unat_less_pow [of "word_of_int h :: uint64"] unat_less_pow [of n] by (simp_all add: be_nat_be_bytes)
  moreover have "sint (word_of_int h :: uint64) = h"
    using assms by (simp add: signed_of_int signed_take_bit_int_eq_self)
  ultimately show ?thesis by (simp add: decodeHeightCounter_def encodeHeightCounter_def)
qed

text \<open>The next transaction of the block gets the next counter, the first of another block gets zero.\<close>

lemma next_counter:
  assumes "wasmStore c = fmupd TXCounterPrefix (encodeHeightCounter h (n + 1)) store" "- (2 ^ 63) \<le> h" "h < 2 ^ 63"
  shows "\<exists>c'. CountTX_AnteHandle c tx False next_handler = next_handler c' tx False \<and>
    TXCounter c' = Some (if BlockHeight (evmCtx c) = h then n + 1 else 0)"
  using assms(1) decode_encode_counter [OF assms(2,3)] by (auto simp: CountTX_AnteHandle_def Let_def option_outcome_def)

fun burn :: "('m \<Rightarrow> uint64 \<Rightarrow> 'm option) \<Rightarrow> nat \<Rightarrow> 'm \<Rightarrow> 'm option" where
  "burn consume 0 m = Some m"
| "burn consume (Suc n) m = Option.bind (consume m Secp256k1VerifyCost) (burn consume n)"

lemma burn_add: "burn consume (k + n) m = Option.bind (burn consume k m) (burn consume n)"
  by (induction k arbitrary: m) (simp_all add: bind_assoc split: bind_split)

text \<open>Verification that is paid for costs a number of \<open>secp256k1\<close> signatures and nothing else.\<close>

lemma signature_gas:
  "SigVerificationGasConsumer consume ed m key sig = Ok m' \<Longrightarrow> \<exists>n. burn consume n m = Some m'"
  "ConsumeMultisignatureVerificationGas consume ed m bits sigs keys = Ok m' \<Longrightarrow> \<exists>n. burn consume n m = Some m'"
proof (induction consume ed m key sig and consume ed m bits sigs keys arbitrary: m' and m'
    rule: SigVerificationGasConsumer_ConsumeMultisignatureVerificationGas.induct)
  case (1 consume ed m k sig)
  then show ?case by (intro exI [of _ "Suc 0"]) (auto simp: option_outcome_def split: option.splits)
next
  case (6 consume ed m sigs keys)
  then show ?case by (intro exI [of _ 0]) simp
next
  case (10 consume ed m bits sig sigs key keys)
  then obtain m1 where "SigVerificationGasConsumer consume ed m key sig = Ok m1"
    "ConsumeMultisignatureVerificationGas consume ed m1 bits sigs keys = Ok m'" by auto
  with 10 obtain k n where "burn consume k m = Some m1" "burn consume n m1 = Some m'" by metis
  then have "burn consume (k + n) m = Some m'" by (simp add: burn_add)
  then show ?case ..
qed auto

subsection \<open>An instance\<close>

text \<open>The ledger with SDK decorators that pass everything on, and sorted coin lists.\<close>

definition pass_on :: "('r, 'd) AnteDecorator" where
  "pass_on c tx simulate next_handler = next_handler c tx simulate"

definition no_eip712 :: "(bytes \<times> uint64, ledger) eip712_env" where
  "no_eip712 =
     \<lparr>eIsSigVerifiableTx = (\<lambda>_. False), eIsSigningTx = (\<lambda>_. False), eGetSignaturesV2 = (\<lambda>_. Ok []), eGetSigners = (\<lambda>_. []),
      eGetSignerAcc = (\<lambda>_ _. Err ''unknown''), eGetPubKey = (\<lambda>_. None), eGetAccountNumber = (\<lambda>_. 0), eStdSignBytes = (\<lambda>_ _ _ _. []),
      eWeb3 = (\<lambda>_. None), eAccAddressFromBech32 = (\<lambda>_. Ok []), eTypedDataHash = (\<lambda>_ _ _ _. Ok []), eRecoverPubkey = (\<lambda>_ _. Ok []),
      eAddress = (\<lambda>_. []), eKeyBytes = (\<lambda>_. []), eVerifySignature = (\<lambda>_ _ _. False)\<rparr>"

definition list_safe_sub :: "coins \<Rightarrow> coins \<Rightarrow> coins \<times> bool" where
  "list_safe_sub a b =
     (pick (denoms a b) (\<lambda>d. list_amount a d - list_amount b d), list_ex (\<lambda>d. list_amount a d < list_amount b d) (denoms a b))"

definition ledger_cosmos :: "(bytes \<Rightarrow> bytes list) \<Rightarrow> (bytes \<times> uint64, ledger, unit, int, bytes) cosmos_env" where
  "ledger_cosmos delegations =
     \<lparr>cante = ledger_ante delegations, cCeilRound = (\<lambda>d. Some (- ((- d) div 10 ^ 18))),
      cInt = (\<lambda>i. if \<bar>i\<bar> < 2 ^ 256 then Some i else None), cNewCoin = (\<lambda>d n. if n < 0 then None else Some (d, n)),
      cIsAnyGTE = (\<lambda>a b. list_ex (\<lambda>(d, v). d \<in> fst ` set a \<and> v \<le> list_amount a d) b), cSafeSub = list_safe_sub,
      cDecCoinsIsZero = list_all (\<lambda>(d, v). v = 0), cFeeCollectorSet = True, cUseGrantedFees = None,
      cGetAddress = (\<lambda>acc. fst (Evm_Keeper.base_of acc)), ceip712 = no_eip712, cSimulationGasLimit = None,
      cNewGasMeter = (\<lambda>l. \<lparr>consumed = 0, limit = l\<rparr>), cSetUpContext = pass_on, cExtensionOptions = pass_on,
      cValidateBasic = pass_on, cTxTimeoutHeight = pass_on, cValidateMemo = pass_on, cConsumeGasForTxSize = pass_on,
      cSetPubKey = pass_on, cValidateSigCount = pass_on, cSigGasConsume = pass_on, cSigVerification = pass_on,
      cIncrementSequence = pass_on, cRedundantRelay = pass_on\<rparr>"
subsection \<open>What the bank promises here\<close>

lemma guard_Ok: "(if P then Err e else x) = Ok y \<longleftrightarrow> \<not> P \<and> x = Ok y"
  by simp

lemma big_Quo_nonneg: "0 \<le> x \<Longrightarrow> 0 \<le> y \<Longrightarrow> big_Quo x y = (if y = 0 then None else Some (x div y))"
  by (auto simp: big_Quo_def sgn_if)

text \<open>
  Using a fee grant moves no coins; checked integers keep their value; a subtraction of coins that
  is not negative is one in every denomination.
\<close>

locale cosmos_bank = ante_bank "cante C" adr collector
  for C :: "('b, 'r, 'cc, 'd, 'vb) cosmos_env" and adr :: "'b \<Rightarrow> bytes" and collector :: bytes +
  assumes grant_keeps: "cUseGrantedFees C = Some use \<Longrightarrow> use r g p fees msgs = Ok r' \<Longrightarrow>
      bkGetBalance (ante_sdk (cante C)) r' = bkGetBalance (ante_sdk (cante C)) r"
    and int_checked: "cInt C i = Some j \<Longrightarrow> j = i"
    and safe_sub: "cSafeSub C [(d, b)] u = (diff, False) \<Longrightarrow> AmountOf (acoins (cante C)) diff d = b - AmountOf (acoins (cante C)) u d"
    and no_amount: "AmountOf (acoins (cante C)) (NoCoins (acoins (cante C))) d = 0"
begin

lemma use_grant_keeps:
  assumes "use_grant C tx fees payer granter r = Ok (a, r')"
  shows "a = (case granter of None \<Rightarrow> payer | Some g \<Rightarrow> g)"
    "bkGetBalance (ante_sdk (cante C)) r' = bkGetBalance (ante_sdk (cante C)) r"
  using assms grant_keeps by (auto simp: use_grant_def split: option.splits if_splits)

lemma cosmos_deductFee_collector:
  assumes "cosmos_deductFee C c tx (if f = 0 then [] else [(denom, f)]) payer granter = Ok c'"
    and "(case granter of None \<Rightarrow> payer | Some g \<Rightarrow> g) \<noteq> collector"
  shows "bkGetBalance (ante_sdk (cante C)) (modules (evmCtx c')) collector denom =
    bkGetBalance (ante_sdk (cante C)) (modules (evmCtx c)) collector denom + f"
proof (cases "f = 0")
  case True
  with assms show ?thesis by (simp add: cosmos_deductFee_def zero_coins)
next
  case False
  let ?A = "cante C"
  obtain a r acc r1 r2 where g: "use_grant C tx [(denom, f)] payer granter (modules (evmCtx c)) = Ok (a, r)"
    and acc: "akGetAccount (ante_sdk ?A) r a = Some acc"
    and r1: "ClaimStakingRewardsIfNecessary ?A r (cGetAddress C acc) [(denom, f)] = Ok r1"
    and r2: "aDeductFees ?A r1 acc [(denom, f)] = Ok r2" "modules (evmCtx c') = r2"
    using assms(1) False by (auto simp: cosmos_deductFee_def deductFeesFromBalanceOrUnclaimedStakingRewards_def zero_coins
        split: option.splits if_splits)
  have "adr (Evm_Keeper.base_of acc) \<noteq> collector"
    using stored_address [OF acc] use_grant_keeps(1) [OF g] assms(2) by simp
  with deduct_moves [OF r2(1)] claim_collector [OF r1] use_grant_keeps(2) [OF g] show ?thesis
    by (simp add: r2(2) credit_def)
qed

lemma dynamic_fee:
  assumes "NewDynamicFeeChecker C c tx feeTx = Ok (fees, priority)" "BlockHeight (evmCtx c) \<noteq> 0"
    "ante_BaseFee (cante C) c = Some baseFee" "0 \<le> AmountOf (acoins (cante C)) (fee_coins C feeTx) (EvmDenom (ante_Params (cante C) c))"
  shows "0 \<le> maxPriorityPrice tx" "feeTx_GetGas feeTx \<noteq> 0"
    "fees = [(EvmDenom (ante_Params (cante C) c), min (baseFee + maxPriorityPrice tx)
       (AmountOf (acoins (cante C)) (fee_coins C feeTx) (EvmDenom (ante_Params (cante C) c)) div uint (feeTx_GetGas feeTx)) *
       uint (feeTx_GetGas feeTx))]"
  using assms
  by (auto simp: NewDynamicFeeChecker_def Let_def EffectiveGasPrice_def big_Quo_nonneg add.commute
      dest!: int_id int_checked split: if_splits)

lemma deducted_fee:
  assumes ok: "DeductFee_AnteHandle C (NewDynamicFeeChecker C) c tx False next_handler = Ok res"
    and tx: "asFeeTx tx = Some feeTx" and env: "BlockHeight (evmCtx c) \<noteq> 0" "ante_BaseFee (cante C) c = Some baseFee"
    and offered: "offered = AmountOf (acoins (cante C)) (fee_coins C feeTx) (EvmDenom (ante_Params (cante C) c))" "0 \<le> offered"
    and payer: "(case FeeGranter feeTx of None \<Rightarrow> FeePayer feeTx | Some g \<Rightarrow> g) \<noteq> collector"
  shows "\<exists>c1 paid. next_handler c1 tx False = Ok res \<and>
    bkGetBalance (ante_sdk (cante C)) (modules (evmCtx c1)) collector (EvmDenom (ante_Params (cante C) c)) =
      bkGetBalance (ante_sdk (cante C)) (modules (evmCtx c)) collector (EvmDenom (ante_Params (cante C) c)) + paid \<and>
    paid = (if fee_exempt (cante C) (modules (evmCtx c)) (FeePayer feeTx) then 0
      else min (baseFee + maxPriorityPrice tx) (offered div uint (feeTx_GetGas feeTx)) * uint (feeTx_GetGas feeTx)) \<and>
    paid \<le> offered"
proof -
  let ?d = "EvmDenom (ante_Params (cante C) c)" and ?ex = "fee_exempt (cante C) (modules (evmCtx c)) (FeePayer feeTx)"
  let ?gas = "uint (feeTx_GetGas feeTx)"
  define f where "f = min (baseFee + maxPriorityPrice tx) (offered div ?gas) * ?gas"
  from ok tx obtain fees priority c2 where fees: "NewDynamicFeeChecker C c tx feeTx = Ok (fees, priority)"
    and ded: "cosmos_deductFee C c tx (if ?ex then NoCoins (acoins (cante C)) else fees) (FeePayer feeTx) (FeeGranter feeTx) = Ok c2"
    and rest: "next_handler (c2\<lparr>Priority := priority\<rparr>) tx False = Ok res"
    by (auto simp: DeductFee_AnteHandle_def guard_Ok)
  have f: "fees = [(?d, f)]" and gas: "feeTx_GetGas feeTx \<noteq> 0"
    using dynamic_fee [OF fees env offered(2) [unfolded offered(1)]] by (simp_all add: f_def offered(1))
  define paid where "paid = (if ?ex then 0 else f)"
  have "cosmos_deductFee C c tx [(d, 0)] p g = cosmos_deductFee C c tx [] p g" for d p g
    by (simp add: cosmos_deductFee_def zero_coins)
  with ded have "cosmos_deductFee C c tx (if paid = 0 then [] else [(?d, paid)]) (FeePayer feeTx) (FeeGranter feeTx) = Ok c2"
    by (auto simp: f paid_def zero_coins split: if_splits)
  from cosmos_deductFee_collector [OF this payer] have
    "bkGetBalance (ante_sdk (cante C)) (modules (evmCtx c2)) collector ?d =
      bkGetBalance (ante_sdk (cante C)) (modules (evmCtx c)) collector ?d + paid" .
  moreover have "f \<le> offered"
  proof -
    have pos: "0 < ?gas" using gas by (simp add: word_neq_0_conv uint_pos_iff)
    have "f \<le> offered div ?gas * ?gas" unfolding f_def using pos by (intro mult_right_mono) auto
    also have "\<dots> \<le> offered" using pos by (simp add: minus_mod_eq_div_mult [symmetric])
    finally show ?thesis .
  qed
  then have "paid \<le> offered" using offered(2) by (simp add: paid_def)
  ultimately show ?thesis using rest
    by (intro exI [of _ "c2\<lparr>Priority := priority\<rparr>"] exI [of _ paid]) (auto simp: paid_def f_def)
qed

lemma checked_delegation:
  assumes "check_delegation C c v (a # signers) = Ok ()" "akGetAccount (ante_sdk (cante C)) (modules (evmCtx c)) a = Some acc"
    "aAsClawback (cante C) acc = Some va"
  shows "\<exists>unvested. GetUnvestedOnly (acoins (cante C)) va (ante_BlockTime c) = Some unvested \<and>
    (v \<le> 0 \<or> v \<le> bkGetBalance (ante_sdk (cante C)) (modules (evmCtx c)) a (aBondDenom (cante C) (modules (evmCtx c))) -
       AmountOf (acoins (cante C)) unvested (aBondDenom (cante C) (modules (evmCtx c))))"
proof -
  obtain u where u: "GetUnvestedOnly (acoins (cante C)) va (ante_BlockTime c) = Some u"
    using assms by (auto simp: Let_def split: if_splits)
  moreover obtain diff neg where sub: "cSafeSub C [(aBondDenom (cante C) (modules (evmCtx c)),
        bkGetBalance (ante_sdk (cante C)) (modules (evmCtx c)) a (aBondDenom (cante C) (modules (evmCtx c))))] u = (diff, neg)"
    by fastforce
  ultimately have le: "v \<le> AmountOf (acoins (cante C)) (if neg then NoCoins (acoins (cante C)) else diff) (aBondDenom (cante C) (modules (evmCtx c)))"
    using assms by (auto simp: Let_def not_less split: if_splits)
  show ?thesis
  proof (cases neg)
    case True
    with u le show ?thesis by (simp add: no_amount)
  next
    case False
    with u le safe_sub [of _ _ u diff] sub show ?thesis by simp
  qed
qed

end
lemma ledger_cosmos_sel [simp]:
  "cante (ledger_cosmos d) = ledger_ante d" "cUseGrantedFees (ledger_cosmos d) = None" "cSafeSub (ledger_cosmos d) = list_safe_sub"
  "cInt (ledger_cosmos d) i = (if \<bar>i\<bar> < 2 ^ 256 then Some i else None)" "cSimulationGasLimit (ledger_cosmos d) = None"
  "cSetUpContext (ledger_cosmos d) = pass_on" "cExtensionOptions (ledger_cosmos d) = pass_on"
  "cValidateBasic (ledger_cosmos d) = pass_on" "cTxTimeoutHeight (ledger_cosmos d) = pass_on"
  "cValidateMemo (ledger_cosmos d) = pass_on" "cConsumeGasForTxSize (ledger_cosmos d) = pass_on"
  "cSetPubKey (ledger_cosmos d) = pass_on" "cValidateSigCount (ledger_cosmos d) = pass_on"
  "cSigGasConsume (ledger_cosmos d) = pass_on" "cSigVerification (ledger_cosmos d) = pass_on"
  "cIncrementSequence (ledger_cosmos d) = pass_on" "cRedundantRelay (ledger_cosmos d) = pass_on"
  "cFeeCollectorSet (ledger_cosmos d)" "cGetAddress (ledger_cosmos d) acc = fst (Evm_Keeper.base_of acc)"
  by (simp_all add: ledger_cosmos_def)

interpretation ledger_cosmos: cosmos_bank "ledger_cosmos delegations" fst module_address for delegations
proof (rule cosmos_bank.intro)
  show "ante_bank (cante (ledger_cosmos delegations)) fst module_address"
    using ledger_ante.ante_bank_axioms by simp
  show "cosmos_bank_axioms (ledger_cosmos delegations)"
  proof (unfold_locales, goal_cases)
    case (3 d b u diff)
    have "list_amount [(d, b)] d = b" by (simp add: list_amount_def)
    with 3 show ?case by (auto simp: list_safe_sub_def list_amount_pick denoms_def)
  qed (auto simp: coin_list_def list_amount_def split: if_splits)
qed

definition cosmos_tx :: Tx where
  "cosmos_tx =
     \<lparr>GetMsgs = [OtherMsg ''/cosmos.bank.v1beta1.MsgSend'', MsgExec [Some (OtherMsg ''/cosmos.bank.v1beta1.MsgSend'')]], isGasTx = True,
      asFeeTx = Some \<lparr>FeePayer = AddressBytes 5, FeeGranter = None, GetFee = Some [(''anryton'', 350)], feeTx_GetGas = 100\<rparr>,
      asProtoTx = None, asExtensionOptions = None\<rparr>"

lemma plain_fields [simp]:
  "BlockHeight (evmCtx (plain_ctx v)) = 1" "ante_BlockTime (plain_ctx v) = 160" "wasmStore (plain_ctx v) = fmempty"
  "modules (evmCtx (plain_ctx v)) = \<lparr>l_accounts = (\<lambda>a. Some (ledger_account v a 0)), l_balance = (\<lambda>_ _. 100000)\<rparr>"
  by (simp_all add: plain_ctx_def ledger_ctx_def genesis_def)

lemma cosmos_fee: "NewDynamicFeeChecker (ledger_cosmos d) (plain_ctx v) cosmos_tx (the (asFeeTx cosmos_tx)) = Ok ([(''anryton'', 300)], 0)"
  by (simp add: NewDynamicFeeChecker_def cosmos_tx_def plain_env ledger_params_def maxPriorityPrice_def fee_coins_def
      coin_list_def list_amount_def big_Quo_def raw_lib_def EffectiveGasPrice_def clamp_priority_def IsInt64_def)

definition cosmos_paid :: "(ledger, int) AnteCtx" where
  "cosmos_paid = (plain_ctx False)\<lparr>evmCtx := (evmCtx (plain_ctx False))\<lparr>modules := l_credit module_address [(''anryton'', 300)]
            (l_credit (AddressBytes 5) [(''anryton'', - 300)] (modules (evmCtx (plain_ctx False))))\<rparr>,
          Events := Events (plain_ctx False) @ [TxFeeFrom [(''anryton'', 300)] (AddressBytes 5)], Priority := 0\<rparr>"

lemma cosmos_deduct:
  "DeductFee_AnteHandle (ledger_cosmos (\<lambda>_. [])) (NewDynamicFeeChecker (ledger_cosmos (\<lambda>_. []))) (plain_ctx False) cosmos_tx False n =
     n cosmos_paid cosmos_tx False"
  using cosmos_fee [of "\<lambda>_. []" False]
  by (simp add: DeductFee_AnteHandle_def cosmos_tx_def fee_exempt_def cosmos_deductFee_def use_grant_def cosmos_paid_def
      deductFeesFromBalanceOrUnclaimedStakingRewards_def ClaimStakingRewardsIfNecessary_def ledger_sdk_def l_debit_def coin_list_def)

lemma cosmos_accepted: "\<exists>c'. newCosmosAnteHandler (ledger_cosmos (\<lambda>_. [])) (plain_ctx False) cosmos_tx False = Ok (c', cosmos_tx)"
proof -
  let ?C = "ledger_cosmos (\<lambda>_. [])"
  have msgs: "GetMsgs cosmos_tx = [OtherMsg ''/cosmos.bank.v1beta1.MsgSend'', MsgExec [Some (OtherMsg ''/cosmos.bank.v1beta1.MsgSend'')]]"
    by (simp add: cosmos_tx_def)
  have reject: "RejectMessages_AnteHandle c cosmos_tx False n = n c cosmos_tx False" for c :: "(ledger, int) AnteCtx" and n
    by (simp add: RejectMessages_AnteHandle_def msgs)
  have authz: "AuthzLimiter_AnteHandle disabledMsgTypes c cosmos_tx False n = n c cosmos_tx False" for c :: "(ledger, int) AnteCtx" and n
    by (simp add: AuthzLimiter_AnteHandle_def msgs disabledMsgTypes_def maxNestedMsgs_def)
  have price: "MinGasPrice_AnteHandle ?C (plain_ctx False) cosmos_tx False n = n (plain_ctx False) cosmos_tx False" for n
    by (simp add: MinGasPrice_AnteHandle_def cosmos_tx_def fm_GetParams_def plain_ctx_def ledger_ctx_def sample_ctx_def
        sample_params_def store_Get_def)
  have delegation: "VestingDelegation_AnteHandle ?C c cosmos_tx False n = n c cosmos_tx False" for c n
    by (simp add: VestingDelegation_AnteHandle_def msgs vesting_delegation_def)
  have limit: "LimitSimulationGas_AnteHandle ?C c cosmos_tx False n = n c cosmos_tx False" for c n
    by (simp add: LimitSimulationGas_AnteHandle_def)
  let ?c = "cosmos_paid\<lparr>wasmStore := fmupd TXCounterPrefix (encodeHeightCounter 1 1) (wasmStore cosmos_paid), TXCounter := Some 0\<rparr>"
  have count: "CountTX_AnteHandle cosmos_paid cosmos_tx False n = n ?c cosmos_tx False" for n
    by (simp add: CountTX_AnteHandle_def cosmos_paid_def)
  have wanted: "GasWanted_AnteHandle (ledger_ante (\<lambda>_. [])) ?c cosmos_tx False n = n ?c cosmos_tx False" for n
    by (simp add: GasWanted_AnteHandle_def cosmos_tx_def ante_BlockGasLimit_def BlockGasLimit_def GetBaseFeeEnabled_def
        IsBaseFeeEnabled_def fm_GetParams_def cosmos_paid_def plain_ctx_def ledger_ctx_def genesis_def sample_ctx_def
        sample_params_def store_Get_def Let_def)
  show ?thesis
    by (simp add: newCosmosAnteHandler_def reject authz pass_on_def price cosmos_deduct delegation limit count wanted
        GetValidator_AnteHandle_def)
qed
subsection \<open>Properties\<close>

text \<open>C26. Ethereum messages are accepted only by their own handler: a transaction that the extension
  option sends there has nothing but Ethereum messages, and in any other accepted transaction there
  is none, neither at the top nor executed or granted through the authorization module at any
  depth; the same holds for the creation of SDK vesting accounts inside authorizations.\<close>
theorem ethereum_messages_need_evm_handler:
  assumes "NewAnteHandler C c tx sim = Ok (c', tx')"
  shows "if evm_route tx then list_all is_eth (GetMsgs tx)
    else \<not> list_ex is_eth (GetMsgs tx) \<and>
      (\<forall>m. executes (GetMsgs tx) m \<longrightarrow> MsgTypeURL m \<notin> set disabledMsgTypes) \<and>
      (\<forall>url. MsgGrant (Some url) \<in> set (GetMsgs tx) \<or> executes (GetMsgs tx) (MsgGrant (Some url)) \<longrightarrow> url \<notin> set disabledMsgTypes)"
proof (cases "evm_route tx")
  case True
  then show ?thesis using NewAnteHandler_routes [OF assms] by (auto dest: evm_front)
next
  case False
  with NewAnteHandler_routes [OF assms] have
    "newCosmosAnteHandler C c tx sim = Ok (c', tx') \<or> newLegacyCosmosAnteHandlerEip712 C c tx sim = Ok (c', tx')" by simp
  note front = cosmos_front [OF this]
  note ok = checked_msgs(1) [OF front(2)]
  have "url \<notin> set disabledMsgTypes" if "MsgGrant (Some url) \<in> set (GetMsgs tx) \<or> executes (GetMsgs tx) (MsgGrant (Some url))" for url
    using ok that by fastforce
  with front(1) ok allowed_disabled False show ?thesis by simp
qed

theorem ethereum_messages_need_evm_handler_witness:
  "\<not> evm_route cosmos_tx \<and> is_ok (NewAnteHandler (ledger_cosmos (\<lambda>_. [])) (plain_ctx False) cosmos_tx False) \<and>
    executes (GetMsgs cosmos_tx) (OtherMsg ''/cosmos.bank.v1beta1.MsgSend'') \<and>
    ''/cosmos.bank.v1beta1.MsgSend'' \<notin> set disabledMsgTypes"
proof -
  have r: "\<not> evm_route cosmos_tx" "asExtensionOptions cosmos_tx = None" by (simp_all add: evm_route_def cosmos_tx_def)
  then obtain c' where ok: "NewAnteHandler (ledger_cosmos (\<lambda>_. [])) (plain_ctx False) cosmos_tx False = Ok (c', cosmos_tx)"
    using cosmos_accepted by (auto simp: NewAnteHandler_def)
  have "executes (GetMsgs cosmos_tx) (OtherMsg ''/cosmos.bank.v1beta1.MsgSend'')"
    by (rule executes.inner [of "[Some (OtherMsg ''/cosmos.bank.v1beta1.MsgSend'')]"]) (simp_all add: cosmos_tx_def)
  with ethereum_messages_need_evm_handler [OF ok] r ok show ?thesis by auto
qed

text \<open>C27. What a Cosmos transaction pays once there is a base fee: the fee collector receives the gas limit
  times the smaller of base fee plus tip and the offered price, so never more than the fee offered
  (it may be less than the base fee asks for), and nothing if the fee payer is exempt; then the next
  decorator runs.\<close>
theorem cosmos_fee_at_most_offered:
  assumes "cosmos_bank C adr collector"
    "DeductFee_AnteHandle C (NewDynamicFeeChecker C) c tx False next_handler = Ok res"
    "asFeeTx tx = Some feeTx" "BlockHeight (evmCtx c) \<noteq> 0" "ante_BaseFee (cante C) c = Some baseFee"
    "offered = AmountOf (acoins (cante C)) (fee_coins C feeTx) (EvmDenom (ante_Params (cante C) c))" "0 \<le> offered"
    "(case FeeGranter feeTx of None \<Rightarrow> FeePayer feeTx | Some g \<Rightarrow> g) \<noteq> collector"
  shows "\<exists>c1 paid. next_handler c1 tx False = Ok res \<and>
    bkGetBalance (ante_sdk (cante C)) (modules (evmCtx c1)) collector (EvmDenom (ante_Params (cante C) c)) =
      bkGetBalance (ante_sdk (cante C)) (modules (evmCtx c)) collector (EvmDenom (ante_Params (cante C) c)) + paid \<and>
    paid = (if fee_exempt (cante C) (modules (evmCtx c)) (FeePayer feeTx) then 0
      else min (baseFee + maxPriorityPrice tx) (offered div uint (feeTx_GetGas feeTx)) * uint (feeTx_GetGas feeTx)) \<and>
    paid \<le> offered"
  by (rule cosmos_bank.deducted_fee [OF assms])

theorem cosmos_fee_at_most_offered_witness:
  "\<exists>c1 paid. DeductFee_AnteHandle (ledger_cosmos (\<lambda>_. [])) (NewDynamicFeeChecker (ledger_cosmos (\<lambda>_. []))) (plain_ctx False)
      cosmos_tx False (\<lambda>c tx simulate. Ok (c, tx)) = Ok (c1, cosmos_tx) \<and>
    l_balance (modules (evmCtx c1)) module_address ''anryton'' = 100000 + paid \<and> paid = 300 \<and> paid \<le> 350"
proof -
  define feeTx where "feeTx = (\<lparr>FeePayer = AddressBytes 5, FeeGranter = None, GetFee = Some [(''anryton'', 350)], feeTx_GetGas = 100\<rparr>)"
  have ok: "DeductFee_AnteHandle (ledger_cosmos (\<lambda>_. [])) (NewDynamicFeeChecker (ledger_cosmos (\<lambda>_. []))) (plain_ctx False)
      cosmos_tx False (\<lambda>c tx simulate. Ok (c, tx)) = Ok (cosmos_paid, cosmos_tx)"
    by (rule cosmos_deduct)
  have tx: "asFeeTx cosmos_tx = Some feeTx" "maxPriorityPrice cosmos_tx = max_int64"
    by (simp_all add: cosmos_tx_def feeTx_def maxPriorityPrice_def)
  have "AddressBytes 5 \<noteq> module_address" by code_simp
  then have payer: "(case FeeGranter feeTx of None \<Rightarrow> FeePayer feeTx | Some g \<Rightarrow> g) \<noteq> module_address"
    by (simp add: feeTx_def)
  have offered: "350 = AmountOf (acoins (cante (ledger_cosmos (\<lambda>_. [])))) (fee_coins (ledger_cosmos (\<lambda>_. [])) feeTx)
      (EvmDenom (ante_Params (cante (ledger_cosmos (\<lambda>_. []))) (plain_ctx False)))"
    by (simp add: fee_coins_def feeTx_def plain_env ledger_params_def list_amount_def)
  have gas: "uint (feeTx_GetGas feeTx) = 100" by (simp add: feeTx_def)
  from cosmos_fee_at_most_offered [OF ledger_cosmos.cosmos_bank_axioms ok tx(1) _ _ offered _ payer, of 0]
  have "\<exists>paid. l_balance (modules (evmCtx cosmos_paid)) module_address ''anryton'' = 100000 + paid \<and> paid = 300 \<and> paid \<le> 350"
    by (auto simp: plain_env ledger_params_def fee_exempt_def gas tx(2) ledger_sdk_def)
  with ok show ?thesis by blast
qed

text \<open>C28. In a Cosmos transaction that passes the delegation check, a clawback vesting account that
  delegates, by itself or in a \<open>MsgExec\<close>, delegates no more than its balance less its unvested coins.\<close>
theorem delegation_within_vested:
  assumes "cosmos_bank C adr collector" "VestingDelegation_AnteHandle C c tx simulate next_handler = Ok res"
    "MsgDelegate (a # signers) v \<in> set (GetMsgs tx) \<or>
      (\<exists>packed. MsgExec packed \<in> set (GetMsgs tx) \<and> Some (MsgDelegate (a # signers) v) \<in> set packed)"
    "akGetAccount (ante_sdk (cante C)) (modules (evmCtx c)) a = Some acc" "aAsClawback (cante C) acc = Some va"
  shows "\<exists>unvested. GetUnvestedOnly (acoins (cante C)) va (ante_BlockTime c) = Some unvested \<and>
    (v \<le> 0 \<or> v \<le> bkGetBalance (ante_sdk (cante C)) (modules (evmCtx c)) a (aBondDenom (cante C) (modules (evmCtx c))) -
       AmountOf (acoins (cante C)) unvested (aBondDenom (cante C) (modules (evmCtx c))))"
proof -
  have ok: "fold_outcome (vesting_delegation C c) (GetMsgs tx) () = Ok ()"
    using assms(2) by (auto simp: VestingDelegation_AnteHandle_def)
  from assms(3) validateAuthz_all fold_outcome_unit [OF ok] have "check_delegation C c v (a # signers) = Ok ()"
    by (fastforce simp: vesting_delegation_def)
  from cosmos_bank.checked_delegation [OF assms(1) this assms(4,5)] show ?thesis .
qed
definition delegating :: "Msg list \<Rightarrow> Tx" where
  "delegating msgs = cosmos_tx\<lparr>GetMsgs := msgs\<rparr>"

lemma ledger_vested:
  "GetVestedOnly coin_list (ledger_va (AddressBytes 5)) 160 = Some [(''anryton'', 200)]"
  "GetUnvestedOnly coin_list (ledger_va (AddressBytes 5)) 160 = Some [(''anryton'', 400)]"
  "list_safe_sub [(''anryton'', 100000)] [(''anryton'', 400)] = ([(''anryton'', 99600)], False)"
  by code_simp+

lemma ledger_delegation:
  "check_delegation (ledger_cosmos d) (plain_ctx True) v [AddressBytes 5] =
     (if v \<le> 99600 then Ok () else Err ''cannot delegate unvested coins'')"
  using ledger_vested by (simp add: ledger_sdk_def ledger_account_def list_amount_def Let_def option_outcome_def)

theorem delegation_within_vested_witness:
  "\<exists>unvested. VestingDelegation_AnteHandle (ledger_cosmos (\<lambda>_. [])) (plain_ctx True)
      (delegating [MsgExec [Some (MsgDelegate [AddressBytes 5] 50)]]) False (\<lambda>c tx simulate. Ok (c, tx)) =
        Ok (plain_ctx True, delegating [MsgExec [Some (MsgDelegate [AddressBytes 5] 50)]]) \<and>
    GetUnvestedOnly coin_list (ledger_va (AddressBytes 5)) 160 = Some unvested \<and> 50 \<le> 100000 - AmountOf coin_list unvested ''anryton''"
proof -
  let ?tx = "delegating [MsgExec [Some (MsgDelegate [AddressBytes 5] 50)]]"
  have ok: "VestingDelegation_AnteHandle (ledger_cosmos (\<lambda>_. [])) (plain_ctx True) ?tx False (\<lambda>c tx simulate. Ok (c, tx)) =
      Ok (plain_ctx True, ?tx)"
    by (simp add: VestingDelegation_AnteHandle_def delegating_def vesting_delegation_def ledger_delegation del: check_delegation.simps)
  have "akGetAccount ledger_sdk (modules (evmCtx (plain_ctx True))) (AddressBytes 5) = Some (OtherAccount (AddressBytes 5, 0))"
    by (simp add: ledger_sdk_def ledger_account_def)
  with delegation_within_vested [OF ledger_cosmos.cosmos_bank_axioms ok, of "AddressBytes 5" "[]" 50
      "OtherAccount (AddressBytes 5, 0)" "ledger_va (AddressBytes 5)"] ok
  show ?thesis by (auto simp: delegating_def ledger_sdk_def)
qed

text \<open>C29. A delegation inside two levels of \<open>MsgExec\<close> is not looked at: the decorator passes it on whatever its
  signers and amount, and the limiter of authorizations lets it through, while the same delegation
  by itself or inside one \<open>MsgExec\<close> is refused when it takes unvested coins.\<close>
theorem nested_delegation_unchecked:
  "VestingDelegation_AnteHandle C c (delegating [MsgExec [Some (MsgExec [Some (MsgDelegate signers v)])]]) simulate next_handler =
      next_handler c (delegating [MsgExec [Some (MsgExec [Some (MsgDelegate signers v)])]]) simulate \<and>
    checkDisabledMsgs disabledMsgTypes [MsgExec [Some (MsgExec [Some (MsgDelegate signers v)])]] False 1 = Ok () \<and>
    \<not> is_ok (VestingDelegation_AnteHandle (ledger_cosmos (\<lambda>_. [])) (plain_ctx True)
        (delegating [MsgDelegate [AddressBytes 5] 99601]) False (\<lambda>c tx simulate. Ok (c, tx))) \<and>
    \<not> is_ok (VestingDelegation_AnteHandle (ledger_cosmos (\<lambda>_. [])) (plain_ctx True)
        (delegating [MsgExec [Some (MsgDelegate [AddressBytes 5] 99601)]]) False (\<lambda>c tx simulate. Ok (c, tx)))"
proof -
  have "checkDisabledMsgs disabledMsgTypes [MsgExec [Some (MsgExec [Some (MsgDelegate signers v)])]] False 1 = Ok ()"
    by (simp add: disabledMsgTypes_def maxNestedMsgs_def)
  then show ?thesis
    by (simp add: VestingDelegation_AnteHandle_def delegating_def vesting_delegation_def ledger_delegation
        del: check_delegation.simps checkDisabledMsgs.simps)
qed

end
