(* ===== verification/Vesting_Keeper.thy ===== *)
theory Vesting_Keeper
  imports Vesting_Account
begin

text \<open>
  The vesting module's keeper, \<open>x/vesting/keeper\<close>: the messages that create, fund, claw back,
  convert and reassign clawback vesting accounts, the governance flags in the module's store,
  the governance hooks that set them, the proposal handler and the stateless checks of the
  messages. The account, bank, staking, distribution and governance modules are the record
  \<open>vkeeper\<close>; their state is one value that the messages thread through.
\<close>

subsection \<open>State and dependencies\<close>

text \<open>The account types the type switches of the module tell apart.\<close>

datatype ('b, 'c) account =
    EthereumAccount (base_account: 'b) (code_hash: string)
  | Clawback "('b, 'c) ClawbackVestingAccount"
  | OtherAccount 'b

record ClawbackProposal =
  cp_Title :: string
  cp_Description :: string
  cp_Address :: string
  cp_DestinationAddress :: string

text \<open>The messages of a governance proposal, as far as the hooks look at them.\<close>

datatype gov_msg = ExecClawback ClawbackProposal | OtherMsg

record 'c proposal =
  prop_Msgs :: "(string, gov_msg list) outcome"
  prop_TotalDeposit :: 'c

record ('b, 'c, 'm) vkeeper =
  GetAccount :: "'m \<Rightarrow> bytes \<Rightarrow> ('b, 'c) account option"
  SetAccount :: "'m \<Rightarrow> ('b, 'c) account \<Rightarrow> 'm"
  base_GetAddress :: "'b \<Rightarrow> bytes"
  GetModuleAddress :: "string \<Rightarrow> bytes"
  NewModuleAddress :: "string \<Rightarrow> bytes"
  BlockedAddr :: "bytes \<Rightarrow> bool"
  SendCoins :: "'m \<Rightarrow> bytes \<Rightarrow> bytes \<Rightarrow> 'c \<Rightarrow> (string, 'm) outcome"
  FundCommunityPool :: "'m \<Rightarrow> 'c \<Rightarrow> bytes \<Rightarrow> (string, 'm) outcome"
  GetDelegatorBonded :: "'m \<Rightarrow> bytes \<Rightarrow> int"
  GetDelegatorUnbonding :: "'m \<Rightarrow> bytes \<Rightarrow> int"
  BondDenom :: "'m \<Rightarrow> string"
  Int_Add :: "int \<Rightarrow> int \<Rightarrow> int option"
  FromBech32 :: "string \<Rightarrow> (string, bytes) outcome"
  AccString :: "bytes \<Rightarrow> string"
  authority :: bytes
  EmptyCodeHash :: string
  GetProposal :: "'m \<Rightarrow> uint64 \<Rightarrow> 'c proposal option"
  MinDeposit :: "'m \<Rightarrow> 'c"
  IsAllLT :: "'c \<Rightarrow> 'c \<Rightarrow> bool"

record 'm vctx =
  vstore :: "bytes \<rightharpoonup> bytes"
  vmods :: 'm
  BlockTime :: int

definition KeyPrefixGovClawbackDisabledKey :: bytes where
  "KeyPrefixGovClawbackDisabledKey = [1]"

definition KeyPrefixGovClawbackProposalKey :: bytes where
  "KeyPrefixGovClawbackProposalKey = [2]"

definition MustAccAddressFromBech32 :: "('b, 'c, 'm) vkeeper \<Rightarrow> string \<Rightarrow> bytes option" where
  "MustAccAddressFromBech32 K s = (case FromBech32 K s of Ok a \<Rightarrow> Some a | _ \<Rightarrow> None)"

definition some_or_panic :: "'a option \<Rightarrow> ('e, 'a) outcome" where
  "some_or_panic x = (case x of None \<Rightarrow> Panic | Some a \<Rightarrow> Ok a)"

lemma some_or_panic_Ok [simp]: "some_or_panic x = Ok a \<longleftrightarrow> x = Some a"
  by (simp add: some_or_panic_def split: option.split)

definition va_GetAddress :: "('b, 'c, 'm) vkeeper \<Rightarrow> ('b, 'c) ClawbackVestingAccount \<Rightarrow> bytes" where
  "va_GetAddress K va = base_GetAddress K (BaseAccount va)"

subsection \<open>The governance flags\<close>

definition HasGovClawbackDisabled :: "'m vctx \<Rightarrow> bytes \<Rightarrow> bool" where
  "HasGovClawbackDisabled c addr = (vstore c (KeyPrefixGovClawbackDisabledKey @ addr) \<noteq> None)"

definition SetGovClawbackDisabled :: "'m vctx \<Rightarrow> bytes \<Rightarrow> 'm vctx" where
  "SetGovClawbackDisabled c addr = c\<lparr>vstore := (vstore c)(KeyPrefixGovClawbackDisabledKey @ addr \<mapsto> [])\<rparr>"

definition DeleteGovClawbackDisabled :: "'m vctx \<Rightarrow> bytes \<Rightarrow> 'm vctx" where
  "DeleteGovClawbackDisabled c addr = c\<lparr>vstore := (vstore c)(KeyPrefixGovClawbackDisabledKey @ addr := None)\<rparr>"

definition buildActiveAccountClawbackProposalKey :: "bytes \<Rightarrow> bytes" where
  "buildActiveAccountClawbackProposalKey addr = KeyPrefixGovClawbackProposalKey @ addr"

definition HasActiveClawbackProposal :: "'m vctx \<Rightarrow> bytes \<Rightarrow> bool" where
  "HasActiveClawbackProposal c addr = (vstore c (buildActiveAccountClawbackProposalKey addr) \<noteq> None)"

definition SetActiveClawbackProposal :: "'m vctx \<Rightarrow> bytes \<Rightarrow> 'm vctx" where
  "SetActiveClawbackProposal c addr = c\<lparr>vstore := (vstore c)(buildActiveAccountClawbackProposalKey addr \<mapsto> [])\<rparr>"

definition DeleteActiveClawbackProposal :: "'m vctx \<Rightarrow> bytes \<Rightarrow> 'm vctx" where
  "DeleteActiveClawbackProposal c addr = c\<lparr>vstore := (vstore c)(buildActiveAccountClawbackProposalKey addr := None)\<rparr>"

lemma flags_disjoint [simp]:
  "KeyPrefixGovClawbackDisabledKey @ a \<noteq> buildActiveAccountClawbackProposalKey b"
  "buildActiveAccountClawbackProposalKey b \<noteq> KeyPrefixGovClawbackDisabledKey @ a"
  by (simp_all add: KeyPrefixGovClawbackDisabledKey_def KeyPrefixGovClawbackProposalKey_def
      buildActiveAccountClawbackProposalKey_def)

subsection \<open>Messages\<close>

definition GetClawbackVestingAccount ::
  "('b, 'c, 'm) vkeeper \<Rightarrow> 'm vctx \<Rightarrow> bytes \<Rightarrow> (string, ('b, 'c) ClawbackVestingAccount) outcome" where
  "GetClawbackVestingAccount K c addr =
     (case GetAccount K (vmods c) addr of
        None \<Rightarrow> Err ''account does not exist''
      | Some (Clawback va) \<Rightarrow> Ok va
      | Some _ \<Rightarrow> Err ''not subject to clawback'')"

text \<open>The Unix seconds of Go's zero time, which an account has before it is funded.\<close>

definition zero_time :: int where
  "zero_time = - 62135596800"

definition CreateClawbackVestingAccount ::
  "'c coin_ops \<Rightarrow> ('b, 'c, 'm) vkeeper \<Rightarrow> 'm vctx \<Rightarrow> string \<Rightarrow> string \<Rightarrow> bool \<Rightarrow> (string, 'm vctx) outcome" where
  "CreateClawbackVestingAccount C K c funder vesting enableGovClawback =
     bind_outcome (some_or_panic (MustAccAddressFromBech32 K funder)) (\<lambda>funderAddress.
     bind_outcome (some_or_panic (MustAccAddressFromBech32 K vesting)) (\<lambda>vestingAddress.
     if BlockedAddr K vestingAddress then Err ''is a blocked address and cannot be converted in a clawback vesting account''
     else case GetAccount K (vmods c) vestingAddress of
       None \<Rightarrow> Err ''account does not exist''
     | Some (Clawback _) \<Rightarrow> Err ''is already a clawback vesting account''
     | Some (OtherAccount _) \<Rightarrow> Err ''account is not an Ethereum account''
     | Some (EthereumAccount baseAcc codeHash) \<Rightarrow>
         if codeHash \<noteq> EmptyCodeHash K
         then Err ''is a contract account and cannot be converted in a clawback vesting account''
         else
           let va = \<lparr>BaseAccount = baseAcc, OriginalVesting = NoCoins C, DelegatedFree = NoCoins C,
                 DelegatedVesting = NoCoins C, EndTime = 0, FunderAddress = AccString K funderAddress,
                 StartTime = zero_time, LockupPeriods = [], VestingPeriods = []\<rparr>;
               c1 = c\<lparr>vmods := SetAccount K (vmods c) (Clawback va)\<rparr>
           in Ok (if \<not> enableGovClawback then SetGovClawbackDisabled c1 (va_GetAddress K va) else c1)))"

definition addGrant ::
  "'c coin_ops \<Rightarrow> ('b, 'c, 'm) vkeeper \<Rightarrow> 'm vctx \<Rightarrow> ('b, 'c) ClawbackVestingAccount \<Rightarrow> int \<Rightarrow> 'c Periods \<Rightarrow> 'c Periods \<Rightarrow>
     'c \<Rightarrow> (string, ('b, 'c) ClawbackVestingAccount) outcome" where
  "addGrant C K c va0 grantStartTime grantLockupPeriods grantVestingPeriods grantCoins =
     (let va = (if length (LockupPeriods va0) = 0 \<and> length (VestingPeriods va0) = 0
                then va0\<lparr>StartTime := grantStartTime\<rparr> else va0);
          vestingAddr = va_GetAddress K va
      in bind_outcome (some_or_panic (Int_Add K (GetDelegatorBonded K (vmods c) vestingAddr)
           (GetDelegatorUnbonding K (vmods c) vestingAddr))) (\<lambda>delegatedAmt.
         bind_outcome (some_or_panic (CoinsOf C (BondDenom K (vmods c)) delegatedAmt)) (\<lambda>delegated.
         bind_outcome (some_or_panic (DisjunctPeriods C (GetStartTime va) grantStartTime (LockupPeriods va) grantLockupPeriods))
           (\<lambda>(newLockupStart, newLockupEnd, newLockupPeriods).
         bind_outcome (some_or_panic (DisjunctPeriods C (GetStartTime va) grantStartTime (GetVestingPeriods va) grantVestingPeriods))
           (\<lambda>(newVestingStart, newVestingEnd, newVestingPeriods).
         if newLockupStart \<noteq> newVestingStart then Err ''vesting start time calculation should match lockup start''
         else bind_outcome (some_or_panic (Coins_Add C (OriginalVesting va) grantCoins)) (\<lambda>orig.
         let va1 = va\<lparr>StartTime := newLockupStart, EndTime := Max64 newLockupEnd newVestingEnd,
               LockupPeriods := newLockupPeriods, VestingPeriods := newVestingPeriods, OriginalVesting := orig\<rparr>
         in bind_outcome (some_or_panic (GetVestingCoins C va1 (BlockTime c))) (\<lambda>unvested.
         let dv = Coins_Min C delegated unvested
         in bind_outcome (some_or_panic (Coins_Sub C delegated dv)) (\<lambda>df.
            Ok (va1\<lparr>DelegatedVesting := dv, DelegatedFree := df\<rparr>)))))))))"

text \<open>The default schedules of \<open>FundVestingAccount\<close>: an absent one unlocks or vests at once.\<close>

definition default_periods ::
  "'c coin_ops \<Rightarrow> 'c Periods \<Rightarrow> 'c Periods \<Rightarrow> ('c Periods \<times> 'c Periods \<times> 'c) option" where
  "default_periods C lockup vesting = do {
     vestingCoins \<leftarrow> TotalAmount C vesting;
     lockupCoins \<leftarrow> TotalAmount C lockup;
     let (lockup1, lockupCoins1) =
       (if \<not> Coins_IsZero C vestingCoins \<and> length lockup = 0
        then ([\<lparr>Length = 0, Amount = vestingCoins\<rparr>], vestingCoins) else (lockup, lockupCoins));
     let (vesting1, vestingCoins1) =
       (if \<not> Coins_IsZero C lockupCoins1 \<and> length vesting = 0
        then ([\<lparr>Length = 0, Amount = lockupCoins1\<rparr>], lockupCoins1) else (vesting, vestingCoins));
     Some (lockup1, vesting1, vestingCoins1) }"

definition FundVestingAccount ::
  "'c coin_ops \<Rightarrow> ('b, 'c, 'm) vkeeper \<Rightarrow> 'm vctx \<Rightarrow> string \<Rightarrow> string \<Rightarrow> int \<Rightarrow> 'c Periods \<Rightarrow> 'c Periods \<Rightarrow>
     (string, 'm vctx) outcome" where
  "FundVestingAccount C K c funder vesting startTime lockupPeriods vestingPeriods =
     bind_outcome (some_or_panic (MustAccAddressFromBech32 K funder)) (\<lambda>funderAddr.
     bind_outcome (some_or_panic (MustAccAddressFromBech32 K vesting)) (\<lambda>vestingAddr.
     if BlockedAddr K vestingAddr then Err ''is not allowed to receive funds''
     else bind_outcome (GetClawbackVestingAccount K c vestingAddr) (\<lambda>va.
     bind_outcome (some_or_panic (default_periods C lockupPeriods vestingPeriods)) (\<lambda>(lockup, vest, vestingCoins).
     if funder \<noteq> FunderAddress va then Err ''account can only accept grants from its funder''
     else bind_outcome (addGrant C K c va startTime lockup vest vestingCoins) (\<lambda>va1.
     let m1 = SetAccount K (vmods c) (Clawback va1)
     in bind_outcome (SendCoins K m1 funderAddr vestingAddr vestingCoins) (\<lambda>m2. Ok (c\<lparr>vmods := m2\<rparr>)))))))"

definition transferClawback ::
  "'c coin_ops \<Rightarrow> ('b, 'c, 'm) vkeeper \<Rightarrow> 'm vctx \<Rightarrow> ('b, 'c) ClawbackVestingAccount \<Rightarrow> bytes \<Rightarrow>
     (string, 'c \<times> 'm vctx) outcome" where
  "transferClawback C K c vestingAccount destinationAddr =
     bind_outcome (some_or_panic (ComputeClawback C vestingAccount (BlockTime c))) (\<lambda>(updatedAcc, toClawBack).
     let m1 = SetAccount K (vmods c) (EthereumAccount (BaseAccount updatedAcc) (EmptyCodeHash K));
         address = va_GetAddress K updatedAcc;
         c1 = DeleteGovClawbackDisabled (c\<lparr>vmods := m1\<rparr>) address
     in if AccString K destinationAddr = AccString K (NewModuleAddress K ''distribution'')
        then bind_outcome (FundCommunityPool K (vmods c1) toClawBack address) (\<lambda>m2. Ok (toClawBack, c1\<lparr>vmods := m2\<rparr>))
        else bind_outcome (SendCoins K (vmods c1) address destinationAddr toClawBack) (\<lambda>m2. Ok (toClawBack, c1\<lparr>vmods := m2\<rparr>)))"

definition keeper_Clawback ::
  "'c coin_ops \<Rightarrow> ('b, 'c, 'm) vkeeper \<Rightarrow> 'm vctx \<Rightarrow> string \<Rightarrow> string \<Rightarrow> string \<Rightarrow> (string, 'c \<times> 'm vctx) outcome" where
  "keeper_Clawback C K c funderS accountS destS =
     bind_outcome (some_or_panic (MustAccAddressFromBech32 K accountS)) (\<lambda>addr.
     bind_outcome (some_or_panic (MustAccAddressFromBech32 K funderS)) (\<lambda>funder.
     let dest0 = (case FromBech32 K destS of Ok a \<Rightarrow> a | _ \<Rightarrow> []);
         dest = (if destS = [] then funder else dest0);
         gov = (funderS = AccString K (authority K))
     in if \<not> gov \<and> HasActiveClawbackProposal c addr
        then Err ''clawback is disabled while there is an active clawback proposal''
        else if \<not> gov \<and> BlockedAddr K dest then Err ''is a blocked address and not allowed to receive funds''
        else bind_outcome (GetClawbackVestingAccount K c addr) (\<lambda>va.
          if length (VestingPeriods va) = 0 \<and> length (LockupPeriods va) = 0
          then Err ''account has no vesting or lockup periods''
          else if gov then
            if HasGovClawbackDisabled c addr then Err ''not subject to governance clawback''
            else transferClawback C K c va (GetModuleAddress K ''distribution'')
          else if FunderAddress va \<noteq> funderS then Err ''clawback can only be requested by original funder''
          else transferClawback C K c va dest)))"

definition UpdateVestingFunder ::
  "('b, 'c, 'm) vkeeper \<Rightarrow> 'm vctx \<Rightarrow> string \<Rightarrow> string \<Rightarrow> string \<Rightarrow> (string, 'm vctx) outcome" where
  "UpdateVestingFunder K c funder newFunderS vesting =
     bind_outcome (some_or_panic (MustAccAddressFromBech32 K newFunderS)) (\<lambda>newFunder.
     bind_outcome (some_or_panic (MustAccAddressFromBech32 K vesting)) (\<lambda>vestingAccAddr.
     if HasActiveClawbackProposal c vestingAccAddr
     then Err ''cannot update funder while there is an active clawback proposal''
     else if BlockedAddr K newFunder then Err ''is a blocked address and not allowed to fund vesting accounts''
     else bind_outcome (GetClawbackVestingAccount K c vestingAccAddr) (\<lambda>va.
       if FunderAddress va \<noteq> funder then Err ''is not the current funder and cannot update the funder address''
       else Ok (c\<lparr>vmods := SetAccount K (vmods c) (Clawback (va\<lparr>FunderAddress := newFunderS\<rparr>))\<rparr>))))"

definition ConvertVestingAccount ::
  "'c coin_ops \<Rightarrow> ('b, 'c, 'm) vkeeper \<Rightarrow> 'm vctx \<Rightarrow> string \<Rightarrow> (string, 'm vctx) outcome" where
  "ConvertVestingAccount C K c vesting =
     bind_outcome (some_or_panic (MustAccAddressFromBech32 K vesting)) (\<lambda>address.
     bind_outcome (GetClawbackVestingAccount K c address) (\<lambda>va.
     bind_outcome (some_or_panic (GetVestingCoins C va (BlockTime c))) (\<lambda>coins.
     if \<not> Coins_IsZero C coins then Err ''vesting coins still left in account''
     else let c1 = DeleteGovClawbackDisabled c address
          in Ok (c1\<lparr>vmods := SetAccount K (vmods c1) (EthereumAccount (BaseAccount va) (EmptyCodeHash K))\<rparr>))))"

definition Balances ::
  "'c coin_ops \<Rightarrow> ('b, 'c, 'm) vkeeper \<Rightarrow> 'm vctx \<Rightarrow> string \<Rightarrow> (string, 'c \<times> 'c \<times> 'c) outcome" where
  "Balances C K c address =
     bind_outcome (FromBech32 K address) (\<lambda>addr.
     case GetClawbackVestingAccount K c addr of
       Ok va \<Rightarrow>
         bind_outcome (some_or_panic (GetLockedOnly C va (BlockTime c))) (\<lambda>locked.
         bind_outcome (some_or_panic (GetUnvestedOnly C va (BlockTime c))) (\<lambda>unvested.
         bind_outcome (some_or_panic (GetVestedOnly C va (BlockTime c))) (\<lambda>vested.
         Ok (locked, unvested, vested))))
     | _ \<Rightarrow> Err ''account either does not exist or is not a vesting account'')"

subsection \<open>Governance\<close>

definition HandleClawbackProposal ::
  "'c coin_ops \<Rightarrow> ('b, 'c, 'm) vkeeper \<Rightarrow> 'm vctx \<Rightarrow> ClawbackProposal \<Rightarrow> (string, 'm vctx) outcome" where
  "HandleClawbackProposal C K c p =
     bind_outcome (keeper_Clawback C K c (AccString K (NewModuleAddress K ''gov'')) (cp_Address p) (cp_DestinationAddress p))
       (\<lambda>(_, c'). Ok c')"

definition getClawbackProposals :: "'c proposal \<Rightarrow> (string, ClawbackProposal list) outcome" where
  "getClawbackProposals p =
     bind_outcome (prop_Msgs p) (\<lambda>msgs.
       if length msgs = 0 then Err ''proposal has no messages''
       else Ok (concat (map (\<lambda>m. case m of ExecClawback cp \<Rightarrow> [cp] | OtherMsg \<Rightarrow> []) msgs)))"

fun for_proposals ::
  "('b, 'c, 'm) vkeeper \<Rightarrow> ('m vctx \<Rightarrow> bytes \<Rightarrow> 'm vctx) \<Rightarrow> ClawbackProposal list \<Rightarrow> 'm vctx \<Rightarrow> 'm vctx option" where
  "for_proposals K f [] c = Some c"
| "for_proposals K f (p # ps) c =
     Option.bind (MustAccAddressFromBech32 K (cp_Address p)) (\<lambda>a. for_proposals K f ps (f c a))"

definition AfterProposalDeposit :: "('b, 'c, 'm) vkeeper \<Rightarrow> 'm vctx \<Rightarrow> uint64 \<Rightarrow> 'm vctx option" where
  "AfterProposalDeposit K c proposalID =
     (case GetProposal K (vmods c) proposalID of
        None \<Rightarrow> Some c
      | Some p \<Rightarrow>
          (case getClawbackProposals p of
             Panic \<Rightarrow> None
           | Err _ \<Rightarrow> Some c
           | Ok cps \<Rightarrow>
               if length cps = 0 then Some c
               else if IsAllLT K (prop_TotalDeposit p) (MinDeposit K (vmods c)) then Some c
               else for_proposals K SetActiveClawbackProposal cps c))"

definition AfterProposalVotingPeriodEnded :: "('b, 'c, 'm) vkeeper \<Rightarrow> 'm vctx \<Rightarrow> uint64 \<Rightarrow> 'm vctx option" where
  "AfterProposalVotingPeriodEnded K c proposalID =
     (case GetProposal K (vmods c) proposalID of
        None \<Rightarrow> Some c
      | Some p \<Rightarrow>
          (case getClawbackProposals p of
             Panic \<Rightarrow> None
           | Err _ \<Rightarrow> Some c
           | Ok cps \<Rightarrow>
               if length cps = 0 then Some c
               else for_proposals K DeleteActiveClawbackProposal cps c))"

subsection \<open>Stateless checks of the messages\<close>

definition zero_address :: bytes where
  "zero_address = replicate 20 0"

definition check_address :: "('b, 'c, 'm) vkeeper \<Rightarrow> string \<Rightarrow> string \<Rightarrow> (string, bytes) outcome" where
  "check_address K s what =
     (case FromBech32 K s of Ok a \<Rightarrow> Ok a | Err _ \<Rightarrow> Err (''invalid '' @ what @ '' address'') | Panic \<Rightarrow> Panic)"

definition check_nonzero :: "bytes \<Rightarrow> string \<Rightarrow> (string, unit) outcome" where
  "check_nonzero a what = (if a = zero_address then Err (what @ '' address cannot be the zero address'') else Ok ())"

definition Create_ValidateBasic :: "('b, 'c, 'm) vkeeper \<Rightarrow> string \<Rightarrow> string \<Rightarrow> (string, unit) outcome" where
  "Create_ValidateBasic K funder vesting =
     bind_outcome (check_address K funder ''funder'') (\<lambda>f.
     bind_outcome (check_nonzero f ''funder'') (\<lambda>_.
     bind_outcome (check_address K vesting ''vesting'') (\<lambda>v.
     check_nonzero v ''vesting'')))"

fun check_periods :: "'c coin_ops \<Rightarrow> 'c Periods \<Rightarrow> 'c \<Rightarrow> (string, 'c) outcome" where
  "check_periods C [] coins = Ok coins"
| "check_periods C (p # ps) coins =
     (if Length p < 1 then Err ''invalid period length, length must be greater than 0''
      else if \<not> Coins_IsValid C (Amount p) then Err ''invalid coins''
      else bind_outcome (some_or_panic (Coins_Add C coins (Amount p))) (check_periods C ps))"

definition Fund_ValidateBasic ::
  "'c coin_ops \<Rightarrow> ('b, 'c, 'm) vkeeper \<Rightarrow> string \<Rightarrow> string \<Rightarrow> 'c Periods \<Rightarrow> 'c Periods \<Rightarrow> (string, unit) outcome" where
  "Fund_ValidateBasic C K funder vesting lockupPeriods vestingPeriods =
     bind_outcome (check_address K funder ''funder'') (\<lambda>_.
     bind_outcome (check_address K vesting ''vesting'') (\<lambda>v.
     bind_outcome (check_nonzero v ''vesting'') (\<lambda>_.
     bind_outcome (check_periods C lockupPeriods (NoCoins C)) (\<lambda>lockupCoins.
     bind_outcome (check_periods C vestingPeriods (NoCoins C)) (\<lambda>vestingCoins.
     if Coins_IsZero C lockupCoins \<and> Coins_IsZero C vestingCoins
     then Err ''vesting and/or lockup schedules must be present''
     else if length lockupPeriods > 0 \<and> length vestingPeriods > 0 \<and> \<not> CoinEq C lockupCoins vestingCoins
     then Err ''vesting and lockup schedules must have same total coins''
     else Ok ())))))"

definition Clawback_ValidateBasic :: "('b, 'c, 'm) vkeeper \<Rightarrow> string \<Rightarrow> string \<Rightarrow> string \<Rightarrow> (string, unit) outcome" where
  "Clawback_ValidateBasic K funder account dest =
     bind_outcome (check_address K funder ''funder'') (\<lambda>_.
     bind_outcome (check_address K account ''account'') (\<lambda>_.
     if dest \<noteq> [] then bind_outcome (check_address K dest ''dest'') (\<lambda>_. Ok ()) else Ok ()))"

definition UpdateFunder_ValidateBasic :: "('b, 'c, 'm) vkeeper \<Rightarrow> string \<Rightarrow> string \<Rightarrow> string \<Rightarrow> (string, unit) outcome" where
  "UpdateFunder_ValidateBasic K funder newFunder vesting =
     bind_outcome (check_address K funder ''funder'') (\<lambda>_.
     bind_outcome (check_address K newFunder ''new funder'') (\<lambda>n.
     bind_outcome (check_nonzero n ''new funder'') (\<lambda>_.
     if funder = newFunder then Err ''new funder address is equal to current funder address''
     else bind_outcome (check_address K vesting ''vesting account'') (\<lambda>_. Ok ()))))"

definition Convert_ValidateBasic :: "('b, 'c, 'm) vkeeper \<Rightarrow> string \<Rightarrow> (string, unit) outcome" where
  "Convert_ValidateBasic K vesting = bind_outcome (check_address K vesting ''vesting'') (\<lambda>_. Ok ())"

end
