(* ===== verification/Vesting_Laws.thy ===== *)
theory Vesting_Laws
  imports Vesting_Account
begin

text \<open>
  The properties of vesting schedules and clawback vesting accounts, stated over the coin
  operations of the SDK by their laws, with sample schedules on the list representation.
\<close>

context coin_laws
begin

text \<open>The totals of the merged periods, from its step function after all events.\<close>

lemma merged_total:
  assumes "periods_ok C as" "periods_ok C bs" "periods_ok C ps"
    "\<And>t d. sched_amount C s ps t d = sched_amount C a as t d + sched_amount C b bs t d"
  shows "ptotal C ps d = ptotal C as d + ptotal C bs d"
proof -
  let ?T = "max (s + plen ps) (max (a + plen as) (b + plen bs))"
  show ?thesis
    using assms(4) [of ?T d] sched_after [OF assms(1), of a ?T d] sched_after [OF assms(2), of b ?T d]
      sched_after [OF assms(3), of s ?T d] by simp
qed

lemma ReadSchedule_exact:
  assumes "periods_ok C ps" "in_time s ps" "\<And>d. ptotal C ps d < max_amount"
    "Coins_IsValid C tot" "\<And>d. AmountOf C tot d = ptotal C ps d" "t \<noteq> s"
  shows "\<exists>c. ReadSchedule C s (s + plen ps) ps tot t = Some c \<and> (\<forall>d. AmountOf C c d = sched_amount C s ps t d)"
  using ReadSchedule_amount [OF assms(1,2) order_refl assms(3-5)] sched_before [OF assms(1), of t s] assms(6)
  by (metis order_le_less)

lemma disjunct_read:
  assumes ok: "periods_ok C as" "periods_ok C bs" and tm: "in_time a as" "in_time b bs"
    and small: "\<And>d. ptotal C as d + ptotal C bs d < max_amount"
    and val: "Coins_IsValid C totA" "Coins_IsValid C totB" "Coins_IsValid C tot"
    and amt: "\<And>d. AmountOf C totA d = ptotal C as d" "\<And>d. AmountOf C totB d = ptotal C bs d"
    "\<And>d. AmountOf C tot d = ptotal C as d + ptotal C bs d" and t: "t \<noteq> a" "t \<noteq> b"
  shows "\<exists>e ps c ca cb. DisjunctPeriods C a b as bs = Some (min a b, e, ps) \<and>
    ReadSchedule C (min a b) e ps tot t = Some c \<and>
    ReadSchedule C a (a + plen as) as totA t = Some ca \<and> ReadSchedule C b (b + plen bs) bs totB t = Some cb \<and>
    (\<forall>d. AmountOf C c d = AmountOf C ca d + AmountOf C cb d)"
proof -
  obtain ps where ps: "DisjunctPeriods C a b as bs = Some (min a b, min a b + plen ps, ps)"
    "periods_ok C ps" "in_time (min a b) ps"
    "\<And>t d. sched_amount C (min a b) ps t d = sched_amount C a as t d + sched_amount C b bs t d"
    using DisjunctPeriods_correct [OF ok tm small] by blast
  note tot = merged_total [OF ok ps(2,4)]
  have nn: "0 \<le> ptotal C as d" "0 \<le> ptotal C bs d" for d using ok by simp_all
  have lt: "ptotal C as d < max_amount" "ptotal C bs d < max_amount" for d
    using small [of d] nn [of d] by linarith+
  have "t \<noteq> min a b" using t by (simp add: min_def)
  from ReadSchedule_exact [OF ps(2,3) _ val(3) _ this] ReadSchedule_exact [OF ok(1) tm(1) lt(1) val(1) amt(1) t(1)]
    ReadSchedule_exact [OF ok(2) tm(2) lt(2) val(2) amt(2) t(2)] ps(1,4) tot small amt(3)
  show ?thesis by fastforce
qed

lemma conjunct_read:
  assumes ok: "periods_ok C as" "periods_ok C bs" and tm: "in_time a as" "in_time b bs"
    and small: "\<And>d. ptotal C as d < max_amount" "\<And>d. ptotal C bs d < max_amount"
    and val: "Coins_IsValid C totA" "Coins_IsValid C totB" "Coins_IsValid C tot"
    and amt: "\<And>d. AmountOf C totA d = ptotal C as d" "\<And>d. AmountOf C totB d = ptotal C bs d"
    "\<And>d. AmountOf C tot d = min (ptotal C as d) (ptotal C bs d)" and t: "t \<noteq> a" "t \<noteq> b"
  shows "\<exists>e ps c ca cb. ConjunctPeriods C a b as bs = Some (min a b, e, ps) \<and>
    ReadSchedule C (min a b) e ps tot t = Some c \<and>
    ReadSchedule C a (a + plen as) as totA t = Some ca \<and> ReadSchedule C b (b + plen bs) bs totB t = Some cb \<and>
    (\<forall>d. AmountOf C c d = min (AmountOf C ca d) (AmountOf C cb d))"
proof -
  obtain ps where ps: "ConjunctPeriods C a b as bs = Some (min a b, min a b + plen ps, ps)"
    "periods_ok C ps" "in_time (min a b) ps"
    "\<And>t d. sched_amount C (min a b) ps t d = min (sched_amount C a as t d) (sched_amount C b bs t d)"
    using ConjunctPeriods_correct [OF ok tm small] by blast
  let ?T = "max (min a b + plen ps) (max (a + plen as) (b + plen bs))"
  have tot: "ptotal C ps d = min (ptotal C as d) (ptotal C bs d)" for d
    using ps(4) [of ?T d] sched_after [OF ok(1), of a ?T d] sched_after [OF ok(2), of b ?T d]
      sched_after [OF ps(2), of "min a b" ?T d] by simp
  then have lt: "ptotal C ps d < max_amount" for d using small(1) [of d] by (simp add: min.strict_coboundedI1)
  have "t \<noteq> min a b" using t by (simp add: min_def)
  from ReadSchedule_exact [OF ps(2,3) lt val(3) _ this] ReadSchedule_exact [OF ok(1) tm(1) small(1) val(1) amt(1) t(1)]
    ReadSchedule_exact [OF ok(2) tm(2) small(2) val(2) amt(2) t(2)] ps(1,4) tot amt(3)
  show ?thesis by fastforce
qed

lemma vested_vesting_sum:
  assumes "va_ok C va"
  shows "\<exists>v w. GetVestedCoins C va t = Some v \<and> GetVestingCoins C va t = Some w \<and>
    (\<forall>d. AmountOf C v d + AmountOf C w d = AmountOf C (OriginalVesting va) d \<and> 0 \<le> AmountOf C v d \<and> 0 \<le> AmountOf C w d) \<and>
    (t \<le> StartTime va \<longrightarrow> Coins_IsZero C v) \<and> (StartTime va < t \<and> EndTime va \<le> t \<longrightarrow> Coins_IsZero C w)"
proof -
  obtain v w where vw: "GetVestedCoins C va t = Some v" "Coins_IsValid C v" "GetVestingCoins C va t = Some w" "Coins_IsValid C w"
    "\<And>d. AmountOf C v d = min (unlocked_at C va t d) (vested_at C va t d)"
    "\<And>d. AmountOf C w d = AmountOf C (OriginalVesting va) d - min (unlocked_at C va t d) (vested_at C va t d)"
    using GetVestedCoins_amount [OF assms] GetVestingCoins_amount [OF assms] by metis
  have "Coins_IsZero C v" if "t \<le> StartTime va"
    using that vw(2,5) by (simp add: IsZero_iff unlocked_at_def vested_at_def)
  moreover have "Coins_IsZero C w" if "StartTime va < t" "EndTime va \<le> t"
    using that vw(4,6) amounts_at_end [OF assms] by (simp add: IsZero_iff)
  ultimately show ?thesis using vw amount_nonneg [OF vw(2)] amount_nonneg [OF vw(4)] by auto
qed

lemma clawback_split:
  assumes ok: "va_ok C va"
  shows "\<exists>va' c. ComputeClawback C va now = Some (va', c) \<and> va_ok C va' \<and>
    (\<forall>d. AmountOf C (OriginalVesting va') d + AmountOf C c d = AmountOf C (OriginalVesting va) d) \<and>
    GetVestedOnly C va now = Some (OriginalVesting va') \<and>
    (\<forall>t. now \<le> t \<and> StartTime va < t \<longrightarrow> (\<exists>x. GetVestedOnly C va' t = Some x \<and>
       (\<forall>d. AmountOf C x d = AmountOf C (OriginalVesting va') d))) \<and>
    (\<forall>t. \<exists>u u'. GetUnlockedOnly C va t = Some u \<and> GetUnlockedOnly C va' t = Some u' \<and>
       (\<forall>d. AmountOf C u' d = min (AmountOf C u d) (AmountOf C (OriginalVesting va') d)))"
proof -
  obtain va' c where cb: "ComputeClawback C va now = Some (va', c)" "va_ok C va'"
    "\<And>d. AmountOf C c d = AmountOf C (OriginalVesting va) d - vested_at C va now d"
    "\<And>d. AmountOf C (OriginalVesting va') d = vested_at C va now d"
    "\<And>u d. unlocked_at C va' u d = min (unlocked_at C va u d) (vested_at C va now d)"
    "VestingPeriods va' = take (GetPassedPeriodCount va now) (VestingPeriods va)" "StartTime va' = StartTime va"
    using ComputeClawback_correct [OF ok] by metis
  have "GetVestedOnly C va now = Some (OriginalVesting va')"
    using cb(1) by (auto simp: ComputeClawback_def Let_def split: bind_splits)
  moreover have "vested_at C va' t d = vested_at C va now d" if "now \<le> t" "StartTime va < t" for t d
    using that cb(6,7) passed_periods [OF ok, of now] by (simp add: vested_at_def [of C va'] sched_after)
  moreover have "\<exists>u u'. GetUnlockedOnly C va t = Some u \<and> GetUnlockedOnly C va' t = Some u' \<and>
       (\<forall>d. AmountOf C u' d = min (AmountOf C u d) (AmountOf C (OriginalVesting va') d))" for t
    using GetUnlockedOnly_amount [OF ok, of t] GetUnlockedOnly_amount [OF cb(2), of t] cb(4,5) by auto
  ultimately show ?thesis using cb(1-4) GetVestedOnly_amount [OF cb(2)] by (metis add_diff_cancel_left' add.commute diff_add_cancel)
qed

lemma vested_mono:
  assumes "va_ok C va" "t \<le> u"
  shows "\<exists>v w. GetVestedCoins C va t = Some v \<and> GetVestedCoins C va u = Some w \<and>
    (\<forall>d. AmountOf C v d \<le> AmountOf C w d)"
  using GetVestedCoins_amount [OF assms(1), of t] GetVestedCoins_amount [OF assms(1), of u] amounts_at_mono [OF assms]
  by (metis min.mono)

end

subsection \<open>Samples\<close>

abbreviation grant :: "int \<Rightarrow> int \<Rightarrow> (string \<times> int) list Period" where
  "grant l v \<equiv> \<lparr>Length = l, Amount = [(''aanr'', v)]\<rparr>"

definition sample_va :: "(unit, (string \<times> int) list) ClawbackVestingAccount" where
  "sample_va = \<lparr>BaseAccount = (), OriginalVesting = [(''aanr'', 100)], DelegatedFree = [], DelegatedVesting = [],
     EndTime = 1050, FunderAddress = ''funder'', StartTime = 1000,
     LockupPeriods = [grant 50 100], VestingPeriods = [grant 20 30, grant 30 70]\<rparr>"

lemma list_valid_single: "list_valid [(d, v)] \<longleftrightarrow> 0 < v"
  by (simp add: list_valid_def)

lemma list_amount_single: "list_amount [(d, v)] e = (if e = d then v else 0)"
  by (simp add: list_amount_def)

lemmas sample_simps = list_valid_single list_amount_single sample_va_def va_ok_def in_time_def

lemma sample_va_ok: "va_ok coin_list sample_va"
  by (simp add: sample_simps)

subsection \<open>Schedules\<close>

text \<open>C11. The union of two schedules is their sum: merging never fails while the total amounts fit
  into 256 bits and the times into the range of \<open>int64\<close>, and reading the merged schedule at any
  time but the two start times gives, in every denomination, the sum of what the two schedules
  give.\<close>
theorem disjunct_reads_sum:
  assumes "coin_laws C" "periods_ok C as" "periods_ok C bs" "in_time a as" "in_time b bs"
    "\<And>d. ptotal C as d + ptotal C bs d < max_amount"
    "Coins_IsValid C totA" "Coins_IsValid C totB" "Coins_IsValid C tot"
    "\<And>d. AmountOf C totA d = ptotal C as d" "\<And>d. AmountOf C totB d = ptotal C bs d"
    "\<And>d. AmountOf C tot d = ptotal C as d + ptotal C bs d" "t \<noteq> a" "t \<noteq> b"
  shows "\<exists>e ps c ca cb. DisjunctPeriods C a b as bs = Some (min a b, e, ps) \<and>
    ReadSchedule C (min a b) e ps tot t = Some c \<and>
    ReadSchedule C a (a + plen as) as totA t = Some ca \<and> ReadSchedule C b (b + plen bs) bs totB t = Some cb \<and>
    (\<forall>d. AmountOf C c d = AmountOf C ca d + AmountOf C cb d)"
  by (rule coin_laws.disjunct_read [OF assms])

theorem disjunct_reads_sum_witness:
  "\<exists>e ps c ca cb. DisjunctPeriods coin_list 10 12 [grant 5 3, grant 5 4] [grant 3 1, grant 5 2] = Some (10, e, ps) \<and>
    ReadSchedule coin_list 10 e ps [(''aanr'', 10)] 17 = Some c \<and>
    ReadSchedule coin_list 10 20 [grant 5 3, grant 5 4] [(''aanr'', 7)] 17 = Some ca \<and>
    ReadSchedule coin_list 12 20 [grant 3 1, grant 5 2] [(''aanr'', 3)] 17 = Some cb \<and>
    (\<forall>d. list_amount c d = list_amount ca d + list_amount cb d)"
proof -
  let ?a = "[grant 5 3, grant 5 4]" and ?b = "[grant 3 1, grant 5 2]"
  have "\<exists>e ps c ca cb. DisjunctPeriods coin_list 10 12 ?a ?b = Some (min 10 12, e, ps) \<and>
    ReadSchedule coin_list (min 10 12) e ps [(''aanr'', 10)] 17 = Some c \<and>
    ReadSchedule coin_list 10 (10 + plen ?a) ?a [(''aanr'', 7)] 17 = Some ca \<and>
    ReadSchedule coin_list 12 (12 + plen ?b) ?b [(''aanr'', 3)] 17 = Some cb \<and>
    (\<forall>d. AmountOf coin_list c d = AmountOf coin_list ca d + AmountOf coin_list cb d)"
    by (rule disjunct_reads_sum [OF coin_list.coin_laws_axioms]) (simp_all add: sample_simps)
  then show ?thesis by simp
qed

text \<open>The conjunction of two schedules is their minimum: reading it at any time but the two start
  times gives, in every denomination, the smaller of what the two schedules give, and computing
  it never fails on valid schedules in range.\<close>
theorem conjunct_reads_min:
  assumes "coin_laws C" "periods_ok C as" "periods_ok C bs" "in_time a as" "in_time b bs"
    "\<And>d. ptotal C as d < max_amount" "\<And>d. ptotal C bs d < max_amount"
    "Coins_IsValid C totA" "Coins_IsValid C totB" "Coins_IsValid C tot"
    "\<And>d. AmountOf C totA d = ptotal C as d" "\<And>d. AmountOf C totB d = ptotal C bs d"
    "\<And>d. AmountOf C tot d = min (ptotal C as d) (ptotal C bs d)" "t \<noteq> a" "t \<noteq> b"
  shows "\<exists>e ps c ca cb. ConjunctPeriods C a b as bs = Some (min a b, e, ps) \<and>
    ReadSchedule C (min a b) e ps tot t = Some c \<and>
    ReadSchedule C a (a + plen as) as totA t = Some ca \<and> ReadSchedule C b (b + plen bs) bs totB t = Some cb \<and>
    (\<forall>d. AmountOf C c d = min (AmountOf C ca d) (AmountOf C cb d))"
  by (rule coin_laws.conjunct_read [OF assms])

theorem conjunct_reads_min_witness:
  "\<exists>e ps c ca cb. ConjunctPeriods coin_list 10 12 [grant 5 3, grant 5 4] [grant 3 1, grant 5 2] = Some (10, e, ps) \<and>
    ReadSchedule coin_list 10 e ps [(''aanr'', 3)] 17 = Some c \<and>
    ReadSchedule coin_list 10 20 [grant 5 3, grant 5 4] [(''aanr'', 7)] 17 = Some ca \<and>
    ReadSchedule coin_list 12 20 [grant 3 1, grant 5 2] [(''aanr'', 3)] 17 = Some cb \<and>
    (\<forall>d. list_amount c d = min (list_amount ca d) (list_amount cb d))"
proof -
  let ?a = "[grant 5 3, grant 5 4]" and ?b = "[grant 3 1, grant 5 2]"
  have "\<exists>e ps c ca cb. ConjunctPeriods coin_list 10 12 ?a ?b = Some (min 10 12, e, ps) \<and>
    ReadSchedule coin_list (min 10 12) e ps [(''aanr'', 3)] 17 = Some c \<and>
    ReadSchedule coin_list 10 (10 + plen ?a) ?a [(''aanr'', 7)] 17 = Some ca \<and>
    ReadSchedule coin_list 12 (12 + plen ?b) ?b [(''aanr'', 3)] 17 = Some cb \<and>
    (\<forall>d. AmountOf coin_list c d = min (AmountOf coin_list ca d) (AmountOf coin_list cb d))"
    by (rule conjunct_reads_min [OF coin_list.coin_laws_axioms]) (simp_all add: sample_simps)
  then show ?thesis by simp
qed

text \<open>C15. A period may be as long as \<open>int64\<close> allows: the checks of the message only ask for a length
  of at least one. Then the end time of the grant wraps around to a negative number, and all
  its coins count as vested from the first second on, instead of never.\<close>
theorem long_period_vests_at_once:
  assumes "0 < s" "s \<le> max_int64" "s < t"
  shows "\<exists>e ps. DisjunctPeriods C s s [] [\<lparr>Length = max_int64, Amount = c\<rparr>] = Some (s, e, ps) \<and> e < 0 \<and>
    ReadSchedule C s e ps c t = Some c"
proof -
  have "wrap64 (s + max_int64) = (s - 1 + 18446744073709551616) mod 18446744073709551616 - 9223372036854775808"
    by (simp add: wrap64_def)
  also have "\<dots> = s - 9223372036854775809"
    using assms mod_pos_pos_trivial [of "s - 1" 18446744073709551616] by (simp only: mod_add_self2)
  finally have "wrap64 (s + max_int64) = s - 9223372036854775809" .
  then show ?thesis
    using assms by (simp add: DisjunctPeriods_def disjunct_consumeB_def disjunct_emit_def ReadSchedule_def Let_def)
qed

theorem long_period_vests_at_once_witness:
  "\<exists>e ps. DisjunctPeriods coin_list 1700000000 1700000000 [] [grant max_int64 100] = Some (1700000000, e, ps) \<and>
    e < 0 \<and> ReadSchedule coin_list 1700000000 e ps [(''aanr'', 100)] 1700000001 = Some [(''aanr'', 100)]"
  by (rule long_period_vests_at_once) simp_all

subsection \<open>Accounts\<close>

text \<open>C12. In a well-formed clawback vesting account, at every time, the free coins (unlocked and
  vested) and the coins still vesting are both defined, never negative, and add up to the
  original vesting: nothing is free until the start, everything from the end on.\<close>
theorem vested_and_vesting:
  assumes "coin_laws C" "va_ok C va"
  shows "\<exists>v w. GetVestedCoins C va t = Some v \<and> GetVestingCoins C va t = Some w \<and>
    (\<forall>d. AmountOf C v d + AmountOf C w d = AmountOf C (OriginalVesting va) d \<and> 0 \<le> AmountOf C v d \<and> 0 \<le> AmountOf C w d) \<and>
    (t \<le> StartTime va \<longrightarrow> Coins_IsZero C v) \<and> (StartTime va < t \<and> EndTime va \<le> t \<longrightarrow> Coins_IsZero C w)"
  by (rule coin_laws.vested_vesting_sum [OF assms])

theorem vested_and_vesting_witness:
  "\<exists>v w. GetVestedCoins coin_list sample_va 1050 = Some v \<and> GetVestingCoins coin_list sample_va 1050 = Some w \<and>
    (\<forall>d. list_amount v d + list_amount w d = list_amount [(''aanr'', 100)] d) \<and> Coins_IsZero coin_list w"
  using vested_and_vesting [OF coin_list.coin_laws_axioms sample_va_ok, of 1050] by (auto simp: sample_va_def)

text \<open>What is free never becomes locked again: the free coins of a well-formed account only grow
  with time, in every denomination.\<close>
theorem vested_monotone:
  assumes "coin_laws C" "va_ok C va" "t \<le> u"
  shows "\<exists>v w. GetVestedCoins C va t = Some v \<and> GetVestedCoins C va u = Some w \<and>
    (\<forall>d. AmountOf C v d \<le> AmountOf C w d)"
  by (rule coin_laws.vested_mono [OF assms])

theorem vested_monotone_witness:
  "\<exists>v w. GetVestedCoins coin_list sample_va 1020 = Some v \<and> GetVestedCoins coin_list sample_va 1050 = Some w \<and>
    (\<forall>d. list_amount v d \<le> list_amount w d)"
  using vested_monotone [OF coin_list.coin_laws_axioms sample_va_ok, of 1020 1050] by simp

text \<open>A clawback splits the original vesting exactly into what has vested, which the account
  keeps, and what is taken back. The new account is well-formed; all its coins are vested from
  then on, and it unlocks what the old one would have unlocked, up to what it still has.\<close>
theorem clawback_splits_vesting:
  assumes "coin_laws C" "va_ok C va"
  shows "\<exists>va' c. ComputeClawback C va now = Some (va', c) \<and> va_ok C va' \<and>
    (\<forall>d. AmountOf C (OriginalVesting va') d + AmountOf C c d = AmountOf C (OriginalVesting va) d) \<and>
    GetVestedOnly C va now = Some (OriginalVesting va') \<and>
    (\<forall>t. now \<le> t \<and> StartTime va < t \<longrightarrow> (\<exists>x. GetVestedOnly C va' t = Some x \<and>
       (\<forall>d. AmountOf C x d = AmountOf C (OriginalVesting va') d))) \<and>
    (\<forall>t. \<exists>u u'. GetUnlockedOnly C va t = Some u \<and> GetUnlockedOnly C va' t = Some u' \<and>
       (\<forall>d. AmountOf C u' d = min (AmountOf C u d) (AmountOf C (OriginalVesting va') d)))"
  by (rule coin_laws.clawback_split [OF assms])

theorem clawback_splits_vesting_witness:
  "\<exists>va' c. ComputeClawback coin_list sample_va 1030 = Some (va', c) \<and> va_ok coin_list va' \<and>
    (\<forall>d. list_amount (OriginalVesting va') d + list_amount c d = list_amount [(''aanr'', 100)] d)"
  using clawback_splits_vesting [OF coin_list.coin_laws_axioms sample_va_ok, of 1030]
  by (auto simp: sample_va_def)

text \<open>\<open>Validate\<close> accepts an account exactly if it starts before it ends, its schedules end by its
  end time and both add up to its original vesting, and the embedded base account is valid:
  what it accepts is well-formed.\<close>
theorem validate_iff_well_formed:
  assumes "coin_laws C" "periods_ok C (LockupPeriods va)" "periods_ok C (VestingPeriods va)"
    "in_time (StartTime va) (LockupPeriods va)" "in_time (StartTime va) (VestingPeriods va)"
    "Coins_IsValid C (OriginalVesting va)" "\<And>d. AmountOf C (OriginalVesting va) d < max_amount"
    "\<And>d. ptotal C (LockupPeriods va) d < max_amount" "\<And>d. ptotal C (VestingPeriods va) d < max_amount"
  shows "va_Validate C B va = Ok () \<longleftrightarrow>
    StartTime va < EndTime va \<and> va_ok C va \<and> base_Validate B (base_of va) = Ok ()"
  by (rule coin_laws.va_Validate_iff [OF assms])

theorem validate_iff_well_formed_witness:
  "va_Validate coin_list \<lparr>LockedCoinsFromVesting = \<lambda>_. Some, base_TrackDelegation = \<lambda>b _ _ _. Some b,
     base_Validate = \<lambda>_. Ok ()\<rparr> sample_va = Ok ()"
proof -
  let ?B = "\<lparr>LockedCoinsFromVesting = \<lambda>_. Some, base_TrackDelegation = \<lambda>b _ _ _. Some b, base_Validate = \<lambda>_. Ok ()\<rparr>"
  have "va_Validate coin_list ?B sample_va = Ok () \<longleftrightarrow>
    StartTime sample_va < EndTime sample_va \<and> va_ok coin_list sample_va \<and> base_Validate ?B (base_of sample_va) = Ok ()"
    by (rule validate_iff_well_formed [OF coin_list.coin_laws_axioms]) (simp_all add: sample_simps)
  then show ?thesis using sample_va_ok by (simp add: sample_va_def)
qed

end
