(* ===== verification/Vesting_Keeper_Laws.thy ===== *)
theory Vesting_Keeper_Laws
  imports Vesting_Keeper Vesting_Laws
begin

text \<open>
  What the messages of the vesting module do, under the laws of the modules it calls: setting an
  account changes that account, and moving coins changes no clawback vesting account. Every
  account the messages leave is well-formed, a grant adds its schedules to those of the
  account, and a clawback moves exactly the unvested coins.
\<close>

fun account_address :: "('b, 'c, 'm) vkeeper \<Rightarrow> ('b, 'c) account \<Rightarrow> bytes" where
  "account_address K (EthereumAccount b h) = base_GetAddress K b"
| "account_address K (Clawback va) = va_GetAddress K va"
| "account_address K (OtherAccount b) = base_GetAddress K b"

text \<open>Two states of the other modules with the same clawback vesting accounts.\<close>

definition same_clawback :: "('b, 'c, 'm) vkeeper \<Rightarrow> 'm \<Rightarrow> 'm \<Rightarrow> bool" where
  "same_clawback K m m' \<longleftrightarrow>
     (\<forall>a va. GetAccount K m' a = Some (Clawback va) \<longleftrightarrow> GetAccount K m a = Some (Clawback va))"

definition accounts_ok :: "'c coin_ops \<Rightarrow> ('b, 'c, 'm) vkeeper \<Rightarrow> 'm \<Rightarrow> bool" where
  "accounts_ok C K m \<longleftrightarrow>
     (\<forall>a va. GetAccount K m a = Some (Clawback va) \<longrightarrow> va_ok C va \<and> va_GetAddress K va = a)"

text \<open>
  A step of the module: a message that passed its checks, a governance hook, a new block time, or
  another module's step, which may change what an account has delegated but no schedule.
\<close>

definition same_schedules :: "('b, 'c, 'm) vkeeper \<Rightarrow> 'm \<Rightarrow> 'm \<Rightarrow> bool" where
  "same_schedules K m m' \<longleftrightarrow>
     (\<forall>a va'. GetAccount K m' a = Some (Clawback va') \<longrightarrow>
        (\<exists>va df dv. GetAccount K m a = Some (Clawback va) \<and> va' = va\<lparr>DelegatedFree := df, DelegatedVesting := dv\<rparr>))"

inductive vesting_step :: "'c coin_ops \<Rightarrow> ('b, 'c, 'm) vkeeper \<Rightarrow> 'm vctx \<Rightarrow> 'm vctx \<Rightarrow> bool"
  for C :: "'c coin_ops" and K :: "('b, 'c, 'm) vkeeper" where
  create: "Create_ValidateBasic K f v = Ok () \<Longrightarrow> CreateClawbackVestingAccount C K c f v g = Ok c' \<Longrightarrow> vesting_step C K c c'"
| fund: "Fund_ValidateBasic C K f v lp vp = Ok () \<Longrightarrow> in_time s lp \<Longrightarrow> in_time s vp \<Longrightarrow>
    FundVestingAccount C K c f v s lp vp = Ok c' \<Longrightarrow> vesting_step C K c c'"
| claw: "Clawback_ValidateBasic K f a d = Ok () \<Longrightarrow> keeper_Clawback C K c f a d = Ok (x, c') \<Longrightarrow> vesting_step C K c c'"
| update: "UpdateFunder_ValidateBasic K f n v = Ok () \<Longrightarrow> UpdateVestingFunder K c f n v = Ok c' \<Longrightarrow> vesting_step C K c c'"
| convert: "Convert_ValidateBasic K v = Ok () \<Longrightarrow> ConvertVestingAccount C K c v = Ok c' \<Longrightarrow> vesting_step C K c c'"
| proposal: "HandleClawbackProposal C K c p = Ok c' \<Longrightarrow> vesting_step C K c c'"
| deposit: "AfterProposalDeposit K c i = Some c' \<Longrightarrow> vesting_step C K c c'"
| voted: "AfterProposalVotingPeriodEnded K c i = Some c' \<Longrightarrow> vesting_step C K c c'"
| block: "vesting_step C K c (c\<lparr>BlockTime := t\<rparr>)"
| other: "same_schedules K (vmods c) m \<Longrightarrow> vesting_step C K c (c\<lparr>vmods := m\<rparr>)"

locale vesting_env = coin_laws C for C :: "'c coin_ops" +
  fixes K :: "('b, 'c, 'm) vkeeper"
  assumes get_set: "GetAccount K (SetAccount K m acc) a = (if a = account_address K acc then Some acc else GetAccount K m a)"
    and send_keeps: "SendCoins K m f t c = Ok m' \<Longrightarrow> same_clawback K m m'"
    and pool_keeps: "FundCommunityPool K m c a = Ok m' \<Longrightarrow> same_clawback K m m'"
begin

lemma accounts_ok_same: "accounts_ok C K m \<Longrightarrow> same_clawback K m m' \<Longrightarrow> accounts_ok C K m'"
  by (simp add: accounts_ok_def same_clawback_def)

lemma accounts_ok_set_va:
  "accounts_ok C K m \<Longrightarrow> va_ok C va \<Longrightarrow> accounts_ok C K (SetAccount K m (Clawback va))"
  by (auto simp: accounts_ok_def get_set split: if_splits)

lemma accounts_ok_set_eth:
  "accounts_ok C K m \<Longrightarrow> accounts_ok C K (SetAccount K m (EthereumAccount b h))"
  by (auto simp: accounts_ok_def get_set split: if_splits)

lemma GetClawback_Ok:
  "GetClawbackVestingAccount K c a = Ok va \<longleftrightarrow> GetAccount K (vmods c) a = Some (Clawback va)"
  by (auto simp: GetClawbackVestingAccount_def split: option.split account.split)

subsection \<open>Grants\<close>

lemma check_periods_Ok:
  "check_periods C ps c = Ok c' \<Longrightarrow> Coins_IsValid C c \<Longrightarrow>
    periods_ok C ps \<and> Coins_IsValid C c' \<and> (\<forall>d. AmountOf C c' d = AmountOf C c d + ptotal C ps d)"
proof (induction ps arbitrary: c)
  case (Cons p ps)
  then obtain b where b: "Coins_Add C c (Amount p) = Some b" "check_periods C ps b = Ok c'"
    and p: "1 \<le> Length p" "Coins_IsValid C (Amount p)" by (auto split: if_splits)
  note sum = Add_Some [OF b(1) Cons.prems(2) p(2)]
  from Cons.IH [OF b(2) sum(1)] p sum(2) show ?case by (simp add: add.assoc)
qed simp

lemma check_periods_small:
  assumes "check_periods C ps c = Ok c'" "Coins_IsValid C c" "AmountOf C c d < max_amount"
  shows "AmountOf C c d + ptotal C ps d < max_amount"
  using assms
proof (induction ps arbitrary: c)
  case (Cons p ps)
  then obtain b where b: "Coins_Add C c (Amount p) = Some b" "check_periods C ps b = Ok c'"
    and p: "Coins_IsValid C (Amount p)" by (auto split: if_splits)
  note sum = Add_Some [OF b(1) Cons.prems(2) p]
  from Cons.IH [OF b(2) sum(1)] sum(2,3) [of d] show ?case by (simp add: add.assoc)
qed simp

text \<open>The schedules of a grant that passed the checks, with the defaults filled in.\<close>

definition grant_ok :: "int \<Rightarrow> 'c Periods \<Rightarrow> 'c Periods \<Rightarrow> 'c \<Rightarrow> bool" where
  "grant_ok s lockup vesting coins \<longleftrightarrow>
     periods_ok C lockup \<and> periods_ok C vesting \<and> in_time s lockup \<and> in_time s vesting \<and> Coins_IsValid C coins \<and>
     (\<forall>d. ptotal C lockup d = AmountOf C coins d \<and> ptotal C vesting d = AmountOf C coins d)"

lemma default_periods_ok:
  assumes chk: "Fund_ValidateBasic C K funder vaddr lockup vesting = Ok ()"
    and def: "default_periods C lockup vesting = Some (l, v, coins)"
    and tm: "in_time s lockup" "in_time s vesting"
  shows "grant_ok s l v coins"
proof -
  obtain lc vc where lc: "check_periods C lockup (NoCoins C) = Ok lc" and vc: "check_periods C vesting (NoCoins C) = Ok vc"
    and nz: "\<not> (Coins_IsZero C lc \<and> Coins_IsZero C vc)"
    and eq: "lockup \<noteq> [] \<Longrightarrow> vesting \<noteq> [] \<Longrightarrow> CoinEq C lc vc"
    using chk by (auto simp: Fund_ValidateBasic_def split: if_splits)
  note L = check_periods_Ok [OF lc valid_NoCoins] and V = check_periods_Ok [OF vc valid_NoCoins]
  have small: "ptotal C lockup d < max_amount" "ptotal C vesting d < max_amount" for d
    using check_periods_small [OF lc] check_periods_small [OF vc] by simp_all
  obtain tv tl where tv: "TotalAmount C vesting = Some tv" "Coins_IsValid C tv" "\<And>d. AmountOf C tv d = ptotal C vesting d"
    and tl: "TotalAmount C lockup = Some tl" "Coins_IsValid C tl" "\<And>d. AmountOf C tl d = ptotal C lockup d"
    using TotalAmount [of vesting] TotalAmount [of lockup] L V small by auto
  have z: "Coins_IsZero C tv = Coins_IsZero C vc" "Coins_IsZero C tl = Coins_IsZero C lc"
    using L V tv(2,3) tl(2,3) by (simp_all add: IsZero_iff)
  have same: "ptotal C lockup d = ptotal C vesting d" if "lockup \<noteq> []" "vesting \<noteq> []" for d
    using eq [OF that] CoinEq_iff [of lc vc] L V by simp
  have zn: "Coins_IsZero C (NoCoins C)" by (simp add: IsZero_iff)
  show ?thesis
  proof (cases "lockup = []"; cases "vesting = []")
    assume e: "lockup = []" "vesting = []"
    then show ?thesis using nz lc vc zn by simp
  next
    assume e: "lockup = []" "vesting \<noteq> []"
    then have "\<not> Coins_IsZero C tv" using nz lc z zn by auto
    with e def tv tl have "l = [\<lparr>Length = 0, Amount = tv\<rparr>]" "v = vesting" "coins = tv"
      by (auto simp: default_periods_def)
    then show ?thesis using tv V tm e by (simp add: grant_ok_def in_time_def)
  next
    assume e: "lockup \<noteq> []" "vesting = []"
    then have "\<not> Coins_IsZero C tl" using nz vc z zn by auto
    with e def tv tl have "v = [\<lparr>Length = 0, Amount = tl\<rparr>]" "l = lockup" "coins = tl"
      by (auto simp: default_periods_def)
    then show ?thesis using tl L tm e by (simp add: grant_ok_def in_time_def)
  next
    assume e: "lockup \<noteq> []" "vesting \<noteq> []"
    with def tv(1) tl(1) have "l = lockup" "v = vesting" "coins = tv" by (auto simp: default_periods_def)
    then show ?thesis using tv L V tm same [OF e] by (simp add: grant_ok_def)
  qed
qed

text \<open>The account a grant is added to: one without periods starts with the grant.\<close>

definition grant_start :: "('b, 'c) ClawbackVestingAccount \<Rightarrow> int \<Rightarrow> int" where
  "grant_start va s = (if LockupPeriods va = [] \<and> VestingPeriods va = [] then s else StartTime va)"

lemma addGrant_Ok:
  assumes "addGrant C K c va s l v coins = Ok va1"
  obtains lp vp le ve orig dv df x where
    "DisjunctPeriods C (grant_start va s) s (LockupPeriods va) l = Some (x, le, lp)"
    "DisjunctPeriods C (grant_start va s) s (VestingPeriods va) v = Some (x, ve, vp)"
    "Coins_Add C (OriginalVesting va) coins = Some orig"
    "va1 = va\<lparr>StartTime := x, EndTime := max le ve, LockupPeriods := lp, VestingPeriods := vp,
       OriginalVesting := orig, DelegatedVesting := dv, DelegatedFree := df\<rparr>"
  using assms
  by (cases "LockupPeriods va = [] \<and> VestingPeriods va = []")
    (auto simp: addGrant_def Let_def GetStartTime_def GetVestingPeriods_def grant_start_def
      split: if_splits prod.splits intro!: that)

lemma grant_sched:
  assumes "periods_ok C as" "periods_ok C bs" "in_time a as" "in_time b bs"
    "\<And>d. ptotal C as d + ptotal C bs d < max_amount" "DisjunctPeriods C a b as bs = Some (x, e, ps)"
  shows "x = min a b" "e = min a b + plen ps" "periods_ok C ps" "in_time (min a b) ps"
    "sched_amount C (min a b) ps t d = sched_amount C a as t d + sched_amount C b bs t d"
    "ptotal C ps d = ptotal C as d + ptotal C bs d"
proof -
  have "x = min a b \<and> e = min a b + plen ps \<and> periods_ok C ps \<and> in_time (min a b) ps \<and>
      (\<forall>t d. sched_amount C (min a b) ps t d = sched_amount C a as t d + sched_amount C b bs t d)"
    using DisjunctPeriods_correct [OF assms(1-5)] assms(6) by auto
  then show "x = min a b" "e = min a b + plen ps" "periods_ok C ps" "in_time (min a b) ps"
    "sched_amount C (min a b) ps t d = sched_amount C a as t d + sched_amount C b bs t d"
    "ptotal C ps d = ptotal C as d + ptotal C bs d"
    using merged_total [OF assms(1,2), of ps "min a b"] by auto
qed

lemma addGrant_correct:
  assumes ok: "va_ok C va" and g: "grant_ok s l v coins" and add: "addGrant C K c va s l v coins = Ok va1"
  shows "va_ok C va1" "AmountOf C (OriginalVesting va1) d = AmountOf C (OriginalVesting va) d + AmountOf C coins d"
    "FunderAddress va1 = FunderAddress va" "BaseAccount va1 = BaseAccount va"
    "t \<noteq> StartTime va \<Longrightarrow> t \<noteq> s \<Longrightarrow> unlocked_at C va1 t d = unlocked_at C va t d + sched_amount C s l t d"
    "t \<noteq> StartTime va \<Longrightarrow> t \<noteq> s \<Longrightarrow> vested_at C va1 t d = vested_at C va t d + sched_amount C s v t d"
proof -
  let ?a = "grant_start va s"
  obtain lp vp le ve orig dv df x where st:
    "DisjunctPeriods C ?a s (LockupPeriods va) l = Some (x, le, lp)"
    "DisjunctPeriods C ?a s (VestingPeriods va) v = Some (x, ve, vp)"
    "Coins_Add C (OriginalVesting va) coins = Some orig"
    and va1: "va1 = va\<lparr>StartTime := x, EndTime := max le ve, LockupPeriods := lp, VestingPeriods := vp,
       OriginalVesting := orig, DelegatedVesting := dv, DelegatedFree := df\<rparr>"
    by (rule addGrant_Ok [OF add])
  have gr: "periods_ok C l" "periods_ok C v" "in_time s l" "in_time s v" "Coins_IsValid C coins"
    "\<And>d. ptotal C l d = AmountOf C coins d" "\<And>d. ptotal C v d = AmountOf C coins d"
    using g by (simp_all add: grant_ok_def)
  have vo: "periods_ok C (LockupPeriods va)" "periods_ok C (VestingPeriods va)" "Coins_IsValid C (OriginalVesting va)"
    "\<And>d. ptotal C (LockupPeriods va) d = AmountOf C (OriginalVesting va) d"
    "\<And>d. ptotal C (VestingPeriods va) d = AmountOf C (OriginalVesting va) d"
    using ok by (simp_all add: va_ok_def)
  have tm: "in_time ?a (LockupPeriods va)" "in_time ?a (VestingPeriods va)"
    using ok gr(3) plen_nonneg [OF gr(1)] by (auto simp: va_ok_def grant_start_def in_time_def)
  note sum = Add_Some [OF st(3) vo(3) gr(5)]
  have lt: "ptotal C (LockupPeriods va) d + ptotal C l d < max_amount" "ptotal C (VestingPeriods va) d + ptotal C v d < max_amount" for d
    using sum(3) [of d] vo(4,5) gr(6,7) by simp_all
  note L = grant_sched [OF vo(1) gr(1) tm(1) gr(3) lt(1) st(1)] and V = grant_sched [OF vo(2) gr(2) tm(2) gr(4) lt(2) st(2)]
  show "va_ok C va1"
    using L(1-4,6) V(2-4,6) sum vo(4,5) gr(6,7) by (simp add: va1 va_ok_def)
  show "AmountOf C (OriginalVesting va1) d = AmountOf C (OriginalVesting va) d + AmountOf C coins d"
    "FunderAddress va1 = FunderAddress va" "BaseAccount va1 = BaseAccount va" using sum(2) by (simp_all add: va1)
  show "unlocked_at C va1 t d = unlocked_at C va t d + sched_amount C s l t d"
    "vested_at C va1 t d = vested_at C va t d + sched_amount C s v t d" if "t \<noteq> StartTime va" "t \<noteq> s"
  proof -
    have "t \<noteq> ?a" using that by (auto simp: grant_start_def)
    then have "t \<le> min ?a s \<longleftrightarrow> t < min ?a s" using that by auto
    then have "unlocked_at C va1 t d = sched_amount C (min ?a s) lp t d" "vested_at C va1 t d = sched_amount C (min ?a s) vp t d"
      using sched_before [OF L(3), of t "min ?a s"] sched_before [OF V(3), of t "min ?a s"]
      by (simp_all add: va1 L(1) unlocked_at_def vested_at_def del: min_le_iff_disj min_less_iff_conj min.bounded_iff)
    moreover have "unlocked_at C va t d = sched_amount C ?a (LockupPeriods va) t d"
      "vested_at C va t d = sched_amount C ?a (VestingPeriods va) t d"
      using that(1) sched_before [OF vo(1), of t "StartTime va"] sched_before [OF vo(2), of t "StartTime va"]
      by (auto simp: unlocked_at_def vested_at_def grant_start_def)
    ultimately show "unlocked_at C va1 t d = unlocked_at C va t d + sched_amount C s l t d"
      "vested_at C va1 t d = vested_at C va t d + sched_amount C s v t d" using L(5) V(5) by simp_all
  qed
qed

lemma FundVestingAccount_Ok:
  assumes "FundVestingAccount C K c f v s lp vp = Ok c'"
  obtains fa a va l w coins va1 where "FromBech32 K f = Ok fa" "FromBech32 K v = Ok a"
    "GetAccount K (vmods c) a = Some (Clawback va)" "default_periods C lp vp = Some (l, w, coins)"
    "FunderAddress va = f" "addGrant C K c va s l w coins = Ok va1"
    "SendCoins K (SetAccount K (vmods c) (Clawback va1)) fa a coins = Ok (vmods c')" "vstore c' = vstore c"
  using assms
  by (auto simp: FundVestingAccount_def MustAccAddressFromBech32_def GetClawback_Ok Let_def
      split: if_splits outcome.splits intro!: that)

lemma fund_effect:
  assumes chk: "Fund_ValidateBasic C K f v lp vp = Ok ()" and tm: "in_time s lp" "in_time s vp"
    and fund: "FundVestingAccount C K c f v s lp vp = Ok c'" and inv: "accounts_ok C K (vmods c)"
  shows "\<exists>a va va1 l w coins. GetAccount K (vmods c) a = Some (Clawback va) \<and> FunderAddress va = f \<and>
    GetAccount K (vmods c') a = Some (Clawback va1) \<and> va_ok C va1 \<and> accounts_ok C K (vmods c') \<and>
    default_periods C lp vp = Some (l, w, coins) \<and>
    (\<forall>d. AmountOf C (OriginalVesting va1) d = AmountOf C (OriginalVesting va) d + AmountOf C coins d) \<and>
    (\<forall>t d. t \<noteq> StartTime va \<and> t \<noteq> s \<longrightarrow>
       unlocked_at C va1 t d = unlocked_at C va t d + sched_amount C s l t d \<and>
       vested_at C va1 t d = vested_at C va t d + sched_amount C s w t d)"
proof -
  obtain fa a va l w coins va1 where st: "GetAccount K (vmods c) a = Some (Clawback va)"
    "default_periods C lp vp = Some (l, w, coins)" "FunderAddress va = f" "addGrant C K c va s l w coins = Ok va1"
    "SendCoins K (SetAccount K (vmods c) (Clawback va1)) fa a coins = Ok (vmods c')"
    by (rule FundVestingAccount_Ok [OF fund])
  have ok: "va_ok C va" "va_GetAddress K va = a" using inv st(1) by (simp_all add: accounts_ok_def)
  note add = addGrant_correct [OF ok(1) default_periods_ok [OF chk st(2) tm] st(4)]
  have addr: "va_GetAddress K va1 = a" using add(4) ok(2) by (simp add: va_GetAddress_def)
  have "accounts_ok C K (vmods c')"
    using accounts_ok_set_va [OF inv add(1)] accounts_ok_same send_keeps [OF st(5)] by blast
  moreover have "GetAccount K (vmods c') a = Some (Clawback va1)"
    using send_keeps [OF st(5)] addr by (simp add: same_clawback_def get_set)
  ultimately show ?thesis using st add by blast
qed

lemma fund_keeps_inv:
  assumes "Fund_ValidateBasic C K f v lp vp = Ok ()" "in_time s lp" "in_time s vp"
    "FundVestingAccount C K c f v s lp vp = Ok c'" "accounts_ok C K (vmods c)"
  shows "accounts_ok C K (vmods c')"
  using fund_effect [OF assms] by (elim exE conjE)

subsection \<open>Clawback\<close>

lemma transferClawback_Ok:
  assumes "transferClawback C K c va dest = Ok (x, c')"
  obtains va' where "ComputeClawback C va (BlockTime c) = Some (va', x)"
    "vstore c' = (vstore c)(KeyPrefixGovClawbackDisabledKey @ va_GetAddress K va' := None)"
    "FundCommunityPool K (SetAccount K (vmods c) (EthereumAccount (BaseAccount va') (EmptyCodeHash K))) x (va_GetAddress K va') = Ok (vmods c') \<or>
     SendCoins K (SetAccount K (vmods c) (EthereumAccount (BaseAccount va') (EmptyCodeHash K))) (va_GetAddress K va') dest x = Ok (vmods c')"
  using assms
  by (auto simp: transferClawback_def Let_def DeleteGovClawbackDisabled_def split: if_splits prod.splits intro!: that)

lemma transfer_effect:
  assumes ok: "va_ok C va" "va_GetAddress K va = a" "accounts_ok C K (vmods c)"
    and tr: "transferClawback C K c va dest = Ok (x, c')"
  shows "accounts_ok C K (vmods c')" "GetAccount K (vmods c') a \<noteq> Some (Clawback va2)"
    "Coins_IsValid C x" "AmountOf C x d = AmountOf C (OriginalVesting va) d - vested_at C va (BlockTime c) d"
    "\<not> HasGovClawbackDisabled c' a"
    "FundCommunityPool K (SetAccount K (vmods c) (EthereumAccount (BaseAccount va) (EmptyCodeHash K))) x a = Ok (vmods c') \<or>
     SendCoins K (SetAccount K (vmods c) (EthereumAccount (BaseAccount va) (EmptyCodeHash K))) a dest x = Ok (vmods c')"
proof -
  obtain va' where st: "ComputeClawback C va (BlockTime c) = Some (va', x)"
    "vstore c' = (vstore c)(KeyPrefixGovClawbackDisabledKey @ va_GetAddress K va' := None)"
    "FundCommunityPool K (SetAccount K (vmods c) (EthereumAccount (BaseAccount va') (EmptyCodeHash K))) x (va_GetAddress K va') = Ok (vmods c') \<or>
     SendCoins K (SetAccount K (vmods c) (EthereumAccount (BaseAccount va') (EmptyCodeHash K))) (va_GetAddress K va') dest x = Ok (vmods c')"
    by (rule transferClawback_Ok [OF tr])
  have cb: "Coins_IsValid C x" "\<And>d. AmountOf C x d = AmountOf C (OriginalVesting va) d - vested_at C va (BlockTime c) d"
    "BaseAccount va' = BaseAccount va"
    using ComputeClawback_correct [OF ok(1), of "BlockTime c"] st(1) by (metis option.inject prod.inject)+
  then have a: "va_GetAddress K va' = a" using ok(2) by (simp add: va_GetAddress_def)
  let ?m = "SetAccount K (vmods c) (EthereumAccount (BaseAccount va) (EmptyCodeHash K))"
  have same: "same_clawback K ?m (vmods c')" using st(3) cb(3) send_keeps pool_keeps by metis
  have "GetAccount K ?m a = Some (EthereumAccount (BaseAccount va) (EmptyCodeHash K))"
    using ok(2) by (simp add: get_set va_GetAddress_def)
  then show "GetAccount K (vmods c') a \<noteq> Some (Clawback va2)"
    using same by (metis account.distinct(1) option.inject same_clawback_def)
  show "accounts_ok C K (vmods c')" using accounts_ok_set_eth [OF ok(3)] same accounts_ok_same by blast
  show "Coins_IsValid C x" "AmountOf C x d = AmountOf C (OriginalVesting va) d - vested_at C va (BlockTime c) d" using cb by auto
  show "\<not> HasGovClawbackDisabled c' a" using st(2) a by (simp add: HasGovClawbackDisabled_def)
  show "FundCommunityPool K ?m x a = Ok (vmods c') \<or> SendCoins K ?m a dest x = Ok (vmods c')" using st(3) cb(3) a by simp
qed

lemma MustAcc_Some [simp]: "MustAccAddressFromBech32 K s = Some a \<longleftrightarrow> FromBech32 K s = Ok a"
  by (simp add: MustAccAddressFromBech32_def split: outcome.split)

lemma if_Err_Ok: "(if p then Err e else m) = Ok r \<longleftrightarrow> \<not> p \<and> m = Ok r"
  by simp

lemma keeper_Clawback_Ok:
  assumes "keeper_Clawback C K c f acc dst = Ok (x, c')"
  obtains a va dest where "FromBech32 K acc = Ok a" "GetAccount K (vmods c) a = Some (Clawback va)"
    "transferClawback C K c va dest = Ok (x, c')"
    "f = AccString K (authority K) \<and> \<not> HasGovClawbackDisabled c a \<or> f = FunderAddress va \<and> \<not> HasActiveClawbackProposal c a"
  using assms unfolding keeper_Clawback_def Let_def
  by (cases "f = AccString K (authority K)") (auto simp: if_Err_Ok GetClawback_Ok intro: that)

lemma clawback_effect:
  assumes inv: "accounts_ok C K (vmods c)" and cb: "keeper_Clawback C K c f acc dst = Ok (x, c')"
  shows "\<exists>a va m. FromBech32 K acc = Ok a \<and> GetAccount K (vmods c) a = Some (Clawback va) \<and>
    (f = AccString K (authority K) \<and> \<not> HasGovClawbackDisabled c a \<or>
     f = FunderAddress va \<and> \<not> HasActiveClawbackProposal c a) \<and>
    (\<forall>d. AmountOf C x d = AmountOf C (OriginalVesting va) d - vested_at C va (BlockTime c) d) \<and>
    m = SetAccount K (vmods c) (EthereumAccount (BaseAccount va) (EmptyCodeHash K)) \<and>
    (FundCommunityPool K m x a = Ok (vmods c') \<or> (\<exists>dest. SendCoins K m a dest x = Ok (vmods c'))) \<and>
    (\<forall>va2. GetAccount K (vmods c') a \<noteq> Some (Clawback va2)) \<and> \<not> HasGovClawbackDisabled c' a"
proof -
  obtain a va dest where st: "FromBech32 K acc = Ok a" "GetAccount K (vmods c) a = Some (Clawback va)"
    "transferClawback C K c va dest = Ok (x, c')"
    "f = AccString K (authority K) \<and> \<not> HasGovClawbackDisabled c a \<or> f = FunderAddress va \<and> \<not> HasActiveClawbackProposal c a"
    by (rule keeper_Clawback_Ok [OF cb])
  have "va_ok C va" "va_GetAddress K va = a" using inv st(2) by (simp_all add: accounts_ok_def)
  note te = transfer_effect [OF this inv st(3)]
  show ?thesis
    using st(1,2,4) te(2,4-6)
    by (intro exI [of _ a] exI [of _ va] exI [of _ "SetAccount K (vmods c) (EthereumAccount (BaseAccount va) (EmptyCodeHash K))"] conjI) auto
qed

lemma clawback_keeps_inv:
  assumes inv: "accounts_ok C K (vmods c)" and cb: "keeper_Clawback C K c f acc dst = Ok (x, c')"
  shows "accounts_ok C K (vmods c')"
proof -
  obtain a va dest where st: "GetAccount K (vmods c) a = Some (Clawback va)" "transferClawback C K c va dest = Ok (x, c')"
    by (rule keeper_Clawback_Ok [OF cb])
  then show ?thesis using transfer_effect(1) [OF _ _ inv st(2)] inv by (simp add: accounts_ok_def)
qed

subsection \<open>The invariant\<close>

lemma create_keeps_inv:
  assumes inv: "accounts_ok C K (vmods c)" and cr: "CreateClawbackVestingAccount C K c f v g = Ok c'"
  shows "accounts_ok C K (vmods c')"
proof -
  obtain va where va: "vmods c' = SetAccount K (vmods c) (Clawback va)" "LockupPeriods va = []" "VestingPeriods va = []"
    "OriginalVesting va = NoCoins C" "StartTime va = zero_time" "EndTime va = 0"
    using cr by (auto simp: CreateClawbackVestingAccount_def Let_def SetGovClawbackDisabled_def
        split: if_splits option.splits account.splits)
  then have "va_ok C va" by (simp add: va_ok_def in_time_def zero_time_def)
  then show ?thesis using accounts_ok_set_va [OF inv] va(1) by simp
qed

lemma update_keeps_inv:
  assumes "accounts_ok C K (vmods c)" "UpdateVestingFunder K c f n v = Ok c'"
  shows "accounts_ok C K (vmods c')"
proof -
  obtain a va where va: "GetAccount K (vmods c) a = Some (Clawback va)"
    "vmods c' = SetAccount K (vmods c) (Clawback (va\<lparr>FunderAddress := n\<rparr>))"
    using assms(2) by (auto simp: UpdateVestingFunder_def GetClawback_Ok split: if_splits)
  have "va_ok C (va\<lparr>FunderAddress := n\<rparr>)" using assms(1) va(1) by (simp add: accounts_ok_def va_ok_def)
  then show ?thesis using accounts_ok_set_va [OF assms(1)] va(2) by simp
qed

lemma convert_effect:
  assumes "ConvertVestingAccount C K c v = Ok c'"
  obtains a va coins where "FromBech32 K v = Ok a" "GetAccount K (vmods c) a = Some (Clawback va)"
    "GetVestingCoins C va (BlockTime c) = Some coins" "Coins_IsZero C coins"
    "vmods c' = SetAccount K (vmods c) (EthereumAccount (BaseAccount va) (EmptyCodeHash K))"
  using assms
  by (auto simp: ConvertVestingAccount_def MustAccAddressFromBech32_def GetClawback_Ok Let_def
      DeleteGovClawbackDisabled_def split: if_splits outcome.splits intro!: that)

lemma for_proposals_mods:
  "for_proposals K f ps c = Some c' \<Longrightarrow> (\<And>c a. vmods (f c a) = vmods c) \<Longrightarrow> vmods c' = vmods c"
  by (induction ps arbitrary: c) (auto split: bind_splits)

lemma hooks_mods:
  "AfterProposalDeposit K c i = Some c' \<Longrightarrow> vmods c' = vmods c"
  "AfterProposalVotingPeriodEnded K c i = Some c' \<Longrightarrow> vmods c' = vmods c"
  by (auto simp: AfterProposalDeposit_def AfterProposalVotingPeriodEnded_def SetActiveClawbackProposal_def
      DeleteActiveClawbackProposal_def split: option.splits outcome.splits if_splits dest: for_proposals_mods)

lemma same_schedules_inv: "accounts_ok C K m \<Longrightarrow> same_schedules K m m' \<Longrightarrow> accounts_ok C K m'"
  by (fastforce simp: accounts_ok_def same_schedules_def va_ok_def va_GetAddress_def)

lemma vesting_step_inv: "vesting_step C K c c' \<Longrightarrow> accounts_ok C K (vmods c) \<Longrightarrow> accounts_ok C K (vmods c')"
proof (induction rule: vesting_step.induct)
  case (create f v c g c')
  then show ?case by (blast intro: create_keeps_inv)
next
  case (fund f v lp vp s c c')
  then show ?case by (blast intro: fund_keeps_inv)
next
  case (claw f a d c x c')
  then show ?case by (blast intro: clawback_keeps_inv)
next
  case (update f n v c c')
  then show ?case by (blast intro: update_keeps_inv)
next
  case (convert v c c')
  then obtain b h where "vmods c' = SetAccount K (vmods c) (EthereumAccount b h)" using convert_effect by metis
  then show ?case using convert(3) by (simp add: accounts_ok_set_eth)
next
  case (proposal c p c')
  then obtain x where "keeper_Clawback C K c (AccString K (NewModuleAddress K ''gov'')) (cp_Address p) (cp_DestinationAddress p) = Ok (x, c')"
    by (auto simp: HandleClawbackProposal_def)
  then show ?case using proposal(2) by (blast intro: clawback_keeps_inv)
next
  case (deposit c i c')
  then show ?case by (simp add: hooks_mods(1) [OF deposit(1)])
next
  case (voted c i c')
  then show ?case by (simp add: hooks_mods(2) [OF voted(1)])
next
  case (other c m)
  then show ?case using same_schedules_inv by simp
qed simp

lemma vesting_run_inv:
  "(vesting_step C K)\<^sup>*\<^sup>* c c' \<Longrightarrow> accounts_ok C K (vmods c) \<Longrightarrow> accounts_ok C K (vmods c')"
  by (induction rule: rtranclp_induct) (auto dest: vesting_step_inv)

end

subsection \<open>A ledger of accounts and balances\<close>

text \<open>Modules that keep accounts by address and balances in coins, addresses being their own text.\<close>

type_synonym coin_set = "(string \<times> int) list"

record vledger =
  accts :: "bytes \<rightharpoonup> (bytes, coin_set) account"
  bals :: "bytes \<Rightarrow> coin_set"

definition text_bytes :: "string \<Rightarrow> bytes" where
  "text_bytes s = map (\<lambda>ch. word_of_nat (of_char ch)) s"

definition bytes_text :: "bytes \<Rightarrow> string" where
  "bytes_text bs = map (\<lambda>b. char_of (unat b)) bs"

definition move_coins :: "vledger \<Rightarrow> bytes \<Rightarrow> bytes \<Rightarrow> coin_set \<Rightarrow> (string, vledger) outcome" where
  "move_coins m f t c =
     (case Coins_Sub coin_list (bals m f) c of
        None \<Rightarrow> Err ''insufficient funds''
      | Some x \<Rightarrow>
          let b = (bals m)(f := x)
          in case list_add (b t) c of None \<Rightarrow> Panic | Some y \<Rightarrow> Ok (m\<lparr>bals := b(t := y)\<rparr>))"

definition vledger_keeper :: "(bytes, coin_set, vledger) vkeeper" where
  "vledger_keeper = \<lparr>GetAccount = accts,
     SetAccount = (\<lambda>m acc. m\<lparr>accts := (accts m)
       ((case acc of EthereumAccount b _ \<Rightarrow> b | Clawback va \<Rightarrow> BaseAccount va | OtherAccount b \<Rightarrow> b) \<mapsto> acc)\<rparr>),
     base_GetAddress = (\<lambda>b. b), GetModuleAddress = text_bytes, NewModuleAddress = text_bytes,
     BlockedAddr = (\<lambda>a. a = text_bytes ''distribution''), SendCoins = move_coins,
     FundCommunityPool = (\<lambda>m c a. move_coins m a (text_bytes ''distribution'') c),
     GetDelegatorBonded = (\<lambda>_ _. 0), GetDelegatorUnbonding = (\<lambda>_ _. 0), BondDenom = (\<lambda>_. ''aanr''),
     Int_Add = (\<lambda>a b. Some (a + b)),
     FromBech32 = (\<lambda>s. if s = [] then Err ''empty address'' else Ok (text_bytes s)), AccString = bytes_text,
     authority = text_bytes ''gov'', EmptyCodeHash = ''empty'', GetProposal = (\<lambda>_ _. None),
     MinDeposit = (\<lambda>_. []), IsAllLT = (\<lambda>_ _. False)\<rparr>"

lemma move_coins_accts: "move_coins m f t c = Ok m' \<Longrightarrow> accts m' = accts m"
  by (auto simp: move_coins_def Let_def split: option.splits)

interpretation vledger: vesting_env coin_list vledger_keeper
proof (unfold_locales, goal_cases)
  case (1 m acc a)
  then show ?case by (cases acc) (auto simp: vledger_keeper_def va_GetAddress_def)
qed (auto simp: vledger_keeper_def same_clawback_def dest!: move_coins_accts)

definition vgenesis :: "vledger vctx" where
  "vgenesis = \<lparr>vstore = Map.empty,
     vmods = \<lparr>accts = [text_bytes ''alice'' \<mapsto> EthereumAccount (text_bytes ''alice'') ''empty''],
       bals = (\<lambda>a. if a = text_bytes ''funder'' then [(''aanr'', 1000)] else [])\<rparr>,
     BlockTime = 1000\<rparr>"

abbreviation lockup0 :: "coin_set Periods" where "lockup0 \<equiv> [grant 50 100]"
abbreviation vesting0 :: "coin_set Periods" where "vesting0 \<equiv> [grant 20 30, grant 30 70]"

definition vcreated :: "vledger vctx" where
  "vcreated = (case CreateClawbackVestingAccount coin_list vledger_keeper vgenesis ''funder'' ''alice'' True of Ok c \<Rightarrow> c | _ \<Rightarrow> vgenesis)"

definition vfunded :: "vledger vctx" where
  "vfunded = (case FundVestingAccount coin_list vledger_keeper vcreated ''funder'' ''alice'' 1000 lockup0 vesting0 of
     Ok c \<Rightarrow> c | _ \<Rightarrow> vgenesis)"

lemma vcreated_ok: "CreateClawbackVestingAccount coin_list vledger_keeper vgenesis ''funder'' ''alice'' True = Ok vcreated"
proof -
  have "is_ok (CreateClawbackVestingAccount coin_list vledger_keeper vgenesis ''funder'' ''alice'' True)" by code_simp
  then show ?thesis by (auto simp: vcreated_def is_ok_iff)
qed

lemma vfunded_ok: "FundVestingAccount coin_list vledger_keeper vcreated ''funder'' ''alice'' 1000 lockup0 vesting0 = Ok vfunded"
proof -
  have "is_ok (FundVestingAccount coin_list vledger_keeper vcreated ''funder'' ''alice'' 1000 lockup0 vesting0)" by code_simp
  then show ?thesis by (auto simp: vfunded_def is_ok_iff)
qed

lemma fund_checks: "Fund_ValidateBasic coin_list vledger_keeper ''funder'' ''alice'' lockup0 vesting0 = Ok ()"
  by code_simp

lemma create_checks: "Create_ValidateBasic vledger_keeper ''funder'' ''alice'' = Ok ()"
  by code_simp

lemma vgenesis_ok: "accounts_ok coin_list vledger_keeper (vmods vgenesis)"
  by (simp add: accounts_ok_def vgenesis_def vledger_keeper_def)

lemma vcreated_inv: "accounts_ok coin_list vledger_keeper (vmods vcreated)"
  by (rule vledger.create_keeps_inv [OF vgenesis_ok vcreated_ok])

lemma vesting_in_time: "in_time 1000 lockup0" "in_time 1000 vesting0"
  by (simp_all add: in_time_def)

lemma vfunded_reached: "(vesting_step coin_list vledger_keeper)\<^sup>*\<^sup>* vgenesis vfunded"
  using vesting_step.create [OF create_checks vcreated_ok] vesting_step.fund [OF fund_checks vesting_in_time vfunded_ok]
  by (meson converse_rtranclp_into_rtranclp rtranclp.rtrancl_refl)

subsection \<open>Properties\<close>



text \<open>C13. A grant is accepted only from the funder of an existing clawback vesting account, and adds
  to it: the original vesting grows by the coins of the grant, and at every time, the two start
  times apart, the coins unlocked and vested are those of the account plus those of the grant's
  schedules, an absent schedule counting as immediate.\<close>
theorem grant_adds_schedules:
  assumes "vesting_env C K" "Fund_ValidateBasic C K f v lp vp = Ok ()" "in_time s lp" "in_time s vp"
    "FundVestingAccount C K c f v s lp vp = Ok c'" "accounts_ok C K (vmods c)"
  shows "\<exists>a va va1 l w coins. GetAccount K (vmods c) a = Some (Clawback va) \<and> FunderAddress va = f \<and>
    GetAccount K (vmods c') a = Some (Clawback va1) \<and> va_ok C va1 \<and> accounts_ok C K (vmods c') \<and>
    default_periods C lp vp = Some (l, w, coins) \<and>
    (\<forall>d. AmountOf C (OriginalVesting va1) d = AmountOf C (OriginalVesting va) d + AmountOf C coins d) \<and>
    (\<forall>t d. t \<noteq> StartTime va \<and> t \<noteq> s \<longrightarrow>
       unlocked_at C va1 t d = unlocked_at C va t d + sched_amount C s l t d \<and>
       vested_at C va1 t d = vested_at C va t d + sched_amount C s w t d)"
  by (rule vesting_env.fund_effect [OF assms])

theorem grant_adds_schedules_witness:
  "\<exists>a va va1. GetAccount vledger_keeper (vmods vcreated) a = Some (Clawback va) \<and> FunderAddress va = ''funder'' \<and>
    GetAccount vledger_keeper (vmods vfunded) a = Some (Clawback va1) \<and> va_ok coin_list va1"
  using grant_adds_schedules [OF vledger.vesting_env_axioms fund_checks vesting_in_time vfunded_ok vcreated_inv] by blast

text \<open>C14. A clawback succeeds only for the account's funder, while no governance clawback is pending,
  or for governance, unless the account opted out. It moves exactly the coins that have not
  vested out of the account, to one destination, turns the account into an ordinary one and
  clears its governance flag.\<close>
theorem clawback_takes_unvested:
  assumes "vesting_env C K" "accounts_ok C K (vmods c)" "keeper_Clawback C K c f acc dst = Ok (x, c')"
  shows "\<exists>a va m. FromBech32 K acc = Ok a \<and> GetAccount K (vmods c) a = Some (Clawback va) \<and>
    (f = AccString K (authority K) \<and> \<not> HasGovClawbackDisabled c a \<or>
     f = FunderAddress va \<and> \<not> HasActiveClawbackProposal c a) \<and>
    (\<forall>d. AmountOf C x d = AmountOf C (OriginalVesting va) d - vested_at C va (BlockTime c) d) \<and>
    m = SetAccount K (vmods c) (EthereumAccount (BaseAccount va) (EmptyCodeHash K)) \<and>
    (FundCommunityPool K m x a = Ok (vmods c') \<or> (\<exists>dest. SendCoins K m a dest x = Ok (vmods c'))) \<and>
    (\<forall>va2. GetAccount K (vmods c') a \<noteq> Some (Clawback va2)) \<and> \<not> HasGovClawbackDisabled c' a"
  by (rule vesting_env.clawback_effect [OF assms])

theorem clawback_takes_unvested_witness:
  "\<exists>x c' a va. keeper_Clawback coin_list vledger_keeper vfunded ''funder'' ''alice'' [] = Ok (x, c') \<and>
     GetAccount vledger_keeper (vmods vfunded) a = Some (Clawback va) \<and>
     (\<forall>d. list_amount x d = list_amount (OriginalVesting va) d - vested_at coin_list va (BlockTime vfunded) d)"
proof -
  have "is_ok (keeper_Clawback coin_list vledger_keeper vfunded ''funder'' ''alice'' [])" by code_simp
  then obtain x c' where cb: "keeper_Clawback coin_list vledger_keeper vfunded ''funder'' ''alice'' [] = Ok (x, c')"
    by (auto simp: is_ok_iff)
  have "accounts_ok coin_list vledger_keeper (vmods vfunded)"
    by (rule vledger.vesting_run_inv [OF vfunded_reached vgenesis_ok])
  from clawback_takes_unvested [OF vledger.vesting_env_axioms this cb] cb show ?thesis by auto
qed

text \<open>A clawback vesting account becomes an ordinary one by conversion only once all of its coins
  are free: the coins both unlocked and vested are the whole original vesting.\<close>
theorem convert_needs_all_vested:
  assumes "vesting_env C K" "accounts_ok C K (vmods c)" "ConvertVestingAccount C K c v = Ok c'"
  shows "\<exists>a va w. FromBech32 K v = Ok a \<and> GetAccount K (vmods c) a = Some (Clawback va) \<and>
    GetVestedCoins C va (BlockTime c) = Some w \<and> (\<forall>d. AmountOf C w d = AmountOf C (OriginalVesting va) d) \<and>
    vmods c' = SetAccount K (vmods c) (EthereumAccount (BaseAccount va) (EmptyCodeHash K))"
proof -
  have C: "coin_laws C" using assms(1) by (simp add: vesting_env_def)
  obtain a va coins where st: "FromBech32 K v = Ok a" "GetAccount K (vmods c) a = Some (Clawback va)"
    "GetVestingCoins C va (BlockTime c) = Some coins" "Coins_IsZero C coins"
    "vmods c' = SetAccount K (vmods c) (EthereumAccount (BaseAccount va) (EmptyCodeHash K))"
    by (rule vesting_env.convert_effect [OF assms(1,3)])
  have ok: "va_ok C va" using assms(2) st(2) by (simp add: accounts_ok_def)
  let ?f = "\<lambda>d. min (unlocked_at C va (BlockTime c) d) (vested_at C va (BlockTime c) d)"
  obtain w where w: "GetVestedCoins C va (BlockTime c) = Some w" "\<forall>d. AmountOf C w d = ?f d"
    using coin_laws.GetVestedCoins_amount [OF C ok] by blast
  have coins: "Coins_IsValid C coins" "\<forall>d. AmountOf C coins d = AmountOf C (OriginalVesting va) d - ?f d"
    using coin_laws.GetVestingCoins_amount [OF C ok, of "BlockTime c"] st(3) by auto
  then have "\<forall>d. AmountOf C w d = AmountOf C (OriginalVesting va) d"
    using coin_laws.IsZero_iff [OF C coins(1)] st(4) w(2) by simp
  with st w(1) show ?thesis by blast
qed

theorem convert_needs_all_vested_witness:
  "\<exists>c' a va w. ConvertVestingAccount coin_list vledger_keeper (vfunded\<lparr>BlockTime := 1050\<rparr>) ''alice'' = Ok c' \<and>
     GetAccount vledger_keeper (vmods vfunded) a = Some (Clawback va) \<and>
     GetVestedCoins coin_list va 1050 = Some w \<and> (\<forall>d. list_amount w d = list_amount (OriginalVesting va) d)"
proof -
  have "is_ok (ConvertVestingAccount coin_list vledger_keeper (vfunded\<lparr>BlockTime := 1050\<rparr>) ''alice'')" by code_simp
  then obtain c' where cv: "ConvertVestingAccount coin_list vledger_keeper (vfunded\<lparr>BlockTime := 1050\<rparr>) ''alice'' = Ok c'"
    by (auto simp: is_ok_iff)
  have "accounts_ok coin_list vledger_keeper (vmods (vfunded\<lparr>BlockTime := 1050\<rparr>))"
    using vledger.vesting_run_inv [OF vfunded_reached vgenesis_ok] by simp
  from convert_needs_all_vested [OF vledger.vesting_env_axioms this cv] cv show ?thesis by auto
qed

end
