(* ===== verification/Epochs.thy ===== *)
theory Epochs
  imports Eth_Types "HOL-Library.Char_ord"
begin

text \<open>
  The epochs module, \<open>x/epochs\<close>: named timers that end an epoch, at most one per block, once the
  block time has passed its end, and call the hooks of other modules. Times and durations are in
  nanoseconds, as Go keeps them; the epoch counter is an \<open>int64\<close>. The store holds encoded epochs
  by identifier: the codec and the hooks are the record \<open>epoch_keeper\<close>.
\<close>

subsection \<open>Epoch infos\<close>

record EpochInfo =
  Identifier :: string
  ep_StartTime :: int
  Duration :: int
  CurrentEpoch :: int
  CurrentEpochStartTime :: int
  EpochCountingStarted :: bool
  CurrentEpochStartHeight :: int

definition StartInitialEpoch :: "EpochInfo \<Rightarrow> EpochInfo" where
  "StartInitialEpoch ei = ei\<lparr>EpochCountingStarted := True, CurrentEpoch := 1, CurrentEpochStartTime := ep_StartTime ei\<rparr>"

definition EndEpoch :: "EpochInfo \<Rightarrow> EpochInfo" where
  "EndEpoch ei = ei\<lparr>CurrentEpoch := wrap64 (CurrentEpoch ei + 1),
     CurrentEpochStartTime := CurrentEpochStartTime ei + Duration ei\<rparr>"

definition EpochInfo_Validate :: "EpochInfo \<Rightarrow> (string, unit) outcome" where
  "EpochInfo_Validate ei =
     (if TrimSpace (Identifier ei) = [] then Err ''epoch identifier cannot be blank''
      else if Duration ei = 0 then Err ''epoch duration cannot be 0''
      else if CurrentEpoch ei < 0 then Err ''current epoch cannot be negative''
      else if CurrentEpochStartHeight ei < 0 then Err ''current epoch start height cannot be negative''
      else Ok ())"

definition ValidateEpochIdentifierString :: "string \<Rightarrow> (string, unit) outcome" where
  "ValidateEpochIdentifierString s = (if TrimSpace s = [] then Err ''blank epoch identifier'' else Ok ())"

subsection \<open>Keeper\<close>

record 'm epoch_hooks =
  hook_AfterEpochEnd :: "string \<Rightarrow> int \<Rightarrow> 'm \<Rightarrow> 'm option"
  hook_BeforeEpochStart :: "string \<Rightarrow> int \<Rightarrow> 'm \<Rightarrow> 'm option"

text \<open>\<open>ep_hooks\<close> is \<^const>\<open>None\<close> as long as no hooks are set: calling them then panics.\<close>

record ('v, 'm) epoch_keeper =
  ep_MustMarshal :: "EpochInfo \<Rightarrow> 'v"
  ep_MustUnmarshal :: "'v \<Rightarrow> EpochInfo option"
  ep_len0 :: "'v \<Rightarrow> bool"
  ep_hooks :: "'m epoch_hooks list option"

record ('v, 'm) ectx =
  estore :: "(string, 'v) fmap"
  emods :: 'm
  eBlockTime :: int
  eBlockHeight :: int

definition ep_SetHooks :: "('v, 'm) epoch_keeper \<Rightarrow> 'm epoch_hooks list \<Rightarrow> ('v, 'm) epoch_keeper option" where
  "ep_SetHooks k eh = (if ep_hooks k \<noteq> None then None else Some (k\<lparr>ep_hooks := Some eh\<rparr>))"

definition GetEpochInfo :: "('v, 'm) epoch_keeper \<Rightarrow> ('v, 'm) ectx \<Rightarrow> string \<Rightarrow> EpochInfo option option" where
  "GetEpochInfo k c identifier =
     (case fmlookup (estore c) identifier of
        None \<Rightarrow> Some None
      | Some bz \<Rightarrow> if ep_len0 k bz then Some None else map_option Some (ep_MustUnmarshal k bz))"

definition SetEpochInfo :: "('v, 'm) epoch_keeper \<Rightarrow> ('v, 'm) ectx \<Rightarrow> EpochInfo \<Rightarrow> ('v, 'm) ectx" where
  "SetEpochInfo k c epoch = c\<lparr>estore := fmupd (Identifier epoch) (ep_MustMarshal k epoch) (estore c)\<rparr>"

definition DeleteEpochInfo :: "('v, 'm) ectx \<Rightarrow> string \<Rightarrow> ('v, 'm) ectx" where
  "DeleteEpochInfo c identifier = c\<lparr>estore := fmdrop identifier (estore c)\<rparr>"

text \<open>
  The iterator visits the entries in the order of their keys; the values are those of the store
  when it was opened. The callback gets the index and says whether to stop.
\<close>

definition epoch_entries :: "('v, 'm) ectx \<Rightarrow> 'v list" where
  "epoch_entries c = map (\<lambda>i. the (fmlookup (estore c) i)) (fm_keys (estore c))"

fun iterate_epochs ::
  "('v, 'm) epoch_keeper \<Rightarrow> (int \<Rightarrow> EpochInfo \<Rightarrow> 's \<Rightarrow> ('s \<times> bool) option) \<Rightarrow> 'v list \<Rightarrow> int \<Rightarrow> 's \<Rightarrow> 's option" where
  "iterate_epochs k fn [] i s = Some s"
| "iterate_epochs k fn (v # vs) i s =
     Option.bind (ep_MustUnmarshal k v) (\<lambda>epoch.
     Option.bind (fn i epoch s) (\<lambda>(s', stop). if stop then Some s' else iterate_epochs k fn vs (i + 1) s'))"

definition IterateEpochInfo ::
  "('v, 'm) epoch_keeper \<Rightarrow> ('v, 'm) ectx \<Rightarrow> (int \<Rightarrow> EpochInfo \<Rightarrow> 's \<Rightarrow> ('s \<times> bool) option) \<Rightarrow> 's \<Rightarrow> 's option" where
  "IterateEpochInfo k c fn s = iterate_epochs k fn (epoch_entries c) 0 s"

definition AllEpochInfos :: "('v, 'm) epoch_keeper \<Rightarrow> ('v, 'm) ectx \<Rightarrow> EpochInfo list option" where
  "AllEpochInfos k c = IterateEpochInfo k c (\<lambda>_ epoch epochs. Some (epochs @ [epoch], False)) []"

fun run_hooks :: "('m epoch_hooks \<Rightarrow> string \<Rightarrow> int \<Rightarrow> 'm \<Rightarrow> 'm option) \<Rightarrow> 'm epoch_hooks list \<Rightarrow> string \<Rightarrow> int \<Rightarrow> 'm \<Rightarrow> 'm option" where
  "run_hooks h [] identifier n m = Some m"
| "run_hooks h (x # xs) identifier n m = Option.bind (h x identifier n m) (run_hooks h xs identifier n)"

definition ep_AfterEpochEnd :: "('v, 'm) epoch_keeper \<Rightarrow> ('v, 'm) ectx \<Rightarrow> string \<Rightarrow> int \<Rightarrow> ('v, 'm) ectx option" where
  "ep_AfterEpochEnd k c identifier n = do {
     hs \<leftarrow> ep_hooks k;
     m \<leftarrow> run_hooks hook_AfterEpochEnd hs identifier n (emods c);
     Some (c\<lparr>emods := m\<rparr>) }"

definition ep_BeforeEpochStart :: "('v, 'm) epoch_keeper \<Rightarrow> ('v, 'm) ectx \<Rightarrow> string \<Rightarrow> int \<Rightarrow> ('v, 'm) ectx option" where
  "ep_BeforeEpochStart k c identifier n = do {
     hs \<leftarrow> ep_hooks k;
     m \<leftarrow> run_hooks hook_BeforeEpochStart hs identifier n (emods c);
     Some (c\<lparr>emods := m\<rparr>) }"

definition shouldInitialEpochStart :: "int \<Rightarrow> EpochInfo \<Rightarrow> bool" where
  "shouldInitialEpochStart t ei = (\<not> EpochCountingStarted ei \<and> \<not> ep_StartTime ei > t)"

definition shouldEpochEnd :: "int \<Rightarrow> EpochInfo \<Rightarrow> bool" where
  "shouldEpochEnd t ei =
     (t > CurrentEpochStartTime ei + Duration ei \<and> \<not> shouldInitialEpochStart t ei \<and> \<not> ep_StartTime ei > t)"

text \<open>The callback of \<open>BeginBlocker\<close> on one epoch.\<close>

definition epoch_callback ::
  "('v, 'm) epoch_keeper \<Rightarrow> EpochInfo \<Rightarrow> ('v, 'm) ectx \<Rightarrow> ('v, 'm) ectx option" where
  "epoch_callback k ei c =
     (let t = eBlockTime c;
          e1 = ei\<lparr>CurrentEpochStartHeight := eBlockHeight c\<rparr>
      in if shouldInitialEpochStart t ei then
           let e2 = StartInitialEpoch e1
           in ep_BeforeEpochStart k (SetEpochInfo k c e2) (Identifier e2) (CurrentEpoch e2)
         else if shouldEpochEnd t ei then
           let e2 = EndEpoch e1
           in Option.bind (ep_AfterEpochEnd k c (Identifier e2) (CurrentEpoch e2)) (\<lambda>c1.
              ep_BeforeEpochStart k (SetEpochInfo k c1 e2) (Identifier e2) (CurrentEpoch e2))
         else Some c)"

definition BeginBlocker :: "('v, 'm) epoch_keeper \<Rightarrow> ('v, 'm) ectx \<Rightarrow> ('v, 'm) ectx option" where
  "BeginBlocker k c = IterateEpochInfo k c (\<lambda>_ ei c'. map_option (\<lambda>d. (d, False)) (epoch_callback k ei c')) c"

definition ep_CurrentEpoch :: "('v, 'm) epoch_keeper \<Rightarrow> ('v, 'm) ectx \<Rightarrow> string \<Rightarrow> (string, int) outcome" where
  "ep_CurrentEpoch k c identifier =
     (case GetEpochInfo k c identifier of
        None \<Rightarrow> Panic
      | Some None \<Rightarrow> Err ''epoch info not found''
      | Some (Some info) \<Rightarrow> Ok (CurrentEpoch info))"

subsection \<open>Genesis\<close>

fun epochs_Validate :: "string set \<Rightarrow> EpochInfo list \<Rightarrow> (string, unit) outcome" where
  "epochs_Validate seen [] = Ok ()"
| "epochs_Validate seen (e # es) =
     (if Identifier e \<in> seen then Err ''duplicated epoch entry''
      else bind_outcome (EpochInfo_Validate e) (\<lambda>_. epochs_Validate (insert (Identifier e) seen) es))"

definition ep_GenesisValidate :: "EpochInfo list \<Rightarrow> (string, unit) outcome" where
  "ep_GenesisValidate epochs = epochs_Validate {} epochs"

text \<open>Go's zero time, 1 January of year 1, in nanoseconds of the Unix epoch.\<close>

definition go_zero_time :: int where
  "go_zero_time = - 62135596800000000000"

abbreviation hour :: int where "hour \<equiv> 3600000000000"

definition DefaultGenesisState :: "EpochInfo list" where
  "DefaultGenesisState =
     [\<lparr>Identifier = ''week'', ep_StartTime = go_zero_time, Duration = hour * 24 * 7, CurrentEpoch = 0,
       CurrentEpochStartTime = go_zero_time, EpochCountingStarted = False, CurrentEpochStartHeight = 0\<rparr>,
      \<lparr>Identifier = ''day'', ep_StartTime = go_zero_time, Duration = hour * 24, CurrentEpoch = 0,
       CurrentEpochStartTime = go_zero_time, EpochCountingStarted = False, CurrentEpochStartHeight = 0\<rparr>]"

definition genesis_epoch :: "('v, 'm) ectx \<Rightarrow> EpochInfo \<Rightarrow> EpochInfo" where
  "genesis_epoch c epoch =
     (if ep_StartTime epoch = go_zero_time then epoch\<lparr>ep_StartTime := eBlockTime c\<rparr> else epoch)
       \<lparr>CurrentEpochStartHeight := eBlockHeight c\<rparr>"

definition ep_InitGenesis :: "('v, 'm) epoch_keeper \<Rightarrow> ('v, 'm) ectx \<Rightarrow> EpochInfo list \<Rightarrow> ('v, 'm) ectx" where
  "ep_InitGenesis k c epochs = foldl (\<lambda>c' e. SetEpochInfo k c' (genesis_epoch c' e)) c epochs"

definition ep_ExportGenesis :: "('v, 'm) epoch_keeper \<Rightarrow> ('v, 'm) ectx \<Rightarrow> EpochInfo list option" where
  "ep_ExportGenesis k c = AllEpochInfos k c"

end
