(* ===== verification/Epochs_Laws.thy ===== *)
theory Epochs_Laws
  imports Epochs "HOL-Library.Multiset"
begin

text \<open>
  What a block does to the epochs: each of them makes one step of its timer, independently of
  the others, and the hooks run. The locale \<open>epoch_codec\<close> has the codec's law, that decoding gives
  back what was encoded. Over any sequence of blocks the start of an epoch stays aligned with
  the start time and the duration, and a timer that is behind catches up.
\<close>

text \<open>One step of a timer in a block at time \<open>t\<close> and height \<open>h\<close>.\<close>

definition tick :: "int \<Rightarrow> int \<Rightarrow> EpochInfo \<Rightarrow> EpochInfo" where
  "tick t h e =
     (if shouldInitialEpochStart t e then StartInitialEpoch (e\<lparr>CurrentEpochStartHeight := h\<rparr>)
      else if shouldEpochEnd t e then EndEpoch (e\<lparr>CurrentEpochStartHeight := h\<rparr>)
      else e)"

lemma tick_keeps [simp]:
  "Identifier (tick t h e) = Identifier e" "ep_StartTime (tick t h e) = ep_StartTime e" "Duration (tick t h e) = Duration e"
  by (simp_all add: tick_def StartInitialEpoch_def EndEpoch_def)

text \<open>The blocks of a chain: their times and heights.\<close>

fun run_blocks :: "('v, 'm) epoch_keeper \<Rightarrow> (int \<times> int) list \<Rightarrow> ('v, 'm) ectx \<Rightarrow> ('v, 'm) ectx option" where
  "run_blocks k [] c = Some c"
| "run_blocks k ((t, h) # bs) c =
     Option.bind (BeginBlocker k (c\<lparr>eBlockTime := t, eBlockHeight := h\<rparr>)) (run_blocks k bs)"

fun tick_blocks :: "(int \<times> int) list \<Rightarrow> EpochInfo \<Rightarrow> EpochInfo" where
  "tick_blocks [] e = e"
| "tick_blocks ((t, h) # bs) e = tick_blocks bs (tick t h e)"

text \<open>A store that holds encoded epochs under their identifiers.\<close>

definition epochs_stored :: "('v, 'm) epoch_keeper \<Rightarrow> ('v, 'm) ectx \<Rightarrow> bool" where
  "epochs_stored k c \<longleftrightarrow> (\<forall>i v. fmlookup (estore c) i = Some v \<longrightarrow> (\<exists>e. v = ep_MustMarshal k e \<and> Identifier e = i))"

definition hooks_return :: "('v, 'm) epoch_keeper \<Rightarrow> bool" where
  "hooks_return k \<longleftrightarrow> (\<exists>hs. ep_hooks k = Some hs \<and>
     (\<forall>x \<in> set hs. \<forall>i n m. hook_AfterEpochEnd x i n m \<noteq> None \<and> hook_BeforeEpochStart x i n m \<noteq> None))"

locale epoch_codec =
  fixes k :: "('v, 'm) epoch_keeper"
  assumes unmarshal_marshal [simp]: "ep_MustUnmarshal k (ep_MustMarshal k e) = Some e"
    and marshal_nonempty [simp]: "\<not> ep_len0 k (ep_MustMarshal k e)"
begin

lemma marshal_inject [simp]: "ep_MustMarshal k e = ep_MustMarshal k f \<longleftrightarrow> e = f"
  by (metis option.inject unmarshal_marshal)

lemma GetEpochInfo_stored:
  "epochs_stored k c \<Longrightarrow> GetEpochInfo k c i = Some (Some e) \<longleftrightarrow> fmlookup (estore c) i = Some (ep_MustMarshal k e)"
  by (cases "fmlookup (estore c) i") (auto simp: GetEpochInfo_def epochs_stored_def, metis option.inject unmarshal_marshal)

lemma GetEpochInfo_total: "epochs_stored k c \<Longrightarrow> \<exists>x. GetEpochInfo k c i = Some x"
  by (force simp: GetEpochInfo_def epochs_stored_def split: option.splits)

lemma hooks_frame:
  "ep_AfterEpochEnd k c i n = Some c' \<Longrightarrow> estore c' = estore c \<and> eBlockTime c' = eBlockTime c \<and> eBlockHeight c' = eBlockHeight c"
  "ep_BeforeEpochStart k c i n = Some c' \<Longrightarrow> estore c' = estore c \<and> eBlockTime c' = eBlockTime c \<and> eBlockHeight c' = eBlockHeight c"
  by (auto simp: ep_AfterEpochEnd_def ep_BeforeEpochStart_def split: bind_splits)

lemma epoch_callback_effect:
  assumes "epoch_callback k e c = Some c'" "fmlookup (estore c) (Identifier e) = Some (ep_MustMarshal k e)"
  shows "eBlockTime c' = eBlockTime c \<and> eBlockHeight c' = eBlockHeight c \<and>
    (\<forall>i. fmlookup (estore c') i =
       (if i = Identifier e then Some (ep_MustMarshal k (tick (eBlockTime c) (eBlockHeight c) e)) else fmlookup (estore c) i))"
  using assms
  by (auto simp: epoch_callback_def Let_def tick_def SetEpochInfo_def StartInitialEpoch_def EndEpoch_def
      split: if_splits bind_splits dest!: hooks_frame)

lemma iterate_effect:
  assumes "iterate_epochs k (\<lambda>_ ei c'. map_option (\<lambda>d. (d, False)) (epoch_callback k ei c')) (map (ep_MustMarshal k) es) j c = Some c'"
    "distinct (map Identifier es)" "\<And>e. e \<in> set es \<Longrightarrow> fmlookup (estore c) (Identifier e) = Some (ep_MustMarshal k e)"
  shows "eBlockTime c' = eBlockTime c \<and> eBlockHeight c' = eBlockHeight c \<and>
    (\<forall>e \<in> set es. fmlookup (estore c') (Identifier e) = Some (ep_MustMarshal k (tick (eBlockTime c) (eBlockHeight c) e))) \<and>
    (\<forall>i. i \<notin> Identifier ` set es \<longrightarrow> fmlookup (estore c') i = fmlookup (estore c) i)"
  using assms
proof (induction es arbitrary: c j)
  case (Cons e es)
  from Cons.prems(1) obtain d where d: "epoch_callback k e c = Some d"
    "iterate_epochs k (\<lambda>_ ei c'. map_option (\<lambda>d. (d, False)) (epoch_callback k ei c')) (map (ep_MustMarshal k) es) (j + 1) d = Some c'"
    by (auto split: bind_splits)
  note eff = epoch_callback_effect [OF d(1) Cons.prems(3) [of e]]
  have "fmlookup (estore d) (Identifier f) = Some (ep_MustMarshal k f)" if "f \<in> set es" for f
    using eff that Cons.prems(2,3) by (auto simp: image_iff)
  with Cons.IH [OF d(2)] Cons.prems(2) eff show ?case by auto
qed simp

text \<open>The stored epochs in the order of their identifiers.\<close>

lemma entries_stored:
  assumes "epochs_stored k c"
  obtains es where "epoch_entries c = map (ep_MustMarshal k) es" "map Identifier es = fm_keys (estore c)"
    "\<forall>e. e \<in> set es \<longleftrightarrow> fmlookup (estore c) (Identifier e) = Some (ep_MustMarshal k e)"
proof -
  define get where "get i = (SOME e. fmlookup (estore c) i = Some (ep_MustMarshal k e) \<and> Identifier e = i)" for i
  have get: "fmlookup (estore c) i = Some (ep_MustMarshal k (get i)) \<and> Identifier (get i) = i" if dom: "i |\<in>| fmdom (estore c)" for i
  proof -
    obtain v where v: "fmlookup (estore c) i = Some v"
      using dom by (metis fmlookup_dom_iff)
    then have "\<exists>e. fmlookup (estore c) i = Some (ep_MustMarshal k e) \<and> Identifier e = i"
      using assms unfolding epochs_stored_def by blast
    then show ?thesis unfolding get_def by (rule someI_ex)
  qed
  have keys: "i \<in> set (fm_keys (estore c)) \<longleftrightarrow> i |\<in>| fmdom (estore c)" for i by simp
  have e: "e \<in> get ` set (fm_keys (estore c)) \<longleftrightarrow> fmlookup (estore c) (Identifier e) = Some (ep_MustMarshal k e)" for e
  proof
    assume "e \<in> get ` set (fm_keys (estore c))"
    then obtain i where "i |\<in>| fmdom (estore c)" "e = get i" using keys by blast
    then show "fmlookup (estore c) (Identifier e) = Some (ep_MustMarshal k e)" using get [of i] by simp
  next
    assume look: "fmlookup (estore c) (Identifier e) = Some (ep_MustMarshal k e)"
    then have dom: "Identifier e |\<in>| fmdom (estore c)" by (rule fmdomI)
    then have "e = get (Identifier e)" using get [OF dom] look by simp
    then show "e \<in> get ` set (fm_keys (estore c))" using dom keys by blast
  qed
  have "map (\<lambda>i. the (fmlookup (estore c) i)) (fm_keys (estore c)) = map (\<lambda>i. ep_MustMarshal k (get i)) (fm_keys (estore c))"
    using get keys by (intro map_cong refl) simp
  moreover have "map (\<lambda>i. Identifier (get i)) (fm_keys (estore c)) = fm_keys (estore c)"
    using get keys by (intro map_idI) simp
  ultimately show ?thesis
    using e by (intro that [of "map get (fm_keys (estore c))"]) (simp_all only: epoch_entries_def map_map comp_def list.set_map, simp)
qed

lemma BeginBlocker_effect:
  assumes "epochs_stored k c" "BeginBlocker k c = Some c'"
  shows "epochs_stored k c'" "eBlockTime c' = eBlockTime c" "eBlockHeight c' = eBlockHeight c"
    "fmlookup (estore c') i = Some (ep_MustMarshal k e') \<longleftrightarrow>
       (\<exists>e. fmlookup (estore c) i = Some (ep_MustMarshal k e) \<and> Identifier e = i \<and> e' = tick (eBlockTime c) (eBlockHeight c) e)"
proof -
  obtain es where es: "epoch_entries c = map (ep_MustMarshal k) es" "map Identifier es = fm_keys (estore c)"
    "\<forall>e. e \<in> set es \<longleftrightarrow> fmlookup (estore c) (Identifier e) = Some (ep_MustMarshal k e)"
    by (rule entries_stored [OF assms(1)])
  let ?t = "tick (eBlockTime c) (eBlockHeight c)"
  have it: "eBlockTime c' = eBlockTime c" "eBlockHeight c' = eBlockHeight c"
    "\<And>e. e \<in> set es \<Longrightarrow> fmlookup (estore c') (Identifier e) = Some (ep_MustMarshal k (?t e))"
    "\<And>i. i \<notin> Identifier ` set es \<Longrightarrow> fmlookup (estore c') i = fmlookup (estore c) i"
    using iterate_effect [of es 0 c c'] assms(2) es by (auto simp: BeginBlocker_def IterateEpochInfo_def)
  have ids: "Identifier ` set es = fset (fmdom (estore c))" using es(2) by (metis list.set_map set_fm_keys)
  have look: "fmlookup (estore c') i = Some v \<longleftrightarrow> (\<exists>e \<in> set es. Identifier e = i \<and> v = ep_MustMarshal k (?t e))" for i v
  proof (cases "i \<in> Identifier ` set es")
    case True
    then obtain e where "e \<in> set es" "i = Identifier e" by blast
    moreover have "f = e" if "f \<in> set es" "Identifier f = Identifier e" for f
      using es(3) that \<open>e \<in> set es\<close> by simp
    ultimately show ?thesis using it(3) by auto
  next
    case False
    then show ?thesis using it(4) [OF False] ids by (auto simp: fmdom_notI fmdom_notD)
  qed
  show "epochs_stored k c'" by (auto simp: epochs_stored_def look)
  show "eBlockTime c' = eBlockTime c" "eBlockHeight c' = eBlockHeight c" using it by auto
  show "fmlookup (estore c') i = Some (ep_MustMarshal k e') \<longleftrightarrow>
       (\<exists>e. fmlookup (estore c) i = Some (ep_MustMarshal k e) \<and> Identifier e = i \<and> e' = ?t e)"
    using es(3) by (auto simp: look)
qed

lemma run_hooks_total:
  "(\<And>x. x \<in> set hs \<Longrightarrow> \<forall>i n m. h x i n m \<noteq> None) \<Longrightarrow> \<exists>m'. run_hooks h hs i n m = Some m'"
  by (induction hs arbitrary: m) (auto split: bind_splits)

lemma hooks_total:
  assumes "hooks_return k"
  shows "\<exists>c'. ep_AfterEpochEnd k c i n = Some c'" "\<exists>c'. ep_BeforeEpochStart k c i n = Some c'"
proof -
  obtain hs where hs: "ep_hooks k = Some hs"
    "\<And>x. x \<in> set hs \<Longrightarrow> \<forall>i n m. hook_AfterEpochEnd x i n m \<noteq> None" "\<And>x. x \<in> set hs \<Longrightarrow> \<forall>i n m. hook_BeforeEpochStart x i n m \<noteq> None"
    using assms by (auto simp: hooks_return_def)
  then show "\<exists>c'. ep_AfterEpochEnd k c i n = Some c'" "\<exists>c'. ep_BeforeEpochStart k c i n = Some c'"
    using run_hooks_total [of hs hook_AfterEpochEnd i n "emods c"] run_hooks_total [of hs hook_BeforeEpochStart i n "emods c"]
    by (auto simp: ep_AfterEpochEnd_def ep_BeforeEpochStart_def)
qed

lemma epoch_callback_total:
  assumes "hooks_return k"
  shows "\<exists>c'. epoch_callback k e c = Some c'"
proof -
  let ?e = "EndEpoch (e\<lparr>CurrentEpochStartHeight := eBlockHeight c\<rparr>)"
  obtain d where "ep_AfterEpochEnd k c (Identifier ?e) (CurrentEpoch ?e) = Some d" using hooks_total(1) [OF assms] by blast
  then show ?thesis using hooks_total(2) [OF assms] by (simp add: epoch_callback_def Let_def)
qed

lemma iterate_total:
  assumes "hooks_return k"
  shows "\<exists>c'. iterate_epochs k (\<lambda>_ ei c'. map_option (\<lambda>d. (d, False)) (epoch_callback k ei c')) (map (ep_MustMarshal k) es) j c = Some c'"
proof (induction es arbitrary: c j)
  case (Cons e es)
  obtain d where "epoch_callback k e c = Some d" using epoch_callback_total [OF assms] by blast
  then show ?case using Cons by simp
qed simp

lemma BeginBlocker_total:
  assumes "hooks_return k" "epochs_stored k c"
  shows "\<exists>c'. BeginBlocker k c = Some c'"
  using iterate_total [OF assms(1)] entries_stored [OF assms(2)]
  by (simp add: BeginBlocker_def IterateEpochInfo_def) metis

lemma run_blocks_effect:
  "epochs_stored k c \<Longrightarrow> run_blocks k bs c = Some c' \<Longrightarrow>
    epochs_stored k c' \<and> (\<forall>i e'. fmlookup (estore c') i = Some (ep_MustMarshal k e') \<longleftrightarrow>
      (\<exists>e. fmlookup (estore c) i = Some (ep_MustMarshal k e) \<and> Identifier e = i \<and> e' = tick_blocks bs e))"
proof (induction bs arbitrary: c)
  case Nil
  have "Identifier e = i" if "fmlookup (estore c) i = Some (ep_MustMarshal k e)" for i e
    using Nil.prems(1) that marshal_inject unfolding epochs_stored_def by metis
  with Nil show ?case by auto
next
  case (Cons b bs)
  obtain t h where b: "b = (t, h)" by (cases b)
  let ?c = "c\<lparr>eBlockTime := t, eBlockHeight := h\<rparr>"
  have st: "epochs_stored k ?c" using Cons.prems(1) by (simp add: epochs_stored_def)
  obtain d where d: "BeginBlocker k ?c = Some d" "run_blocks k bs d = Some c'"
    using Cons.prems(2) b by (auto split: bind_splits)
  note eff = BeginBlocker_effect [OF st d(1)]
  show ?case using Cons.IH [OF eff(1) d(2)] eff(4) b by auto
qed

lemma run_blocks_total:
  "hooks_return k \<Longrightarrow> epochs_stored k c \<Longrightarrow> \<exists>c'. run_blocks k bs c = Some c'"
proof (induction bs arbitrary: c)
  case (Cons b bs)
  obtain t h where b: "b = (t, h)" by (cases b)
  let ?c = "c\<lparr>eBlockTime := t, eBlockHeight := h\<rparr>"
  have st: "epochs_stored k ?c" using Cons.prems(2) by (simp add: epochs_stored_def)
  obtain d where "BeginBlocker k ?c = Some d" using BeginBlocker_total [OF Cons.prems(1) st] by blast
  then show ?case using Cons.IH [OF Cons.prems(1) BeginBlocker_effect(1) [OF st]] b by simp
qed simp

end

subsection \<open>A single timer over the blocks\<close>

text \<open>
  Once started, the epoch began a whole number of durations after the start time, and the
  counter is that number plus one, as far as 64 bits can tell.
\<close>

definition aligned :: "EpochInfo \<Rightarrow> bool" where
  "aligned e \<longleftrightarrow> (EpochCountingStarted e \<longrightarrow>
     (\<exists>n \<ge> 0. CurrentEpoch e = wrap64 (1 + n) \<and> CurrentEpochStartTime e = ep_StartTime e + n * Duration e))"

lemma wrap64_add_wrap: "wrap64 (wrap64 x + y) = wrap64 (x + y)"
proof -
  have "((x + 9223372036854775808) mod 18446744073709551616 - 9223372036854775808 + y + 9223372036854775808) mod 18446744073709551616
      = ((x + 9223372036854775808) mod 18446744073709551616 + y) mod 18446744073709551616" by simp
  also have "\<dots> = (x + 9223372036854775808 + y) mod 18446744073709551616" by (rule mod_add_left_eq)
  finally show ?thesis by (simp add: wrap64_def add_ac)
qed

lemma aligned_tick: "aligned e \<Longrightarrow> aligned (tick t h e)"
proof -
  assume al: "aligned e"
  consider "shouldInitialEpochStart t e" | "\<not> shouldInitialEpochStart t e" "shouldEpochEnd t e"
    | "\<not> shouldInitialEpochStart t e" "\<not> shouldEpochEnd t e" by blast
  then show ?thesis
  proof cases
    case 1
    then show ?thesis by (simp add: aligned_def tick_def StartInitialEpoch_def) (intro exI [of _ 0], simp)
  next
    case 2
    then have "EpochCountingStarted e" by (simp add: shouldEpochEnd_def shouldInitialEpochStart_def)
    then obtain n where "0 \<le> n" "CurrentEpoch e = wrap64 (1 + n)" "CurrentEpochStartTime e = ep_StartTime e + n * Duration e"
      using al by (auto simp: aligned_def)
    then show ?thesis using 2
      by (simp add: aligned_def tick_def EndEpoch_def wrap64_add_wrap)
        (intro impI exI [of _ "n + 1"], simp add: algebra_simps)
  next
    case 3
    with al show ?thesis by (simp add: tick_def)
  qed
qed

lemma aligned_blocks: "aligned e \<Longrightarrow> aligned (tick_blocks bs e)"
  by (induction bs arbitrary: e) (auto simp: aligned_tick)

lemma tick_blocks_keeps [simp]:
  "Identifier (tick_blocks bs e) = Identifier e" "ep_StartTime (tick_blocks bs e) = ep_StartTime e"
  "Duration (tick_blocks bs e) = Duration e"
  by (induction bs arbitrary: e) auto

text \<open>How far the end of the current epoch may be behind a time.\<close>

lemma tick_progress:
  assumes "EpochCountingStarted e" "0 < Duration e" "ep_StartTime e \<le> T" "T \<le> t"
  shows "EpochCountingStarted (tick t h e)" "CurrentEpochStartTime e \<le> CurrentEpochStartTime (tick t h e)"
    "CurrentEpochStartTime e + Duration e < T \<Longrightarrow> CurrentEpochStartTime (tick t h e) = CurrentEpochStartTime e + Duration e"
  using assms by (auto simp: tick_def shouldInitialEpochStart_def shouldEpochEnd_def EndEpoch_def)

lemma blocks_catch_up:
  "EpochCountingStarted e \<Longrightarrow> 0 < Duration e \<Longrightarrow> ep_StartTime e \<le> T \<Longrightarrow> list_all (\<lambda>(t, h). T \<le> t) bs \<Longrightarrow>
    T - (CurrentEpochStartTime e + Duration e) \<le> int (length bs) * Duration e \<Longrightarrow>
    T \<le> CurrentEpochStartTime (tick_blocks bs e) + Duration e"
proof (induction bs arbitrary: e)
  case (Cons b bs)
  obtain t h where b: "b = (t, h)" by (cases b)
  have "T \<le> t" using Cons.prems(4) b by simp
  note tk = tick_progress [OF Cons.prems(1-3) this, of h]
  have "T - (CurrentEpochStartTime (tick t h e) + Duration e) \<le> int (length bs) * Duration e"
  proof (cases "CurrentEpochStartTime e + Duration e < T")
    case True
    then show ?thesis using tk(3) Cons.prems(5) by (simp add: algebra_simps)
  next
    case False
    moreover have "0 \<le> int (length bs) * Duration e" using Cons.prems(2) by simp
    ultimately show ?thesis using tk(2) by linarith
  qed
  then show ?case using Cons.IH [of "tick t h e"] tk(1) Cons.prems(2-4) b by simp
qed simp

subsection \<open>Genesis\<close>

lemma epochs_Validate_iff:
  "epochs_Validate seen es = Ok () \<longleftrightarrow>
     distinct (map Identifier es) \<and> Identifier ` set es \<inter> seen = {} \<and> (\<forall>e \<in> set es. EpochInfo_Validate e = Ok ())"
  by (induction es arbitrary: seen) auto

lemma genesis_epoch_simps [simp]: "Identifier (genesis_epoch c e) = Identifier e"
  by (simp add: genesis_epoch_def)

lemma genesis_epoch_cong: "eBlockTime c' = eBlockTime c \<Longrightarrow> eBlockHeight c' = eBlockHeight c \<Longrightarrow> genesis_epoch c' = genesis_epoch c"
  by (simp add: genesis_epoch_def fun_eq_iff)

lemma InitGenesis_frame: "eBlockTime (ep_InitGenesis k c es) = eBlockTime c" "eBlockHeight (ep_InitGenesis k c es) = eBlockHeight c"
  by (induction es rule: rev_induct) (simp_all add: ep_InitGenesis_def SetEpochInfo_def)

lemma InitGenesis_lookup:
  "distinct (map Identifier es) \<Longrightarrow> estore c = fmempty \<Longrightarrow>
    fmlookup (estore (ep_InitGenesis k c es)) i = Some v \<longleftrightarrow>
      (\<exists>e \<in> set es. Identifier e = i \<and> v = ep_MustMarshal k (genesis_epoch c e))"
proof (induction es rule: rev_induct)
  case (snoc e es)
  let ?c = "ep_InitGenesis k c es"
  have "genesis_epoch ?c = genesis_epoch c" by (rule genesis_epoch_cong) (simp_all add: InitGenesis_frame)
  moreover have "ep_InitGenesis k c (es @ [e]) = SetEpochInfo k ?c (genesis_epoch ?c e)" by (simp add: ep_InitGenesis_def)
  ultimately have "estore (ep_InitGenesis k c (es @ [e])) = fmupd (Identifier e) (ep_MustMarshal k (genesis_epoch c e)) (estore ?c)"
    by (simp add: SetEpochInfo_def)
  then have new: "fmlookup (estore (ep_InitGenesis k c (es @ [e]))) i =
      (if i = Identifier e then Some (ep_MustMarshal k (genesis_epoch c e)) else fmlookup (estore ?c) i)" by simp
  have IH: "fmlookup (estore ?c) i = Some v \<longleftrightarrow> (\<exists>e \<in> set es. Identifier e = i \<and> v = ep_MustMarshal k (genesis_epoch c e))"
    using snoc by simp
  have fresh: "Identifier f \<noteq> Identifier e" if "f \<in> set es" for f
    using snoc.prems(1) imageI [OF that, of Identifier] by auto
  show ?case by (cases "i = Identifier e") (use new IH fresh in auto)
qed (simp add: ep_InitGenesis_def)

context epoch_codec
begin

lemma AllEpochInfos_stored:
  assumes "epochs_stored k c"
  obtains es where "AllEpochInfos k c = Some es" "sorted (map Identifier es)" "distinct (map Identifier es)"
    "\<forall>e. e \<in> set es \<longleftrightarrow> fmlookup (estore c) (Identifier e) = Some (ep_MustMarshal k e)"
proof -
  obtain es where es: "epoch_entries c = map (ep_MustMarshal k) es" "map Identifier es = fm_keys (estore c)"
    "\<forall>e. e \<in> set es \<longleftrightarrow> fmlookup (estore c) (Identifier e) = Some (ep_MustMarshal k e)"
    by (rule entries_stored [OF assms])
  have "iterate_epochs k (\<lambda>_ epoch epochs. Some (epochs @ [epoch], False)) (map (ep_MustMarshal k) xs) j acc = Some (acc @ xs)"
    for xs j acc by (induction xs arbitrary: j acc) auto
  then have "AllEpochInfos k c = Some es" by (simp add: AllEpochInfos_def IterateEpochInfo_def es(1))
  moreover have "sorted (map Identifier es)" "distinct (map Identifier es)" using es(2) by simp_all
  ultimately show ?thesis using es(3) that by blast
qed

lemma InitGenesis_stored:
  "distinct (map Identifier es) \<Longrightarrow> estore c = fmempty \<Longrightarrow> epochs_stored k (ep_InitGenesis k c es)"
  by (auto simp: epochs_stored_def InitGenesis_lookup)

lemma genesis_export:
  assumes "ep_GenesisValidate es = Ok ()" "estore c = fmempty"
  shows "\<exists>es'. ep_ExportGenesis k (ep_InitGenesis k c es) = Some es' \<and> sorted (map Identifier es') \<and>
    mset es' = mset (map (genesis_epoch c) es)"
proof -
  have d: "distinct (map Identifier es)" using assms(1) by (simp add: ep_GenesisValidate_def epochs_Validate_iff)
  obtain es' where es': "AllEpochInfos k (ep_InitGenesis k c es) = Some es'" "sorted (map Identifier es')" "distinct (map Identifier es')"
    "\<forall>e. e \<in> set es' \<longleftrightarrow> fmlookup (estore (ep_InitGenesis k c es)) (Identifier e) = Some (ep_MustMarshal k e)"
    by (rule AllEpochInfos_stored [OF InitGenesis_stored [OF d assms(2)]])
  have "map Identifier (map (genesis_epoch c) es) = map Identifier es" by simp
  then have "distinct (map (genesis_epoch c) es)" using d by (metis distinct_map)
  moreover have "distinct es'" using es'(3) by (simp add: distinct_map)
  moreover have "set es' = set (map (genesis_epoch c) es)"
    using es'(4) InitGenesis_lookup [OF d assms(2)] by auto
  ultimately have "mset es' = mset (map (genesis_epoch c) es)" by (simp only: set_eq_iff_mset_eq_distinct)
  then show ?thesis using es' by (auto simp: ep_ExportGenesis_def)
qed

lemma blocks_aligned:
  assumes "ep_GenesisValidate es = Ok ()" "estore c = fmempty" "\<And>e. e \<in> set es \<Longrightarrow> \<not> EpochCountingStarted e"
    "run_blocks k bs (ep_InitGenesis k c es) = Some c'" "GetEpochInfo k c' i = Some (Some e')"
  shows "aligned e'"
proof -
  have d: "distinct (map Identifier es)" using assms(1) by (simp add: ep_GenesisValidate_def epochs_Validate_iff)
  note st = InitGenesis_stored [OF d assms(2)]
  note eff = run_blocks_effect [OF st assms(4)]
  obtain e where e: "fmlookup (estore (ep_InitGenesis k c es)) i = Some (ep_MustMarshal k e)" "e' = tick_blocks bs e"
    using eff assms(5) GetEpochInfo_stored by blast
  then obtain f where "f \<in> set es" "e = genesis_epoch c f"
    using InitGenesis_lookup [OF d assms(2), of k i "ep_MustMarshal k e"] by auto
  then have "aligned e" using assms(3) by (simp add: aligned_def genesis_epoch_def)
  then show ?thesis using e(2) by (simp add: aligned_blocks)
qed

lemma block_step:
  assumes "hooks_return k" "epochs_stored k c"
  shows "\<exists>c'. BeginBlocker k c = Some c' \<and> epochs_stored k c' \<and>
    (\<forall>i e. GetEpochInfo k c i = Some (Some e) \<longrightarrow> GetEpochInfo k c' i = Some (Some (tick (eBlockTime c) (eBlockHeight c) e))) \<and>
    (\<forall>i. GetEpochInfo k c i = Some None \<longrightarrow> GetEpochInfo k c' i = Some None)"
proof -
  obtain c' where c': "BeginBlocker k c = Some c'" using BeginBlocker_total [OF assms] by blast
  note eff = BeginBlocker_effect [OF assms(2) c']
  have id: "Identifier e = i" if "fmlookup (estore c) i = Some (ep_MustMarshal k e)" for i e
    using assms(2) that marshal_inject unfolding epochs_stored_def by metis
  have "GetEpochInfo k c' i = Some (Some (tick (eBlockTime c) (eBlockHeight c) e))" if "GetEpochInfo k c i = Some (Some e)" for i e
    using that eff(4) id by (simp add: GetEpochInfo_stored [OF eff(1)] GetEpochInfo_stored [OF assms(2)])
  moreover have "GetEpochInfo k c' i = Some None" if none: "GetEpochInfo k c i = Some None" for i
  proof -
    have "GetEpochInfo k c' i \<noteq> Some (Some e)" for e
      using none eff(4) GetEpochInfo_stored [OF eff(1)] GetEpochInfo_stored [OF assms(2)] by (metis option.distinct(1) option.inject)
    then show ?thesis using GetEpochInfo_total [OF eff(1), of i] by (metis not_None_eq option.exhaust)
  qed
  ultimately show ?thesis using c' eff(1) by blast
qed

lemma blocks_reach:
  assumes "hooks_return k" "epochs_stored k c" "GetEpochInfo k c i = Some (Some e)" "EpochCountingStarted e" "0 < Duration e"
    "ep_StartTime e \<le> T" "list_all (\<lambda>(t, h). T \<le> t) bs"
    "T - (CurrentEpochStartTime e + Duration e) \<le> int (length bs) * Duration e"
  shows "\<exists>c' e'. run_blocks k bs c = Some c' \<and> GetEpochInfo k c' i = Some (Some e') \<and>
    T \<le> CurrentEpochStartTime e' + Duration e'"
proof -
  obtain c' where c': "run_blocks k bs c = Some c'" using run_blocks_total [OF assms(1,2)] by blast
  note eff = run_blocks_effect [OF assms(2) c']
  have look: "fmlookup (estore c) i = Some (ep_MustMarshal k e)" using assms(3) GetEpochInfo_stored [OF assms(2)] by blast
  then have "Identifier e = i" using assms(2) marshal_inject unfolding epochs_stored_def by metis
  then have "GetEpochInfo k c' i = Some (Some (tick_blocks bs e))" using eff look by (simp add: GetEpochInfo_stored)
  then show ?thesis using c' blocks_catch_up [OF assms(4-8)] by auto
qed

end

subsection \<open>A keeper that logs its hooks\<close>

text \<open>Epochs stored as they are, with one hook that records its calls: \<^const>\<open>True\<close> for the end of an epoch.\<close>

type_synonym hook_log = "(bool \<times> string \<times> int) list"

definition log_keeper :: "(EpochInfo, hook_log) epoch_keeper" where
  "log_keeper = \<lparr>ep_MustMarshal = id, ep_MustUnmarshal = Some, ep_len0 = (\<lambda>_. False),
     ep_hooks = Some [\<lparr>hook_AfterEpochEnd = (\<lambda>i n m. Some (m @ [(True, i, n)])),
       hook_BeforeEpochStart = (\<lambda>i n m. Some (m @ [(False, i, n)]))\<rparr>]\<rparr>"

interpretation log_keeper: epoch_codec log_keeper
  by unfold_locales (simp_all add: log_keeper_def)

lemma log_hooks_return: "hooks_return log_keeper"
  by (simp add: hooks_return_def log_keeper_def)

definition chain_start :: "(EpochInfo, hook_log) ectx" where
  "chain_start = \<lparr>estore = fmempty, emods = [], eBlockTime = 1700000000000000000, eBlockHeight = 1\<rparr>"

abbreviation default_chain :: "(EpochInfo, hook_log) ectx" where
  "default_chain \<equiv> ep_InitGenesis log_keeper chain_start DefaultGenesisState"

lemma default_valid: "ep_GenesisValidate DefaultGenesisState = Ok ()"
  by code_simp

lemma default_not_started: "e \<in> set DefaultGenesisState \<Longrightarrow> \<not> EpochCountingStarted e"
  by (auto simp: DefaultGenesisState_def)

lemma default_stored: "epochs_stored log_keeper default_chain"
  by (rule log_keeper.InitGenesis_stored) (simp_all add: DefaultGenesisState_def chain_start_def)

subsection \<open>Properties\<close>

text \<open>A block makes every stored epoch take one step of its own timer, and nothing else: it starts
  at its start time, ends once the block time is past its end, and otherwise stays as it is, in
  all its fields. No other identifier appears. This holds whatever the hooks do, as long as
  they are set and return.\<close>
theorem begin_block_ticks:
  assumes "epoch_codec k" "hooks_return k" "epochs_stored k c"
  shows "\<exists>c'. BeginBlocker k c = Some c' \<and> epochs_stored k c' \<and>
    (\<forall>i e. GetEpochInfo k c i = Some (Some e) \<longrightarrow> GetEpochInfo k c' i = Some (Some (tick (eBlockTime c) (eBlockHeight c) e))) \<and>
    (\<forall>i. GetEpochInfo k c i = Some None \<longrightarrow> GetEpochInfo k c' i = Some None)"
  by (rule epoch_codec.block_step [OF assms])

theorem begin_block_ticks_witness:
  "\<exists>c'. BeginBlocker log_keeper default_chain = Some c' \<and> epochs_stored log_keeper c'"
  using begin_block_ticks [OF log_keeper.epoch_codec_axioms log_hooks_return default_stored] by blast

text \<open>C16. From a valid genesis with epochs not yet started, over any blocks, an epoch that has started
  always began a whole number \<open>n\<close> of durations after the start time, and its counter is \<open>n + 1\<close>
  (in 64 bits): the timers never drift, however late the blocks are.\<close>
theorem epochs_never_drift:
  assumes "epoch_codec k" "ep_GenesisValidate es = Ok ()" "estore c = fmempty" "\<And>e. e \<in> set es \<Longrightarrow> \<not> EpochCountingStarted e"
    "run_blocks k bs (ep_InitGenesis k c es) = Some c'" "GetEpochInfo k c' i = Some (Some e')" "EpochCountingStarted e'"
  shows "\<exists>n \<ge> 0. CurrentEpoch e' = wrap64 (1 + n) \<and> CurrentEpochStartTime e' = ep_StartTime e' + n * Duration e'"
  using epoch_codec.blocks_aligned [OF assms(1-6)] assms(7) by (simp add: aligned_def)

theorem epochs_never_drift_witness:
  "\<exists>c' e'. run_blocks log_keeper [(1700000000000000000, 2), (1700100000000000000, 3)] default_chain = Some c' \<and>
    GetEpochInfo log_keeper c' ''day'' = Some (Some e') \<and>
    (\<exists>n \<ge> 0. CurrentEpoch e' = wrap64 (1 + n) \<and> CurrentEpochStartTime e' = ep_StartTime e' + n * Duration e')"
proof -
  let ?r = "run_blocks log_keeper [(1700000000000000000, 2), (1700100000000000000, 3)] default_chain"
  have "case ?r of Some c' \<Rightarrow> (case GetEpochInfo log_keeper c' ''day'' of Some (Some e) \<Rightarrow> EpochCountingStarted e | _ \<Rightarrow> False) | None \<Rightarrow> False"
    by code_simp
  then obtain c' e' where r: "?r = Some c'" "GetEpochInfo log_keeper c' ''day'' = Some (Some e')" "EpochCountingStarted e'"
    by (auto split: option.splits)
  have "estore chain_start = fmempty" by (simp add: chain_start_def)
  from epochs_never_drift [OF log_keeper.epoch_codec_axioms default_valid this default_not_started r] r show ?thesis by blast
qed

text \<open>C17. A started timer that is behind catches up: after as many blocks at or past a time \<open>T\<close> as
  there are durations between the end of its current epoch and \<open>T\<close>, one epoch ending per block,
  its current epoch ends no earlier than \<open>T\<close>. The blocks run to completion.\<close>
theorem epochs_catch_up:
  assumes "epoch_codec k" "hooks_return k" "epochs_stored k c" "GetEpochInfo k c i = Some (Some e)"
    "EpochCountingStarted e" "0 < Duration e" "ep_StartTime e \<le> T" "list_all (\<lambda>(t, h). T \<le> t) bs"
    "T - (CurrentEpochStartTime e + Duration e) \<le> int (length bs) * Duration e"
  shows "\<exists>c' e'. run_blocks k bs c = Some c' \<and> GetEpochInfo k c' i = Some (Some e') \<and>
    T \<le> CurrentEpochStartTime e' + Duration e'"
  by (rule epoch_codec.blocks_reach [OF assms])

definition late_epoch :: EpochInfo where
  "late_epoch = \<lparr>Identifier = ''hour'', ep_StartTime = 0, Duration = hour, CurrentEpoch = 1,
     CurrentEpochStartTime = 0, EpochCountingStarted = True, CurrentEpochStartHeight = 1\<rparr>"

theorem epochs_catch_up_witness:
  "\<exists>c' e'. run_blocks log_keeper [(hour * 3, 2), (hour * 3, 3)] (SetEpochInfo log_keeper chain_start late_epoch) = Some c' \<and>
    GetEpochInfo log_keeper c' ''hour'' = Some (Some e') \<and> hour * 3 \<le> CurrentEpochStartTime e' + Duration e'"
proof (rule epochs_catch_up [OF log_keeper.epoch_codec_axioms log_hooks_return])
  let ?c = "SetEpochInfo log_keeper chain_start late_epoch"
  show "epochs_stored log_keeper ?c"
    by (simp add: epochs_stored_def SetEpochInfo_def chain_start_def late_epoch_def log_keeper_def)
  show "GetEpochInfo log_keeper ?c ''hour'' = Some (Some late_epoch)"
    by (simp add: GetEpochInfo_def SetEpochInfo_def chain_start_def late_epoch_def log_keeper_def)
qed (simp_all add: late_epoch_def)

text \<open>Exporting the genesis of a chain that was initialised from a valid genesis gives back its
  epochs, each exactly once, in the order of their identifiers, with the start times that were
  left at zero set to the block time and the heights to the block's.\<close>
theorem epochs_genesis_roundtrip:
  assumes "epoch_codec k" "ep_GenesisValidate es = Ok ()" "estore c = fmempty"
  shows "\<exists>es'. ep_ExportGenesis k (ep_InitGenesis k c es) = Some es' \<and> sorted (map Identifier es') \<and>
    mset es' = mset (map (genesis_epoch c) es)"
  by (rule epoch_codec.genesis_export [OF assms])

theorem epochs_genesis_roundtrip_witness:
  "\<exists>es'. ep_ExportGenesis log_keeper default_chain = Some es' \<and> sorted (map Identifier es') \<and>
    mset es' = mset (map (genesis_epoch chain_start) DefaultGenesisState)"
  by (rule epochs_genesis_roundtrip [OF log_keeper.epoch_codec_axioms default_valid]) (simp add: chain_start_def)

text \<open>The hook at the end of an epoch gets the number of the epoch that starts, not of the one
  that ends: when epoch \<open>n\<close> ends, both calls, first the end and then the start, carry \<open>n + 1\<close>.\<close>
theorem epoch_end_hook_number:
  assumes "EpochCountingStarted e" "shouldEpochEnd (eBlockTime c) e" "0 \<le> CurrentEpoch e" "CurrentEpoch e < max_int64"
  shows "map_option emods (epoch_callback log_keeper e c) =
    Some (emods c @ [(True, Identifier e, CurrentEpoch e + 1), (False, Identifier e, CurrentEpoch e + 1)])"
  using assms
  by (simp add: epoch_callback_def shouldInitialEpochStart_def EndEpoch_def ep_AfterEpochEnd_def ep_BeforeEpochStart_def
      SetEpochInfo_def log_keeper_def Let_def)

theorem epoch_end_hook_number_witness:
  "map_option emods (epoch_callback log_keeper late_epoch (chain_start\<lparr>eBlockTime := hour * 2\<rparr>)) =
    Some [(True, ''hour'', 2), (False, ''hour'', 2)]"
  using epoch_end_hook_number [of late_epoch "chain_start\<lparr>eBlockTime := hour * 2\<rparr>"]
  by (simp add: late_epoch_def chain_start_def shouldEpochEnd_def shouldInitialEpochStart_def)

end
