(* ===== verification/Erc20.thy ===== *)
theory Erc20
  imports Evm_Fees
begin

text \<open>
  The module \<open>x/erc20\<close>: token pairs of a Cosmos denomination and an ERC20 contract, their store,
  registration by governance, and the conversion of coins into tokens and back. The module sees the
  EVM, the bank and the accounts through interfaces (\<open>types/interfaces.go\<close>), which are the record
  \<open>erc20_env\<close> over a state of its own type; \<open>Erc20_Laws\<close> fills the EVM part with the modelled keeper.
  A call of the EVM that fails may still have changed that state, so \<open>CallEVMWithData\<close> returns the
  state besides the outcome; the messages discard it on errors, the hook on transactions does not.
  An error of \<open>ApplyMessage\<close> itself leaves the state as it was.
\<close>

subsection \<open>Names of tokens\<close>

definition is_letter :: "char \<Rightarrow> bool" where
  "is_letter c \<longleftrightarrow> is_lower c \<or> (65 \<le> (of_char c :: nat) \<and> (of_char c :: nat) \<le> 90)"

text \<open>The expression \<open>(?m)^(\d+)\<close>: digits at the start of every line.\<close>

fun strip_digits :: "bool \<Rightarrow> string \<Rightarrow> string" where
  "strip_digits at_start [] = []"
| "strip_digits at_start (c # cs) =
     (if at_start \<and> is_digit c then strip_digits True cs else c # strip_digits (c = CHR 0x0A) cs)"

definition removeLeadingNumbers :: "string \<Rightarrow> string" where
  "removeLeadingNumbers s = strip_digits True s"

text \<open>The expression \<open>^[^A-Za-z]|[^a-zA-Z0-9/-]\<close>: the first character unless it is a letter, later ones unless allowed.\<close>

definition removeSpecialChars :: "string \<Rightarrow> string" where
  "removeSpecialChars s =
     (case s of [] \<Rightarrow> []
      | c # cs \<Rightarrow> (if is_letter c then [c] else []) @
          filter (\<lambda>d. is_letter d \<or> is_digit d \<or> d = CHR ''/'' \<or> d = CHR ''-'') cs)"

function removeInvalidPrefixes :: "string \<Rightarrow> string" where
  "removeInvalidPrefixes s =
     (if take 4 s = ''ibc/'' then removeInvalidPrefixes (drop 4 s)
      else if take 6 s = ''erc20/'' then removeInvalidPrefixes (drop 6 s)
      else s)"
  by pat_completeness auto
termination
  by (relation "measure length") (auto simp: take_eq_Nil not_le intro!: Nat.diff_less)

definition SanitizeERC20Name :: "string \<Rightarrow> string" where
  "SanitizeERC20Name name = removeInvalidPrefixes (take 128 (removeSpecialChars (removeLeadingNumbers name)))"

subsection \<open>Metadata and token pairs\<close>

record DenomUnit =
  du_Denom :: string
  Exponent :: "32 word"
  Aliases :: "string list"

record Metadata =
  md_Description :: string
  DenomUnits :: "DenomUnit list"
  Base :: string
  Display :: string
  md_Name :: string
  md_Symbol :: string

fun EqualStringSlice :: "string list \<Rightarrow> string list \<Rightarrow> bool" where
  "EqualStringSlice [] [] \<longleftrightarrow> True"
| "EqualStringSlice (a # as) (b # bs) \<longleftrightarrow> a = b \<and> EqualStringSlice as bs"
| "EqualStringSlice _ _ \<longleftrightarrow> False"

text \<open>The loop runs over units of lists of the same length.\<close>

fun equal_units :: "DenomUnit list \<Rightarrow> DenomUnit list \<Rightarrow> bool" where
  "equal_units (v # vs) (w # ws) \<longleftrightarrow>
     Exponent v = Exponent w \<and> du_Denom v = du_Denom w \<and> EqualStringSlice (Aliases v) (Aliases w) \<and> equal_units vs ws"
| "equal_units _ _ \<longleftrightarrow> True"

definition EqualMetadata :: "Metadata \<Rightarrow> Metadata \<Rightarrow> (string, unit) outcome" where
  "EqualMetadata a b =
     (if Base a = Base b \<and> md_Description a = md_Description b \<and> Display a = Display b \<and> md_Name a = md_Name b \<and> md_Symbol a = md_Symbol b
      then if length (DenomUnits a) \<noteq> length (DenomUnits b) then Err ''metadata provided has different denom units from stored''
           else if \<not> equal_units (DenomUnits a) (DenomUnits b) then Err ''metadata provided has different denom unit from stored''
           else Ok ()
      else Err ''metadata provided is different from stored'')"

datatype Owner = OWNER_UNSPECIFIED | OWNER_MODULE | OWNER_EXTERNAL

record TokenPair =
  Erc20Address :: string
  Denom :: string
  Enabled :: bool
  ContractOwner :: Owner

record ERC20Data =
  ed_Name :: string
  ed_Symbol :: string
  Decimals :: "8 word"

definition e20_ModuleName :: string where "e20_ModuleName = ''erc20''"

definition CreateDenomDescription :: "string \<Rightarrow> string" where
  "CreateDenomDescription address = ''Cosmos coin token representation of '' @ address"

definition CreateDenom :: "string \<Rightarrow> string" where
  "CreateDenom address = e20_ModuleName @ ''/'' @ address"

text \<open>\<open>strings.SplitN(s, "/", 2)\<close>: before and after the first slash, if there is one.\<close>

definition split_slash :: "string \<Rightarrow> string list" where
  "split_slash s =
     (let before = takeWhile (\<lambda>c. c \<noteq> CHR ''/'') s
      in if before = s then [s] else [before, drop (Suc (length before)) s])"

definition ValidateErc20Denom :: "txlib \<Rightarrow> string \<Rightarrow> (string, unit) outcome" where
  "ValidateErc20Denom L denom =
     (case split_slash denom of
        [pre, address] \<Rightarrow>
          if pre \<noteq> e20_ModuleName then Err ''invalid denom: should be prefixed with the format erc20/''
          else ValidateAddress L address
      | _ \<Rightarrow> Err ''invalid denom: should be prefixed with the format erc20/'')"

definition validateIBCVoucherMetadata :: "Metadata \<Rightarrow> (string, unit) outcome" where
  "validateIBCVoucherMetadata metadata =
     (let denomSplit = split_slash (Base metadata)
      in if hd denomSplit = Base metadata \<and> TrimSpace (Base metadata) \<noteq> [] then Ok ()
         else if length denomSplit \<noteq> 2 \<or> hd denomSplit \<noteq> ''ibc'' then Err ''invalid metadata: denomination should be prefixed with ibc/''
         else Ok ())"

subsection \<open>What the module calls\<close>

text \<open>
  A call of the contract before it is packed for the ABI; the constructor has name, symbol and
  decimals.
\<close>

datatype abi_call =
  abiCtor string string "8 word"
| abiMint Address int
| abiBurnCoins Address int
| abiBurn int
| abiTransfer Address int
| abiBalanceOf Address
| abiName
| abiSymbol
| abiDecimals

text \<open>
  \<open>eModuleAddress\<close> is the address of the module account, \<open>eSum\<close> the hash \<open>tmhash.Sum\<close>, \<open>eMarshal\<close> and
  \<open>eUnmarshal\<close> the codec of token pairs, \<open>eBin\<close> the byte code of the contract. The unpacking functions
  return \<^const>\<open>None\<close> where the code takes its error or nil branch. \<open>eIsModuleAccount\<close> is \<open>GetAccount\<close> with the
  type assertion.
\<close>

record 'w erc20_env =
  elib :: txlib
  evEstimateGas :: "'w \<Rightarrow> EthCallRequest \<Rightarrow> (string, uint64) outcome"
  evApplyMessage :: "'w \<Rightarrow> Message \<Rightarrow> bool \<Rightarrow> (string, MsgEthereumTxResponse \<times> 'w) outcome"
  evGetAccountWithoutBalance :: "'w \<Rightarrow> Address \<Rightarrow> Account option"
  evIsContract :: "Account \<Rightarrow> bool"
  eaGetSequence :: "'w \<Rightarrow> bytes \<Rightarrow> (string, uint64) outcome"
  eIsModuleAccount :: "'w \<Rightarrow> bytes \<Rightarrow> bool"
  ebGetBalance :: "'w \<Rightarrow> bytes \<Rightarrow> string \<Rightarrow> int"
  ebMintCoins :: "'w \<Rightarrow> string \<Rightarrow> coins \<Rightarrow> (string, 'w) outcome"
  ebBurnCoins :: "'w \<Rightarrow> string \<Rightarrow> coins \<Rightarrow> (string, 'w) outcome"
  ebSendCoinsFromModuleToAccount :: "'w \<Rightarrow> string \<Rightarrow> bytes \<Rightarrow> coins \<Rightarrow> (string, 'w) outcome"
  ebSendCoinsFromAccountToModule :: "'w \<Rightarrow> bytes \<Rightarrow> string \<Rightarrow> coins \<Rightarrow> (string, 'w) outcome"
  ebBlockedAddr :: "bytes \<Rightarrow> bool"
  ebIsSendEnabledCoin :: "'w \<Rightarrow> string \<Rightarrow> bool"
  ebHasSupply :: "'w \<Rightarrow> string \<Rightarrow> bool"
  ebGetDenomMetaData :: "'w \<Rightarrow> string \<Rightarrow> Metadata option"
  ebSetDenomMetaData :: "'w \<Rightarrow> Metadata \<Rightarrow> 'w"
  esBondDenom :: "'w \<Rightarrow> string"
  eModuleAddress :: Address
  eSum :: "bytes \<Rightarrow> bytes"
  eMarshal :: "TokenPair \<Rightarrow> bytes"
  eUnmarshal :: "bytes \<Rightarrow> TokenPair"
  eBin :: bytes
  eCreateAddress :: "Address \<Rightarrow> uint64 \<Rightarrow> Address"
  eabiPack :: "abi_call \<Rightarrow> (string, bytes) outcome"
  eUnpackUint :: "bytes \<Rightarrow> int option"
  eUnpackTransfer :: "bytes \<Rightarrow> int option"
  eUnpackBool :: "bytes \<Rightarrow> (string, bool) outcome"
  eUnpackString :: "bytes \<Rightarrow> (string, string) outcome"
  eUnpackUint8 :: "bytes \<Rightarrow> (string, 8 word) outcome"
  eEventByID :: "Hash \<Rightarrow> string option"
  eApprovalHash :: Hash
  eMetadataValidate :: "Metadata \<Rightarrow> (string, unit) outcome"
  eValidateDenom :: "string \<Rightarrow> (string, unit) outcome"
  eValidateIBCDenom :: "string \<Rightarrow> (string, unit) outcome"
  eAccAddressFromBech32 :: "string \<Rightarrow> (string, bytes) outcome"
  eAccString :: "bytes \<Rightarrow> string"
  eAuthority :: string

text \<open>The state: the store of the module and the rest of the chain.\<close>

record 'w E20 =
  e20_store :: kvstore
  e20_world :: 'w

subsection \<open>Token pairs in the store\<close>

definition KeyPrefixTokenPair :: bytes where "KeyPrefixTokenPair = [1]"
definition KeyPrefixTokenPairByERC20 :: bytes where "KeyPrefixTokenPairByERC20 = [2]"
definition KeyPrefixTokenPairByDenom :: bytes where "KeyPrefixTokenPairByDenom = [3]"

definition NewTokenPair :: "'w erc20_env \<Rightarrow> Address \<Rightarrow> string \<Rightarrow> Owner \<Rightarrow> TokenPair" where
  "NewTokenPair E erc20Address denom contractOwner =
     \<lparr>Erc20Address = AddressHex (elib E) erc20Address, Denom = denom, Enabled = True, ContractOwner = contractOwner\<rparr>"

definition GetID :: "'w erc20_env \<Rightarrow> TokenPair \<Rightarrow> bytes" where
  "GetID E tp = eSum E (bytes_of (Erc20Address tp @ ''|'' @ Denom tp))"

definition GetERC20Contract :: "'w erc20_env \<Rightarrow> TokenPair \<Rightarrow> Address" where
  "GetERC20Contract E tp = HexToAddress (elib E) (Erc20Address tp)"

definition tp_Validate :: "'w erc20_env \<Rightarrow> TokenPair \<Rightarrow> (string, unit) outcome" where
  "tp_Validate E tp = bind_outcome (eValidateDenom E (Denom tp)) (\<lambda>_. ValidateAddress (elib E) (Erc20Address tp))"

definition IsNativeCoin :: "TokenPair \<Rightarrow> bool" where
  "IsNativeCoin tp \<longleftrightarrow> ContractOwner tp = OWNER_MODULE"

definition IsNativeERC20 :: "TokenPair \<Rightarrow> bool" where
  "IsNativeERC20 tp \<longleftrightarrow> ContractOwner tp = OWNER_EXTERNAL"

text \<open>A missing key reads as the empty slice.\<close>

definition GetERC20Map :: "'w E20 \<Rightarrow> Address \<Rightarrow> bytes" where
  "GetERC20Map s erc20 = store_Get (e20_store s) (KeyPrefixTokenPairByERC20 @ AddressBytes erc20)"

definition GetDenomMap :: "'w E20 \<Rightarrow> string \<Rightarrow> bytes" where
  "GetDenomMap s denom = store_Get (e20_store s) (KeyPrefixTokenPairByDenom @ bytes_of denom)"

definition GetTokenPairID :: "'w erc20_env \<Rightarrow> 'w E20 \<Rightarrow> string \<Rightarrow> bytes" where
  "GetTokenPairID E s token =
     (if libIsHexAddress (elib E) token then GetERC20Map s (HexToAddress (elib E) token) else GetDenomMap s token)"

definition GetTokenPair :: "'w erc20_env \<Rightarrow> 'w E20 \<Rightarrow> bytes \<Rightarrow> TokenPair option" where
  "GetTokenPair E s pid =
     (if pid = [] then None
      else let bz = store_Get (e20_store s) (KeyPrefixTokenPair @ pid)
           in if length bz = 0 then None else Some (eUnmarshal E bz))"

definition SetTokenPair :: "'w erc20_env \<Rightarrow> 'w E20 \<Rightarrow> TokenPair \<Rightarrow> 'w E20" where
  "SetTokenPair E s tp = s\<lparr>e20_store := fmupd (KeyPrefixTokenPair @ GetID E tp) (eMarshal E tp) (e20_store s)\<rparr>"

definition deleteTokenPair :: "'w E20 \<Rightarrow> bytes \<Rightarrow> 'w E20" where
  "deleteTokenPair s pid = s\<lparr>e20_store := fmdrop (KeyPrefixTokenPair @ pid) (e20_store s)\<rparr>"

definition SetERC20Map :: "'w E20 \<Rightarrow> Address \<Rightarrow> bytes \<Rightarrow> 'w E20" where
  "SetERC20Map s erc20 pid = s\<lparr>e20_store := fmupd (KeyPrefixTokenPairByERC20 @ AddressBytes erc20) pid (e20_store s)\<rparr>"

definition deleteERC20Map :: "'w E20 \<Rightarrow> Address \<Rightarrow> 'w E20" where
  "deleteERC20Map s erc20 = s\<lparr>e20_store := fmdrop (KeyPrefixTokenPairByERC20 @ AddressBytes erc20) (e20_store s)\<rparr>"

definition SetDenomMap :: "'w E20 \<Rightarrow> string \<Rightarrow> bytes \<Rightarrow> 'w E20" where
  "SetDenomMap s denom pid = s\<lparr>e20_store := fmupd (KeyPrefixTokenPairByDenom @ bytes_of denom) pid (e20_store s)\<rparr>"

definition deleteDenomMap :: "'w E20 \<Rightarrow> string \<Rightarrow> 'w E20" where
  "deleteDenomMap s denom = s\<lparr>e20_store := fmdrop (KeyPrefixTokenPairByDenom @ bytes_of denom) (e20_store s)\<rparr>"

definition DeleteTokenPair :: "'w erc20_env \<Rightarrow> 'w E20 \<Rightarrow> TokenPair \<Rightarrow> 'w E20" where
  "DeleteTokenPair E s tp =
     deleteDenomMap (deleteERC20Map (deleteTokenPair s (GetID E tp)) (GetERC20Contract E tp)) (Denom tp)"

definition IsTokenPairRegistered :: "'w E20 \<Rightarrow> bytes \<Rightarrow> bool" where
  "IsTokenPairRegistered s pid \<longleftrightarrow> fmlookup (e20_store s) (KeyPrefixTokenPair @ pid) \<noteq> None"

definition IsERC20Registered :: "'w E20 \<Rightarrow> Address \<Rightarrow> bool" where
  "IsERC20Registered s erc20 \<longleftrightarrow> fmlookup (e20_store s) (KeyPrefixTokenPairByERC20 @ AddressBytes erc20) \<noteq> None"

definition IsDenomRegistered :: "'w E20 \<Rightarrow> string \<Rightarrow> bool" where
  "IsDenomRegistered s denom \<longleftrightarrow> fmlookup (e20_store s) (KeyPrefixTokenPairByDenom @ bytes_of denom) \<noteq> None"

text \<open>\<open>IterateTokenPairs\<close> with the callback that collects: the values under the prefix in key order.\<close>

definition GetTokenPairs :: "'w erc20_env \<Rightarrow> 'w E20 \<Rightarrow> TokenPair list" where
  "GetTokenPairs E s =
     map (\<lambda>k. eUnmarshal E (store_Get (e20_store s) k))
       (filter (\<lambda>k. take (length KeyPrefixTokenPair) k = KeyPrefixTokenPair) (fm_keys (e20_store s)))"

subsection \<open>Parameters\<close>

record e20_Params =
  EnableErc20 :: bool
  EnableEVMHook :: bool

definition ParamStoreKeyEnableErc20 :: bytes where "ParamStoreKeyEnableErc20 = bytes_of ''EnableErc20''"
definition ParamStoreKeyEnableEVMHook :: bytes where "ParamStoreKeyEnableEVMHook = bytes_of ''EnableEVMHook''"
definition isTrue :: bytes where "isTrue = bytes_of ''0x01''"

definition IsERC20Enabled :: "'w E20 \<Rightarrow> bool" where
  "IsERC20Enabled s \<longleftrightarrow> fmlookup (e20_store s) ParamStoreKeyEnableErc20 \<noteq> None"

definition GetEnableEVMHook :: "'w E20 \<Rightarrow> bool" where
  "GetEnableEVMHook s \<longleftrightarrow> fmlookup (e20_store s) ParamStoreKeyEnableEVMHook \<noteq> None"

definition e20_GetParams :: "'w E20 \<Rightarrow> e20_Params" where
  "e20_GetParams s = \<lparr>EnableErc20 = IsERC20Enabled s, EnableEVMHook = GetEnableEVMHook s\<rparr>"

definition setERC20Enabled :: "'w E20 \<Rightarrow> bool \<Rightarrow> 'w E20" where
  "setERC20Enabled s enable =
     s\<lparr>e20_store := (if enable then fmupd ParamStoreKeyEnableErc20 isTrue (e20_store s) else fmdrop ParamStoreKeyEnableErc20 (e20_store s))\<rparr>"

definition setEnableEVMHook :: "'w E20 \<Rightarrow> bool \<Rightarrow> 'w E20" where
  "setEnableEVMHook s enable =
     s\<lparr>e20_store := (if enable then fmupd ParamStoreKeyEnableEVMHook isTrue (e20_store s) else fmdrop ParamStoreKeyEnableEVMHook (e20_store s))\<rparr>"

text \<open>Validation of two Go booleans cannot fail.\<close>

definition e20_SetParams :: "'w E20 \<Rightarrow> e20_Params \<Rightarrow> (string, 'w E20) outcome" where
  "e20_SetParams s params = Ok (setEnableEVMHook (setERC20Enabled s (EnableErc20 params)) (EnableEVMHook params))"

definition e20_UpdateParams :: "'w erc20_env \<Rightarrow> 'w E20 \<Rightarrow> string \<Rightarrow> e20_Params \<Rightarrow> (string, 'w E20) outcome" where
  "e20_UpdateParams E s authority params =
     (if eAuthority E \<noteq> authority then Err ''invalid authority'' else e20_SetParams s params)"
subsection \<open>Calls of the EVM\<close>

definition DefaultGasCap :: uint64 where "DefaultGasCap = 25000000"

definition call_args :: "Address \<Rightarrow> Address option \<Rightarrow> bytes \<Rightarrow> TransactionArgs" where
  "call_args from_addr contract data =
     \<lparr>a_From = Some from_addr, a_To = contract, a_Gas = None, a_GasPrice = None, a_MaxFeePerGas = None,
      a_MaxPriorityFeePerGas = None, a_Value = None, a_Nonce = None, a_Data = Some data, a_Input = None,
      a_AccessList = None, a_ChainID = None\<rparr>"

definition CallEVMWithData ::
  "'w erc20_env \<Rightarrow> 'w \<Rightarrow> Address \<Rightarrow> Address option \<Rightarrow> bytes \<Rightarrow> bool \<Rightarrow> (string, MsgEthereumTxResponse) outcome \<times> 'w" where
  "CallEVMWithData E w from_addr contract data commit =
     (case eaGetSequence E w (AddressBytes from_addr) of
        Panic \<Rightarrow> (Panic, w)
      | Err e \<Rightarrow> (Err e, w)
      | Ok nonce \<Rightarrow>
          (case (if commit then evEstimateGas E w \<lparr>req_Args = Some (call_args from_addr contract data), req_GasCap = DefaultGasCap\<rparr>
                 else Ok DefaultGasCap) of
             Panic \<Rightarrow> (Panic, w)
           | Err e \<Rightarrow> (Err e, w)
           | Ok gasCap \<Rightarrow>
               (case evApplyMessage E w
                  \<lparr>msg_From = from_addr, msg_To = contract, msg_Nonce = nonce, msg_Gas = gasCap, msg_GasPrice = 0, msg_GasFeeCap = 0,
                   msg_GasTipCap = 0, msg_Value = 0, msg_Data = data, msg_AccessList = [], msg_IsFake = (\<not> commit)\<rparr> commit of
                  Panic \<Rightarrow> (Panic, w)
                | Err e \<Rightarrow> (Err e, w)
                | Ok (res, w') \<Rightarrow> (if Failed res then Err (res_VmError res) else Ok res, w'))))"

definition CallEVM ::
  "'w erc20_env \<Rightarrow> 'w \<Rightarrow> Address \<Rightarrow> Address \<Rightarrow> bool \<Rightarrow> abi_call \<Rightarrow> (string, MsgEthereumTxResponse) outcome \<times> 'w" where
  "CallEVM E w from_addr contract commit call =
     (case eabiPack E call of
        Panic \<Rightarrow> (Panic, w)
      | Err e \<Rightarrow> (Err ''failed to create transaction data'', w)
      | Ok data \<Rightarrow>
          (case CallEVMWithData E w from_addr (Some contract) data commit of
             (Err e, w') \<Rightarrow> (Err ''contract call failed'', w')
           | r \<Rightarrow> r))"

text \<open>Queries do not commit, so the state after them is not used. A panic is not a nil balance.\<close>

definition BalanceOf :: "'w erc20_env \<Rightarrow> 'w \<Rightarrow> Address \<Rightarrow> Address \<Rightarrow> (string, int option) outcome" where
  "BalanceOf E w contract account =
     (case fst (CallEVM E w (eModuleAddress E) contract False (abiBalanceOf account)) of
        Panic \<Rightarrow> Panic
      | Err e \<Rightarrow> Ok None
      | Ok res \<Rightarrow> Ok (eUnpackUint E (res_Ret res)))"

definition balance_of :: "'w erc20_env \<Rightarrow> 'w \<Rightarrow> Address \<Rightarrow> Address \<Rightarrow> (string, int) outcome" where
  "balance_of E w contract account =
     bind_outcome (BalanceOf E w contract account) (\<lambda>b. case b of None \<Rightarrow> Err ''failed to retrieve balance'' | Some v \<Rightarrow> Ok v)"

definition QueryERC20 :: "'w erc20_env \<Rightarrow> 'w \<Rightarrow> Address \<Rightarrow> (string, ERC20Data) outcome" where
  "QueryERC20 E w contract =
     bind_outcome (fst (CallEVM E w (eModuleAddress E) contract False abiName)) (\<lambda>res.
     bind_outcome (eUnpackString E (res_Ret res)) (\<lambda>nameRes.
     bind_outcome (fst (CallEVM E w (eModuleAddress E) contract False abiSymbol)) (\<lambda>res.
     bind_outcome (eUnpackString E (res_Ret res)) (\<lambda>symbolRes.
     bind_outcome (fst (CallEVM E w (eModuleAddress E) contract False abiDecimals)) (\<lambda>res.
     bind_outcome (eUnpackUint8 E (res_Ret res)) (\<lambda>decimalRes.
     Ok \<lparr>ed_Name = nameRes, ed_Symbol = symbolRes, Decimals = decimalRes\<rparr>))))))"

text \<open>The nonce of the module account before the call decides the address of the contract.\<close>

definition DeployERC20Contract :: "'w erc20_env \<Rightarrow> 'w \<Rightarrow> Metadata \<Rightarrow> (string, Address \<times> 'w) outcome" where
  "DeployERC20Contract E w coinMetadata =
     (let decimals = (if DenomUnits coinMetadata = [] then 0 else ucast (Exponent (last (DenomUnits coinMetadata)))) in
      bind_outcome (eabiPack E (abiCtor (md_Name coinMetadata) (md_Symbol coinMetadata) decimals)) (\<lambda>ctorArgs.
      bind_outcome (eaGetSequence E w (AddressBytes (eModuleAddress E))) (\<lambda>nonce.
      let (r, w') = CallEVMWithData E w (eModuleAddress E) None (eBin E @ ctorArgs) True
      in bind_outcome r (\<lambda>_. Ok (eCreateAddress E (eModuleAddress E) nonce, w')))))"

text \<open>A log without topics is an index out of range.\<close>

fun monitor_logs :: "Hash \<Rightarrow> ethLog list \<Rightarrow> (string, unit) outcome" where
  "monitor_logs approval [] = Ok ()"
| "monitor_logs approval (l # ls) =
     (case log_Topics l of
        [] \<Rightarrow> Panic
      | t # _ \<Rightarrow> if t = approval then Err ''unexpected Approval event'' else monitor_logs approval ls)"

definition monitorApprovalEvent :: "'w erc20_env \<Rightarrow> MsgEthereumTxResponse \<Rightarrow> (string, unit) outcome" where
  "monitorApprovalEvent E res = monitor_logs (eApprovalHash E) (res_Logs res)"

subsection \<open>Registration\<close>

definition verifyMetadata :: "'w erc20_env \<Rightarrow> 'w \<Rightarrow> Metadata \<Rightarrow> (string, 'w) outcome" where
  "verifyMetadata E w coinMetadata =
     (case ebGetDenomMetaData E w (Base coinMetadata) of
        None \<Rightarrow> Ok (ebSetDenomMetaData E w coinMetadata)
      | Some meta \<Rightarrow> bind_outcome (EqualMetadata meta coinMetadata) (\<lambda>_. Ok w))"

text \<open>The three writes that follow the creation of a pair.\<close>

definition store_pair :: "'w erc20_env \<Rightarrow> 'w E20 \<Rightarrow> TokenPair \<Rightarrow> 'w E20" where
  "store_pair E s pair =
     SetERC20Map (SetDenomMap (SetTokenPair E s pair) (Denom pair) (GetID E pair)) (HexToAddress (elib E) (Erc20Address pair)) (GetID E pair)"

definition RegisterCoin :: "'w erc20_env \<Rightarrow> 'w E20 \<Rightarrow> Metadata \<Rightarrow> (string, TokenPair \<times> 'w E20) outcome" where
  "RegisterCoin E s coinMetadata =
     (if IsDenomRegistered s (md_Name coinMetadata) then Err ''coin denomination already registered''
      else if \<not> ebHasSupply E (e20_world s) (Base coinMetadata) then Err ''base denomination cannot have a supply of 0''
      else bind_outcome (case verifyMetadata E (e20_world s) coinMetadata of Err e \<Rightarrow> Err ''coin metadata is invalid'' | r \<Rightarrow> r) (\<lambda>w.
           bind_outcome (DeployERC20Contract E w coinMetadata) (\<lambda>(addr, w').
           let pair = NewTokenPair E addr (Base coinMetadata) OWNER_MODULE
           in Ok (pair, store_pair E (s\<lparr>e20_world := w'\<rparr>) pair))))"

definition CreateCoinMetadata :: "'w erc20_env \<Rightarrow> 'w E20 \<Rightarrow> Address \<Rightarrow> (string, Metadata \<times> 'w) outcome" where
  "CreateCoinMetadata E s contract =
     (let strContract = AddressHex (elib E) contract; base = CreateDenom strContract; w = e20_world s in
      bind_outcome (QueryERC20 E w contract) (\<lambda>erc20Data.
      if ebGetDenomMetaData E w base \<noteq> None then Err ''denom metadata already registered''
      else if IsDenomRegistered s base then Err ''coin denomination already registered''
      else
        let nameSanitized = SanitizeERC20Name (ed_Name erc20Data);
            base_unit = \<lparr>du_Denom = base, Exponent = 0, Aliases = []\<rparr>;
            metadata = \<lparr>md_Description = CreateDenomDescription strContract,
              DenomUnits = (if Decimals erc20Data > 0
                then [base_unit, \<lparr>du_Denom = nameSanitized, Exponent = ucast (Decimals erc20Data), Aliases = []\<rparr>] else [base_unit]),
              Base = base, Display = (if Decimals erc20Data > 0 then nameSanitized else base),
              md_Name = base, md_Symbol = ed_Symbol erc20Data\<rparr>
        in bind_outcome (eMetadataValidate E metadata) (\<lambda>_. Ok (metadata, ebSetDenomMetaData E w metadata))))"

definition RegisterERC20 :: "'w erc20_env \<Rightarrow> 'w E20 \<Rightarrow> Address \<Rightarrow> (string, TokenPair \<times> 'w E20) outcome" where
  "RegisterERC20 E s contract =
     (if IsERC20Registered s contract then Err ''token ERC20 contract already registered''
      else bind_outcome (CreateCoinMetadata E s contract) (\<lambda>(metadata, w).
           let pair = NewTokenPair E contract (md_Name metadata) OWNER_EXTERNAL
           in Ok (pair, store_pair E (s\<lparr>e20_world := w\<rparr>) pair)))"

definition ToggleConversion :: "'w erc20_env \<Rightarrow> 'w E20 \<Rightarrow> string \<Rightarrow> (string, TokenPair \<times> 'w E20) outcome" where
  "ToggleConversion E s token =
     (let pid = GetTokenPairID E s token in
      if length pid = 0 then Err ''token not registered by id''
      else case GetTokenPair E s pid of
        None \<Rightarrow> Err ''token not registered''
      | Some pair0 \<Rightarrow> let pair = pair0\<lparr>Enabled := \<not> Enabled pair0\<rparr> in Ok (pair, SetTokenPair E s pair))"

datatype e20_Content =
  RegisterCoinProposal "Metadata list"
| RegisterERC20Proposal "string list"
| ToggleTokenConversionProposal string
| OtherContent

text \<open>Events are left out; each registration of a proposal sees the state of the ones before.\<close>

definition NewErc20ProposalHandler :: "'w erc20_env \<Rightarrow> 'w E20 \<Rightarrow> e20_Content \<Rightarrow> (string, 'w E20) outcome" where
  "NewErc20ProposalHandler E s content =
     (if \<not> IsERC20Enabled s then Err ''registration is currently disabled by governance''
      else case content of
        RegisterCoinProposal metadata \<Rightarrow> fold_outcome (\<lambda>m s. bind_outcome (RegisterCoin E s m) (\<lambda>(_, s'). Ok s')) metadata s
      | RegisterERC20Proposal erc20Addresses \<Rightarrow>
          fold_outcome (\<lambda>a s. bind_outcome (RegisterERC20 E s (HexToAddress (elib E) a)) (\<lambda>(_, s'). Ok s')) erc20Addresses s
      | ToggleTokenConversionProposal token \<Rightarrow> bind_outcome (ToggleConversion E s token) (\<lambda>(_, s'). Ok s')
      | OtherContent \<Rightarrow> Err ''unrecognized proposal content type'')"

text \<open>\<open>ValidateAbstract\<close> of the SDK checks title and description.\<close>

definition content_ValidateBasic ::
  "'w erc20_env \<Rightarrow> (e20_Content \<Rightarrow> (string, unit) outcome) \<Rightarrow> e20_Content \<Rightarrow> (string, unit) outcome" where
  "content_ValidateBasic E validateAbstract content =
     bind_outcome
       (case content of
          RegisterCoinProposal metadata \<Rightarrow>
            fold_outcome (\<lambda>m _.
              bind_outcome (eMetadataValidate E m) (\<lambda>_.
              if (\<exists>i < length (Base m). take 3 (drop i (Base m)) = ''evm'') then Err ''cannot register the EVM denomination''
              else bind_outcome (eValidateIBCDenom E (Base m)) (\<lambda>_. validateIBCVoucherMetadata m))) metadata ()
        | RegisterERC20Proposal erc20Addresses \<Rightarrow> fold_outcome (\<lambda>a _. ValidateAddress (elib E) a) erc20Addresses ()
        | ToggleTokenConversionProposal token \<Rightarrow>
            (case ValidateAddress (elib E) token of Err e \<Rightarrow> eValidateDenom E token | r \<Rightarrow> r)
        | OtherContent \<Rightarrow> Ok ()) (\<lambda>_.
     validateAbstract content)"
subsection \<open>Messages\<close>

record MsgConvertCoin =
  mc_Coin :: "string \<times> int"
  mc_Receiver :: string
  mc_Sender :: string

record MsgConvertERC20 =
  me_ContractAddress :: string
  me_Amount :: int
  me_Receiver :: string
  me_Sender :: string

definition NewMsgConvertCoin :: "'w erc20_env \<Rightarrow> string \<times> int \<Rightarrow> Address \<Rightarrow> bytes \<Rightarrow> MsgConvertCoin" where
  "NewMsgConvertCoin E coin receiver sender =
     \<lparr>mc_Coin = coin, mc_Receiver = AddressHex (elib E) receiver, mc_Sender = eAccString E sender\<rparr>"

definition NewMsgConvertERC20 :: "'w erc20_env \<Rightarrow> int \<Rightarrow> bytes \<Rightarrow> Address \<Rightarrow> Address \<Rightarrow> MsgConvertERC20" where
  "NewMsgConvertERC20 E amount receiver contract sender =
     \<lparr>me_ContractAddress = AddressHex (elib E) contract, me_Amount = amount, me_Receiver = eAccString E receiver,
      me_Sender = AddressHex (elib E) sender\<rparr>"

definition ConvertCoin_ValidateBasic :: "'w erc20_env \<Rightarrow> MsgConvertCoin \<Rightarrow> (string, unit) outcome" where
  "ConvertCoin_ValidateBasic E msg =
     bind_outcome (case ValidateErc20Denom (elib E) (fst (mc_Coin msg)) of Err e \<Rightarrow> eValidateIBCDenom E (fst (mc_Coin msg)) | r \<Rightarrow> r) (\<lambda>_.
     if snd (mc_Coin msg) \<le> 0 then Err ''cannot mint a non-positive amount''
     else bind_outcome (eAccAddressFromBech32 E (mc_Sender msg)) (\<lambda>_.
          if \<not> libIsHexAddress (elib E) (mc_Receiver msg) then Err ''invalid receiver hex address'' else Ok ()))"

definition ConvertERC20_ValidateBasic :: "'w erc20_env \<Rightarrow> MsgConvertERC20 \<Rightarrow> (string, unit) outcome" where
  "ConvertERC20_ValidateBasic E msg =
     (if \<not> libIsHexAddress (elib E) (me_ContractAddress msg) then Err ''invalid contract hex address''
      else if me_Amount msg \<le> 0 then Err ''cannot mint a non-positive amount''
      else bind_outcome (eAccAddressFromBech32 E (me_Receiver msg)) (\<lambda>_.
           if \<not> libIsHexAddress (elib E) (me_Sender msg) then Err ''invalid sender hex address'' else Ok ()))"

text \<open>\<open>MustAccAddressFromBech32\<close> panics where parsing fails.\<close>

definition must_address :: "'w erc20_env \<Rightarrow> string \<Rightarrow> (string, bytes) outcome" where
  "must_address E s = (case eAccAddressFromBech32 E s of Ok a \<Rightarrow> Ok a | _ \<Rightarrow> Panic)"

definition MintingEnabled ::
  "'w erc20_env \<Rightarrow> 'w E20 \<Rightarrow> bytes \<Rightarrow> bytes \<Rightarrow> string \<Rightarrow> (string, TokenPair) outcome" where
  "MintingEnabled E s sender receiver token =
     (if \<not> IsERC20Enabled s then Err ''module is currently disabled by governance''
      else
        let pid = GetTokenPairID E s token in
        if length pid = 0 then Err ''token not registered by id''
        else case GetTokenPair E s pid of
          None \<Rightarrow> Err ''token not registered''
        | Some pair \<Rightarrow>
            if \<not> Enabled pair then Err ''minting token is not enabled by governance''
            else if ebBlockedAddr E receiver then Err ''not allowed to receive transactions''
            else if sender \<noteq> receiver \<and> \<not> ebIsSendEnabledCoin E (e20_world s) (Denom pair)
            then Err ''minting coins to an external address is currently disabled''
            else Ok pair)"

subsection \<open>Conversion\<close>

text \<open>Events and telemetry are left out.\<close>

definition convertCoinNativeCoin ::
  "'w erc20_env \<Rightarrow> 'w \<Rightarrow> TokenPair \<Rightarrow> MsgConvertCoin \<Rightarrow> Address \<Rightarrow> bytes \<Rightarrow> (string, 'w) outcome" where
  "convertCoinNativeCoin E w pair msg receiver sender =
     (let contract = GetERC20Contract E pair; tokens = snd (mc_Coin msg) in
      bind_outcome (balance_of E w contract receiver) (\<lambda>balanceToken.
      bind_outcome (case ebSendCoinsFromAccountToModule E w sender e20_ModuleName [mc_Coin msg] of
          Err e \<Rightarrow> Err ''failed to escrow coins'' | r \<Rightarrow> r) (\<lambda>w1.
      let (r, w2) = CallEVM E w1 (eModuleAddress E) contract True (abiMint receiver tokens) in
      bind_outcome r (\<lambda>_.
      bind_outcome (balance_of E w2 contract receiver) (\<lambda>balanceTokenAfter.
      if balanceTokenAfter \<noteq> balanceToken + tokens then Err ''invalid token balance'' else Ok w2)))))"

definition convertERC20NativeCoin ::
  "'w erc20_env \<Rightarrow> 'w \<Rightarrow> TokenPair \<Rightarrow> MsgConvertERC20 \<Rightarrow> bytes \<Rightarrow> Address \<Rightarrow> (string, 'w) outcome" where
  "convertERC20NativeCoin E w pair msg receiver sender =
     (let contract = GetERC20Contract E pair; amount = me_Amount msg; balanceCoin = ebGetBalance E w receiver (Denom pair) in
      bind_outcome (balance_of E w contract sender) (\<lambda>balanceToken.
      let (r, w1) = CallEVM E w (eModuleAddress E) contract True (abiBurnCoins sender amount) in
      bind_outcome r (\<lambda>_.
      bind_outcome (ebSendCoinsFromModuleToAccount E w1 e20_ModuleName receiver [(Denom pair, amount)]) (\<lambda>w2.
      if ebGetBalance E w2 receiver (Denom pair) \<noteq> balanceCoin + amount then Err ''invalid coin balance''
      else bind_outcome (balance_of E w2 contract sender) (\<lambda>balanceTokenAfter.
      if balanceTokenAfter \<noteq> balanceToken - amount then Err ''invalid token balance'' else Ok w2)))))"

definition convertERC20NativeToken ::
  "'w erc20_env \<Rightarrow> 'w \<Rightarrow> TokenPair \<Rightarrow> MsgConvertERC20 \<Rightarrow> bytes \<Rightarrow> Address \<Rightarrow> (string, 'w) outcome" where
  "convertERC20NativeToken E w pair msg receiver sender =
     (let contract = GetERC20Contract E pair; amount = me_Amount msg; balanceCoin = ebGetBalance E w receiver (Denom pair) in
      bind_outcome (balance_of E w contract (eModuleAddress E)) (\<lambda>balanceToken.
      bind_outcome (eabiPack E (abiTransfer (eModuleAddress E) amount)) (\<lambda>transferData.
      let (r, w1) = CallEVMWithData E w sender (Some contract) transferData True in
      bind_outcome r (\<lambda>res.
      bind_outcome (eUnpackBool E (res_Ret res)) (\<lambda>unpackedRet.
      if \<not> unpackedRet then Err ''failed to execute transfer''
      else bind_outcome (balance_of E w1 contract (eModuleAddress E)) (\<lambda>balanceTokenAfter.
      if balanceTokenAfter \<noteq> balanceToken + amount then Err ''invalid token balance''
      else bind_outcome (ebMintCoins E w1 e20_ModuleName [(Denom pair, amount)]) (\<lambda>w2.
      bind_outcome (ebSendCoinsFromModuleToAccount E w2 e20_ModuleName receiver [(Denom pair, amount)]) (\<lambda>w3.
      if ebGetBalance E w3 receiver (Denom pair) \<noteq> balanceCoin + amount then Err ''invalid coin balance''
      else bind_outcome (monitorApprovalEvent E res) (\<lambda>_. Ok w3)))))))))"

definition convertCoinNativeERC20 ::
  "'w erc20_env \<Rightarrow> 'w \<Rightarrow> TokenPair \<Rightarrow> MsgConvertCoin \<Rightarrow> Address \<Rightarrow> bytes \<Rightarrow> (string, 'w) outcome" where
  "convertCoinNativeERC20 E w pair msg receiver sender =
     (let contract = GetERC20Contract E pair; tokens = snd (mc_Coin msg) in
      bind_outcome (balance_of E w contract receiver) (\<lambda>balanceToken.
      bind_outcome (case ebSendCoinsFromAccountToModule E w sender e20_ModuleName [mc_Coin msg] of
          Err e \<Rightarrow> Err ''failed to escrow coins'' | r \<Rightarrow> r) (\<lambda>w1.
      let (r, w2) = CallEVM E w1 (eModuleAddress E) contract True (abiTransfer receiver tokens) in
      bind_outcome r (\<lambda>res.
      bind_outcome (eUnpackBool E (res_Ret res)) (\<lambda>unpackedRet.
      if \<not> unpackedRet then Err ''failed to execute unescrow tokens from user''
      else bind_outcome (balance_of E w2 contract receiver) (\<lambda>balanceTokenAfter.
      if balanceTokenAfter \<noteq> balanceToken + tokens then Err ''invalid token balance''
      else bind_outcome (case ebBurnCoins E w2 e20_ModuleName [mc_Coin msg] of Err e \<Rightarrow> Err ''failed to burn coins'' | r \<Rightarrow> r) (\<lambda>w3.
      bind_outcome (monitorApprovalEvent E res) (\<lambda>_. Ok w3))))))))"

text \<open>
  The result tells whether a conversion took place; if the contract is gone the pair is deleted
  and no error returned, so that the deletion persists.
\<close>

definition contract_gone :: "'w erc20_env \<Rightarrow> 'w \<Rightarrow> TokenPair \<Rightarrow> bool" where
  "contract_gone E w pair =
     (case evGetAccountWithoutBalance E w (HexToAddress (elib E) (Erc20Address pair)) of
        None \<Rightarrow> True | Some acc \<Rightarrow> \<not> evIsContract E acc)"

definition ConvertCoin :: "'w erc20_env \<Rightarrow> 'w E20 \<Rightarrow> MsgConvertCoin \<Rightarrow> (string, bool \<times> 'w E20) outcome" where
  "ConvertCoin E s msg =
     (let receiver = HexToAddress (elib E) (mc_Receiver msg); w = e20_world s in
      bind_outcome (must_address E (mc_Sender msg)) (\<lambda>sender.
      bind_outcome (MintingEnabled E s sender (AddressBytes receiver) (fst (mc_Coin msg))) (\<lambda>pair.
      if contract_gone E w pair then Ok (False, DeleteTokenPair E s pair)
      else if IsNativeCoin pair then bind_outcome (convertCoinNativeCoin E w pair msg receiver sender) (\<lambda>w'. Ok (True, s\<lparr>e20_world := w'\<rparr>))
      else if IsNativeERC20 pair then bind_outcome (convertCoinNativeERC20 E w pair msg receiver sender) (\<lambda>w'. Ok (True, s\<lparr>e20_world := w'\<rparr>))
      else Err ''undefined owner of contract pair'')))"

definition ConvertERC20 :: "'w erc20_env \<Rightarrow> 'w E20 \<Rightarrow> MsgConvertERC20 \<Rightarrow> (string, bool \<times> 'w E20) outcome" where
  "ConvertERC20 E s msg =
     (let sender = HexToAddress (elib E) (me_Sender msg); w = e20_world s in
      bind_outcome (must_address E (me_Receiver msg)) (\<lambda>receiver.
      bind_outcome (MintingEnabled E s (AddressBytes sender) receiver (me_ContractAddress msg)) (\<lambda>pair.
      if contract_gone E w pair then Ok (False, DeleteTokenPair E s pair)
      else if IsNativeCoin pair then bind_outcome (convertERC20NativeCoin E w pair msg receiver sender) (\<lambda>w'. Ok (True, s\<lparr>e20_world := w'\<rparr>))
      else if IsNativeERC20 pair then bind_outcome (convertERC20NativeToken E w pair msg receiver sender) (\<lambda>w'. Ok (True, s\<lparr>e20_world := w'\<rparr>))
      else Err ''undefined owner of contract pair'')))"

subsection \<open>The hook on transactions\<close>

text \<open>
  What the module takes for a transfer to it: tokens it owns are burned, for foreign ones coins are
  minted.
\<close>

definition hook_take :: "'w erc20_env \<Rightarrow> Address \<Rightarrow> TokenPair \<Rightarrow> int \<Rightarrow> coins \<Rightarrow> 'w \<Rightarrow> (string, unit) outcome \<times> 'w" where
  "hook_take E contract pair tokens coins w =
     (case ContractOwner pair of
        OWNER_MODULE \<Rightarrow>
          (case CallEVM E w (eModuleAddress E) contract True (abiBurn tokens) of (r, w') \<Rightarrow> (bind_outcome r (\<lambda>_. Ok ()), w'))
      | OWNER_EXTERNAL \<Rightarrow>
          (case ebMintCoins E w e20_ModuleName coins of Ok w' \<Rightarrow> (Ok (), w') | Err e \<Rightarrow> (Err e, w) | Panic \<Rightarrow> (Panic, w))
      | OWNER_UNSPECIFIED \<Rightarrow> (Err ''undefined owner of contract pair'', w))"

text \<open>
  Where the code logs a failure and continues, what was done so far stays: the state after the call
  or after the minting.
\<close>

definition hook_convert :: "'w erc20_env \<Rightarrow> Address \<Rightarrow> TokenPair \<Rightarrow> int \<Rightarrow> Address \<Rightarrow> 'w \<Rightarrow> (string, 'w) outcome" where
  "hook_convert E contract pair tokens from_addr w =
     bind_outcome (option_outcome (NewIntFromBigInt (elib E) tokens)) (\<lambda>amount.
     let coins = [(Denom pair, amount)]; (r, w1) = hook_take E contract pair tokens coins w
     in case r of
          Panic \<Rightarrow> Panic
        | Err e \<Rightarrow> Ok w1
        | Ok _ \<Rightarrow>
            (case ebSendCoinsFromModuleToAccount E w1 e20_ModuleName (AddressBytes from_addr) coins of
               Panic \<Rightarrow> Panic | Err e \<Rightarrow> Ok w1 | Ok w2 \<Rightarrow> Ok w2))"

text \<open>One log of the receipt; addresses are the last 20 bytes of their topics.\<close>

definition transfer_log :: "'w erc20_env \<Rightarrow> ethLog \<Rightarrow> 'w E20 \<Rightarrow> (string, 'w E20) outcome" where
  "transfer_log E log s =
     (case log_Topics log of
        [eventID, from_topic, to_topic] \<Rightarrow>
          if eEventByID E eventID \<noteq> Some ''Transfer'' then Ok s
          else (case eUnpackTransfer E (log_Data log) of
            None \<Rightarrow> Ok s
          | Some tokens \<Rightarrow>
              if tokens \<le> 0 then Ok s
              else
                let pid = GetERC20Map s (log_Address log) in
                if length pid = 0 then Ok s
                else case GetTokenPair E s pid of
                  None \<Rightarrow> Ok s
                | Some pair \<Rightarrow>
                    if word_of_int (uint to_topic) \<noteq> eModuleAddress E then Ok s
                    else if \<not> Enabled pair then Ok s
                    else bind_outcome (hook_convert E (log_Address log) pair tokens (word_of_int (uint from_topic)) (e20_world s)) (\<lambda>w.
                         Ok (s\<lparr>e20_world := w\<rparr>)))
      | _ \<Rightarrow> Ok s)"

definition e20_PostTxProcessing :: "'w erc20_env \<Rightarrow> 'w E20 \<Rightarrow> Receipt \<Rightarrow> (string, 'w E20) outcome" where
  "e20_PostTxProcessing E s receipt =
     (let params = e20_GetParams s in
      if \<not> EnableErc20 params \<or> \<not> EnableEVMHook params then Ok s
      else fold_outcome (transfer_log E) (rc_Logs receipt) s)"

subsection \<open>Genesis\<close>

record e20_GenesisState =
  gs_Params :: e20_Params
  TokenPairs :: "TokenPair list"

fun pairs_Validate :: "'w erc20_env \<Rightarrow> string list \<Rightarrow> string list \<Rightarrow> TokenPair list \<Rightarrow> (string, unit) outcome" where
  "pairs_Validate E seenErc20 seenDenom [] = Ok ()"
| "pairs_Validate E seenErc20 seenDenom (b # bs) =
     (if Erc20Address b \<in> set seenErc20 then Err ''token ERC20 contract duplicated on genesis''
      else if Denom b \<in> set seenDenom then Err ''coin denomination duplicated on genesis''
      else bind_outcome (tp_Validate E b) (\<lambda>_. pairs_Validate E (Erc20Address b # seenErc20) (Denom b # seenDenom) bs))"

definition e20_GenesisValidate :: "'w erc20_env \<Rightarrow> e20_GenesisState \<Rightarrow> (string, unit) outcome" where
  "e20_GenesisValidate E gs = pairs_Validate E [] [] (TokenPairs gs)"

text \<open>The module account must exist.\<close>

definition e20_InitGenesis :: "'w erc20_env \<Rightarrow> bool \<Rightarrow> 'w E20 \<Rightarrow> e20_GenesisState \<Rightarrow> (string, 'w E20) outcome" where
  "e20_InitGenesis E module_account s data =
     (case e20_SetParams s (gs_Params data) of
        Ok s1 \<Rightarrow>
          if \<not> module_account then Panic
          else Ok (fold (\<lambda>pair s. SetERC20Map (SetDenomMap (SetTokenPair E s pair) (Denom pair) (GetID E pair))
                    (GetERC20Contract E pair) (GetID E pair)) (TokenPairs data) s1)
      | _ \<Rightarrow> Panic)"

definition e20_ExportGenesis :: "'w erc20_env \<Rightarrow> 'w E20 \<Rightarrow> e20_GenesisState" where
  "e20_ExportGenesis E s = \<lparr>gs_Params = e20_GetParams s, TokenPairs = GetTokenPairs E s\<rparr>"
definition e20_DefaultParams :: e20_Params where
  "e20_DefaultParams = \<lparr>EnableErc20 = True, EnableEVMHook = True\<rparr>"

definition e20_DefaultGenesisState :: e20_GenesisState where
  "e20_DefaultGenesisState = \<lparr>gs_Params = e20_DefaultParams, TokenPairs = []\<rparr>"

text \<open>The migration writes the parameters of the legacy subspace that are true.\<close>

definition e20_MigrateStore :: "'w E20 \<Rightarrow> e20_Params \<Rightarrow> (string, 'w E20) outcome" where
  "e20_MigrateStore s params =
     (let store1 = (if EnableErc20 params then fmupd ParamStoreKeyEnableErc20 [1] (e20_store s) else e20_store s);
          store2 = (if EnableEVMHook params then fmupd ParamStoreKeyEnableEVMHook [1] store1 else store1)
      in Ok (s\<lparr>e20_store := store2\<rparr>))"

subsection \<open>Messages and queries\<close>

datatype e20_Msg =
  ConvertCoinMsg MsgConvertCoin
| ConvertERC20Msg MsgConvertERC20
| UpdateParamsMsg string e20_Params
| OtherMsg

definition UpdateParams_ValidateBasic :: "'w erc20_env \<Rightarrow> string \<Rightarrow> e20_Params \<Rightarrow> (string, unit) outcome" where
  "UpdateParams_ValidateBasic E authority params = bind_outcome (eAccAddressFromBech32 E authority) (\<lambda>_. Ok ())"

definition ConvertCoin_GetSigners :: "'w erc20_env \<Rightarrow> MsgConvertCoin \<Rightarrow> (string, bytes list) outcome" where
  "ConvertCoin_GetSigners E msg = bind_outcome (must_address E (mc_Sender msg)) (\<lambda>a. Ok [a])"

definition ConvertERC20_GetSigners :: "'w erc20_env \<Rightarrow> MsgConvertERC20 \<Rightarrow> bytes list" where
  "ConvertERC20_GetSigners E msg = [AddressBytes (HexToAddress (elib E) (me_Sender msg))]"

definition UpdateParams_GetSigners :: "'w erc20_env \<Rightarrow> string \<Rightarrow> (string, bytes list) outcome" where
  "UpdateParams_GetSigners E authority = bind_outcome (must_address E authority) (\<lambda>a. Ok [a])"

definition e20_NewHandler :: "'w erc20_env \<Rightarrow> 'w E20 \<Rightarrow> e20_Msg \<Rightarrow> (string, 'w E20) outcome" where
  "e20_NewHandler E s msg =
     (case msg of
        ConvertCoinMsg m \<Rightarrow> bind_outcome (ConvertCoin E s m) (\<lambda>(_, s'). Ok s')
      | ConvertERC20Msg m \<Rightarrow> bind_outcome (ConvertERC20 E s m) (\<lambda>(_, s'). Ok s')
      | UpdateParamsMsg authority params \<Rightarrow> e20_UpdateParams E s authority params
      | OtherMsg \<Rightarrow> Err ''unrecognized erc20 message type'')"

definition query_TokenPair :: "'w erc20_env \<Rightarrow> 'w E20 \<Rightarrow> string option \<Rightarrow> (string, TokenPair) outcome" where
  "query_TokenPair E s req =
     (case req of
        None \<Rightarrow> Err ''empty request''
      | Some token \<Rightarrow>
          if \<not> is_ok (ValidateAddress (elib E) token) \<and> \<not> is_ok (eValidateDenom E token) then Err ''invalid format for token''
          else
            let pid = GetTokenPairID E s token in
            if length pid = 0 then Err ''token pair not found''
            else case GetTokenPair E s pid of None \<Rightarrow> Err ''token pair not found'' | Some pair \<Rightarrow> Ok pair)"

text \<open>The pagination of the SDK selects from the values under the prefix; it is an argument.\<close>

definition query_TokenPairs ::
  "'w erc20_env \<Rightarrow> ('p \<Rightarrow> TokenPair list \<Rightarrow> (string, TokenPair list \<times> 'r) outcome) \<Rightarrow> 'w E20 \<Rightarrow> 'p option \<Rightarrow> (string, TokenPair list \<times> 'r) outcome" where
  "query_TokenPairs E paginate s req =
     (case req of None \<Rightarrow> Err ''empty request'' | Some pagination \<Rightarrow> paginate pagination (GetTokenPairs E s))"

end
