(* ===== verification/Erc20_Ibc.thy ===== *)
theory Erc20_Ibc
  imports Erc20
begin

text \<open>
  Tokens that leave and enter over IBC: the callbacks of \<open>x/erc20/keeper/ibc_callbacks.go\<close> with the
  middleware \<open>x/erc20/ibc_middleware.go\<close>, the helpers of \<open>ibc/utils.go\<close>, and the transfer message of
  \<open>x/ibc/transfer\<close>. The transfer module of ibc-go, its JSON codec and its denomination traces are
  parameters. An error acknowledgement makes IBC discard what the callback wrote, so the state is
  returned as it was. Gas configurations and telemetry are left out.
\<close>

record FungibleTokenPacketData =
  fd_Denom :: string
  fd_Amount :: string
  fd_Sender :: string
  fd_Receiver :: string

record Packet =
  SourcePort :: string
  SourceChannel :: string
  DestinationPort :: string
  DestinationChannel :: string
  pk_Data :: bytes

datatype Acknowledgement = AckResult bytes | AckError string

fun ack_Success :: "Acknowledgement \<Rightarrow> bool" where
  "ack_Success (AckResult r) \<longleftrightarrow> True"
| "ack_Success (AckError e) \<longleftrightarrow> False"

record MsgTransfer =
  mt_Token :: "string \<times> int"
  mt_Sender :: string
  mt_Receiver :: string

text \<open>
  \<open>iParsePath\<close> and \<open>iIBCDenom\<close> are the path and the voucher denomination of a parsed trace;
  \<open>iAnyAddress\<close> parses an address of any chain.
\<close>

record 'w ibc_env =
  iUnmarshalData :: "bytes \<Rightarrow> FungibleTokenPacketData option"
  iUnmarshalAck :: "bytes \<Rightarrow> Acknowledgement option"
  iAnyAddress :: "string \<Rightarrow> (string, bytes) outcome"
  iNewIntFromString :: "string \<Rightarrow> int option"
  iReceiverChainIsSource :: "string \<Rightarrow> string \<Rightarrow> string \<Rightarrow> bool"
  iGetDenomPrefix :: "string \<Rightarrow> string \<Rightarrow> string"
  iParsePath :: "string \<Rightarrow> string"
  iIBCDenom :: "string \<Rightarrow> string"
  iModuleOnRecv :: "'w \<Rightarrow> Packet \<Rightarrow> Acknowledgement \<times> 'w"
  iModuleOnAck :: "'w \<Rightarrow> Packet \<Rightarrow> bytes \<Rightarrow> (string, 'w) outcome"
  iModuleOnTimeout :: "'w \<Rightarrow> Packet \<Rightarrow> (string, 'w) outcome"
  iTransfer :: "'w \<Rightarrow> MsgTransfer \<Rightarrow> (string, uint64 \<times> 'w) outcome"

subsection \<open>Helpers\<close>

definition GetTransferSenderRecipient :: "'w ibc_env \<Rightarrow> Packet \<Rightarrow> (string, bytes \<times> bytes \<times> string \<times> string) outcome" where
  "GetTransferSenderRecipient I packet =
     (case iUnmarshalData I (pk_Data packet) of
        None \<Rightarrow> Err ''cannot unmarshal ICS-20 transfer packet data''
      | Some data \<Rightarrow>
          bind_outcome (iAnyAddress I (fd_Sender data)) (\<lambda>sender.
          bind_outcome (iAnyAddress I (fd_Receiver data)) (\<lambda>recipient.
          Ok (sender, recipient, fd_Sender data, fd_Receiver data))))"

definition GetTransferAmount :: "'w ibc_env \<Rightarrow> Packet \<Rightarrow> (string, string) outcome" where
  "GetTransferAmount I packet =
     (case iUnmarshalData I (pk_Data packet) of
        None \<Rightarrow> Err ''cannot unmarshal ICS-20 transfer packet data''
      | Some data \<Rightarrow>
          if fd_Amount data = [] then Err ''empty amount''
          else if iNewIntFromString I (fd_Amount data) = None then Err ''invalid amount''
          else Ok (fd_Amount data))"

text \<open>The amount is nil if the text is no number.\<close>

definition GetReceivedCoin ::
  "'w ibc_env \<Rightarrow> string \<Rightarrow> string \<Rightarrow> string \<Rightarrow> string \<Rightarrow> string \<Rightarrow> string \<Rightarrow> string \<times> int option" where
  "GetReceivedCoin I srcPort srcChannel dstPort dstChannel rawDenom rawAmt =
     (let amount = iNewIntFromString I rawAmt in
      if iReceiverChainIsSource I srcPort srcChannel rawDenom then
        let unprefixedDenom = drop (length (iGetDenomPrefix I srcPort srcChannel)) rawDenom
        in (if iParsePath I unprefixedDenom \<noteq> [] then iIBCDenom I unprefixedDenom else unprefixedDenom, amount)
      else (iIBCDenom I (iGetDenomPrefix I dstPort dstChannel @ rawDenom), amount))"

definition GetSentCoin :: "'w ibc_env \<Rightarrow> string \<Rightarrow> string \<Rightarrow> string \<times> int option" where
  "GetSentCoin I rawDenom rawAmt = (iIBCDenom I rawDenom, iNewIntFromString I rawAmt)"

subsection \<open>Callbacks\<close>

text \<open>The last step of \<open>OnRecvPacket\<close>: the recipient's whole balance is converted.\<close>

definition recv_convert ::
  "'w erc20_env \<Rightarrow> 'w E20 \<Rightarrow> Acknowledgement \<Rightarrow> string \<Rightarrow> bytes \<Rightarrow> (string, Acknowledgement \<times> 'w E20) outcome" where
  "recv_convert E s ack denom recipient =
     (case ConvertCoin E s (NewMsgConvertCoin E (denom, ebGetBalance E (e20_world s) recipient denom)
             (word_of_nat (be_nat recipient)) recipient) of
        Panic \<Rightarrow> Panic
      | Err e \<Rightarrow> Ok (AckError e, s)
      | Ok (_, s') \<Rightarrow> Ok (ack, s'))"

definition keeper_OnRecvPacket ::
  "'w erc20_env \<Rightarrow> 'w ibc_env \<Rightarrow> 'w E20 \<Rightarrow> Packet \<Rightarrow> Acknowledgement \<Rightarrow> (string, Acknowledgement \<times> 'w E20) outcome" where
  "keeper_OnRecvPacket E I s packet ack =
     (case iUnmarshalData I (pk_Data packet) of
        None \<Rightarrow> Ok (AckError ''cannot unmarshal ICS-20 transfer packet data'', s)
      | Some data \<Rightarrow>
          if \<not> IsERC20Enabled s then Ok (ack, s)
          else (case GetTransferSenderRecipient I packet of
            Panic \<Rightarrow> Panic
          | Err e \<Rightarrow> Ok (AckError e, s)
          | Ok (sender, recipient, _, _) \<Rightarrow>
              if eIsModuleAccount E (e20_world s) sender then Ok (ack, s)
              else
                let denom = fst (GetReceivedCoin I (SourcePort packet) (SourceChannel packet) (DestinationPort packet)
                      (DestinationChannel packet) (fd_Denom data) (fd_Amount data));
                    pairID = GetTokenPairID E s denom
                in if denom = esBondDenom E (e20_world s) then Ok (ack, s)
                   else if length pairID = 0 then Ok (ack, s)
                   else if \<not> (case GetTokenPair E s pairID of None \<Rightarrow> False | Some pair \<Rightarrow> Enabled pair) then Ok (ack, s)
                   else recv_convert E s ack denom recipient))"

definition ConvertCoinToERC20FromPacket ::
  "'w erc20_env \<Rightarrow> 'w ibc_env \<Rightarrow> 'w E20 \<Rightarrow> FungibleTokenPacketData \<Rightarrow> (string, 'w E20) outcome" where
  "ConvertCoinToERC20FromPacket E I s data =
     bind_outcome (eAccAddressFromBech32 E (fd_Sender data)) (\<lambda>sender.
     if eIsModuleAccount E (e20_world s) sender then Ok s
     else
       let (denom, amount) = GetSentCoin I (fd_Denom data) (fd_Amount data)
       in if denom = esBondDenom E (e20_world s) then Ok s
          else if \<not> EnableErc20 (e20_GetParams s) \<or> \<not> IsDenomRegistered s denom then Ok s
          else bind_outcome (option_outcome amount) (\<lambda>v.
               bind_outcome (ConvertCoin E s (NewMsgConvertCoin E (denom, v) (word_of_nat (be_nat sender)) sender)) (\<lambda>(_, s').
               Ok s')))"

definition keeper_OnAcknowledgementPacket ::
  "'w erc20_env \<Rightarrow> 'w ibc_env \<Rightarrow> 'w E20 \<Rightarrow> FungibleTokenPacketData \<Rightarrow> Acknowledgement \<Rightarrow> (string, 'w E20) outcome" where
  "keeper_OnAcknowledgementPacket E I s data ack =
     (case ack of AckError _ \<Rightarrow> ConvertCoinToERC20FromPacket E I s data | AckResult _ \<Rightarrow> Ok s)"

definition keeper_OnTimeoutPacket ::
  "'w erc20_env \<Rightarrow> 'w ibc_env \<Rightarrow> 'w E20 \<Rightarrow> FungibleTokenPacketData \<Rightarrow> (string, 'w E20) outcome" where
  "keeper_OnTimeoutPacket E I s data = ConvertCoinToERC20FromPacket E I s data"

subsection \<open>The middleware\<close>

definition OnRecvPacket ::
  "'w erc20_env \<Rightarrow> 'w ibc_env \<Rightarrow> 'w E20 \<Rightarrow> Packet \<Rightarrow> (string, Acknowledgement \<times> 'w E20) outcome" where
  "OnRecvPacket E I s packet =
     (let (ack, w) = iModuleOnRecv I (e20_world s) packet; s1 = s\<lparr>e20_world := w\<rparr>
      in if \<not> ack_Success ack then Ok (ack, s1) else keeper_OnRecvPacket E I s1 packet ack)"

definition OnAcknowledgementPacket ::
  "'w erc20_env \<Rightarrow> 'w ibc_env \<Rightarrow> 'w E20 \<Rightarrow> Packet \<Rightarrow> bytes \<Rightarrow> (string, 'w E20) outcome" where
  "OnAcknowledgementPacket E I s packet acknowledgement =
     (case iUnmarshalAck I acknowledgement of
        None \<Rightarrow> Err ''cannot unmarshal ICS-20 transfer packet acknowledgement''
      | Some ack \<Rightarrow>
          (case iUnmarshalData I (pk_Data packet) of
             None \<Rightarrow> Err ''cannot unmarshal ICS-20 transfer packet data''
           | Some data \<Rightarrow>
               bind_outcome (iModuleOnAck I (e20_world s) packet acknowledgement) (\<lambda>w.
               keeper_OnAcknowledgementPacket E I (s\<lparr>e20_world := w\<rparr>) data ack)))"

definition OnTimeoutPacket :: "'w erc20_env \<Rightarrow> 'w ibc_env \<Rightarrow> 'w E20 \<Rightarrow> Packet \<Rightarrow> (string, 'w E20) outcome" where
  "OnTimeoutPacket E I s packet =
     (case iUnmarshalData I (pk_Data packet) of
        None \<Rightarrow> Err ''cannot unmarshal ICS-20 transfer packet data''
      | Some data \<Rightarrow>
          bind_outcome (iModuleOnTimeout I (e20_world s) packet) (\<lambda>w.
          keeper_OnTimeoutPacket E I (s\<lparr>e20_world := w\<rparr>) data))"

subsection \<open>Transfers\<close>

definition TrimPrefix :: "string \<Rightarrow> string \<Rightarrow> string" where
  "TrimPrefix s pre = (if take (length pre) s = pre then drop (length pre) s else s)"

definition regular_transfer :: "'w ibc_env \<Rightarrow> 'w E20 \<Rightarrow> MsgTransfer \<Rightarrow> (string, uint64 \<times> 'w E20) outcome" where
  "regular_transfer I s msg = bind_outcome (iTransfer I (e20_world s) msg) (\<lambda>(res, w). Ok (res, s\<lparr>e20_world := w\<rparr>))"

text \<open>Only the difference to the balance in coins is converted.\<close>

definition ibc_Transfer :: "'w erc20_env \<Rightarrow> 'w ibc_env \<Rightarrow> 'w E20 \<Rightarrow> MsgTransfer \<Rightarrow> (string, uint64 \<times> 'w E20) outcome" where
  "ibc_Transfer E I s msg =
     (let denom = TrimPrefix (fst (mt_Token msg)) (e20_ModuleName @ ''/''); pairID = GetTokenPairID E s denom in
      if length pairID = 0 then regular_transfer I s msg
      else case GetTokenPair E s pairID of
        None \<Rightarrow> regular_transfer I s msg
      | Some pair \<Rightarrow>
          if \<not> Enabled pair then regular_transfer I s msg
          else bind_outcome (must_address E (mt_Sender msg)) (\<lambda>sender.
            if eIsModuleAccount E (e20_world s) sender then regular_transfer I s msg
            else if \<not> IsERC20Enabled s then regular_transfer I s msg
            else
              let msg1 = msg\<lparr>mt_Token := (Denom pair, snd (mt_Token msg))\<rparr>;
                  balance = ebGetBalance E (e20_world s) sender (Denom pair)
              in if balance \<ge> snd (mt_Token msg) then regular_transfer I s msg1
                 else bind_outcome (ConvertERC20 E s (NewMsgConvertERC20 E (snd (mt_Token msg) - balance) sender
                          (GetERC20Contract E pair) (word_of_nat (be_nat sender)))) (\<lambda>(_, s1).
                      regular_transfer I s1 msg1)))"

end
