(* ===== verification/Evm_Coins.thy ===== *)
theory Evm_Coins
  imports Evm_Transition_Laws
begin

text \<open>
  What the EVM leaves of the bank: every write of the state database goes through \<open>SetBalance\<close>, which
  mints and burns coins of the EVM denomination only. So a message changes no balance in another
  denomination, which the conversions of \<open>x/erc20\<close> rely on.
\<close>

definition other_coins :: "('b, 'r, 'cc) sdk \<Rightarrow> 'r Ctx \<Rightarrow> 'r Ctx \<Rightarrow> bool" where
  "other_coins D c c' \<longleftrightarrow> GetParams D c' = GetParams D c \<and>
     (\<forall>a d. d \<noteq> EvmDenom (GetParams D c) \<longrightarrow> bal_of D c' a d = bal_of D c a d)"

lemma other_coins_refl [simp]: "other_coins D c c"
  by (simp add: other_coins_def)

lemma other_coins_trans: "other_coins D c c1 \<Longrightarrow> other_coins D c1 c2 \<Longrightarrow> other_coins D c c2"
  by (simp add: other_coins_def)

lemma other_coins_frame:
  assumes "store_Get (kvStore c') KeyPrefixParams = store_Get (kvStore c) KeyPrefixParams"
    "ssGetParamSetIfExists D (modules c') = ssGetParamSetIfExists D (modules c)"
    "bkGetBalance D (modules c') = bkGetBalance D (modules c)"
  shows "other_coins D c c'"
  using GetParams_cong [OF assms(1,2)] assms(3) by (simp add: other_coins_def)

lemma other_coins_SetBalance:
  assumes "bank_laws D m" "acc_of D c a \<noteq> None" "keeper_SetBalance D c a (Some n) = Ok c'"
  shows "other_coins D c c'"
  using SetBalance_moves [OF assms] SetBalance_effect(2) [OF assms]
  by (auto simp: other_coins_def moves_def credit_def)

lemma other_coins_SetAccount:
  assumes acc: "account_laws D adr" and bank: "bank_laws D m" and ok: "keeper_SetAccount D c a account = Ok c'"
  shows "other_coins D c c'"
proof -
  let ?A = "AddressBytes a"
  obtain acct r0 where ar: "(case akGetAccount D (modules c) ?A of
      Some acct \<Rightarrow> (acct, modules c) | None \<Rightarrow> akNewAccountWithAddress D (modules c) ?A) = (acct, r0)"
    by fastforce
  have r0: "adr (base_of acct) = ?A" "bkGetBalance D r0 = bkGetBalance D (modules c)"
    "ssGetParamSetIfExists D r0 = ssGetParamSetIfExists D (modules c)"
    using ar acc by (auto simp: account_laws_def split: option.splits) (metis fst_conv snd_conv)+
  obtain b0 h where b0: "SetSequence D (base_of acct) (Nonce account) = Ok b0"
    and ok': "keeper_SetBalance D (c\<lparr>modules := akSetAccount D r0 (SetCodeHash (with_base acct b0) h)\<rparr>)
      a (Balance account) = Ok c'"
    using ok by (auto simp: keeper_SetAccount_def Let_def ar)
  define c1 where "c1 = c\<lparr>modules := akSetAccount D r0 (SetCodeHash (with_base acct b0) h)\<rparr>"
  have "base_of (SetCodeHash (with_base acct b0) h) = b0" by (cases acct) simp_all
  moreover have "adr b0 = ?A" using acc b0 r0(1) by (auto simp: account_laws_def)
  ultimately have "acc_of D c1 a \<noteq> None" using acc by (simp add: account_laws_def c1_def)
  moreover obtain n where "Balance account = Some n"
    using ok' by (cases "Balance account") (auto simp: keeper_SetBalance_def)
  ultimately have "other_coins D c1 c'" using other_coins_SetBalance [OF bank] ok' by (simp add: c1_def)
  moreover have "other_coins D c c1"
    using acc r0 by (intro other_coins_frame) (simp_all add: account_laws_def c1_def)
  ultimately show ?thesis using other_coins_trans by blast
qed

lemma other_coins_DeleteAccount:
  assumes acc: "account_laws D adr" and bank: "bank_laws D m" and ok: "keeper_DeleteAccount D c a = Ok c'"
  shows "other_coins D c c'"
proof (cases "acc_of D c a")
  case None
  with ok show ?thesis by (simp add: keeper_DeleteAccount_def)
next
  case (Some acct)
  then obtain b h c1 where acct: "acct = EthAccount b h"
    and c1: "keeper_SetBalance D c a (Some 0) = Ok c1"
    "c' = (foldl (\<lambda>s p. keeper_SetState s a (fst p) []) c1 (storage_pairs c1 a))
      \<lparr>modules := akRemoveAccount D (modules c1) acct\<rparr>"
    using ok by (cases acct)
      (auto simp: keeper_DeleteAccount_def keeper_ForEachStorage_def each_pair_delete delete_states_frame Let_def)
  have "other_coins D c1 c'"
    using acc by (intro other_coins_frame) (simp_all add: account_laws_def c1(2) delete_states_frame)
  moreover have "other_coins D c c1" using other_coins_SetBalance [OF bank _ c1(1)] Some by simp
  ultimately show ?thesis using other_coins_trans by blast
qed

lemma other_coins_storage: "other_coins D c (commit_storage (evm_env D) obj keys c)"
proof (induction keys arbitrary: c)
  case (Cons k keys)
  have "other_coins D c (keeper_SetState c a k v)" for a v by (intro other_coins_frame) simp_all
  with Cons show ?case by (auto simp: Let_def intro: other_coins_trans)
qed simp

lemma other_coins_commit_object:
  assumes acc: "account_laws D adr" and bank: "bank_laws D m" and ok: "commit_object (evm_env D) obj c = Ok c'"
  shows "other_coins D c c'"
proof (cases "suicided obj")
  case True
  with ok other_coins_DeleteAccount [OF acc bank] show ?thesis by (auto simp: commit_object_def)
next
  case False
  let ?c1 = "case so_code obj of
      Some code \<Rightarrow> if dirtyCode obj then keeper_SetCode c (so_codeHash obj) code else c | None \<Rightarrow> c"
  have "other_coins D c ?c1" by (intro other_coins_frame) (simp_all split: option.splits)
  moreover obtain c2 where "keeper_SetAccount D ?c1 (so_address obj) (so_account obj) = Ok c2"
    "c' = commit_storage (evm_env D) obj (SortedKeys (dirtyStorage obj)) c2"
    using commit_object_live [OF False ok] by blast
  ultimately show ?thesis
    using other_coins_SetAccount [OF acc bank] other_coins_storage other_coins_trans by metis
qed

lemma other_coins_Commit:
  assumes acc: "account_laws D adr" and bank: "bank_laws D m"
    and inv: "db_inv (evm_env D) c t db" and ok: "Commit db = Ok db1"
  shows "other_coins D c (ctx db1)"
proof (rule fold_outcome_invariant [where P = "other_coins D c", OF other_coins_refl _ Commit_fold [OF inv ok]])
  fix a c1 c2
  assume "other_coins D c c1" and step: "commit_address db a c1 = Ok c2"
  moreover have "keeper db = evm_env D" using inv by (simp add: db_inv_def unwinding_def)
  ultimately show "other_coins D c c2"
    using other_coins_commit_object [OF acc bank] other_coins_trans
    by (cases "fmlookup (stateObjects db) a") (fastforce simp: commit_address_def)+
qed

lemma message_other_coins:
  assumes "evm_laws X" "account_laws (xsdk X) adr" "bank_laws (xsdk X) m"
    and ok: "ApplyMessageWithConfig X c msg commit cfg t = Ok (res, c')"
  shows "other_coins (xsdk X) c c'"
proof -
  obtain cs db where "db_run cs (New c (evm_env (xsdk X)) t) = Some db"
    "if commit then (\<exists>db1. Commit db = Ok db1 \<and> c' = ctx db1) else c' = c"
    using applied_message_run [OF assms(1) ok] by blast
  then show ?thesis using evm.run_inv other_coins_Commit [OF assms(2,3)] by (cases commit) fastforce+
qed


lemma demo_message_applies: "is_ok (ApplyMessage demo_chain funded demo_msg True)"
  by code_simp


end
