(* ===== verification/Erc20_Laws.thy ===== *)
theory Erc20_Laws
  imports Erc20_Ibc Evm_Coins Evm_Fees_Laws
begin

text \<open>
  Properties of \<open>x/erc20\<close>. The three maps of the store refine a set of token pairs, one to one between
  denominations and contracts; every operation keeps this, with one exception (a coin whose name
  differs from its base denomination can be registered twice). A conversion that succeeds moves as
  many coins one way as tokens the other.
\<close>

subsection \<open>The store as a set of pairs\<close>

lemma bytes_of_inject [simp]: "bytes_of s = bytes_of t \<longleftrightarrow> s = t"
proof -
  have "(word_of_nat (of_char c) :: byte) = word_of_nat (of_char d) \<longleftrightarrow> c = d" for c d :: char
    by (simp add: word_unat_eq_iff unat_of_nat)
  then show ?thesis unfolding bytes_of_def by (intro inj_map_eq_map injI) blast
qed

abbreviation pair_at :: "'w E20 \<Rightarrow> bytes \<Rightarrow> bytes option" where
  "pair_at s pid \<equiv> fmlookup (e20_store s) (KeyPrefixTokenPair @ pid)"

abbreviation erc20_at :: "'w E20 \<Rightarrow> Address \<Rightarrow> bytes option" where
  "erc20_at s a \<equiv> fmlookup (e20_store s) (KeyPrefixTokenPairByERC20 @ AddressBytes a)"

abbreviation denom_at :: "'w E20 \<Rightarrow> string \<Rightarrow> bytes option" where
  "denom_at s d \<equiv> fmlookup (e20_store s) (KeyPrefixTokenPairByDenom @ bytes_of d)"

lemmas pair_keys = KeyPrefixTokenPair_def KeyPrefixTokenPairByERC20_def KeyPrefixTokenPairByDenom_def

lemma SetTokenPair_at [simp]:
  "pair_at (SetTokenPair E s p) k = (if k = GetID E p then Some (eMarshal E p) else pair_at s k)"
  "erc20_at (SetTokenPair E s p) a = erc20_at s a" "denom_at (SetTokenPair E s p) d = denom_at s d"
  by (auto simp: SetTokenPair_def pair_keys)

lemma SetERC20Map_at [simp]:
  "pair_at (SetERC20Map s a pid) k = pair_at s k" "denom_at (SetERC20Map s a pid) d = denom_at s d"
  "erc20_at (SetERC20Map s a pid) b = (if b = a then Some pid else erc20_at s b)"
  by (auto simp: SetERC20Map_def pair_keys)

lemma SetDenomMap_at [simp]:
  "pair_at (SetDenomMap s d pid) k = pair_at s k" "erc20_at (SetDenomMap s d pid) a = erc20_at s a"
  "denom_at (SetDenomMap s d pid) e = (if e = d then Some pid else denom_at s e)"
  by (auto simp: SetDenomMap_def pair_keys)

lemma DeleteTokenPair_at [simp]:
  "pair_at (DeleteTokenPair E s p) k = (if k = GetID E p then None else pair_at s k)"
  "erc20_at (DeleteTokenPair E s p) a = (if a = GetERC20Contract E p then None else erc20_at s a)"
  "denom_at (DeleteTokenPair E s p) d = (if d = Denom p then None else denom_at s d)"
  by (auto simp: DeleteTokenPair_def deleteTokenPair_def deleteERC20Map_def deleteDenomMap_def pair_keys)

text \<open>The abstraction, and when the two indices agree with it.\<close>

definition pairs :: "'w erc20_env \<Rightarrow> 'w E20 \<Rightarrow> TokenPair set" where
  "pairs E s = {p. pair_at s (GetID E p) = Some (eMarshal E p)}"

definition pairs_ok :: "'w erc20_env \<Rightarrow> 'w E20 \<Rightarrow> bool" where
  "pairs_ok E s \<longleftrightarrow>
     (\<forall>k b. pair_at s k = Some b \<longrightarrow> (\<exists>p. b = eMarshal E p \<and> k = GetID E p)) \<and>
     (\<forall>a k. erc20_at s a = Some k \<longleftrightarrow> (\<exists>p \<in> pairs E s. GetERC20Contract E p = a \<and> GetID E p = k)) \<and>
     (\<forall>d k. denom_at s d = Some k \<longleftrightarrow> (\<exists>p \<in> pairs E s. Denom p = d \<and> GetID E p = k))"

text \<open>No pair in the store has the hash of this one, unless address and denomination agree.\<close>

definition collision_free :: "'w erc20_env \<Rightarrow> 'w E20 \<Rightarrow> TokenPair \<Rightarrow> bool" where
  "collision_free E s p \<longleftrightarrow>
     (\<forall>q \<in> pairs E s. GetID E q = GetID E p \<longrightarrow> Erc20Address q = Erc20Address p \<and> Denom q = Denom p)"

lemma pairs_cong: "e20_store s' = e20_store s \<Longrightarrow> pairs E s' = pairs E s \<and> pairs_ok E s' = pairs_ok E s"
  by (simp add: pairs_def pairs_ok_def)

lemma pairs_world [simp]:
  "pairs E (s\<lparr>e20_world := w\<rparr>) = pairs E s" "pairs_ok E (s\<lparr>e20_world := w\<rparr>) = pairs_ok E s"
  by (simp_all add: pairs_def pairs_ok_def)

lemma SetParams_at:
  assumes "e20_SetParams s ps = Ok s'"
  shows "pair_at s' k = pair_at s k" "erc20_at s' a = erc20_at s a" "denom_at s' d = denom_at s d"
proof -
  have keep: "fmlookup (e20_store s') x = fmlookup (e20_store s) x"
    if "x \<noteq> ParamStoreKeyEnableErc20" "x \<noteq> ParamStoreKeyEnableEVMHook" for x
    using assms that by (auto simp: e20_SetParams_def setERC20Enabled_def setEnableEVMHook_def)
  show "pair_at s' k = pair_at s k" "erc20_at s' a = erc20_at s a" "denom_at s' d = denom_at s d"
    by (rule keep; simp add: pair_keys ParamStoreKeyEnableErc20_def ParamStoreKeyEnableEVMHook_def bytes_of_def)+
qed

lemma pairs_ok_params:
  "e20_SetParams s ps = Ok s' \<Longrightarrow> pairs E s' = pairs E s \<and> pairs_ok E s' = pairs_ok E s"
  by (simp add: pairs_ok_def pairs_def SetParams_at)

lemma GetID_toggled [simp]: "GetID E (p\<lparr>Enabled := b\<rparr>) = GetID E p"
  by (simp add: GetID_def)

lemma GetERC20Contract_toggled [simp]: "GetERC20Contract E (p\<lparr>Enabled := b\<rparr>) = GetERC20Contract E p"
  by (simp add: GetERC20Contract_def)

locale pair_store =
  fixes E :: "'w erc20_env"
  assumes unmarshal [simp]: "eUnmarshal E (eMarshal E p) = p"
    and marshal_nonempty [simp]: "eMarshal E p \<noteq> []"
    and sum_nonempty [simp]: "eSum E b \<noteq> []"
    and lib: "lib_laws (elib E)"
begin

lemma marshal_inject [simp]: "eMarshal E p = eMarshal E q \<longleftrightarrow> p = q"
  by (metis unmarshal)

lemma id_nonempty [simp]: "GetID E p \<noteq> []"
  by (simp add: GetID_def)

lemma new_pair_contract [simp]: "GetERC20Contract E (NewTokenPair E a d ow) = a"
  using lib by (simp add: GetERC20Contract_def NewTokenPair_def lib_laws_def)

lemma pairs_same_id: "p \<in> pairs E s \<Longrightarrow> q \<in> pairs E s \<Longrightarrow> GetID E p = GetID E q \<Longrightarrow> p = q"
  by (simp add: pairs_def)

lemma pairs_SetTokenPair: "pairs E (SetTokenPair E s p) = insert p {q \<in> pairs E s. GetID E q \<noteq> GetID E p}"
  by (auto simp: pairs_def)

lemma pairs_store_pair: "pairs E (store_pair E s p) = insert p {q \<in> pairs E s. GetID E q \<noteq> GetID E p}"
  by (auto simp: pairs_def store_pair_def)

lemma pairs_DeleteTokenPair: "pairs E (DeleteTokenPair E s p) = {q \<in> pairs E s. GetID E q \<noteq> GetID E p}"
  by (auto simp: pairs_def)

lemma one_to_one:
  assumes "pairs_ok E s" "p \<in> pairs E s" "q \<in> pairs E s"
  shows "Denom p = Denom q \<longleftrightarrow> p = q" "GetERC20Contract E p = GetERC20Contract E q \<longleftrightarrow> p = q"
    "GetID E p = GetID E q \<longleftrightarrow> p = q"
proof -
  show "GetID E p = GetID E q \<longleftrightarrow> p = q" using pairs_same_id [OF assms(2,3)] by blast
  moreover have "denom_at s (Denom p) = Some (GetID E p)" "denom_at s (Denom q) = Some (GetID E q)"
    "erc20_at s (GetERC20Contract E p) = Some (GetID E p)" "erc20_at s (GetERC20Contract E q) = Some (GetID E q)"
    using assms unfolding pairs_ok_def by blast+
  ultimately show "Denom p = Denom q \<longleftrightarrow> p = q" "GetERC20Contract E p = GetERC20Contract E q \<longleftrightarrow> p = q"
    by force+
qed

lemma GetTokenPair_in:
  assumes "pairs_ok E s" "GetTokenPair E s pid = Some p"
  shows "p \<in> pairs E s" "GetID E p = pid"
proof -
  from assms(2) obtain b where b: "pair_at s pid = Some b" "p = eUnmarshal E b"
    by (auto simp: GetTokenPair_def Let_def store_Get_def split: if_splits option.splits)
  with assms(1) obtain q where "b = eMarshal E q" "pid = GetID E q" unfolding pairs_ok_def by blast
  with b show "p \<in> pairs E s" "GetID E p = pid" by (simp_all add: pairs_def)
qed

lemma GetTokenPair_pairs: "p \<in> pairs E s \<Longrightarrow> GetTokenPair E s (GetID E p) = Some p"
  by (simp add: pairs_def GetTokenPair_def Let_def store_Get_def)

end
context pair_store
begin

lemma store_pair_ok:
  assumes ok: "pairs_ok E s" and fresh: "erc20_at s (GetERC20Contract E p) = None" "denom_at s (Denom p) = None"
    and free: "collision_free E s p"
  shows "pairs E (store_pair E s p) = insert p (pairs E s)" "pairs_ok E (store_pair E s p)"
proof -
  have indexed: "denom_at s (Denom q) \<noteq> None" "erc20_at s (GetERC20Contract E q) \<noteq> None" if "q \<in> pairs E s" for q
    using ok that unfolding pairs_ok_def by blast+
  with fresh have new: "Denom q \<noteq> Denom p" "GetERC20Contract E q \<noteq> GetERC20Contract E p" if "q \<in> pairs E s" for q
    using that by metis+
  with free have other: "GetID E q \<noteq> GetID E p" if "q \<in> pairs E s" for q
    using that unfolding collision_free_def by metis
  then show P: "pairs E (store_pair E s p) = insert p (pairs E s)" by (auto simp: pairs_store_pair)
  have at: "pair_at (store_pair E s p) k = (if k = GetID E p then Some (eMarshal E p) else pair_at s k)"
    "erc20_at (store_pair E s p) a = (if a = GetERC20Contract E p then Some (GetID E p) else erc20_at s a)"
    "denom_at (store_pair E s p) d = (if d = Denom p then Some (GetID E p) else denom_at s d)" for k a d
    by (simp_all add: store_pair_def GetERC20Contract_def)
  have "(\<exists>q \<in> insert p (pairs E s). GetERC20Contract E q = a \<and> GetID E q = k) \<longleftrightarrow> erc20_at (store_pair E s p) a = Some k" for a k
    using ok new(2) by (auto simp: at pairs_ok_def)
  moreover have "(\<exists>q \<in> insert p (pairs E s). Denom q = d \<and> GetID E q = k) \<longleftrightarrow> denom_at (store_pair E s p) d = Some k" for d k
    using ok new(1) by (auto simp: at pairs_ok_def)
  ultimately show "pairs_ok E (store_pair E s p)"
    using ok unfolding pairs_ok_def P by (auto simp: at)
qed

lemma DeleteTokenPair_ok:
  assumes ok: "pairs_ok E s" and p: "p \<in> pairs E s"
  shows "pairs E (DeleteTokenPair E s p) = pairs E s - {p}" "pairs_ok E (DeleteTokenPair E s p)"
proof -
  note uniq = one_to_one [OF ok _ p]
  show P: "pairs E (DeleteTokenPair E s p) = pairs E s - {p}" using uniq(3) by (auto simp: pairs_DeleteTokenPair)
  have "(\<exists>q \<in> pairs E s - {p}. GetERC20Contract E q = a \<and> GetID E q = k) \<longleftrightarrow> erc20_at (DeleteTokenPair E s p) a = Some k" for a k
    using ok uniq(2) by (auto simp: pairs_ok_def)
  moreover have "(\<exists>q \<in> pairs E s - {p}. Denom q = d \<and> GetID E q = k) \<longleftrightarrow> denom_at (DeleteTokenPair E s p) d = Some k" for d k
    using ok uniq(1) by (auto simp: pairs_ok_def)
  ultimately show "pairs_ok E (DeleteTokenPair E s p)"
    using ok unfolding pairs_ok_def P by auto
qed

lemma toggle_ok:
  assumes ok: "pairs_ok E s" and p: "p \<in> pairs E s"
  shows "pairs E (SetTokenPair E s (p\<lparr>Enabled := b\<rparr>)) = insert (p\<lparr>Enabled := b\<rparr>) (pairs E s - {p})"
    "pairs_ok E (SetTokenPair E s (p\<lparr>Enabled := b\<rparr>))"
proof -
  let ?p = "p\<lparr>Enabled := b\<rparr>"
  note uniq = one_to_one [OF ok _ p]
  show P: "pairs E (SetTokenPair E s ?p) = insert ?p (pairs E s - {p})" using uniq(3) by (auto simp: pairs_SetTokenPair)
  have same: "(\<exists>q \<in> insert ?p (pairs E s - {p}). Q q) \<longleftrightarrow> (\<exists>q \<in> pairs E s. Q q)" if "Q ?p = Q p" for Q
    using that p by auto
  have "(\<exists>q \<in> insert ?p (pairs E s - {p}). GetERC20Contract E q = a \<and> GetID E q = k) \<longleftrightarrow> erc20_at (SetTokenPair E s ?p) a = Some k" for a k
    using ok by (subst same) (auto simp: pairs_ok_def)
  moreover have "(\<exists>q \<in> insert ?p (pairs E s - {p}). Denom q = d \<and> GetID E q = k) \<longleftrightarrow> denom_at (SetTokenPair E s ?p) d = Some k" for d k
    using ok by (subst same) (auto simp: pairs_ok_def)
  moreover have "\<exists>q. b = eMarshal E q \<and> k = GetID E q" if "pair_at (SetTokenPair E s ?p) k = Some b" for k b
    using that ok unfolding pairs_ok_def by (simp split: if_splits) (metis GetID_toggled)+
  ultimately show "pairs_ok E (SetTokenPair E s ?p)" unfolding pairs_ok_def P by simp
qed

end

subsection \<open>What the operations do to the pairs\<close>

lemma RegisterCoin_Ok:
  assumes "RegisterCoin E s m = Ok (pair, s')"
  obtains w addr where "pair = NewTokenPair E addr (Base m) OWNER_MODULE" "s' = store_pair E (s\<lparr>e20_world := w\<rparr>) pair"
    "\<not> IsDenomRegistered s (md_Name m)"
  using assms by (auto simp: RegisterCoin_def Let_def split: if_splits prod.splits)

lemma RegisterERC20_Ok:
  assumes "RegisterERC20 E s contract = Ok (pair, s')"
  obtains w where "pair = NewTokenPair E contract (CreateDenom (AddressHex (elib E) contract)) OWNER_EXTERNAL"
    "s' = store_pair E (s\<lparr>e20_world := w\<rparr>) pair" "erc20_at s contract = None" "denom_at s (Denom pair) = None"
  using assms
  by (auto simp: RegisterERC20_def CreateCoinMetadata_def IsERC20Registered_def IsDenomRegistered_def NewTokenPair_def Let_def
      split: if_splits prod.splits)

lemma ToggleConversion_Ok:
  assumes "ToggleConversion E s token = Ok (pair, s')"
  obtains p where "GetTokenPair E s (GetTokenPairID E s token) = Some p" "pair = p\<lparr>Enabled := \<not> Enabled p\<rparr>" "s' = SetTokenPair E s pair"
  using assms by (auto simp: ToggleConversion_def Let_def split: if_splits option.splits)

lemma MintingEnabled_Ok:
  assumes "MintingEnabled E s sender receiver token = Ok pair"
  shows "GetTokenPair E s (GetTokenPairID E s token) = Some pair" "Enabled pair" "IsERC20Enabled s"
    "\<not> ebBlockedAddr E receiver" "sender = receiver \<or> ebIsSendEnabledCoin E (e20_world s) (Denom pair)"
  using assms by (auto simp: MintingEnabled_def Let_def split: if_splits option.splits)

lemma ConvertCoin_Ok:
  assumes "ConvertCoin E s msg = Ok (conv, s')"
  obtains pair where "GetTokenPair E s (GetTokenPairID E s (fst (mc_Coin msg))) = Some pair"
    "e20_store s' = e20_store s \<or> \<not> conv \<and> s' = DeleteTokenPair E s pair"
  using assms by (auto simp: ConvertCoin_def Let_def split: if_splits dest!: MintingEnabled_Ok(1))

lemma ConvertERC20_Ok:
  assumes "ConvertERC20 E s msg = Ok (conv, s')"
  obtains pair where "GetTokenPair E s (GetTokenPairID E s (me_ContractAddress msg)) = Some pair"
    "e20_store s' = e20_store s \<or> \<not> conv \<and> s' = DeleteTokenPair E s pair"
  using assms by (auto simp: ConvertERC20_def Let_def split: if_splits dest!: MintingEnabled_Ok(1))

lemma transfer_log_store: "transfer_log E log s = Ok s' \<Longrightarrow> e20_store s' = e20_store s"
  unfolding transfer_log_def Let_def
  by (auto split: list.split_asm if_split_asm option.split_asm)

subsection \<open>The module as a state machine\<close>

text \<open>
  The operations of the module with what lies outside it: the other modules may change the rest of
  the state at any time. A new pair must not collide with a stored one under the hash, and a contract
  just deployed is not registered. For coins there is one more condition, which \<open>RegisterCoin\<close> means to check
  and does not: the base denomination is not registered.
\<close>

inductive e20_step :: "'w erc20_env \<Rightarrow> 'w ibc_env \<Rightarrow> 'w E20 \<Rightarrow> 'w E20 \<Rightarrow> bool" for E I where
  coin: "RegisterCoin E s m = Ok (pair, s') \<Longrightarrow> \<not> IsDenomRegistered s (Base m) \<Longrightarrow>
    \<not> IsERC20Registered s (GetERC20Contract E pair) \<Longrightarrow> collision_free E s pair \<Longrightarrow> e20_step E I s s'"
| erc20: "RegisterERC20 E s contract = Ok (pair, s') \<Longrightarrow> collision_free E s pair \<Longrightarrow> e20_step E I s s'"
| toggle: "ToggleConversion E s token = Ok (pair, s') \<Longrightarrow> e20_step E I s s'"
| message: "e20_NewHandler E s msg = Ok s' \<Longrightarrow> e20_step E I s s'"
| hook: "e20_PostTxProcessing E s receipt = Ok s' \<Longrightarrow> e20_step E I s s'"
| recv: "OnRecvPacket E I s packet = Ok (ack, s') \<Longrightarrow> e20_step E I s s'"
| acknowledge: "OnAcknowledgementPacket E I s packet bz = Ok s' \<Longrightarrow> e20_step E I s s'"
| timeout: "OnTimeoutPacket E I s packet = Ok s' \<Longrightarrow> e20_step E I s s'"
| transfer: "ibc_Transfer E I s tmsg = Ok (sequence, s') \<Longrightarrow> e20_step E I s s'"
| elsewhere: "e20_step E I s (s\<lparr>e20_world := w\<rparr>)"

abbreviation e20_reaches :: "'w erc20_env \<Rightarrow> 'w ibc_env \<Rightarrow> 'w E20 \<Rightarrow> 'w E20 \<Rightarrow> bool" where
  "e20_reaches E I \<equiv> (e20_step E I)\<^sup>*\<^sup>*"

text \<open>Every operation but the registrations and the toggle keeps the pairs or deletes one.\<close>

definition keeps_or_deletes :: "'w erc20_env \<Rightarrow> 'w E20 \<Rightarrow> 'w E20 \<Rightarrow> bool" where
  "keeps_or_deletes E s s' \<longleftrightarrow>
     e20_store s' = e20_store s \<or>
     (\<exists>p pid. GetTokenPair E s pid = Some p \<and> e20_store s' = e20_store (DeleteTokenPair E s p))"

lemma keeps_or_deletes_refl [simp]: "keeps_or_deletes E s s"
  by (simp add: keeps_or_deletes_def)

lemma GetTokenPair_world [simp]: "GetTokenPair E (s\<lparr>e20_world := w\<rparr>) pid = GetTokenPair E s pid"
  by (simp add: GetTokenPair_def)

lemma DeleteTokenPair_world: "e20_store (DeleteTokenPair E (s\<lparr>e20_world := w\<rparr>) p) = e20_store (DeleteTokenPair E s p)"
  by (simp add: DeleteTokenPair_def deleteDenomMap_def deleteERC20Map_def deleteTokenPair_def)

lemma keeps_or_deletes_world [simp]:
  "keeps_or_deletes E (s\<lparr>e20_world := w\<rparr>) s' = keeps_or_deletes E s s'"
  "keeps_or_deletes E s (s'\<lparr>e20_world := w\<rparr>) = keeps_or_deletes E s s'"
  by (simp_all add: keeps_or_deletes_def DeleteTokenPair_world)

lemma convert_keeps_or_deletes:
  "ConvertCoin E s msg = Ok (conv, s') \<Longrightarrow> keeps_or_deletes E s s'"
  "ConvertERC20 E s emsg = Ok (conv, s') \<Longrightarrow> keeps_or_deletes E s s'"
  by (auto simp: keeps_or_deletes_def elim: ConvertCoin_Ok ConvertERC20_Ok)

lemma hook_store:
  assumes "e20_PostTxProcessing E s receipt = Ok s'"
  shows "e20_store s' = e20_store s"
proof (cases "s' = s")
  case False
  with assms have "fold_outcome (transfer_log E) (rc_Logs receipt) s = Ok s'"
    by (simp add: e20_PostTxProcessing_def Let_def split: if_splits)
  from fold_outcome_invariant [where P = "\<lambda>t. e20_store t = e20_store s", OF refl _ this] transfer_log_store
  show ?thesis by metis
qed simp

lemma recv_convert_keeps_or_deletes: "recv_convert E s ack denom recipient = Ok (ack', s') \<Longrightarrow> keeps_or_deletes E s s'"
  by (auto simp: recv_convert_def intro: convert_keeps_or_deletes split: outcome.split_asm)

lemma recv_callback_keeps_or_deletes:
  assumes "keeper_OnRecvPacket E I s packet ack = Ok (ack', s')"
  shows "keeps_or_deletes E s s'"
proof (cases "iUnmarshalData I (pk_Data packet)")
  case (Some data)
  with assms show ?thesis
    by (cases "GetTransferSenderRecipient I packet")
      (auto simp: keeper_OnRecvPacket_def Let_def dest: recv_convert_keeps_or_deletes split: if_split_asm)
qed (use assms in \<open>simp add: keeper_OnRecvPacket_def\<close>)

lemma recv_keeps_or_deletes: "OnRecvPacket E I s packet = Ok (ack, s') \<Longrightarrow> keeps_or_deletes E s s'"
  unfolding OnRecvPacket_def Let_def
  by (auto dest: recv_callback_keeps_or_deletes split: if_split_asm prod.split_asm)

lemma refund_keeps_or_deletes: "ConvertCoinToERC20FromPacket E I s data = Ok s' \<Longrightarrow> keeps_or_deletes E s s'"
  by (auto simp: ConvertCoinToERC20FromPacket_def Let_def dest!: convert_keeps_or_deletes
      split: if_split_asm prod.split_asm)

lemma ack_keeps_or_deletes: "OnAcknowledgementPacket E I s packet bz = Ok s' \<Longrightarrow> keeps_or_deletes E s s'"
proof -
  have "keeps_or_deletes E s s'" if "keeper_OnAcknowledgementPacket E I s data ack = Ok s'" for s data ack
    using that refund_keeps_or_deletes by (cases ack) (auto simp: keeper_OnAcknowledgementPacket_def)
  then show "OnAcknowledgementPacket E I s packet bz = Ok s' \<Longrightarrow> keeps_or_deletes E s s'"
    by (fastforce simp: OnAcknowledgementPacket_def split: option.split_asm)
qed

lemma timeout_keeps_or_deletes: "OnTimeoutPacket E I s packet = Ok s' \<Longrightarrow> keeps_or_deletes E s s'"
  by (auto simp: OnTimeoutPacket_def keeper_OnTimeoutPacket_def dest!: refund_keeps_or_deletes split: option.split_asm)

lemma regular_transfer_Ok: "regular_transfer I s msg = Ok (n, s') \<Longrightarrow> \<exists>w. s' = s\<lparr>e20_world := w\<rparr>"
  by (auto simp: regular_transfer_def)

lemma transfer_keeps_or_deletes: "ibc_Transfer E I s msg = Ok (n, s') \<Longrightarrow> keeps_or_deletes E s s'"
  by (auto simp: ibc_Transfer_def Let_def dest!: regular_transfer_Ok convert_keeps_or_deletes
      split: if_split_asm option.split_asm)

context pair_store
begin

lemma keeps_or_deletes_ok:
  assumes "pairs_ok E s" "keeps_or_deletes E s s'"
  shows "pairs_ok E s'" "pairs E s' \<subseteq> pairs E s"
proof -
  from assms(2) consider "e20_store s' = e20_store s"
    | p pid where "GetTokenPair E s pid = Some p" "e20_store s' = e20_store (DeleteTokenPair E s p)"
    by (auto simp: keeps_or_deletes_def)
  then have "pairs_ok E s' \<and> pairs E s' \<subseteq> pairs E s"
  proof cases
    case 1
    from pairs_cong [OF this, of E] assms(1) show ?thesis by simp
  next
    case 2
    from DeleteTokenPair_ok [OF assms(1) GetTokenPair_in(1) [OF assms(1) 2(1)]] pairs_cong [OF 2(2), of E]
    show ?thesis by auto
  qed
  then show "pairs_ok E s'" "pairs E s' \<subseteq> pairs E s" by simp_all
qed

lemma step_ok:
  assumes "e20_step E I s s'" "pairs_ok E s"
  shows "pairs_ok E s'"
  using assms
proof (cases rule: e20_step.cases)
  case (coin m pair)
  from coin(1) obtain w addr where p: "pair = NewTokenPair E addr (Base m) OWNER_MODULE"
    "s' = store_pair E (s\<lparr>e20_world := w\<rparr>) pair" by (rule RegisterCoin_Ok)
  have "Denom pair = Base m" by (simp add: p(1) NewTokenPair_def)
  with coin assms(2) show ?thesis
    unfolding p(2) by (intro store_pair_ok(2)) (simp_all add: IsDenomRegistered_def IsERC20Registered_def collision_free_def)
next
  case (erc20 contract pair)
  from erc20(1) obtain w where p: "pair = NewTokenPair E contract (CreateDenom (AddressHex (elib E) contract)) OWNER_EXTERNAL"
    "s' = store_pair E (s\<lparr>e20_world := w\<rparr>) pair" "erc20_at s contract = None" "denom_at s (Denom pair) = None"
    by (rule RegisterERC20_Ok)
  have "GetERC20Contract E pair = contract" by (simp add: p(1))
  with erc20(2) assms(2) p(3,4) show ?thesis
    unfolding p(2) by (intro store_pair_ok(2)) (simp_all add: collision_free_def)
next
  case (toggle token pair)
  from toggle(1) obtain p where "GetTokenPair E s (GetTokenPairID E s token) = Some p"
    "pair = p\<lparr>Enabled := \<not> Enabled p\<rparr>" "s' = SetTokenPair E s pair" by (rule ToggleConversion_Ok)
  with toggle_ok(2) [OF assms(2)] GetTokenPair_in(1) [OF assms(2)] show ?thesis by blast
next
  case (message msg)
  then show ?thesis
    using assms(2)
    by (cases msg) (auto simp: e20_NewHandler_def e20_UpdateParams_def dest: pairs_ok_params [of _ _ _ E] split: if_splits
        intro: keeps_or_deletes_ok(1) [OF assms(2) convert_keeps_or_deletes(1)] keeps_or_deletes_ok(1) [OF assms(2) convert_keeps_or_deletes(2)])
next
  case (hook receipt)
  from pairs_cong [OF hook_store [OF hook], of E] assms(2) show ?thesis by simp
qed (auto intro: keeps_or_deletes_ok(1) [OF assms(2)] dest: recv_keeps_or_deletes
    ack_keeps_or_deletes timeout_keeps_or_deletes transfer_keeps_or_deletes)

lemma reaches_ok: "e20_reaches E I s s' \<Longrightarrow> pairs_ok E s \<Longrightarrow> pairs_ok E s'"
  by (induction rule: rtranclp_induct) (auto intro: step_ok)

lemma found_by_both:
  assumes "pairs_ok E s" "p \<in> pairs E s"
  shows "GetERC20Map s (GetERC20Contract E p) = GetID E p" "GetDenomMap s (Denom p) = GetID E p"
    "GetTokenPair E s (GetID E p) = Some p"
proof -
  have "erc20_at s (GetERC20Contract E p) = Some (GetID E p)" "denom_at s (Denom p) = Some (GetID E p)"
    using assms unfolding pairs_ok_def by blast+
  then show "GetERC20Map s (GetERC20Contract E p) = GetID E p" "GetDenomMap s (Denom p) = GetID E p"
    by (simp_all add: GetERC20Map_def GetDenomMap_def store_Get_def)
qed (rule GetTokenPair_pairs [OF assms(2)])

end
subsection \<open>What a conversion moves\<close>

text \<open>
  The laws of the bank for the module's account \<open>esc\<close>, and of the EVM: a message moves no coins other than
  those of its own denomination.
\<close>

lemma case_prod_Ok: "(case p of (r, w) \<Rightarrow> f r w) = Ok x \<longleftrightarrow> (\<exists>r w. p = (r, w) \<and> f r w = Ok x)"
  by (cases p) auto

lemma relabel_Ok: "(case m of Panic \<Rightarrow> Panic | Err e \<Rightarrow> Err l | Ok r \<Rightarrow> Ok r) = Ok x \<longleftrightarrow> m = Ok x"
  by (cases m) auto

lemma check_Ok: "(if b then Err e else m) = Ok x \<longleftrightarrow> \<not> b \<and> m = Ok x"
  by simp

lemmas convert_Ok = Let_def case_prod_Ok relabel_Ok check_Ok

locale erc20_bank = pair_store E for E :: "'w erc20_env" +
  fixes esc :: bytes and evm_denom :: "'w \<Rightarrow> string"
  assumes message_keeps: "evApplyMessage E w msg commit = Ok (res, w') \<Longrightarrow>
      evm_denom w' = evm_denom w \<and> (d \<noteq> evm_denom w \<longrightarrow> ebGetBalance E w' a d = ebGetBalance E w a d)"
    and escrow: "ebSendCoinsFromAccountToModule E w a e20_ModuleName [(d, n)] = Ok w' \<Longrightarrow>
      evm_denom w' = evm_denom w \<and> ebGetBalance E w' = credit esc d n (credit a d (- n) (ebGetBalance E w))"
    and release: "ebSendCoinsFromModuleToAccount E w e20_ModuleName a [(d, n)] = Ok w' \<Longrightarrow>
      evm_denom w' = evm_denom w \<and> ebGetBalance E w' = credit a d n (credit esc d (- n) (ebGetBalance E w))"
    and mint: "ebMintCoins E w e20_ModuleName [(d, n)] = Ok w' \<Longrightarrow>
      evm_denom w' = evm_denom w \<and> ebGetBalance E w' = credit esc d n (ebGetBalance E w)"
    and burn: "ebBurnCoins E w e20_ModuleName [(d, n)] = Ok w' \<Longrightarrow>
      evm_denom w' = evm_denom w \<and> ebGetBalance E w' = credit esc d (- n) (ebGetBalance E w)"
begin

lemma CallEVMWithData_keeps:
  assumes "CallEVMWithData E w f c data commit = (r, w')"
  shows "evm_denom w' = evm_denom w \<and> (d \<noteq> evm_denom w \<longrightarrow> ebGetBalance E w' a d = ebGetBalance E w a d)"
  using assms message_keeps
  by (auto simp: CallEVMWithData_def split: outcome.split_asm prod.split_asm if_split_asm)

lemma CallEVM_keeps:
  assumes "CallEVM E w f c commit call = (r, w')"
  shows "evm_denom w' = evm_denom w \<and> (d \<noteq> evm_denom w \<longrightarrow> ebGetBalance E w' a d = ebGetBalance E w a d)"
proof (cases "eabiPack E call")
  case (Ok data)
  obtain r0 where "CallEVMWithData E w f (Some c) data commit = (r0, w')"
    using assms Ok by (auto simp: CallEVM_def split: outcome.split_asm prod.split_asm)
  then show ?thesis by (rule CallEVMWithData_keeps)
qed (use assms in \<open>auto simp: CallEVM_def\<close>)

text \<open>Coins go into escrow or are burned, and as many tokens are the receiver's.\<close>

lemma coin_native_coin:
  assumes ok: "convertCoinNativeCoin E w pair msg receiver sender = Ok w'" and c: "mc_Coin msg = (d, n)" and d: "d \<noteq> evm_denom w"
  shows "\<exists>before. balance_of E w (GetERC20Contract E pair) receiver = Ok before \<and>
      balance_of E w' (GetERC20Contract E pair) receiver = Ok (before + n)"
    "ebGetBalance E w' a d = credit esc d n (credit sender d (- n) (ebGetBalance E w)) a d"
proof -
  let ?c = "GetERC20Contract E pair"
  obtain before w1 res where st: "balance_of E w ?c receiver = Ok before"
    "ebSendCoinsFromAccountToModule E w sender e20_ModuleName [(d, n)] = Ok w1"
    "CallEVM E w1 (eModuleAddress E) ?c True (abiMint receiver n) = (Ok res, w')"
    "balance_of E w' ?c receiver = Ok (before + n)"
    using ok by (auto simp: convertCoinNativeCoin_def convert_Ok c)
  then show "\<exists>before. balance_of E w ?c receiver = Ok before \<and> balance_of E w' ?c receiver = Ok (before + n)" by blast
  show "ebGetBalance E w' a d = credit esc d n (credit sender d (- n) (ebGetBalance E w)) a d"
    using CallEVM_keeps [OF st(3)] escrow [OF st(2)] d by simp
qed

lemma coin_native_erc20:
  assumes ok: "convertCoinNativeERC20 E w pair msg receiver sender = Ok w'" and c: "mc_Coin msg = (d, n)" and d: "d \<noteq> evm_denom w"
  shows "\<exists>before w2. balance_of E w (GetERC20Contract E pair) receiver = Ok before \<and>
      balance_of E w2 (GetERC20Contract E pair) receiver = Ok (before + n) \<and> ebBurnCoins E w2 e20_ModuleName [(d, n)] = Ok w'"
    "ebGetBalance E w' a d = credit sender d (- n) (ebGetBalance E w) a d"
proof -
  let ?c = "GetERC20Contract E pair"
  obtain before w1 w2 res where st: "balance_of E w ?c receiver = Ok before"
    "ebSendCoinsFromAccountToModule E w sender e20_ModuleName [(d, n)] = Ok w1"
    "CallEVM E w1 (eModuleAddress E) ?c True (abiTransfer receiver n) = (Ok res, w2)"
    "balance_of E w2 ?c receiver = Ok (before + n)" "ebBurnCoins E w2 e20_ModuleName [(d, n)] = Ok w'"
    using ok by (auto simp: convertCoinNativeERC20_def convert_Ok c)
  then show "\<exists>before w2. balance_of E w ?c receiver = Ok before \<and> balance_of E w2 ?c receiver = Ok (before + n) \<and>
      ebBurnCoins E w2 e20_ModuleName [(d, n)] = Ok w'" by blast
  have "ebGetBalance E w' a d = credit esc d (- n) (ebGetBalance E w2) a d" using burn [OF st(5)] by simp
  also have "\<dots> = credit esc d (- n) (ebGetBalance E w1) a d"
    using CallEVM_keeps [OF st(3)] escrow [OF st(2)] d by (simp add: credit_def)
  finally show "ebGetBalance E w' a d = credit sender d (- n) (ebGetBalance E w) a d"
    using escrow [OF st(2)] by simp
qed

text \<open>Tokens are burned or go into escrow, and as many coins are the receiver's.\<close>

lemma erc20_native_coin:
  assumes ok: "convertERC20NativeCoin E w pair msg receiver sender = Ok w'" and d: "Denom pair \<noteq> evm_denom w"
  shows "\<exists>before. balance_of E w (GetERC20Contract E pair) sender = Ok before \<and>
      balance_of E w' (GetERC20Contract E pair) sender = Ok (before - me_Amount msg)"
    "ebGetBalance E w' a (Denom pair) =
       credit receiver (Denom pair) (me_Amount msg) (credit esc (Denom pair) (- me_Amount msg) (ebGetBalance E w)) a (Denom pair)"
proof -
  let ?c = "GetERC20Contract E pair" and ?n = "me_Amount msg"
  obtain before w1 res where st: "balance_of E w ?c sender = Ok before"
    "CallEVM E w (eModuleAddress E) ?c True (abiBurnCoins sender ?n) = (Ok res, w1)"
    "ebSendCoinsFromModuleToAccount E w1 e20_ModuleName receiver [(Denom pair, ?n)] = Ok w'"
    "balance_of E w' ?c sender = Ok (before - ?n)"
    using ok by (auto simp: convertERC20NativeCoin_def convert_Ok)
  then show "\<exists>before. balance_of E w ?c sender = Ok before \<and> balance_of E w' ?c sender = Ok (before - ?n)" by blast
  show "ebGetBalance E w' a (Denom pair) =
      credit receiver (Denom pair) ?n (credit esc (Denom pair) (- ?n) (ebGetBalance E w)) a (Denom pair)"
    using CallEVM_keeps [OF st(2)] release [OF st(3)] d by (simp add: credit_def)
qed

lemma erc20_native_token:
  assumes ok: "convertERC20NativeToken E w pair msg receiver sender = Ok w'" and d: "Denom pair \<noteq> evm_denom w"
  shows "\<exists>before w1. balance_of E w (GetERC20Contract E pair) (eModuleAddress E) = Ok before \<and>
      balance_of E w1 (GetERC20Contract E pair) (eModuleAddress E) = Ok (before + me_Amount msg)"
    "ebGetBalance E w' a (Denom pair) = credit receiver (Denom pair) (me_Amount msg) (ebGetBalance E w) a (Denom pair)"
proof -
  let ?c = "GetERC20Contract E pair" and ?n = "me_Amount msg"
  obtain before w1 w2 res data where st: "balance_of E w ?c (eModuleAddress E) = Ok before"
    "CallEVMWithData E w sender (Some ?c) data True = (Ok res, w1)"
    "balance_of E w1 ?c (eModuleAddress E) = Ok (before + ?n)"
    "ebMintCoins E w1 e20_ModuleName [(Denom pair, ?n)] = Ok w2"
    "ebSendCoinsFromModuleToAccount E w2 e20_ModuleName receiver [(Denom pair, ?n)] = Ok w'"
    using ok by (auto simp: convertERC20NativeToken_def convert_Ok)
  then show "\<exists>before w1. balance_of E w ?c (eModuleAddress E) = Ok before \<and>
      balance_of E w1 ?c (eModuleAddress E) = Ok (before + ?n)" by blast
  show "ebGetBalance E w' a (Denom pair) = credit receiver (Denom pair) ?n (ebGetBalance E w) a (Denom pair)"
    using CallEVMWithData_keeps [OF st(2)] mint [OF st(4)] release [OF st(5)] d by (simp add: credit_def)
qed

end

end
