(* ===== verification/Erc20_Instances.thy ===== *)
theory Erc20_Instances
  imports Erc20_Laws
begin

text \<open>
  The interfaces of \<open>x/erc20\<close> filled: the EVM, the accounts and the bank by the modelled keepers, as
  \<open>app/app.go\<close> does, for any chain whose interpreter, bank and accounts keep their laws; and a small world with one
  token contract, on which the closed instances of the properties are evaluated. The encodings stand in for
  protobuf, the hash, bech32 and the ABI.
\<close>

subsection \<open>Encodings\<close>

lemma chars_of_bytes_of [simp]: "chars_of (bytes_of s) = s"
  by (metis bytes_of_chars_of bytes_of_inject)

lemma length_bytes_of [simp]: "length (bytes_of s) = length s"
  by (simp add: bytes_of_def)

fun owner_code :: "Owner \<Rightarrow> byte" where
  "owner_code OWNER_UNSPECIFIED = 0" | "owner_code OWNER_MODULE = 1" | "owner_code OWNER_EXTERNAL = 2"

definition code_owner :: "byte \<Rightarrow> Owner" where
  "code_owner b = (if b = 1 then OWNER_MODULE else if b = 2 then OWNER_EXTERNAL else OWNER_UNSPECIFIED)"

definition pair_bytes :: "TokenPair \<Rightarrow> bytes" where
  "pair_bytes p = (if Enabled p then 1 else 0) # owner_code (ContractOwner p) #
     replicate (length (Erc20Address p)) 1 @ 0 # bytes_of (Erc20Address p @ Denom p)"

definition bytes_pair :: "bytes \<Rightarrow> TokenPair" where
  "bytes_pair b =
     (let n = length (takeWhile (\<lambda>x. x = 1) (drop 2 b)); t = chars_of (drop (n + 3) b)
      in \<lparr>Erc20Address = take n t, Denom = drop n t, Enabled = (b ! 0 = 1), ContractOwner = code_owner (b ! 1)\<rparr>)"

lemma bytes_pair_inverse: "bytes_pair (pair_bytes p) = p"
proof -
  let ?n = "length (Erc20Address p)"
  have "takeWhile (\<lambda>x. x = 1) (replicate k (1 :: byte) @ 0 # xs) = replicate k 1" for k xs
    by (induction k) simp_all
  then have "length (takeWhile (\<lambda>x. x = 1) (drop 2 (pair_bytes p))) = ?n"
    by (simp add: pair_bytes_def eval_nat_numeral)
  moreover have "drop (?n + 3) (pair_bytes p) = bytes_of (Erc20Address p @ Denom p)"
    by (simp add: pair_bytes_def eval_nat_numeral)
  moreover have "code_owner (owner_code ow) = ow" for ow by (cases ow) (simp_all add: code_owner_def)
  ultimately show ?thesis by (simp add: bytes_pair_def Let_def) (simp add: pair_bytes_def)
qed

text \<open>A call is its tag, an address and a small amount.\<close>

fun plain_pack :: "abi_call \<Rightarrow> (string, bytes) outcome" where
  "plain_pack (abiMint a n) = Ok (1 # word_of_int n # AddressBytes a)"
| "plain_pack (abiBurnCoins a n) = Ok (2 # word_of_int n # AddressBytes a)"
| "plain_pack (abiBurn n) = Ok [3, word_of_int n]"
| "plain_pack (abiTransfer a n) = Ok (4 # word_of_int n # AddressBytes a)"
| "plain_pack (abiBalanceOf a) = Ok (5 # 0 # AddressBytes a)"
| "plain_pack (abiCtor _ _ _) = Ok [6]"
| "plain_pack abiName = Ok [7]"
| "plain_pack abiSymbol = Ok [8]"
| "plain_pack abiDecimals = Ok [9]"

text \<open>What does not depend on the keepers; those are refused.\<close>

definition plain_erc20 :: "'w erc20_env" where
  "plain_erc20 =
     \<lparr>elib = raw_lib, evEstimateGas = (\<lambda>_ _. Ok 21000), evApplyMessage = (\<lambda>_ _ _. Err ''none''),
      evGetAccountWithoutBalance = (\<lambda>_ _. None), evIsContract = (\<lambda>_. True), eaGetSequence = (\<lambda>_ _. Ok 0),
      eIsModuleAccount = (\<lambda>_ _. False), ebGetBalance = (\<lambda>_ _ _. 0), ebMintCoins = (\<lambda>_ _ _. Err ''none''),
      ebBurnCoins = (\<lambda>_ _ _. Err ''none''), ebSendCoinsFromModuleToAccount = (\<lambda>_ _ _ _. Err ''none''),
      ebSendCoinsFromAccountToModule = (\<lambda>_ _ _ _. Err ''none''), ebBlockedAddr = (\<lambda>_. False),
      ebIsSendEnabledCoin = (\<lambda>_ _. True), ebHasSupply = (\<lambda>_ _. True), ebGetDenomMetaData = (\<lambda>_ _. None),
      ebSetDenomMetaData = (\<lambda>w _. w), esBondDenom = (\<lambda>_. ''anryton''), eModuleAddress = 99, eSum = (\<lambda>b. 1 # b),
      eMarshal = pair_bytes, eUnmarshal = bytes_pair, eBin = [], eCreateAddress = (\<lambda>a n. a + ucast n),
      eabiPack = plain_pack, eUnpackUint = (\<lambda>b. case b of [x] \<Rightarrow> Some (uint x) | _ \<Rightarrow> None),
      eUnpackTransfer = (\<lambda>b. case b of [x] \<Rightarrow> Some (uint x) | _ \<Rightarrow> None), eUnpackBool = (\<lambda>_. Ok True),
      eUnpackString = (\<lambda>b. Ok (chars_of b)), eUnpackUint8 = (\<lambda>_. Ok 18), eEventByID = (\<lambda>h. if h = 1 then Some ''Transfer'' else None),
      eApprovalHash = 2, eMetadataValidate = (\<lambda>_. Ok ()), eValidateDenom = (\<lambda>_. Ok ()), eValidateIBCDenom = (\<lambda>_. Ok ()),
      eAccAddressFromBech32 = (\<lambda>s. Ok (bytes_of s)), eAccString = chars_of, eAuthority = ''gov''\<rparr>"

subsection \<open>The keepers of the chain\<close>

definition in_modules :: "'r Ctx \<Rightarrow> (string, 'r) outcome \<Rightarrow> (string, 'r Ctx) outcome" where
  "in_modules c m = bind_outcome m (\<lambda>r. Ok (c\<lparr>modules := r\<rparr>))"

text \<open>With the default gas cap the estimate is always some result.\<close>

definition with_keepers ::
  "('b, 'r, 'cc, 'd) chain \<Rightarrow> int option \<Rightarrow> 'r Ctx erc20_env \<Rightarrow> 'r Ctx erc20_env" where
  "with_keepers X maxGas P =
     P\<lparr>elib := xlib X,
       evEstimateGas := (\<lambda>c req. case EstimateGas X maxGas c req of Some r \<Rightarrow> r | None \<Rightarrow> Panic),
       evApplyMessage := ApplyMessage X,
       evGetAccountWithoutBalance := GetAccountWithoutBalance (xsdk X),
       evIsContract := IsContract (evm_env (xsdk X)),
       eaGetSequence := (\<lambda>c a. case akGetAccount (xsdk X) (modules c) a of
          None \<Rightarrow> Err ''account does not exist'' | Some acct \<Rightarrow> Ok (GetSequence (xsdk X) (base_of acct))),
       ebGetBalance := (\<lambda>c. bkGetBalance (xsdk X) (modules c)),
       ebMintCoins := (\<lambda>c m cs. in_modules c (bkMintCoins (xsdk X) (modules c) m cs)),
       ebBurnCoins := (\<lambda>c m cs. in_modules c (bkBurnCoins (xsdk X) (modules c) m cs)),
       ebSendCoinsFromModuleToAccount := (\<lambda>c m a cs. in_modules c (bkSendCoinsFromModuleToAccount (xsdk X) (modules c) m a cs)),
       ebSendCoinsFromAccountToModule := (\<lambda>c a m cs. in_modules c (bkSendCoinsFromAccountToModule (xsdk X) (modules c) a m cs)),
       eCreateAddress := xCreateAddress X\<rparr>"

lemma EstimateGas_returns:
  assumes "uint (req_GasCap req) < 2 ^ 63"
  shows "\<exists>r. EstimateGas X maxGas c req = Some r"
proof (cases "req_GasCap req < TxGas \<or> req_Args req = None")
  case False
  then obtain args where args: "req_Args req = Some args" and cap: "\<not> req_GasCap req < TxGas" by auto
  have "highest_gas args maxGas (req_GasCap req) \<le> req_GasCap req" using cap by (intro highest_gas_le) (simp add: not_less)
  then have "uint (highest_gas args maxGas (req_GasCap req)) < 2 ^ 63" using assms by (simp add: word_le_def)
  from BinSearch_from_TxGas [OF this] have "\<exists>r. BinSearch (TxGas - 1) (highest_gas args maxGas (req_GasCap req)) ex = Some r" for ex
    by blast
  with args cap show ?thesis
    by (simp add: EstimateGas_def Let_def split: outcome.splits) (metis bind.bind_lunit)
qed (auto simp: EstimateGas_def)

lemma estimate_returns:
  "evEstimateGas (with_keepers X maxGas P) c \<lparr>req_Args = args, req_GasCap = DefaultGasCap\<rparr> =
     the (EstimateGas X maxGas c \<lparr>req_Args = args, req_GasCap = DefaultGasCap\<rparr>)"
proof -
  have "uint (req_GasCap \<lparr>req_Args = args, req_GasCap = DefaultGasCap\<rparr>) < 2 ^ 63" by (simp add: DefaultGasCap_def)
  from EstimateGas_returns [OF this, of X maxGas c] show ?thesis by (auto simp: with_keepers_def)
qed

text \<open>The bank for the account of the module.\<close>

definition e20_bank_laws :: "('b, 'r, 'cc) sdk \<Rightarrow> bytes \<Rightarrow> bool" where
  "e20_bank_laws D esc \<longleftrightarrow>
     (\<forall>r r' d n. bkMintCoins D r e20_ModuleName [(d, n)] = Ok r' \<longrightarrow> moves D esc r (credit esc d n) r') \<and>
     (\<forall>r r' d n. bkBurnCoins D r e20_ModuleName [(d, n)] = Ok r' \<longrightarrow> moves D esc r (credit esc d (- n)) r') \<and>
     (\<forall>r r' a d n. bkSendCoinsFromModuleToAccount D r e20_ModuleName a [(d, n)] = Ok r' \<longrightarrow>
        bkGetBalance D r' = credit a d n (credit esc d (- n) (bkGetBalance D r)) \<and>
        ssGetParamSetIfExists D r' = ssGetParamSetIfExists D r) \<and>
     (\<forall>r r' a d n. bkSendCoinsFromAccountToModule D r a e20_ModuleName [(d, n)] = Ok r' \<longrightarrow>
        moves D esc r (credit esc d n \<circ> credit a d (- n)) r')"

lemma with_keepers_bank:
  assumes "evm_laws X" "account_laws (xsdk X) adr" "bank_laws (xsdk X) m" "e20_bank_laws (xsdk X) esc"
    and "pair_store (with_keepers X maxGas P)"
  shows "erc20_bank (with_keepers X maxGas P) esc (\<lambda>c. EvmDenom (GetParams (xsdk X) c))"
proof -
  let ?D = "xsdk X" and ?E = "with_keepers X maxGas P" and ?d = "\<lambda>c. EvmDenom (GetParams (xsdk X) c)"
  have params: "?d (c\<lparr>modules := r\<rparr>) = ?d c" if "ssGetParamSetIfExists ?D r = ssGetParamSetIfExists ?D (modules c)" for c r
    using that GetParams_cong [of "c\<lparr>modules := r\<rparr>" c ?D] by simp
  have msg: "?d c' = ?d c \<and> (d \<noteq> ?d c \<longrightarrow> bkGetBalance ?D (modules c') a d = bkGetBalance ?D (modules c) a d)"
    if "ApplyMessage X c msg commit = Ok (res, c')" for c msg commit res c' a d
    using that message_other_coins [OF assms(1-3)] by (auto simp: ApplyMessage_def other_coins_def)
  show ?thesis
    using assms(4,5) params msg
    by (auto simp: erc20_bank_def erc20_bank_axioms_def with_keepers_def in_modules_def e20_bank_laws_def moves_def)
qed

lemma plain_pair_store: "elib E = L \<Longrightarrow> lib_laws L \<Longrightarrow> eMarshal E = pair_bytes \<Longrightarrow> eUnmarshal E = bytes_pair \<Longrightarrow>
    eSum E = (\<lambda>b. 1 # b) \<Longrightarrow> pair_store E"
  by unfold_locales (simp_all add: bytes_pair_inverse, simp add: pair_bytes_def)

interpretation chain_erc20: erc20_bank "with_keepers demo_chain None plain_erc20" module_address
    "\<lambda>c. EvmDenom (GetParams ledger_sdk c)"
proof -
  have sdk: "xsdk demo_chain = ledger_sdk" "xlib demo_chain = raw_lib" by (simp_all add: demo_chain_def)
  have "e20_bank_laws ledger_sdk module_address"
    by (auto simp: e20_bank_laws_def ledger_sdk_def moves_def l_debit_def)
  moreover have "pair_store (with_keepers demo_chain None plain_erc20)"
    by (rule plain_pair_store [OF _ raw_lib_laws]) (simp_all add: with_keepers_def plain_erc20_def sdk)
  ultimately show "erc20_bank (with_keepers demo_chain None plain_erc20) module_address (\<lambda>c. EvmDenom (GetParams ledger_sdk c))"
    using with_keepers_bank [OF demo_laws, of fst module_address] by (simp add: sdk ledger_account_laws ledger_bank_laws)
qed

subsection \<open>A world with one token\<close>

record token_world =
  tw_coins :: "bytes \<Rightarrow> string \<Rightarrow> int"
  tw_tokens :: "Address \<Rightarrow> int"
  tw_alive :: bool

definition token_account :: Address where "token_account = 99"

text \<open>What the contract does, by the tag of the call; calls move tokens of the sender.\<close>

definition token_call :: "token_world \<Rightarrow> Message \<Rightarrow> bytes \<times> token_world" where
  "token_call w msg =
     (case msg_Data msg of
        op # n # a \<Rightarrow>
          let to = word_of_nat (be_nat a); amount = uint n; tokens = tw_tokens w; f = msg_From msg in
          if op = 1 then ([], w\<lparr>tw_tokens := tokens(to := tokens to + amount)\<rparr>)
          else if op = 2 then ([], w\<lparr>tw_tokens := tokens(to := tokens to - amount)\<rparr>)
          else if op = 3 then ([], w\<lparr>tw_tokens := tokens(f := tokens f - amount)\<rparr>)
          else if op = 4 then ([1], w\<lparr>tw_tokens := (tokens(f := tokens f - amount))(to := (tokens(f := tokens f - amount)) to + amount)\<rparr>)
          else ([word_of_int (tokens to)], w)
      | _ \<Rightarrow> ([], w))"

definition token_message :: "token_world \<Rightarrow> Message \<Rightarrow> bool \<Rightarrow> (string, MsgEthereumTxResponse \<times> token_world) outcome" where
  "token_message w msg commit =
     (case token_call w msg of (ret, w') \<Rightarrow>
        Ok (\<lparr>res_Hash = 0, res_Logs = [], res_Ret = ret, res_VmError = [], res_GasUsed = 21000\<rparr>, if commit then w' else w))"

definition token_move :: "token_world \<Rightarrow> bytes option \<Rightarrow> bytes option \<Rightarrow> coins \<Rightarrow> (string, token_world) outcome" where
  "token_move w src dst cs =
     (case cs of
        [(d, n)] \<Rightarrow>
          let debit = (case src of None \<Rightarrow> tw_coins w | Some a \<Rightarrow> credit a d (- n) (tw_coins w))
          in if n < 0 \<or> (case src of None \<Rightarrow> False | Some a \<Rightarrow> tw_coins w a d < n) then Err ''insufficient funds''
             else Ok (w\<lparr>tw_coins := (case dst of None \<Rightarrow> debit | Some a \<Rightarrow> credit a d n debit)\<rparr>)
      | _ \<Rightarrow> Err ''one coin'')"

definition token_erc20 :: "token_world erc20_env" where
  "token_erc20 = plain_erc20
     \<lparr>evApplyMessage := token_message,
      evGetAccountWithoutBalance := (\<lambda>w a. if tw_alive w then Some \<lparr>Nonce = 1, Balance = None, CodeHash = Some [1]\<rparr> else None),
      ebGetBalance := tw_coins,
      ebMintCoins := (\<lambda>w m cs. token_move w None (Some (AddressBytes token_account)) cs),
      ebBurnCoins := (\<lambda>w m cs. token_move w (Some (AddressBytes token_account)) None cs),
      ebSendCoinsFromModuleToAccount := (\<lambda>w m a cs. token_move w (Some (AddressBytes token_account)) (Some a) cs),
      ebSendCoinsFromAccountToModule := (\<lambda>w a m cs. token_move w (Some a) (Some (AddressBytes token_account)) cs)\<rparr>"

lemma token_call_coins: "token_call w msg = (ret, w') \<Longrightarrow> tw_coins w' = tw_coins w"
  by (auto simp: token_call_def Let_def split: list.split_asm if_split_asm)

interpretation token: erc20_bank token_erc20 "AddressBytes token_account" "\<lambda>_. ''anryton''"
proof -
  have "pair_store token_erc20"
    by (rule plain_pair_store [OF _ raw_lib_laws]) (simp_all add: token_erc20_def plain_erc20_def)
  moreover have "tw_coins w' = tw_coins w" if "token_message w msg commit = Ok (res, w')" for w msg commit res w'
    using that token_call_coins by (auto simp: token_message_def split: prod.split_asm)
  ultimately show "erc20_bank token_erc20 (AddressBytes token_account) (\<lambda>_. ''anryton'')"
    by (auto simp: erc20_bank_def erc20_bank_axioms_def token_erc20_def token_move_def Let_def split: if_split_asm)
qed

end
