(* ===== verification/Erc20_Properties.thy ===== *)
theory Erc20_Properties
  imports Erc20_Instances
begin

text \<open>
  The properties of \<open>x/erc20\<close>: token pairs stay one to one, genesis export and import restore them,
  conversions are exact, names are sanitized, transfers over IBC are backed by coins.
\<close>

subsection \<open>Genesis\<close>

lemma genesis_fold: "fold (\<lambda>pair s. SetERC20Map (SetDenomMap (SetTokenPair E s pair) (Denom pair) (GetID E pair))
    (GetERC20Contract E pair) (GetID E pair)) ps s = fold (\<lambda>p s. store_pair E s p) ps s"
  by (simp add: store_pair_def GetERC20Contract_def)

lemma pairs_Validate_distinct:
  "pairs_Validate E seenA seenD ps = Ok () \<Longrightarrow> distinct (map Denom ps) \<and> Denom ` set ps \<inter> set seenD = {}"
  by (induction E seenA seenD ps rule: pairs_Validate.induct) (auto split: if_splits)

definition empty_e20 :: "'w \<Rightarrow> 'w E20" where
  "empty_e20 w = \<lparr>e20_store = fmempty, e20_world = w\<rparr>"

lemma empty_pairs [simp]: "pairs E (empty_e20 w) = {}" "pairs_ok E (empty_e20 w)"
  by (simp_all add: empty_e20_def pairs_def pairs_ok_def)

context pair_store
begin

lemma store_pairs_ok:
  assumes "pairs_ok E s" "distinct (map Denom ps)" "distinct (map (GetERC20Contract E) ps)" "distinct (map (GetID E) ps)"
    and "\<And>p q. p \<in> set ps \<Longrightarrow> q \<in> pairs E s \<Longrightarrow> Denom q \<noteq> Denom p \<and> GetERC20Contract E q \<noteq> GetERC20Contract E p \<and> GetID E q \<noteq> GetID E p"
  shows "pairs_ok E (fold (\<lambda>p s. store_pair E s p) ps s) \<and> pairs E (fold (\<lambda>p s. store_pair E s p) ps s) = set ps \<union> pairs E s"
  using assms
proof (induction ps arbitrary: s)
  case (Cons p ps)
  have "denom_at s (Denom p) = None" "erc20_at s (GetERC20Contract E p) = None"
    using Cons.prems(1,5) by (fastforce simp: pairs_ok_def simp flip: not_Some_eq)+
  moreover have "collision_free E s p" using Cons.prems(5) by (auto simp: collision_free_def)
  ultimately have step: "pairs E (store_pair E s p) = insert p (pairs E s)" "pairs_ok E (store_pair E s p)"
    using store_pair_ok [OF Cons.prems(1)] by blast+
  have "pairs_ok E (fold (\<lambda>p s. store_pair E s p) ps (store_pair E s p)) \<and>
      pairs E (fold (\<lambda>p s. store_pair E s p) ps (store_pair E s p)) = set ps \<union> pairs E (store_pair E s p)"
    using Cons.prems step by (intro Cons.IH) (auto simp: image_iff)
  with step(1) show ?case by simp
qed simp

lemma InitGenesis_ok:
  assumes "e20_InitGenesis E account (empty_e20 w) gs = Ok s" "distinct (map Denom (TokenPairs gs))"
    "distinct (map (GetERC20Contract E) (TokenPairs gs))" "distinct (map (GetID E) (TokenPairs gs))"
  shows "pairs_ok E s" "pairs E s = set (TokenPairs gs)"
proof -
  obtain s1 where s1: "e20_SetParams (empty_e20 w) (gs_Params gs) = Ok s1" "s = fold (\<lambda>p s. store_pair E s p) (TokenPairs gs) s1"
    using assms(1) by (auto simp: e20_InitGenesis_def genesis_fold split: outcome.split_asm if_split_asm)
  from pairs_ok_params [OF s1(1), of E] have "pairs E s1 = {}" "pairs_ok E s1" by simp_all
  with store_pairs_ok [of s1 "TokenPairs gs"] assms(2-4) s1(2) show "pairs_ok E s" "pairs E s = set (TokenPairs gs)" by auto
qed

lemma exported_pairs:
  assumes "pairs_ok E s"
  shows "set (GetTokenPairs E s) = pairs E s" "distinct (map (GetID E) (GetTokenPairs E s))"
proof -
  let ?ks = "filter (\<lambda>k. take (length KeyPrefixTokenPair) k = KeyPrefixTokenPair) (fm_keys (e20_store s))"
  let ?val = "\<lambda>k. eUnmarshal E (store_Get (e20_store s) k)"
  have key: "\<exists>p \<in> pairs E s. k = KeyPrefixTokenPair @ GetID E p \<and> ?val k = p" if "k \<in> set ?ks" for k
  proof -
    from that obtain t b where k: "k = KeyPrefixTokenPair @ t" "pair_at s t = Some b"
      by (auto simp: fmlookup_dom_iff) (metis append_take_drop_id)
    with assms obtain p where "b = eMarshal E p" "t = GetID E p" unfolding pairs_ok_def by blast
    with k show ?thesis by (auto simp: pairs_def store_Get_def)
  qed
  have "KeyPrefixTokenPair @ GetID E p \<in> set ?ks" if "p \<in> pairs E s" for p
    using that by (auto simp: pairs_def fmlookup_dom_iff)
  moreover have "?val (KeyPrefixTokenPair @ GetID E p) = p" if "p \<in> pairs E s" for p
    using that by (auto simp: pairs_def store_Get_def)
  ultimately have "pairs E s \<subseteq> ?val ` set ?ks" by (metis (no_types, lifting) image_eqI subsetI)
  then show "set (GetTokenPairs E s) = pairs E s" using key by (auto simp: GetTokenPairs_def)
  have "inj_on (GetID E \<circ> ?val) (set ?ks)"
  proof (rule inj_onI)
    fix k l
    assume "k \<in> set ?ks" "l \<in> set ?ks" "(GetID E \<circ> ?val) k = (GetID E \<circ> ?val) l"
    with key [OF \<open>k \<in> set ?ks\<close>] key [OF \<open>l \<in> set ?ks\<close>] show "k = l" unfolding comp_apply by metis
  qed
  then show "distinct (map (GetID E) (GetTokenPairs E s))"
    unfolding GetTokenPairs_def map_map by (simp add: distinct_map)
qed

lemma pair_at_iff: "pairs_ok E s \<Longrightarrow> pair_at s k = Some b \<longleftrightarrow> (\<exists>p \<in> pairs E s. k = GetID E p \<and> b = eMarshal E p)"
  unfolding pairs_ok_def by (metis (mono_tags, lifting) mem_Collect_eq pairs_def)

lemma erc20_at_iff: "pairs_ok E s \<Longrightarrow> erc20_at s a = Some k \<longleftrightarrow> (\<exists>p \<in> pairs E s. GetERC20Contract E p = a \<and> GetID E p = k)"
  unfolding pairs_ok_def by blast

lemma denom_at_iff: "pairs_ok E s \<Longrightarrow> denom_at s d = Some k \<longleftrightarrow> (\<exists>p \<in> pairs E s. Denom p = d \<and> GetID E p = k)"
  unfolding pairs_ok_def by blast

lemma same_pairs:
  assumes "pairs_ok E s" "pairs_ok E t" "pairs E s = pairs E t"
  shows "pair_at s k = pair_at t k" "erc20_at s a = erc20_at t a" "denom_at s d = denom_at t d"
proof -
  have opt: "x = y" if "\<And>v. x = Some v \<longleftrightarrow> y = Some v" for x y :: "bytes option"
    using that [of "the x"] that [of "the y"] by (cases x; cases y) auto
  show "pair_at s k = pair_at t k"
    by (rule opt) (simp only: pair_at_iff [OF assms(1)] pair_at_iff [OF assms(2)] assms(3))
  show "erc20_at s a = erc20_at t a"
    by (rule opt) (simp only: erc20_at_iff [OF assms(1)] erc20_at_iff [OF assms(2)] assms(3))
  show "denom_at s d = denom_at t d"
    by (rule opt) (simp only: denom_at_iff [OF assms(1)] denom_at_iff [OF assms(2)] assms(3))
qed

end
subsection \<open>Token pairs\<close>


definition atom_pair :: TokenPair where
  "atom_pair = \<lparr>Erc20Address = chars_of (AddressBytes 7), Denom = ''uatom'', Enabled = True, ContractOwner = OWNER_MODULE\<rparr>"

definition atom_genesis :: e20_GenesisState where
  "atom_genesis = \<lparr>gs_Params = \<lparr>EnableErc20 = True, EnableEVMHook = True\<rparr>, TokenPairs = [atom_pair]\<rparr>"

definition atom_world :: token_world where
  "atom_world = \<lparr>tw_coins = (\<lambda>_ _. 50), tw_tokens = (\<lambda>_. 20), tw_alive = True\<rparr>"

definition atom_state :: "token_world E20" where
  "atom_state = store_pair token_erc20 (setEnableEVMHook (setERC20Enabled (empty_e20 atom_world) True) True) atom_pair"

lemma atom_init: "e20_InitGenesis token_erc20 True (empty_e20 atom_world) atom_genesis = Ok atom_state"
  by (simp add: e20_InitGenesis_def e20_SetParams_def atom_genesis_def atom_state_def store_pair_def GetERC20Contract_def)

lemma atom_valid: "e20_GenesisValidate token_erc20 atom_genesis = Ok ()"
  by code_simp

lemma atom_ok: "pairs_ok token_erc20 atom_state" "pairs token_erc20 atom_state = {atom_pair}"
  using token.InitGenesis_ok [OF atom_init] by (simp_all add: atom_genesis_def)


text \<open>C34. \<open>RegisterCoin\<close> looks up the name of the metadata but stores the pair under the base denomination: with a
  registered base denomination and a name that is not one, it succeeds again. The second pair takes over the denomination, the
  first stays in the store with its contract, whose tokens are no longer backed by a pair found by denomination.\<close>
theorem coin_registered_twice:
  assumes "pair_store E" "pairs_ok E s" "RegisterCoin E s m = Ok (pair, s')"
    "p \<in> pairs E s" "Denom p = Base m" "GetERC20Contract E pair \<noteq> GetERC20Contract E p" "collision_free E s pair"
  shows "{p, pair} \<subseteq> pairs E s' \<and> p \<noteq> pair \<and> Denom pair = Denom p \<and> GetDenomMap s' (Denom p) = GetID E pair \<and>
    GetERC20Map s' (GetERC20Contract E p) = GetID E p \<and> GetID E p \<noteq> GetID E pair"
proof -
  note ps = assms(1)
  from assms(3) obtain w addr where pair: "pair = NewTokenPair E addr (Base m) OWNER_MODULE"
    "s' = store_pair E (s\<lparr>e20_world := w\<rparr>) pair" by (rule RegisterCoin_Ok)
  have "GetID E p \<noteq> GetID E pair"
    using assms(4,6,7) by (auto simp: collision_free_def GetERC20Contract_def)
  moreover have "pairs E s' = insert pair {q \<in> pairs E s. GetID E q \<noteq> GetID E pair}"
    by (simp add: pair(2) pair_store.pairs_store_pair [OF ps])
  moreover have "erc20_at s (GetERC20Contract E p) = Some (GetID E p)"
    using pair_store.erc20_at_iff [OF ps assms(2)] assms(4) by blast
  then have "GetERC20Map s' (GetERC20Contract E p) = GetID E p"
    using assms(6) by (simp add: pair(2) GetERC20Map_def store_Get_def store_pair_def flip: GetERC20Contract_def)
  moreover have "Denom pair = Base m" by (simp add: pair(1) NewTokenPair_def)
  ultimately show ?thesis
    using assms(4,5) by (auto simp: pair(2) GetDenomMap_def store_Get_def store_pair_def)
qed

definition atom_metadata :: Metadata where
  "atom_metadata = \<lparr>md_Description = ''coin of the hub'', DenomUnits = [], Base = ''uatom'', Display = ''atom'', md_Name = ''Atom'', md_Symbol = ''ATOM''\<rparr>"

definition second_pair :: TokenPair where
  "second_pair = NewTokenPair token_erc20 99 ''uatom'' OWNER_MODULE"

lemma atom_again: "RegisterCoin token_erc20 atom_state atom_metadata = Ok (second_pair, store_pair token_erc20 atom_state second_pair)"
proof -
  have "\<not> IsDenomRegistered atom_state (md_Name atom_metadata)" by code_simp
  moreover have "verifyMetadata token_erc20 w atom_metadata = Ok w" for w
    by (simp add: verifyMetadata_def token_erc20_def plain_erc20_def)
  moreover have "DeployERC20Contract token_erc20 w atom_metadata = Ok (99, w)" for w
    by (simp add: DeployERC20Contract_def CallEVMWithData_def token_erc20_def plain_erc20_def token_message_def token_call_def Failed_def Let_def)
  moreover have "ebHasSupply token_erc20 w d" for w d by (simp add: token_erc20_def plain_erc20_def)
  ultimately show ?thesis
    by (simp add: RegisterCoin_def second_pair_def atom_metadata_def Let_def)
qed

theorem coin_registered_twice_witness:
  "\<exists>s'. RegisterCoin token_erc20 atom_state atom_metadata = Ok (second_pair, s') \<and> {atom_pair, second_pair} \<subseteq> pairs token_erc20 s' \<and>
     atom_pair \<noteq> second_pair \<and> Denom atom_pair = Denom second_pair"
proof -
  have "GetERC20Contract token_erc20 second_pair \<noteq> GetERC20Contract token_erc20 atom_pair" by code_simp
  moreover have "GetID token_erc20 atom_pair \<noteq> GetID token_erc20 second_pair" by code_simp
  then have "collision_free token_erc20 atom_state second_pair" by (simp add: collision_free_def atom_ok(2))
  moreover have "Denom atom_pair = Base atom_metadata" by (simp add: atom_pair_def atom_metadata_def)
  ultimately show ?thesis
    using coin_registered_twice [OF token.pair_store_axioms atom_ok(1) atom_again, of atom_pair] atom_again
    by (simp add: atom_ok(2))
qed
lemma GetParams_SetParams: "e20_SetParams s ps = Ok s' \<Longrightarrow> e20_GetParams s' = ps"
proof -
  have "ParamStoreKeyEnableErc20 \<noteq> ParamStoreKeyEnableEVMHook"
    by (simp add: ParamStoreKeyEnableErc20_def ParamStoreKeyEnableEVMHook_def)
  then show "e20_SetParams s ps = Ok s' \<Longrightarrow> e20_GetParams s' = ps"
    by (auto simp: e20_SetParams_def e20_GetParams_def IsERC20Enabled_def GetEnableEVMHook_def setERC20Enabled_def setEnableEVMHook_def)
qed

lemma store_pair_params: "e20_GetParams (store_pair E s p) = e20_GetParams s"
  by (simp add: e20_GetParams_def IsERC20Enabled_def GetEnableEVMHook_def store_pair_def SetTokenPair_def SetERC20Map_def
      SetDenomMap_def pair_keys ParamStoreKeyEnableErc20_def ParamStoreKeyEnableEVMHook_def bytes_of_def)

lemma store_pairs_params: "e20_GetParams (fold (\<lambda>p s. store_pair E s p) ps s) = e20_GetParams s"
  by (induction ps arbitrary: s) (simp_all add: store_pair_params)

text \<open>Exporting the genesis state of a chain in which the pairs are consistent and starting a new chain from it succeeds and
  restores the module: the same parameters, the same pairs and the same two indices.\<close>
theorem erc20_genesis_restores:
  assumes "pair_store E" "pairs_ok E s"
  shows "\<exists>s'. e20_InitGenesis E True (empty_e20 w) (e20_ExportGenesis E s) = Ok s' \<and> e20_GetParams s' = e20_GetParams s \<and>
    (\<forall>pid. GetTokenPair E s' pid = GetTokenPair E s pid) \<and> (\<forall>a. GetERC20Map s' a = GetERC20Map s a) \<and>
    (\<forall>d. GetDenomMap s' d = GetDenomMap s d)"
proof -
  note ps = assms(1)
  let ?gs = "e20_ExportGenesis E s" and ?ps = "GetTokenPairs E s"
  obtain s1 where s1: "e20_SetParams (empty_e20 w) (gs_Params ?gs) = Ok s1" by (simp add: e20_SetParams_def)
  define s' where "s' = fold (\<lambda>p s. store_pair E s p) ?ps s1"
  have init: "e20_InitGenesis E True (empty_e20 w) ?gs = Ok s'"
    using s1 by (simp add: e20_InitGenesis_def genesis_fold s'_def e20_ExportGenesis_def)
  have set: "set ?ps = pairs E s" and ids: "distinct (map (GetID E) ?ps)"
    using pair_store.exported_pairs [OF assms] by simp_all
  have dist: "distinct (map f ?ps)" if "\<And>p q. p \<in> pairs E s \<Longrightarrow> q \<in> pairs E s \<Longrightarrow> f p = f q \<longleftrightarrow> p = q" for f :: "TokenPair \<Rightarrow> 'x"
    using ids that by (auto simp: distinct_map inj_on_def set)
  have "distinct (map Denom ?ps)" "distinct (map (GetERC20Contract E) ?ps)"
    using pair_store.one_to_one [OF assms] by (auto intro: dist)
  then have ok: "pairs_ok E s'" "pairs E s' = pairs E s"
    using pair_store.InitGenesis_ok [OF ps init] ids by (simp_all add: e20_ExportGenesis_def set)
  have "e20_GetParams s' = e20_GetParams s1" by (simp add: s'_def store_pairs_params)
  moreover have "e20_GetParams s1 = e20_GetParams s" using GetParams_SetParams [OF s1] by (simp add: e20_ExportGenesis_def)
  moreover note same = pair_store.same_pairs [OF ps ok(1) assms(2) ok(2)]
  ultimately show ?thesis
    using init by (auto simp: GetTokenPair_def GetERC20Map_def GetDenomMap_def store_Get_def)
qed

theorem erc20_genesis_restores_witness:
  "\<exists>s'. e20_InitGenesis token_erc20 True (empty_e20 atom_world) (e20_ExportGenesis token_erc20 atom_state) = Ok s' \<and>
     GetDenomMap s' ''uatom'' = GetDenomMap atom_state ''uatom'' \<and> GetDenomMap atom_state ''uatom'' \<noteq> []"
proof -
  have "GetDenomMap atom_state ''uatom'' \<noteq> []" by code_simp
  with erc20_genesis_restores [OF token.pair_store_axioms atom_ok(1), of atom_world] show ?thesis by blast
qed

subsection \<open>Conversions\<close>

context pair_store
begin

lemma pair_of_denom:
  assumes "pairs_ok E s" "\<not> libIsHexAddress (elib E) d" "GetTokenPair E s (GetTokenPairID E s d) = Some pair"
  shows "pair \<in> pairs E s" "Denom pair = d"
proof -
  show p: "pair \<in> pairs E s" using GetTokenPair_in [OF assms(1,3)] by simp
  have pid: "GetID E pair = GetDenomMap s d" using GetTokenPair_in(2) [OF assms(1,3)] assms(2) by (simp add: GetTokenPairID_def)
  then have "denom_at s d = Some (GetID E pair)"
    by (cases "denom_at s d") (use id_nonempty [of pair] in \<open>auto simp: GetDenomMap_def store_Get_def\<close>)
  then obtain q where "q \<in> pairs E s" "Denom q = d" "GetID E q = GetID E pair" using denom_at_iff [OF assms(1)] by blast
  with one_to_one(3) [OF assms(1) _ p] show "Denom pair = d" by blast
qed

lemma pair_of_contract:
  assumes "pairs_ok E s" "libIsHexAddress (elib E) a" "GetTokenPair E s (GetTokenPairID E s a) = Some pair"
  shows "pair \<in> pairs E s" "GetERC20Contract E pair = HexToAddress (elib E) a"
proof -
  let ?a = "HexToAddress (elib E) a"
  show p: "pair \<in> pairs E s" using GetTokenPair_in [OF assms(1,3)] by simp
  have pid: "GetID E pair = GetERC20Map s ?a" using GetTokenPair_in(2) [OF assms(1,3)] assms(2) by (simp add: GetTokenPairID_def)
  then have "erc20_at s ?a = Some (GetID E pair)"
    by (cases "erc20_at s ?a") (use id_nonempty [of pair] in \<open>auto simp: GetERC20Map_def store_Get_def\<close>)
  then obtain q where "q \<in> pairs E s" "GetERC20Contract E q = ?a" "GetID E q = GetID E pair" using erc20_at_iff [OF assms(1)] by blast
  with one_to_one(3) [OF assms(1) _ p] show "GetERC20Contract E pair = ?a" by blast
qed

end


fun converted :: "(string, bool \<times> 'w E20) outcome \<Rightarrow> bool" where
  "converted (Ok (conv, s)) \<longleftrightarrow> conv"
| "converted _ \<longleftrightarrow> False"

lemma converted_iff: "converted r \<longleftrightarrow> (\<exists>s. r = Ok (True, s))"
  by (cases r rule: converted.cases) auto

definition atom_coin_msg :: MsgConvertCoin where
  "atom_coin_msg = \<lparr>mc_Coin = (''uatom'', 5), mc_Receiver = chars_of (AddressBytes 8), mc_Sender = chars_of (AddressBytes 9)\<rparr>"

definition atom_erc20_msg :: MsgConvertERC20 where
  "atom_erc20_msg = \<lparr>me_ContractAddress = chars_of (AddressBytes 7), me_Amount = 5, me_Receiver = chars_of (AddressBytes 9),
     me_Sender = chars_of (AddressBytes 8)\<rparr>"

lemma token_env:
  "elib token_erc20 = raw_lib" "evApplyMessage token_erc20 = token_message" "eabiPack token_erc20 = plain_pack"
  "eaGetSequence token_erc20 w b = Ok 0" "evEstimateGas token_erc20 w req = Ok 21000" "eModuleAddress token_erc20 = 99"
  "eUnpackUint token_erc20 [x] = Some (uint x)" "ebGetBalance token_erc20 = tw_coins" "ebBlockedAddr token_erc20 a \<longleftrightarrow> False"
  "ebIsSendEnabledCoin token_erc20 w d \<longleftrightarrow> True" "eAccAddressFromBech32 token_erc20 t = Ok (bytes_of t)" "eAccString token_erc20 = chars_of"
  "ebSendCoinsFromAccountToModule token_erc20 w a m cs = token_move w (Some a) (Some (AddressBytes token_account)) cs"
  "ebSendCoinsFromModuleToAccount token_erc20 w m a cs = token_move w (Some (AddressBytes token_account)) (Some a) cs"
  "eIsModuleAccount token_erc20 w b \<longleftrightarrow> False"
  by (simp_all add: token_erc20_def plain_erc20_def)

lemma AddressBytes_inverse [simp]: "word_of_nat (be_nat (AddressBytes a)) = a"
  using unat_less_pow [of a] by (simp add: AddressBytes_def be_nat_be_bytes)

lemma raw_address [simp]: "HexToAddress raw_lib (chars_of (AddressBytes a)) = a" "libIsHexAddress raw_lib (chars_of (AddressBytes a))"
  "AddressHex raw_lib a = chars_of (AddressBytes a)"
  by (simp_all add: raw_lib_def chars_of_def bytes_of_chars_of [unfolded chars_of_def])

lemma token_balance: "balance_of token_erc20 w c a = Ok (uint (word_of_int (tw_tokens w a) :: byte))"
  by (simp add: balance_of_def BalanceOf_def CallEVM_def CallEVMWithData_def token_env token_message_def token_call_def Failed_def Let_def)

definition token_done :: MsgEthereumTxResponse where
  "token_done = \<lparr>res_Hash = 0, res_Logs = [], res_Ret = [], res_VmError = [], res_GasUsed = 21000\<rparr>"

lemma token_calls:
  "CallEVM token_erc20 w f c True (abiMint a n) =
     (Ok token_done, w\<lparr>tw_tokens := (tw_tokens w)(a := tw_tokens w a + uint (word_of_int n :: byte))\<rparr>)"
  "CallEVM token_erc20 w f c True (abiBurnCoins a n) =
     (Ok token_done, w\<lparr>tw_tokens := (tw_tokens w)(a := tw_tokens w a - uint (word_of_int n :: byte))\<rparr>)"
  by (simp_all add: CallEVM_def CallEVMWithData_def token_env token_message_def token_call_def Failed_def Let_def token_done_def)

lemma atom_alive: "contract_gone token_erc20 atom_world p \<longleftrightarrow> False" "e20_world atom_state = atom_world"
  by (simp_all add: contract_gone_def token_erc20_def plain_erc20_def atom_world_def atom_state_def store_pair_def SetTokenPair_def
      SetERC20Map_def SetDenomMap_def setERC20Enabled_def setEnableEVMHook_def empty_e20_def)

lemma atom_minting:
  "MintingEnabled token_erc20 atom_state sender receiver ''uatom'' = Ok atom_pair"
  "MintingEnabled token_erc20 atom_state sender receiver (chars_of (AddressBytes 7)) = Ok atom_pair"
proof -
  have enabled: "IsERC20Enabled atom_state" by code_simp
  have contract: "GetERC20Contract token_erc20 atom_pair = 7"
    by (simp add: GetERC20Contract_def atom_pair_def token_env)
  have "atom_pair \<in> pairs token_erc20 atom_state" by (simp add: atom_ok(2))
  note found = token.found_by_both [OF atom_ok(1) this]
  have "\<not> libIsHexAddress raw_lib ''uatom''" "Denom atom_pair = ''uatom''" "Enabled atom_pair"
    by (simp_all add: raw_lib_def atom_pair_def)
  with found enabled contract show "MintingEnabled token_erc20 atom_state sender receiver ''uatom'' = Ok atom_pair"
    "MintingEnabled token_erc20 atom_state sender receiver (chars_of (AddressBytes 7)) = Ok atom_pair"
    by (simp_all add: MintingEnabled_def GetTokenPairID_def token_env Let_def)
qed

lemma token_moves:
  "0 \<le> n \<Longrightarrow> n \<le> tw_coins w a d \<Longrightarrow>
   token_move w (Some a) (Some b) [(d, n)] = Ok (w\<lparr>tw_coins := credit b d n (credit a d (- n) (tw_coins w))\<rparr>)"
  by (simp add: token_move_def)

lemma atom_contract: "GetERC20Contract token_erc20 atom_pair = 7" "IsNativeCoin atom_pair" "Denom atom_pair = ''uatom''"
  by (simp_all add: GetERC20Contract_def atom_pair_def token_env IsNativeCoin_def)

lemma atom_escrows: "is_ok (convertCoinNativeCoin token_erc20 atom_world atom_pair atom_coin_msg 8 (AddressBytes 9))"
  by (simp add: convertCoinNativeCoin_def Let_def atom_contract atom_coin_msg_def token_balance token_env token_moves token_calls
      atom_world_def is_ok_iff)

lemma atom_releases: "is_ok (convertERC20NativeCoin token_erc20 atom_world atom_pair atom_erc20_msg (AddressBytes 9) 8)"
  by (simp add: convertERC20NativeCoin_def Let_def atom_contract atom_erc20_msg_def token_balance token_env token_moves token_calls
      atom_world_def is_ok_iff credit_def token_account_def)

lemma atom_converts:
  "converted (ConvertCoin token_erc20 atom_state atom_coin_msg)" "converted (ConvertERC20 token_erc20 atom_state atom_erc20_msg)"
proof -
  have msg: "fst (mc_Coin atom_coin_msg) = ''uatom''" "HexToAddress raw_lib (mc_Receiver atom_coin_msg) = 8"
    "must_address token_erc20 (mc_Sender atom_coin_msg) = Ok (AddressBytes 9)"
    "me_ContractAddress atom_erc20_msg = chars_of (AddressBytes 7)" "HexToAddress raw_lib (me_Sender atom_erc20_msg) = 8"
    "must_address token_erc20 (me_Receiver atom_erc20_msg) = Ok (AddressBytes 9)"
    by (simp_all add: atom_coin_msg_def atom_erc20_msg_def must_address_def token_env)
  from atom_escrows show "converted (ConvertCoin token_erc20 atom_state atom_coin_msg)"
    by (auto simp: ConvertCoin_def Let_def token_env msg atom_minting atom_alive atom_contract is_ok_iff)
  from atom_releases show "converted (ConvertERC20 token_erc20 atom_state atom_erc20_msg)"
    by (auto simp: ConvertERC20_def Let_def token_env msg atom_minting atom_alive atom_contract is_ok_iff)
qed


subsection \<open>Transfers over IBC\<close>

text \<open>The coins of the receiver after a conversion of tokens, as the code checks them.\<close>

lemma converted_coins:
  assumes "ConvertERC20 E s msg = Ok (conv, s')" "must_address E (me_Receiver msg) = Ok receiver"
    "GetTokenPair E s (GetTokenPairID E s (me_ContractAddress msg)) = Some pair" "\<not> contract_gone E (e20_world s) pair"
  shows "ebGetBalance E (e20_world s') receiver (Denom pair) = ebGetBalance E (e20_world s) receiver (Denom pair) + me_Amount msg"
proof -
  let ?f = "HexToAddress (elib E) (me_Sender msg)" and ?w = "e20_world s"
  have coin: "ebGetBalance E w' receiver (Denom pair) = ebGetBalance E w receiver (Denom pair) + me_Amount msg"
    if "convertERC20NativeCoin E w pair msg receiver f = Ok w'" for w w' f
    using that by (auto simp: convertERC20NativeCoin_def convert_Ok)
  have token: "ebGetBalance E w' receiver (Denom pair) = ebGetBalance E w receiver (Denom pair) + me_Amount msg"
    if "convertERC20NativeToken E w pair msg receiver f = Ok w'" for w w' f
    using that by (auto simp: convertERC20NativeToken_def convert_Ok)
  obtain pair' where m: "MintingEnabled E s (AddressBytes ?f) receiver (me_ContractAddress msg) = Ok pair'"
    using assms(1,2) by (auto simp: ConvertERC20_def Let_def)
  with MintingEnabled_Ok(1) [OF m] assms(3) have "pair' = pair" by simp
  with m assms show ?thesis
    by (auto simp: ConvertERC20_def Let_def split: if_splits dest: coin token)
qed


definition plain_ibc :: "token_world ibc_env" where
  "plain_ibc =
     \<lparr>iUnmarshalData = (\<lambda>_. None), iUnmarshalAck = (\<lambda>_. None), iAnyAddress = (\<lambda>s. Ok (bytes_of s)), iNewIntFromString = (\<lambda>_. None),
      iReceiverChainIsSource = (\<lambda>_ _ _. False), iGetDenomPrefix = (\<lambda>_ _. []), iParsePath = (\<lambda>s. s), iIBCDenom = (\<lambda>s. s),
      iModuleOnRecv = (\<lambda>w _. (AckError [], w)), iModuleOnAck = (\<lambda>w _ _. Ok w), iModuleOnTimeout = (\<lambda>w _. Ok w),
      iTransfer = (\<lambda>w m. Ok (1, w))\<rparr>"

definition atom_transfer :: MsgTransfer where
  "atom_transfer = \<lparr>mt_Token = (''erc20/'' @ chars_of (AddressBytes 7), 30), mt_Sender = chars_of (AddressBytes 9), mt_Receiver = ''hub''\<rparr>"


subsection \<open>Names\<close>

declare removeInvalidPrefixes.simps [simp del]

lemma removeInvalidPrefixes_cases:
  "take 4 s = ''ibc/'' \<Longrightarrow> removeInvalidPrefixes s = removeInvalidPrefixes (drop 4 s)"
  "take 4 s \<noteq> ''ibc/'' \<Longrightarrow> take 6 s = ''erc20/'' \<Longrightarrow> removeInvalidPrefixes s = removeInvalidPrefixes (drop 6 s)"
  "take 4 s \<noteq> ''ibc/'' \<Longrightarrow> take 6 s \<noteq> ''erc20/'' \<Longrightarrow> removeInvalidPrefixes s = s"
  by (subst removeInvalidPrefixes.simps, simp)+

lemma removeInvalidPrefixes_prefix:
  "take 4 (removeInvalidPrefixes s) \<noteq> ''ibc/'' \<and> take 6 (removeInvalidPrefixes s) \<noteq> ''erc20/''"
proof (induction s rule: removeInvalidPrefixes.induct)
  case (1 s)
  then show ?case using removeInvalidPrefixes_cases [of s] by metis
qed

lemma removeInvalidPrefixes_suffix: "\<exists>k. removeInvalidPrefixes s = drop k s"
proof (induction s rule: removeInvalidPrefixes.induct)
  case (1 s)
  then show ?case using removeInvalidPrefixes_cases [of s] by (metis drop_0 drop_drop)
qed

lemma removeSpecialChars_set: "set (removeSpecialChars s) \<subseteq> {c. is_letter c \<or> is_digit c \<or> c = CHR ''/'' \<or> c = CHR ''-''}"
  by (cases s) (auto simp: removeSpecialChars_def)

text \<open>Whatever name a contract reports, the sanitized name used for the display unit has at most 128 characters, all of them
  letters, digits, slashes and hyphens, and does not look like an IBC voucher or a module denomination; sanitizing ends although prefixes
  are removed again and again.\<close>
theorem sanitized_names:
  "length (SanitizeERC20Name name) \<le> 128 \<and>
   list_all (\<lambda>c. is_letter c \<or> is_digit c \<or> c = CHR ''/'' \<or> c = CHR ''-'') (SanitizeERC20Name name) \<and>
   take 4 (SanitizeERC20Name name) \<noteq> ''ibc/'' \<and> take 6 (SanitizeERC20Name name) \<noteq> ''erc20/''"
proof -
  let ?t = "take 128 (removeSpecialChars (removeLeadingNumbers name))"
  obtain k where k: "SanitizeERC20Name name = drop k ?t"
    using removeInvalidPrefixes_suffix [of ?t] by (auto simp: SanitizeERC20Name_def)
  have "set (drop k ?t) \<subseteq> set (removeSpecialChars (removeLeadingNumbers name))"
    by (meson order_trans set_drop_subset set_take_subset)
  then have "list_all (\<lambda>c. is_letter c \<or> is_digit c \<or> c = CHR ''/'' \<or> c = CHR ''-'') (SanitizeERC20Name name)"
    using removeSpecialChars_set unfolding k list_all_iff by blast
  moreover have "length (SanitizeERC20Name name) \<le> 128" unfolding k by simp
  ultimately show ?thesis using removeInvalidPrefixes_prefix by (simp add: SanitizeERC20Name_def)
qed

text \<open>The first character can still be a digit: the leading digits are removed before the special characters.\<close>

lemma sanitized_digit: "SanitizeERC20Name ''!1abc'' = ''1abc''"
  by code_simp

end
