(* ===== verification/Evm_Genesis.thy ===== *)
theory Evm_Genesis
  imports Evm_Fees
begin

text \<open>
  The rest of the EVM module's entry points: logs as the responses carry them (\<open>logs.go\<close>), the chain
  configuration (\<open>chain_config.go\<close>), genesis (\<open>genesis.go\<close>, \<open>storage.go\<close>), the block hooks (\<open>abci.go\<close>), the migration of
  parameters, the queries that read state, and the tracing of transactions (\<open>grpc_query.go\<close>).
\<close>

subsection \<open>Logs\<close>

record Log =
  lg_Address :: string
  lg_Topics :: "string list"
  lg_Data :: bytes
  lg_BlockNumber :: uint64
  lg_TxHash :: string
  lg_TxIndex :: uint64
  lg_BlockHash :: string
  lg_Index :: uint64
  lg_Removed :: bool

text \<open>The log of go-ethereum, with the fields that the state database does not set.\<close>

record receiptLog = ethLog +
  log_BlockNumber :: uint64
  log_Removed :: bool

definition NewLogFromEth :: "txlib \<Rightarrow> receiptLog \<Rightarrow> Log" where
  "NewLogFromEth L log =
     \<lparr>lg_Address = AddressHex L (log_Address log), lg_Topics = map (HashHex L) (log_Topics log), lg_Data = log_Data log,
      lg_BlockNumber = log_BlockNumber log, lg_TxHash = HashHex L (log_TxHash log), lg_TxIndex = log_TxIndex log,
      lg_BlockHash = HashHex L (log_BlockHash log), lg_Index = log_Index log, lg_Removed = log_Removed log\<rparr>"

definition ToEthereum :: "txlib \<Rightarrow> Log \<Rightarrow> receiptLog" where
  "ToEthereum L log =
     \<lparr>log_Address = HexToAddress L (lg_Address log), log_Topics = map (HexToHash L) (lg_Topics log), log_Data = lg_Data log,
      log_TxHash = HexToHash L (lg_TxHash log), log_BlockHash = HexToHash L (lg_BlockHash log), log_TxIndex = lg_TxIndex log,
      log_Index = lg_Index log, log_BlockNumber = lg_BlockNumber log, log_Removed = lg_Removed log\<rparr>"

definition NewLogsFromEth :: "txlib \<Rightarrow> receiptLog list \<Rightarrow> Log list" where
  "NewLogsFromEth L ethlogs = map (NewLogFromEth L) ethlogs"

definition LogsToEthereum :: "txlib \<Rightarrow> Log list \<Rightarrow> receiptLog list" where
  "LogsToEthereum L ls = map (ToEthereum L) ls"

definition IsEmptyHash :: "txlib \<Rightarrow> string \<Rightarrow> bool" where
  "IsEmptyHash L hash \<longleftrightarrow> HashBytes (HexToHash L hash) = HashBytes 0"

definition IsZeroAddress :: "txlib \<Rightarrow> string \<Rightarrow> bool" where
  "IsZeroAddress L address \<longleftrightarrow> AddressBytes (HexToAddress L address) = AddressBytes 0"

definition ValidateNonZeroAddress :: "txlib \<Rightarrow> string \<Rightarrow> (string, unit) outcome" where
  "ValidateNonZeroAddress L address =
     (if IsZeroAddress L address then Err ''address must not be zero'' else ValidateAddress L address)"

definition Log_Validate :: "txlib \<Rightarrow> Log \<Rightarrow> (string, unit) outcome" where
  "Log_Validate L log =
     bind_outcome (ValidateAddress L (lg_Address log)) (\<lambda>_.
     if IsEmptyHash L (lg_BlockHash log) then Err ''block hash cannot be the empty''
     else if lg_BlockNumber log = 0 then Err ''block number cannot be zero''
     else if IsEmptyHash L (lg_TxHash log) then Err ''tx hash cannot be the empty''
     else Ok ())"

record TransactionLogs =
  tl_Hash :: string
  tl_Logs :: "Log option list"

definition NewTransactionLogsFromEth :: "txlib \<Rightarrow> Hash \<Rightarrow> receiptLog list \<Rightarrow> TransactionLogs" where
  "NewTransactionLogsFromEth L hash ethlogs = \<lparr>tl_Hash = HashHex L hash, tl_Logs = map Some (NewLogsFromEth L ethlogs)\<rparr>"

definition NewTransactionLogs :: "txlib \<Rightarrow> Hash \<Rightarrow> Log option list \<Rightarrow> TransactionLogs" where
  "NewTransactionLogs L hash ls = \<lparr>tl_Hash = HashHex L hash, tl_Logs = ls\<rparr>"

text \<open>A nil log panics in the conversion: \<^const>\<open>None\<close>.\<close>

definition EthLogs :: "txlib \<Rightarrow> TransactionLogs \<Rightarrow> receiptLog list option" where
  "EthLogs L tx = (if None \<in> set (tl_Logs tx) then None else Some (LogsToEthereum L (map the (tl_Logs tx))))"

fun tx_logs_Validate :: "txlib \<Rightarrow> string \<Rightarrow> Log option list \<Rightarrow> (string, unit) outcome" where
  "tx_logs_Validate L hash [] = Ok ()"
| "tx_logs_Validate L hash (None # rest) = Err ''log cannot be nil''"
| "tx_logs_Validate L hash (Some log # rest) =
     bind_outcome (Log_Validate L log) (\<lambda>_.
     if lg_TxHash log \<noteq> hash then Err ''log tx hash mismatch'' else tx_logs_Validate L hash rest)"

definition TransactionLogs_Validate :: "txlib \<Rightarrow> TransactionLogs \<Rightarrow> (string, unit) outcome" where
  "TransactionLogs_Validate L tx =
     (if IsEmptyHash L (tl_Hash tx) then Err ''hash cannot be the empty'' else tx_logs_Validate L (tl_Hash tx) (tl_Logs tx))"

subsection \<open>Chain configuration\<close>

text \<open>Blocks are \<open>*sdkmath.Int\<close>; nil is a fork that is not scheduled.\<close>

record EvmChainConfig =
  HomesteadBlock :: "int option"
  DAOForkBlock :: "int option"
  DAOForkSupport :: bool
  EIP150Block :: "int option"
  EIP150Hash :: string
  EIP155Block :: "int option"
  EIP158Block :: "int option"
  ByzantiumBlock :: "int option"
  ConstantinopleBlock :: "int option"
  PetersburgBlock :: "int option"
  IstanbulBlock :: "int option"
  MuirGlacierBlock :: "int option"
  BerlinBlock :: "int option"
  LondonBlock :: "int option"
  ArrowGlacierBlock :: "int option"
  GrayGlacierBlock :: "int option"
  MergeNetsplitBlock :: "int option"
  ShanghaiBlock :: "int option"
  CancunBlock :: "int option"

text \<open>\<open>params.ChainConfig\<close> of go-ethereum: chain identifier, support of the DAO fork, hash of EIP-150, and the blocks in the order of the structure.\<close>

record GethConfig =
  geth_ChainID :: "int option"
  geth_DAOForkSupport :: bool
  geth_EIP150Hash :: Hash
  geth_blocks :: "int option list"

definition getBlockValue :: "int option \<Rightarrow> int option" where
  "getBlockValue block = (case block of None \<Rightarrow> None | Some b \<Rightarrow> if b < 0 then None else Some b)"

definition config_blocks :: "EvmChainConfig \<Rightarrow> int option list" where
  "config_blocks cc = [HomesteadBlock cc, DAOForkBlock cc, EIP150Block cc, EIP155Block cc, EIP158Block cc, ByzantiumBlock cc,
     ConstantinopleBlock cc, PetersburgBlock cc, IstanbulBlock cc, MuirGlacierBlock cc, BerlinBlock cc, LondonBlock cc,
     ArrowGlacierBlock cc, GrayGlacierBlock cc, MergeNetsplitBlock cc, ShanghaiBlock cc, CancunBlock cc]"

definition EthereumConfig :: "txlib \<Rightarrow> EvmChainConfig \<Rightarrow> int option \<Rightarrow> GethConfig" where
  "EthereumConfig L cc chainID =
     \<lparr>geth_ChainID = chainID, geth_DAOForkSupport = DAOForkSupport cc, geth_EIP150Hash = HexToHash L (EIP150Hash cc),
      geth_blocks = map getBlockValue (config_blocks cc)\<rparr>"

definition DefaultChainConfig :: "txlib \<Rightarrow> EvmChainConfig" where
  "DefaultChainConfig L =
     \<lparr>HomesteadBlock = Some 0, DAOForkBlock = Some 0, DAOForkSupport = True, EIP150Block = Some 0, EIP150Hash = HashHex L 0,
      EIP155Block = Some 0, EIP158Block = Some 0, ByzantiumBlock = Some 0, ConstantinopleBlock = Some 0, PetersburgBlock = Some 0,
      IstanbulBlock = Some 0, MuirGlacierBlock = Some 0, BerlinBlock = Some 0, LondonBlock = Some 0, ArrowGlacierBlock = Some 0,
      GrayGlacierBlock = Some 0, MergeNetsplitBlock = Some 0, ShanghaiBlock = Some 0, CancunBlock = Some 0\<rparr>"

definition validateHash :: "string \<Rightarrow> (string, unit) outcome" where
  "validateHash hex = (if hex \<noteq> [] \<and> TrimSpace hex = [] then Err ''hash cannot be blank'' else Ok ())"

definition validateBlock :: "int option \<Rightarrow> (string, unit) outcome" where
  "validateBlock block = (case block of None \<Rightarrow> Ok () | Some b \<Rightarrow> if b < 0 then Err ''block value cannot be negative'' else Ok ())"

text \<open>The blocks are validated in the order of \<open>config_blocks\<close>, the hash after the third.\<close>

definition config_Validate :: "txlib \<Rightarrow> (GethConfig \<Rightarrow> (string, unit) outcome) \<Rightarrow> EvmChainConfig \<Rightarrow> (string, unit) outcome" where
  "config_Validate L checkConfigForkOrder cc =
     bind_outcome (fold_outcome (\<lambda>b _. validateBlock b) (take 3 (config_blocks cc)) ()) (\<lambda>_.
     bind_outcome (validateHash (EIP150Hash cc)) (\<lambda>_.
     bind_outcome (fold_outcome (\<lambda>b _. validateBlock b) (drop 3 (config_blocks cc)) ()) (\<lambda>_.
     checkConfigForkOrder (EthereumConfig L cc None))))"

subsection \<open>Genesis\<close>

record State =
  st_Key :: string
  st_Value :: string

definition NewState :: "txlib \<Rightarrow> Hash \<Rightarrow> Hash \<Rightarrow> State" where
  "NewState L key v = \<lparr>st_Key = HashHex L key, st_Value = HashHex L v\<rparr>"

definition State_Validate :: "State \<Rightarrow> (string, unit) outcome" where
  "State_Validate s = (if TrimSpace (st_Key s) = [] then Err ''state key hash cannot be blank'' else Ok ())"

fun storage_loop :: "string list \<Rightarrow> State list \<Rightarrow> (string, unit) outcome" where
  "storage_loop seenStorage [] = Ok ()"
| "storage_loop seenStorage (state # rest) =
     (if st_Key state \<in> set seenStorage then Err ''duplicate state key''
      else bind_outcome (State_Validate state) (\<lambda>_. storage_loop (st_Key state # seenStorage) rest))"

definition Storage_Validate :: "State list \<Rightarrow> (string, unit) outcome" where
  "Storage_Validate s = storage_loop [] s"

record GenesisAccount =
  ga_Address :: string
  ga_Code :: string
  ga_Storage :: "State list"

record 'cc evm_GenesisState =
  gs_Accounts :: "GenesisAccount list"
  gs_EvmParams :: "'cc Params"

definition GenesisAccount_Validate :: "txlib \<Rightarrow> GenesisAccount \<Rightarrow> (string, unit) outcome" where
  "GenesisAccount_Validate L ga = bind_outcome (ValidateAddress L (ga_Address ga)) (\<lambda>_. Storage_Validate (ga_Storage ga))"

fun genesis_loop :: "txlib \<Rightarrow> string list \<Rightarrow> GenesisAccount list \<Rightarrow> (string, unit) outcome" where
  "genesis_loop L seenAccounts [] = Ok ()"
| "genesis_loop L seenAccounts (acc # rest) =
     (if ga_Address acc \<in> set seenAccounts then Err ''duplicated genesis account''
      else case GenesisAccount_Validate L acc of
        Ok _ \<Rightarrow> genesis_loop L (ga_Address acc # seenAccounts) rest
      | Err e \<Rightarrow> Err ''invalid genesis account''
      | Panic \<Rightarrow> Panic)"

definition evm_GenesisValidate :: "txlib \<Rightarrow> 'cc param_checks \<Rightarrow> 'cc evm_GenesisState \<Rightarrow> (string, unit) outcome" where
  "evm_GenesisValidate L C gs = bind_outcome (genesis_loop L [] (gs_Accounts gs)) (\<lambda>_. Params_Validate C (gs_EvmParams gs))"

text \<open>
  What genesis calls besides the keeper: \<open>gHex2Bytes\<close> and \<open>gBytes2Hex\<close> of go-ethereum, whether the module account
  exists, all accounts in the order of the iteration, and the address bytes of a base account.
\<close>

record ('b, 'r) genesis_env =
  gHex2Bytes :: "string \<Rightarrow> bytes"
  gBytes2Hex :: "bytes \<Rightarrow> string"
  gModuleAddress :: bool
  gAccounts :: "'r \<Rightarrow> 'b AccountI list"
  gAddress :: "'b \<Rightarrow> bytes"

text \<open>The keeper's chain identifier may only be set to one value.\<close>

definition WithChainID :: "int option \<Rightarrow> 'r Ctx \<Rightarrow> (string, int option) outcome" where
  "WithChainID eip155ChainID c =
     (case ParseChainID (ChainIDString c) of
        Ok chainID \<Rightarrow>
          (case eip155ChainID of
             Some old \<Rightarrow> if old \<noteq> chainID then Panic else Ok (Some chainID)
           | None \<Rightarrow> Ok (Some chainID))
      | _ \<Rightarrow> Panic)"

definition init_account ::
  "('b, 'r, 'cc) sdk \<Rightarrow> txlib \<Rightarrow> ('b, 'r) genesis_env \<Rightarrow> GenesisAccount \<Rightarrow> 'r Ctx \<Rightarrow> (string, 'r Ctx) outcome" where
  "init_account D L G account c =
     (let address = HexToAddress L (ga_Address account) in
      case akGetAccount D (modules c) (AddressBytes address) of
        None \<Rightarrow> Panic
      | Some (OtherAccount _) \<Rightarrow> Panic
      | Some (EthAccount _ h) \<Rightarrow>
          let code = gHex2Bytes G (ga_Code account); codeHash = cryptoKeccak256Hash D code in
          if length (ga_Code account) \<noteq> 0 \<and> HashBytes h \<noteq> HashBytes codeHash then Panic
          else Ok (fold (\<lambda>storage c. keeper_SetState c address (HexToHash L (st_Key storage)) (HashBytes (HexToHash L (st_Value storage))))
                 (ga_Storage account) (keeper_SetCode c (HashBytes codeHash) code)))"

definition evm_InitGenesis ::
  "('b, 'r, 'cc) sdk \<Rightarrow> 'cc param_checks \<Rightarrow> txlib \<Rightarrow> ('b, 'r) genesis_env \<Rightarrow> int option \<Rightarrow> 'r Ctx \<Rightarrow> 'cc evm_GenesisState \<Rightarrow>
     (string, int option \<times> 'r Ctx) outcome" where
  "evm_InitGenesis D C L G eip155ChainID c data =
     bind_outcome (WithChainID eip155ChainID c) (\<lambda>chainID.
     case SetParams D C c (gs_EvmParams data) of
       Ok c1 \<Rightarrow>
         if \<not> gModuleAddress G then Panic
         else bind_outcome (fold_outcome (init_account D L G) (gs_Accounts data) c1) (\<lambda>c2. Ok (chainID, c2))
     | _ \<Rightarrow> Panic)"

definition EthAddress :: "('b, 'r) genesis_env \<Rightarrow> 'b \<Rightarrow> Address" where
  "EthAddress G b = word_of_nat (be_nat (gAddress G b))"

definition export_account :: "('b, 'r, 'cc) sdk \<Rightarrow> txlib \<Rightarrow> ('b, 'r) genesis_env \<Rightarrow> 'r Ctx \<Rightarrow> 'b \<Rightarrow> Hash \<Rightarrow> GenesisAccount" where
  "export_account D L G c b h =
     \<lparr>ga_Address = AddressHex L (EthAddress G b),
      ga_Code = gBytes2Hex G (case keeper_GetCode c h of None \<Rightarrow> [] | Some code \<Rightarrow> code),
      ga_Storage = map (\<lambda>(k, v). NewState L k v) (GetAccountStorage c (EthAddress G b))\<rparr>"

definition evm_ExportGenesis ::
  "('b, 'r, 'cc) sdk \<Rightarrow> txlib \<Rightarrow> ('b, 'r) genesis_env \<Rightarrow> 'r Ctx \<Rightarrow> 'cc evm_GenesisState" where
  "evm_ExportGenesis D L G c =
     \<lparr>gs_Accounts = concat (map (\<lambda>account. case account of
          EthAccount b h \<Rightarrow> [export_account D L G c b h] | OtherAccount _ \<Rightarrow> []) (gAccounts G (modules c))),
      gs_EvmParams = GetParams D c\<rparr>"

subsection \<open>Blocks\<close>

definition evm_BeginBlock :: "int option \<Rightarrow> 'r Ctx \<Rightarrow> (string, int option) outcome" where
  "evm_BeginBlock eip155ChainID c = WithChainID eip155ChainID c"

text \<open>The event of the block's bloom filter is the result.\<close>

definition evm_EndBlock :: "('b, 'r, 'cc, 'd) chain \<Rightarrow> 'r Ctx \<Rightarrow> string \<times> (string \<times> int) list" where
  "evm_EndBlock X c = (''block_bloom'', [(''bloom'', xBytesToBloom X (GetBlockBloomTransient c))])"
text \<open>The defaults of the module, and its genesis without accounts.\<close>

definition NewParams ::
  "string \<Rightarrow> bool \<Rightarrow> bool \<Rightarrow> bool \<Rightarrow> 'cc \<Rightarrow> int list \<Rightarrow> string list \<Rightarrow> 'cc Params" where
  "NewParams evmDenom allowUnprotectedTxs enableCreate enableCall config extraEIPs activePrecompiles =
     \<lparr>EvmDenom = evmDenom, EnableCreate = enableCreate, EnableCall = enableCall, ExtraEIPs = extraEIPs,
      ChainConfig = config, AllowUnprotectedTxs = allowUnprotectedTxs, ActivePrecompiles = activePrecompiles\<rparr>"

definition evm_DefaultParams :: "txlib \<Rightarrow> EvmChainConfig Params" where
  "evm_DefaultParams L =
     \<lparr>EvmDenom = ''anryton'', EnableCreate = True, EnableCall = True, ExtraEIPs = [], ChainConfig = DefaultChainConfig L,
      AllowUnprotectedTxs = False, ActivePrecompiles = AvailableEVMExtensions\<rparr>"

definition evm_DefaultGenesisState :: "txlib \<Rightarrow> EvmChainConfig evm_GenesisState" where
  "evm_DefaultGenesisState L = \<lparr>gs_Accounts = [], gs_EvmParams = evm_DefaultParams L\<rparr>"

subsection \<open>Migrations\<close>

text \<open>The keys under which version 4 keeps the parameters, one by one.\<close>

definition ParamStoreKeyEVMDenom :: bytes where "ParamStoreKeyEVMDenom = bytes_of ''EVMDenom''"
definition ParamStoreKeyEnableCreate :: bytes where "ParamStoreKeyEnableCreate = bytes_of ''EnableCreate''"
definition ParamStoreKeyEnableCall :: bytes where "ParamStoreKeyEnableCall = bytes_of ''EnableCall''"
definition ParamStoreKeyExtraEIPs :: bytes where "ParamStoreKeyExtraEIPs = bytes_of ''EnableExtraEIPs''"
definition ParamStoreKeyChainConfig :: bytes where "ParamStoreKeyChainConfig = bytes_of ''ChainConfig''"
definition ParamStoreKeyAllowUnprotectedTxs :: bytes where "ParamStoreKeyAllowUnprotectedTxs = bytes_of ''AllowUnprotectedTxs''"

lemmas legacy_keys = ParamStoreKeyEVMDenom_def ParamStoreKeyEnableCreate_def ParamStoreKeyEnableCall_def
  ParamStoreKeyExtraEIPs_def ParamStoreKeyChainConfig_def ParamStoreKeyAllowUnprotectedTxs_def

text \<open>The codec of the chain configuration and of the list of EIPs; \<open>MustUnmarshal\<close> panics on bytes that do not decode.\<close>

record 'cc migration_codec =
  mMarshalConfig :: "'cc \<Rightarrow> bytes"
  mUnmarshalConfig :: "bytes \<Rightarrow> 'cc option"
  mMarshalEIPs :: "int list \<Rightarrow> bytes"
  mUnmarshalEIPs :: "bytes \<Rightarrow> int list option"

definition set_flag :: "bool \<Rightarrow> bytes \<Rightarrow> kvstore \<Rightarrow> kvstore" where
  "set_flag b key store = (if b then fmupd key [1] store else store)"

definition v4_MigrateStore ::
  "('b, 'r, 'cc) sdk \<Rightarrow> 'cc param_checks \<Rightarrow> 'cc migration_codec \<Rightarrow> 'r Ctx \<Rightarrow> (string, 'r Ctx) outcome" where
  "v4_MigrateStore D C M c =
     (let params = ssGetParamSetIfExists D (modules c) in
      bind_outcome (Params_Validate C params) (\<lambda>_.
      let store1 = fmupd ParamStoreKeyEVMDenom (bytes_of (EvmDenom params)) (kvStore c);
          store2 = fmupd ParamStoreKeyExtraEIPs (mMarshalEIPs M (ExtraEIPs params)) store1;
          store3 = fmupd ParamStoreKeyChainConfig (mMarshalConfig M (ChainConfig params)) store2;
          store4 = set_flag (AllowUnprotectedTxs params) ParamStoreKeyAllowUnprotectedTxs store3;
          store5 = set_flag (EnableCall params) ParamStoreKeyEnableCall store4;
          store6 = set_flag (EnableCreate params) ParamStoreKeyEnableCreate store5
      in Ok (c\<lparr>kvStore := store6\<rparr>)))"

definition store_Has :: "kvstore \<Rightarrow> bytes \<Rightarrow> bool" where
  "store_Has store key \<longleftrightarrow> fmlookup store key \<noteq> None"

definition v5_MigrateStore ::
  "('b, 'r, 'cc) sdk \<Rightarrow> 'cc param_checks \<Rightarrow> 'cc migration_codec \<Rightarrow> 'r Ctx \<Rightarrow> (string, 'r Ctx) outcome" where
  "v5_MigrateStore D C M c =
     (let store = kvStore c; denom = chars_of (store_Get store ParamStoreKeyEVMDenom) in
      case mUnmarshalEIPs M (store_Get store ParamStoreKeyExtraEIPs) of
        None \<Rightarrow> Panic
      | Some stored \<Rightarrow>
          let extraEIPs = (if ChainIDString c = ''anryton_9000-4'' then [] else stored) in
          case mUnmarshalConfig M (store_Get store ParamStoreKeyChainConfig) of
            None \<Rightarrow> Panic
          | Some chainConfig \<Rightarrow>
              let params = \<lparr>EvmDenom = denom, EnableCreate = store_Has store ParamStoreKeyEnableCreate,
                    EnableCall = store_Has store ParamStoreKeyEnableCall, ExtraEIPs = extraEIPs, ChainConfig = chainConfig,
                    AllowUnprotectedTxs = store_Has store ParamStoreKeyAllowUnprotectedTxs, ActivePrecompiles = []\<rparr>;
                  store' = fold fmdrop [ParamStoreKeyChainConfig, ParamStoreKeyExtraEIPs, ParamStoreKeyEVMDenom,
                    ParamStoreKeyEnableCreate, ParamStoreKeyEnableCall, ParamStoreKeyAllowUnprotectedTxs] store
              in bind_outcome (Params_Validate C params) (\<lambda>_.
                 case MarshalParams D params of
                   Ok bz \<Rightarrow> Ok (c\<lparr>kvStore := fmupd KeyPrefixParams bz store'\<rparr>)
                 | _ \<Rightarrow> Panic))"

definition Migrate3to4 ::
  "('b, 'r, 'cc) sdk \<Rightarrow> 'cc param_checks \<Rightarrow> 'cc migration_codec \<Rightarrow> 'r Ctx \<Rightarrow> (string, 'r Ctx) outcome" where
  "Migrate3to4 D C M c = v4_MigrateStore D C M c"

definition Migrate4to5 ::
  "('b, 'r, 'cc) sdk \<Rightarrow> 'cc param_checks \<Rightarrow> 'cc migration_codec \<Rightarrow> 'r Ctx \<Rightarrow> (string, 'r Ctx) outcome" where
  "Migrate4to5 D C M c = v5_MigrateStore D C M c"

subsection \<open>Queries of the state\<close>

text \<open>A nil request is \<^const>\<open>None\<close>. Balances are returned as numbers, not printed.\<close>

record QueryAccountResponse =
  qa_Balance :: "int option"
  qa_CodeHash :: string
  qa_Nonce :: uint64

definition with_address ::
  "txlib \<Rightarrow> string option \<Rightarrow> (Address \<Rightarrow> (string, 'x) outcome) \<Rightarrow> (string, 'x) outcome" where
  "with_address L req f =
     (case req of
        None \<Rightarrow> Err ''empty request''
      | Some address \<Rightarrow> bind_outcome (ValidateAddress L address) (\<lambda>_. f (HexToAddress L address)))"

definition query_Account ::
  "('b, 'r, 'cc) sdk \<Rightarrow> txlib \<Rightarrow> 'r Ctx \<Rightarrow> string option \<Rightarrow> (string, QueryAccountResponse) outcome" where
  "query_Account D L c req =
     with_address L req (\<lambda>addr.
       let acct = GetAccountOrEmpty D c addr in
       Ok \<lparr>qa_Balance = Balance acct,
           qa_CodeHash = HashHex L (BytesToHash (case CodeHash acct of None \<Rightarrow> [] | Some h \<Rightarrow> h)), qa_Nonce = Nonce acct\<rparr>)"

text \<open>\<open>GetAccountNumber\<close> of a base account and the printing of addresses are arguments; a missing account has sequence and number zero.\<close>

definition query_CosmosAccount ::
  "('b, 'r, 'cc) sdk \<Rightarrow> txlib \<Rightarrow> ('b \<Rightarrow> uint64) \<Rightarrow> (bytes \<Rightarrow> string) \<Rightarrow> 'r Ctx \<Rightarrow> string option \<Rightarrow>
     (string, string \<times> uint64 \<times> uint64) outcome" where
  "query_CosmosAccount D L number bech32 c req =
     with_address L req (\<lambda>ethAddr.
       let cosmosAddr = AddressBytes ethAddr in
       Ok (case akGetAccount D (modules c) cosmosAddr of
             None \<Rightarrow> (bech32 cosmosAddr, 0, 0)
           | Some account \<Rightarrow> (bech32 cosmosAddr, GetSequence D (base_of account), number (base_of account))))"

definition query_ValidatorAccount ::
  "('b, 'r, 'cc) sdk \<Rightarrow> ('b \<Rightarrow> uint64) \<Rightarrow> (bytes \<Rightarrow> string) \<Rightarrow> (string \<Rightarrow> (string, bytes) outcome) \<Rightarrow>
     ('r \<Rightarrow> bytes \<Rightarrow> bytes option) \<Rightarrow> 'r Ctx \<Rightarrow> string option \<Rightarrow> (string, string \<times> uint64 \<times> uint64) outcome" where
  "query_ValidatorAccount D number bech32 ConsAddressFromBech32 GetValidatorByConsAddr c req =
     (case req of
        None \<Rightarrow> Err ''empty request''
      | Some consAddress \<Rightarrow>
          bind_outcome (ConsAddressFromBech32 consAddress) (\<lambda>consAddr.
          case GetValidatorByConsAddr (modules c) consAddr of
            None \<Rightarrow> Err ''validator not found''
          | Some accAddr \<Rightarrow>
              Ok (case akGetAccount D (modules c) accAddr of
                    None \<Rightarrow> (bech32 accAddr, 0, 0)
                  | Some account \<Rightarrow> (bech32 accAddr, GetSequence D (base_of account), number (base_of account)))))"

definition query_Balance :: "('b, 'r, 'cc) sdk \<Rightarrow> txlib \<Rightarrow> 'r Ctx \<Rightarrow> string option \<Rightarrow> (string, int) outcome" where
  "query_Balance D L c req = with_address L req (\<lambda>addr. Ok (keeper_GetBalance D c addr))"

definition query_Storage :: "txlib \<Rightarrow> 'r Ctx \<Rightarrow> string option \<Rightarrow> string \<Rightarrow> (string, string) outcome" where
  "query_Storage L c req key =
     with_address L req (\<lambda>address. Ok (HashHex L (keeper_GetState c address (HexToHash L key))))"

text \<open>\<open>IsContract\<close> of an account: its code hash is not that of empty code.\<close>

definition query_Code :: "('b, 'r, 'cc) sdk \<Rightarrow> txlib \<Rightarrow> 'r Ctx \<Rightarrow> string option \<Rightarrow> (string, bytes option) outcome" where
  "query_Code D L c req =
     with_address L req (\<lambda>address. Ok
       (case GetAccountWithoutBalance D c address of
          None \<Rightarrow> None
        | Some acct \<Rightarrow>
            let codeHash = (case CodeHash acct of None \<Rightarrow> [] | Some h \<Rightarrow> h) in
            if codeHash \<noteq> EmptyCodeHash D then keeper_GetCode c (BytesToHash codeHash) else None))"

definition query_Params :: "('b, 'r, 'cc) sdk \<Rightarrow> 'r Ctx \<Rightarrow> 'cc Params" where
  "query_Params D c = GetParams D c"

definition query_BaseFee :: "('b, 'r, 'cc, 'd) chain \<Rightarrow> 'r Ctx \<Rightarrow> (string, int option) outcome" where
  "query_BaseFee X c =
     (case GetBaseFee X c (ChainConfig (GetParams (xsdk X) c)) of
        None \<Rightarrow> Ok None
      | Some baseFee \<Rightarrow> bind_outcome (option_outcome (NewIntFromBigInt (xlib X) baseFee)) (\<lambda>aux. Ok (Some aux)))"

definition getChainID :: "'r Ctx \<Rightarrow> int \<Rightarrow> (string, int) outcome" where
  "getChainID c chainID = (if chainID = 0 then ParseChainID (ChainIDString c) else Ok chainID)"

definition GetProposerAddress :: "bytes \<Rightarrow> bytes \<Rightarrow> bytes" where
  "GetProposerAddress headerProposer proposerAddress =
     (if length proposerAddress = 0 then headerProposer else proposerAddress)"

definition GetCoinbaseAddress ::
  "('r \<Rightarrow> bytes \<Rightarrow> bytes option) \<Rightarrow> bytes \<Rightarrow> 'r Ctx \<Rightarrow> bytes \<Rightarrow> (string, Address) outcome" where
  "GetCoinbaseAddress GetValidatorByConsAddr headerProposer c proposerAddress =
     (case GetValidatorByConsAddr (modules c) (GetProposerAddress headerProposer proposerAddress) of
        None \<Rightarrow> Err ''failed to retrieve validator from block proposer address''
      | Some operator \<Rightarrow> Ok (word_of_nat (be_nat operator)))"

end
