(* ===== verification/Evm_Genesis_Laws.thy ===== *)
theory Evm_Genesis_Laws
  imports Evm_Genesis Ledger
begin

text \<open>
  What genesis and the migrations of the EVM module keep: an exported genesis, imported into a fresh store, gives back the
  parameters, the code and the storage of every Ethereum account; the two migrations of the parameters give back the
  parameters of the legacy subspace; logs survive the conversion to the messages of the responses and back.
\<close>

subsection \<open>Writing accounts\<close>

text \<open>A step of the import towards the exported state \<open>c\<close>: every cell and every code is kept or becomes that of \<open>c\<close>.\<close>

definition toward :: "'r Ctx \<Rightarrow> 'r Ctx \<Rightarrow> 'r Ctx \<Rightarrow> bool" where
  "toward c s s' \<longleftrightarrow>
     modules s' = modules s \<and> store_Get (kvStore s') KeyPrefixParams = store_Get (kvStore s) KeyPrefixParams \<and>
     (\<forall>h. keeper_GetCode s' h \<in> {keeper_GetCode s h, keeper_GetCode c h}) \<and>
     (\<forall>a k. keeper_GetState s' a k \<in> {keeper_GetState s a k, keeper_GetState c a k})"

text \<open>What was written so far agrees with \<open>c\<close>, the rest is empty.\<close>

definition within :: "'r Ctx \<Rightarrow> 'r Ctx \<Rightarrow> bool" where
  "within c s \<longleftrightarrow> (\<forall>h. keeper_GetCode s h \<in> {None, keeper_GetCode c h}) \<and> (\<forall>a k. keeper_GetState s a k \<in> {0, keeper_GetState c a k})"

lemma toward_refl [simp]: "toward c s s"
  by (simp add: toward_def)

lemma toward_trans: "toward c s t \<Longrightarrow> toward c t u \<Longrightarrow> toward c s u"
  unfolding toward_def by (smt (verit, best) insert_iff singletonD)

lemma toward_within: "within c s \<Longrightarrow> toward c s t \<Longrightarrow> within c t"
  unfolding toward_def within_def by (smt (verit, best) insert_iff singletonD)

definition account_done :: "'r Ctx \<Rightarrow> Address \<Rightarrow> Hash \<Rightarrow> 'r Ctx \<Rightarrow> bool" where
  "account_done c a h s \<longleftrightarrow> keeper_GetCode s h = keeper_GetCode c h \<and> (\<forall>k. keeper_GetState s a k = keeper_GetState c a k)"

lemma account_done_toward: "account_done c a h s \<Longrightarrow> toward c s t \<Longrightarrow> account_done c a h t"
  unfolding account_done_def toward_def by (metis insert_iff singletonD)

lemma GetCode_SetState [simp]: "keeper_GetCode (keeper_SetState s a k v) h = keeper_GetCode s h"
  by (simp add: keeper_GetCode_def keeper_SetState_def Let_def)

lemma GetCode_SetCode:
  "keeper_GetCode (keeper_SetCode s (HashBytes g) code) h =
     (if g = h then if code = [] then None else Some code else keeper_GetCode s h)"
  by (auto simp: keeper_GetCode_def keeper_SetCode_def)

lemma set_storage:
  "let s' = fold (\<lambda>(k, v) s. keeper_SetState s a k (HashBytes v)) ps s in
     modules s' = modules s \<and> store_Get (kvStore s') KeyPrefixParams = store_Get (kvStore s) KeyPrefixParams \<and>
     keeper_GetCode s' h = keeper_GetCode s h \<and>
     keeper_GetState s' b k =
       (if b = a then (case map_of (rev ps) k of Some v \<Rightarrow> v | None \<Rightarrow> keeper_GetState s b k) else keeper_GetState s b k)"
  unfolding Let_def
  by (induction ps arbitrary: s) (auto simp: GetState_SetState map_add_def split: option.splits)
lemma GetAccountStorage_pairs: "GetAccountStorage c a = storage_pairs c a"
proof -
  have "each_pair (\<lambda>k v storage. (True, storage @ [(k, v)])) ps acc = acc @ ps" for ps acc
    by (induction ps arbitrary: acc) auto
  then show ?thesis by (simp add: GetAccountStorage_def keeper_ForEachStorage_def)
qed

text \<open>
  What the import relies on. Of the libraries: hexadecimal text decodes to what was encoded, and no code but the empty one has
  the hash of the empty code. Of the exported store: storage keys have the length the keeper gives them and no empty value, and
  code is stored under its hash.
\<close>

definition genesis_laws :: "('b, 'r, 'cc) sdk \<Rightarrow> txlib \<Rightarrow> ('b, 'r) genesis_env \<Rightarrow> bool" where
  "genesis_laws D L G \<longleftrightarrow>
     lib_laws L \<and> gBytes2Hex G [] = [] \<and> (\<forall>bs. gHex2Bytes G (gBytes2Hex G bs) = bs) \<and>
     (\<forall>code. cryptoKeccak256Hash D code = cryptoKeccak256Hash D [] \<longrightarrow> code = [])"

definition store_ok :: "('b, 'r, 'cc) sdk \<Rightarrow> 'r Ctx \<Rightarrow> bool" where
  "store_ok D c \<longleftrightarrow>
     (\<forall>key a. key |\<in>| fmdom (kvStore c) \<longrightarrow> take 21 key = AddressStoragePrefix a \<longrightarrow>
        length key = 53 \<and> store_Get (kvStore c) key \<noteq> []) \<and>
     (\<forall>h code. keeper_GetCode c h = Some code \<longrightarrow> code \<noteq> [] \<and> cryptoKeccak256Hash D code = h)"

lemma storage_pairs_map_of:
  assumes "store_ok D c"
  shows "(case map_of (rev (storage_pairs c a)) k of Some v \<Rightarrow> v | None \<Rightarrow> 0) = keeper_GetState c a k"
proof (cases "map_of (rev (storage_pairs c a)) k")
  case None
  then have "k \<notin> fst ` set (storage_pairs c a)" by (simp add: map_of_eq_None_iff)
  with storage_pairs_complete [of c a k] None show ?thesis by force
next
  case (Some v)
  then have "(k, v) \<in> set (storage_pairs c a)" by (metis map_of_SomeD set_rev)
  with assms Some show ?thesis by (auto simp: store_ok_def dest: storage_pairs_sound)
qed

lemma import_storage:
  fixes a :: Address
  assumes ok: "store_ok D c" and s: "within c s"
  defines "s' \<equiv> fold (\<lambda>(k, v) s. keeper_SetState s a k (HashBytes v)) (storage_pairs c a) s"
  shows "toward c s s'" "keeper_GetState s' a k = keeper_GetState c a k" "keeper_GetCode s' h = keeper_GetCode s h"
proof -
  have cells: "keeper_GetState s' b k =
      (if b = a then (case map_of (rev (storage_pairs c a)) k of Some v \<Rightarrow> v | None \<Rightarrow> keeper_GetState s b k)
       else keeper_GetState s b k)" for b k
    using set_storage [of a "storage_pairs c a" s undefined b k] by (simp add: s'_def Let_def)
  have at: "keeper_GetState s' a k = keeper_GetState c a k" for k
  proof (cases "map_of (rev (storage_pairs c a)) k")
    case None
    then have "keeper_GetState c a k = 0" using storage_pairs_map_of [OF ok, of a k] by simp
    moreover from this have "keeper_GetState s a k = 0" using s unfolding within_def by (metis insert_iff singletonD)
    ultimately show ?thesis using None by (simp add: cells)
  qed (use storage_pairs_map_of [OF ok, of a k] cells in auto)
  then show "keeper_GetState s' a k = keeper_GetState c a k" .
  have code: "keeper_GetCode s' h = keeper_GetCode s h" for h
    using set_storage [of a "storage_pairs c a" s h] by (simp add: s'_def Let_def)
  then show "keeper_GetCode s' h = keeper_GetCode s h" .
  show "toward c s s'"
    using set_storage [of a "storage_pairs c a" s] at cells code
    by (auto simp: toward_def s'_def [symmetric] Let_def)
qed

lemma fold_NewState:
  "lib_laws L \<Longrightarrow>
   fold (\<lambda>st s. keeper_SetState s a (HexToHash L (st_Key st)) (HashBytes (HexToHash L (st_Value st))))
     (map (\<lambda>(k, v). NewState L k v) ps) s = fold (\<lambda>(k, v) s. keeper_SetState s a k (HashBytes v)) ps s"
  by (induction ps arbitrary: s) (auto simp: NewState_def lib_laws_def)

lemma import_account:
  assumes laws: "genesis_laws D L G" and ok: "store_ok D c" and s: "within c s"
    and acc: "akGetAccount D (modules s) (AddressBytes (EthAddress G b)) = Some (EthAccount b' h)"
  shows "\<exists>s'. init_account D L G (export_account D L G c b h) s = Ok s' \<and> toward c s s' \<and> account_done c (EthAddress G b) h s'"
proof -
  let ?a = "EthAddress G b" and ?code = "case keeper_GetCode c h of None \<Rightarrow> [] | Some code \<Rightarrow> code"
  let ?s1 = "keeper_SetCode s (HashBytes (cryptoKeccak256Hash D ?code)) ?code"
  let ?s2 = "fold (\<lambda>(k, v) s. keeper_SetState s ?a k (HashBytes v)) (storage_pairs c ?a) ?s1"
  have hash: "?code = [] \<or> cryptoKeccak256Hash D ?code = h"
    using ok by (auto simp: store_ok_def split: option.splits)
  have empty: "keeper_GetCode c (cryptoKeccak256Hash D []) = None"
    using ok laws unfolding store_ok_def genesis_laws_def by (metis not_None_eq)
  have code: "toward c s ?s1" "keeper_GetCode ?s1 h = keeper_GetCode c h"
    using hash empty s ok unfolding toward_def within_def store_ok_def
    by (auto simp: GetCode_SetCode split: option.splits)
  have s1: "within c ?s1" by (rule toward_within [OF s code(1)])
  have "init_account D L G (export_account D L G c b h) s = Ok ?s2"
    using laws acc hash by (auto simp: init_account_def export_account_def genesis_laws_def lib_laws_def Let_def
        GetAccountStorage_pairs fold_NewState [unfolded lib_laws_def])
  moreover have "toward c s ?s2" by (rule toward_trans [OF code(1) import_storage(1) [OF ok s1]])
  moreover have "account_done c ?a h ?s2"
    using import_storage(2,3) [OF ok s1, where a = ?a] code(2) by (auto simp: account_done_def)
  ultimately show ?thesis by blast
qed
lemma import_accounts:
  assumes laws: "genesis_laws D L G" and ok: "store_ok D c" and "within c s"
    and "\<And>b h. (b, h) \<in> set bhs \<Longrightarrow> \<exists>b'. akGetAccount D (modules s) (AddressBytes (EthAddress G b)) = Some (EthAccount b' h)"
  shows "\<exists>s'. fold_outcome (init_account D L G) (map (\<lambda>(b, h). export_account D L G c b h) bhs) s = Ok s' \<and> toward c s s' \<and>
    (\<forall>(b, h) \<in> set bhs. account_done c (EthAddress G b) h s')"
  using assms(3,4)
proof (induction bhs arbitrary: s)
  case (Cons p bhs)
  obtain b h where p: "p = (b, h)" by (cases p)
  obtain b' where "akGetAccount D (modules s) (AddressBytes (EthAddress G b)) = Some (EthAccount b' h)"
    using Cons.prems(2) [of b h] p by auto
  from import_account [OF laws ok Cons.prems(1) this] obtain t where
    t: "init_account D L G (export_account D L G c b h) s = Ok t" "toward c s t" "account_done c (EthAddress G b) h t" by blast
  have "modules t = modules s" using t(2) by (simp add: toward_def)
  then obtain u where u: "fold_outcome (init_account D L G) (map (\<lambda>(b, h). export_account D L G c b h) bhs) t = Ok u"
    "toward c t u" "\<forall>(b, h) \<in> set bhs. account_done c (EthAddress G b) h u"
    using Cons.IH [OF toward_within [OF Cons.prems(1) t(2)]] Cons.prems(2) by auto
  with t p show ?case using toward_trans [OF t(2) u(2)] account_done_toward [OF t(3) u(2)] by auto
qed simp

text \<open>The accounts that the export writes.\<close>

fun eth_accounts :: "'b AccountI list \<Rightarrow> ('b \<times> Hash) list" where
  "eth_accounts [] = []"
| "eth_accounts (EthAccount b h # rest) = (b, h) # eth_accounts rest"
| "eth_accounts (OtherAccount b # rest) = eth_accounts rest"

lemma set_eth_accounts: "(b, h) \<in> set (eth_accounts as) \<longleftrightarrow> EthAccount b h \<in> set as"
  by (induction as rule: eth_accounts.induct) auto

lemma exported_accounts:
  "gs_Accounts (evm_ExportGenesis D L G c) =
     map (\<lambda>(b, h). export_account D L G c b h) (eth_accounts (gAccounts G (modules c)))"
proof -
  have "concat (map (\<lambda>account. case account of EthAccount b h \<Rightarrow> [export_account D L G c b h] | OtherAccount _ \<Rightarrow> []) as) =
      map (\<lambda>(b, h). export_account D L G c b h) (eth_accounts as)" for as
    by (induction as rule: eth_accounts.induct) auto
  then show ?thesis by (simp add: evm_ExportGenesis_def)
qed

text \<open>C21. Genesis restores the EVM state. Importing what \<open>ExportGenesis\<close> writes into an empty store, on a chain whose account module
  holds the exported Ethereum accounts, succeeds and gives back the module parameters, and the code and every storage cell of
  every Ethereum account; the other modules are left alone, and the keeper takes the chain identifier of the context.
\<close>

theorem evm_genesis_restores:
  assumes laws: "genesis_laws D L G" and ok: "store_ok D c"
    and fresh: "kvStore c0 = fmempty" and mods: "gModuleAddress G"
    and chain: "ParseChainID (ChainIDString c0) = Ok chainID" "eip155ChainID \<in> {None, Some chainID}"
    and params: "Params_Validate C (GetParams D c) = Ok ()" "MarshalParams D (GetParams D c) = Ok bz" "bz \<noteq> []"
      "MustUnmarshalParams D bz = GetParams D c"
    and accounts: "\<forall>b h. EthAccount b h \<in> set (gAccounts G (modules c)) \<longrightarrow>
      akGetAccount D (modules c0) (AddressBytes (EthAddress G b)) = Some (EthAccount b h)"
  shows "\<exists>c'. evm_InitGenesis D C L G eip155ChainID c0 (evm_ExportGenesis D L G c) = Ok (Some chainID, c') \<and>
    GetParams D c' = GetParams D c \<and> modules c' = modules c0 \<and>
    (\<forall>b h. EthAccount b h \<in> set (gAccounts G (modules c)) \<longrightarrow>
       keeper_GetCode c' h = keeper_GetCode c h \<and>
       (\<forall>k. keeper_GetState c' (EthAddress G b) k = keeper_GetState c (EthAddress G b) k))"
proof -
  let ?c1 = "c0\<lparr>kvStore := fmupd KeyPrefixParams bz (kvStore c0)\<rparr>"
  have "within c ?c1"
    using fresh by (simp add: within_def keeper_GetCode_def keeper_GetState_def store_Get_def Let_def)
  then obtain c2 where c2: "fold_outcome (init_account D L G) (gs_Accounts (evm_ExportGenesis D L G c)) ?c1 = Ok c2"
    "toward c ?c1 c2" "\<forall>(b, h) \<in> set (eth_accounts (gAccounts G (modules c))). account_done c (EthAddress G b) h c2"
    unfolding exported_accounts
    using import_accounts [OF laws ok, of ?c1 "eth_accounts (gAccounts G (modules c))"] accounts
    by (auto simp: set_eth_accounts)
  have "evm_InitGenesis D C L G eip155ChainID c0 (evm_ExportGenesis D L G c) = Ok (Some chainID, c2)"
    using chain params mods c2(1)
    by (auto simp: evm_InitGenesis_def WithChainID_def SetParams_def evm_ExportGenesis_def)
  moreover have "GetParams D c2 = GetParams D c"
    using c2(2) params by (simp add: toward_def GetParams_def store_Get_def)
  moreover have "account_done c (EthAddress G b) h c2" if "EthAccount b h \<in> set (gAccounts G (modules c))" for b h
    using c2(3) that set_eth_accounts by fastforce
  ultimately show ?thesis using c2(2) by (auto simp: toward_def account_done_def)
qed
text \<open>An instance: one contract with a storage cell; the hash tells empty code from other code.\<close>

definition genesis_sdk :: "(bytes \<times> uint64, ledger, unit) sdk" where
  "genesis_sdk = ledger_sdk\<lparr>cryptoKeccak256Hash := (\<lambda>code. if code = [] then 0 else 1)\<rparr>"

definition contract_account :: "(bytes \<times> uint64) AccountI" where
  "contract_account = EthAccount (AddressBytes 5, 0) 1"

definition genesis_sample :: "(bytes \<times> uint64, ledger) genesis_env" where
  "genesis_sample =
     \<lparr>gHex2Bytes = bytes_of, gBytes2Hex = chars_of, gModuleAddress = True, gAccounts = (\<lambda>_. [contract_account]), gAddress = fst\<rparr>"

definition no_checks :: "'cc param_checks" where
  "no_checks = \<lparr>ValidateDenom = (\<lambda>_. Ok ()), ValidEip = (\<lambda>_. True), ValidateChainConfig = (\<lambda>_. Ok ()), IsHexAddress = (\<lambda>_. True)\<rparr>"

definition fresh_chain :: "ledger Ctx" where
  "fresh_chain =
     genesis\<lparr>modules := \<lparr>l_accounts = (\<lambda>a. if a = AddressBytes 5 then Some contract_account else None), l_balance = (\<lambda>_ _. 0)\<rparr>\<rparr>"

definition old_chain :: "ledger Ctx" where
  "old_chain = keeper_SetState (keeper_SetCode fresh_chain (HashBytes 1) [96, 0]) 5 7 (HashBytes 9)"

lemma genesis_sample_laws: "genesis_laws genesis_sdk raw_lib genesis_sample"
  using raw_lib_laws by (auto simp: genesis_laws_def genesis_sample_def genesis_sdk_def chars_of_def)
    (metis bytes_of_chars_of chars_of_def)

lemma HashBytes_nonempty [simp]: "HashBytes h \<noteq> []"
  by (simp flip: length_0_conv)

lemma old_chain_ok: "store_ok genesis_sdk old_chain"
  by (auto simp: store_ok_def old_chain_def keeper_SetState_def keeper_SetCode_def keeper_GetCode_def fresh_chain_def genesis_def
      genesis_sdk_def store_Get_def AddressStoragePrefix_def store_keys Let_def split: if_splits)

lemma sample_address: "EthAddress genesis_sample (AddressBytes a, n) = a"
  using unat_less_pow [of a] by (simp add: EthAddress_def genesis_sample_def AddressBytes_def be_nat_be_bytes)

theorem evm_genesis_restores_witness:
  "\<exists>c'. evm_InitGenesis genesis_sdk no_checks raw_lib genesis_sample None fresh_chain
      (evm_ExportGenesis genesis_sdk raw_lib genesis_sample old_chain) = Ok (Some 9000, c') \<and>
    keeper_GetCode c' 1 = Some [96, 0] \<and> keeper_GetState c' 5 7 = 9"
proof -
  have params: "GetParams genesis_sdk old_chain = ledger_params" "MarshalParams genesis_sdk ledger_params = Ok [1]"
    "MustUnmarshalParams genesis_sdk [1] = ledger_params" "Params_Validate no_checks ledger_params = Ok ()"
    by (simp_all add: GetParams_def GetLegacyParams_def genesis_sdk_def ledger_sdk_def Let_def Params_Validate_def no_checks_def
        ledger_params_def validatePrecompiles_def)
  have "ParseChainID (ChainIDString fresh_chain) = Ok 9000" by code_simp
  moreover have "kvStore fresh_chain = fmempty" "gModuleAddress genesis_sample"
    by (simp_all add: fresh_chain_def genesis_def genesis_sample_def)
  moreover have "\<forall>b h. EthAccount b h \<in> set (gAccounts genesis_sample (modules old_chain)) \<longrightarrow>
      akGetAccount genesis_sdk (modules fresh_chain) (AddressBytes (EthAddress genesis_sample b)) = Some (EthAccount b h)"
    using sample_address [of 5 0]
    by (auto simp: genesis_sample_def contract_account_def genesis_sdk_def ledger_sdk_def fresh_chain_def EthAddress_def)
  ultimately obtain c' where "evm_InitGenesis genesis_sdk no_checks raw_lib genesis_sample None fresh_chain
      (evm_ExportGenesis genesis_sdk raw_lib genesis_sample old_chain) = Ok (Some 9000, c')"
    "\<forall>b h. EthAccount b h \<in> set (gAccounts genesis_sample (modules old_chain)) \<longrightarrow>
       keeper_GetCode c' h = keeper_GetCode old_chain h \<and>
       (\<forall>k. keeper_GetState c' (EthAddress genesis_sample b) k = keeper_GetState old_chain (EthAddress genesis_sample b) k)"
    using evm_genesis_restores [OF genesis_sample_laws old_chain_ok, of fresh_chain 9000 None no_checks "[1]"] params by auto
  moreover from this(2) have "keeper_GetCode c' 1 = keeper_GetCode old_chain 1" "keeper_GetState c' 5 7 = keeper_GetState old_chain 5 7"
    using sample_address [of 5 0] by (auto simp: genesis_sample_def contract_account_def)
  moreover have "keeper_GetCode old_chain 1 = Some [96, 0]" "keeper_GetState old_chain 5 7 = 9"
    by (simp_all add: old_chain_def GetCode_SetCode GetState_SetState)
  ultimately show ?thesis by auto
qed
subsection \<open>Migrations\<close>

text \<open>The codec decodes the two values it encoded.\<close>

definition codec_ok :: "'cc migration_codec \<Rightarrow> 'cc Params \<Rightarrow> bool" where
  "codec_ok M p \<longleftrightarrow>
     mUnmarshalConfig M (mMarshalConfig M (ChainConfig p)) = Some (ChainConfig p) \<and>
     mUnmarshalEIPs M (mMarshalEIPs M (ExtraEIPs p)) = Some (ExtraEIPs p)"

definition legacy_key_list :: "bytes list" where
  "legacy_key_list = [ParamStoreKeyChainConfig, ParamStoreKeyExtraEIPs, ParamStoreKeyEVMDenom,
     ParamStoreKeyEnableCreate, ParamStoreKeyEnableCall, ParamStoreKeyAllowUnprotectedTxs]"

lemma text_of_bytes [simp]: "chars_of (bytes_of s) = s"
proof -
  have "char_of (unat (word_of_nat (of_char ch) :: byte)) = ch" for ch :: char
    by (simp add: unat_of_nat)
  then show ?thesis by (induction s) (simp_all add: bytes_of_def chars_of_def)
qed

lemma bytes_of_eq: "bytes_of s = bytes_of t \<longleftrightarrow> s = t"
  by (metis text_of_bytes)

lemma legacy_keys_distinct: "distinct (KeyPrefixParams # legacy_key_list)"
  unfolding legacy_key_list_def legacy_keys KeyPrefixParams_def by (simp add: bytes_of_eq, simp add: bytes_of_def)

lemma lookup_drops: "fmlookup (fold fmdrop ks m) k = (if k \<in> set ks then None else fmlookup m k)"
  by (induction ks arbitrary: m) auto

lemma lookup_set_flag: "fmlookup (set_flag b key m) k = (if b \<and> k = key then Some [1] else fmlookup m k)"
  by (simp add: set_flag_def)

definition v4_store :: "'cc migration_codec \<Rightarrow> 'cc Params \<Rightarrow> kvstore \<Rightarrow> kvstore" where
  "v4_store M p m =
     set_flag (EnableCreate p) ParamStoreKeyEnableCreate (set_flag (EnableCall p) ParamStoreKeyEnableCall
       (set_flag (AllowUnprotectedTxs p) ParamStoreKeyAllowUnprotectedTxs
         (fmupd ParamStoreKeyChainConfig (mMarshalConfig M (ChainConfig p))
           (fmupd ParamStoreKeyExtraEIPs (mMarshalEIPs M (ExtraEIPs p))
             (fmupd ParamStoreKeyEVMDenom (bytes_of (EvmDenom p)) m)))))"

lemma v4_store_reads:
  assumes "\<forall>k \<in> set legacy_key_list. fmlookup m k = None"
  shows "store_Get (v4_store M p m) ParamStoreKeyEVMDenom = bytes_of (EvmDenom p)"
    "store_Get (v4_store M p m) ParamStoreKeyExtraEIPs = mMarshalEIPs M (ExtraEIPs p)"
    "store_Get (v4_store M p m) ParamStoreKeyChainConfig = mMarshalConfig M (ChainConfig p)"
    "store_Has (v4_store M p m) ParamStoreKeyEnableCreate = EnableCreate p"
    "store_Has (v4_store M p m) ParamStoreKeyEnableCall = EnableCall p"
    "store_Has (v4_store M p m) ParamStoreKeyAllowUnprotectedTxs = AllowUnprotectedTxs p"
  using assms legacy_keys_distinct
  by (auto simp: v4_store_def store_Get_def store_Has_def lookup_set_flag legacy_key_list_def)

lemma v4_store_other: "k \<notin> set legacy_key_list \<Longrightarrow> fmlookup (v4_store M p m) k = fmlookup m k"
  by (auto simp: v4_store_def lookup_set_flag legacy_key_list_def)

lemma Params_Validate_no_precompiles:
  "Params_Validate C p = Ok () \<Longrightarrow> Params_Validate C (p\<lparr>ActivePrecompiles := [], ExtraEIPs := es\<rparr>) =
     bind_outcome (validateEIPs (ValidEip C) es) (\<lambda>_. Ok ())"
  by (auto simp: Params_Validate_def validatePrecompiles_def)

lemma params_cases: "p\<lparr>ActivePrecompiles := ps, ExtraEIPs := es\<rparr> =
   \<lparr>EvmDenom = EvmDenom p, EnableCreate = EnableCreate p, EnableCall = EnableCall p, ExtraEIPs = es,
    ChainConfig = ChainConfig p, AllowUnprotectedTxs = AllowUnprotectedTxs p, ActivePrecompiles = ps\<rparr>"
  by (cases p) simp

text \<open>The migrations keep the parameters. On a store without version-4 keys, the migration to version 4 followed by that to
  version 5 succeeds when the parameters of the legacy subspace are valid, and leaves the module with exactly these parameters
  (without active precompiles, which the legacy subspace does not hold, and without extra EIPs on the testnet
  \<open>anryton_9000-4\<close>); no version-4 key is left, and code, storage and every other entry of the store is as before.
\<close>

theorem migrations_keep_params:
  assumes codec: "codec_ok M (GetLegacyParams D c)" and valid: "Params_Validate C (GetLegacyParams D c) = Ok ()"
    and fresh: "\<forall>k \<in> set legacy_key_list. fmlookup (kvStore c) k = None"
    and params: "p = (GetLegacyParams D c)\<lparr>ActivePrecompiles := [],
      ExtraEIPs := if ChainIDString c = ''anryton_9000-4'' then [] else ExtraEIPs (GetLegacyParams D c)\<rparr>"
    and marshal: "MarshalParams D p = Ok bz" "bz \<noteq> []" "MustUnmarshalParams D bz = p"
  shows "\<exists>c1 c2. Migrate3to4 D C M c = Ok c1 \<and> Migrate4to5 D C M c1 = Ok c2 \<and> GetParams D c2 = p \<and>
    (\<forall>k. k \<noteq> KeyPrefixParams \<longrightarrow> fmlookup (kvStore c2) k = fmlookup (kvStore c) k) \<and> modules c2 = modules c"
proof -
  let ?l = "GetLegacyParams D c"
  let ?c1 = "c\<lparr>kvStore := v4_store M ?l (kvStore c)\<rparr>"
  let ?c2 = "?c1\<lparr>kvStore := fmupd KeyPrefixParams bz (fold fmdrop legacy_key_list (kvStore ?c1))\<rparr>"
  have v4: "Migrate3to4 D C M c = Ok ?c1"
    using valid by (simp add: Migrate3to4_def v4_MigrateStore_def GetLegacyParams_def v4_store_def Let_def)
  have "Params_Validate C p = Ok ()"
    using valid unfolding params by (subst Params_Validate_no_precompiles) (auto simp: Params_Validate_def)
  then have "Migrate4to5 D C M ?c1 = Ok ?c2"
    using codec marshal v4_store_reads [OF fresh, of M ?l] unfolding params params_cases
    by (auto simp: Migrate4to5_def v5_MigrateStore_def codec_ok_def Let_def legacy_key_list_def)
  moreover have "GetParams D ?c2 = p" using marshal by (simp add: GetParams_def store_Get_def)
  moreover have "fmlookup (kvStore ?c2) k = fmlookup (kvStore c) k" if "k \<noteq> KeyPrefixParams" for k
    using that fresh by (auto simp: lookup_drops v4_store_other)
  ultimately show ?thesis using v4 by auto
qed
definition migration_params :: "unit Params" where
  "migration_params = ledger_params\<lparr>ExtraEIPs := [3855]\<rparr>"

definition migration_sdk :: "(bytes \<times> uint64, ledger, unit) sdk" where
  "migration_sdk = ledger_sdk\<lparr>ssGetParamSetIfExists := (\<lambda>_. migration_params), MustUnmarshalParams := (\<lambda>_. migration_params)\<rparr>"

definition sample_codec :: "unit migration_codec" where
  "sample_codec = \<lparr>mMarshalConfig = (\<lambda>_. [2]), mUnmarshalConfig = (\<lambda>_. Some ()),
     mMarshalEIPs = map word_of_int, mUnmarshalEIPs = (\<lambda>bz. if bz = [15] then Some [3855] else None)\<rparr>"

theorem migrations_keep_params_witness:
  "\<exists>c1 c2. Migrate3to4 migration_sdk no_checks sample_codec old_chain = Ok c1 \<and>
     Migrate4to5 migration_sdk no_checks sample_codec c1 = Ok c2 \<and> GetParams migration_sdk c2 = migration_params \<and>
     keeper_GetCode c2 1 = Some [96, 0]"
proof -
  have legacy: "GetLegacyParams migration_sdk old_chain = migration_params"
    by (simp add: GetLegacyParams_def migration_sdk_def)
  have p: "migration_params = (GetLegacyParams migration_sdk old_chain)\<lparr>ActivePrecompiles := [],
      ExtraEIPs := if ChainIDString old_chain = ''anryton_9000-4'' then [] else ExtraEIPs (GetLegacyParams migration_sdk old_chain)\<rparr>"
    unfolding legacy by (simp add: migration_params_def ledger_params_def old_chain_def keeper_SetState_def keeper_SetCode_def
        fresh_chain_def genesis_def Let_def)
  have "codec_ok sample_codec (GetLegacyParams migration_sdk old_chain)"
    "Params_Validate no_checks (GetLegacyParams migration_sdk old_chain) = Ok ()"
    unfolding legacy by (simp_all add: codec_ok_def sample_codec_def migration_params_def ledger_params_def Params_Validate_def
        no_checks_def validatePrecompiles_def)
  moreover have "\<forall>k \<in> set legacy_key_list. fmlookup (kvStore old_chain) k = None"
    by (auto simp: legacy_key_list_def legacy_keys bytes_of_def old_chain_def keeper_SetState_def keeper_SetCode_def
        fresh_chain_def genesis_def Let_def AddressStoragePrefix_def store_keys)
  ultimately obtain c1 c2 where c: "Migrate3to4 migration_sdk no_checks sample_codec old_chain = Ok c1"
    "Migrate4to5 migration_sdk no_checks sample_codec c1 = Ok c2" "GetParams migration_sdk c2 = migration_params"
    "\<forall>k. k \<noteq> KeyPrefixParams \<longrightarrow> fmlookup (kvStore c2) k = fmlookup (kvStore old_chain) k"
    using migrations_keep_params [OF _ _ _ p, of sample_codec no_checks "[1]"]
    by (auto simp: migration_sdk_def ledger_sdk_def)
  have "keeper_GetCode old_chain 1 = Some [96, 0]" by (simp add: old_chain_def GetCode_SetCode)
  with c show ?thesis by (auto simp: keeper_GetCode_def)
qed

subsection \<open>Logs and the chain configuration\<close>

lemma ToEthereum_NewLogFromEth [simp]: "lib_laws L \<Longrightarrow> ToEthereum L (NewLogFromEth L log) = log"
  by (cases log) (simp add: ToEthereum_def NewLogFromEth_def lib_laws_def comp_def)

lemma logs_roundtrip: "lib_laws L \<Longrightarrow> LogsToEthereum L (NewLogsFromEth L ls) = ls"
  by (simp add: LogsToEthereum_def NewLogsFromEth_def comp_def)

text \<open>Logs of one transaction in one block validate together.\<close>

lemma transaction_logs_valid:
  assumes "lib_laws L" and "hash \<noteq> 0"
    and "\<forall>log \<in> set ls. log_TxHash log = hash \<and> log_BlockHash log \<noteq> 0 \<and> log_BlockNumber log \<noteq> 0"
  shows "TransactionLogs_Validate L (NewTransactionLogsFromEth L hash ls) = Ok ()"
proof -
  have "tx_logs_Validate L (HashHex L hash) (map Some (NewLogsFromEth L ls)) = Ok ()"
    using assms(3)
  proof (induction ls)
    case (Cons log ls)
    then show ?case
      using assms(1,2) by (auto simp: NewLogsFromEth_def NewLogFromEth_def Log_Validate_def ValidateAddress_def IsEmptyHash_def lib_laws_def)
  qed (simp add: NewLogsFromEth_def)
  with assms(1,2) show ?thesis
    by (auto simp: TransactionLogs_Validate_def NewTransactionLogsFromEth_def IsEmptyHash_def lib_laws_def)
qed

text \<open>A configuration that validates reaches go-ethereum unchanged: no block is negative, so none is dropped.\<close>

lemma validateBlock_Ok: "validateBlock b = Ok () \<Longrightarrow> getBlockValue b = b"
  by (auto simp: validateBlock_def getBlockValue_def split: option.splits if_splits)

lemma validateBlocks_Ok: "fold_outcome (\<lambda>b _. validateBlock b) bs () = Ok () \<Longrightarrow> map getBlockValue bs = bs"
  by (induction bs) (auto dest: validateBlock_Ok)

lemma config_Validate_blocks:
  assumes "config_Validate L order cc = Ok ()"
  shows "geth_blocks (EthereumConfig L cc chainID) = config_blocks cc"
proof -
  have "map getBlockValue (take 3 (config_blocks cc)) = take 3 (config_blocks cc)"
    "map getBlockValue (drop 3 (config_blocks cc)) = drop 3 (config_blocks cc)"
    using assms by (auto simp: config_Validate_def dest: validateBlocks_Ok)
  then have "map getBlockValue (take 3 (config_blocks cc) @ drop 3 (config_blocks cc)) = config_blocks cc"
    unfolding map_append by simp
  then show ?thesis by (simp add: EthereumConfig_def)
qed

lemma default_config_valid:
  "order (EthereumConfig L (DefaultChainConfig L) None) = Ok () \<Longrightarrow> TrimSpace (HashHex L 0) \<noteq> [] \<Longrightarrow>
   config_Validate L order (DefaultChainConfig L) = Ok ()"
  by (simp add: config_Validate_def config_blocks_def validateBlock_def validateHash_def)
    (simp add: DefaultChainConfig_def)

end
