(* ===== verification/Evm_Trace.thy ===== *)
theory Evm_Trace
  imports Evm_Genesis
begin

text \<open>
  Tracing of transactions (\<open>TraceTx\<close>, \<open>TraceBlock\<close> and \<open>traceTx\<close> of \<open>x/evm/keeper/grpc_query.go\<close>): the transactions before the traced
  one are run again on the state at the beginning of the block, each with the hash, the index and the first log index it had there.
\<close>

subsection \<open>Requests\<close>

record 'cc TraceConfig =
  tc_Tracer :: string
  tc_Timeout :: string
  tc_DisableStack :: bool
  tc_DisableStorage :: bool
  tc_Debug :: bool
  tc_Limit :: int
  tc_Overrides :: "'cc option"
  tc_EnableMemory :: bool
  tc_EnableReturnData :: bool
  tc_TracerJsonConfig :: string

definition empty_trace_config :: "'cc TraceConfig" where
  "empty_trace_config = \<lparr>tc_Tracer = [], tc_Timeout = [], tc_DisableStack = False, tc_DisableStorage = False, tc_Debug = False,
     tc_Limit = 0, tc_Overrides = None, tc_EnableMemory = False, tc_EnableReturnData = False, tc_TracerJsonConfig = []\<rparr>"

record 'cc trace_request =
  rq_TraceConfig :: "'cc TraceConfig option"
  rq_BlockNumber :: int
  rq_BlockHash :: string
  rq_BlockMaxGas :: int
  rq_ChainId :: int

record 'cc QueryTraceTxRequest = "'cc trace_request" +
  rq_Msg :: MsgEthereumTx
  rq_Predecessors :: "MsgEthereumTx list"

record 'cc QueryTraceBlockRequest = "'cc trace_request" +
  rq_Txs :: "MsgEthereumTx list"

text \<open>
  What tracing calls: the tracers of go-ethereum (\<open>tNew\<close> makes one from its name, \<open>tGetResult\<close> is what a tracer of that configuration
  has after the message was run), \<open>time.ParseDuration\<close>, decoding of hexadecimal text, JSON, and \<open>CalculateBaseFee\<close> of the fee
  market under the consensus parameters with the given maximal gas. A timeout that stops the tracer is part of its result.
\<close>

record ('r, 'cc, 'res) trace_env =
  tNew :: "string \<Rightarrow> TxConfig \<Rightarrow> string \<Rightarrow> (string, unit) outcome"
  tParseDuration :: "string \<Rightarrow> (string, unit) outcome"
  tGetResult :: "'cc TraceConfig \<Rightarrow> TxConfig \<Rightarrow> string \<Rightarrow> 'r Ctx \<Rightarrow> Message \<Rightarrow> 'cc EVMConfig \<Rightarrow> (string, 'res) outcome"
  tHex2Bytes :: "string \<Rightarrow> bytes"
  tJsonValid :: "string \<Rightarrow> bool"
  tMarshal :: "'res \<Rightarrow> (string, bytes) outcome"
  tMarshalAll :: "(string + 'res) list \<Rightarrow> (string, bytes) outcome"
  tCalculateBaseFee :: "'r Ctx \<Rightarrow> int \<Rightarrow> (string, int option) outcome"

subsection \<open>One transaction\<close>

text \<open>
  The result, the next log index, and the context with the stores afterwards. The gas meter set here is that of a copy of the
  context. A message that returns an error is taken to leave the stores alone.
\<close>

definition traceTx ::
  "('b, 'r, 'cc, 'd) chain \<Rightarrow> ('r, 'cc, 'res) trace_env \<Rightarrow> 'r Ctx \<Rightarrow> 'cc EVMConfig \<Rightarrow> TxConfig \<Rightarrow> ethTx \<Rightarrow>
     'cc TraceConfig option \<Rightarrow> bool \<Rightarrow> string \<Rightarrow> (string, 'res \<times> uint64) outcome \<times> 'r Ctx" where
  "traceTx X T c cfg txCfg tx traceConfig commitMessage tracerJSONConfig =
     (let tc = (case traceConfig of None \<Rightarrow> empty_trace_config | Some t \<Rightarrow> t) in
      case bind_outcome (xAsMessage X tx (ChainConfig (cfg_Params cfg)) (BlockHeight c) (cfg_BaseFee cfg)) (\<lambda>msg.
           bind_outcome (if tc_Tracer tc \<noteq> [] then tNew T (tc_Tracer tc) txCfg tracerJSONConfig else Ok ()) (\<lambda>_.
           bind_outcome (if tc_Timeout tc \<noteq> [] then tParseDuration T (tc_Timeout tc) else Ok ()) (\<lambda>_. Ok msg))) of
        Panic \<Rightarrow> (Panic, c)
      | Err e \<Rightarrow> (Err e, c)
      | Ok msg \<Rightarrow>
          let c1 = c\<lparr>GasMeter := NewInfiniteGasMeterWithLimit (msg_Gas msg)\<rparr> in
          case ApplyMessageWithConfig X c1 msg commitMessage cfg txCfg of
            Panic \<Rightarrow> (Panic, c)
          | Err e \<Rightarrow> (Err e, c)
          | Ok (res, c2) \<Rightarrow>
              (bind_outcome (tGetResult T tc txCfg tracerJSONConfig c1 msg cfg) (\<lambda>result.
                 Ok (result, LogIndex txCfg + of_nat (length (res_Logs res)))), c2\<lparr>GasMeter := GasMeter c\<rparr>))"

subsection \<open>The context and the configuration of the traced block\<close>

definition trace_context ::
  "('b, 'r, 'cc, 'd) chain \<Rightarrow> ('r, 'cc, 'res) trace_env \<Rightarrow> 'r Ctx \<Rightarrow> ('cc, 'x) trace_request_scheme \<Rightarrow> (string, 'r Ctx \<times> 'cc EVMConfig) outcome" where
  "trace_context X T c0 req =
     (if (case rq_TraceConfig req of None \<Rightarrow> False | Some tc \<Rightarrow> tc_Limit tc < 0) then Err ''output limit cannot be negative''
      else
        let contextHeight = (if rq_BlockNumber req < 1 then 1 else rq_BlockNumber req);
            c = c0\<lparr>BlockHeight := contextHeight, HeaderHash := tHex2Bytes T (rq_BlockHash req)\<rparr> in
        bind_outcome (getChainID c (rq_ChainId req)) (\<lambda>_.
        bind_outcome (keeper_EVMConfig X c) (\<lambda>cfg.
        bind_outcome (tCalculateBaseFee T c (rq_BlockMaxGas req)) (\<lambda>baseFee.
        Ok (c, case baseFee of None \<Rightarrow> cfg | Some b \<Rightarrow> cfg\<lparr>cfg_BaseFee := Some b\<rparr>)))))"

subsection \<open>Tracing a transaction after its predecessors\<close>

fun run_predecessors ::
  "('b, 'r, 'cc, 'd) chain \<Rightarrow> 'cc EVMConfig \<Rightarrow> nat \<Rightarrow> MsgEthereumTx list \<Rightarrow> TxConfig \<times> 'r Ctx \<Rightarrow> (string, TxConfig \<times> 'r Ctx) outcome" where
  "run_predecessors X cfg i [] (txCfg, c) = Ok (txCfg, c)"
| "run_predecessors X cfg i (tx # txs) (txCfg, c) =
     (case AsTransaction (xlib X) tx of
        None \<Rightarrow> Panic
      | Some ethTx \<Rightarrow>
          (case xAsMessage X ethTx (ChainConfig (cfg_Params cfg)) (BlockHeight c) (cfg_BaseFee cfg) of
             Panic \<Rightarrow> Panic
           | Err _ \<Rightarrow> run_predecessors X cfg (Suc i) txs (txCfg, c)
           | Ok msg \<Rightarrow>
               let txCfg1 = txCfg\<lparr>TxHash := xTxHash X ethTx, TxIndex := of_nat i\<rparr>;
                   c1 = c\<lparr>GasMeter := NewInfiniteGasMeterWithLimit (msg_Gas msg)\<rparr> in
               case ApplyMessageWithConfig X c1 msg True cfg txCfg1 of
                 Panic \<Rightarrow> Panic
               | Err _ \<Rightarrow> run_predecessors X cfg (Suc i) txs (txCfg1, c1)
               | Ok (rsp, c2) \<Rightarrow>
                   run_predecessors X cfg (Suc i) txs
                     (txCfg1\<lparr>LogIndex := LogIndex txCfg1 + of_nat (length (res_Logs rsp))\<rparr>, c2)))"

definition traced_config :: "('b, 'r, 'cc, 'd) chain \<Rightarrow> MsgEthereumTx list \<Rightarrow> ethTx \<Rightarrow> TxConfig \<Rightarrow> TxConfig" where
  "traced_config X predecessors tx txCfg =
     (let txCfg1 = txCfg\<lparr>TxHash := xTxHash X tx\<rparr>
      in if length predecessors > 0 then txCfg1\<lparr>TxIndex := TxIndex txCfg1 + 1\<rparr> else txCfg1)"

definition TraceTx ::
  "('b, 'r, 'cc, 'd) chain \<Rightarrow> ('r, 'cc, 'res) trace_env \<Rightarrow> 'r Ctx \<Rightarrow> 'cc QueryTraceTxRequest option \<Rightarrow> (string, bytes) outcome" where
  "TraceTx X T c0 request =
     (case request of
        None \<Rightarrow> Err ''empty request''
      | Some req \<Rightarrow>
          bind_outcome (trace_context X T c0 req) (\<lambda>(c, cfg).
          bind_outcome (run_predecessors X cfg 0 (rq_Predecessors req) (NewEmptyTxConfig (BytesToHash (HeaderHash c)), c)) (\<lambda>(txCfg, c1).
          case AsTransaction (xlib X) (rq_Msg req) of
            None \<Rightarrow> Panic
          | Some tx \<Rightarrow>
              let json = (case rq_TraceConfig req of None \<Rightarrow> [] | Some tc \<Rightarrow>
                    if tJsonValid T (tc_TracerJsonConfig tc) then tc_TracerJsonConfig tc else []) in
              bind_outcome (fst (traceTx X T c1 cfg (traced_config X (rq_Predecessors req) tx txCfg) tx (rq_TraceConfig req) False json)) (\<lambda>(result, _).
              tMarshal T result))))"

subsection \<open>Tracing a block\<close>

fun trace_txs ::
  "('b, 'r, 'cc, 'd) chain \<Rightarrow> ('r, 'cc, 'res) trace_env \<Rightarrow> 'cc EVMConfig \<Rightarrow> 'cc TraceConfig option \<Rightarrow> nat \<Rightarrow> MsgEthereumTx list \<Rightarrow>
     TxConfig \<times> 'r Ctx \<Rightarrow> (string, (string + 'res) list) outcome" where
  "trace_txs X T cfg tc i [] (txCfg, c) = Ok []"
| "trace_txs X T cfg tc i (tx # txs) (txCfg, c) =
     (case AsTransaction (xlib X) tx of
        None \<Rightarrow> Panic
      | Some ethTx \<Rightarrow>
          let txCfg1 = txCfg\<lparr>TxHash := xTxHash X ethTx, TxIndex := of_nat i\<rparr> in
          (case traceTx X T c cfg txCfg1 ethTx tc True [] of
             (Panic, _) \<Rightarrow> Panic
           | (Err e, c1) \<Rightarrow> bind_outcome (trace_txs X T cfg tc (Suc i) txs (txCfg1, c1)) (\<lambda>rs. Ok (Inl e # rs))
           | (Ok (result, logIndex), c1) \<Rightarrow>
               bind_outcome (trace_txs X T cfg tc (Suc i) txs (txCfg1\<lparr>LogIndex := logIndex\<rparr>, c1)) (\<lambda>rs. Ok (Inr result # rs))))"

definition TraceBlock ::
  "('b, 'r, 'cc, 'd) chain \<Rightarrow> ('r, 'cc, 'res) trace_env \<Rightarrow> 'r Ctx \<Rightarrow> 'cc QueryTraceBlockRequest option \<Rightarrow> (string, bytes) outcome" where
  "TraceBlock X T c0 request =
     (case request of
        None \<Rightarrow> Err ''empty request''
      | Some req \<Rightarrow>
          bind_outcome (trace_context X T c0 req) (\<lambda>(c, cfg).
          bind_outcome (trace_txs X T cfg (rq_TraceConfig req) 0 (rq_Txs req) (NewEmptyTxConfig (BytesToHash (HeaderHash c)), c)) (\<lambda>results.
          tMarshalAll T results)))"
subsection \<open>The index of the traced transaction\<close>

text \<open>Whether a predecessor converts to a message, so that it is run.\<close>

definition converts :: "('b, 'r, 'cc, 'd) chain \<Rightarrow> 'cc EVMConfig \<Rightarrow> MsgEthereumTx \<Rightarrow> bool" where
  "converts X cfg tx \<longleftrightarrow>
     (\<forall>eth h. AsTransaction (xlib X) tx = Some eth \<longrightarrow> is_ok (xAsMessage X eth (ChainConfig (cfg_Params cfg)) h (cfg_BaseFee cfg)))"

definition rejected :: "('b, 'r, 'cc, 'd) chain \<Rightarrow> 'cc EVMConfig \<Rightarrow> MsgEthereumTx \<Rightarrow> bool" where
  "rejected X cfg tx \<longleftrightarrow>
     (\<forall>eth h. AsTransaction (xlib X) tx = Some eth \<longrightarrow> \<not> is_ok (xAsMessage X eth (ChainConfig (cfg_Params cfg)) h (cfg_BaseFee cfg)))"

lemma run_step:
  assumes "run_predecessors X cfg i (tx # txs) (t, c) = Ok r"
  obtains (skipped) eth where "AsTransaction (xlib X) tx = Some eth"
      "\<not> is_ok (xAsMessage X eth (ChainConfig (cfg_Params cfg)) (BlockHeight c) (cfg_BaseFee cfg))"
      "run_predecessors X cfg (Suc i) txs (t, c) = Ok r"
    | (run) eth t1 c1 where "AsTransaction (xlib X) tx = Some eth"
      "is_ok (xAsMessage X eth (ChainConfig (cfg_Params cfg)) (BlockHeight c) (cfg_BaseFee cfg))"
      "TxIndex t1 = of_nat i" "run_predecessors X cfg (Suc i) txs (t1, c1) = Ok r"
proof -
  obtain eth where eth: "AsTransaction (xlib X) tx = Some eth" using assms by (auto split: option.splits)
  show ?thesis
  proof (cases "xAsMessage X eth (ChainConfig (cfg_Params cfg)) (BlockHeight c) (cfg_BaseFee cfg)")
    case (Ok msg)
    let ?t1 = "t\<lparr>TxHash := xTxHash X eth, TxIndex := of_nat i\<rparr>" and ?c1 = "c\<lparr>GasMeter := NewInfiniteGasMeterWithLimit (msg_Gas msg)\<rparr>"
    show ?thesis
    proof (cases "ApplyMessageWithConfig X ?c1 msg True cfg ?t1")
      case (Err e)
      with assms eth Ok have more: "run_predecessors X cfg (Suc i) txs (?t1, ?c1) = Ok r" by simp
      show ?thesis by (rule run [OF eth _ _ more]) (use Ok in simp_all)
    next
      case (Ok rc)
      with assms eth \<open>xAsMessage X eth _ _ _ = _\<close>
      have more: "run_predecessors X cfg (Suc i) txs
          (?t1\<lparr>LogIndex := LogIndex ?t1 + of_nat (length (res_Logs (fst rc)))\<rparr>, snd rc) = Ok r"
        by (simp add: case_prod_beta)
      show ?thesis by (rule run [OF eth _ _ more]) (use \<open>xAsMessage X eth _ _ _ = _\<close> in simp_all)
    qed (use assms eth Ok in simp)
  qed (use assms eth skipped in auto)
qed

lemma run_rejected:
  assumes "list_all (rejected X cfg) txs" and "run_predecessors X cfg i txs (t, c) = Ok (t', c')"
  shows "t' = t"
  using assms
proof (induction txs arbitrary: i)
  case (Cons tx txs)
  from Cons.prems(2) show ?case
    by (cases rule: run_step) (use Cons in \<open>auto simp: rejected_def simp del: run_predecessors.simps\<close>)
qed simp

lemma run_predecessors_index:
  assumes "run_predecessors X cfg i (tx # txs) (t, c) = Ok (t', c')" and "list_all (converts X cfg) (tx # txs)"
  shows "TxIndex t' = of_nat (i + length txs)"
  using assms
proof (induction txs arbitrary: tx i t c)
  case Nil
  from Nil.prems(1) show ?case by (cases rule: run_step) (use Nil.prems(2) in \<open>auto simp: converts_def\<close>)
next
  case (Cons tx' txs)
  from Cons.prems(1) show ?case
  proof (cases rule: run_step)
    case skipped
    with Cons.prems(2) show ?thesis by (auto simp: converts_def)
  next
    case (run eth t1 c1)
    with Cons.IH [of "Suc i" tx' t1 c1] Cons.prems(2) show ?thesis by (simp del: run_predecessors.simps)
  qed
qed

text \<open>
  When every predecessor converts to a message, the traced transaction has the index it has in the block. One whose conversion
  fails is skipped before the index is set: after predecessors that are all skipped the index is one, however many there were.
\<close>

lemma traced_index:
  assumes "list_all (converts X cfg) txs" and "run_predecessors X cfg 0 txs (NewEmptyTxConfig h, c) = Ok (t', c')"
  shows "TxIndex (traced_config X txs tx t') = of_nat (length txs)"
proof (cases txs)
  case (Cons p ps)
  with run_predecessors_index [of X cfg 0 p ps] assms have "TxIndex t' = of_nat (length ps)" by (simp del: run_predecessors.simps)
  with Cons show ?thesis by (simp add: traced_config_def)
qed (use assms in \<open>auto simp: traced_config_def NewEmptyTxConfig_def\<close>)

lemma traced_index_skips:
  assumes "list_all (rejected X cfg) txs" "txs \<noteq> []" and "run_predecessors X cfg 0 txs (NewEmptyTxConfig h, c) = Ok (t', c')"
  shows "TxIndex (traced_config X txs tx t') = 1"
  using run_rejected [OF assms(1,3)] assms(2) by (simp add: traced_config_def NewEmptyTxConfig_def)

end
