(* ===== verification/Tx_Events.thy ===== *)
theory Tx_Events
  imports Ante_Evm
begin

text \<open>
  The events of an Ethereum transaction and their way back: what the message server emits (\<open>EthereumTx\<close> of
  \<open>x/evm/keeper/msg_server.go\<close>) after the ante handler has emitted a hash and an index per message, and the parser with which the
  JSON-RPC server and the indexer read them (\<open>rpc/types/events.go\<close>).
\<close>

subsection \<open>Numbers as text\<close>

text \<open>\<open>strconv.FormatUint\<close> and \<open>strconv.ParseUint\<close> in base 10, and \<open>big.Int.String\<close>.\<close>

definition digit_char :: "nat \<Rightarrow> char" where
  "digit_char d = char_of (48 + d)"

function format_nat :: "nat \<Rightarrow> string" where
  "format_nat n = (if n < 10 then [digit_char n] else format_nat (n div 10) @ [digit_char (n mod 10)])"
  by auto
termination by (relation "measure id") auto

declare format_nat.simps [simp del]

definition FormatUint :: "uint64 \<Rightarrow> string" where
  "FormatUint n = format_nat (unat n)"

definition big_String :: "int \<Rightarrow> string" where
  "big_String i = (if i < 0 then ''-'' @ format_nat (nat (- i)) else format_nat (nat i))"

definition ParseUint :: "string \<Rightarrow> nat \<Rightarrow> (string, nat) outcome" where
  "ParseUint s bits =
     (if s = [] \<or> \<not> list_all is_digit s then Err ''invalid syntax''
      else let n = nat (decimal s) in if n \<ge> 2 ^ bits then Err ''value out of range'' else Ok n)"

subsection \<open>Emitting\<close>

text \<open>An event has a type and a list of attributes, in order.\<close>

type_synonym attribute = "string \<times> string"
type_synonym sdkEvent = "string \<times> attribute list"

definition EventTypeEthereumTx :: string where "EventTypeEthereumTx = ''ethereum_tx''"
definition EventTypeTxLog :: string where "EventTypeTxLog = ''tx_log''"
definition AttributeKeyRecipient :: string where "AttributeKeyRecipient = ''recipient''"
definition AttributeKeyTxHash :: string where "AttributeKeyTxHash = ''txHash''"
definition AttributeKeyEthereumTxHash :: string where "AttributeKeyEthereumTxHash = ''ethereumTxHash''"
definition AttributeKeyTxIndex :: string where "AttributeKeyTxIndex = ''txIndex''"
definition AttributeKeyTxGasUsed :: string where "AttributeKeyTxGasUsed = ''txGasUsed''"
definition AttributeKeyTxType :: string where "AttributeKeyTxType = ''txType''"
definition AttributeKeyTxLog :: string where "AttributeKeyTxLog = ''txLog''"
definition AttributeKeyEthereumTxFailed :: string where "AttributeKeyEthereumTxFailed = ''ethereumTxFailed''"

lemmas event_keys = EventTypeEthereumTx_def EventTypeTxLog_def AttributeKeyRecipient_def AttributeKeyTxHash_def
  AttributeKeyEthereumTxHash_def AttributeKeyTxIndex_def AttributeKeyTxGasUsed_def AttributeKeyTxType_def AttributeKeyTxLog_def
  AttributeKeyEthereumTxFailed_def

text \<open>The event of the ante handler for one message, as \<open>EthEmitEventDecorator\<close> writes it.\<close>

definition ante_event :: "string \<Rightarrow> uint64 \<Rightarrow> sdkEvent" where
  "ante_event hash txIndex =
     (EventTypeEthereumTx, [(AttributeKeyEthereumTxHash, hash), (AttributeKeyTxIndex, FormatUint txIndex)])"

text \<open>The main event of the message server; \<open>tmHash\<close> is the hash of the transaction's bytes, if there are any.\<close>

definition ethereum_tx_event ::
  "txlib \<Rightarrow> string option \<Rightarrow> ethTx \<Rightarrow> uint64 \<Rightarrow> MsgEthereumTxResponse \<Rightarrow> sdkEvent" where
  "ethereum_tx_event L tmHash tx txIndex response =
     (EventTypeEthereumTx,
      [(''amount'', big_String (eth_Value tx)), (AttributeKeyEthereumTxHash, HashHex L (res_Hash response)),
       (AttributeKeyTxIndex, FormatUint txIndex), (AttributeKeyTxGasUsed, FormatUint (res_GasUsed response))] @
      (case tmHash of None \<Rightarrow> [] | Some h \<Rightarrow> [(AttributeKeyTxHash, h)]) @
      (case e_To tx of None \<Rightarrow> [] | Some to \<Rightarrow> [(AttributeKeyRecipient, AddressHex L to)]) @
      (if Failed response then [(AttributeKeyEthereumTxFailed, res_VmError response)] else []))"

fun log_attributes :: "(ethLog \<Rightarrow> (string, string) outcome) \<Rightarrow> ethLog list \<Rightarrow> (string, attribute list) outcome" where
  "log_attributes jsonMarshal [] = Ok []"
| "log_attributes jsonMarshal (log # rest) =
     bind_outcome (jsonMarshal log) (\<lambda>v. bind_outcome (log_attributes jsonMarshal rest) (\<lambda>as. Ok ((AttributeKeyTxLog, v) # as)))"

text \<open>
  \<open>EthereumTx\<close>: a message without data is a nil transaction, whose first use panics. JSON of a log is an argument. The
  counters of the telemetry are left out.
\<close>

definition msg_EthereumTx ::
  "('b, 'r, 'cc, 'd) chain \<Rightarrow> (ethLog \<Rightarrow> (string, string) outcome) \<Rightarrow> string option \<Rightarrow> 'r Ctx \<Rightarrow> MsgEthereumTx \<Rightarrow>
     (string, MsgEthereumTxResponse \<times> 'r Ctx \<times> sdkEvent list) outcome" where
  "msg_EthereumTx X jsonMarshal tmHash c msg =
     (case AsTransaction (xlib X) msg of
        None \<Rightarrow> Panic
      | Some tx \<Rightarrow>
          let txIndex = GetTxIndexTransient c in
          bind_outcome (ApplyTransaction X c tx) (\<lambda>(response, c1).
          bind_outcome (log_attributes jsonMarshal (res_Logs response)) (\<lambda>txLogAttrs.
          Ok (response, c1,
              [ethereum_tx_event (xlib X) tmHash tx txIndex response, (EventTypeTxLog, txLogAttrs),
               (''message'', [(''module'', evm_ModuleName), (''sender'', m_From msg),
                 (AttributeKeyTxType, format_nat (e_Type tx))])]))))"

subsection \<open>Parsing\<close>

text \<open>\<open>EthTxIndex\<close> is of width 32 and read as signed; -1 stands for uninitialised.\<close>

record ParsedTx =
  MsgIndex :: nat
  p_Hash :: Hash
  EthTxIndex :: "32 word"
  p_GasUsed :: uint64
  p_Failed :: bool

definition NewParsedTx :: "nat \<Rightarrow> ParsedTx" where
  "NewParsedTx msgIndex = \<lparr>MsgIndex = msgIndex, p_Hash = 0, EthTxIndex = - 1, p_GasUsed = 0, p_Failed = False\<rparr>"

record ParsedTxs =
  p_Txs :: "ParsedTx list"
  TxHashes :: "Hash \<rightharpoonup> nat"

definition fillTxAttribute :: "txlib \<Rightarrow> attribute \<Rightarrow> ParsedTx \<Rightarrow> (string, ParsedTx) outcome" where
  "fillTxAttribute L attr tx =
     (let (key, v) = attr in
      if key = AttributeKeyEthereumTxHash then Ok (tx\<lparr>p_Hash := HexToHash L v\<rparr>)
      else if key = AttributeKeyTxIndex then
        bind_outcome (ParseUint v 31) (\<lambda>txIndex. Ok (tx\<lparr>EthTxIndex := word_of_nat txIndex\<rparr>))
      else if key = AttributeKeyTxGasUsed then
        bind_outcome (ParseUint v 64) (\<lambda>gasUsed. Ok (tx\<lparr>p_GasUsed := word_of_nat gasUsed\<rparr>))
      else if key = AttributeKeyEthereumTxFailed then Ok (tx\<lparr>p_Failed := length v > 0\<rparr>)
      else Ok tx)"

definition fillTxAttributes :: "txlib \<Rightarrow> ParsedTx \<Rightarrow> attribute list \<Rightarrow> (string, ParsedTx) outcome" where
  "fillTxAttributes L tx attrs = fold_outcome (fillTxAttribute L) attrs tx"

definition parsed_newTx :: "txlib \<Rightarrow> attribute list \<Rightarrow> ParsedTxs \<Rightarrow> (string, ParsedTxs) outcome" where
  "parsed_newTx L attrs p =
     (let msgIndex = length (p_Txs p) in
      bind_outcome (fillTxAttributes L (NewParsedTx msgIndex) attrs) (\<lambda>tx.
      Ok (p\<lparr>p_Txs := p_Txs p @ [tx], TxHashes := (TxHashes p)(p_Hash tx \<mapsto> msgIndex)\<rparr>)))"

text \<open>An event without a transaction to update is an access out of range.\<close>

definition parsed_updateTx :: "txlib \<Rightarrow> nat \<Rightarrow> attribute list \<Rightarrow> ParsedTxs \<Rightarrow> (string, ParsedTxs) outcome" where
  "parsed_updateTx L eventIndex attrs p =
     bind_outcome (fillTxAttributes L (NewParsedTx eventIndex) attrs) (\<lambda>tx.
     if eventIndex \<ge> length (p_Txs p) then Panic
     else Ok (p\<lparr>TxHashes := (if p_Hash tx \<noteq> p_Hash (p_Txs p ! eventIndex) then (TxHashes p)(p_Hash tx \<mapsto> eventIndex) else TxHashes p),
                p_Txs := (p_Txs p)[eventIndex := tx]\<rparr>))"

datatype EventFormat = eventFormatUnknown | eventFormat1 | eventFormat2

definition discover_format :: "EventFormat \<Rightarrow> attribute list \<Rightarrow> EventFormat" where
  "discover_format format attrs =
     (if format = eventFormatUnknown then if length attrs > 2 then eventFormat1 else eventFormat2 else format)"

text \<open>The loop; \<open>n\<close> is \<open>eventIndex + 1\<close>, the number of events of the second part seen so far.\<close>

fun parse_events :: "txlib \<Rightarrow> EventFormat \<Rightarrow> nat \<Rightarrow> sdkEvent list \<Rightarrow> ParsedTxs \<Rightarrow> (string, ParsedTxs) outcome" where
  "parse_events L format n [] p = Ok p"
| "parse_events L format n ((typ, attrs) # events) p =
     (if typ \<noteq> EventTypeEthereumTx then parse_events L format n events p
      else
        let format' = discover_format format attrs in
        if length attrs = 2 then bind_outcome (parsed_newTx L attrs p) (parse_events L format' n events)
        else if format' = eventFormat1 then bind_outcome (parsed_newTx L attrs p) (parse_events L format' (Suc n) events)
        else bind_outcome (parsed_updateTx L n attrs p) (parse_events L format' (Suc n) events))"

record ResponseDeliverTx =
  r_Code :: "32 word"
  r_Log :: string
  r_GasUsed :: int
  r_Events :: "sdkEvent list"

text \<open>The transactions that exceeded the block gas limit are charged their gas limit.\<close>

fun charge_limits :: "Msg list \<Rightarrow> nat \<Rightarrow> ParsedTx list \<Rightarrow> (string, ParsedTx list) outcome" where
  "charge_limits msgs i [] = Ok []"
| "charge_limits msgs i (tx # txs) =
     (if i \<ge> length msgs then Panic
      else case eth_msg (msgs ! i) of
        Ok m \<Rightarrow> bind_outcome (charge_limits msgs (Suc i) txs) (\<lambda>rest. Ok (tx\<lparr>p_Failed := True, p_GasUsed := msg_GetGas m\<rparr> # rest))
      | _ \<Rightarrow> Panic)"

definition fill_gas :: "uint64 \<Rightarrow> ParsedTx list \<Rightarrow> ParsedTx list" where
  "fill_gas gasUsed txs = (case txs of [tx] \<Rightarrow> [tx\<lparr>p_GasUsed := gasUsed\<rparr>] | _ \<Rightarrow> txs)"

definition ParseTxResult :: "txlib \<Rightarrow> ResponseDeliverTx \<Rightarrow> Tx option \<Rightarrow> (string, ParsedTxs) outcome" where
  "ParseTxResult L result tx =
     bind_outcome (parse_events L eventFormatUnknown 0 (r_Events result) \<lparr>p_Txs = [], TxHashes = Map.empty\<rparr>) (\<lambda>p.
     let p1 = p\<lparr>p_Txs := fill_gas (word_of_int (r_GasUsed result)) (p_Txs p)\<rparr> in
     case tx of
       None \<Rightarrow> Ok p1
     | Some t \<Rightarrow>
         if r_Code result = 0 then Ok p1
         else bind_outcome (charge_limits (GetMsgs t) 0 (p_Txs p1)) (\<lambda>txs. Ok (p1\<lparr>p_Txs := txs\<rparr>)))"

definition GetTxByMsgIndex :: "ParsedTxs \<Rightarrow> int \<Rightarrow> ParsedTx option" where
  "GetTxByMsgIndex p i = (if i < 0 \<or> i \<ge> int (length (p_Txs p)) then None else Some (p_Txs p ! nat i))"

definition GetTxByHash :: "ParsedTxs \<Rightarrow> Hash \<Rightarrow> ParsedTx option" where
  "GetTxByHash p hash = (case TxHashes p hash of None \<Rightarrow> None | Some idx \<Rightarrow> Some (p_Txs p ! idx))"

definition GetTxByTxIndex :: "ParsedTxs \<Rightarrow> int \<Rightarrow> ParsedTx option" where
  "GetTxByTxIndex p txIndex =
     (if length (p_Txs p) = 0 then None else GetTxByMsgIndex p (txIndex - sint (EthTxIndex (p_Txs p ! 0))))"

definition AccumulativeGasUsed :: "ParsedTxs \<Rightarrow> nat \<Rightarrow> uint64 option" where
  "AccumulativeGasUsed p msgIndex =
     (if msgIndex \<ge> length (p_Txs p) then None
      else Some (sum_list (map p_GasUsed (take (Suc msgIndex) (p_Txs p)))))"

record TxResult =
  tr_Height :: int
  tr_TxIndex :: "32 word"
  tr_MsgIndex :: "32 word"
  tr_EthTxIndex :: "32 word"
  tr_Failed :: bool
  tr_GasUsed :: uint64
  tr_CumulativeGasUsed :: uint64

definition ParseTxIndexerResult ::
  "txlib \<Rightarrow> int \<Rightarrow> 32 word \<Rightarrow> ResponseDeliverTx \<Rightarrow> Tx option \<Rightarrow> (ParsedTxs \<Rightarrow> ParsedTx option) \<Rightarrow> (string, TxResult) outcome" where
  "ParseTxIndexerResult L height index result tx getter =
     (case ParseTxResult L result tx of
        Panic \<Rightarrow> Panic
      | Err e \<Rightarrow> Err ''failed to parse tx events''
      | Ok txs \<Rightarrow>
          (case getter txs of
             None \<Rightarrow> Err ''ethereum tx not found in msgs''
           | Some parsedTx \<Rightarrow>
               (case AccumulativeGasUsed txs (MsgIndex parsedTx) of
                  None \<Rightarrow> Panic
                | Some cumulative \<Rightarrow>
                    Ok \<lparr>tr_Height = height, tr_TxIndex = index, tr_MsgIndex = of_nat (MsgIndex parsedTx),
                        tr_EthTxIndex = EthTxIndex parsedTx, tr_Failed = p_Failed parsedTx,
                        tr_GasUsed = p_GasUsed parsedTx, tr_CumulativeGasUsed = cumulative\<rparr>)))"

end
