(* ===== verification/Tx_Indexer.thy ===== *)
theory Tx_Indexer
  imports Tx_Events
begin

text \<open>
  The indexer of Ethereum transactions, \<open>indexer/kv_indexer.go\<close>: for every block it stores, under the hash of each Ethereum
  transaction, where the transaction is and what it used, and under the block number and the index in the block its hash.
\<close>

subsection \<open>Keys and values\<close>

text \<open>The decoder of transactions and the codec of results belong to the SDK.\<close>

record index_env =
  ixDecode :: "bytes \<Rightarrow> (string, Tx) outcome"
  ixMarshal :: "TxResult \<Rightarrow> bytes"
  ixUnmarshal :: "bytes \<Rightarrow> (string, TxResult) outcome"

definition TxHashKey :: "Hash \<Rightarrow> bytes" where
  "TxHashKey hash = 1 # HashBytes hash"

text \<open>A block number is an \<open>int64\<close> and an index an \<open>int32\<close>, both converted to \<open>uint64\<close>.\<close>

definition TxIndexKey :: "int \<Rightarrow> 32 word \<Rightarrow> bytes" where
  "TxIndexKey blockNumber txIndex =
     2 # Uint64ToBigEndian (word_of_int blockNumber) @ Uint64ToBigEndian (word_of_int (sint txIndex))"

definition TxIndexKeyLength :: nat where "TxIndexKeyLength = 1 + 8 + 8"

definition parseBlockNumberFromKey :: "bytes \<Rightarrow> (string, int) outcome" where
  "parseBlockNumberFromKey key =
     (if length key \<noteq> TxIndexKeyLength then Err ''wrong tx index key length''
      else Ok (sint (BigEndianToUint64 (take 8 (drop 1 key)))))"

text \<open>A batch is the list of the entries it sets, in order; writing it cannot fail here (input and output are not modelled).\<close>

type_synonym batch = "(bytes \<times> bytes) list"

definition batch_Write :: "batch \<Rightarrow> kvstore \<Rightarrow> kvstore" where
  "batch_Write b db = fold (\<lambda>(k, v) m. fmupd k v m) b db"

definition saveTxResult :: "index_env \<Rightarrow> batch \<Rightarrow> Hash \<Rightarrow> TxResult \<Rightarrow> batch" where
  "saveTxResult I b txHash txResult =
     b @ [(TxHashKey txHash, ixMarshal I txResult), (TxIndexKey (tr_Height txResult) (tr_EthTxIndex txResult), HashBytes txHash)]"

subsection \<open>Which transactions are indexed\<close>

fun str_Contains :: "string \<Rightarrow> string \<Rightarrow> bool" where
  "str_Contains [] sub \<longleftrightarrow> sub = []"
| "str_Contains (ch # s) sub \<longleftrightarrow> take (length sub) (ch # s) = sub \<or> str_Contains s sub"

definition ExceedBlockGasLimitError :: string where
  "ExceedBlockGasLimitError = ''out of gas in location: block gas meter; gasWanted:''"

definition TxExceedBlockGasLimit :: "ResponseDeliverTx \<Rightarrow> bool" where
  "TxExceedBlockGasLimit res = str_Contains (r_Log res) ExceedBlockGasLimitError"

definition TxSuccessOrExceedsBlockGasLimit :: "ResponseDeliverTx \<Rightarrow> bool" where
  "TxSuccessOrExceedsBlockGasLimit res \<longleftrightarrow> r_Code res = 0 \<or> TxExceedBlockGasLimit res"

definition isEthTx :: "Tx \<Rightarrow> bool" where
  "isEthTx tx =
     (case asExtensionOptions tx of
        None \<Rightarrow> False
      | Some opts \<Rightarrow> length opts = 1 \<and> fst (opts ! 0) = ''/ethermint.evm.v1.ExtensionOptionsEthereumTx'')"

subsection \<open>Indexing a block\<close>

text \<open>The messages of one transaction: the state is the next index in the block, the gas so far and the batch.\<close>

fun index_msgs ::
  "index_env \<Rightarrow> txlib \<Rightarrow> int \<Rightarrow> nat \<Rightarrow> ResponseDeliverTx \<Rightarrow> ParsedTxs \<Rightarrow> nat \<Rightarrow> Msg list \<Rightarrow> 32 word \<times> uint64 \<times> batch \<Rightarrow>
     (string, 32 word \<times> batch) outcome" where
  "index_msgs I L height txIndex result txs i [] (ethTxIndex, cumulativeGasUsed, b) = Ok (ethTxIndex, b)"
| "index_msgs I L height txIndex result txs i (msg # msgs) (ethTxIndex, cumulativeGasUsed, b) =
     (case eth_msg msg of
        Ok ethMsg \<Rightarrow>
          let txHash = HexToHash L (m_Hash ethMsg);
              found = (if r_Code result \<noteq> 0 then Some (msg_GetGas ethMsg, True)
                       else map_option (\<lambda>parsedTx. (p_GasUsed parsedTx, p_Failed parsedTx)) (GetTxByMsgIndex txs (int i)))
          in (case found of
                None \<Rightarrow> index_msgs I L height txIndex result txs (Suc i) msgs (ethTxIndex, cumulativeGasUsed, b)
              | Some (gasUsed, failed) \<Rightarrow>
                  let cumulative = cumulativeGasUsed + gasUsed;
                      txResult = \<lparr>tr_Height = height, tr_TxIndex = of_nat txIndex, tr_MsgIndex = of_nat i, tr_EthTxIndex = ethTxIndex,
                        tr_Failed = failed, tr_GasUsed = gasUsed, tr_CumulativeGasUsed = cumulative\<rparr>
                  in index_msgs I L height txIndex result txs (Suc i) msgs (ethTxIndex + 1, cumulative, saveTxResult I b txHash txResult))
      | _ \<Rightarrow> Panic)"

fun index_txs ::
  "index_env \<Rightarrow> txlib \<Rightarrow> int \<Rightarrow> ResponseDeliverTx list \<Rightarrow> nat \<Rightarrow> bytes list \<Rightarrow> 32 word \<times> batch \<Rightarrow> (string, 32 word \<times> batch) outcome" where
  "index_txs I L height txResults txIndex [] (ethTxIndex, b) = Ok (ethTxIndex, b)"
| "index_txs I L height txResults txIndex (raw # raws) (ethTxIndex, b) =
     (if txIndex \<ge> length txResults then Panic
      else
        let result = txResults ! txIndex; skip = index_txs I L height txResults (Suc txIndex) raws (ethTxIndex, b) in
        if \<not> TxSuccessOrExceedsBlockGasLimit result then skip
        else case ixDecode I raw of
          Panic \<Rightarrow> Panic
        | Err _ \<Rightarrow> skip
        | Ok tx \<Rightarrow>
            if \<not> isEthTx tx then skip
            else case ParseTxResult L result (Some tx) of
              Panic \<Rightarrow> Panic
            | Err _ \<Rightarrow> skip
            | Ok txs \<Rightarrow>
                bind_outcome (index_msgs I L height txIndex result txs 0 (GetMsgs tx) (ethTxIndex, 0, b))
                  (index_txs I L height txResults (Suc txIndex) raws))"

definition IndexBlock ::
  "index_env \<Rightarrow> txlib \<Rightarrow> int \<Rightarrow> bytes list \<Rightarrow> ResponseDeliverTx list \<Rightarrow> kvstore \<Rightarrow> (string, kvstore) outcome" where
  "IndexBlock I L height txs txResults db =
     bind_outcome (index_txs I L height txResults 0 txs (0, [])) (\<lambda>(_, b). Ok (batch_Write b db))"

subsection \<open>Reading the index\<close>

definition GetByTxHash :: "index_env \<Rightarrow> kvstore \<Rightarrow> Hash \<Rightarrow> (string, TxResult) outcome" where
  "GetByTxHash I db hash =
     (let bz = store_Get db (TxHashKey hash) in if length bz = 0 then Err ''tx not found'' else ixUnmarshal I bz)"

definition GetByBlockAndIndex :: "index_env \<Rightarrow> kvstore \<Rightarrow> int \<Rightarrow> 32 word \<Rightarrow> (string, TxResult) outcome" where
  "GetByBlockAndIndex I db blockNumber txIndex =
     (let bz = store_Get db (TxIndexKey blockNumber txIndex)
      in if length bz = 0 then Err ''tx not found'' else GetByTxHash I db (BytesToHash bz))"

text \<open>The keys an iterator from \<open>[2]\<close> to \<open>[3]\<close> runs through, in order.\<close>

definition index_keys :: "kvstore \<Rightarrow> bytes list" where
  "index_keys db = filter (\<lambda>k. [2] \<le> k \<and> k < [3]) (fm_keys db)"

definition LoadLastBlock :: "kvstore \<Rightarrow> (string, int) outcome" where
  "LoadLastBlock db = (case rev (index_keys db) of [] \<Rightarrow> Ok (- 1) | key # _ \<Rightarrow> parseBlockNumberFromKey key)"

definition LoadFirstBlock :: "kvstore \<Rightarrow> (string, int) outcome" where
  "LoadFirstBlock db = (case index_keys db of [] \<Rightarrow> Ok (- 1) | key # _ \<Rightarrow> parseBlockNumberFromKey key)"

definition LastIndexedBlock :: "kvstore \<Rightarrow> (string, int) outcome" where
  "LastIndexedBlock db = LoadLastBlock db"

definition FirstIndexedBlock :: "kvstore \<Rightarrow> (string, int) outcome" where
  "FirstIndexedBlock db = LoadFirstBlock db"

end
