(* ===== verification/Tx_Events_Laws.thy ===== *)
theory Tx_Events_Laws
  imports Tx_Events Evm_Transition_Laws
begin

text \<open>
  The events of a transaction determine what the parser reads: numbers survive printing and parsing, the attributes of either kind
  of event fill in the fields they name, and the events of the ante handler and of the message server together give back, per
  message, the hash, the index in the block, the gas and the failure that the state transition returned.
\<close>

subsection \<open>Numbers\<close>

lemma digit_char_of: "d < 10 \<Longrightarrow> is_digit (digit_char d) \<and> of_char (digit_char d) = (48 + int d)"
proof -
  assume "d < 10"
  then have "of_char (digit_char d) = 48 + d" by (simp add: digit_char_def of_char_of)
  then show ?thesis using \<open>d < 10\<close>
    by (simp add: is_digit_def) (metis of_nat_add of_nat_numeral of_nat_of_char)
qed

lemma decimal_snoc: "decimal (s @ [ch]) = decimal s * 10 + (of_char ch - 48)"
  by (simp add: decimal_def)

lemma format_nat_digits: "format_nat n \<noteq> [] \<and> list_all is_digit (format_nat n) \<and> decimal (format_nat n) = int n"
proof (induction n rule: format_nat.induct)
  case (1 n)
  show ?case
  proof (cases "n < 10")
    case True
    then show ?thesis using digit_char_of [of n] decimal_snoc [of "[]" "digit_char n"]
      by (simp add: format_nat.simps [of n] decimal_def)
  next
    case False
    then have "decimal (format_nat n) = int (n div 10) * 10 + int (n mod 10)"
      using 1 digit_char_of [of "n mod 10"] by (simp add: format_nat.simps [of n] decimal_snoc)
    then have "decimal (format_nat n) = int n" by (simp add: zdiv_int zmod_int)
    with 1 False digit_char_of [of "n mod 10"] show ?thesis by (simp add: format_nat.simps [of n])
  qed
qed

lemma ParseUint_FormatUint:
  "unat n < 2 ^ bits \<Longrightarrow> ParseUint (FormatUint n) bits = Ok (unat n)"
  using format_nat_digits [of "unat n"] by (simp add: ParseUint_def FormatUint_def)

lemma ParseUint_64 [simp]: "ParseUint (FormatUint n) 64 = Ok (unat (n :: uint64))"
  using unat_less_pow [of n] by (simp add: ParseUint_FormatUint)

subsection \<open>Attributes\<close>

lemma fill_ante_event:
  "unat i < 2 ^ 31 \<Longrightarrow> fillTxAttributes L (NewParsedTx k) (snd (ante_event h i)) =
     Ok \<lparr>MsgIndex = k, p_Hash = HexToHash L h, EthTxIndex = word_of_nat (unat i), p_GasUsed = 0, p_Failed = False\<rparr>"
  by (simp add: fillTxAttributes_def fillTxAttribute_def ante_event_def event_keys NewParsedTx_def ParseUint_FormatUint)

lemma fill_ethereum_tx_event:
  assumes "lib_laws L" and "unat i < 2 ^ 31"
  shows "fillTxAttributes L (NewParsedTx k) (snd (ethereum_tx_event L tm tx i r)) =
     Ok \<lparr>MsgIndex = k, p_Hash = res_Hash r, EthTxIndex = word_of_nat (unat i), p_GasUsed = res_GasUsed r, p_Failed = Failed r\<rparr>"
  using assms
  by (auto simp: fillTxAttributes_def fillTxAttribute_def ethereum_tx_event_def event_keys NewParsedTx_def ParseUint_FormatUint
      lib_laws_def Failed_def split: option.splits)

lemma event_shapes [simp]:
  "fst (ante_event h i) = EventTypeEthereumTx" "length (snd (ante_event h i)) = 2"
  "fst (ethereum_tx_event L tm tx i r) = EventTypeEthereumTx" "length (snd (ethereum_tx_event L tm tx i r)) > 2"
  by (simp_all add: ante_event_def ethereum_tx_event_def)

subsection \<open>Parsing a sequence of events\<close>

definition eth_events :: "sdkEvent list \<Rightarrow> sdkEvent list" where
  "eth_events = filter (\<lambda>e. fst e = EventTypeEthereumTx)"

lemma parse_eth_events: "parse_events L f n events p = parse_events L f n (eth_events events) p"
proof (induction events arbitrary: f n p)
  case (Cons e events)
  have "(parse_events L f' m events :: ParsedTxs \<Rightarrow> _) = parse_events L f' m (eth_events events)" for f' m
    by (rule ext) (rule Cons)
  then show ?case by (cases e) (simp add: eth_events_def Let_def)
qed (simp add: eth_events_def)

definition ante_parsed :: "txlib \<Rightarrow> uint64 \<Rightarrow> nat \<times> MsgEthereumTx \<Rightarrow> ParsedTx" where
  "ante_parsed L base = (\<lambda>(i, m). \<lparr>MsgIndex = i, p_Hash = HexToHash L (m_Hash m), EthTxIndex = word_of_nat (unat base + i),
     p_GasUsed = 0, p_Failed = False\<rparr>)"

definition exec_parsed :: "uint64 \<Rightarrow> nat \<times> ethTx \<times> MsgEthereumTxResponse \<Rightarrow> ParsedTx" where
  "exec_parsed base = (\<lambda>(i, tx, r). \<lparr>MsgIndex = i, p_Hash = res_Hash r, EthTxIndex = word_of_nat (unat base + i),
     p_GasUsed = res_GasUsed r, p_Failed = Failed r\<rparr>)"

lemma index_small:
  assumes "unat (base :: uint64) + i < 2 ^ 31"
  shows "unat (base + of_nat i) = unat base + i" "unat (base + of_nat i) < 2 ^ 31"
proof -
  have "unat (of_nat i :: uint64) = i" using assms by (simp add: unat_of_nat)
  then show "unat (base + of_nat i) = unat base + i" using assms by (simp add: unat_add_noverflow)
  with assms show "unat (base + of_nat i) < 2 ^ 31" by simp
qed

lemma parse_new:
  "fst e = EventTypeEthereumTx \<Longrightarrow> length (snd e) = 2 \<Longrightarrow> parse_events L f n (e # es) p =
     bind_outcome (parsed_newTx L (snd e) p) (parse_events L (discover_format f (snd e)) n es)"
  by (cases e) (simp add: Let_def)

lemma parse_update:
  "fst e = EventTypeEthereumTx \<Longrightarrow> length (snd e) > 2 \<Longrightarrow> parse_events L eventFormat2 n (e # es) p =
     bind_outcome (parsed_updateTx L n (snd e) p) (parse_events L eventFormat2 (Suc n) es)"
  by (cases e) (simp add: Let_def discover_format_def)

lemma map_add_snoc: "m(x \<mapsto> y) ++ map_of ys = m ++ map_of (ys @ [(x, y)])"
  by (auto simp: map_add_def fun_eq_iff split: option.splits)

lemma parse_ante_part:
  assumes "f \<noteq> eventFormat1" and "k = length (p_Txs p)" and "unat base + k + length ms \<le> 2 ^ 31"
  shows "parse_events L f n (map (\<lambda>(i, m). ante_event (m_Hash m) (base + of_nat i)) (enumerate k ms) @ rest) p =
    parse_events L (if ms = [] then f else eventFormat2) n rest
      \<lparr>p_Txs = p_Txs p @ map (ante_parsed L base) (enumerate k ms),
       TxHashes = TxHashes p ++ map_of (rev (map (\<lambda>(i, m). (HexToHash L (m_Hash m), i)) (enumerate k ms)))\<rparr>"
  using assms
proof (induction ms arbitrary: f k p)
  case Nil
  then show ?case by (cases p) simp
next
  case (Cons m ms)
  let ?tx = "ante_parsed L base (k, m)"
  let ?p = "p\<lparr>p_Txs := p_Txs p @ [?tx], TxHashes := (TxHashes p)(p_Hash ?tx \<mapsto> k)\<rparr>"
  have new: "parsed_newTx L (snd (ante_event (m_Hash m) (base + of_nat k))) p = Ok ?p"
    using Cons.prems index_small [of base k] by (simp add: parsed_newTx_def fill_ante_event ante_parsed_def Let_def)
  have "discover_format f (snd (ante_event (m_Hash m) (base + of_nat k))) = eventFormat2"
    using Cons.prems(1) by (cases f) (simp_all add: discover_format_def)
  with new show ?case
    using Cons.IH [of eventFormat2 "Suc k" ?p] Cons.prems
    by (simp add: parse_new map_add_snoc ante_parsed_def del: parse_events.simps fun_upd_apply map_of_append)
qed

lemma parse_exec_part:
  assumes "lib_laws L" and "unat base + n + length zs \<le> 2 ^ 31" and "n + length zs = length (p_Txs p)"
    and "\<And>j. j < length zs \<Longrightarrow> p_Hash (p_Txs p ! (n + j)) = res_Hash (snd (zs ! j))"
  shows "parse_events L eventFormat2 n (map (\<lambda>(i, tx, r). ethereum_tx_event L tm tx (base + of_nat i) r) (enumerate n zs)) p =
    Ok (p\<lparr>p_Txs := take n (p_Txs p) @ map (exec_parsed base) (enumerate n zs)\<rparr>)"
  using assms(2-)
proof (induction zs arbitrary: n p)
  case (Cons z zs)
  obtain tx r where z: "z = (tx, r)" by (cases z)
  let ?e = "ethereum_tx_event L tm tx (base + of_nat n) r"
  let ?p = "p\<lparr>p_Txs := (p_Txs p)[n := exec_parsed base (n, tx, r)]\<rparr>"
  have n: "n < length (p_Txs p)" "p_Hash (p_Txs p ! n) = res_Hash r" using Cons.prems(2) Cons.prems(3) [of 0] z by simp_all
  then have upd: "parsed_updateTx L n (snd ?e) p = Ok ?p"
    using Cons.prems(1) index_small [of base n] fill_ethereum_tx_event [OF assms(1), of "base + of_nat n" n tm tx r]
    by (simp add: parsed_updateTx_def exec_parsed_def)
  have "p_Hash (p_Txs ?p ! (Suc n + j)) = res_Hash (snd (zs ! j))" if "j < length zs" for j
    using Cons.prems(3) [of "Suc j"] that by simp
  then have "parse_events L eventFormat2 (Suc n)
      (map (\<lambda>(i, tx, r). ethereum_tx_event L tm tx (base + of_nat i) r) (enumerate (Suc n) zs)) ?p =
    Ok (?p\<lparr>p_Txs := take (Suc n) (p_Txs ?p) @ map (exec_parsed base) (enumerate (Suc n) zs)\<rparr>)"
    using Cons.prems(1,2) by (intro Cons.IH) simp_all
  moreover have "take (Suc n) (p_Txs ?p) = take n (p_Txs p) @ [exec_parsed base (n, tx, r)]"
    using n(1) by (simp add: take_Suc_conv_app_nth)
  ultimately show ?case by (simp add: z parse_update upd del: parse_events.simps)
qed simp

subsection \<open>The events of a whole transaction\<close>

text \<open>Among the events of the ante handler, those of the messages.\<close>

fun ante_events :: "AnteEvent list \<Rightarrow> sdkEvent list" where
  "ante_events [] = []"
| "ante_events (EthereumTx h i # evs) = ante_event h i # ante_events evs"
| "ante_events (e # evs) = ante_events evs"

text \<open>The messages of a transaction run one after the other, as the SDK runs them, with their events.\<close>

fun run_msgs ::
  "('b, 'r, 'cc, 'd) chain \<Rightarrow> (ethLog \<Rightarrow> (string, string) outcome) \<Rightarrow> string option \<Rightarrow> 'r Ctx \<Rightarrow> MsgEthereumTx list \<Rightarrow>
     (string, MsgEthereumTxResponse list \<times> 'r Ctx \<times> sdkEvent list) outcome" where
  "run_msgs X json tm c [] = Ok ([], c, [])"
| "run_msgs X json tm c (m # ms) =
     bind_outcome (msg_EthereumTx X json tm c m) (\<lambda>(r, c1, evs).
     bind_outcome (run_msgs X json tm c1 ms) (\<lambda>(rs, c2, evs'). Ok (r # rs, c2, evs @ evs')))"

lemma emitted_ante_events:
  "emit_events base k (map EthMsg ms) = Ok aevs \<Longrightarrow>
   ante_events aevs = map (\<lambda>(i, m). ante_event (m_Hash m) (base + of_nat i)) (enumerate k ms)"
  by (induction ms arbitrary: k aevs) auto

lemma finish_message_hash: "finish_message X c msg commit cfg t ret left err db = Ok (res, c') \<Longrightarrow> res_Hash res = TxHash t"
  by (auto simp: finish_message_def Let_def split: if_split_asm)

lemma applied_message_hash: "ApplyMessageWithConfig X c msg commit cfg t = Ok (res, c') \<Longrightarrow> res_Hash res = TxHash t"
  unfolding ApplyMessageWithConfig_def by (auto dest: finish_message_hash)

lemma post_process_hash: "post_process X c tmp msg res0 rc0 = Some (res, rc, c1) \<Longrightarrow> res_Hash res = res_Hash res0"
  by (auto simp: post_process_def split: if_split_asm outcome.splits)

lemma applied_hash:
  assumes "ApplyTransaction X c tx = Ok (res, c')"
  shows "res_Hash res = xTxHash X tx"
  using ApplyTransaction_Ok [OF assms]
  by (metis applied_message_hash post_process_hash keeper_TxConfig_def TxConfig.select_convs(2))

lemma run_msgs_events:
  assumes laws: "evm_laws X" "hooks_keep_counters X" and "run_msgs X json tm c ms = Ok (rs, c', evs)"
    and "GetTxIndexTransient c = base + of_nat k"
  shows "\<exists>txs. length txs = length ms \<and> length rs = length ms \<and>
    (\<forall>i < length ms. AsTransaction (xlib X) (ms ! i) = Some (txs ! i) \<and> res_Hash (rs ! i) = xTxHash X (txs ! i)) \<and>
    eth_events evs = map (\<lambda>(i, tx, r). ethereum_tx_event (xlib X) tm tx (base + of_nat i) r) (enumerate k (zip txs rs))"
  using assms(3,4)
proof (induction ms arbitrary: c k rs evs)
  case Nil
  then show ?case by (simp add: eth_events_def)
next
  case (Cons m ms)
  obtain r c1 evs1 rs' evs2 where st: "msg_EthereumTx X json tm c m = Ok (r, c1, evs1)" "run_msgs X json tm c1 ms = Ok (rs', c', evs2)"
    "rs = r # rs'" "evs = evs1 @ evs2"
    using Cons.prems(1) by auto
  obtain tx where tx: "AsTransaction (xlib X) m = Some tx" "ApplyTransaction X c tx = Ok (r, c1)"
    "eth_events evs1 = [ethereum_tx_event (xlib X) tm tx (GetTxIndexTransient c) r]"
    using st(1) by (auto simp: msg_EthereumTx_def eth_events_def EventTypeEthereumTx_def EventTypeTxLog_def ethereum_tx_event_def
        Let_def split: option.splits)
  have "GetTxIndexTransient c1 = base + of_nat (Suc k)"
    using transaction_counters [OF laws tx(2)] Cons.prems(2) by simp
  from Cons.IH [OF st(2) this] obtain txs where txs: "length txs = length ms" "length rs' = length ms"
    "\<forall>i < length ms. AsTransaction (xlib X) (ms ! i) = Some (txs ! i) \<and> res_Hash (rs' ! i) = xTxHash X (txs ! i)"
    "eth_events evs2 = map (\<lambda>(i, tx, r). ethereum_tx_event (xlib X) tm tx (base + of_nat i) r) (enumerate (Suc k) (zip txs rs'))"
    by blast
  have "eth_events evs = map (\<lambda>(i, tx, r). ethereum_tx_event (xlib X) tm tx (base + of_nat i) r) (enumerate k (zip (tx # txs) rs))"
    using tx(3) txs(4) Cons.prems(2) by (simp add: st eth_events_def)
  then show ?case
    using txs tx applied_hash [OF tx(2)] st(3) by (intro exI [of _ "tx # txs"]) (auto simp: less_Suc_eq_0_disj)
qed
lemma parse_transaction_events:
  assumes laws: "evm_laws X" "hooks_keep_counters X" "lib_laws (xlib X)"
    and ante: "emit_events (GetTxIndexTransient c) 0 (map EthMsg ms) = Ok aevs"
    and run: "run_msgs X json tm c ms = Ok (rs, c', evs)"
    and hashes: "\<forall>m \<in> set ms. msg_hash X m = Some (m_Hash m)"
    and small: "unat (GetTxIndexTransient c) + length ms \<le> 2 ^ 31"
    and events: "eth_events events = ante_events aevs @ eth_events evs"
  shows "\<exists>txs. length txs = length ms \<and> length rs = length ms \<and>
    parse_events (xlib X) eventFormatUnknown 0 events \<lparr>p_Txs = [], TxHashes = Map.empty\<rparr> =
      Ok \<lparr>p_Txs = map (exec_parsed (GetTxIndexTransient c)) (enumerate 0 (zip txs rs)),
          TxHashes = map_of (rev (map (\<lambda>(i, r). (res_Hash r, i)) (enumerate 0 rs)))\<rparr>"
proof -
  let ?L = "xlib X" and ?base = "GetTxIndexTransient c"
  obtain txs where txs: "length txs = length ms" "length rs = length ms"
    "\<forall>i < length ms. AsTransaction ?L (ms ! i) = Some (txs ! i) \<and> res_Hash (rs ! i) = xTxHash X (txs ! i)"
    "eth_events evs = map (\<lambda>(i, tx, r). ethereum_tx_event ?L tm tx (?base + of_nat i) r) (enumerate 0 (zip txs rs))"
    using run_msgs_events [OF laws(1,2) run, of ?base 0] by auto
  have hash: "HexToHash ?L (m_Hash (ms ! i)) = res_Hash (rs ! i)" if "i < length ms" for i
  proof -
    have "m_Hash (ms ! i) = HashHex ?L (xTxHash X (txs ! i))" using hashes [rule_format, OF nth_mem [OF that]] txs(3) that by (auto simp: msg_hash_def)
    then show ?thesis using laws(3) txs(3) that by (simp add: lib_laws_def)
  qed
  have keys: "map (\<lambda>(i, m). (HexToHash ?L (m_Hash m), i)) (enumerate 0 ms) = map (\<lambda>(i, r). (res_Hash r, i)) (enumerate 0 rs)"
    using hash txs(2) by (intro nth_equalityI) (simp_all add: nth_enumerate_eq)
  let ?p1 = "\<lparr>p_Txs = map (ante_parsed ?L ?base) (enumerate 0 ms),
      TxHashes = map_of (rev (map (\<lambda>(i, r). (res_Hash r, i)) (enumerate 0 rs)))\<rparr>"
  have "parse_events ?L eventFormatUnknown 0 events \<lparr>p_Txs = [], TxHashes = Map.empty\<rparr> =
      parse_events ?L (if ms = [] then eventFormatUnknown else eventFormat2) 0 (eth_events evs) ?p1"
    using parse_ante_part [of eventFormatUnknown 0 "\<lparr>p_Txs = [], TxHashes = Map.empty\<rparr>" ?base ms ?L 0 "eth_events evs"] small
    by (simp add: parse_eth_events [of _ _ _ events] events emitted_ante_events [OF ante] keys)
  also have "\<dots> = Ok (?p1\<lparr>p_Txs := map (exec_parsed ?base) (enumerate 0 (zip txs rs))\<rparr>)"
    using parse_exec_part [OF laws(3), of ?base 0 "zip txs rs" ?p1 tm] small txs hash
    by (cases "ms = []") (simp_all add: nth_enumerate_eq ante_parsed_def)
  finally show ?thesis using txs(1,2) by auto
qed

lemma hash_lookup:
  assumes "distinct (map res_Hash rs)" "i < length rs"
  shows "map_of (rev (map (\<lambda>(i, r). (res_Hash r, i)) (enumerate k rs))) (res_Hash (rs ! i)) = Some (k + i)"
proof (rule map_of_is_SomeI)
  have "map fst (map (\<lambda>(i, r). (res_Hash r, i)) (enumerate k rs)) = map res_Hash rs"
    by (intro nth_equalityI) (simp_all add: nth_enumerate_eq)
  then show "distinct (map fst (rev (map (\<lambda>(i, r). (res_Hash r, i)) (enumerate k rs))))"
    using assms(1) by (metis distinct_rev rev_map)
  show "(res_Hash (rs ! i), k + i) \<in> set (rev (map (\<lambda>(i, r). (res_Hash r, i)) (enumerate k rs)))"
    using assms(2) by (force simp: in_set_enumerate_eq)
qed

lemma length_fill_gas [simp]: "length (fill_gas g txs) = length txs"
  by (simp add: fill_gas_def split: list.splits)

lemma nth_fill_gas:
  "i < length txs \<Longrightarrow> fill_gas g txs ! i = (if length txs = 1 then (txs ! i)\<lparr>p_GasUsed := g\<rparr> else txs ! i)"
  by (auto simp: fill_gas_def split: list.splits)

lemma sint_of_index: "n < 2 ^ 31 \<Longrightarrow> sint (of_nat n :: 32 word) = int n"
  by (simp add: signed_of_nat signed_take_bit_int_eq_self)

text \<open>C19. Events describe what was executed. When the messages of a transaction run, the events of the ante handler followed by those of
  the message server, with any other events between them, parse into one entry per message: the hash of the transaction, its index in
  the block, counted on from the block's counter, the gas charged (that of the whole result if there is one message) and whether it
  failed. Every entry is found by its hash, if hashes differ, and by its index in the block.
\<close>

theorem events_parse_back:
  assumes laws: "evm_laws X" "hooks_keep_counters X" "lib_laws (xlib X)"
    and ante: "emit_events (GetTxIndexTransient c) 0 (map EthMsg ms) = Ok aevs"
    and run: "run_msgs X json tm c ms = Ok (rs, c', evs)"
    and hashes: "\<forall>m \<in> set ms. msg_hash X m = Some (m_Hash m)"
    and small: "unat (GetTxIndexTransient c) + length ms \<le> 2 ^ 31"
    and result: "r_Code result = 0" "eth_events (r_Events result) = ante_events aevs @ eth_events evs"
  shows "\<exists>p. ParseTxResult (xlib X) result tx = Ok p \<and> length (p_Txs p) = length ms \<and> length rs = length ms \<and>
    (\<forall>i < length ms. p_Txs p ! i =
       \<lparr>MsgIndex = i, p_Hash = res_Hash (rs ! i), EthTxIndex = of_nat (unat (GetTxIndexTransient c) + i),
        p_GasUsed = (if length ms = 1 then word_of_int (r_GasUsed result) else res_GasUsed (rs ! i)), p_Failed = Failed (rs ! i)\<rparr>) \<and>
    (\<forall>i < length ms. GetTxByTxIndex p (int (unat (GetTxIndexTransient c) + i)) = Some (p_Txs p ! i)) \<and>
    (distinct (map res_Hash rs) \<longrightarrow> (\<forall>i < length ms. GetTxByHash p (res_Hash (rs ! i)) = Some (p_Txs p ! i)))"
proof -
  let ?base = "GetTxIndexTransient c"
  obtain txs where txs: "length txs = length ms" "length rs = length ms"
    "parse_events (xlib X) eventFormatUnknown 0 (r_Events result) \<lparr>p_Txs = [], TxHashes = Map.empty\<rparr> =
      Ok \<lparr>p_Txs = map (exec_parsed ?base) (enumerate 0 (zip txs rs)),
          TxHashes = map_of (rev (map (\<lambda>(i, r). (res_Hash r, i)) (enumerate 0 rs)))\<rparr>"
    using parse_transaction_events [OF laws ante run hashes small result(2)] by blast
  define p where "p = \<lparr>p_Txs = fill_gas (word_of_int (r_GasUsed result)) (map (exec_parsed ?base) (enumerate 0 (zip txs rs))),
      TxHashes = map_of (rev (map (\<lambda>(i, r). (res_Hash r, i)) (enumerate 0 rs)))\<rparr>"
  have "ParseTxResult (xlib X) result tx = Ok p"
    using txs(3) result(1) by (cases tx) (simp_all add: ParseTxResult_def p_def)
  moreover have len: "length (p_Txs p) = length ms"
    using txs(1,2) by (simp add: p_def)
  moreover have entry: "p_Txs p ! i =
       \<lparr>MsgIndex = i, p_Hash = res_Hash (rs ! i), EthTxIndex = of_nat (unat ?base + i),
        p_GasUsed = (if length ms = 1 then word_of_int (r_GasUsed result) else res_GasUsed (rs ! i)), p_Failed = Failed (rs ! i)\<rparr>"
    if "i < length ms" for i
    using txs(1,2) that by (simp add: p_def nth_fill_gas nth_enumerate_eq exec_parsed_def)
  moreover have "GetTxByTxIndex p (int (unat ?base + i)) = Some (p_Txs p ! i)" if "i < length ms" for i
  proof -
    have "sint (EthTxIndex (p_Txs p ! 0)) = int (unat ?base)"
      using entry [of 0] that small sint_of_index [of "unat ?base"] by (cases "length ms") simp_all
    then show ?thesis using that len by (auto simp: GetTxByTxIndex_def GetTxByMsgIndex_def)
  qed
  moreover have "GetTxByHash p (res_Hash (rs ! i)) = Some (p_Txs p ! i)" if "distinct (map res_Hash rs)" "i < length ms" for i
    using hash_lookup [OF that(1), of i 0] that txs(2) by (simp add: GetTxByHash_def p_def)
  ultimately show ?thesis using txs(2) by blast
qed

text \<open>An instance: one transfer.\<close>

definition transfer_msg :: MsgEthereumTx where
  "transfer_msg =
     \<lparr>m_Data = Some sample_tx_data, m_SizeSet = False, m_Hash = HashHex raw_lib 77, m_From = []\<rparr>"

definition transfer_result :: "sdkEvent list \<Rightarrow> ResponseDeliverTx" where
  "transfer_result evs =
     \<lparr>r_Code = 0, r_Log = [], r_GasUsed = 21000, r_Events = ante_event (m_Hash transfer_msg) 0 # (''coin_spent'', []) # evs\<rparr>"

lemma demo_applies_dynamic:
  assumes "e_Type tx = 2"
  shows "is_ok (ApplyTransaction demo_chain funded tx)"
proof -
  have "ApplyTransaction demo_chain funded sample_eth_tx = ApplyTransaction demo_chain funded tx"
    using assms by (simp add: ApplyTransaction_def demo_chain_def make_receipt_def sample_eth_tx_def)
  with demo_tx_applies show ?thesis by simp
qed

lemma transfer_runs: "is_ok (run_msgs demo_chain (\<lambda>_. Ok []) None funded [transfer_msg])"
proof -
  obtain tx where tx: "AsTransaction (xlib demo_chain) transfer_msg = Some tx" "e_Type tx = 2"
    by (simp add: AsTransaction_def transfer_msg_def UnpackTxData_def sample_tx_data_def DynamicFeeTx_AsEthereumData_def case_prod_beta)
  obtain r c1 where "ApplyTransaction demo_chain funded tx = Ok (r, c1)"
    using demo_applies_dynamic [OF tx(2)] by (auto simp: is_ok_iff)
  moreover have "is_ok (log_attributes (\<lambda>_. Ok []) ls)" for ls by (induction ls) (auto simp: is_ok_iff)
  ultimately show ?thesis using tx by (auto simp: msg_EthereumTx_def Let_def is_ok_iff)
qed

theorem events_parse_back_witness:
  "\<exists>rs c' evs p. run_msgs demo_chain (\<lambda>_. Ok []) None funded [transfer_msg] = Ok (rs, c', evs) \<and>
     ParseTxResult raw_lib (transfer_result evs) None = Ok p \<and>
     p_Txs p = [\<lparr>MsgIndex = 0, p_Hash = res_Hash (rs ! 0), EthTxIndex = 0, p_GasUsed = 21000, p_Failed = Failed (rs ! 0)\<rparr>] \<and>
     GetTxByHash p (res_Hash (rs ! 0)) = Some (p_Txs p ! 0)"
proof -
  obtain rs c' evs where run: "run_msgs demo_chain (\<lambda>_. Ok []) None funded [transfer_msg] = Ok (rs, c', evs)"
    using transfer_runs by (auto simp: is_ok_iff)
  have zero: "GetTxIndexTransient funded = 0"
    by (simp add: GetTxIndexTransient_def get_counter_def funded_def genesis_def store_Get_def)
  have lib: "xlib demo_chain = raw_lib" by (simp add: demo_chain_def)
  have "hooks_keep_counters demo_chain" by (simp add: hooks_keep_counters_def demo_chain_def)
  moreover have "emit_events (GetTxIndexTransient funded) 0 (map EthMsg [transfer_msg]) = Ok [EthereumTx (m_Hash transfer_msg) 0]"
    by (simp add: zero)
  moreover have "\<forall>m \<in> set [transfer_msg]. msg_hash demo_chain m = Some (m_Hash m)"
    by (simp add: msg_hash_def AsTransaction_def transfer_msg_def UnpackTxData_def demo_chain_def)
  moreover have "eth_events (r_Events (transfer_result evs)) = ante_events [EthereumTx (m_Hash transfer_msg) 0] @ eth_events evs"
    by (simp add: transfer_result_def eth_events_def EventTypeEthereumTx_def ante_event_def)
  ultimately obtain p where p: "ParseTxResult raw_lib (transfer_result evs) None = Ok p" "length (p_Txs p) = 1" "length rs = 1"
    "p_Txs p ! 0 = \<lparr>MsgIndex = 0, p_Hash = res_Hash (rs ! 0), EthTxIndex = 0, p_GasUsed = 21000, p_Failed = Failed (rs ! 0)\<rparr>"
    "GetTxByHash p (res_Hash (rs ! 0)) = Some (p_Txs p ! 0)"
    using events_parse_back [OF demo_laws _ _ _ run, where result = "transfer_result evs" and tx = None] raw_lib_laws lib zero
    by (auto simp: transfer_result_def length_Suc_conv)
  from p(2,4) have "p_Txs p = [\<lparr>MsgIndex = 0, p_Hash = res_Hash (rs ! 0), EthTxIndex = 0, p_GasUsed = 21000, p_Failed = Failed (rs ! 0)\<rparr>]"
    by (cases "p_Txs p") auto
  with run p show ?thesis by blast
qed
subsection \<open>A transaction that exceeds the block gas limit\<close>

lemma charge_limits_all:
  assumes "i + length txs \<le> length ms"
  shows "charge_limits (map EthMsg ms) i txs =
    Ok (map (\<lambda>(j, tx). tx\<lparr>p_Failed := True, p_GasUsed := msg_GetGas (ms ! j)\<rparr>) (enumerate i txs))"
  using assms by (induction txs arbitrary: i) auto

text \<open>
  The events of the ante handler are all there is when the transaction exceeds the block gas limit: every message is reported as
  failed and charged its gas limit.
\<close>

lemma exceeded_limit_charges_gas_limit:
  assumes ante: "emit_events base 0 (map EthMsg ms) = Ok aevs" and small: "unat base + length ms \<le> 2 ^ 31"
    and result: "r_Code result \<noteq> 0" "eth_events (r_Events result) = ante_events aevs" and tx: "GetMsgs tx = map EthMsg ms"
  shows "\<exists>p. ParseTxResult L result (Some tx) = Ok p \<and> length (p_Txs p) = length ms \<and>
    (\<forall>i < length ms. p_Txs p ! i =
       \<lparr>MsgIndex = i, p_Hash = HexToHash L (m_Hash (ms ! i)), EthTxIndex = of_nat (unat base + i),
        p_GasUsed = msg_GetGas (ms ! i), p_Failed = True\<rparr>)"
proof -
  let ?txs = "map (ante_parsed L base) (enumerate 0 ms)"
  obtain hs where "parse_events L eventFormatUnknown 0 (r_Events result) \<lparr>p_Txs = [], TxHashes = Map.empty\<rparr> = Ok \<lparr>p_Txs = ?txs, TxHashes = hs\<rparr>"
    using parse_ante_part [of eventFormatUnknown 0 "\<lparr>p_Txs = [], TxHashes = Map.empty\<rparr>" base ms L 0 "[]"] small
    by (simp add: parse_eth_events [of _ _ _ "r_Events result"] result(2) emitted_ante_events [OF ante])
  then have "ParseTxResult L result (Some tx) = Ok \<lparr>p_Txs =
      map (\<lambda>(j, tx). tx\<lparr>p_Failed := True, p_GasUsed := msg_GetGas (ms ! j)\<rparr>)
        (enumerate 0 (fill_gas (word_of_int (r_GasUsed result)) ?txs)), TxHashes = hs\<rparr>"
    using result(1) by (simp add: ParseTxResult_def tx charge_limits_all)
  then show ?thesis by (simp add: nth_enumerate_eq nth_fill_gas ante_parsed_def)
qed

end
