(* ===== verification/Tx_Indexer_Laws.thy ===== *)
theory Tx_Indexer_Laws
  imports Tx_Indexer Tx_Events_Laws
begin

text \<open>
  What the indexer answers: after a block is indexed, looking an Ethereum transaction up by its hash or by its place in the block
  gives what parsing the events of its Cosmos transaction gives, so that the JSON-RPC server answers the same with and without
  the indexer; the last indexed block is the highest one with an Ethereum transaction.
\<close>

subsection \<open>Parsed transactions are numbered\<close>

definition numbered :: "ParsedTxs \<Rightarrow> bool" where
  "numbered p \<longleftrightarrow> (\<forall>i < length (p_Txs p). MsgIndex (p_Txs p ! i) = i) \<and> (\<forall>h i. TxHashes p h = Some i \<longrightarrow> i < length (p_Txs p))"

lemma fillTxAttribute_MsgIndex: "fillTxAttribute L a tx = Ok tx' \<Longrightarrow> MsgIndex tx' = MsgIndex tx"
  by (auto simp: fillTxAttribute_def Let_def split: prod.splits if_split_asm)

lemma fillTxAttributes_MsgIndex: "fillTxAttributes L tx attrs = Ok tx' \<Longrightarrow> MsgIndex tx' = MsgIndex tx"
  unfolding fillTxAttributes_def
  by (induction attrs arbitrary: tx) (auto dest!: fillTxAttribute_MsgIndex)

lemma newTx_numbered: "numbered p \<Longrightarrow> parsed_newTx L attrs p = Ok p' \<Longrightarrow> numbered p'"
  by (auto simp: numbered_def parsed_newTx_def Let_def nth_append NewParsedTx_def less_Suc_eq dest!: fillTxAttributes_MsgIndex
      split: if_split_asm)

lemma updateTx_numbered: "numbered p \<Longrightarrow> parsed_updateTx L n attrs p = Ok p' \<Longrightarrow> numbered p'"
  by (auto simp: numbered_def parsed_updateTx_def NewParsedTx_def nth_list_update dest!: fillTxAttributes_MsgIndex split: if_split_asm)

lemma parse_events_numbered: "numbered p \<Longrightarrow> parse_events L f n events p = Ok p' \<Longrightarrow> numbered p'"
proof (induction events arbitrary: f n p)
  case (Cons e events)
  obtain ty attrs where e: "e = (ty, attrs)" by (cases e)
  from Cons.prems show ?case
    by (auto simp: e Let_def split: if_split_asm intro: Cons.IH newTx_numbered updateTx_numbered)
qed simp

lemma charge_limits_Ok:
  assumes "charge_limits (map EthMsg ms) i txs = Ok txs'"
  shows "length txs' = length txs \<and> (\<forall>j < length txs. MsgIndex (txs' ! j) = MsgIndex (txs ! j) \<and> p_Failed (txs' ! j) \<and>
    p_GasUsed (txs' ! j) = msg_GetGas (ms ! (i + j)))"
  using assms
proof (induction txs arbitrary: i txs')
  case (Cons tx txs)
  then obtain rest where r: "charge_limits (map EthMsg ms) (Suc i) txs = Ok rest"
    "txs' = tx\<lparr>p_Failed := True, p_GasUsed := msg_GetGas (ms ! i)\<rparr> # rest"
    by (auto split: if_split_asm)
  from Cons.IH [OF r(1)] r(2) show ?case by (auto simp: less_Suc_eq_0_disj)
qed simp

lemma parsed_numbered:
  assumes "ParseTxResult L result (Some tx) = Ok p" "GetMsgs tx = map EthMsg ms"
  shows "\<forall>i < length (p_Txs p). MsgIndex (p_Txs p ! i) = i \<and>
    (r_Code result \<noteq> 0 \<longrightarrow> p_Failed (p_Txs p ! i) \<and> p_GasUsed (p_Txs p ! i) = msg_GetGas (ms ! i))"
proof -
  obtain q where q: "parse_events L eventFormatUnknown 0 (r_Events result) \<lparr>p_Txs = [], TxHashes = Map.empty\<rparr> = Ok q"
    using assms(1) by (auto simp: ParseTxResult_def)
  have "numbered q" by (rule parse_events_numbered [OF _ q]) (simp add: numbered_def)
  then have "\<forall>i < length (p_Txs q). MsgIndex (fill_gas g (p_Txs q) ! i) = i" for g by (simp add: numbered_def nth_fill_gas)
  with q assms charge_limits_Ok [of ms 0 "fill_gas (word_of_int (r_GasUsed result)) (p_Txs q)"] show ?thesis
    by (auto simp: ParseTxResult_def Let_def split: if_split_asm)
qed

subsection \<open>What a block adds\<close>

fun eth_messages :: "Msg list \<Rightarrow> MsgEthereumTx list" where
  "eth_messages [] = []"
| "eth_messages (EthMsg m # msgs) = m # eth_messages msgs"
| "eth_messages (_ # msgs) = eth_messages msgs"

definition indexed :: "index_env \<Rightarrow> txlib \<Rightarrow> ResponseDeliverTx \<Rightarrow> bytes \<Rightarrow> (Tx \<times> ParsedTxs) option" where
  "indexed I L result raw =
     (if TxSuccessOrExceedsBlockGasLimit result then
        case ixDecode I raw of
          Ok tx \<Rightarrow> if isEthTx tx then (case ParseTxResult L result (Some tx) of Ok p \<Rightarrow> Some (tx, p) | _ \<Rightarrow> None) else None
        | _ \<Rightarrow> None
      else None)"

text \<open>The entry of a message: its hash and its result, after \<open>e\<close> messages of earlier transactions.\<close>

definition entry :: "txlib \<Rightarrow> int \<Rightarrow> nat \<Rightarrow> 32 word \<Rightarrow> ParsedTxs \<Rightarrow> nat \<times> MsgEthereumTx \<Rightarrow> Hash \<times> TxResult" where
  "entry L height k e p = (\<lambda>(i, m). (HexToHash L (m_Hash m),
     \<lparr>tr_Height = height, tr_TxIndex = of_nat k, tr_MsgIndex = of_nat i, tr_EthTxIndex = e + of_nat i,
      tr_Failed = p_Failed (p_Txs p ! i), tr_GasUsed = p_GasUsed (p_Txs p ! i),
      tr_CumulativeGasUsed = sum_list (map p_GasUsed (take (Suc i) (p_Txs p)))\<rparr>))"

fun block_entries ::
  "index_env \<Rightarrow> txlib \<Rightarrow> int \<Rightarrow> ResponseDeliverTx list \<Rightarrow> nat \<Rightarrow> 32 word \<Rightarrow> bytes list \<Rightarrow> (Hash \<times> TxResult) list" where
  "block_entries I L height results k e [] = []"
| "block_entries I L height results k e (raw # raws) =
     (case indexed I L (results ! k) raw of
        None \<Rightarrow> block_entries I L height results (Suc k) e raws
      | Some (tx, p) \<Rightarrow>
          map (entry L height k e p) (enumerate 0 (eth_messages (GetMsgs tx))) @
          block_entries I L height results (Suc k) (e + of_nat (length (eth_messages (GetMsgs tx)))) raws)"

text \<open>Every indexed transaction has Ethereum messages only, and one parsed entry for each.\<close>

definition block_ok :: "index_env \<Rightarrow> txlib \<Rightarrow> ResponseDeliverTx list \<Rightarrow> nat \<Rightarrow> bytes list \<Rightarrow> bool" where
  "block_ok I L results k raws \<longleftrightarrow>
     (\<forall>j < length raws. \<forall>tx p. indexed I L (results ! (k + j)) (raws ! j) = Some (tx, p) \<longrightarrow>
        GetMsgs tx = map EthMsg (eth_messages (GetMsgs tx)) \<and> length (p_Txs p) = length (GetMsgs tx))"

definition entries_batch :: "index_env \<Rightarrow> (Hash \<times> TxResult) list \<Rightarrow> batch" where
  "entries_batch I es = concat (map (\<lambda>(h, r). saveTxResult I [] h r) es)"

lemma index_msgs_entries:
  assumes "i + length ms \<le> length (p_Txs p)"
    and "\<And>j. j < length ms \<Longrightarrow> r_Code result \<noteq> 0 \<Longrightarrow> p_Failed (p_Txs p ! (i + j)) \<and> p_GasUsed (p_Txs p ! (i + j)) = msg_GetGas (ms ! j)"
  shows "index_msgs I L height k result p i (map EthMsg ms) (e + of_nat i, sum_list (map p_GasUsed (take i (p_Txs p))), b) =
    Ok (e + of_nat (i + length ms), b @ entries_batch I (map (entry L height k e p) (enumerate i ms)))"
  using assms
proof (induction ms arbitrary: i b)
  case (Cons m ms)
  let ?h = "fst (entry L height k e p (i, m))" and ?r = "snd (entry L height k e p (i, m))"
  have i: "i < length (p_Txs p)" using Cons.prems(1) by simp
  have found: "(if r_Code result \<noteq> 0 then Some (msg_GetGas m, True)
      else map_option (\<lambda>parsedTx. (p_GasUsed parsedTx, p_Failed parsedTx)) (GetTxByMsgIndex p (int i))) =
    Some (p_GasUsed (p_Txs p ! i), p_Failed (p_Txs p ! i))"
    using Cons.prems(2) [of 0] i by (auto simp: GetTxByMsgIndex_def)
  have sum: "sum_list (map p_GasUsed (take i (p_Txs p))) + p_GasUsed (p_Txs p ! i) = sum_list (map p_GasUsed (take (Suc i) (p_Txs p)))"
    using i by (simp add: take_Suc_conv_app_nth)
  have "index_msgs I L height k result p i (map EthMsg (m # ms)) (e + of_nat i, sum_list (map p_GasUsed (take i (p_Txs p))), b) =
      index_msgs I L height k result p (Suc i) (map EthMsg ms)
        (e + of_nat (Suc i), sum_list (map p_GasUsed (take (Suc i) (p_Txs p))), saveTxResult I b ?h ?r)"
    using found sum by (simp add: entry_def Let_def add.assoc add.commute [of 1])
  also have "\<dots> = Ok (e + of_nat (Suc i + length ms),
      saveTxResult I b ?h ?r @ entries_batch I (map (entry L height k e p) (enumerate (Suc i) ms)))"
  proof (rule Cons.IH)
    show "p_Failed (p_Txs p ! (Suc i + j)) \<and> p_GasUsed (p_Txs p ! (Suc i + j)) = msg_GetGas (ms ! j)"
      if "j < length ms" "r_Code result \<noteq> 0" for j using Cons.prems(2) [of "Suc j"] that by simp
  qed (use Cons.prems(1) in simp)
  finally show ?case by (simp add: entries_batch_def saveTxResult_def case_prod_beta)
qed (simp add: entries_batch_def)

lemma index_txs_entries:
  assumes "index_txs I L height results k raws (e, b) = Ok (e', b')" and "block_ok I L results k raws"
  shows "b' = b @ entries_batch I (block_entries I L height results k e raws)"
  using assms
proof (induction raws arbitrary: k e b)
  case Nil
  then show ?case by (simp add: entries_batch_def)
next
  case (Cons raw raws)
  let ?result = "results ! k"
  have rest: "block_ok I L results (Suc k) raws"
    using Cons.prems(2) unfolding block_ok_def by (metis Suc_less_eq add_Suc add_Suc_right length_Cons nth_Cons_Suc)
  show ?case
  proof (cases "indexed I L ?result raw")
    case None
    then have "index_txs I L height results (Suc k) raws (e, b) = Ok (e', b')"
      using Cons.prems(1) by (auto simp: indexed_def Let_def split: if_split_asm outcome.splits)
    from Cons.IH [OF this rest] None show ?thesis by simp
  next
    case (Some tp)
    obtain tx p where tp: "tp = (tx, p)" by (cases tp)
    let ?ms = "eth_messages (GetMsgs tx)"
    have wf: "GetMsgs tx = map EthMsg ?ms" "length (p_Txs p) = length (GetMsgs tx)"
      using Cons.prems(2) Some unfolding tp block_ok_def by force+
    then have len: "length (p_Txs p) = length ?ms" by (metis length_map)
    have parse: "ParseTxResult L ?result (Some tx) = Ok p"
      and go: "bind_outcome (index_msgs I L height k ?result p 0 (GetMsgs tx) (e, 0, b)) (index_txs I L height results (Suc k) raws) = Ok (e', b')"
      using Some Cons.prems(1) unfolding tp by (auto simp: indexed_def Let_def split: if_split_asm outcome.splits)
    have "index_msgs I L height k ?result p 0 (map EthMsg ?ms) (e, 0, b) =
        Ok (e + of_nat (length ?ms), b @ entries_batch I (map (entry L height k e p) (enumerate 0 ?ms)))"
      using index_msgs_entries [of 0 ?ms p ?result I L height k e b] parsed_numbered [OF parse wf(1)] len by simp
    with go wf(1) have "index_txs I L height results (Suc k) raws
        (e + of_nat (length ?ms), b @ entries_batch I (map (entry L height k e p) (enumerate 0 ?ms))) = Ok (e', b')" by simp
    from Cons.IH [OF this rest] Some show ?thesis by (simp add: tp entries_batch_def)
  qed
qed

lemma entries_numbered:
  "j < length (block_entries I L height results k e raws) \<Longrightarrow>
   tr_EthTxIndex (snd (block_entries I L height results k e raws ! j)) = e + of_nat j \<and>
   tr_Height (snd (block_entries I L height results k e raws ! j)) = height"
proof (induction raws arbitrary: k e j)
  case (Cons raw raws)
  show ?case
  proof (cases "indexed I L (results ! k) raw")
    case None
    with Cons show ?thesis by simp
  next
    case (Some tp)
    obtain tx p where tp: "tp = (tx, p)" by (cases tp)
    let ?n = "length (eth_messages (GetMsgs tx))"
    show ?thesis
    proof (cases "j < ?n")
      case True
      with Some show ?thesis by (simp add: tp nth_append nth_enumerate_eq entry_def)
    next
      case False
      then have "(of_nat j :: 32 word) = of_nat (?n + (j - ?n))" by simp
      then have j: "(of_nat j :: 32 word) = of_nat ?n + of_nat (j - ?n)" by (simp only: of_nat_add)
      have at: "block_entries I L height results k e (raw # raws) ! j =
          block_entries I L height results (Suc k) (e + of_nat ?n) raws ! (j - ?n)"
        using False Some by (simp add: tp nth_append)
      have "j - ?n < length (block_entries I L height results (Suc k) (e + of_nat ?n) raws)"
        using Cons.prems False Some by (simp add: tp)
      from Cons.IH [OF this] show ?thesis unfolding at j by (simp only: add.assoc)
    qed
  qed
qed simp
subsection \<open>Reading what was written\<close>

lemma TxHashKey_inject [simp]: "TxHashKey h = TxHashKey g \<longleftrightarrow> h = g"
  by (simp add: TxHashKey_def)

lemma keys_differ [simp]: "TxHashKey h \<noteq> TxIndexKey n i" "TxIndexKey n i \<noteq> TxHashKey h"
  by (simp_all add: TxHashKey_def TxIndexKey_def)

lemma Uint64ToBigEndian_inject [simp]: "Uint64ToBigEndian a = Uint64ToBigEndian b \<longleftrightarrow> a = b"
  by (simp add: Uint64ToBigEndian_def be_bytes_eq_iff)

lemma TxIndexKey_inject: "TxIndexKey n i = TxIndexKey n j \<longleftrightarrow> i = j"
proof -
  have "sint (word_of_int (sint w) :: uint64) = sint w" for w :: "32 word"
    by (subst signed_of_int) (use sint_ge [of w] sint_lt [of w] in \<open>simp add: signed_take_bit_int_eq_self\<close>)
  then have "(word_of_int (sint i) :: uint64) = word_of_int (sint j) \<longleftrightarrow> i = j"
    by (metis signed_word_eqI)
  then show ?thesis by (simp add: TxIndexKey_def)
qed

lemma lookup_batch_Write:
  "fmlookup (batch_Write b db) k = (case map_of (rev b) k of Some v \<Rightarrow> Some v | None \<Rightarrow> fmlookup db k)"
  unfolding batch_Write_def
  by (induction b arbitrary: db) (auto simp: map_add_def split: option.splits)

definition place :: "Hash \<times> TxResult \<Rightarrow> bytes" where
  "place e = TxIndexKey (tr_Height (snd e)) (tr_EthTxIndex (snd e))"

lemma set_entries_batch:
  "set (entries_batch I es) = (\<lambda>(h, r). (TxHashKey h, ixMarshal I r)) ` set es \<union> (\<lambda>e. (place e, HashBytes (fst e))) ` set es"
  by (induction es) (auto simp: entries_batch_def saveTxResult_def place_def)

lemma distinct_entries_batch:
  assumes "distinct (map fst es)" "distinct (map place es)"
  shows "distinct (map fst (entries_batch I es))"
  using assms
proof (induction es)
  case (Cons e es)
  obtain h r where e: "e = (h, r)" by (cases e)
  have "TxHashKey h \<notin> fst ` set (entries_batch I es)" "place e \<notin> fst ` set (entries_batch I es)"
    using Cons.prems unfolding set_entries_batch by (force simp: e place_def)+
  with Cons show ?case by (simp add: entries_batch_def saveTxResult_def e place_def)
qed (simp add: entries_batch_def)

lemma written_entry:
  assumes "distinct (map fst es)" "distinct (map place es)" "(h, r) \<in> set es"
  shows "store_Get (batch_Write (entries_batch I es) db) (TxHashKey h) = ixMarshal I r"
    "store_Get (batch_Write (entries_batch I es) db) (place (h, r)) = HashBytes h"
proof -
  have d: "distinct (map fst (rev (entries_batch I es)))"
    using distinct_entries_batch [OF assms(1,2)] by (metis distinct_rev rev_map)
  have "(TxHashKey h, ixMarshal I r) \<in> set (rev (entries_batch I es))" "(place (h, r), HashBytes h) \<in> set (rev (entries_batch I es))"
    using assms(3) by (force simp: set_entries_batch)+
  then have "map_of (rev (entries_batch I es)) (TxHashKey h) = Some (ixMarshal I r)"
    "map_of (rev (entries_batch I es)) (place (h, r)) = Some (HashBytes h)"
    using map_of_is_SomeI [OF d] by blast+
  then show "store_Get (batch_Write (entries_batch I es) db) (TxHashKey h) = ixMarshal I r"
    "store_Get (batch_Write (entries_batch I es) db) (place (h, r)) = HashBytes h"
    by (simp_all add: store_Get_def lookup_batch_Write)
qed

text \<open>
  The codec of the results, as the index relies on it: a result of a block of the chain decodes to itself and is not encoded as
  nothing (its height is not zero).
\<close>

locale index_codec =
  fixes I :: index_env
  assumes unmarshal: "0 < tr_Height r \<Longrightarrow> tr_Height r < 2 ^ 63 \<Longrightarrow> ixUnmarshal I (ixMarshal I r) = Ok r"
    and marshal_nonempty: "0 < tr_Height r \<Longrightarrow> ixMarshal I r \<noteq> []"
begin

lemma written_found:
  assumes "distinct (map fst es)" "distinct (map place es)" "(h, r) \<in> set es" and height: "0 < tr_Height r" "tr_Height r < 2 ^ 63"
  shows "GetByTxHash I (batch_Write (entries_batch I es) db) h = Ok r"
    "GetByBlockAndIndex I (batch_Write (entries_batch I es) db) (tr_Height r) (tr_EthTxIndex r) = Ok r"
proof -
  note w = written_entry [OF assms(1-3), of I db]
  show found: "GetByTxHash I (batch_Write (entries_batch I es) db) h = Ok r"
    using w(1) unmarshal [OF height] marshal_nonempty [OF height(1)] by (simp add: GetByTxHash_def)
  show "GetByBlockAndIndex I (batch_Write (entries_batch I es) db) (tr_Height r) (tr_EthTxIndex r) = Ok r"
    using w(2) found length_HashBytes [of h] by (cases "HashBytes h = []") (simp_all add: GetByBlockAndIndex_def place_def)
qed

lemma block_entry_found:
  assumes "IndexBlock I L height raws results db = Ok db'" and "block_ok I L results 0 raws"
    and height: "0 < height" "height < 2 ^ 63"
    and es: "es = block_entries I L height results 0 0 raws" "distinct (map fst es)" "length es \<le> 2 ^ 31" "(h, r) \<in> set es"
  shows "GetByTxHash I db' h = Ok r \<and> GetByBlockAndIndex I db' height (tr_EthTxIndex r) = Ok r"
proof -
  obtain e' b' where b: "index_txs I L height results 0 raws (0, []) = Ok (e', b')" "db' = batch_Write b' db"
    using assms(1) by (auto simp: IndexBlock_def)
  have db': "db' = batch_Write (entries_batch I es) db"
    using index_txs_entries [OF b(1) assms(2)] b(2) es(1) by simp
  have num: "tr_EthTxIndex (snd (es ! j)) = of_nat j" "tr_Height (snd (es ! j)) = height" if "j < length es" for j
    using entries_numbered [of j I L height results 0 0 raws] that es(1) by simp_all
  have "distinct (map place es)"
  proof (subst distinct_conv_nth, intro allI impI)
    fix i j assume ij: "i < length (map place es)" "j < length (map place es)" "i \<noteq> j"
    then have "(of_nat i :: 32 word) \<noteq> of_nat j"
      using es(3) by (auto simp: word_of_nat_eq_iff take_bit_nat_eq_self)
    with ij num show "map place es ! i \<noteq> map place es ! j" by (simp add: place_def TxIndexKey_inject)
  qed
  moreover have "tr_Height r = height" using es(4) num(2) by (metis in_set_conv_nth snd_conv)
  ultimately show ?thesis
    using written_found [of es h r db] es(2,4) height unfolding db' by simp
qed

end

subsection \<open>The indexer and the parser agree\<close>

text \<open>The Ethereum messages of the transactions of a block before the one at \<open>k\<close>.\<close>

fun eth_before :: "index_env \<Rightarrow> txlib \<Rightarrow> ResponseDeliverTx list \<Rightarrow> nat \<Rightarrow> bytes list \<Rightarrow> nat" where
  "eth_before I L (result # results) (Suc k) (raw # raws) =
     (case indexed I L result raw of None \<Rightarrow> 0 | Some (tx, p) \<Rightarrow> length (eth_messages (GetMsgs tx))) + eth_before I L results k raws"
| "eth_before I L results k raws = 0"

lemma entry_in_block:
  assumes "k < length raws" "k0 + length raws \<le> length results" "indexed I L (results ! (k0 + k)) (raws ! k) = Some (tx, p)"
    and "i < length (eth_messages (GetMsgs tx))"
  shows "entry L height (k0 + k) (e + of_nat (eth_before I L (drop k0 results) k raws)) p (i, eth_messages (GetMsgs tx) ! i)
    \<in> set (block_entries I L height results k0 e raws)"
  using assms
proof (induction raws arbitrary: k k0 e)
  case (Cons raw raws)
  have drop: "drop k0 results = (results ! k0) # drop (Suc k0) results"
    using Cons.prems(2) by (simp add: Cons_nth_drop_Suc)
  show ?case
  proof (cases k)
    case 0
    with Cons.prems show ?thesis by (auto simp: drop in_set_enumerate_eq intro!: imageI)
  next
    case (Suc k')
    let ?n = "case indexed I L (results ! k0) raw of None \<Rightarrow> 0 | Some (tx, p) \<Rightarrow> length (eth_messages (GetMsgs tx))"
    have "entry L height (Suc k0 + k') (e + of_nat ?n + of_nat (eth_before I L (drop (Suc k0) results) k' raws)) p
        (i, eth_messages (GetMsgs tx) ! i) \<in> set (block_entries I L height results (Suc k0) (e + of_nat ?n) raws)"
      using Cons.prems Suc by (intro Cons.IH) simp_all
    then show ?thesis unfolding drop Suc by (auto simp: add.assoc split: option.splits)
  qed
qed simp

text \<open>C20. The indexer and the event parser agree. After a block is indexed, an Ethereum transaction looked up by its hash, or by the
  block number and its index in the block, gives the result that \<open>ParseTxIndexerResult\<close> computes from the events of its Cosmos
  transaction: its place, whether it failed, the gas it used and the gas used so far in its Cosmos transaction. The block's hashes
  differ, every indexed transaction has one parsed entry per message, and the event's index is the number of Ethereum messages
  before it.
\<close>

theorem index_agrees_with_events:
  assumes codec: "index_codec I" and index: "IndexBlock I L height raws results db = Ok db'"
    and block: "block_ok I L results 0 raws" "length raws \<le> length results"
    and height: "0 < height" "height < 2 ^ 63"
    and hashes: "distinct (map fst (block_entries I L height results 0 0 raws))" "length (block_entries I L height results 0 0 raws) \<le> 2 ^ 31"
    and tx: "k < length raws" "indexed I L (results ! k) (raws ! k) = Some (tx, p)" "i < length (GetMsgs tx)" "GetMsgs tx ! i = EthMsg m"
    and counted: "EthTxIndex (p_Txs p ! i) = of_nat (eth_before I L results k raws + i)"
  shows "is_ok (GetByTxHash I db' (HexToHash L (m_Hash m))) \<and>
    GetByTxHash I db' (HexToHash L (m_Hash m)) =
      ParseTxIndexerResult L height (of_nat k) (results ! k) (Some tx) (\<lambda>p. GetTxByMsgIndex p (int i)) \<and>
    GetByBlockAndIndex I db' height (of_nat (eth_before I L results k raws + i)) = GetByTxHash I db' (HexToHash L (m_Hash m))"
proof -
  let ?e = "of_nat (eth_before I L results k raws) :: 32 word"
  have wf: "GetMsgs tx = map EthMsg (eth_messages (GetMsgs tx))" "length (p_Txs p) = length (GetMsgs tx)"
    using block(1) tx(1,2) unfolding block_ok_def by (metis add_0)+
  then have len: "length (eth_messages (GetMsgs tx)) = length (GetMsgs tx)" by (metis length_map)
  have "GetMsgs tx ! i = map EthMsg (eth_messages (GetMsgs tx)) ! i" using wf(1) by simp
  then have m: "eth_messages (GetMsgs tx) ! i = m" using tx(3,4) len by simp
  let ?r = "snd (entry L height k ?e p (i, m))"
  have "entry L height k ?e p (i, m) \<in> set (block_entries I L height results 0 0 raws)"
    using entry_in_block [of k raws 0 results I L tx p i height 0] tx block(2) len m by simp
  then have mem: "(HexToHash L (m_Hash m), ?r) \<in> set (block_entries I L height results 0 0 raws)" by (simp add: entry_def)
  have found: "GetByTxHash I db' (HexToHash L (m_Hash m)) = Ok ?r" "GetByBlockAndIndex I db' height (tr_EthTxIndex ?r) = Ok ?r"
    using index_codec.block_entry_found [OF codec index block(1) height refl hashes mem] by simp_all
  have parse: "ParseTxResult L (results ! k) (Some tx) = Ok p"
    using tx(2) by (auto simp: indexed_def split: if_split_asm outcome.splits)
  have "MsgIndex (p_Txs p ! i) = i" using parsed_numbered [OF parse wf(1)] tx(3) wf(2) by simp
  then have "ParseTxIndexerResult L height (of_nat k) (results ! k) (Some tx) (\<lambda>p. GetTxByMsgIndex p (int i)) = Ok ?r"
    using parse tx(3) wf(2) counted by (simp add: ParseTxIndexerResult_def GetTxByMsgIndex_def AccumulativeGasUsed_def entry_def)
  with found show ?thesis by (simp add: entry_def)
qed
subsection \<open>The last indexed block\<close>

lemma be_nat_Cons: "be_nat (x # xs) = unat x * 256 ^ length xs + be_nat xs"
  using be_nat_append [of "[x]" xs] by (simp add: be_nat_def)

lemma be_nat_less_iff: "length xs = length ys \<Longrightarrow> xs < ys \<Longrightarrow> be_nat xs < be_nat ys"
proof (induction xs arbitrary: ys)
  case (Cons x xs)
  then obtain y ys' where ys: "ys = y # ys'" "length xs = length ys'" by (cases ys) auto
  show ?case
  proof (cases "x = y")
    case True
    with Cons ys show ?thesis by (auto simp: be_nat_Cons)
  next
    case False
    with Cons.prems ys have "unat x < unat y" by (auto simp: word_less_nat_alt)
    then have "unat x * 256 ^ length xs + 256 ^ length xs \<le> unat y * 256 ^ length xs"
      by (metis Suc_leI mult_Suc mult_le_mono1 add.commute)
    then show ?thesis using be_nat_less [of xs] ys by (simp add: be_nat_Cons)
  qed
qed simp

lemma prefix_le: "length xs = length ys \<Longrightarrow> xs @ us \<le> ys @ vs \<Longrightarrow> xs \<le> (ys :: bytes)"
  by (induction xs ys rule: list_induct2) auto

text \<open>Every key of the index is one the indexer writes, for a height of the chain.\<close>

definition index_db_ok :: "kvstore \<Rightarrow> bool" where
  "index_db_ok db \<longleftrightarrow> (\<forall>k \<in> set (index_keys db). \<exists>n i. 0 \<le> n \<and> n < 2 ^ 63 \<and> k = TxIndexKey n i)"

definition indexed_heights :: "kvstore \<Rightarrow> int set" where
  "indexed_heights db = {n. 0 \<le> n \<and> n < 2 ^ 63 \<and> (\<exists>i. TxIndexKey n i \<in> set (index_keys db))}"

lemma index_keys_mem [simp]: "TxIndexKey n i \<in> set (index_keys db) \<longleftrightarrow> fmlookup db (TxIndexKey n i) \<noteq> None"
  by (auto simp: index_keys_def TxIndexKey_def fmlookup_dom_iff)

lemma index_keys_iff: "k \<in> set (index_keys db) \<longleftrightarrow> [2] \<le> k \<and> k < [3] \<and> fmlookup db k \<noteq> None"
  by (auto simp: index_keys_def fmlookup_dom_iff)

lemma indexed_heights_nonneg: "n \<in> indexed_heights db \<Longrightarrow> 0 \<le> n"
  by (simp add: indexed_heights_def)

lemma unat_height: "0 \<le> n \<Longrightarrow> n < 2 ^ 63 \<Longrightarrow> int (unat (word_of_int n :: uint64)) = n"
  by (simp add: unsigned_of_int take_bit_int_eq_self)

lemma TxIndexKey_le:
  assumes "TxIndexKey m j \<le> TxIndexKey n i" "0 \<le> m" "m < 2 ^ 63" "0 \<le> n" "n < 2 ^ 63"
  shows "m \<le> n"
proof (rule ccontr)
  assume "\<not> m \<le> n"
  then have less: "unat (word_of_int n :: uint64) < unat (word_of_int m :: uint64)"
    using unat_height [of n] unat_height [of m] assms by linarith
  have "Uint64ToBigEndian (word_of_int m) \<le> Uint64ToBigEndian (word_of_int n)"
    using assms(1) by (auto simp: TxIndexKey_def intro: prefix_le)
  then have "be_nat (Uint64ToBigEndian (word_of_int m)) \<le> be_nat (Uint64ToBigEndian (word_of_int n))"
    using be_nat_less_iff [of "Uint64ToBigEndian (word_of_int m)" "Uint64ToBigEndian (word_of_int n)"] by (auto simp: order_le_less)
  moreover have "be_nat (Uint64ToBigEndian w) = unat w" for w
    using unat_less_pow [of w] by (simp add: Uint64ToBigEndian_def be_nat_be_bytes)
  ultimately show False using less by simp
qed

lemma parse_TxIndexKey:
  assumes "0 \<le> n" "n < 2 ^ 63"
  shows "parseBlockNumberFromKey (TxIndexKey n i) = Ok n"
proof -
  have "BigEndianToUint64 (Uint64ToBigEndian w) = w" for w :: uint64
    using unat_less_pow [of w] by (simp add: BigEndianToUint64_def Uint64ToBigEndian_def be_nat_be_bytes)
  moreover have "sint (word_of_int n :: uint64) = n"
    using assms by (subst signed_of_int) (simp add: signed_take_bit_int_eq_self)
  ultimately show ?thesis by (simp add: parseBlockNumberFromKey_def TxIndexKey_def TxIndexKeyLength_def)
qed

lemma last_key: "xs \<noteq> [] \<Longrightarrow> sorted xs \<Longrightarrow> k \<in> set xs \<Longrightarrow> k \<le> last (xs :: bytes list)"
  by (induction xs) auto

lemma sorted_index_keys: "sorted (index_keys db)"
  unfolding index_keys_def by (simp add: sorted_wrt_filter)

lemma LoadLastBlock_Max:
  assumes "index_db_ok db"
  shows "LoadLastBlock db = Ok (if indexed_heights db = {} then - 1 else Max (indexed_heights db))"
proof (cases "index_keys db = []")
  case True
  then show ?thesis by (simp add: LoadLastBlock_def indexed_heights_def del: index_keys_mem)
next
  case False
  then obtain n i where n: "last (index_keys db) = TxIndexKey n i" "0 \<le> n" "n < 2 ^ 63"
    using assms last_in_set unfolding index_db_ok_def by meson
  have "n \<in> indexed_heights db" using n False last_in_set [OF False] by (auto simp: indexed_heights_def simp del: index_keys_mem)
  moreover have "m \<le> n" if mem: "m \<in> indexed_heights db" for m
  proof -
    obtain j where j: "TxIndexKey m j \<in> set (index_keys db)" "0 \<le> m" "m < 2 ^ 63" using mem unfolding indexed_heights_def by blast
    from last_key [OF False sorted_index_keys j(1)] show ?thesis unfolding n(1) by (rule TxIndexKey_le) (use j n in simp_all)
  qed
  moreover have "finite (indexed_heights db)"
    by (rule finite_subset [of _ "{0..n}"]) (use calculation(2) indexed_heights_nonneg in auto)
  ultimately have "Max (indexed_heights db) = n" "indexed_heights db \<noteq> {}" by (auto intro: Max_eqI)
  moreover have "LoadLastBlock db = parseBlockNumberFromKey (last (index_keys db))"
    using False by (cases "index_keys db" rule: rev_cases) (simp_all add: LoadLastBlock_def)
  ultimately show ?thesis using parse_TxIndexKey n by simp
qed
text \<open>Indexing keeps the keys of the index in shape and adds the height of the block, if the block has an Ethereum transaction.\<close>

lemma written_keys:
  assumes "\<forall>e \<in> set es. tr_Height (snd e) = height"
  shows "fst ` set (entries_batch I es) = TxHashKey ` fst ` set es \<union> (\<lambda>e. TxIndexKey height (tr_EthTxIndex (snd e))) ` set es"
proof -
  have "fst ` (\<lambda>(h, r). (TxHashKey h, ixMarshal I r)) ` set es = TxHashKey ` fst ` set es"
    by (simp add: image_image case_prod_beta)
  moreover have "fst ` (\<lambda>e. (place e, HashBytes (fst e))) ` set es = (\<lambda>e. TxIndexKey height (tr_EthTxIndex (snd e))) ` set es"
    unfolding image_image by (rule image_cong) (use assms in \<open>simp_all add: place_def\<close>)
  ultimately show ?thesis by (simp only: set_entries_batch image_Un)
qed

lemma dom_batch_Write: "fmlookup (batch_Write b db) k \<noteq> None \<longleftrightarrow> fmlookup db k \<noteq> None \<or> k \<in> fst ` set b"
proof -
  have "map_of (rev b) k = None \<longleftrightarrow> k \<notin> fst ` set b" by (simp add: map_of_eq_None_iff)
  then show ?thesis unfolding lookup_batch_Write by (cases "map_of (rev b) k") simp_all
qed

lemma key_ranges: "\<not> [2] \<le> TxHashKey h" "[2] \<le> TxIndexKey n i" "TxIndexKey n i < [3]"
  by (simp_all add: TxHashKey_def TxIndexKey_def word_le_nat_alt)

lemma index_block_keys:
  assumes "IndexBlock I L height raws results db = Ok db'" and "block_ok I L results 0 raws"
    and height: "0 \<le> height" "height < 2 ^ 63" and ok: "index_db_ok db"
  shows "index_db_ok db'"
    "indexed_heights db' = indexed_heights db \<union> (if block_entries I L height results 0 0 raws = [] then {} else {height})"
proof -
  let ?es = "block_entries I L height results 0 0 raws"
  obtain e' b' where b: "index_txs I L height results 0 raws (0, []) = Ok (e', b')" "db' = batch_Write b' db"
    using assms(1) by (auto simp: IndexBlock_def)
  have db': "db' = batch_Write (entries_batch I ?es) db" using index_txs_entries [OF b(1) assms(2)] b(2) by simp
  have at: "\<forall>e \<in> set ?es. tr_Height (snd e) = height"
  proof
    fix e assume "e \<in> set ?es"
    then obtain j where "j < length ?es" "e = ?es ! j" by (metis in_set_conv_nth)
    with entries_numbered [of j I L height results 0 0 raws] show "tr_Height (snd e) = height" by simp
  qed
  have mem: "k \<in> set (index_keys db') \<longleftrightarrow> k \<in> set (index_keys db) \<or> k \<in> (\<lambda>e. TxIndexKey height (tr_EthTxIndex (snd e))) ` set ?es" for k
    unfolding index_keys_iff db' dom_batch_Write written_keys [OF at] by (auto simp: key_ranges)
  show "index_db_ok db'" unfolding index_db_ok_def
  proof
    fix k assume "k \<in> set (index_keys db')"
    then consider "k \<in> set (index_keys db)" | i where "k = TxIndexKey height i" unfolding mem by blast
    then show "\<exists>n i. 0 \<le> n \<and> n < 2 ^ 63 \<and> k = TxIndexKey n i"
      by cases (use ok height in \<open>auto simp only: index_db_ok_def\<close>)
  qed
  have inj: "TxIndexKey n i = TxIndexKey height j \<Longrightarrow> n = height" if "0 \<le> n" "n < 2 ^ 63" for n i j
    using parse_TxIndexKey [OF that, of i] parse_TxIndexKey [OF height, of j] by simp
  show "indexed_heights db' = indexed_heights db \<union> (if ?es = [] then {} else {height})"
  proof (cases "?es = []")
    case False
    then obtain e where e: "e \<in> set ?es" by (meson last_in_set)
    have "n \<in> indexed_heights db' \<longleftrightarrow> n \<in> indexed_heights db \<or> n = height" for n
    proof
      assume "n \<in> indexed_heights db'"
      then obtain i where n: "0 \<le> n" "n < 2 ^ 63" and "TxIndexKey n i \<in> set (index_keys db')" unfolding indexed_heights_def by blast
      then consider "TxIndexKey n i \<in> set (index_keys db)" | j where "TxIndexKey n i = TxIndexKey height j" unfolding mem by blast
      then show "n \<in> indexed_heights db \<or> n = height" by cases (use n inj in \<open>unfold indexed_heights_def, blast+\<close>)
    next
      assume "n \<in> indexed_heights db \<or> n = height"
      then show "n \<in> indexed_heights db'" using e height unfolding indexed_heights_def mem by blast
    qed
    then show ?thesis using False by auto
  qed (simp add: indexed_heights_def mem del: index_keys_mem)
qed

text \<open>The last indexed block. The index reports -1 when it is empty, and otherwise the highest block with an Ethereum transaction:
  after a block at least as high as all indexed ones is indexed, the last indexed block is that block if it has an Ethereum
  transaction, and the one before stays the last if not. The order of the keys is that of the heights because both are big-endian.
\<close>

theorem last_indexed_block:
  assumes "IndexBlock I L height raws results db = Ok db'" and "block_ok I L results 0 raws"
    and "0 \<le> height" "height < 2 ^ 63" "index_db_ok db" "\<forall>n \<in> indexed_heights db. n \<le> height"
  shows "index_db_ok db' \<and>
    LastIndexedBlock db' = (if block_entries I L height results 0 0 raws = [] then LastIndexedBlock db else Ok height)"
proof -
  note keys = index_block_keys [OF assms(1-5)]
  have "finite (indexed_heights db)"
    by (rule finite_subset [of _ "{0..height}"]) (use assms(6) indexed_heights_nonneg in auto)
  then have max: "Max (indexed_heights db \<union> {height}) = height"
    by (intro Max_eqI) (use assms(6) in auto)
  show ?thesis
  proof (cases "block_entries I L height results 0 0 raws = []")
    case True
    then have "indexed_heights db' = indexed_heights db" using keys(2) by simp
    then show ?thesis using True keys(1) unfolding LastIndexedBlock_def
      by (simp add: LoadLastBlock_Max [OF keys(1)] LoadLastBlock_Max [OF assms(5)])
  next
    case False
    then have "indexed_heights db' = indexed_heights db \<union> {height}" using keys(2) by simp
    then show ?thesis using False keys(1) max unfolding LastIndexedBlock_def
      by (simp add: LoadLastBlock_Max [OF keys(1)] del: Un_insert_right)
  qed
qed
subsection \<open>An instance\<close>

text \<open>A codec of fixed width, and a block with one transfer.\<close>

definition result_bytes :: "TxResult \<Rightarrow> bytes" where
  "result_bytes r =
     Uint64ToBigEndian (word_of_int (tr_Height r)) @ be_bytes 4 (tr_TxIndex r) @ be_bytes 4 (tr_MsgIndex r) @
     be_bytes 4 (tr_EthTxIndex r) @ [if tr_Failed r then 1 else 0] @ Uint64ToBigEndian (tr_GasUsed r) @
     Uint64ToBigEndian (tr_CumulativeGasUsed r)"

definition bytes_result :: "bytes \<Rightarrow> (string, TxResult) outcome" where
  "bytes_result bs =
     (if length bs \<noteq> 37 then Err ''wrong length''
      else Ok \<lparr>tr_Height = sint (BigEndianToUint64 (take 8 bs)), tr_TxIndex = word_of_nat (be_nat (take 4 (drop 8 bs))),
        tr_MsgIndex = word_of_nat (be_nat (take 4 (drop 12 bs))), tr_EthTxIndex = word_of_nat (be_nat (take 4 (drop 16 bs))),
        tr_Failed = (bs ! 20 = 1), tr_GasUsed = BigEndianToUint64 (take 8 (drop 21 bs)),
        tr_CumulativeGasUsed = BigEndianToUint64 (take 8 (drop 29 bs))\<rparr>)"

definition index_tx :: Tx where
  "index_tx = \<lparr>GetMsgs = [EthMsg transfer_msg], isGasTx = True, asFeeTx = None, asProtoTx = None,
     asExtensionOptions = Some [(''/ethermint.evm.v1.ExtensionOptionsEthereumTx'', None)]\<rparr>"

definition plain_index :: index_env where
  "plain_index = \<lparr>ixDecode = (\<lambda>raw. if raw = [1] then Ok index_tx else Err ''cannot decode''), ixMarshal = result_bytes,
     ixUnmarshal = bytes_result\<rparr>"

lemma word32_bytes [simp]: "word_of_nat (be_nat (be_bytes 4 w)) = (w :: 32 word)"
  using unat_less_pow [of w] by (simp add: be_nat_be_bytes)

lemma BigEndian_roundtrip [simp]: "BigEndianToUint64 (Uint64ToBigEndian w) = w"
  using unat_less_pow [of w] by (simp add: BigEndianToUint64_def Uint64ToBigEndian_def be_nat_be_bytes)

interpretation plain: index_codec plain_index
proof
  fix r :: TxResult
  assume "0 < tr_Height r" "tr_Height r < 2 ^ 63"
  then have "sint (word_of_int (tr_Height r) :: uint64) = tr_Height r"
    by (subst signed_of_int) (simp add: signed_take_bit_int_eq_self)
  then show "ixUnmarshal plain_index (ixMarshal plain_index r) = Ok r"
    by (cases r) (simp add: plain_index_def result_bytes_def bytes_result_def nth_append)
next
  fix r :: TxResult
  show "ixMarshal plain_index r \<noteq> []" by (simp add: plain_index_def result_bytes_def)
qed

definition transfer_response :: MsgEthereumTxResponse where
  "transfer_response = \<lparr>res_Hash = 77, res_Logs = [], res_Ret = [], res_VmError = [], res_GasUsed = 21000\<rparr>"

definition block_result :: ResponseDeliverTx where
  "block_result = \<lparr>r_Code = 0, r_Log = [], r_GasUsed = 21000,
     r_Events = [ante_event (m_Hash transfer_msg) 0, ethereum_tx_event raw_lib None sample_eth_tx 0 transfer_response]\<rparr>"

definition block_parsed :: ParsedTxs where
  "block_parsed = \<lparr>p_Txs = [\<lparr>MsgIndex = 0, p_Hash = 77, EthTxIndex = 0, p_GasUsed = 21000, p_Failed = False\<rparr>],
     TxHashes = [77 \<mapsto> 0]\<rparr>"

lemma transfer_hash: "HexToHash raw_lib (m_Hash transfer_msg) = 77"
  using raw_lib_laws by (simp add: transfer_msg_def lib_laws_def)

lemma block_parses: "ParseTxResult raw_lib block_result (Some index_tx) = Ok block_parsed"
proof -
  have new: "parsed_newTx raw_lib (snd (ante_event (m_Hash transfer_msg) 0)) \<lparr>p_Txs = [], TxHashes = Map.empty\<rparr> =
      Ok (block_parsed\<lparr>p_Txs := [\<lparr>MsgIndex = 0, p_Hash = 77, EthTxIndex = 0, p_GasUsed = 0, p_Failed = False\<rparr>]\<rparr>)"
    by (simp add: parsed_newTx_def fill_ante_event transfer_hash block_parsed_def)
  have "discover_format eventFormatUnknown (snd (ante_event (m_Hash transfer_msg) 0)) = eventFormat2"
    by (simp add: discover_format_def)
  then show ?thesis
    unfolding ParseTxResult_def
    by (simp add: block_result_def parse_new parse_update new parsed_updateTx_def fill_ethereum_tx_event [OF raw_lib_laws]
        block_parsed_def transfer_response_def Failed_def fill_gas_def del: parse_events.simps(2))
qed

lemma block_indexed: "indexed plain_index raw_lib block_result [1] = Some (index_tx, block_parsed)"
proof -
  have "isEthTx index_tx" by (simp add: isEthTx_def index_tx_def)
  then show ?thesis
    by (simp add: indexed_def block_parses TxSuccessOrExceedsBlockGasLimit_def plain_index_def) (simp add: block_result_def)
qed

lemma block_is_ok: "block_ok plain_index raw_lib [block_result] 0 [[1]]"
  by (simp add: block_ok_def block_indexed index_tx_def block_parsed_def)

lemma block_is_indexed: "is_ok (IndexBlock plain_index raw_lib 5 [[1]] [block_result] fmempty)"
proof -
  have "isEthTx index_tx" "TxSuccessOrExceedsBlockGasLimit block_result" "ixDecode plain_index [1] = Ok index_tx" "r_Code block_result = 0"
    by (simp_all add: isEthTx_def index_tx_def TxSuccessOrExceedsBlockGasLimit_def block_result_def plain_index_def)
  moreover have "GetMsgs index_tx = [EthMsg transfer_msg]" by (simp add: index_tx_def)
  moreover have "GetTxByMsgIndex block_parsed 0 = Some (p_Txs block_parsed ! 0)" by (simp add: GetTxByMsgIndex_def block_parsed_def)
  ultimately show ?thesis by (simp add: IndexBlock_def block_parses Let_def)
qed

lemma block_entries_one: "map fst (block_entries plain_index raw_lib 5 [block_result] 0 0 [[1]]) = [77]"
  by (simp add: block_indexed) (simp add: index_tx_def entry_def transfer_hash)

theorem index_agrees_with_events_witness:
  "\<exists>db'. IndexBlock plain_index raw_lib 5 [[1]] [block_result] fmempty = Ok db' \<and> is_ok (GetByTxHash plain_index db' 77) \<and>
     GetByTxHash plain_index db' 77 =
       ParseTxIndexerResult raw_lib 5 0 block_result (Some index_tx) (\<lambda>p. GetTxByMsgIndex p 0) \<and>
     GetByBlockAndIndex plain_index db' 5 0 = GetByTxHash plain_index db' 77"
proof -
  obtain db' where db': "IndexBlock plain_index raw_lib 5 [[1]] [block_result] fmempty = Ok db'"
    using block_is_indexed by (auto simp: is_ok_iff)
  have len: "length (block_entries plain_index raw_lib 5 [block_result] 0 0 [[1]]) = 1"
    using block_entries_one by (metis length_map length_Cons list.size(3) One_nat_def)
  have "GetMsgs index_tx = [EthMsg transfer_msg]" "EthTxIndex (p_Txs block_parsed ! 0) = 0"
    by (simp_all add: index_tx_def block_parsed_def)
  with index_agrees_with_events [OF plain.index_codec_axioms db' block_is_ok, of 0 index_tx block_parsed 0 transfer_msg]
  have "is_ok (GetByTxHash plain_index db' 77) \<and>
      GetByTxHash plain_index db' 77 = ParseTxIndexerResult raw_lib 5 0 block_result (Some index_tx) (\<lambda>p. GetTxByMsgIndex p 0) \<and>
      GetByBlockAndIndex plain_index db' 5 0 = GetByTxHash plain_index db' 77"
    by (auto simp: block_entries_one len block_indexed transfer_hash)
  with db' show ?thesis by blast
qed

theorem last_indexed_block_witness:
  "\<exists>db'. IndexBlock plain_index raw_lib 5 [[1]] [block_result] fmempty = Ok db' \<and> LastIndexedBlock db' = Ok 5"
proof -
  obtain db' where db': "IndexBlock plain_index raw_lib 5 [[1]] [block_result] fmempty = Ok db'"
    using block_is_indexed by (auto simp: is_ok_iff)
  have "block_entries plain_index raw_lib 5 [block_result] 0 0 [[1]] \<noteq> []" using block_entries_one by force
  moreover have "index_db_ok fmempty" "indexed_heights fmempty = {}"
    by (simp_all add: index_db_ok_def index_keys_def fm_keys_def indexed_heights_def)
  ultimately have "LastIndexedBlock db' = Ok 5" using last_indexed_block [OF db' block_is_ok] by simp
  with db' show ?thesis by blast
qed

end
