(* ===== verification/Precompile_Common.thy ===== *)
theory Precompile_Common
  imports Evm_Tx
begin

text \<open>
  What the EVM extensions share, \<open>precompiles/common\<close> and \<open>precompiles/authorization\<close>: contracts at fixed
  addresses whose methods are Go code that calls the keepers of the chain. A method changes the database of
  the EVM (logs, balances) and the context behind it (grants, delegations); an error does not undo what was
  written before it, so a method returns the state besides the outcome. Running out of gas is a panic that
  \<open>Run\<close> turns into an error: it is the error \<open>GasPanic\<close> here, every other panic is \<^const>\<open>Panic\<close>.
  The ABI codec, the authz keeper, the gas meter and the number types are fields of the record
  \<open>Precompile\<close>, which the extensions embed as the Go structs do. The block number of a log is left out,
  as in \<open>ethLog\<close>.
\<close>

subsection \<open>Computations that keep their state on errors\<close>

datatype pre_error = GasPanic | Failed string

type_synonym ('s, 'a) pm = "'s \<Rightarrow> (pre_error, 'a) outcome \<times> 's"

definition pm_return :: "'a \<Rightarrow> ('s, 'a) pm" where "pm_return a = (\<lambda>s. (Ok a, s))"

definition pm_fail :: "string \<Rightarrow> ('s, 'a) pm" where "pm_fail e = (\<lambda>s. (Err (Failed e), s))"

definition pm_bind :: "('s, 'a) pm \<Rightarrow> ('a \<Rightarrow> ('s, 'b) pm) \<Rightarrow> ('s, 'b) pm" where
  "pm_bind m f = (\<lambda>s. case m s of (r, s') \<Rightarrow>
     (case r of Panic \<Rightarrow> (Panic, s') | Err e \<Rightarrow> (Err e, s') | Ok a \<Rightarrow> f a s'))"

text \<open>Go code that only returns a value, an error or panics; and code that may only panic.\<close>

definition pm_lift :: "(string, 'a) outcome \<Rightarrow> ('s, 'a) pm" where
  "pm_lift r = (\<lambda>s. (case r of Panic \<Rightarrow> Panic | Err e \<Rightarrow> Err (Failed e) | Ok a \<Rightarrow> Ok a, s))"

definition pm_some :: "'a option \<Rightarrow> ('s, 'a) pm" where
  "pm_some x = (\<lambda>s. (case x of None \<Rightarrow> Panic | Some a \<Rightarrow> Ok a, s))"

fun pm_each :: "('x \<Rightarrow> ('s, unit) pm) \<Rightarrow> 'x list \<Rightarrow> ('s, unit) pm" where
  "pm_each f [] = pm_return ()"
| "pm_each f (x # xs) = pm_bind (f x) (\<lambda>_. pm_each f xs)"

lemma pm_bind_Ok [simp]:
  "pm_bind m f s = (Ok b, t) \<longleftrightarrow> (\<exists>a u. m s = (Ok a, u) \<and> f a u = (Ok b, t))"
  by (cases "m s") (auto simp: pm_bind_def split: outcome.splits)

lemma pm_Ok [simp]:
  "pm_return a s = (Ok b, t) \<longleftrightarrow> b = a \<and> t = s"
  "pm_fail e s \<noteq> (Ok b, t)"
  "pm_lift r s = (Ok b, t) \<longleftrightarrow> r = Ok b \<and> t = s"
  "pm_some x s = (Ok b, t) \<longleftrightarrow> x = Some b \<and> t = s"
  by (auto simp: pm_return_def pm_fail_def pm_lift_def pm_some_def split: outcome.splits option.splits)

text \<open>A relation between the states that every step has, the whole has, whatever the outcome.\<close>

definition pm_keeps :: "('s \<Rightarrow> 's \<Rightarrow> bool) \<Rightarrow> ('s, 'a) pm \<Rightarrow> bool" where
  "pm_keeps R m \<longleftrightarrow> (\<forall>s. R s (snd (m s)))"

lemma pm_keeps_pure [intro, simp]:
  assumes "reflp R"
  shows "pm_keeps R (pm_return a)" "pm_keeps R (pm_fail e)" "pm_keeps R (pm_lift r)" "pm_keeps R (pm_some x)"
  using assms by (simp_all add: pm_keeps_def reflp_def pm_return_def pm_fail_def pm_lift_def pm_some_def)

lemma pm_keeps_bind:
  assumes "transp R" "pm_keeps R m" "\<And>a. pm_keeps R (f a)"
  shows "pm_keeps R (pm_bind m f)"
proof -
  have "R s (snd (pm_bind m f s))" for s
  proof (cases "m s")
    case (Pair r u)
    then have u: "R s u" using assms(2) by (metis pm_keeps_def snd_conv)
    show ?thesis
    proof (cases r)
      case (Ok a)
      have step: "R u (snd (f a u))" using assms(3) by (simp add: pm_keeps_def)
      have "R s (snd (f a u))" by (rule transpD [OF assms(1) u step])
      with Pair Ok show ?thesis by (simp add: pm_bind_def)
    qed (use Pair u in \<open>simp_all add: pm_bind_def\<close>)
  qed
  then show ?thesis by (simp add: pm_keeps_def)
qed

lemma pm_keeps_each:
  assumes "reflp R" "transp R" "\<And>x. pm_keeps R (f x)"
  shows "pm_keeps R (pm_each f xs)"
  using assms by (induction xs) (auto intro: pm_keeps_bind)

subsection \<open>Values of the ABI\<close>

text \<open>
  The Go values the ABI decoder yields and the encoder takes: \<open>AVint n\<close> and \<open>AVuint n\<close> are the
  integer types of \<open>n\<close> bytes, \<open>AVfixed\<close> an array of bytes. The decoder never yields a nil \<open>*big.Int\<close>.
\<close>

datatype abi_value =
    AVhash Hash | AVaddress Address | AVbig int | AVbool bool | AVint nat int | AVuint nat int
  | AVstring string | AVbytes bytes | AVfixed bytes | AVstrings "string list"
  | AVtuple "abi_value list" | AVarray "abi_value list"

record abi =
  MethodById :: "bytes \<Rightarrow> (string, string) outcome"
  UnpackInputs :: "string \<Rightarrow> bytes \<Rightarrow> (string, abi_value list) outcome"
  PackOutputs :: "string \<Rightarrow> abi_value list \<Rightarrow> (string, bytes) outcome"
  EventID :: "string \<Rightarrow> Hash"
  PackEvent :: "string \<Rightarrow> nat list \<Rightarrow> abi_value list \<Rightarrow> (string, bytes) outcome"

definition MaxUint256 :: int where "MaxUint256 = 2 ^ 256 - 1"

definition genIntType :: "int \<Rightarrow> nat \<Rightarrow> bytes" where
  "genIntType rule sz =
     map (\<lambda>k. if 31 - k < sz then word_of_int (rule div 256 ^ (31 - k)) else if rule < 0 then 255 else 0) [0..<32]"

definition MakeTopic :: "(bytes \<Rightarrow> Hash) \<Rightarrow> abi_value \<Rightarrow> (string, Hash) outcome" where
  "MakeTopic keccak rule =
     (case rule of
        AVhash h \<Rightarrow> Ok h
      | AVaddress a \<Rightarrow> Ok (ucast a)
      | AVbig i \<Rightarrow> if BitLen i > 256 then Panic else Ok (word_of_int \<bar>i\<bar>)
      | AVbool b \<Rightarrow> Ok (if b then 1 else 0)
      | AVint sz i \<Rightarrow> Ok (BytesToHash (genIntType i sz))
      | AVuint _ i \<Rightarrow> Ok (word_of_int i)
      | AVstring s \<Rightarrow> Ok (keccak (bytes_of s))
      | AVbytes b \<Rightarrow> Ok (keccak b)
      | AVfixed b \<Rightarrow> if length b > 32 then Panic else Ok (BytesToHash (b @ replicate (32 - length b) 0))
      | _ \<Rightarrow> Err ''unsupported indexed type'')"

definition PackNum :: "abi_value \<Rightarrow> bytes option" where
  "PackNum v =
     (case v of AVuint _ i \<Rightarrow> Some (HashBytes (word_of_int i)) | AVint _ i \<Rightarrow> Some (HashBytes (word_of_int i))
      | AVbig i \<Rightarrow> Some (HashBytes (word_of_int i)) | _ \<Rightarrow> None)"

definition NewCoinsResponse :: "coins \<Rightarrow> abi_value" where
  "NewCoinsResponse amount = AVarray (map (\<lambda>(d, a). AVtuple [AVstring d, AVbig a]) amount)"

definition SafeAdd :: "int \<Rightarrow> int \<Rightarrow> int \<times> bool" where
  "SafeAdd a b = (a + b, BitLen (a + b) > 256)"

subsection \<open>Gas, the context and the struct \<open>Precompile\<close>\<close>

record GasConfig =
  HasCost :: uint64
  DeleteCost :: uint64
  ReadCostFlat :: uint64
  ReadCostPerByte :: uint64
  WriteCostFlat :: uint64
  WriteCostPerByte :: uint64
  IterNextCostFlat :: uint64

record gas_ctx =
  gm_limit :: uint64
  gm_consumed :: uint64
  gm_kv :: GasConfig
  gm_transient :: GasConfig

text \<open>A method runs on the database, whose context it shares, with a gas meter of its own.\<close>

record 'w prun =
  pr_db :: "'w StateDB"
  pr_gas :: gas_ctx

type_synonym ('w, 'a) call = "('w \<times> gas_ctx, 'a) pm"

definition on_ctx :: "('w, 'a) call \<Rightarrow> ('w prun, 'a) pm" where
  "on_ctx f s = (case f (ctx (pr_db s), pr_gas s) of
     (r, (w, g)) \<Rightarrow> (r, s\<lparr>pr_db := (pr_db s)\<lparr>ctx := w\<rparr>, pr_gas := g\<rparr>))"

datatype AuthorizationType = DelegateAuthz | UndelegateAuthz | RedelegateAuthz | CancelUnbondingDelegationAuthz

type_synonym coin = "string \<times> int"

record StakeAuthorization =
  sa_AllowList :: "string list"
  MaxTokens :: "coin option"
  sa_Type :: AuthorizationType

record Allocation =
  SourcePort :: string
  SourceChannel :: string
  SpendLimit :: coins
  AllowList :: "string list"

datatype Authorization =
    StakeAuthz StakeAuthorization
  | TransferAuthz "Allocation list"
  | OtherAuthz string

type_synonym grant = "Authorization \<times> int option"

record 'w Precompile =
  P_ABI :: abi
  GetAuthorization :: "Address \<Rightarrow> Address \<Rightarrow> string \<Rightarrow> ('w, grant option) call"
  SaveGrant :: "Address \<Rightarrow> Address \<Rightarrow> Authorization \<Rightarrow> int option \<Rightarrow> ('w, unit) call"
  DeleteGrant :: "Address \<Rightarrow> Address \<Rightarrow> string \<Rightarrow> ('w, unit) call"
  ApprovalExpiration :: int
  P_KvGasConfig :: GasConfig
  P_TransientKVGasConfig :: GasConfig
  pBlockTime :: "'w \<Rightarrow> int"
  pGasConsumed :: "'w \<Rightarrow> uint64"
  pConsumeGas :: "uint64 \<Rightarrow> (gas_ctx, unit) pm"
  plib :: txlib
  pAccString :: "bytes \<Rightarrow> string"
  pIntAdd :: "int \<Rightarrow> int \<Rightarrow> int option"
  pIntSub :: "int \<Rightarrow> int \<Rightarrow> int option"
  pBech32ify :: "bytes \<Rightarrow> (string, string) outcome"
  pAccAddressFromBech32 :: "string \<Rightarrow> (string, bytes) outcome"
  pValAddressFromBech32 :: "string \<Rightarrow> (string, bytes) outcome"

definition big_Int :: "'w Precompile \<Rightarrow> int \<Rightarrow> int option" where
  "big_Int P i = NewIntFromBigInt (plib P) i"

definition acc_string :: "'w Precompile \<Rightarrow> Address \<Rightarrow> string" where
  "acc_string P a = pAccString P (AddressBytes a)"

record pcontract =
  CallerAddress :: Address
  c_Input :: bytes
  c_Gas :: uint64

definition UseGas :: "pcontract \<Rightarrow> uint64 \<Rightarrow> bool \<times> pcontract" where
  "UseGas c gas = (if c_Gas c < gas then (False, c) else (True, c\<lparr>c_Gas := c_Gas c - gas\<rparr>))"

definition cmn_RequiredGas :: "'w Precompile \<Rightarrow> bytes \<Rightarrow> bool \<Rightarrow> uint64 option" where
  "cmn_RequiredGas P input isTransaction =
     (if length input < 4 then None
      else let n = of_nat (length (drop 4 input)); c = P_KvGasConfig P
           in Some (if isTransaction then WriteCostFlat c + WriteCostPerByte c * n
                    else ReadCostFlat c + ReadCostPerByte c * n))"

text \<open>\<open>RequiredGas\<close> of an extension, which differ in the methods that are transactions.\<close>

definition p_RequiredGas :: "'w Precompile \<Rightarrow> (string \<Rightarrow> bool) \<Rightarrow> bytes \<Rightarrow> uint64 option" where
  "p_RequiredGas P isTransaction input =
     (if length input < 4 then None
      else case MethodById (P_ABI P) (take 4 input) of
             Ok name \<Rightarrow> cmn_RequiredGas P input (isTransaction name)
           | Err _ \<Rightarrow> Some 0 | Panic \<Rightarrow> None)"

definition RunSetup ::
  "'w Precompile \<Rightarrow> (string \<Rightarrow> bool) \<Rightarrow> 'w StateDB \<Rightarrow> pcontract \<Rightarrow> bool \<Rightarrow>
   (string, 'w prun \<times> string \<times> uint64 \<times> abi_value list) outcome" where
  "RunSetup P isTransaction s contract readOnly =
     (if length (c_Input contract) < 4 then Panic
      else bind_outcome (MethodById (P_ABI P) (take 4 (c_Input contract))) (\<lambda>name.
        if readOnly \<and> isTransaction name then Err ''write protection''
        else bind_outcome (UnpackInputs (P_ABI P) name (drop 4 (c_Input contract))) (\<lambda>args.
          let initialGas = pGasConsumed P (ctx s);
              meter = \<lparr>gm_limit = c_Gas contract, gm_consumed = 0, gm_kv = P_KvGasConfig P, gm_transient = P_TransientKVGasConfig P\<rparr>
          in case pConsumeGas P initialGas meter of
               (Ok _, g) \<Rightarrow> Ok (\<lparr>pr_db = s, pr_gas = g\<rparr>, name, initialGas, args)
             | (Err GasPanic, _) \<Rightarrow> Err ''out of gas''
             | (Err (Failed e), _) \<Rightarrow> Err e
             | (Panic, _) \<Rightarrow> Panic)))"

text \<open>
  The end of \<open>Run\<close>: the deferred \<open>HandleGasError\<close>, or the charge for the gas the method used. The database
  keeps what the method did in every case.
\<close>

definition HandleGasError :: "gas_ctx \<Rightarrow> uint64 \<Rightarrow> pcontract \<Rightarrow> pcontract" where
  "HandleGasError g initialGas contract = snd (UseGas contract (gm_consumed g - initialGas))"

definition finish_run ::
  "uint64 \<Rightarrow> pcontract \<Rightarrow> (pre_error, bytes) outcome \<times> 'w prun \<Rightarrow> (string, bytes) outcome \<times> pcontract \<times> 'w StateDB" where
  "finish_run initialGas contract res =
     (case res of (r, s) \<Rightarrow>
        (case r of
           Panic \<Rightarrow> (Panic, contract, pr_db s)
         | Err GasPanic \<Rightarrow> (Err ''out of gas'', HandleGasError (pr_gas s) initialGas contract, pr_db s)
         | Err (Failed e) \<Rightarrow> (Err e, contract, pr_db s)
         | Ok bz \<Rightarrow>
             (case UseGas contract (gm_consumed (pr_gas s) - initialGas) of
                (True, contract') \<Rightarrow> (Ok bz, contract', pr_db s)
              | (False, _) \<Rightarrow> (Err ''out of gas'', contract, pr_db s))))"

text \<open>The database is committed into the context before the methods of some extensions run.\<close>

definition commit_stateDB :: "('w prun, unit) pm" where
  "commit_stateDB s = (case Commit (pr_db s) of
     Ok db \<Rightarrow> (Ok (), s\<lparr>pr_db := db\<rparr>) | Err e \<Rightarrow> (Err (Failed e), s) | Panic \<Rightarrow> (Panic, s))"

subsection \<open>Logs\<close>

definition keccak_of :: "'w prun \<Rightarrow> bytes \<Rightarrow> Hash" where
  "keccak_of s = Keccak256Hash (keeper (pr_db s))"

definition make_topic :: "abi_value \<Rightarrow> ('w prun, Hash) pm" where
  "make_topic v s = pm_lift (MakeTopic (keccak_of s) v) s"

definition add_log :: "Address \<Rightarrow> Hash list \<Rightarrow> bytes \<Rightarrow> ('w prun, unit) pm" where
  "add_log addr topics data s =
     (Ok (), s\<lparr>pr_db := AddLog (pr_db s)
        \<lparr>log_Address = addr, log_Topics = topics, log_Data = data, log_TxHash = 0, log_BlockHash = 0, log_TxIndex = 0, log_Index = 0\<rparr>\<rparr>)"

text \<open>Most events have two indexed arguments.\<close>

definition emit2 ::
  "'w Precompile \<Rightarrow> Address \<Rightarrow> string \<Rightarrow> abi_value \<Rightarrow> abi_value \<Rightarrow> (string, bytes) outcome \<Rightarrow> ('w prun, unit) pm" where
  "emit2 P addr event t1 t2 packed =
     pm_bind (make_topic t1) (\<lambda>h1. pm_bind (make_topic t2) (\<lambda>h2.
     pm_bind (pm_lift packed) (\<lambda>data. add_log addr [EventID (P_ABI P) event, h1, h2] data)))"

subsection \<open>Authorizations\<close>

definition ApproveMethod :: string where "ApproveMethod = ''approve''"
definition RevokeMethod :: string where "RevokeMethod = ''revoke''"
definition DecreaseAllowanceMethod :: string where "DecreaseAllowanceMethod = ''decreaseAllowance''"
definition IncreaseAllowanceMethod :: string where "IncreaseAllowanceMethod = ''increaseAllowance''"
definition AllowanceMethod :: string where "AllowanceMethod = ''allowance''"

definition EmitAllowanceChangeEvent ::
  "'w Precompile \<Rightarrow> Address \<Rightarrow> Address \<Rightarrow> Address \<Rightarrow> int list \<Rightarrow> string list \<Rightarrow> ('w prun, unit) pm" where
  "EmitAllowanceChangeEvent P contractAddr grantee granter values methods =
     emit2 P contractAddr ''AllowanceChange'' (AVaddress grantee) (AVaddress granter)
       (PackEvent (P_ABI P) ''AllowanceChange'' [2, 3] [AVstrings methods, AVarray (map AVbig values)])"

definition EmitRevocationEvent ::
  "'w Precompile \<Rightarrow> Address \<Rightarrow> Address \<Rightarrow> Address \<Rightarrow> string list \<Rightarrow> ('w prun, unit) pm" where
  "EmitRevocationEvent P contractAddr grantee granter typeUrls =
     emit2 P contractAddr ''Revocation'' (AVaddress grantee) (AVaddress granter)
       (PackEvent (P_ABI P) ''Revocation'' [2] [AVstrings typeUrls])"

definition validateMsgTypes :: "abi_value \<Rightarrow> (string, string list) outcome" where
  "validateMsgTypes arg =
     (case arg of
        AVstrings typeURLs \<Rightarrow>
          if typeURLs = [] then Err ''no methods defined; expected at least one message type url''
          else if [] \<in> set typeURLs then Err ''empty string found in methods array''
          else Ok typeURLs
      | _ \<Rightarrow> Err ''invalid methods defined; expected an array of strings'')"

definition nonzero_address :: "string \<Rightarrow> abi_value \<Rightarrow> (string, Address) outcome" where
  "nonzero_address e v = (case v of AVaddress a \<Rightarrow> if a = 0 then Err e else Ok a | _ \<Rightarrow> Err e)"

definition CheckApprovalArgs ::
  "'w Precompile \<Rightarrow> abi_value list \<Rightarrow> string \<Rightarrow> (string, Address \<times> coin option \<times> string list) outcome" where
  "CheckApprovalArgs P args denom =
     (case args of
        [a0, a1, a2] \<Rightarrow>
          bind_outcome (nonzero_address ''invalid granter address'' a0) (\<lambda>grantee.
          bind_outcome
            (case a1 of
               AVbig amount \<Rightarrow>
                 if amount < 0 then Err ''amount cannot be negative''
                 else if amount \<noteq> MaxUint256 then
                   (case big_Int P amount of None \<Rightarrow> Panic | Some i \<Rightarrow> Ok (Some (denom, i)))
                 else Ok None
             | _ \<Rightarrow> Ok None) (\<lambda>coin.
          bind_outcome (validateMsgTypes a2) (\<lambda>typeURLs. Ok (grantee, coin, typeURLs))))
      | _ \<Rightarrow> Err ''invalid number of arguments'')"

definition CheckRevokeArgs :: "abi_value list \<Rightarrow> (string, Address \<times> string list) outcome" where
  "CheckRevokeArgs args =
     (case args of
        [a0, a1] \<Rightarrow>
          bind_outcome (nonzero_address ''invalid granter address'' a0) (\<lambda>grantee.
          bind_outcome (validateMsgTypes a1) (\<lambda>typeURLs. Ok (grantee, typeURLs)))
      | _ \<Rightarrow> Err ''invalid number of arguments'')"

text \<open>The list keeps the addresses as bech32; the origin is looked up in its hexadecimal form.\<close>

fun bech32_list :: "'w Precompile \<Rightarrow> string list \<Rightarrow> (string, string list) outcome" where
  "bech32_list P [] = Ok []"
| "bech32_list P (addr # addrs) =
     bind_outcome (if libIsHexAddress (plib P) addr then pBech32ify P (AddressBytes (HexToAddress (plib P) addr)) else Ok addr)
       (\<lambda>a. bind_outcome (bech32_list P addrs) (\<lambda>as. Ok (a # as)))"

definition CheckDistributionApprovalArgs ::
  "'w Precompile \<Rightarrow> abi_value list \<Rightarrow> Address \<Rightarrow> (string, Address \<times> string list \<times> string list) outcome" where
  "CheckDistributionApprovalArgs P args origin =
     (case args of
        [a0, a1, a2] \<Rightarrow>
          bind_outcome (nonzero_address ''invalid granter address'' a0) (\<lambda>spender.
          bind_outcome (validateMsgTypes a1) (\<lambda>typeURLs.
          bind_outcome (case a2 of AVstrings l \<Rightarrow> Ok l | _ \<Rightarrow> Err ''invalid methods defined; expected an array of strings'') (\<lambda>l.
          bind_outcome (bech32_list P l) (\<lambda>allowedList.
            Ok (spender, typeURLs,
                if AddressHex (plib P) origin \<in> set allowedList then allowedList else allowedList @ [acc_string P origin])))))
      | _ \<Rightarrow> Err ''invalid number of arguments'')"

definition CheckAllowanceArgs :: "abi_value list \<Rightarrow> (string, Address \<times> Address \<times> string) outcome" where
  "CheckAllowanceArgs args =
     (case args of
        [a0, a1, a2] \<Rightarrow>
          bind_outcome (nonzero_address ''invalid grantee address'' a0) (\<lambda>grantee.
          bind_outcome (nonzero_address ''invalid granter address'' a1) (\<lambda>granter.
            (case a2 of
               AVstring u \<Rightarrow> if u = [] then Err ''empty method defined; expected a valid message type url'' else Ok (grantee, granter, u)
             | _ \<Rightarrow> Err ''invalid method defined; expected a string'')))
      | _ \<Rightarrow> Err ''invalid number of arguments'')"

definition CheckAuthzExists ::
  "'w Precompile \<Rightarrow> Address \<Rightarrow> Address \<Rightarrow> string \<Rightarrow> ('w prun, grant) pm" where
  "CheckAuthzExists P grantee granter msgURL =
     pm_bind (on_ctx (GetAuthorization P grantee granter msgURL)) (\<lambda>r.
       (case r of None \<Rightarrow> pm_fail ''authorization does not exist or is expired'' | Some g \<Rightarrow> pm_return g))"

definition CheckAuthzAndAllowanceForGranter ::
  "'w Precompile \<Rightarrow> Address \<Rightarrow> Address \<Rightarrow> coin \<Rightarrow> string \<Rightarrow> ('w prun, StakeAuthorization \<times> int option) pm" where
  "CheckAuthzAndAllowanceForGranter P grantee granter amount msgURL =
     pm_bind (on_ctx (GetAuthorization P grantee granter msgURL)) (\<lambda>r.
       (case r of
          None \<Rightarrow> pm_fail ''authorization does not exist or is expired''
        | Some (StakeAuthz a, expiration) \<Rightarrow>
            (case MaxTokens a of
               Some (_, lim) \<Rightarrow>
                 if snd amount > lim then pm_fail ''amount greater than allowed limit'' else pm_return (a, expiration)
             | None \<Rightarrow> pm_return (a, expiration))
        | Some _ \<Rightarrow> pm_fail ''unknown authorization type''))"

end
