(* ===== verification/Precompile_Staking.thy ===== *)
theory Precompile_Staking
  imports Precompile_Common
begin

text \<open>
  The staking extension, \<open>precompiles/staking\<close>: delegations by the origin of a transaction, directly or through
  a contract that holds a grant of the authz module, and the grants themselves. The staking keeper, its
  message server and queries, and the type \<open>StakeAuthorization\<close> are the SDK's: fields of the record
  \<open>StakingPrecompile\<close>, and so is the codec's \<open>Copy\<close> into a struct; a page request is passed on as it
  came. \<open>sSharesFromTokens\<close> is \<open>GetValidator\<close> followed by \<open>SharesFromTokens\<close>.
\<close>

subsection \<open>Messages and the struct\<close>

datatype staking_msg =
    MsgDelegate string string coin
  | MsgUndelegate string string coin
  | MsgBeginRedelegate string string string coin
  | MsgCancelUnbondingDelegation string string coin int

fun msg_amount :: "staking_msg \<Rightarrow> coin" where
  "msg_amount (MsgDelegate _ _ c) = c"
| "msg_amount (MsgUndelegate _ _ c) = c"
| "msg_amount (MsgBeginRedelegate _ _ _ c) = c"
| "msg_amount (MsgCancelUnbondingDelegation _ _ c _) = c"

record AcceptResponse =
  ar_Accept :: bool
  ar_Delete :: bool
  ar_Updated :: "Authorization option"

record UnbondingEntry =
  ue_CreationHeight :: int
  ue_CompletionTime :: int
  ue_InitialBalance :: int
  ue_Balance :: int
  ue_UnbondingId :: uint64
  ue_OnHoldRefCount :: int

record RedelegationEntry =
  re_CreationHeight :: int
  re_CompletionTime :: int
  re_InitialBalance :: int
  re_SharesDst :: int

record ValidatorInfo =
  vi_OperatorAddress :: string
  vi_ConsensusPubkey :: string
  vi_Jailed :: bool
  vi_Status :: int
  vi_Tokens :: int
  vi_DelegatorShares :: int
  vi_Description :: string
  vi_UnbondingHeight :: int
  vi_UnbondingTime :: int
  vi_Commission :: int
  vi_MinSelfDelegation :: int

text \<open>A redelegation as the keeper stores it: delegator, source, destination and entries.\<close>

type_synonym page_response = "uint64 \<times> bytes"
type_synonym redelegation = "string \<times> string \<times> string \<times> RedelegationEntry list"

record 'w StakingPrecompile =
  sP :: "'w Precompile"
  sBondDenom :: "('w, string) call"
  sIterateValidators :: "('w, (bool \<times> bytes) list) call"
  sNewStakeAuthorization :: "bytes list \<Rightarrow> AuthorizationType \<Rightarrow> coin option \<Rightarrow> (string, StakeAuthorization) outcome"
  sAuthz_ValidateBasic :: "StakeAuthorization \<Rightarrow> (string, unit) outcome"
  sMsgTypeURL :: "AuthorizationType \<Rightarrow> string"
  sAccept :: "StakeAuthorization \<Rightarrow> staking_msg \<Rightarrow> ('w, AcceptResponse) call"
  sMsg_ValidateBasic :: "staking_msg \<Rightarrow> (string, unit) outcome"
  sDelegate :: "staking_msg \<Rightarrow> ('w, unit) call"
  sUndelegate :: "staking_msg \<Rightarrow> ('w, int) call"
  sBeginRedelegate :: "staking_msg \<Rightarrow> ('w, int) call"
  sCancelUnbondingDelegation :: "staking_msg \<Rightarrow> ('w, unit) call"
  sSharesFromTokens :: "bytes \<Rightarrow> int \<Rightarrow> ('w, int) call"
  qDelegation :: "string \<Rightarrow> string \<Rightarrow> ('w, int \<times> coin) call"
  qUnbondingDelegation :: "string \<Rightarrow> string \<Rightarrow> ('w, string \<times> string \<times> UnbondingEntry list) call"
  qValidator :: "string \<Rightarrow> ('w, ValidatorInfo) call"
  qRedelegation :: "bytes \<Rightarrow> bytes \<Rightarrow> bytes \<Rightarrow> ('w, redelegation) call"
  qValidators :: "string \<Rightarrow> abi_value \<Rightarrow> ('w, ValidatorInfo list \<times> page_response option) call"
  qRedelegations :: "string \<Rightarrow> string \<Rightarrow> string \<Rightarrow> abi_value \<Rightarrow>
    ('w, (redelegation \<times> (RedelegationEntry \<times> int) list) list \<times> page_response option) call"
  copyValidatorsInput :: "abi_value list \<Rightarrow> (string, string \<times> abi_value) outcome"
  copyRedelegationsInput :: "abi_value list \<Rightarrow> (string, Address \<times> string \<times> string \<times> abi_value) outcome"

definition DelegateMsg :: string where "DelegateMsg = ''/cosmos.staking.v1beta1.MsgDelegate''"
definition UndelegateMsg :: string where "UndelegateMsg = ''/cosmos.staking.v1beta1.MsgUndelegate''"
definition RedelegateMsg :: string where "RedelegateMsg = ''/cosmos.staking.v1beta1.MsgBeginRedelegate''"
definition CancelUnbondingDelegationMsg :: string where
  "CancelUnbondingDelegationMsg = ''/cosmos.staking.v1beta1.MsgCancelUnbondingDelegation''"

definition staking_Address :: Address where "staking_Address = 0x800"

definition pack_out :: "'w StakingPrecompile \<Rightarrow> string \<Rightarrow> abi_value list \<Rightarrow> ('w prun, bytes) pm" where
  "pack_out S method vs = pm_lift (PackOutputs (P_ABI (sP S)) method vs)"

subsection \<open>Arguments\<close>

definition arg_string :: "string \<Rightarrow> abi_value \<Rightarrow> (string, string) outcome" where
  "arg_string e v = (case v of AVstring s \<Rightarrow> Ok s | _ \<Rightarrow> Err e)"

definition arg_big :: "string \<Rightarrow> abi_value \<Rightarrow> (string, int) outcome" where
  "arg_big e v = (case v of AVbig i \<Rightarrow> Ok i | _ \<Rightarrow> Err e)"

definition checkDelegationUndelegationArgs :: "abi_value list \<Rightarrow> (string, Address \<times> string \<times> int) outcome" where
  "checkDelegationUndelegationArgs args =
     (case args of
        [a0, a1, a2] \<Rightarrow>
          bind_outcome (nonzero_address ''invalid delegator address'' a0) (\<lambda>delegator.
          bind_outcome (arg_string ''invalid type for validatorAddress'' a1) (\<lambda>validator.
          bind_outcome (arg_big ''invalid amount'' a2) (\<lambda>amount. Ok (delegator, validator, amount))))
      | _ \<Rightarrow> Err ''invalid number of arguments'')"

text \<open>The amount as a coin, and the stateless checks of the message.\<close>

definition with_coin ::
  "'w StakingPrecompile \<Rightarrow> string \<Rightarrow> int \<Rightarrow> (coin \<Rightarrow> staking_msg) \<Rightarrow> (string, staking_msg) outcome" where
  "with_coin S denom amount mk =
     (case big_Int (sP S) amount of
        None \<Rightarrow> Panic
      | Some i \<Rightarrow> bind_outcome (sMsg_ValidateBasic S (mk (denom, i))) (\<lambda>_. Ok (mk (denom, i))))"

definition NewMsgDelegate :: "'w StakingPrecompile \<Rightarrow> abi_value list \<Rightarrow> string \<Rightarrow> (string, staking_msg \<times> Address) outcome" where
  "NewMsgDelegate S args denom =
     bind_outcome (checkDelegationUndelegationArgs args) (\<lambda>(delegator, validator, amount).
     bind_outcome (with_coin S denom amount (MsgDelegate (acc_string (sP S) delegator) validator)) (\<lambda>msg. Ok (msg, delegator)))"

definition NewMsgUndelegate :: "'w StakingPrecompile \<Rightarrow> abi_value list \<Rightarrow> string \<Rightarrow> (string, staking_msg \<times> Address) outcome" where
  "NewMsgUndelegate S args denom =
     bind_outcome (checkDelegationUndelegationArgs args) (\<lambda>(delegator, validator, amount).
     bind_outcome (with_coin S denom amount (MsgUndelegate (acc_string (sP S) delegator) validator)) (\<lambda>msg. Ok (msg, delegator)))"

definition NewMsgRedelegate :: "'w StakingPrecompile \<Rightarrow> abi_value list \<Rightarrow> string \<Rightarrow> (string, staking_msg \<times> Address) outcome" where
  "NewMsgRedelegate S args denom =
     (case args of
        [a0, a1, a2, a3] \<Rightarrow>
          bind_outcome (nonzero_address ''invalid delegator address'' a0) (\<lambda>delegator.
          bind_outcome (arg_string ''invalid type for validatorSrcAddress'' a1) (\<lambda>src.
          bind_outcome (arg_string ''invalid type for validatorDstAddress'' a2) (\<lambda>dst.
          bind_outcome (arg_big ''invalid amount'' a3) (\<lambda>amount.
          bind_outcome (with_coin S denom amount (MsgBeginRedelegate (acc_string (sP S) delegator) src dst)) (\<lambda>msg. Ok (msg, delegator))))))
      | _ \<Rightarrow> Err ''invalid number of arguments'')"

definition NewMsgCancelUnbondingDelegation ::
  "'w StakingPrecompile \<Rightarrow> abi_value list \<Rightarrow> string \<Rightarrow> (string, staking_msg \<times> Address) outcome" where
  "NewMsgCancelUnbondingDelegation S args denom =
     (case args of
        [a0, a1, a2, a3] \<Rightarrow>
          bind_outcome (nonzero_address ''invalid delegator address'' a0) (\<lambda>delegator.
          bind_outcome (arg_string ''invalid type for validatorAddress'' a1) (\<lambda>validator.
          bind_outcome (arg_big ''invalid amount'' a2) (\<lambda>amount.
          bind_outcome (arg_big ''invalid creation height'' a3) (\<lambda>creationHeight.
          bind_outcome (with_coin S denom amount (\<lambda>c. MsgCancelUnbondingDelegation (acc_string (sP S) delegator) validator c (wrap64 creationHeight)))
            (\<lambda>msg. Ok (msg, delegator))))))
      | _ \<Rightarrow> Err ''invalid number of arguments'')"

subsection \<open>Events\<close>

definition EmitApprovalEvent ::
  "'w StakingPrecompile \<Rightarrow> Address \<Rightarrow> Address \<Rightarrow> coin option \<Rightarrow> string list \<Rightarrow> ('w prun, unit) pm" where
  "EmitApprovalEvent S grantee granter coin typeUrls =
     emit2 (sP S) staking_Address ''Approval'' (AVaddress grantee) (AVaddress granter)
       (PackEvent (P_ABI (sP S)) ''Approval'' [2, 3]
          [AVstrings typeUrls, AVbig (case coin of None \<Rightarrow> MaxUint256 | Some (_, amount) \<Rightarrow> amount)])"

text \<open>A grant of another type, or none, is a nil pointer that is dereferenced.\<close>

fun new_values :: "'w StakingPrecompile \<Rightarrow> Address \<Rightarrow> Address \<Rightarrow> string list \<Rightarrow> ('w prun, int list) pm" where
  "new_values S grantee granter [] = pm_return []"
| "new_values S grantee granter (u # us) =
     pm_bind (on_ctx (GetAuthorization (sP S) grantee granter u)) (\<lambda>r.
     pm_bind (pm_some (case r of
         Some (StakeAuthz a, _) \<Rightarrow> Some (case MaxTokens a of None \<Rightarrow> MaxUint256 | Some (_, amount) \<Rightarrow> amount)
       | _ \<Rightarrow> None)) (\<lambda>v.
     pm_bind (new_values S grantee granter us) (\<lambda>vs. pm_return (v # vs))))"

definition st_EmitAllowanceChangeEvent ::
  "'w StakingPrecompile \<Rightarrow> Address \<Rightarrow> Address \<Rightarrow> string list \<Rightarrow> ('w prun, unit) pm" where
  "st_EmitAllowanceChangeEvent S grantee granter typeUrls =
     pm_bind (new_values S grantee granter typeUrls) (\<lambda>vs.
       emit2 (sP S) staking_Address ''AllowanceChange'' (AVaddress grantee) (AVaddress granter)
         (PackEvent (P_ABI (sP S)) ''AllowanceChange'' [2, 3] [AVstrings typeUrls, AVarray (map AVbig vs)]))"

definition createStakingTxTopics ::
  "'w StakingPrecompile \<Rightarrow> string \<Rightarrow> Address \<Rightarrow> string \<Rightarrow> ('w prun, Hash list) pm" where
  "createStakingTxTopics S event delegator validator =
     pm_bind (make_topic (AVaddress delegator)) (\<lambda>h1.
     pm_bind (make_topic (AVstring validator)) (\<lambda>h2. pm_return [EventID (P_ABI (sP S)) event, h1, h2]))"

definition pack_nums :: "int \<Rightarrow> int \<Rightarrow> ('w prun, bytes) pm" where
  "pack_nums a b = pm_bind (pm_some (PackNum (AVbig a))) (\<lambda>x. pm_bind (pm_some (PackNum (AVbig b))) (\<lambda>y. pm_return (x @ y)))"

definition EmitDelegateEvent :: "'w StakingPrecompile \<Rightarrow> staking_msg \<Rightarrow> Address \<Rightarrow> ('w prun, unit) pm" where
  "EmitDelegateEvent S msg delegator =
     (case msg of
        MsgDelegate _ validator (_, amount) \<Rightarrow>
          pm_bind (pm_lift (pValAddressFromBech32 (sP S) validator)) (\<lambda>valAddr.
          pm_bind (on_ctx (sSharesFromTokens S valAddr amount)) (\<lambda>newShares.
          pm_bind (createStakingTxTopics S ''Delegate'' delegator validator) (\<lambda>topics.
          pm_bind (pack_nums amount newShares) (\<lambda>data. add_log staking_Address topics data))))
      | _ \<Rightarrow> pm_return ())"

definition EmitUnbondEvent :: "'w StakingPrecompile \<Rightarrow> staking_msg \<Rightarrow> Address \<Rightarrow> int \<Rightarrow> ('w prun, unit) pm" where
  "EmitUnbondEvent S msg delegator completionTime =
     (case msg of
        MsgUndelegate _ validator (_, amount) \<Rightarrow>
          pm_bind (createStakingTxTopics S ''Unbond'' delegator validator) (\<lambda>topics.
          pm_bind (pack_nums amount completionTime) (\<lambda>data. add_log staking_Address topics data))
      | _ \<Rightarrow> pm_return ())"

definition EmitRedelegateEvent :: "'w StakingPrecompile \<Rightarrow> staking_msg \<Rightarrow> Address \<Rightarrow> int \<Rightarrow> ('w prun, unit) pm" where
  "EmitRedelegateEvent S msg delegator completionTime =
     (case msg of
        MsgBeginRedelegate _ src dst (_, amount) \<Rightarrow>
          pm_bind (createStakingTxTopics S ''Redelegate'' delegator src) (\<lambda>topics.
          pm_bind (make_topic (AVstring dst)) (\<lambda>h3.
          pm_bind (pack_nums amount completionTime) (\<lambda>data. add_log staking_Address (topics @ [h3]) data)))
      | _ \<Rightarrow> pm_return ())"

definition EmitCancelUnbondingDelegationEvent :: "'w StakingPrecompile \<Rightarrow> staking_msg \<Rightarrow> Address \<Rightarrow> ('w prun, unit) pm" where
  "EmitCancelUnbondingDelegationEvent S msg delegator =
     (case msg of
        MsgCancelUnbondingDelegation _ validator (_, amount) creationHeight \<Rightarrow>
          pm_bind (createStakingTxTopics S ''CancelUnbondingDelegation'' delegator validator) (\<lambda>topics.
          pm_bind (pack_nums amount creationHeight) (\<lambda>data. add_log staking_Address topics data))
      | _ \<Rightarrow> pm_return ())"

subsection \<open>Grants\<close>

definition convertMsgToAuthz :: "string \<Rightarrow> (string, AuthorizationType) outcome" where
  "convertMsgToAuthz msg =
     (if msg = DelegateMsg then Ok DelegateAuthz
      else if msg = UndelegateMsg then Ok UndelegateAuthz
      else if msg = RedelegateMsg then Ok RedelegateAuthz
      else if msg = CancelUnbondingDelegationMsg then Ok CancelUnbondingDelegationAuthz
      else Err ''cannot convert msg to authorization type'')"

definition createStakingAuthz ::
  "'w StakingPrecompile \<Rightarrow> Address \<Rightarrow> Address \<Rightarrow> coin option \<Rightarrow> AuthorizationType \<Rightarrow> ('w prun, unit) pm" where
  "createStakingAuthz S grantee granter coin authzType =
     pm_bind (on_ctx (sIterateValidators S)) (\<lambda>vals.
     pm_bind (pm_lift (sNewStakeAuthorization S (map snd (filter (\<lambda>(jailed, _). \<not> jailed) vals)) authzType coin)) (\<lambda>a.
     pm_bind (pm_lift (sAuthz_ValidateBasic S a)) (\<lambda>_ s.
       let expiration = pBlockTime (sP S) (ctx (pr_db s)) + ApprovalExpiration (sP S)
       in on_ctx (SaveGrant (sP S) grantee granter (StakeAuthz a) (Some expiration)) s)))"

definition grantOrDeleteStakingAuthz ::
  "'w StakingPrecompile \<Rightarrow> Address \<Rightarrow> Address \<Rightarrow> coin option \<Rightarrow> AuthorizationType \<Rightarrow> ('w prun, unit) pm" where
  "grantOrDeleteStakingAuthz S grantee granter coin authzType =
     (case coin of
        None \<Rightarrow> createStakingAuthz S grantee granter coin authzType
      | Some (_, amount) \<Rightarrow>
          if amount \<le> 0 then on_ctx (DeleteGrant (sP S) grantee granter (sMsgTypeURL S authzType))
          else createStakingAuthz S grantee granter coin authzType)"

definition st_Approve :: "'w StakingPrecompile \<Rightarrow> Address \<Rightarrow> string \<Rightarrow> abi_value list \<Rightarrow> ('w prun, bytes) pm" where
  "st_Approve S origin method args =
     pm_bind (on_ctx (sBondDenom S)) (\<lambda>denom.
     pm_bind (pm_lift (CheckApprovalArgs (sP S) args denom)) (\<lambda>(grantee, coin, typeURLs).
     pm_bind (pm_each (\<lambda>typeURL.
         if typeURL \<in> {DelegateMsg, UndelegateMsg, RedelegateMsg, CancelUnbondingDelegationMsg}
         then pm_bind (pm_lift (convertMsgToAuthz typeURL)) (grantOrDeleteStakingAuthz S grantee origin coin)
         else pm_fail ''invalid staking transaction type'') typeURLs) (\<lambda>_.
     pm_bind (EmitApprovalEvent S grantee origin coin typeURLs) (\<lambda>_. pack_out S method [AVbool True]))))"

definition st_Revoke :: "'w StakingPrecompile \<Rightarrow> Address \<Rightarrow> string \<Rightarrow> abi_value list \<Rightarrow> ('w prun, bytes) pm" where
  "st_Revoke S origin method args =
     pm_bind (pm_lift (CheckRevokeArgs args)) (\<lambda>(grantee, typeURLs).
     pm_bind (pm_each (\<lambda>typeURL.
         if typeURL \<in> {DelegateMsg, UndelegateMsg, RedelegateMsg, CancelUnbondingDelegationMsg}
         then on_ctx (DeleteGrant (sP S) grantee origin typeURL)
         else pm_fail ''invalid staking transaction type'') typeURLs) (\<lambda>_.
     pm_bind (EmitRevocationEvent (sP S) staking_Address grantee origin typeURLs) (\<lambda>_. pack_out S method [AVbool True])))"

text \<open>A nil coin stands for the largest amount; its field is read when the grant has a limit.\<close>

definition decreaseAllowance ::
  "'w StakingPrecompile \<Rightarrow> Address \<Rightarrow> Address \<Rightarrow> coin option \<Rightarrow> StakeAuthorization \<Rightarrow> int option \<Rightarrow> ('w prun, unit) pm" where
  "decreaseAllowance S grantee granter coin stakeAuthz expiration =
     (case MaxTokens stakeAuthz of
        None \<Rightarrow> pm_return ()
      | Some (d, lim) \<Rightarrow>
          pm_bind (pm_some coin) (\<lambda>(_, amount).
            if lim < amount then pm_fail ''amount by which the allowance should be decreased is greater than the authorization limit''
            else pm_bind (pm_some (pIntSub (sP S) lim amount)) (\<lambda>left.
              on_ctx (SaveGrant (sP S) grantee granter (StakeAuthz (stakeAuthz\<lparr>MaxTokens := Some (d, left)\<rparr>)) expiration))))"

definition st_DecreaseAllowance :: "'w StakingPrecompile \<Rightarrow> Address \<Rightarrow> string \<Rightarrow> abi_value list \<Rightarrow> ('w prun, bytes) pm" where
  "st_DecreaseAllowance S origin method args =
     pm_bind (on_ctx (sBondDenom S)) (\<lambda>denom.
     pm_bind (pm_lift (CheckApprovalArgs (sP S) args denom)) (\<lambda>(grantee, coin, typeURLs).
     pm_bind (pm_each (\<lambda>typeURL.
         if typeURL \<in> {DelegateMsg, UndelegateMsg, RedelegateMsg, CancelUnbondingDelegationMsg}
         then pm_bind (CheckAuthzExists (sP S) grantee origin typeURL) (\<lambda>(authzGrant, expiration).
                (case authzGrant of
                   StakeAuthz a \<Rightarrow> decreaseAllowance S grantee origin coin a expiration
                 | _ \<Rightarrow> pm_fail ''unknown authorization type''))
         else pm_fail ''invalid staking transaction type'') typeURLs) (\<lambda>_.
     pm_bind (st_EmitAllowanceChangeEvent S grantee origin typeURLs) (\<lambda>_. pack_out S method [AVbool True]))))"

definition increaseAllowance ::
  "'w StakingPrecompile \<Rightarrow> Address \<Rightarrow> Address \<Rightarrow> coin option \<Rightarrow> string \<Rightarrow> ('w prun, unit) pm" where
  "increaseAllowance S grantee granter coin msgURL =
     pm_bind (CheckAuthzExists (sP S) grantee granter msgURL) (\<lambda>(existingAuthz, expiration).
       (case existingAuthz of
          StakeAuthz a \<Rightarrow>
            (case MaxTokens a of
               None \<Rightarrow> pm_return ()
             | Some (d, lim) \<Rightarrow>
                 pm_bind (pm_some coin) (\<lambda>(_, amount).
                 pm_bind (pm_some (pIntAdd (sP S) lim amount)) (\<lambda>sum.
                   on_ctx (SaveGrant (sP S) grantee granter (StakeAuthz (a\<lparr>MaxTokens := Some (d, sum)\<rparr>)) expiration))))
        | _ \<Rightarrow> pm_fail ''unknown authorization type''))"

definition st_IncreaseAllowance :: "'w StakingPrecompile \<Rightarrow> Address \<Rightarrow> string \<Rightarrow> abi_value list \<Rightarrow> ('w prun, bytes) pm" where
  "st_IncreaseAllowance S origin method args =
     pm_bind (on_ctx (sBondDenom S)) (\<lambda>denom.
     pm_bind (pm_lift (CheckApprovalArgs (sP S) args denom)) (\<lambda>(grantee, coin, typeURLs).
     pm_bind (pm_each (\<lambda>typeURL.
         if typeURL \<in> {DelegateMsg, UndelegateMsg, RedelegateMsg}
         then increaseAllowance S grantee origin coin typeURL
         else pm_fail ''invalid staking transaction type'') typeURLs) (\<lambda>_.
     pm_bind (st_EmitAllowanceChangeEvent S grantee origin typeURLs) (\<lambda>_. pack_out S method [AVbool True]))))"

definition UpdateStakingAuthorization ::
  "'w StakingPrecompile \<Rightarrow> Address \<Rightarrow> Address \<Rightarrow> StakeAuthorization \<Rightarrow> int option \<Rightarrow> string \<Rightarrow> staking_msg \<Rightarrow> ('w prun, unit) pm" where
  "UpdateStakingAuthorization S grantee granter stakeAuthz expiration messageType msg =
     pm_bind (on_ctx (sAccept S stakeAuthz msg)) (\<lambda>resp.
       if ar_Delete resp then on_ctx (DeleteGrant (sP S) grantee granter messageType)
       else pm_bind (pm_some (ar_Updated resp)) (\<lambda>updated. on_ctx (SaveGrant (sP S) grantee granter updated expiration)))"

subsection \<open>Transactions\<close>

definition DelegateMethod :: string where "DelegateMethod = ''delegate''"
definition UndelegateMethod :: string where "UndelegateMethod = ''undelegate''"
definition RedelegateMethod :: string where "RedelegateMethod = ''redelegate''"
definition CancelUnbondingDelegationMethod :: string where "CancelUnbondingDelegationMethod = ''cancelUnbondingDelegation''"

text \<open>
  What the four transactions share: the account that must have granted, which is the origin; the grant,
  when the caller is another; and the grant's update after the message server.
\<close>

definition delegator_of :: "Address \<Rightarrow> Address \<Rightarrow> Address \<Rightarrow> (string, Address) outcome" where
  "delegator_of caller origin delegator =
     (if caller = delegator then Ok origin
      else if origin \<noteq> delegator then Err ''origin address is not the same as delegator address''
      else Ok delegator)"

definition check_grant ::
  "'w StakingPrecompile \<Rightarrow> Address \<Rightarrow> Address \<Rightarrow> Address \<Rightarrow> staking_msg \<Rightarrow> string \<Rightarrow>
   ('w prun, (StakeAuthorization \<times> int option) option) pm" where
  "check_grant S caller origin delegator msg url =
     (if caller = origin then pm_return None
      else pm_bind (CheckAuthzAndAllowanceForGranter (sP S) caller delegator (msg_amount msg) url) (\<lambda>g. pm_return (Some g)))"

definition spend_grant ::
  "'w StakingPrecompile \<Rightarrow> Address \<Rightarrow> Address \<Rightarrow> (StakeAuthorization \<times> int option) option \<Rightarrow> string \<Rightarrow> staking_msg \<Rightarrow> ('w prun, unit) pm" where
  "spend_grant S caller delegator g url msg =
     (case g of None \<Rightarrow> pm_return ()
      | Some (a, expiration) \<Rightarrow> UpdateStakingAuthorization S caller delegator a expiration url msg)"

definition sub_balance :: "Address \<Rightarrow> int \<Rightarrow> ('w prun, unit) pm" where
  "sub_balance addr amount s = (Ok (), s\<lparr>pr_db := SubBalance (pr_db s) addr amount\<rparr>)"

definition st_Delegate ::
  "'w StakingPrecompile \<Rightarrow> Address \<Rightarrow> pcontract \<Rightarrow> string \<Rightarrow> abi_value list \<Rightarrow> ('w prun, bytes) pm" where
  "st_Delegate S origin contract method args =
     pm_bind (on_ctx (sBondDenom S)) (\<lambda>denom.
     pm_bind (pm_lift (NewMsgDelegate S args denom)) (\<lambda>(msg, delegator).
     pm_bind (pm_lift (delegator_of (CallerAddress contract) origin delegator)) (\<lambda>granter.
     pm_bind (check_grant S (CallerAddress contract) origin granter msg DelegateMsg) (\<lambda>g.
     pm_bind (on_ctx (sDelegate S msg)) (\<lambda>_.
     pm_bind (spend_grant S (CallerAddress contract) granter g DelegateMsg msg) (\<lambda>_.
     pm_bind (EmitDelegateEvent S msg granter) (\<lambda>_.
     pm_bind (if CallerAddress contract = delegator then sub_balance (CallerAddress contract) (snd (msg_amount msg)) else pm_return ()) (\<lambda>_.
       pack_out S method [AVbool True]))))))))"

definition st_Undelegate ::
  "'w StakingPrecompile \<Rightarrow> Address \<Rightarrow> pcontract \<Rightarrow> string \<Rightarrow> abi_value list \<Rightarrow> ('w prun, bytes) pm" where
  "st_Undelegate S origin contract method args =
     pm_bind (on_ctx (sBondDenom S)) (\<lambda>denom.
     pm_bind (pm_lift (NewMsgUndelegate S args denom)) (\<lambda>(msg, delegator).
     pm_bind (pm_lift (delegator_of (CallerAddress contract) origin delegator)) (\<lambda>granter.
     pm_bind (check_grant S (CallerAddress contract) origin granter msg UndelegateMsg) (\<lambda>g.
     pm_bind (on_ctx (sUndelegate S msg)) (\<lambda>completionTime.
     pm_bind (spend_grant S (CallerAddress contract) granter g UndelegateMsg msg) (\<lambda>_.
     pm_bind (EmitUnbondEvent S msg granter completionTime) (\<lambda>_.
       pack_out S method [AVint 8 completionTime])))))))"

definition st_Redelegate ::
  "'w StakingPrecompile \<Rightarrow> Address \<Rightarrow> pcontract \<Rightarrow> string \<Rightarrow> abi_value list \<Rightarrow> ('w prun, bytes) pm" where
  "st_Redelegate S origin contract method args =
     pm_bind (on_ctx (sBondDenom S)) (\<lambda>denom.
     pm_bind (pm_lift (NewMsgRedelegate S args denom)) (\<lambda>(msg, delegator).
     pm_bind (pm_lift (delegator_of (CallerAddress contract) origin delegator)) (\<lambda>granter.
     pm_bind (check_grant S (CallerAddress contract) origin granter msg RedelegateMsg) (\<lambda>g.
     pm_bind (on_ctx (sBeginRedelegate S msg)) (\<lambda>completionTime.
     pm_bind (spend_grant S (CallerAddress contract) granter g RedelegateMsg msg) (\<lambda>_.
     pm_bind (EmitRedelegateEvent S msg granter completionTime) (\<lambda>_.
       pack_out S method [AVint 8 completionTime])))))))"

definition st_CancelUnbondingDelegation ::
  "'w StakingPrecompile \<Rightarrow> Address \<Rightarrow> pcontract \<Rightarrow> string \<Rightarrow> abi_value list \<Rightarrow> ('w prun, bytes) pm" where
  "st_CancelUnbondingDelegation S origin contract method args =
     pm_bind (on_ctx (sBondDenom S)) (\<lambda>denom.
     pm_bind (pm_lift (NewMsgCancelUnbondingDelegation S args denom)) (\<lambda>(msg, delegator).
     pm_bind (pm_lift (delegator_of (CallerAddress contract) origin delegator)) (\<lambda>granter.
     pm_bind (check_grant S (CallerAddress contract) origin granter msg CancelUnbondingDelegationMsg) (\<lambda>g.
     pm_bind (on_ctx (sCancelUnbondingDelegation S msg)) (\<lambda>_.
     pm_bind (spend_grant S (CallerAddress contract) granter g CancelUnbondingDelegationMsg msg) (\<lambda>_.
     pm_bind (EmitCancelUnbondingDelegationEvent S msg granter) (\<lambda>_.
       pack_out S method [AVbool True])))))))"
subsection \<open>Queries\<close>

fun str_contains :: "string \<Rightarrow> string \<Rightarrow> bool" where
  "str_contains [] sub \<longleftrightarrow> sub = []"
| "str_contains (c # cs) sub \<longleftrightarrow> take (length sub) (c # cs) = sub \<or> str_contains cs sub"

text \<open>A query whose error contains a text returns a default instead.\<close>

definition or_default :: "('s, 'a) pm \<Rightarrow> string \<Rightarrow> ('a \<Rightarrow> ('s, 'b) pm) \<Rightarrow> ('s, 'b) pm \<Rightarrow> ('s, 'b) pm" where
  "or_default m text f d = (\<lambda>s. case m s of (r, s') \<Rightarrow>
     (case r of Ok a \<Rightarrow> f a s' | Panic \<Rightarrow> (Panic, s') | Err GasPanic \<Rightarrow> (Err GasPanic, s')
      | Err (Failed e) \<Rightarrow> if str_contains e text then d s' else (Err (Failed e), s')))"

definition coin_value :: "coin \<Rightarrow> abi_value" where
  "coin_value c = AVtuple [AVstring (fst c), AVbig (snd c)]"

definition page_value :: "page_response option \<Rightarrow> abi_value" where
  "page_value p = (case p of None \<Rightarrow> AVtuple [AVbytes [], AVuint 8 0] | Some (n, next) \<Rightarrow> AVtuple [AVbytes next, AVuint 8 (uint n)])"

definition NewDelegationRequest :: "'w StakingPrecompile \<Rightarrow> abi_value list \<Rightarrow> (string, string \<times> string) outcome" where
  "NewDelegationRequest S args =
     (case args of
        [a0, a1] \<Rightarrow>
          bind_outcome (nonzero_address ''invalid delegator address'' a0) (\<lambda>delegator.
          bind_outcome (arg_string ''invalid type for validatorAddress'' a1) (\<lambda>validator. Ok (acc_string (sP S) delegator, validator)))
      | _ \<Rightarrow> Err ''invalid number of arguments'')"

definition NewUnbondingDelegationRequest :: "'w StakingPrecompile \<Rightarrow> abi_value list \<Rightarrow> (string, string \<times> string) outcome" where
  "NewUnbondingDelegationRequest S args =
     (case args of
        [a0, a1] \<Rightarrow>
          bind_outcome (nonzero_address ''invalid delegator address'' a0) (\<lambda>delegator.
          bind_outcome (arg_string ''invalid type for validatorAddress'' a1) (\<lambda>validator. Ok (acc_string (sP S) delegator, validator)))
      | _ \<Rightarrow> Err ''invalid number of arguments'')"

definition NewValidatorRequest :: "abi_value list \<Rightarrow> (string, string) outcome" where
  "NewValidatorRequest args =
     (case args of [a0] \<Rightarrow> arg_string ''invalid type for validatorAddress'' a0 | _ \<Rightarrow> Err ''invalid number of arguments'')"

definition NewValidatorsRequest :: "'w StakingPrecompile \<Rightarrow> abi_value list \<Rightarrow> (string, string \<times> abi_value) outcome" where
  "NewValidatorsRequest S args =
     (if length args \<noteq> 2 then Err ''invalid number of arguments'' else copyValidatorsInput S args)"

definition NewRedelegationRequest :: "'w StakingPrecompile \<Rightarrow> abi_value list \<Rightarrow> (string, bytes \<times> bytes \<times> bytes) outcome" where
  "NewRedelegationRequest S args =
     (case args of
        [a0, a1, a2] \<Rightarrow>
          bind_outcome (nonzero_address ''invalid delegator address'' a0) (\<lambda>delegator.
          bind_outcome (arg_string ''invalid type for validatorSrcAddress'' a1) (\<lambda>src.
          bind_outcome (pValAddressFromBech32 (sP S) src) (\<lambda>srcAddr.
          bind_outcome (arg_string ''invalid type for validatorDstAddress'' a2) (\<lambda>dst.
          bind_outcome (pValAddressFromBech32 (sP S) dst) (\<lambda>dstAddr. Ok (AddressBytes delegator, srcAddr, dstAddr))))))
      | _ \<Rightarrow> Err ''invalid number of arguments'')"

definition NewRedelegationsRequest ::
  "'w StakingPrecompile \<Rightarrow> abi_value list \<Rightarrow> (string, string \<times> string \<times> string \<times> abi_value) outcome" where
  "NewRedelegationsRequest S args =
     (if length args \<noteq> 4 then Err ''invalid number of arguments''
      else bind_outcome (copyRedelegationsInput S args) (\<lambda>(delegator, src, dst, page).
        let delegatorAddr = (if delegator \<noteq> 0 then acc_string (sP S) delegator else [])
        in if delegatorAddr = [] \<and> src = [] \<and> dst = [] \<or> delegatorAddr = [] \<and> src = [] \<and> dst \<noteq> []
           then Err ''invalid query. Need to specify at least a source validator address or delegator address''
           else Ok (delegatorAddr, src, dst, page)))"

definition unbonding_value :: "string \<times> string \<times> UnbondingEntry list \<Rightarrow> abi_value" where
  "unbonding_value u =
     (case u of (delegator, validator, es) \<Rightarrow>
        AVtuple [AVstring delegator, AVstring validator,
          AVarray (map (\<lambda>e. AVtuple [AVint 8 (ue_CreationHeight e), AVint 8 (ue_CompletionTime e), AVbig (ue_InitialBalance e),
            AVbig (ue_Balance e), AVuint 8 (uint (ue_UnbondingId e)), AVint 8 (ue_OnHoldRefCount e)]) es)])"

definition validator_value :: "ValidatorInfo \<Rightarrow> abi_value" where
  "validator_value v =
     AVtuple [AVstring (vi_OperatorAddress v), AVstring (vi_ConsensusPubkey v), AVbool (vi_Jailed v), AVuint 1 (vi_Status v),
       AVbig (vi_Tokens v), AVbig (vi_DelegatorShares v), AVstring (vi_Description v), AVint 8 (vi_UnbondingHeight v),
       AVint 8 (vi_UnbondingTime v), AVbig (vi_Commission v), AVbig (vi_MinSelfDelegation v)]"

definition DefaultValidatorOutput :: ValidatorInfo where
  "DefaultValidatorOutput =
     \<lparr>vi_OperatorAddress = [], vi_ConsensusPubkey = [], vi_Jailed = False, vi_Status = 0, vi_Tokens = 0, vi_DelegatorShares = 0,
      vi_Description = [], vi_UnbondingHeight = 0, vi_UnbondingTime = 0, vi_Commission = 0, vi_MinSelfDelegation = 0\<rparr>"

definition entry_value :: "RedelegationEntry \<Rightarrow> abi_value" where
  "entry_value e = AVtuple [AVint 8 (re_CreationHeight e), AVint 8 (re_CompletionTime e), AVbig (re_InitialBalance e), AVbig (re_SharesDst e)]"

definition redelegation_value :: "redelegation \<Rightarrow> abi_value" where
  "redelegation_value r =
     (case r of (delegator, src, dst, es) \<Rightarrow> AVtuple [AVstring delegator, AVstring src, AVstring dst, AVarray (map entry_value es)])"

definition redelegations_value :: "(redelegation \<times> (RedelegationEntry \<times> int) list) list \<Rightarrow> abi_value" where
  "redelegations_value rs =
     AVarray (map (\<lambda>(r, es). AVtuple [redelegation_value r, AVarray (map (\<lambda>(e, b). AVtuple [entry_value e, AVbig b]) es)]) rs)"

definition st_Delegation :: "'w StakingPrecompile \<Rightarrow> string \<Rightarrow> abi_value list \<Rightarrow> ('w prun, bytes) pm" where
  "st_Delegation S method args =
     pm_bind (pm_lift (NewDelegationRequest S args)) (\<lambda>(delegator, validator).
       or_default (on_ctx (qDelegation S delegator validator))
         (''delegation with delegator '' @ delegator @ '' not found for validator '' @ validator)
         (\<lambda>(shares, balance). pack_out S method [AVbig shares, coin_value balance])
         (pm_bind (on_ctx (sBondDenom S)) (\<lambda>denom. pack_out S method [AVbig 0, coin_value (denom, 0)])))"

definition st_UnbondingDelegation :: "'w StakingPrecompile \<Rightarrow> string \<Rightarrow> abi_value list \<Rightarrow> ('w prun, bytes) pm" where
  "st_UnbondingDelegation S method args =
     pm_bind (pm_lift (NewUnbondingDelegationRequest S args)) (\<lambda>(delegator, validator).
       or_default (on_ctx (qUnbondingDelegation S delegator validator))
         (''unbonding delegation with delegator '' @ delegator @ '' not found for validator '' @ validator)
         (\<lambda>u. pack_out S method [unbonding_value u])
         (pack_out S method [unbonding_value ([], [], [])]))"

definition st_Validator :: "'w StakingPrecompile \<Rightarrow> string \<Rightarrow> abi_value list \<Rightarrow> ('w prun, bytes) pm" where
  "st_Validator S method args =
     pm_bind (pm_lift (NewValidatorRequest args)) (\<lambda>validator.
       or_default (on_ctx (qValidator S validator)) (''validator '' @ validator @ '' not found'')
         (\<lambda>v. pack_out S method [validator_value v])
         (pack_out S method [validator_value DefaultValidatorOutput]))"

definition st_Validators :: "'w StakingPrecompile \<Rightarrow> string \<Rightarrow> abi_value list \<Rightarrow> ('w prun, bytes) pm" where
  "st_Validators S method args =
     pm_bind (pm_lift (NewValidatorsRequest S args)) (\<lambda>(status, page).
     pm_bind (on_ctx (qValidators S status page)) (\<lambda>(vs, p).
       pack_out S method [AVarray (map validator_value vs), page_value p]))"

definition st_Redelegation :: "'w StakingPrecompile \<Rightarrow> string \<Rightarrow> abi_value list \<Rightarrow> ('w prun, bytes) pm" where
  "st_Redelegation S method args =
     pm_bind (pm_lift (NewRedelegationRequest S args)) (\<lambda>(delegator, src, dst).
     pm_bind (on_ctx (qRedelegation S delegator src dst)) (\<lambda>r. pack_out S method [redelegation_value r]))"

definition st_Redelegations :: "'w StakingPrecompile \<Rightarrow> string \<Rightarrow> abi_value list \<Rightarrow> ('w prun, bytes) pm" where
  "st_Redelegations S method args =
     pm_bind (pm_lift (NewRedelegationsRequest S args)) (\<lambda>(delegator, src, dst, page).
     pm_bind (on_ctx (qRedelegations S delegator src dst page)) (\<lambda>(rs, p).
       pack_out S method [redelegations_value rs, page_value p]))"

definition st_Allowance :: "'w StakingPrecompile \<Rightarrow> string \<Rightarrow> abi_value list \<Rightarrow> ('w prun, bytes) pm" where
  "st_Allowance S method args =
     pm_bind (pm_lift (CheckAllowanceArgs args)) (\<lambda>(grantee, granter, msg).
     pm_bind (on_ctx (GetAuthorization (sP S) grantee granter msg)) (\<lambda>r.
       (case r of
          None \<Rightarrow> pack_out S method [AVbig 0]
        | Some (StakeAuthz a, _) \<Rightarrow>
            pack_out S method [AVbig (case MaxTokens a of None \<Rightarrow> MaxUint256 | Some (_, amount) \<Rightarrow> amount)]
        | Some _ \<Rightarrow> pm_fail ''invalid type for staking authorization'')))"

subsection \<open>Running a call\<close>

definition st_IsTransaction :: "string \<Rightarrow> bool" where
  "st_IsTransaction method \<longleftrightarrow>
     method \<in> {DelegateMethod, UndelegateMethod, RedelegateMethod, CancelUnbondingDelegationMethod,
       ApproveMethod, RevokeMethod, IncreaseAllowanceMethod, DecreaseAllowanceMethod}"

definition st_RequiredGas :: "'w StakingPrecompile \<Rightarrow> bytes \<Rightarrow> uint64 option" where
  "st_RequiredGas S input = p_RequiredGas (sP S) st_IsTransaction input"

definition st_method :: "'w StakingPrecompile \<Rightarrow> Address \<Rightarrow> pcontract \<Rightarrow> string \<Rightarrow> abi_value list \<Rightarrow> ('w prun, bytes) pm" where
  "st_method S origin contract method args =
     (if method = ApproveMethod then st_Approve S origin method args
      else if method = RevokeMethod then st_Revoke S origin method args
      else if method = IncreaseAllowanceMethod then st_IncreaseAllowance S origin method args
      else if method = DecreaseAllowanceMethod then st_DecreaseAllowance S origin method args
      else if method = DelegateMethod then st_Delegate S origin contract method args
      else if method = UndelegateMethod then st_Undelegate S origin contract method args
      else if method = RedelegateMethod then st_Redelegate S origin contract method args
      else if method = CancelUnbondingDelegationMethod then st_CancelUnbondingDelegation S origin contract method args
      else if method = ''delegation'' then st_Delegation S method args
      else if method = ''unbondingDelegation'' then st_UnbondingDelegation S method args
      else if method = ''validator'' then st_Validator S method args
      else if method = ''validators'' then st_Validators S method args
      else if method = ''redelegation'' then st_Redelegation S method args
      else if method = ''redelegations'' then st_Redelegations S method args
      else if method = AllowanceMethod then st_Allowance S method args
      else pm_return [])"

definition st_Run ::
  "'w StakingPrecompile \<Rightarrow> Address \<Rightarrow> 'w StateDB \<Rightarrow> pcontract \<Rightarrow> bool \<Rightarrow> (string, bytes) outcome \<times> pcontract \<times> 'w StateDB" where
  "st_Run S origin db contract readOnly =
     (case RunSetup (sP S) st_IsTransaction db contract readOnly of
        Panic \<Rightarrow> (Panic, contract, db)
      | Err e \<Rightarrow> (Err e, contract, db)
      | Ok (s, method, initialGas, args) \<Rightarrow>
          finish_run initialGas contract (pm_bind commit_stateDB (\<lambda>_. st_method S origin contract method args) s))"

end
