(* ===== verification/Precompile_Ics20.thy ===== *)
theory Precompile_Ics20
  imports Precompile_Staking
begin

text \<open>
  The ICS20 extension, \<open>precompiles/ics20\<close>: IBC transfers from the origin of a transaction, directly or
  through a contract with a transfer authorization, and these authorizations. The transfer keeper of
  \<open>x/ibc/transfer\<close> (its message server is modelled in \<open>Erc20_Ibc\<close>), the channel keeper, the
  type \<open>TransferAuthorization\<close> and the codec's \<open>Copy\<close> into a struct are fields of the record
  \<open>Ics20Precompile\<close>. The transfer keeper may replace the denomination in the message it is given, so the
  field returns the token of the message afterwards.
\<close>

subsection \<open>Messages and the struct\<close>

record ics20_msg =
  im_SourcePort :: string
  im_SourceChannel :: string
  im_Token :: coin
  im_Sender :: string
  im_Receiver :: string
  im_TimeoutHeight :: "uint64 \<times> uint64"
  im_TimeoutTimestamp :: uint64
  im_Memo :: string

record 'w Ics20Precompile =
  iP :: "'w Precompile"
  iHasChannel :: "string \<Rightarrow> string \<Rightarrow> ('w, bool) call"
  iTransferKeeper :: "ics20_msg \<Rightarrow> ('w, uint64 \<times> coin) call"
  iAccept :: "Allocation list \<Rightarrow> ics20_msg \<Rightarrow> ('w, AcceptResponse) call"
  iAuthz_ValidateBasic :: "Allocation list \<Rightarrow> (string, unit) outcome"
  iMsg_ValidateBasic :: "ics20_msg \<Rightarrow> (string, unit) outcome"
  iCopyAllocations :: "abi_value \<Rightarrow> (string, Allocation list) outcome"
  iCopyHeight :: "abi_value \<Rightarrow> (string, uint64 \<times> uint64) outcome"
  iFind :: "coins \<Rightarrow> string \<Rightarrow> int option"
  iCoins_Add :: "coins \<Rightarrow> coin \<Rightarrow> coins option"
  qDenomTrace :: "string \<Rightarrow> ('w, string \<times> string) call"
  qDenomTraces :: "abi_value \<Rightarrow> ('w, (string \<times> string) list \<times> page_response option) call"
  qDenomHash :: "string \<Rightarrow> ('w, string) call"
  iCopyPage :: "abi_value \<Rightarrow> (string, abi_value) outcome"

definition TransferMsg :: string where "TransferMsg = ''/ibc.applications.transfer.v1.MsgTransfer''"

definition ics20_Address :: Address where "ics20_Address = 0x802"

definition ics20_out :: "'w Ics20Precompile \<Rightarrow> string \<Rightarrow> abi_value list \<Rightarrow> ('w prun, bytes) pm" where
  "ics20_out S method vs = pm_lift (PackOutputs (P_ABI (iP S)) method vs)"

subsection \<open>Arguments\<close>

fun int_coins :: "'w Precompile \<Rightarrow> coins \<Rightarrow> coins option" where
  "int_coins P [] = Some []"
| "int_coins P ((d, a) # cs) =
     (case (big_Int P a, int_coins P cs) of (Some i, Some is) \<Rightarrow> Some ((d, i) # is) | _ \<Rightarrow> None)"

text \<open>The allow list of the argument is not taken over.\<close>

fun to_allocations :: "'w Precompile \<Rightarrow> Allocation list \<Rightarrow> Allocation list option" where
  "to_allocations P [] = Some []"
| "to_allocations P (a # as) =
     (case (int_coins P (SpendLimit a), to_allocations P as) of
        (Some spendLimit, Some rest) \<Rightarrow>
          Some (\<lparr>SourcePort = SourcePort a, SourceChannel = SourceChannel a, SpendLimit = spendLimit, AllowList = []\<rparr> # rest)
      | _ \<Rightarrow> None)"

definition checkTransferAuthzArgs :: "'w Ics20Precompile \<Rightarrow> abi_value list \<Rightarrow> (string, Address \<times> Allocation list) outcome" where
  "checkTransferAuthzArgs S args =
     (case args of
        [a0, a1] \<Rightarrow>
          bind_outcome (case a0 of AVaddress g \<Rightarrow> Ok g | _ \<Rightarrow> Err ''invalid grantee address'') (\<lambda>grantee.
          bind_outcome (iCopyAllocations S a1) (\<lambda>input.
            (case to_allocations (iP S) input of None \<Rightarrow> Panic | Some allocations \<Rightarrow> Ok (grantee, allocations))))
      | _ \<Rightarrow> Err ''invalid number of arguments'')"

definition NewTransferAuthorization :: "'w Ics20Precompile \<Rightarrow> abi_value list \<Rightarrow> (string, Address \<times> Allocation list) outcome" where
  "NewTransferAuthorization S args =
     bind_outcome (checkTransferAuthzArgs S args) (\<lambda>(grantee, allocations).
     bind_outcome (iAuthz_ValidateBasic S allocations) (\<lambda>_. Ok (grantee, allocations)))"

definition arg_uint64 :: "string \<Rightarrow> abi_value \<Rightarrow> (string, uint64) outcome" where
  "arg_uint64 e v = (case v of AVuint n i \<Rightarrow> if n = 8 then Ok (word_of_int i) else Err e | _ \<Rightarrow> Err e)"

definition NewMsgTransfer :: "'w Ics20Precompile \<Rightarrow> abi_value list \<Rightarrow> (string, ics20_msg \<times> Address) outcome" where
  "NewMsgTransfer S args =
     (case args of
        [a0, a1, a2, a3, a4, a5, a6, a7, a8] \<Rightarrow>
          bind_outcome (arg_string ''invalid source port'' a0) (\<lambda>sourcePort.
          bind_outcome (arg_string ''invalid source port'' a1) (\<lambda>sourceChannel.
          bind_outcome (arg_string ''invalid denom'' a2) (\<lambda>denom.
          bind_outcome (arg_big ''invalid amount'' a3) (\<lambda>amount.
          bind_outcome (case a4 of AVaddress a \<Rightarrow> Ok a | _ \<Rightarrow> Err ''invalid sender'') (\<lambda>sender.
          bind_outcome (arg_string ''invalid receiver'' a5) (\<lambda>receiver.
          bind_outcome (iCopyHeight S a6) (\<lambda>height.
          bind_outcome (arg_uint64 ''invalid timeout timestamp'' a7) (\<lambda>timeoutTimestamp.
          bind_outcome (arg_string ''invalid memo'' a8) (\<lambda>memo.
            (case big_Int (iP S) amount of
               None \<Rightarrow> Panic
             | Some i \<Rightarrow>
                 let msg = \<lparr>im_SourcePort = sourcePort, im_SourceChannel = sourceChannel, im_Token = (denom, i),
                            im_Sender = acc_string (iP S) sender, im_Receiver = receiver, im_TimeoutHeight = height,
                            im_TimeoutTimestamp = timeoutTimestamp, im_Memo = memo\<rparr>
                 in bind_outcome (iMsg_ValidateBasic S msg) (\<lambda>_. Ok (msg, sender))))))))))))
      | _ \<Rightarrow> Err ''invalid number of arguments'')"

definition i_checkRevokeArgs :: "abi_value list \<Rightarrow> (string, Address) outcome" where
  "i_checkRevokeArgs args =
     (case args of [a0] \<Rightarrow> nonzero_address ''invalid grantee address'' a0 | _ \<Rightarrow> Err ''invalid number of arguments'')"

definition i_checkAllowanceArgs ::
  "abi_value list \<Rightarrow> (string, Address \<times> string \<times> string \<times> string \<times> int) outcome" where
  "i_checkAllowanceArgs args =
     (case args of
        [a0, a1, a2, a3, a4] \<Rightarrow>
          bind_outcome (nonzero_address ''invalid grantee address'' a0) (\<lambda>grantee.
          bind_outcome (arg_string ''invalid source port'' a1) (\<lambda>sourcePort.
          bind_outcome (arg_string ''invalid source port'' a2) (\<lambda>sourceChannel.
          bind_outcome (arg_string ''invalid denom'' a3) (\<lambda>denom.
          bind_outcome (arg_big ''invalid amount'' a4) (\<lambda>amount. Ok (grantee, sourcePort, sourceChannel, denom, amount))))))
      | _ \<Rightarrow> Err ''invalid number of arguments'')"

text \<open>Only the first allocation of a port and channel is looked at.\<close>

fun allocation_from ::
  "'w Ics20Precompile \<Rightarrow> nat \<Rightarrow> Allocation list \<Rightarrow> string \<Rightarrow> string \<Rightarrow> string \<Rightarrow> (string, int \<times> nat) outcome" where
  "allocation_from S i [] port chan denom = Err ''no matching allocation found''"
| "allocation_from S i (a # as) port chan denom =
     (if SourcePort a \<noteq> port \<or> SourceChannel a \<noteq> chan then allocation_from S (Suc i) as port chan denom
      else case iFind S (SpendLimit a) denom of
             None \<Rightarrow> Err ''no matching allocation found''
           | Some amount \<Rightarrow> Ok (amount, i))"

definition checkAllocationExists ::
  "'w Ics20Precompile \<Rightarrow> Allocation list \<Rightarrow> string \<Rightarrow> string \<Rightarrow> string \<Rightarrow> (string, int \<times> nat) outcome" where
  "checkAllocationExists S allocations port chan denom = allocation_from S 0 allocations port chan denom"

subsection \<open>Events\<close>

definition EmitIBCTransferAuthorizationEvent ::
  "'w Ics20Precompile \<Rightarrow> Address \<Rightarrow> Address \<Rightarrow> string \<Rightarrow> string \<Rightarrow> coins \<Rightarrow> ('w prun, unit) pm" where
  "EmitIBCTransferAuthorizationEvent S grantee granter port chan spendLimit =
     emit2 (iP S) ics20_Address ''IBCTransferAuthorization'' (AVaddress grantee) (AVaddress granter)
       (PackEvent (P_ABI (iP S)) ''IBCTransferAuthorization'' [2, 3, 4] [AVstring port, AVstring chan, NewCoinsResponse spendLimit])"

definition EmitIBCRevokeAuthorizationEvent :: "'w Ics20Precompile \<Rightarrow> Address \<Rightarrow> Address \<Rightarrow> ('w prun, unit) pm" where
  "EmitIBCRevokeAuthorizationEvent S grantee granter =
     emit2 (iP S) ics20_Address ''RevokeIBCTransferAuthorization'' (AVaddress grantee) (AVaddress granter) (Ok [])"

definition EmitIBCTransferEvent ::
  "'w Ics20Precompile \<Rightarrow> Address \<Rightarrow> string \<Rightarrow> string \<Rightarrow> string \<Rightarrow> coin \<Rightarrow> string \<Rightarrow> ('w prun, unit) pm" where
  "EmitIBCTransferEvent S sender receiver port chan token memo =
     emit2 (iP S) ics20_Address ''IBCTransfer'' (AVaddress sender) (AVstring receiver)
       (PackEvent (P_ABI (iP S)) ''IBCTransfer'' [2, 3, 4, 5, 6]
          [AVstring port, AVstring chan, AVstring (fst token), AVbig (snd token), AVstring memo])"

subsection \<open>Grants\<close>

fun channels_exist :: "'w Ics20Precompile \<Rightarrow> Allocation list \<Rightarrow> ('w prun, unit) pm" where
  "channels_exist S [] = pm_return ()"
| "channels_exist S (a # as) =
     pm_bind (on_ctx (iHasChannel S (SourcePort a) (SourceChannel a))) (\<lambda>found.
       if found then channels_exist S as else pm_fail ''channel not found'')"

definition i_Approve :: "'w Ics20Precompile \<Rightarrow> Address \<Rightarrow> string \<Rightarrow> abi_value list \<Rightarrow> ('w prun, bytes) pm" where
  "i_Approve S origin method args =
     pm_bind (pm_lift (NewTransferAuthorization S args)) (\<lambda>(grantee, allocations).
     pm_bind (channels_exist S allocations) (\<lambda>_.
     pm_bind (\<lambda>s. on_ctx (SaveGrant (iP S) grantee origin (TransferAuthz allocations)
         (Some (pBlockTime (iP S) (ctx (pr_db s)) + ApprovalExpiration (iP S)))) s) (\<lambda>_.
       (case allocations of
          [] \<Rightarrow> pm_some None
        | a # _ \<Rightarrow>
            pm_bind (EmitIBCTransferAuthorizationEvent S grantee origin (SourcePort a) (SourceChannel a) (SpendLimit a)) (\<lambda>_.
              ics20_out S method [AVbool True])))))"

text \<open>\<open>CheckAuthzExists\<close> with its error replaced.\<close>

definition transfer_grant :: "'w Ics20Precompile \<Rightarrow> Address \<Rightarrow> Address \<Rightarrow> ('w prun, grant) pm" where
  "transfer_grant S grantee granter = CheckAuthzExists (iP S) grantee granter TransferMsg"

definition i_Revoke :: "'w Ics20Precompile \<Rightarrow> Address \<Rightarrow> string \<Rightarrow> abi_value list \<Rightarrow> ('w prun, bytes) pm" where
  "i_Revoke S origin method args =
     pm_bind (pm_lift (i_checkRevokeArgs args)) (\<lambda>grantee.
     pm_bind (transfer_grant S grantee origin) (\<lambda>(a, _).
       (case a of
          TransferAuthz _ \<Rightarrow>
            pm_bind (on_ctx (DeleteGrant (iP S) grantee origin TransferMsg)) (\<lambda>_.
            pm_bind (EmitIBCRevokeAuthorizationEvent S grantee origin) (\<lambda>_. ics20_out S method [AVbool True]))
        | _ \<Rightarrow> pm_fail ''unknown authorization type'')))"

text \<open>The grant with new allocations, and the event that names the amount of the call.\<close>

definition save_allocations ::
  "'w Ics20Precompile \<Rightarrow> Address \<Rightarrow> Address \<Rightarrow> Allocation list \<Rightarrow> int option \<Rightarrow> int \<Rightarrow> string \<Rightarrow> ('w prun, bytes) pm" where
  "save_allocations S grantee origin allocations expiration amount method =
     pm_bind (on_ctx (SaveGrant (iP S) grantee origin (TransferAuthz allocations) expiration)) (\<lambda>_.
     pm_bind (EmitAllowanceChangeEvent (iP S) ics20_Address grantee origin [amount] [TransferMsg]) (\<lambda>_.
       ics20_out S method [AVbool True]))"

definition i_IncreaseAllowance :: "'w Ics20Precompile \<Rightarrow> Address \<Rightarrow> string \<Rightarrow> abi_value list \<Rightarrow> ('w prun, bytes) pm" where
  "i_IncreaseAllowance S origin method args =
     pm_bind (pm_lift (i_checkAllowanceArgs args)) (\<lambda>(grantee, port, chan, denom, amount).
     pm_bind (transfer_grant S grantee origin) (\<lambda>(a, expiration).
       (case a of
          TransferAuthz allocations \<Rightarrow>
            pm_bind (pm_lift (checkAllocationExists S allocations port chan denom)) (\<lambda>(spendLimit, idx).
            pm_bind (pm_some (big_Int (iP S) amount)) (\<lambda>allowance.
              if snd (SafeAdd spendLimit allowance) then pm_fail ''integer overflow''
              else pm_bind (pm_some (iCoins_Add S (SpendLimit (allocations ! idx)) (denom, allowance))) (\<lambda>coins.
                save_allocations S grantee origin (allocations[idx := (allocations ! idx)\<lparr>SpendLimit := coins\<rparr>]) expiration amount method)))
        | _ \<Rightarrow> pm_fail ''unknown authorization type'')))"

text \<open>
  The loop of \<open>DecreaseAllowance\<close> ranges over the slice it changes: the number of rounds is the length at
  the start, the elements are read from the array the slice shares, and removing one moves the later ones
  down in it. The state is the array and the length of the slice.
\<close>

fun decrease_loop :: "'w Precompile \<Rightarrow> string \<Rightarrow> int \<Rightarrow> nat \<Rightarrow> nat \<Rightarrow> coins \<Rightarrow> nat \<Rightarrow> coins option" where
  "decrease_loop P denom expense 0 i arr len = Some (take len arr)"
| "decrease_loop P denom expense (Suc n) i arr len =
     (if fst (arr ! i) \<noteq> denom then decrease_loop P denom expense n (Suc i) arr len
      else case pIntSub P (snd (arr ! i)) expense of
             None \<Rightarrow> None
           | Some diff \<Rightarrow>
               if i \<ge> len then None
               else if diff \<le> 0
               then decrease_loop P denom expense n (Suc i)
                      (take i arr @ take (len - Suc i) (drop (Suc i) arr) @ drop (len - 1) arr) (len - 1)
               else decrease_loop P denom expense n (Suc i) (arr[i := (denom, diff)]) len)"

definition decrease_limit :: "'w Precompile \<Rightarrow> string \<Rightarrow> int \<Rightarrow> coins \<Rightarrow> coins option" where
  "decrease_limit P denom expense cs = decrease_loop P denom expense (length cs) 0 cs (length cs)"

definition i_DecreaseAllowance :: "'w Ics20Precompile \<Rightarrow> Address \<Rightarrow> string \<Rightarrow> abi_value list \<Rightarrow> ('w prun, bytes) pm" where
  "i_DecreaseAllowance S origin method args =
     pm_bind (pm_lift (i_checkAllowanceArgs args)) (\<lambda>(grantee, port, chan, denom, amount).
     pm_bind (transfer_grant S grantee origin) (\<lambda>(a, expiration).
       (case a of
          TransferAuthz allocations \<Rightarrow>
            pm_bind (pm_lift (checkAllocationExists S allocations port chan denom)) (\<lambda>(spendLimit, idx).
            pm_bind (pm_some (big_Int (iP S) amount)) (\<lambda>expense.
              if spendLimit < expense then pm_fail ''negative amount''
              else pm_bind (pm_some (decrease_limit (iP S) denom expense (SpendLimit (allocations ! idx)))) (\<lambda>coins.
                save_allocations S grantee origin (allocations[idx := (allocations ! idx)\<lparr>SpendLimit := coins\<rparr>]) expiration amount method)))
        | _ \<Rightarrow> pm_fail ''unknown authorization type'')))"

definition AcceptGrant :: "'w Ics20Precompile \<Rightarrow> ics20_msg \<Rightarrow> Authorization \<Rightarrow> ('w prun, AcceptResponse) pm" where
  "AcceptGrant S msg a =
     (case a of
        TransferAuthz allocations \<Rightarrow>
          pm_bind (on_ctx (iAccept S allocations msg)) (\<lambda>resp.
            if ar_Accept resp then pm_return resp else pm_fail ''authorization is not accepted'')
      | _ \<Rightarrow> pm_fail ''unknown authorization type'')"

definition UpdateGrant :: "'w Ics20Precompile \<Rightarrow> Address \<Rightarrow> Address \<Rightarrow> int option \<Rightarrow> AcceptResponse \<Rightarrow> ('w prun, unit) pm" where
  "UpdateGrant S grantee origin expiration resp =
     (if ar_Delete resp then on_ctx (DeleteGrant (iP S) grantee origin TransferMsg)
      else case ar_Updated resp of
             None \<Rightarrow> pm_return ()
           | Some a \<Rightarrow> on_ctx (SaveGrant (iP S) grantee origin a expiration))"

subsection \<open>Transfers\<close>

definition TransferMethod :: string where "TransferMethod = ''transfer''"

definition i_Transfer ::
  "'w Ics20Precompile \<Rightarrow> Address \<Rightarrow> pcontract \<Rightarrow> string \<Rightarrow> abi_value list \<Rightarrow> ('w prun, bytes) pm" where
  "i_Transfer S origin contract method args =
     pm_bind (pm_lift (NewMsgTransfer S args)) (\<lambda>(msg, sender0).
     pm_bind (on_ctx (iHasChannel S (im_SourcePort msg) (im_SourceChannel msg))) (\<lambda>found.
       if \<not> found then pm_fail ''channel not found''
       else
     pm_bind (pm_lift (if CallerAddress contract = sender0 then Ok origin
         else if origin \<noteq> sender0 then Err ''origin address is not the same as sender address''
         else Ok sender0)) (\<lambda>sender.
     pm_bind (if CallerAddress contract = origin then pm_return None
         else pm_bind (transfer_grant S (CallerAddress contract) origin) (\<lambda>(a, expiration).
              pm_bind (AcceptGrant S msg a) (\<lambda>resp. pm_return (Some (resp, expiration))))) (\<lambda>g.
     pm_bind (on_ctx (iTransferKeeper S msg)) (\<lambda>(sequence, token).
     pm_bind (case g of None \<Rightarrow> pm_return ()
         | Some (resp, expiration) \<Rightarrow> UpdateGrant S (CallerAddress contract) origin expiration resp) (\<lambda>_.
     pm_bind (EmitIBCTransferEvent S sender (im_Receiver msg) (im_SourcePort msg) (im_SourceChannel msg) token (im_Memo msg)) (\<lambda>_.
       ics20_out S method [AVuint 8 (uint sequence)])))))))"

subsection \<open>Queries\<close>

definition trace_value :: "string \<times> string \<Rightarrow> abi_value" where
  "trace_value t = AVtuple [AVstring (fst t), AVstring (snd t)]"

definition i_DenomTrace :: "'w Ics20Precompile \<Rightarrow> string \<Rightarrow> abi_value list \<Rightarrow> ('w prun, bytes) pm" where
  "i_DenomTrace S method args =
     pm_bind (pm_lift (case args of [a0] \<Rightarrow> arg_string ''invalid hash'' a0 | _ \<Rightarrow> Err ''invalid input arguments'')) (\<lambda>hash.
       or_default (on_ctx (qDenomTrace S hash)) ''denomination trace not found''
         (\<lambda>t. ics20_out S method [trace_value t]) (ics20_out S method [trace_value ([], [])]))"

definition i_DenomTraces :: "'w Ics20Precompile \<Rightarrow> string \<Rightarrow> abi_value list \<Rightarrow> ('w prun, bytes) pm" where
  "i_DenomTraces S method args =
     pm_bind (pm_lift (case args of [a0] \<Rightarrow> iCopyPage S a0 | _ \<Rightarrow> Err ''invalid number of arguments'')) (\<lambda>page.
     pm_bind (on_ctx (qDenomTraces S page)) (\<lambda>(ts, p). ics20_out S method [AVarray (map trace_value ts), page_value p]))"

definition i_DenomHash :: "'w Ics20Precompile \<Rightarrow> string \<Rightarrow> abi_value list \<Rightarrow> ('w prun, bytes) pm" where
  "i_DenomHash S method args =
     pm_bind (pm_lift (case args of [a0] \<Rightarrow> arg_string ''invalid denom trace'' a0 | _ \<Rightarrow> Err ''invalid input arguments'')) (\<lambda>trace.
       or_default (on_ctx (qDenomHash S trace)) ''denomination trace not found''
         (\<lambda>h. ics20_out S method [AVstring h]) (ics20_out S method [AVstring []]))"

definition allocation_value :: "Allocation \<Rightarrow> abi_value" where
  "allocation_value a =
     AVtuple [AVstring (SourcePort a), AVstring (SourceChannel a), NewCoinsResponse (SpendLimit a), AVstrings (AllowList a)]"

definition i_Allowance :: "'w Ics20Precompile \<Rightarrow> string \<Rightarrow> abi_value list \<Rightarrow> ('w prun, bytes) pm" where
  "i_Allowance S method args =
     pm_bind (pm_lift (CheckAllowanceArgs (args @ [AVstring TransferMsg]))) (\<lambda>(grantee, granter, msg).
     pm_bind (on_ctx (GetAuthorization (iP S) grantee granter msg)) (\<lambda>r.
       (case r of
          None \<Rightarrow> ics20_out S method [AVarray []]
        | Some (TransferAuthz as, _) \<Rightarrow> ics20_out S method [AVarray (map allocation_value as)]
        | Some _ \<Rightarrow> pm_fail ''invalid type for transfer authorization'')))"

subsection \<open>Running a call\<close>

definition i_IsTransaction :: "string \<Rightarrow> bool" where
  "i_IsTransaction method \<longleftrightarrow>
     method \<in> {TransferMethod, ApproveMethod, RevokeMethod, IncreaseAllowanceMethod, DecreaseAllowanceMethod}"

definition i_RequiredGas :: "'w Ics20Precompile \<Rightarrow> bytes \<Rightarrow> uint64 option" where
  "i_RequiredGas S input = p_RequiredGas (iP S) i_IsTransaction input"

definition i_method :: "'w Ics20Precompile \<Rightarrow> Address \<Rightarrow> pcontract \<Rightarrow> string \<Rightarrow> abi_value list \<Rightarrow> ('w prun, bytes) pm" where
  "i_method S origin contract method args =
     (if method = ApproveMethod then i_Approve S origin method args
      else if method = RevokeMethod then i_Revoke S origin method args
      else if method = IncreaseAllowanceMethod then i_IncreaseAllowance S origin method args
      else if method = DecreaseAllowanceMethod then i_DecreaseAllowance S origin method args
      else if method = TransferMethod then i_Transfer S origin contract method args
      else if method = ''denomTrace'' then i_DenomTrace S method args
      else if method = ''denomTraces'' then i_DenomTraces S method args
      else if method = ''denomHash'' then i_DenomHash S method args
      else if method = AllowanceMethod then i_Allowance S method args
      else pm_fail ''unknown method'')"

definition i_Run ::
  "'w Ics20Precompile \<Rightarrow> Address \<Rightarrow> 'w StateDB \<Rightarrow> pcontract \<Rightarrow> bool \<Rightarrow> (string, bytes) outcome \<times> pcontract \<times> 'w StateDB" where
  "i_Run S origin db contract readOnly =
     (case RunSetup (iP S) i_IsTransaction db contract readOnly of
        Panic \<Rightarrow> (Panic, contract, db)
      | Err e \<Rightarrow> (Err e, contract, db)
      | Ok (s, method, initialGas, args) \<Rightarrow> finish_run initialGas contract (i_method S origin contract method args s))"

end
