(* ===== verification/Precompile_Distribution.thy ===== *)
theory Precompile_Distribution
  imports Precompile_Ics20
begin

text \<open>
  The distribution extension, \<open>precompiles/distribution\<close>: withdraw addresses, rewards of delegators and
  commissions of validators, for the origin of a transaction or for the calling contract itself. The
  distribution module's message server and queries are fields of the record \<open>DistPrecompile\<close>. A decimal of
  the SDK is the integer it stores, in units of \<open>10\<^sup>-\<^sup>1\<^sup>8\<close>.
\<close>

subsection \<open>The struct and numbers\<close>

record slash_event =
  se_ValidatorPeriod :: uint64
  se_Fraction :: int

record 'w DistPrecompile =
  dP :: "'w Precompile"
  dSetWithdrawAddress :: "string \<Rightarrow> string \<Rightarrow> ('w, unit) call"
  dWithdrawDelegatorReward :: "string \<Rightarrow> string \<Rightarrow> ('w, coins) call"
  dWithdrawValidatorCommission :: "string \<Rightarrow> ('w, coins) call"
  dSetWithdraw_ValidateBasic :: "string \<Rightarrow> string \<Rightarrow> (string, unit) outcome"
  dReward_ValidateBasic :: "string \<Rightarrow> string \<Rightarrow> (string, unit) outcome"
  dCommission_ValidateBasic :: "string \<Rightarrow> (string, unit) outcome"
  dCopySlashesInput :: "abi_value list \<Rightarrow> (string, string \<times> uint64 \<times> uint64 \<times> abi_value) outcome"
  qDistributionInfo :: "string \<Rightarrow> ('w, string \<times> coins \<times> coins) call"
  qOutstandingRewards :: "string \<Rightarrow> ('w, coins) call"
  qCommission :: "string \<Rightarrow> ('w, coins) call"
  qSlashes :: "string \<Rightarrow> uint64 \<Rightarrow> uint64 \<Rightarrow> abi_value \<Rightarrow> ('w, slash_event list \<times> page_response option) call"
  qDelegationRewards :: "string \<Rightarrow> string \<Rightarrow> ('w, coins) call"
  qTotalRewards :: "string \<Rightarrow> ('w, (string \<times> coins) list \<times> coins) call"
  qDelegatorValidators :: "string \<Rightarrow> ('w, string list) call"
  qWithdrawAddress :: "string \<Rightarrow> ('w, string) call"

definition dist_Address :: Address where "dist_Address = 0x801"

definition dist_out :: "'w DistPrecompile \<Rightarrow> string \<Rightarrow> abi_value list \<Rightarrow> ('w prun, bytes) pm" where
  "dist_out S method vs = pm_lift (PackOutputs (P_ABI (dP S)) method vs)"

definition sdk_Precision :: int where "sdk_Precision = 18"

definition dec_TruncateInt :: "int \<Rightarrow> int" where
  "dec_TruncateInt d = sgn d * (\<bar>d\<bar> div 10 ^ 18)"

definition NewDecCoinsResponse :: "coins \<Rightarrow> abi_value" where
  "NewDecCoinsResponse amount =
     AVarray (map (\<lambda>(d, a). AVtuple [AVstring d, AVbig (dec_TruncateInt a), AVuint 1 sdk_Precision]) amount)"

definition HexAddressFromBech32String :: "'w Precompile \<Rightarrow> string \<Rightarrow> (string, Address) outcome" where
  "HexAddressFromBech32String P addr =
     (if str_contains addr ''val''
      then bind_outcome (pValAddressFromBech32 P addr) (\<lambda>b. Ok (word_of_nat (be_nat b)))
      else case pAccAddressFromBech32 P addr of Ok b \<Rightarrow> Ok (word_of_nat (be_nat b)) | _ \<Rightarrow> Panic)"

subsection \<open>Arguments\<close>

text \<open>A failed assertion whose flag is ignored leaves the empty string.\<close>

definition string_or_empty :: "abi_value \<Rightarrow> string" where
  "string_or_empty v = (case v of AVstring s \<Rightarrow> s | _ \<Rightarrow> [])"

definition NewMsgSetWithdrawAddress :: "'w DistPrecompile \<Rightarrow> abi_value list \<Rightarrow> (string, (string \<times> string) \<times> Address) outcome" where
  "NewMsgSetWithdrawAddress S args =
     (case args of
        [a0, a1] \<Rightarrow>
          bind_outcome (nonzero_address ''invalid delegator address'' a0) (\<lambda>delegator.
          let w = string_or_empty a1 in
          bind_outcome (if libIsHexAddress (plib (dP S)) w then pBech32ify (dP S) (AddressBytes (HexToAddress (plib (dP S)) w)) else Ok w) (\<lambda>withdrawer.
          let delegatorS = acc_string (dP S) delegator in
          bind_outcome (dSetWithdraw_ValidateBasic S delegatorS withdrawer) (\<lambda>_. Ok ((delegatorS, withdrawer), delegator))))
      | _ \<Rightarrow> Err ''invalid number of arguments'')"

definition NewMsgWithdrawDelegatorReward :: "'w DistPrecompile \<Rightarrow> abi_value list \<Rightarrow> (string, (string \<times> string) \<times> Address) outcome" where
  "NewMsgWithdrawDelegatorReward S args =
     (case args of
        [a0, a1] \<Rightarrow>
          bind_outcome (nonzero_address ''invalid delegator address'' a0) (\<lambda>delegator.
          let delegatorS = acc_string (dP S) delegator; validator = string_or_empty a1 in
          bind_outcome (dReward_ValidateBasic S delegatorS validator) (\<lambda>_. Ok ((delegatorS, validator), delegator)))
      | _ \<Rightarrow> Err ''invalid number of arguments'')"

definition NewMsgWithdrawValidatorCommission :: "'w DistPrecompile \<Rightarrow> abi_value list \<Rightarrow> (string, string \<times> Address) outcome" where
  "NewMsgWithdrawValidatorCommission S args =
     (case args of
        [a0] \<Rightarrow>
          let validator = string_or_empty a0 in
          bind_outcome (dCommission_ValidateBasic S validator) (\<lambda>_.
          bind_outcome (HexAddressFromBech32String (dP S) validator) (\<lambda>hex. Ok (validator, hex)))
      | _ \<Rightarrow> Err ''invalid number of arguments'')"

text \<open>
  \<open>NewValidatorDistributionInfoRequest\<close>, \<open>NewValidatorOutstandingRewardsRequest\<close> and
  \<open>NewValidatorCommissionRequest\<close> take a validator; \<open>NewDelegationTotalRewardsRequest\<close>,
  \<open>NewDelegatorValidatorsRequest\<close> and \<open>NewDelegatorWithdrawAddressRequest\<close> a delegator.
\<close>

definition validator_request :: "abi_value list \<Rightarrow> (string, string) outcome" where
  "validator_request args = (case args of [a0] \<Rightarrow> Ok (string_or_empty a0) | _ \<Rightarrow> Err ''invalid number of arguments'')"

definition delegator_request :: "'w DistPrecompile \<Rightarrow> abi_value list \<Rightarrow> (string, string) outcome" where
  "delegator_request S args =
     (case args of
        [a0] \<Rightarrow> bind_outcome (nonzero_address ''invalid delegator address'' a0) (\<lambda>d. Ok (acc_string (dP S) d))
      | _ \<Rightarrow> Err ''invalid number of arguments'')"

definition NewValidatorSlashesRequest ::
  "'w DistPrecompile \<Rightarrow> abi_value list \<Rightarrow> (string, string \<times> uint64 \<times> uint64 \<times> abi_value) outcome" where
  "NewValidatorSlashesRequest S args =
     (case args of
        [a0, a1, a2, a3] \<Rightarrow>
          bind_outcome (arg_uint64 ''invalid type for startingHeight'' a1) (\<lambda>_.
          bind_outcome (arg_uint64 ''invalid type for endingHeight'' a2) (\<lambda>_. dCopySlashesInput S args))
      | _ \<Rightarrow> Err ''invalid number of arguments'')"

definition NewDelegationRewardsRequest :: "'w DistPrecompile \<Rightarrow> abi_value list \<Rightarrow> (string, string \<times> string) outcome" where
  "NewDelegationRewardsRequest S args =
     (case args of
        [a0, a1] \<Rightarrow>
          bind_outcome (nonzero_address ''invalid delegator address'' a0) (\<lambda>d. Ok (acc_string (dP S) d, string_or_empty a1))
      | _ \<Rightarrow> Err ''invalid number of arguments'')"

subsection \<open>Events\<close>

definition EmitSetWithdrawAddressEvent :: "'w DistPrecompile \<Rightarrow> Address \<Rightarrow> string \<Rightarrow> ('w prun, unit) pm" where
  "EmitSetWithdrawAddressEvent S caller withdrawer =
     pm_bind (make_topic (AVaddress caller)) (\<lambda>h1.
     pm_bind (pm_lift (PackEvent (P_ABI (dP S)) ''SetWithdrawerAddress'' [1] [AVstring withdrawer])) (\<lambda>data.
       add_log dist_Address [EventID (P_ABI (dP S)) ''SetWithdrawerAddress'', h1] data))"

text \<open>Both events of a withdrawal carry the amount of the first coin, which is read without a check.\<close>

definition first_amount :: "coins \<Rightarrow> ('s, int) pm" where
  "first_amount cs = pm_some (case cs of [] \<Rightarrow> None | (_, a) # _ \<Rightarrow> Some a)"

definition EmitWithdrawDelegatorRewardsEvent :: "'w DistPrecompile \<Rightarrow> Address \<Rightarrow> string \<Rightarrow> coins \<Rightarrow> ('w prun, unit) pm" where
  "EmitWithdrawDelegatorRewardsEvent S delegator validator cs =
     pm_bind (make_topic (AVaddress delegator)) (\<lambda>h1.
     pm_bind (make_topic (AVstring validator)) (\<lambda>h2.
     pm_bind (first_amount cs) (\<lambda>a.
     pm_bind (pm_some (PackNum (AVbig a))) (\<lambda>data.
       add_log dist_Address [EventID (P_ABI (dP S)) ''WithdrawDelegatorRewards'', h1, h2] data))))"

definition EmitWithdrawValidatorCommissionEvent :: "'w DistPrecompile \<Rightarrow> string \<Rightarrow> coins \<Rightarrow> ('w prun, unit) pm" where
  "EmitWithdrawValidatorCommissionEvent S validator cs =
     pm_bind (make_topic (AVstring validator)) (\<lambda>h1.
     pm_bind (first_amount cs) (\<lambda>a.
     pm_bind (pm_some (PackNum (AVbig a))) (\<lambda>data.
       add_log dist_Address [EventID (P_ABI (dP S)) ''WithdrawValidatorCommission'', h1] data)))"

subsection \<open>Transactions\<close>

definition own_or_origin :: "Address \<Rightarrow> Address \<Rightarrow> Address \<Rightarrow> ('s, unit) pm" where
  "own_or_origin caller origin a =
     (if caller \<noteq> a \<and> origin \<noteq> a then pm_fail ''tx origin address does not match the delegator address'' else pm_return ())"

definition d_SetWithdrawAddress ::
  "'w DistPrecompile \<Rightarrow> Address \<Rightarrow> pcontract \<Rightarrow> string \<Rightarrow> abi_value list \<Rightarrow> ('w prun, bytes) pm" where
  "d_SetWithdrawAddress S origin contract method args =
     pm_bind (pm_lift (NewMsgSetWithdrawAddress S args)) (\<lambda>((delegatorS, withdrawer), delegator).
     pm_bind (own_or_origin (CallerAddress contract) origin delegator) (\<lambda>_.
     pm_bind (on_ctx (dSetWithdrawAddress S delegatorS withdrawer)) (\<lambda>_.
     pm_bind (EmitSetWithdrawAddressEvent S delegator withdrawer) (\<lambda>_. dist_out S method [AVbool True]))))"

definition add_balance :: "Address \<Rightarrow> int \<Rightarrow> ('w prun, unit) pm" where
  "add_balance addr amount s = (Ok (), s\<lparr>pr_db := AddBalance (pr_db s) addr amount\<rparr>)"

definition d_WithdrawDelegatorRewards ::
  "'w DistPrecompile \<Rightarrow> Address \<Rightarrow> pcontract \<Rightarrow> string \<Rightarrow> abi_value list \<Rightarrow> ('w prun, bytes) pm" where
  "d_WithdrawDelegatorRewards S origin contract method args =
     pm_bind (pm_lift (NewMsgWithdrawDelegatorReward S args)) (\<lambda>((delegatorS, validator), delegator).
     pm_bind (own_or_origin (CallerAddress contract) origin delegator) (\<lambda>_.
     pm_bind (on_ctx (dWithdrawDelegatorReward S delegatorS validator)) (\<lambda>amount.
     pm_bind (EmitWithdrawDelegatorRewardsEvent S delegator validator amount) (\<lambda>_.
     pm_bind (if CallerAddress contract = delegator then pm_bind (first_amount amount) (add_balance (CallerAddress contract)) else pm_return ()) (\<lambda>_.
       dist_out S method [NewCoinsResponse amount])))))"

definition d_WithdrawValidatorCommission ::
  "'w DistPrecompile \<Rightarrow> Address \<Rightarrow> pcontract \<Rightarrow> string \<Rightarrow> abi_value list \<Rightarrow> ('w prun, bytes) pm" where
  "d_WithdrawValidatorCommission S origin contract method args =
     pm_bind (pm_lift (NewMsgWithdrawValidatorCommission S args)) (\<lambda>(validator, hex).
     pm_bind (own_or_origin (CallerAddress contract) origin hex) (\<lambda>_.
     pm_bind (on_ctx (dWithdrawValidatorCommission S validator)) (\<lambda>amount.
     pm_bind (EmitWithdrawValidatorCommissionEvent S validator amount) (\<lambda>_.
       dist_out S method [NewCoinsResponse amount]))))"

subsection \<open>Queries\<close>

definition d_ValidatorDistributionInfo :: "'w DistPrecompile \<Rightarrow> string \<Rightarrow> abi_value list \<Rightarrow> ('w prun, bytes) pm" where
  "d_ValidatorDistributionInfo S method args =
     pm_bind (pm_lift (validator_request args)) (\<lambda>v.
     pm_bind (on_ctx (qDistributionInfo S v)) (\<lambda>(operator, selfBond, commission).
       dist_out S method [AVtuple [AVstring operator, NewDecCoinsResponse selfBond, NewDecCoinsResponse commission]]))"

definition d_ValidatorOutstandingRewards :: "'w DistPrecompile \<Rightarrow> string \<Rightarrow> abi_value list \<Rightarrow> ('w prun, bytes) pm" where
  "d_ValidatorOutstandingRewards S method args =
     pm_bind (pm_lift (validator_request args)) (\<lambda>v.
     pm_bind (on_ctx (qOutstandingRewards S v)) (\<lambda>cs. dist_out S method [NewDecCoinsResponse cs]))"

definition d_ValidatorCommission :: "'w DistPrecompile \<Rightarrow> string \<Rightarrow> abi_value list \<Rightarrow> ('w prun, bytes) pm" where
  "d_ValidatorCommission S method args =
     pm_bind (pm_lift (validator_request args)) (\<lambda>v.
     pm_bind (on_ctx (qCommission S v)) (\<lambda>cs. dist_out S method [NewDecCoinsResponse cs]))"

definition d_ValidatorSlashes :: "'w DistPrecompile \<Rightarrow> string \<Rightarrow> abi_value list \<Rightarrow> ('w prun, bytes) pm" where
  "d_ValidatorSlashes S method args =
     pm_bind (pm_lift (NewValidatorSlashesRequest S args)) (\<lambda>(v, start, end_height, page).
     pm_bind (on_ctx (qSlashes S v start end_height page)) (\<lambda>(es, p).
       dist_out S method
         [AVarray (map (\<lambda>e. AVtuple [AVuint 8 (uint (se_ValidatorPeriod e)), AVtuple [AVbig (se_Fraction e), AVuint 1 sdk_Precision]]) es),
          page_value p]))"

definition d_DelegationRewards :: "'w DistPrecompile \<Rightarrow> string \<Rightarrow> abi_value list \<Rightarrow> ('w prun, bytes) pm" where
  "d_DelegationRewards S method args =
     pm_bind (pm_lift (NewDelegationRewardsRequest S args)) (\<lambda>(d, v).
     pm_bind (on_ctx (qDelegationRewards S d v)) (\<lambda>cs. dist_out S method [NewDecCoinsResponse cs]))"

definition d_DelegationTotalRewards :: "'w DistPrecompile \<Rightarrow> string \<Rightarrow> abi_value list \<Rightarrow> ('w prun, bytes) pm" where
  "d_DelegationTotalRewards S method args =
     pm_bind (pm_lift (delegator_request S args)) (\<lambda>d.
     pm_bind (on_ctx (qTotalRewards S d)) (\<lambda>(rs, tot).
       dist_out S method [AVarray (map (\<lambda>(v, r). AVtuple [AVstring v, NewDecCoinsResponse r]) rs), NewDecCoinsResponse tot]))"

definition d_DelegatorValidators :: "'w DistPrecompile \<Rightarrow> string \<Rightarrow> abi_value list \<Rightarrow> ('w prun, bytes) pm" where
  "d_DelegatorValidators S method args =
     pm_bind (pm_lift (delegator_request S args)) (\<lambda>d.
     pm_bind (on_ctx (qDelegatorValidators S d)) (\<lambda>vs. dist_out S method [AVstrings vs]))"

definition d_DelegatorWithdrawAddress :: "'w DistPrecompile \<Rightarrow> string \<Rightarrow> abi_value list \<Rightarrow> ('w prun, bytes) pm" where
  "d_DelegatorWithdrawAddress S method args =
     pm_bind (pm_lift (delegator_request S args)) (\<lambda>d.
     pm_bind (on_ctx (qWithdrawAddress S d)) (\<lambda>a. dist_out S method [AVstring a]))"

subsection \<open>Running a call\<close>

definition SetWithdrawAddressMethod :: string where "SetWithdrawAddressMethod = ''setWithdrawAddress''"
definition WithdrawDelegatorRewardsMethod :: string where "WithdrawDelegatorRewardsMethod = ''withdrawDelegatorRewards''"
definition WithdrawValidatorCommissionMethod :: string where
  "WithdrawValidatorCommissionMethod = ''withdrawValidatorCommission''"

definition d_IsTransaction :: "string \<Rightarrow> bool" where
  "d_IsTransaction method \<longleftrightarrow>
     method \<in> {SetWithdrawAddressMethod, WithdrawDelegatorRewardsMethod, WithdrawValidatorCommissionMethod}"

definition d_RequiredGas :: "'w DistPrecompile \<Rightarrow> bytes \<Rightarrow> uint64 option" where
  "d_RequiredGas S input = p_RequiredGas (dP S) d_IsTransaction input"

definition d_method :: "'w DistPrecompile \<Rightarrow> Address \<Rightarrow> pcontract \<Rightarrow> string \<Rightarrow> abi_value list \<Rightarrow> ('w prun, bytes) pm" where
  "d_method S origin contract method args =
     (if method = SetWithdrawAddressMethod then d_SetWithdrawAddress S origin contract method args
      else if method = WithdrawDelegatorRewardsMethod then d_WithdrawDelegatorRewards S origin contract method args
      else if method = WithdrawValidatorCommissionMethod then d_WithdrawValidatorCommission S origin contract method args
      else if method = ''validatorDistributionInfo'' then d_ValidatorDistributionInfo S method args
      else if method = ''validatorOutstandingRewards'' then d_ValidatorOutstandingRewards S method args
      else if method = ''validatorCommission'' then d_ValidatorCommission S method args
      else if method = ''validatorSlashes'' then d_ValidatorSlashes S method args
      else if method = ''delegationRewards'' then d_DelegationRewards S method args
      else if method = ''delegationTotalRewards'' then d_DelegationTotalRewards S method args
      else if method = ''delegatorValidators'' then d_DelegatorValidators S method args
      else if method = ''delegatorWithdrawAddress'' then d_DelegatorWithdrawAddress S method args
      else pm_return [])"

definition d_Run ::
  "'w DistPrecompile \<Rightarrow> Address \<Rightarrow> 'w StateDB \<Rightarrow> pcontract \<Rightarrow> bool \<Rightarrow> (string, bytes) outcome \<times> pcontract \<times> 'w StateDB" where
  "d_Run S origin db contract readOnly =
     (case RunSetup (dP S) d_IsTransaction db contract readOnly of
        Panic \<Rightarrow> (Panic, contract, db)
      | Err e \<Rightarrow> (Err e, contract, db)
      | Ok (s, method, initialGas, args) \<Rightarrow> finish_run initialGas contract (d_method S origin contract method args s))"

end
