(* ===== verification/Precompile_Vesting.thy ===== *)
theory Precompile_Vesting
  imports Precompile_Distribution Vesting_Keeper
begin

text \<open>
  The vesting extension, \<open>precompiles/vesting\<close>, on the modelled vesting keeper: the context holds the
  keeper's (\<open>vGet\<close>, \<open>vPut\<close>). A call that fails keeps what the keeper wrote before the error,
  which a message of the chain would discard. The only calls of the keeper's messages that can fail behind a
  write are the transfers of coins at their end, so the state of a failed message is the one the message has
  when the transfer does nothing. The gas that the keeper's accesses to the stores cost is not modelled here,
  and a transfer that fails writes nothing.
\<close>

subsection \<open>The struct and the keeper's messages\<close>

record ('w, 'b, 'm) VestingPrecompile =
  vP :: "'w Precompile"
  vC :: "coins coin_ops"
  vK :: "('b, coins, 'm) vkeeper"
  vGet :: "'w \<Rightarrow> 'm vctx"
  vPut :: "'m vctx \<Rightarrow> 'w \<Rightarrow> 'w"
  vNewCoin :: "string \<Rightarrow> int \<Rightarrow> coin option"
  vCopyPeriods :: "abi_value \<Rightarrow> (string, (int \<times> coins) list) outcome"

definition no_transfer :: "('b, 'c, 'm) vkeeper \<Rightarrow> ('b, 'c, 'm) vkeeper" where
  "no_transfer K = K\<lparr>SendCoins := (\<lambda>m _ _ _. Ok m), FundCommunityPool := (\<lambda>m _ _. Ok m)\<rparr>"

definition keeper_message ::
  "(('b, 'c, 'm) vkeeper \<Rightarrow> 'm vctx \<Rightarrow> (string, 'a \<times> 'm vctx) outcome) \<Rightarrow> ('b, 'c, 'm) vkeeper \<Rightarrow> 'm vctx \<Rightarrow>
     (pre_error, 'a) outcome \<times> 'm vctx" where
  "keeper_message f K c =
     (let failed = (case f (no_transfer K) c of Ok (_, c1) \<Rightarrow> c1 | _ \<Rightarrow> c)
      in case f K c of Ok (a, c') \<Rightarrow> (Ok a, c') | Err e \<Rightarrow> (Err (Failed e), failed) | Panic \<Rightarrow> (Panic, failed))"

definition vesting_call ::
  "('w, 'b, 'm) VestingPrecompile \<Rightarrow> (('b, coins, 'm) vkeeper \<Rightarrow> 'm vctx \<Rightarrow> (string, 'a \<times> 'm vctx) outcome) \<Rightarrow> ('w prun, 'a) pm" where
  "vesting_call S f =
     on_ctx (\<lambda>(w, g). case keeper_message f (vK S) (vGet S w) of (r, c') \<Rightarrow> (r, (vPut S c' w, g)))"

text \<open>A message without a result.\<close>

definition no_result :: "(string, 'm vctx) outcome \<Rightarrow> (string, unit \<times> 'm vctx) outcome" where
  "no_result r = bind_outcome r (\<lambda>c. Ok ((), c))"

definition vesting_Address :: Address where "vesting_Address = 0x803"

definition vesting_out :: "('w, 'b, 'm) VestingPrecompile \<Rightarrow> string \<Rightarrow> abi_value list \<Rightarrow> ('w prun, bytes) pm" where
  "vesting_out S method vs = pm_lift (PackOutputs (P_ABI (vP S)) method vs)"

subsection \<open>Arguments\<close>

definition arg_address :: "string \<Rightarrow> abi_value \<Rightarrow> (string, Address) outcome" where
  "arg_address e v = (case v of AVaddress a \<Rightarrow> Ok a | _ \<Rightarrow> Err e)"

definition validateBasicArgs :: "abi_value list \<Rightarrow> nat \<Rightarrow> (string, Address \<times> Address) outcome" where
  "validateBasicArgs args expectedLength =
     (if length args \<noteq> expectedLength then Err ''invalid number of arguments''
      else bind_outcome (arg_address ''invalid type for funderAddress'' (args ! 0)) (\<lambda>funder.
           bind_outcome (arg_address ''invalid type for vestingAddress'' (args ! 1)) (\<lambda>vesting. Ok (funder, vesting))))"

definition NewMsgCreateClawbackVestingAccount ::
  "('w, 'b, 'm) VestingPrecompile \<Rightarrow> abi_value list \<Rightarrow> (string, (string \<times> string \<times> bool) \<times> Address \<times> Address) outcome" where
  "NewMsgCreateClawbackVestingAccount S args =
     bind_outcome (validateBasicArgs args 3) (\<lambda>(funder, vesting).
     bind_outcome (case args ! 2 of AVbool b \<Rightarrow> Ok b | _ \<Rightarrow> Err ''invalid type for enableGovClawback'') (\<lambda>gov.
     let f = acc_string (vP S) funder; v = acc_string (vP S) vesting in
     bind_outcome (Create_ValidateBasic (vK S) f v) (\<lambda>_. Ok ((f, v, gov), funder, vesting))))"

fun new_coins :: "('w, 'b, 'm) VestingPrecompile \<Rightarrow> coins \<Rightarrow> coins option" where
  "new_coins S [] = Some []"
| "new_coins S ((d, a) # cs) =
     (case big_Int (vP S) a of
        None \<Rightarrow> None
      | Some i \<Rightarrow>
          (case (vNewCoin S d i, new_coins S cs) of (Some c, Some rest) \<Rightarrow> Some (c # rest) | _ \<Rightarrow> None))"

fun createCosmosPeriodsFromPeriod :: "('w, 'b, 'm) VestingPrecompile \<Rightarrow> (int \<times> coins) list \<Rightarrow> coins Periods option" where
  "createCosmosPeriodsFromPeriod S [] = Some []"
| "createCosmosPeriodsFromPeriod S ((n, cs) # ps) =
     (case (new_coins S cs, createCosmosPeriodsFromPeriod S ps) of
        (Some amount, Some rest) \<Rightarrow> Some (\<lparr>Length = n, Amount = amount\<rparr> # rest) | _ \<Rightarrow> None)"

definition NewMsgFundVestingAccount ::
  "('w, 'b, 'm) VestingPrecompile \<Rightarrow> abi_value list \<Rightarrow>
   (string, (string \<times> string \<times> int \<times> coins Periods \<times> coins Periods) \<times> Address \<times> Address \<times> (int \<times> coins) list \<times> (int \<times> coins) list) outcome" where
  "NewMsgFundVestingAccount S args =
     bind_outcome (validateBasicArgs args 5) (\<lambda>(funder, vesting).
     bind_outcome (arg_uint64 ''invalid type for startTime'' (args ! 2)) (\<lambda>startTime.
     bind_outcome (vCopyPeriods S (args ! 3)) (\<lambda>lockupInput.
     bind_outcome (vCopyPeriods S (args ! 4)) (\<lambda>vestingInput.
     bind_outcome (some_or_panic (createCosmosPeriodsFromPeriod S vestingInput)) (\<lambda>vestingPeriods.
     bind_outcome (some_or_panic (createCosmosPeriodsFromPeriod S lockupInput)) (\<lambda>lockupPeriods.
     let f = acc_string (vP S) funder; v = acc_string (vP S) vesting in
     bind_outcome (Fund_ValidateBasic (vC S) (vK S) f v lockupPeriods vestingPeriods) (\<lambda>_.
       Ok ((f, v, sint startTime, lockupPeriods, vestingPeriods), funder, vesting, lockupInput, vestingInput))))))))"

definition NewMsgClawback ::
  "('w, 'b, 'm) VestingPrecompile \<Rightarrow> abi_value list \<Rightarrow> (string, (string \<times> string \<times> string) \<times> Address \<times> Address \<times> Address) outcome" where
  "NewMsgClawback S args =
     bind_outcome (validateBasicArgs args 3) (\<lambda>(funder, account).
     bind_outcome (arg_address ''invalid type for startTime'' (args ! 2)) (\<lambda>dest.
     let f = acc_string (vP S) funder; a = acc_string (vP S) account; d = acc_string (vP S) dest in
     bind_outcome (Clawback_ValidateBasic (vK S) f a d) (\<lambda>_. Ok ((f, a, d), funder, account, dest))))"

definition NewMsgUpdateVestingFunder ::
  "('w, 'b, 'm) VestingPrecompile \<Rightarrow> abi_value list \<Rightarrow> (string, (string \<times> string \<times> string) \<times> Address \<times> Address \<times> Address) outcome" where
  "NewMsgUpdateVestingFunder S args =
     (case args of
        [a0, a1, a2] \<Rightarrow>
          bind_outcome (arg_address ''invalid type for funderAddress'' a0) (\<lambda>funder.
          bind_outcome (arg_address ''invalid type for newFunderAddress'' a1) (\<lambda>newFunder.
          bind_outcome (arg_address ''invalid type for vestingAddress'' a2) (\<lambda>vesting.
          let f = acc_string (vP S) funder; n = acc_string (vP S) newFunder; v = acc_string (vP S) vesting in
          bind_outcome (UpdateFunder_ValidateBasic (vK S) f n v) (\<lambda>_. Ok ((f, n, v), funder, newFunder, vesting)))))
      | _ \<Rightarrow> Err ''invalid number of arguments'')"

definition NewMsgConvertVestingAccount ::
  "('w, 'b, 'm) VestingPrecompile \<Rightarrow> abi_value list \<Rightarrow> (string, string \<times> Address) outcome" where
  "NewMsgConvertVestingAccount S args =
     (case args of
        [a0] \<Rightarrow>
          bind_outcome (arg_address ''invalid type for vestingAddress'' a0) (\<lambda>vesting.
          let v = acc_string (vP S) vesting in
          bind_outcome (Convert_ValidateBasic (vK S) v) (\<lambda>_. Ok (v, vesting)))
      | _ \<Rightarrow> Err ''invalid number of arguments'')"

definition NewBalancesRequest :: "('w, 'b, 'm) VestingPrecompile \<Rightarrow> abi_value list \<Rightarrow> (string, string) outcome" where
  "NewBalancesRequest S args =
     (case args of
        [a0] \<Rightarrow> bind_outcome (arg_address ''invalid type for vestingAddress'' a0) (\<lambda>a. Ok (acc_string (vP S) a))
      | _ \<Rightarrow> Err ''invalid number of arguments'')"

subsection \<open>Events\<close>

definition EmitCreateClawbackVestingAccountEvent ::
  "('w, 'b, 'm) VestingPrecompile \<Rightarrow> Address \<Rightarrow> Address \<Rightarrow> ('w prun, unit) pm" where
  "EmitCreateClawbackVestingAccountEvent S funder vesting =
     emit2 (vP S) vesting_Address ''CreateClawbackVestingAccount'' (AVaddress funder) (AVaddress vesting) (Ok [])"

definition periods_value :: "(int \<times> coins) list \<Rightarrow> abi_value" where
  "periods_value ps = AVarray (map (\<lambda>(n, cs). AVtuple [AVint 8 n, NewCoinsResponse cs]) ps)"

definition EmitFundVestingAccountEvent ::
  "('w, 'b, 'm) VestingPrecompile \<Rightarrow> int \<Rightarrow> Address \<Rightarrow> Address \<Rightarrow> (int \<times> coins) list \<Rightarrow> (int \<times> coins) list \<Rightarrow> ('w prun, unit) pm" where
  "EmitFundVestingAccountEvent S startTime funder vesting lockupPeriods vestingPeriods =
     emit2 (vP S) vesting_Address ''FundVestingAccount'' (AVaddress funder) (AVaddress vesting)
       (PackEvent (P_ABI (vP S)) ''FundVestingAccount'' [2, 3, 4]
          [AVuint 8 (uint (word_of_int startTime :: uint64)), periods_value lockupPeriods, periods_value vestingPeriods])"

definition EmitClawbackEvent ::
  "('w, 'b, 'm) VestingPrecompile \<Rightarrow> Address \<Rightarrow> Address \<Rightarrow> Address \<Rightarrow> ('w prun, unit) pm" where
  "EmitClawbackEvent S funder account dest =
     emit2 (vP S) vesting_Address ''Clawback'' (AVaddress funder) (AVaddress account)
       (PackEvent (P_ABI (vP S)) ''Clawback'' [2] [AVaddress dest])"

definition EmitUpdateVestingFunderEvent ::
  "('w, 'b, 'm) VestingPrecompile \<Rightarrow> Address \<Rightarrow> Address \<Rightarrow> Address \<Rightarrow> ('w prun, unit) pm" where
  "EmitUpdateVestingFunderEvent S funder newFunder vesting =
     emit2 (vP S) vesting_Address ''UpdateVestingFunder'' (AVaddress funder) (AVaddress vesting)
       (PackEvent (P_ABI (vP S)) ''UpdateVestingFunder'' [2] [AVaddress newFunder])"

definition EmitConvertVestingAccountEvent :: "('w, 'b, 'm) VestingPrecompile \<Rightarrow> Address \<Rightarrow> ('w prun, unit) pm" where
  "EmitConvertVestingAccountEvent S vesting =
     pm_bind (make_topic (AVaddress vesting)) (\<lambda>h1.
       add_log vesting_Address [EventID (P_ABI (vP S)) ''ConvertVestingAccount'', h1] [])"

subsection \<open>Transactions\<close>

definition only_origin :: "string \<Rightarrow> Address \<Rightarrow> Address \<Rightarrow> ('s, unit) pm" where
  "only_origin e origin a = (if origin \<noteq> a then pm_fail e else pm_return ())"

definition v_CreateClawbackVestingAccount ::
  "('w, 'b, 'm) VestingPrecompile \<Rightarrow> Address \<Rightarrow> string \<Rightarrow> abi_value list \<Rightarrow> ('w prun, bytes) pm" where
  "v_CreateClawbackVestingAccount S origin method args =
     pm_bind (pm_lift (NewMsgCreateClawbackVestingAccount S args)) (\<lambda>((f, v, gov), funder, vesting).
     pm_bind (only_origin ''tx origin address does not match the from address'' origin vesting) (\<lambda>_.
     pm_bind (vesting_call S (\<lambda>K c. no_result (CreateClawbackVestingAccount (vC S) K c f v gov))) (\<lambda>_.
     pm_bind (EmitCreateClawbackVestingAccountEvent S funder vesting) (\<lambda>_. vesting_out S method [AVbool True]))))"

definition v_FundVestingAccount ::
  "('w, 'b, 'm) VestingPrecompile \<Rightarrow> Address \<Rightarrow> string \<Rightarrow> abi_value list \<Rightarrow> ('w prun, bytes) pm" where
  "v_FundVestingAccount S origin method args =
     pm_bind (pm_lift (NewMsgFundVestingAccount S args)) (\<lambda>((f, v, start, lp, vp), funder, vesting, lockupInput, vestingInput).
     pm_bind (only_origin ''tx origin address does not match the from address'' origin funder) (\<lambda>_.
     pm_bind (vesting_call S (\<lambda>K c. no_result (FundVestingAccount (vC S) K c f v start lp vp))) (\<lambda>_.
     pm_bind (EmitFundVestingAccountEvent S start funder vesting lockupInput vestingInput) (\<lambda>_. vesting_out S method [AVbool True]))))"

definition v_Clawback ::
  "('w, 'b, 'm) VestingPrecompile \<Rightarrow> Address \<Rightarrow> string \<Rightarrow> abi_value list \<Rightarrow> ('w prun, bytes) pm" where
  "v_Clawback S origin method args =
     pm_bind (pm_lift (NewMsgClawback S args)) (\<lambda>((f, a, d), funder, account, dest).
     pm_bind (only_origin ''tx origin address does not match the funder address'' origin funder) (\<lambda>_.
     pm_bind (vesting_call S (\<lambda>K c. keeper_Clawback (vC S) K c f a d)) (\<lambda>cs.
     pm_bind (EmitClawbackEvent S funder account dest) (\<lambda>_. vesting_out S method [NewCoinsResponse cs]))))"

definition v_UpdateVestingFunder ::
  "('w, 'b, 'm) VestingPrecompile \<Rightarrow> Address \<Rightarrow> string \<Rightarrow> abi_value list \<Rightarrow> ('w prun, bytes) pm" where
  "v_UpdateVestingFunder S origin method args =
     pm_bind (pm_lift (NewMsgUpdateVestingFunder S args)) (\<lambda>((f, n, v), funder, newFunder, vesting).
     pm_bind (only_origin ''tx origin address does not match the funder address'' origin funder) (\<lambda>_.
     pm_bind (vesting_call S (\<lambda>K c. no_result (UpdateVestingFunder K c f n v))) (\<lambda>_.
     pm_bind (EmitUpdateVestingFunderEvent S funder newFunder vesting) (\<lambda>_. vesting_out S method [AVbool True]))))"

definition v_ConvertVestingAccount ::
  "('w, 'b, 'm) VestingPrecompile \<Rightarrow> string \<Rightarrow> abi_value list \<Rightarrow> ('w prun, bytes) pm" where
  "v_ConvertVestingAccount S method args =
     pm_bind (pm_lift (NewMsgConvertVestingAccount S args)) (\<lambda>(v, vesting).
     pm_bind (vesting_call S (\<lambda>K c. no_result (ConvertVestingAccount (vC S) K c v))) (\<lambda>_.
     pm_bind (EmitConvertVestingAccountEvent S vesting) (\<lambda>_. vesting_out S method [AVbool True])))"

definition v_Balances :: "('w, 'b, 'm) VestingPrecompile \<Rightarrow> string \<Rightarrow> abi_value list \<Rightarrow> ('w prun, bytes) pm" where
  "v_Balances S method args =
     pm_bind (pm_lift (NewBalancesRequest S args)) (\<lambda>address.
     pm_bind (\<lambda>s. pm_lift (Balances (vC S) (vK S) (vGet S (ctx (pr_db s))) address) s) (\<lambda>(locked, unvested, vested).
       vesting_out S method [NewCoinsResponse locked, NewCoinsResponse unvested, NewCoinsResponse vested]))"

subsection \<open>Running a call\<close>

definition CreateClawbackVestingAccountMethod :: string where "CreateClawbackVestingAccountMethod = ''createClawbackVestingAccount''"
definition FundVestingAccountMethod :: string where "FundVestingAccountMethod = ''fundVestingAccount''"
definition ClawbackMethod :: string where "ClawbackMethod = ''clawback''"
definition UpdateVestingFunderMethod :: string where "UpdateVestingFunderMethod = ''updateVestingFunder''"
definition ConvertVestingAccountMethod :: string where "ConvertVestingAccountMethod = ''convertVestingAccount''"

definition v_IsTransaction :: "string \<Rightarrow> bool" where
  "v_IsTransaction method \<longleftrightarrow>
     method \<in> {CreateClawbackVestingAccountMethod, FundVestingAccountMethod, ClawbackMethod, UpdateVestingFunderMethod,
       ConvertVestingAccountMethod}"

definition v_RequiredGas :: "('w, 'b, 'm) VestingPrecompile \<Rightarrow> bytes \<Rightarrow> uint64 option" where
  "v_RequiredGas S input = p_RequiredGas (vP S) v_IsTransaction input"

definition v_method :: "('w, 'b, 'm) VestingPrecompile \<Rightarrow> Address \<Rightarrow> string \<Rightarrow> abi_value list \<Rightarrow> ('w prun, bytes) pm" where
  "v_method S origin method args =
     (if method = CreateClawbackVestingAccountMethod then v_CreateClawbackVestingAccount S origin method args
      else if method = FundVestingAccountMethod then v_FundVestingAccount S origin method args
      else if method = ClawbackMethod then v_Clawback S origin method args
      else if method = UpdateVestingFunderMethod then v_UpdateVestingFunder S origin method args
      else if method = ConvertVestingAccountMethod then v_ConvertVestingAccount S method args
      else if method = ''balances'' then v_Balances S method args
      else pm_return [])"

definition v_Run ::
  "('w, 'b, 'm) VestingPrecompile \<Rightarrow> Address \<Rightarrow> 'w StateDB \<Rightarrow> pcontract \<Rightarrow> bool \<Rightarrow> (string, bytes) outcome \<times> pcontract \<times> 'w StateDB" where
  "v_Run S origin db contract readOnly =
     (case RunSetup (vP S) v_IsTransaction db contract readOnly of
        Panic \<Rightarrow> (Panic, contract, db)
      | Err e \<Rightarrow> (Err e, contract, db)
      | Ok (s, method, initialGas, args) \<Rightarrow>
          finish_run initialGas contract (pm_bind commit_stateDB (\<lambda>_. v_method S origin method args) s))"

end
