(* ===== verification/Precompile_Laws.thy ===== *)
theory Precompile_Laws
  imports Precompile_Vesting State_DB_Refines
begin

text \<open>
  What the extensions promise. A contract that stakes for the origin of a transaction spends a grant of the
  origin: the amounts of its successful calls never exceed what was granted. Approving sets what the allowance
  query returns. The vesting methods act for the origin only. And what a failed call has written to the
  context stays there, since reverting the database does not touch the context.

  The keepers' laws are stated over a view \<open>G\<close> of the context as a map of grants.
\<close>

subsection \<open>The database and its context\<close>

lemma getStateObject_ctx: "getStateObject s a = (r, t) \<Longrightarrow> ctx t = ctx s \<and> keeper t = keeper s"
  by (auto simp: getStateObject_def Let_def split: option.splits)

lemma getOrNewStateObject_ctx: "getOrNewStateObject s a = (r, t) \<Longrightarrow> ctx t = ctx s \<and> keeper t = keeper s"
  by (auto simp: getOrNewStateObject_def createObject_def Let_def split: option.splits prod.splits dest!: getStateObject_ctx)

lemma balance_ctx [simp]:
  "ctx (SubBalance s a n) = ctx s" "keeper (SubBalance s a n) = keeper s"
  "ctx (AddBalance s a n) = ctx s" "keeper (AddBalance s a n) = keeper s"
  by (auto simp: SubBalance_def AddBalance_def obj_SubBalance_def obj_AddBalance_def obj_SetBalance_def Let_def
      split: prod.splits dest!: getOrNewStateObject_ctx)

lemma AddLog_ctx [simp]: "ctx (AddLog s l) = ctx s" "keeper (AddLog s l) = keeper s"
  by (simp_all add: AddLog_def Let_def)

lemma revert_entry_ctx: "revert_entry e s = Some t \<Longrightarrow> ctx t = ctx s"
  by (cases e) (auto simp: update_object_def split: prod.splits option.splits if_splits dest: getStateObject_ctx)

lemma journal_unwind_ctx: "journal_unwind es s = Some t \<Longrightarrow> ctx t = ctx s"
  by (induction es arbitrary: s) (auto split: bind_splits dest: revert_entry_ctx)

lemma RevertToSnapshot_ctx: "RevertToSnapshot s n = Some t \<Longrightarrow> ctx t = ctx s"
  by (auto simp: RevertToSnapshot_def journal_Revert_def Let_def split: if_splits bind_splits dest: journal_unwind_ctx)

subsection \<open>The laws of the keepers\<close>

type_synonym grants = "Address \<times> Address \<times> string \<Rightarrow> grant option"

definition call_keeps :: "('w \<Rightarrow> grants) \<Rightarrow> ('w, 'a) call \<Rightarrow> bool" where
  "call_keeps G m \<longleftrightarrow> (\<forall>w g. G (fst (snd (m (w, g)))) = G w)"

text \<open>The authz keeper: grants are stored under grantee, granter and the message type of the authorization.\<close>

definition authz_laws :: "'w Precompile \<Rightarrow> ('w \<Rightarrow> grants) \<Rightarrow> (Authorization \<Rightarrow> string) \<Rightarrow> bool" where
  "authz_laws P G url \<longleftrightarrow>
     (\<forall>ge gr u. call_keeps G (GetAuthorization P ge gr u)) \<and>
     (\<forall>ge gr u w g x t. GetAuthorization P ge gr u (w, g) = (Ok x, t) \<longrightarrow> x = G w (ge, gr, u)) \<and>
     (\<forall>ge gr a e w g. G (fst (snd (SaveGrant P ge gr a e (w, g)))) =
        (if is_ok (fst (SaveGrant P ge gr a e (w, g))) then (G w)((ge, gr, url a) \<mapsto> (a, e)) else G w)) \<and>
     (\<forall>ge gr u w g. G (fst (snd (DeleteGrant P ge gr u (w, g)))) =
        (if is_ok (fst (DeleteGrant P ge gr u (w, g))) then (G w)((ge, gr, u) := None) else G w)) \<and>
     (\<forall>w ge gr u a e. G w (ge, gr, u) = Some (a, e) \<longrightarrow> url a = u)"

definition auth_url :: "'w StakingPrecompile \<Rightarrow> Authorization \<Rightarrow> string" where
  "auth_url S a = (case a of StakeAuthz sa \<Rightarrow> sMsgTypeURL S (sa_Type sa) | TransferAuthz _ \<Rightarrow> TransferMsg | OtherAuthz u \<Rightarrow> u)"

text \<open>
  The type \<open>StakeAuthorization\<close>: accepting a message takes its amount off the limit, which must be large
  enough, and asks for deletion at zero; without a limit the authorization stays.
\<close>

definition accept_laws :: "'w StakingPrecompile \<Rightarrow> bool" where
  "accept_laws S \<longleftrightarrow>
     (\<forall>a msg s r t. sAccept S a msg s = (Ok r, t) \<longrightarrow>
        (case MaxTokens a of
           None \<Rightarrow> \<not> ar_Delete r \<and> ar_Updated r = Some (StakeAuthz a)
         | Some (d, l) \<Rightarrow>
             snd (msg_amount msg) \<le> l \<and> ar_Delete r = (snd (msg_amount msg) = l) \<and>
             (\<not> ar_Delete r \<longrightarrow> ar_Updated r = Some (StakeAuthz (a\<lparr>MaxTokens := Some (d, l - snd (msg_amount msg))\<rparr>)))))"

definition query_laws :: "'w StakingPrecompile \<Rightarrow> ('w \<Rightarrow> grants) \<Rightarrow> bool" where
  "query_laws S G \<longleftrightarrow>
     (\<forall>d v. call_keeps G (qDelegation S d v)) \<and> (\<forall>d v. call_keeps G (qUnbondingDelegation S d v)) \<and>
     (\<forall>v. call_keeps G (qValidator S v)) \<and> (\<forall>d v v'. call_keeps G (qRedelegation S d v v')) \<and>
     (\<forall>x p. call_keeps G (qValidators S x p)) \<and> (\<forall>d v v' p. call_keeps G (qRedelegations S d v v' p))"

definition staking_laws :: "'w StakingPrecompile \<Rightarrow> ('w \<Rightarrow> grants) \<Rightarrow> bool" where
  "staking_laws S G \<longleftrightarrow>
     authz_laws (sP S) G (auth_url S) \<and> accept_laws S \<and>
     (\<forall>i j. big_Int (sP S) i = Some j \<longrightarrow> j = i) \<and>
     (\<forall>msg. sMsg_ValidateBasic S msg = Ok () \<longrightarrow> 0 < snd (msg_amount msg)) \<and>
     (\<forall>vs t c a. sNewStakeAuthorization S vs t c = Ok a \<longrightarrow> MaxTokens a = c \<and> sa_Type a = t) \<and>
     sMsgTypeURL S DelegateAuthz = DelegateMsg \<and> sMsgTypeURL S UndelegateAuthz = UndelegateMsg \<and>
     sMsgTypeURL S RedelegateAuthz = RedelegateMsg \<and> sMsgTypeURL S CancelUnbondingDelegationAuthz = CancelUnbondingDelegationMsg \<and>
     call_keeps G (sBondDenom S) \<and> call_keeps G (sIterateValidators S) \<and>
     (\<forall>a msg. call_keeps G (sAccept S a msg)) \<and>
     (\<forall>msg. call_keeps G (sDelegate S msg)) \<and> (\<forall>msg. call_keeps G (sUndelegate S msg)) \<and>
     (\<forall>msg. call_keeps G (sBeginRedelegate S msg)) \<and> (\<forall>msg. call_keeps G (sCancelUnbondingDelegation S msg)) \<and>
     (\<forall>v n. call_keeps G (sSharesFromTokens S v n)) \<and>
     query_laws S G"

lemma staking_lawsD:
  assumes "staking_laws S G"
  shows "authz_laws (sP S) G (auth_url S)" "accept_laws S" "\<And>i j. big_Int (sP S) i = Some j \<Longrightarrow> j = i"
    and "\<And>msg. sMsg_ValidateBasic S msg = Ok () \<Longrightarrow> 0 < snd (msg_amount msg)"
    and "\<And>vs t c a. sNewStakeAuthorization S vs t c = Ok a \<Longrightarrow> MaxTokens a = c \<and> sa_Type a = t"
    and "call_keeps G (sBondDenom S)" "call_keeps G (sIterateValidators S)" "\<And>a msg. call_keeps G (sAccept S a msg)"
    and "\<And>msg. call_keeps G (sDelegate S msg)" "\<And>msg. call_keeps G (sUndelegate S msg)"
    and "\<And>msg. call_keeps G (sBeginRedelegate S msg)" "\<And>msg. call_keeps G (sCancelUnbondingDelegation S msg)"
    and "\<And>v n. call_keeps G (sSharesFromTokens S v n)"
    and "query_laws S G"
  using assms unfolding staking_laws_def by blast+

lemma query_lawsD:
  assumes "query_laws S G"
  shows "\<And>d v. call_keeps G (qDelegation S d v)" "\<And>d v. call_keeps G (qUnbondingDelegation S d v)"
    and "\<And>v. call_keeps G (qValidator S v)" "\<And>d v v'. call_keeps G (qRedelegation S d v v')"
    and "\<And>x p. call_keeps G (qValidators S x p)" "\<And>d v v' p. call_keeps G (qRedelegations S d v v' p)"
  using assms unfolding query_laws_def by blast+

lemma authz_lawsD:
  assumes "authz_laws P G url"
  shows "call_keeps G (GetAuthorization P ge gr u)"
    and "GetAuthorization P ge gr u (w, g) = (Ok x, t) \<Longrightarrow> x = G w (ge, gr, u)"
    and "G (fst (snd (SaveGrant P ge gr a e (w, g)))) =
      (if is_ok (fst (SaveGrant P ge gr a e (w, g))) then (G w)((ge, gr, url a) \<mapsto> (a, e)) else G w)"
    and "G (fst (snd (DeleteGrant P ge gr u (w, g)))) =
      (if is_ok (fst (DeleteGrant P ge gr u (w, g))) then (G w)((ge, gr, u) := None) else G w)"
    and "G w (ge, gr, u) = Some (a, e) \<Longrightarrow> url a = u"
  using assms unfolding authz_laws_def by metis+

subsection \<open>Computations that keep the grants\<close>

abbreviation grants_of :: "('w \<Rightarrow> grants) \<Rightarrow> 'w prun \<Rightarrow> grants" where
  "grants_of G s \<equiv> G (ctx (pr_db s))"

definition same_grants :: "('w \<Rightarrow> grants) \<Rightarrow> 'w prun \<Rightarrow> 'w prun \<Rightarrow> bool" where
  "same_grants G s t \<longleftrightarrow> grants_of G t = grants_of G s \<and> keeper (pr_db t) = keeper (pr_db s)"

named_theorems keeps "computations that keep the grants"

lemma same_grants_rel [simp]: "reflp (same_grants G)" "transp (same_grants G)"
  by (simp_all add: same_grants_def reflp_def transp_def)

lemmas keeps_bind [keeps] = pm_keeps_bind [OF same_grants_rel(2)]

lemma keeps_pure [keeps]:
  "pm_keeps (same_grants G) (pm_return a)" "pm_keeps (same_grants G) (pm_fail e)"
  "pm_keeps (same_grants G) (pm_lift r)" "pm_keeps (same_grants G) (pm_some x)"
  by simp_all

lemma on_ctx_result:
  "on_ctx f s = (r, t) \<Longrightarrow>
     \<exists>w g. f (ctx (pr_db s), pr_gas s) = (r, (w, g)) \<and> t = s\<lparr>pr_db := (pr_db s)\<lparr>ctx := w\<rparr>, pr_gas := g\<rparr>"
  by (auto simp: on_ctx_def split: prod.splits)

lemma keeps_on_ctx [keeps]: "call_keeps G f \<Longrightarrow> pm_keeps (same_grants G) (on_ctx f)"
  by (auto simp: pm_keeps_def same_grants_def call_keeps_def on_ctx_def split: prod.splits) (metis fst_conv snd_conv)

lemma keeps_log [keeps]:
  "pm_keeps (same_grants G) (make_topic v)" "pm_keeps (same_grants G) (add_log a ts d)"
  "pm_keeps (same_grants G) (sub_balance a n)"
  by (simp_all add: pm_keeps_def same_grants_def make_topic_def add_log_def sub_balance_def pm_lift_def)

lemma keeps_emit [keeps]:
  "pm_keeps (same_grants G) (emit2 P a e t1 t2 r)"
  "pm_keeps (same_grants G) (createStakingTxTopics S e d v)"
  "pm_keeps (same_grants G) (pack_nums m n)"
  "pm_keeps (same_grants G) (pack_out S method vs)"
  by (auto simp: emit2_def createStakingTxTopics_def pack_nums_def pack_out_def intro!: keeps)

lemma keeps_result:
  "pm_keeps (same_grants G) m \<Longrightarrow> m s = (r, t) \<Longrightarrow> grants_of G t = grants_of G s \<and> keeper (pr_db t) = keeper (pr_db s)"
  by (metis pm_keeps_def same_grants_def snd_conv)
subsection \<open>Spending a grant\<close>

text \<open>What is left of a grant after an amount, and when the amount is within it.\<close>

definition left_of :: "StakeAuthorization \<Rightarrow> int option \<Rightarrow> int \<Rightarrow> grant option" where
  "left_of a e n =
     (case MaxTokens a of
        None \<Rightarrow> Some (StakeAuthz a, e)
      | Some (d, l) \<Rightarrow> if n = l then None else Some (StakeAuthz (a\<lparr>MaxTokens := Some (d, l - n)\<rparr>), e))"

definition within :: "StakeAuthorization \<Rightarrow> int \<Rightarrow> bool" where
  "within a n \<longleftrightarrow> (case MaxTokens a of None \<Rightarrow> True | Some (_, l) \<Rightarrow> n \<le> l)"

definition spends :: "Address \<Rightarrow> Address \<Rightarrow> string \<Rightarrow> int \<Rightarrow> grants \<Rightarrow> grants \<Rightarrow> bool" where
  "spends ge gr u n A B \<longleftrightarrow>
     (\<exists>a e. A (ge, gr, u) = Some (StakeAuthz a, e) \<and> within a n \<and> B = A((ge, gr, u) := left_of a e n))"

definition charged :: "('w \<Rightarrow> grants) \<Rightarrow> Address \<Rightarrow> Address \<Rightarrow> string \<Rightarrow> int \<Rightarrow> 'w prun \<Rightarrow> bool \<Rightarrow> 'w prun \<Rightarrow> bool" where
  "charged G ge gr u n s ok t \<longleftrightarrow>
     keeper (pr_db t) = keeper (pr_db s) \<and>
     (if ge = gr then grants_of G t = grants_of G s
      else if ok then spends ge gr u n (grants_of G s) (grants_of G t)
      else grants_of G t = grants_of G s \<or> spends ge gr u n (grants_of G s) (grants_of G t))"

lemma pm_bind_cases:
  assumes "pm_bind m f s = (r, t)"
  obtains (ok) a u where "m s = (Ok a, u)" "f a u = (r, t)"
  | (failed) r' where "m s = (r', t)" "\<not> is_ok r'" "\<not> is_ok r"
  using assms by (cases "m s") (auto simp: pm_bind_def split: outcome.splits)

lemma charged_unchanged:
  "same_grants G s t \<Longrightarrow> charged G ge gr u n s False t"
  by (simp add: charged_def same_grants_def)

lemma charged_mono: "charged G ge gr u n s ok t \<Longrightarrow> charged G ge gr u n s False t"
  by (auto simp: charged_def split: if_splits)

lemma charged_trans:
  assumes "same_grants G s s'" "charged G ge gr u n s' ok t'" "same_grants G t' t"
  shows "charged G ge gr u n s ok t"
  using assms by (simp add: charged_def same_grants_def split: if_splits)

lemma keeps_same: "pm_keeps (same_grants G) m \<Longrightarrow> m s = (r, t) \<Longrightarrow> same_grants G s t"
  by (metis pm_keeps_def snd_conv)

text \<open>A step that keeps the grants, before or behind a charge.\<close>

lemma charged_after:
  assumes "pm_bind m f s = (r, t)" "pm_keeps (same_grants G) m"
    and "\<And>a v. m s = (Ok a, v) \<Longrightarrow> f a v = (r, t) \<Longrightarrow> charged G ge gr u n v (is_ok r) t"
  shows "charged G ge gr u n s (is_ok r) t"
  using assms(1)
proof (cases rule: pm_bind_cases)
  case (ok a v)
  have "same_grants G s v" by (rule keeps_same [OF assms(2) ok(1)])
  moreover have "same_grants G t t" by (simp add: same_grants_def)
  ultimately show ?thesis using assms(3) [OF ok] by (blast intro: charged_trans)
next
  case (failed r')
  then show ?thesis using charged_unchanged [OF keeps_same [OF assms(2) failed(1)]] by simp
qed

lemma charged_before:
  assumes "pm_bind m f s = (r, t)" "\<And>a. pm_keeps (same_grants G) (f a)"
    and "\<And>r' v. m s = (r', v) \<Longrightarrow> charged G ge gr u n s (is_ok r') v"
  shows "charged G ge gr u n s (is_ok r) t"
  using assms(1)
proof (cases rule: pm_bind_cases)
  case (ok a v)
  have c: "charged G ge gr u n s True v" using assms(3) [OF ok(1)] by simp
  have v: "same_grants G v t" by (rule keeps_same [OF assms(2) ok(2)])
  have "charged G ge gr u n s True t" "charged G ge gr u n s False t"
    using charged_trans [OF _ c v] charged_trans [OF _ charged_mono [OF c] v] by (simp_all add: same_grants_def)
  then show ?thesis by (cases "is_ok r") simp_all
next
  case (failed r')
  then show ?thesis using assms(3) [OF failed(1)] by simp
qed

lemma UpdateStakingAuthorization_charged:
  assumes laws: "staking_laws S G" and run: "UpdateStakingAuthorization S ge gr a e u msg s = (r, t)"
    and grant: "grants_of G s (ge, gr, u) = Some (StakeAuthz a, e)" and ne: "ge \<noteq> gr"
  shows "charged G ge gr u (snd (msg_amount msg)) s (is_ok r) t"
proof -
  note az = authz_lawsD [OF staking_lawsD(1) [OF laws]]
  have url: "auth_url S (StakeAuthz (a\<lparr>MaxTokens := x\<rparr>)) = u" "auth_url S (StakeAuthz a) = u" for x
    using az(5) [OF grant] by (simp_all add: auth_url_def)
  show ?thesis
    using run unfolding UpdateStakingAuthorization_def
  proof (rule charged_after)
    show "pm_keeps (same_grants G) (on_ctx (sAccept S a msg))" by (intro keeps staking_lawsD [OF laws])
    fix resp v
    assume acc: "on_ctx (sAccept S a msg) s = (Ok resp, v)"
      and v: "(if ar_Delete resp then on_ctx (DeleteGrant (sP S) ge gr u)
        else pm_bind (pm_some (ar_Updated resp)) (\<lambda>updated. on_ctx (SaveGrant (sP S) ge gr updated e))) v = (r, t)"
    let ?n = "snd (msg_amount msg)"
    have sv: "same_grants G s v"
      using acc by (rule keeps_same [rotated]) (intro keeps staking_lawsD [OF laws])
    then have gv: "grants_of G v (ge, gr, u) = Some (StakeAuthz a, e)" using grant by (simp add: same_grants_def)
    have resp: "within a ?n \<and> (if ar_Delete resp then left_of a e ?n = None
        else \<exists>a'. ar_Updated resp = Some (StakeAuthz a') \<and> left_of a e ?n = Some (StakeAuthz a', e) \<and> auth_url S (StakeAuthz a') = u)"
      using on_ctx_result [OF acc] staking_lawsD(2) [OF laws] url unfolding accept_laws_def within_def left_of_def
      by (cases "MaxTokens a") (fastforce split: prod.splits)+
    show "charged G ge gr u ?n v (is_ok r) t"
    proof (cases "ar_Delete resp")
      case True
      with v obtain w g where w: "DeleteGrant (sP S) ge gr u (ctx (pr_db v), pr_gas v) = (r, w, g)"
        and t: "t = v\<lparr>pr_db := (pr_db v)\<lparr>ctx := w\<rparr>, pr_gas := g\<rparr>" by (auto dest: on_ctx_result)
      have "G w = (if is_ok r then (grants_of G v)((ge, gr, u) := None) else grants_of G v)"
        using az(4) [of ge gr u "ctx (pr_db v)" "pr_gas v"] w by simp
      with True resp gv ne t show ?thesis by (auto simp: charged_def spends_def)
    next
      case False
      with resp obtain a' where a': "ar_Updated resp = Some (StakeAuthz a')" "left_of a e ?n = Some (StakeAuthz a', e)"
        "auth_url S (StakeAuthz a') = u" by auto
      with False v obtain w g where w: "SaveGrant (sP S) ge gr (StakeAuthz a') e (ctx (pr_db v), pr_gas v) = (r, w, g)"
        and t: "t = v\<lparr>pr_db := (pr_db v)\<lparr>ctx := w\<rparr>, pr_gas := g\<rparr>"
        by (auto simp: pm_bind_def pm_some_def dest: on_ctx_result)
      have "G w = (if is_ok r then (grants_of G v)((ge, gr, u) \<mapsto> (StakeAuthz a', e)) else grants_of G v)"
        using az(3) [of ge gr "StakeAuthz a'" e "ctx (pr_db v)" "pr_gas v"] w a'(3) by simp
      with a' resp gv ne t show ?thesis by (auto simp: charged_def spends_def)
    qed
  qed
qed
lemma delegator_of_Ok: "delegator_of c origin d = Ok g \<Longrightarrow> g = origin"
  by (simp add: delegator_of_def split: if_splits)

lemma check_grant_Ok:
  assumes laws: "staking_laws S G" and "check_grant S ge gr gr msg u s = (Ok g, v)"
  shows "same_grants G s v \<and> (if ge = gr then g = None
    else \<exists>a e. g = Some (a, e) \<and> grants_of G s (ge, gr, u) = Some (StakeAuthz a, e) \<and> within a (snd (msg_amount msg)))"
proof -
  note az = authz_lawsD [OF staking_lawsD(1) [OF laws]]
  show ?thesis
  proof (cases "ge = gr")
    case True
    with assms(2) show ?thesis by (simp add: check_grant_def same_grants_def)
  next
    case False
    with assms(2) obtain g' where g: "g = Some g'"
      and run: "CheckAuthzAndAllowanceForGranter (sP S) ge gr (msg_amount msg) u s = (Ok g', v)" by (auto simp: check_grant_def)
    from run obtain x v' where x: "on_ctx (GetAuthorization (sP S) ge gr u) s = (Ok x, v')"
      and rest: "(case x of None \<Rightarrow> pm_fail ''authorization does not exist or is expired''
        | Some (StakeAuthz a, expiration) \<Rightarrow>
            (case MaxTokens a of
               Some (_, lim) \<Rightarrow>
                 if snd (msg_amount msg) > lim then pm_fail ''amount greater than allowed limit'' else pm_return (a, expiration)
             | None \<Rightarrow> pm_return (a, expiration))
        | Some _ \<Rightarrow> pm_fail ''unknown authorization type'') v' = (Ok g', v)"
      unfolding CheckAuthzAndAllowanceForGranter_def pm_bind_Ok by blast
    have same: "same_grants G s v'" using x by (rule keeps_same [rotated]) (intro keeps az)
    have "x = grants_of G s (ge, gr, u)" using on_ctx_result [OF x] az(2) by blast
    with rest False g same show ?thesis
      by (auto simp: within_def split: option.splits prod.splits Authorization.splits if_splits)
  qed
qed

lemma keeps_check_grant:
  "staking_laws S G \<Longrightarrow> pm_keeps (same_grants G) (check_grant S ge gr d msg u)"
  unfolding check_grant_def CheckAuthzAndAllowanceForGranter_def
  by (auto intro!: keeps authz_lawsD(1) [OF staking_lawsD(1)] split: option.splits Authorization.splits)

text \<open>The part the four transactions share.\<close>

lemma tail_charged:
  assumes laws: "staking_laws S G" and server: "call_keeps G server" and post: "\<And>x. pm_keeps (same_grants G) (post x)"
    and run: "pm_bind (check_grant S ge gr gr msg u) (\<lambda>g. pm_bind (on_ctx server) (\<lambda>x.
      pm_bind (spend_grant S ge gr g u msg) (\<lambda>_. post x))) s = (r, t)"
  shows "charged G ge gr u (snd (msg_amount msg)) s (is_ok r) t"
  using run
proof (rule charged_after)
  show "pm_keeps (same_grants G) (check_grant S ge gr gr msg u)" by (rule keeps_check_grant [OF laws])
  fix g v
  assume g: "check_grant S ge gr gr msg u s = (Ok g, v)"
    and v: "pm_bind (on_ctx server) (\<lambda>x. pm_bind (spend_grant S ge gr g u msg) (\<lambda>_. post x)) v = (r, t)"
  from v show "charged G ge gr u (snd (msg_amount msg)) v (is_ok r) t"
  proof (rule charged_after)
    show "pm_keeps (same_grants G) (on_ctx server)" by (rule keeps_on_ctx [OF server])
    fix x v'
    assume x: "on_ctx server v = (Ok x, v')" and v': "pm_bind (spend_grant S ge gr g u msg) (\<lambda>_. post x) v' = (r, t)"
    have same: "same_grants G v v'" using x by (rule keeps_same [OF keeps_on_ctx [OF server]])
    from v' show "charged G ge gr u (snd (msg_amount msg)) v' (is_ok r) t"
    proof (rule charged_before)
      fix r' z
      assume z: "spend_grant S ge gr g u msg v' = (r', z)"
      show "charged G ge gr u (snd (msg_amount msg)) v' (is_ok r') z"
      proof (cases "ge = gr")
        case True
        with check_grant_Ok [OF laws g] z show ?thesis by (simp add: spend_grant_def pm_return_def charged_def)
      next
        case False
        with check_grant_Ok [OF laws g] obtain a e where a: "g = Some (a, e)" "grants_of G v (ge, gr, u) = Some (StakeAuthz a, e)"
          by (auto simp: same_grants_def)
        with same have "grants_of G v' (ge, gr, u) = Some (StakeAuthz a, e)" by (simp add: same_grants_def)
        then show ?thesis using z a(1) False laws by (auto simp: spend_grant_def intro: UpdateStakingAuthorization_charged)
      qed
    qed (rule post)
  qed
qed

text \<open>The amount a call asks for, and the type of its message.\<close>

definition tx_spend :: "string \<Rightarrow> abi_value list \<Rightarrow> (string \<times> int) option" where
  "tx_spend method args =
     (if method = DelegateMethod then (case args of [_, _, AVbig n] \<Rightarrow> Some (DelegateMsg, n) | _ \<Rightarrow> None)
      else if method = UndelegateMethod then (case args of [_, _, AVbig n] \<Rightarrow> Some (UndelegateMsg, n) | _ \<Rightarrow> None)
      else if method = RedelegateMethod then (case args of [_, _, _, AVbig n] \<Rightarrow> Some (RedelegateMsg, n) | _ \<Rightarrow> None)
      else if method = CancelUnbondingDelegationMethod
      then (case args of [_, _, AVbig n, _] \<Rightarrow> Some (CancelUnbondingDelegationMsg, n) | _ \<Rightarrow> None)
      else None)"

lemmas method_names = DelegateMethod_def UndelegateMethod_def RedelegateMethod_def CancelUnbondingDelegationMethod_def
  ApproveMethod_def RevokeMethod_def IncreaseAllowanceMethod_def DecreaseAllowanceMethod_def AllowanceMethod_def

lemma with_coin_amount:
  assumes "staking_laws S G" "with_coin S denom n mk = Ok msg" "\<And>c. msg_amount (mk c) = c"
  shows "snd (msg_amount msg) = n \<and> 0 < n"
  using assms(2,3) staking_lawsD(3,4) [OF assms(1)] by (auto simp: with_coin_def split: option.splits) (metis snd_conv)

lemma with_coin_msgs:
  assumes laws: "staking_laws S G"
  shows "with_coin S denom n (MsgDelegate a b) = Ok msg \<Longrightarrow> n = snd (msg_amount msg) \<and> 0 < snd (msg_amount msg)"
    and "with_coin S denom n (MsgUndelegate a b) = Ok msg \<Longrightarrow> n = snd (msg_amount msg) \<and> 0 < snd (msg_amount msg)"
    and "with_coin S denom n (MsgBeginRedelegate a b c) = Ok msg \<Longrightarrow> n = snd (msg_amount msg) \<and> 0 < snd (msg_amount msg)"
    and "with_coin S denom n (\<lambda>x. MsgCancelUnbondingDelegation a b x h) = Ok msg \<Longrightarrow> n = snd (msg_amount msg) \<and> 0 < snd (msg_amount msg)"
  by (drule with_coin_amount [OF laws]; simp)+

lemma new_msg_amount:
  assumes laws: "staking_laws S G"
  shows "NewMsgDelegate S args denom = Ok (msg, d) \<Longrightarrow>
      tx_spend DelegateMethod args = Some (DelegateMsg, snd (msg_amount msg)) \<and> 0 < snd (msg_amount msg)"
    and "NewMsgUndelegate S args denom = Ok (msg, d) \<Longrightarrow>
      tx_spend UndelegateMethod args = Some (UndelegateMsg, snd (msg_amount msg)) \<and> 0 < snd (msg_amount msg)"
    and "NewMsgRedelegate S args denom = Ok (msg, d) \<Longrightarrow>
      tx_spend RedelegateMethod args = Some (RedelegateMsg, snd (msg_amount msg)) \<and> 0 < snd (msg_amount msg)"
    and "NewMsgCancelUnbondingDelegation S args denom = Ok (msg, d) \<Longrightarrow>
      tx_spend CancelUnbondingDelegationMethod args = Some (CancelUnbondingDelegationMsg, snd (msg_amount msg)) \<and> 0 < snd (msg_amount msg)"
  by (auto simp: NewMsgDelegate_def NewMsgUndelegate_def NewMsgRedelegate_def NewMsgCancelUnbondingDelegation_def
      checkDelegationUndelegationArgs_def arg_big_def tx_spend_def method_names dest!: with_coin_msgs [OF laws]
      split: list.splits abi_value.splits)
definition tx_effect :: "('w \<Rightarrow> grants) \<Rightarrow> Address \<Rightarrow> Address \<Rightarrow> (string \<times> int) option \<Rightarrow> 'w prun \<Rightarrow> bool \<Rightarrow> 'w prun \<Rightarrow> bool" where
  "tx_effect G ge gr sp s ok t \<longleftrightarrow>
     same_grants G s t \<and> \<not> ok \<or> (\<exists>u n. sp = Some (u, n) \<and> 0 < n \<and> charged G ge gr u n s ok t)"

lemma no_message:
  assumes "pm_bind m (\<lambda>x. pm_bind (pm_lift (new x)) (f x)) s = (r, t)" "pm_keeps (same_grants G) m" "\<And>x. \<not> is_ok (new x)"
  shows "same_grants G s t \<and> \<not> is_ok r"
  using assms(1)
proof (cases rule: pm_bind_cases)
  case (ok x v)
  from ok(2) show ?thesis
  proof (cases rule: pm_bind_cases)
    case (failed r')
    then have "t = v" by (simp add: pm_lift_def)
    with keeps_same [OF assms(2) ok(1)] failed(3) show ?thesis by simp
  qed (use assms(3) in \<open>simp add: is_ok_iff\<close>)
qed (use keeps_same [OF assms(2)] in auto)

lemma tx_effectI:
  assumes laws: "staking_laws S G"
    and run: "pm_bind (on_ctx (sBondDenom S)) (\<lambda>denom. pm_bind (pm_lift (new denom)) (\<lambda>(msg, d).
      pm_bind (pm_lift (delegator_of ge gr d)) (\<lambda>granter. pm_bind (check_grant S ge gr granter msg u) (\<lambda>g.
      pm_bind (on_ctx (server msg)) (\<lambda>x. pm_bind (spend_grant S ge granter g u msg) (\<lambda>_. post msg d granter x)))))) s = (r, t)"
    and server: "\<And>msg. call_keeps G (server msg)"
    and post: "\<And>msg d granter x. pm_keeps (same_grants G) (post msg d granter x)"
    and new_msg: "\<And>denom msg d. new denom = Ok (msg, d) \<Longrightarrow> sp = Some (u, snd (msg_amount msg)) \<and> 0 < snd (msg_amount msg)"
  shows "tx_effect G ge gr sp s (is_ok r) t"
proof -
  have denom: "pm_keeps (same_grants G) (on_ctx (sBondDenom S))" by (intro keeps staking_lawsD [OF laws])
  show ?thesis
  proof (cases "\<exists>n. sp = Some (u, n) \<and> 0 < n")
    case False
    then have "\<not> is_ok (new x)" for x using new_msg by (auto simp: is_ok_iff)
    with no_message [OF run denom] show ?thesis by (simp add: tx_effect_def)
  next
    case True
    then obtain n where n: "sp = Some (u, n)" "0 < n" by blast
    have "charged G ge gr u n s (is_ok r) t"
      using run
    proof (rule charged_after [OF _ denom])
      fix x v
      assume "pm_bind (pm_lift (new x)) (\<lambda>(msg, d).
        pm_bind (pm_lift (delegator_of ge gr d)) (\<lambda>granter. pm_bind (check_grant S ge gr granter msg u) (\<lambda>g.
        pm_bind (on_ctx (server msg)) (\<lambda>x. pm_bind (spend_grant S ge granter g u msg) (\<lambda>_. post msg d granter x))))) v = (r, t)"
      then show "charged G ge gr u n v (is_ok r) t"
      proof (rule charged_after)
        fix md v'
        assume "pm_lift (new x) v = (Ok md, v')"
          and "(case md of (msg, d) \<Rightarrow>
            pm_bind (pm_lift (delegator_of ge gr d)) (\<lambda>granter. pm_bind (check_grant S ge gr granter msg u) (\<lambda>g.
            pm_bind (on_ctx (server msg)) (\<lambda>x. pm_bind (spend_grant S ge granter g u msg) (\<lambda>_. post msg d granter x))))) v' = (r, t)"
        then obtain msg d where m: "new x = Ok (msg, d)"
          and rest: "pm_bind (pm_lift (delegator_of ge gr d)) (\<lambda>granter. pm_bind (check_grant S ge gr granter msg u) (\<lambda>g.
            pm_bind (on_ctx (server msg)) (\<lambda>x. pm_bind (spend_grant S ge granter g u msg) (\<lambda>_. post msg d granter x)))) v' = (r, t)"
          by (cases md) auto
        have sp: "n = snd (msg_amount msg)" using new_msg [OF m] n by auto
        from rest show "charged G ge gr u n v' (is_ok r) t"
        proof (rule charged_after)
          fix granter v''
          assume "pm_lift (delegator_of ge gr d) v' = (Ok granter, v'')"
            and tail: "pm_bind (check_grant S ge gr granter msg u) (\<lambda>g.
              pm_bind (on_ctx (server msg)) (\<lambda>x. pm_bind (spend_grant S ge granter g u msg) (\<lambda>_. post msg d granter x))) v'' = (r, t)"
          then have "granter = gr" by (auto dest: delegator_of_Ok)
          with tail show "charged G ge gr u n v'' (is_ok r) t"
            unfolding sp by (intro tail_charged [OF laws server post]) simp
        qed (rule keeps)
      qed (rule keeps)
    qed
    with n show ?thesis by (auto simp: tx_effect_def)
  qed
qed

lemma keeps_events:
  assumes laws: "staking_laws S G"
  shows "pm_keeps (same_grants G) (EmitDelegateEvent S msg d)" "pm_keeps (same_grants G) (EmitUnbondEvent S msg d x)"
    "pm_keeps (same_grants G) (EmitRedelegateEvent S msg d x)" "pm_keeps (same_grants G) (EmitCancelUnbondingDelegationEvent S msg d)"
  unfolding EmitDelegateEvent_def EmitUnbondEvent_def EmitRedelegateEvent_def EmitCancelUnbondingDelegationEvent_def
  by (auto intro!: keeps staking_lawsD [OF laws] split: staking_msg.splits)

lemma st_tx_effects:
  assumes laws: "staking_laws S G"
  shows "st_Delegate S origin c method args s = (r, t) \<Longrightarrow>
      tx_effect G (CallerAddress c) origin (tx_spend DelegateMethod args) s (is_ok r) t"
    and "st_Undelegate S origin c method args s = (r, t) \<Longrightarrow>
      tx_effect G (CallerAddress c) origin (tx_spend UndelegateMethod args) s (is_ok r) t"
    and "st_Redelegate S origin c method args s = (r, t) \<Longrightarrow>
      tx_effect G (CallerAddress c) origin (tx_spend RedelegateMethod args) s (is_ok r) t"
    and "st_CancelUnbondingDelegation S origin c method args s = (r, t) \<Longrightarrow>
      tx_effect G (CallerAddress c) origin (tx_spend CancelUnbondingDelegationMethod args) s (is_ok r) t"
  unfolding st_Delegate_def st_Undelegate_def st_Redelegate_def st_CancelUnbondingDelegation_def
  by (erule tx_effectI [OF laws]; (erule new_msg_amount [OF laws])?; auto intro!: keeps keeps_events [OF laws] staking_lawsD [OF laws])+
subsection \<open>Calls of the staking extension\<close>

lemma keeps_or_default [keeps]:
  assumes "pm_keeps (same_grants G) m" "\<And>a. pm_keeps (same_grants G) (f a)" "pm_keeps (same_grants G) d"
  shows "pm_keeps (same_grants G) (or_default m text f d)"
proof -
  have "same_grants G s (snd (or_default m text f d s))" for s
  proof (cases "m s")
    case (Pair r v)
    then have v: "same_grants G s v" by (rule keeps_same [OF assms(1)])
    have step: "same_grants G v (snd (f a v))" "same_grants G v (snd (d v))" for a
      using assms(2,3) by (simp_all add: pm_keeps_def)
    show ?thesis
      using Pair v transpD [OF same_grants_rel(2) v step(1)] transpD [OF same_grants_rel(2) v step(2)]
      by (simp add: or_default_def split: outcome.splits pre_error.splits)
  qed
  then show ?thesis by (simp add: pm_keeps_def)
qed

definition grant_methods :: "string set" where
  "grant_methods = {ApproveMethod, RevokeMethod, IncreaseAllowanceMethod, DecreaseAllowanceMethod}"

lemma st_queries_keep:
  assumes laws: "staking_laws S G"
  shows "pm_keeps (same_grants G) (st_Delegation S m args)" "pm_keeps (same_grants G) (st_UnbondingDelegation S m args)"
    "pm_keeps (same_grants G) (st_Validator S m args)" "pm_keeps (same_grants G) (st_Validators S m args)"
    "pm_keeps (same_grants G) (st_Redelegation S m args)" "pm_keeps (same_grants G) (st_Redelegations S m args)"
    "pm_keeps (same_grants G) (st_Allowance S m args)"
  unfolding st_Delegation_def st_UnbondingDelegation_def st_Validator_def st_Validators_def st_Redelegation_def
    st_Redelegations_def st_Allowance_def
  by (auto intro!: keeps staking_lawsD(6) [OF laws] query_lawsD [OF staking_lawsD(14) [OF laws]]
      authz_lawsD(1) [OF staking_lawsD(1) [OF laws]] split: prod.split option.split Authorization.split)

text \<open>A method that is not one of the four transactions and changes no grants by itself.\<close>

lemma st_method_effect:
  assumes laws: "staking_laws S G" and m: "method \<notin> grant_methods" and run: "st_method S origin c method args s = (r, t)"
  shows "same_grants G s t \<and> tx_spend method args = None \<or>
    tx_effect G (CallerAddress c) origin (tx_spend method args) s (is_ok r) t"
proof (cases "method \<in> {DelegateMethod, UndelegateMethod, RedelegateMethod, CancelUnbondingDelegationMethod}")
  case True
  with m run show ?thesis
    using st_tx_effects [OF laws] by (auto simp: st_method_def grant_methods_def method_names split: if_splits)
next
  case False
  then have "tx_spend method args = None" by (simp add: tx_spend_def)
  moreover have "pm_keeps (same_grants G) (st_method S origin c method args)"
    using False m st_queries_keep [OF laws]
    by (auto simp: st_method_def grant_methods_def intro!: keeps)
  then have "same_grants G s t" using run by (rule keeps_same)
  ultimately show ?thesis by simp
qed

text \<open>The EVM keeper's writes leave the grants alone.\<close>

definition env_keeps :: "('w \<Rightarrow> grants) \<Rightarrow> 'w env \<Rightarrow> bool" where
  "env_keeps G E \<longleftrightarrow>
     (\<forall>w a x w'. kSetAccount E w a x = Ok w' \<longrightarrow> G w' = G w) \<and> (\<forall>w a k v. G (kSetState E w a k v) = G w) \<and>
     (\<forall>w h c. G (kSetCode E w h c) = G w) \<and> (\<forall>w a w'. kDeleteAccount E w a = Ok w' \<longrightarrow> G w' = G w)"

lemma commit_storage_keeps: "env_keeps G E \<Longrightarrow> G (commit_storage E ob ks w) = G w"
  by (induction ks arbitrary: w) (auto simp: env_keeps_def Let_def)

lemma Commit_keeps:
  assumes env: "env_keeps G (keeper s)" and ok: "Commit s = Ok t"
  shows "G (ctx t) = G (ctx s) \<and> keeper t = keeper s"
proof -
  from ok obtain w where w: "fold_outcome (commit_address s) (sortedDirties (db_journal s)) (ctx s) = Ok w" and t: "t = s\<lparr>ctx := w\<rparr>"
    by (auto simp: Commit_def)
  have "G w = G (ctx s)"
  proof (rule fold_outcome_invariant [OF _ _ w, where P = "\<lambda>x. G x = G (ctx s)"])
    fix a x y
    assume "G x = G (ctx s)" and y: "commit_address s a x = Ok y"
    then show "G y = G (ctx s)"
      using env commit_storage_keeps [OF env]
      by (auto simp: commit_address_def commit_object_def env_keeps_def Let_def split: option.splits if_splits)
  qed simp
  with t show ?thesis by simp
qed

definition call_spend :: "'w StakingPrecompile \<Rightarrow> pcontract \<Rightarrow> (string \<times> int) option" where
  "call_spend S c =
     (case MethodById (P_ABI (sP S)) (take 4 (c_Input c)) of
        Ok m \<Rightarrow> (case UnpackInputs (P_ABI (sP S)) m (drop 4 (c_Input c)) of Ok args \<Rightarrow> tx_spend m args | _ \<Rightarrow> None)
      | _ \<Rightarrow> None)"

definition changes_grants :: "'w StakingPrecompile \<Rightarrow> pcontract \<Rightarrow> bool" where
  "changes_grants S c \<longleftrightarrow> (case MethodById (P_ABI (sP S)) (take 4 (c_Input c)) of Ok m \<Rightarrow> m \<in> grant_methods | _ \<Rightarrow> False)"

lemma RunSetup_Ok:
  assumes "RunSetup P isTx db c ro = Ok (s, m, g, args)"
  shows "pr_db s = db \<and> MethodById (P_ABI P) (take 4 (c_Input c)) = Ok m \<and> UnpackInputs (P_ABI P) m (drop 4 (c_Input c)) = Ok args"
proof -
  obtain r g' where "pConsumeGas P (pGasConsumed P (ctx db))
      \<lparr>gm_limit = c_Gas c, gm_consumed = 0, gm_kv = P_KvGasConfig P, gm_transient = P_TransientKVGasConfig P\<rparr> = (r, g')"
    by force
  with assms show ?thesis by (cases r) (auto simp: RunSetup_def Let_def split: if_splits pre_error.splits)
qed

lemma finish_run_db: "finish_run g c (r, s) = (r', c', db) \<Longrightarrow> db = pr_db s \<and> (is_ok r' \<longrightarrow> is_ok r)"
  by (auto simp: finish_run_def split: outcome.splits pre_error.splits prod.splits bool.splits)
text \<open>What a limited grant still allows; nothing when it is gone.\<close>

definition allowance_left :: "grants \<Rightarrow> Address \<times> Address \<times> string \<Rightarrow> int option" where
  "allowance_left A k =
     (case A k of
        None \<Rightarrow> Some 0
      | Some (StakeAuthz a, _) \<Rightarrow> map_option snd (MaxTokens a)
      | Some _ \<Rightarrow> None)"

lemma spends_left:
  assumes "spends ge gr u n A B" "allowance_left A k = Some l" "0 < n"
  shows "if k = (ge, gr, u) then n \<le> l \<and> allowance_left B k = Some (l - n) else allowance_left B k = Some l"
proof -
  from assms(1) obtain a e where a: "A (ge, gr, u) = Some (StakeAuthz a, e)" "within a n" and B: "B = A((ge, gr, u) := left_of a e n)"
    by (auto simp: spends_def)
  show ?thesis
  proof (cases "k = (ge, gr, u)")
    case True
    with a assms(2) obtain d where "MaxTokens a = Some (d, l)" by (auto simp: allowance_left_def)
    with a B True show ?thesis by (auto simp: within_def left_of_def allowance_left_def)
  qed (use B assms(2) in \<open>simp add: allowance_left_def\<close>)
qed

lemma tx_effect_left:
  assumes eff: "tx_effect G c org sp s ok t" and l: "allowance_left (grants_of G s) (ge, gr, u) = Some l" "0 \<le> l" and ne: "ge \<noteq> gr"
  shows "\<exists>m. 0 \<le> m \<and> m \<le> l \<and> allowance_left (grants_of G t) (ge, gr, u) = Some (l - m) \<and> keeper (pr_db t) = keeper (pr_db s) \<and>
    (\<forall>n. ok \<and> c = ge \<and> org = gr \<and> sp = Some (u, n) \<longrightarrow> m = n)"
proof (cases "same_grants G s t")
  case True
  then have same: "grants_of G t = grants_of G s" "keeper (pr_db t) = keeper (pr_db s)" by (simp_all add: same_grants_def)
  have "\<not> (ok \<and> c = ge \<and> org = gr \<and> sp = Some (u, n))" for n
  proof
    assume a: "ok \<and> c = ge \<and> org = gr \<and> sp = Some (u, n)"
    with eff ne have "0 < n" "spends ge gr u n (grants_of G s) (grants_of G t)" by (auto simp: tx_effect_def charged_def)
    from spends_left [OF this(2) l(1) this(1)] same l(1) \<open>0 < n\<close> show False by simp
  qed
  with same l show ?thesis by (intro exI [of _ 0]) auto
next
  case False
  with eff obtain u' n where n: "sp = Some (u', n)" "0 < n" and ch: "charged G c org u' n s ok t" by (auto simp: tx_effect_def)
  from ch False have sp: "spends c org u' n (grants_of G s) (grants_of G t)" and keep: "keeper (pr_db t) = keeper (pr_db s)"
    by (auto simp: charged_def same_grants_def split: if_splits)
  show ?thesis
    using spends_left [OF sp l(1) n(2)] n keep l(2)
    by (intro exI [of _ "if (ge, gr, u) = (c, org, u') then n else 0"]) (auto split: if_splits)
qed

lemma st_Run_left:
  assumes laws: "staking_laws S G" and env: "env_keeps G (keeper db)" and ne: "ge \<noteq> gr"
    and run: "st_Run S org db c ro = (r, c', db')" and m: "\<not> changes_grants S c"
    and l: "allowance_left (G (ctx db)) (ge, gr, u) = Some l" "0 \<le> l"
  shows "\<exists>m. 0 \<le> m \<and> m \<le> l \<and> allowance_left (G (ctx db')) (ge, gr, u) = Some (l - m) \<and> keeper db' = keeper db \<and>
    (\<forall>n. is_ok r \<and> CallerAddress c = ge \<and> org = gr \<and> call_spend S c = Some (u, n) \<longrightarrow> m = n)"
proof (cases "RunSetup (sP S) st_IsTransaction db c ro")
  case (Ok x)
  then obtain s mth g args where x: "x = (s, mth, g, args)" by (cases x) auto
  note prep = RunSetup_Ok [OF Ok [unfolded x]]
  obtain r1 t where t: "pm_bind commit_stateDB (\<lambda>_. st_method S org c mth args) s = (r1, t)" by force
  then have fin: "db' = pr_db t \<and> (is_ok r \<longrightarrow> is_ok r1)" using run Ok x finish_run_db by (fastforce simp: st_Run_def)
  have spend: "call_spend S c = tx_spend mth args" "mth \<notin> grant_methods"
    using prep m by (simp_all add: call_spend_def changes_grants_def)
  from t show ?thesis
  proof (cases rule: pm_bind_cases)
    case (ok _ v)
    then have v: "G (ctx (pr_db v)) = G (ctx db) \<and> keeper (pr_db v) = keeper db"
      using prep env by (auto simp: commit_stateDB_def dest: Commit_keeps split: outcome.splits)
    have "same_grants G v t \<and> tx_spend mth args = None \<or>
        tx_effect G (CallerAddress c) org (tx_spend mth args) v (is_ok r1) t"
      by (rule st_method_effect [OF laws spend(2) ok(2)])
    then show ?thesis
    proof
      assume "same_grants G v t \<and> tx_spend mth args = None"
      with fin v l spend show ?thesis by (intro exI [of _ 0]) (auto simp: same_grants_def)
    next
      assume "tx_effect G (CallerAddress c) org (tx_spend mth args) v (is_ok r1) t"
      from tx_effect_left [OF this _ l(2) ne] v l(1) fin spend(1) show ?thesis by fastforce
    qed
  next
    case (failed r')
    then have "t = s" by (auto simp: commit_stateDB_def split: outcome.splits)
    with failed fin prep l show ?thesis by (intro exI [of _ 0]) auto
  qed
qed (use run l in \<open>auto simp: st_Run_def\<close>)

text \<open>Calls one after the other, from anyone; which of them succeeded, and what one contract spent of one grant.\<close>

fun st_runs :: "'w StakingPrecompile \<Rightarrow> (Address \<times> pcontract \<times> bool) list \<Rightarrow> 'w StateDB \<Rightarrow> bool list \<times> 'w StateDB" where
  "st_runs S [] db = ([], db)"
| "st_runs S ((origin, c, readOnly) # cs) db =
     (case st_Run S origin db c readOnly of
        (r, _, db1) \<Rightarrow> (case st_runs S cs db1 of (oks, db2) \<Rightarrow> (is_ok r # oks, db2)))"

fun spent_by :: "'w StakingPrecompile \<Rightarrow> Address \<Rightarrow> Address \<Rightarrow> string \<Rightarrow> (Address \<times> pcontract \<times> bool) list \<Rightarrow> bool list \<Rightarrow> int" where
  "spent_by S ge gr u ((origin, c, _) # cs) (ok # oks) =
     (case call_spend S c of
        Some (u', n) \<Rightarrow> if ok \<and> CallerAddress c = ge \<and> origin = gr \<and> u' = u then n else 0
      | None \<Rightarrow> 0) + spent_by S ge gr u cs oks"
| "spent_by S ge gr u _ _ = 0"

lemma spent_within:
  assumes laws: "staking_laws S G" and ne: "ge \<noteq> gr"
  shows "env_keeps G (keeper db) \<Longrightarrow> \<forall>(org, c, ro) \<in> set calls. \<not> changes_grants S c \<Longrightarrow>
    allowance_left (G (ctx db)) (ge, gr, u) = Some l \<Longrightarrow> 0 \<le> l \<Longrightarrow> st_runs S calls db = (oks, db') \<Longrightarrow>
    spent_by S ge gr u calls oks \<le> l"
proof (induction calls arbitrary: db l oks db')
  case (Cons call calls)
  obtain org c ro where call: "call = (org, c, ro)" by (cases call) auto
  obtain r c' db1 where run: "st_Run S org db c ro = (r, c', db1)" by (cases "st_Run S org db c ro") auto
  obtain oks1 db2 where rest: "st_runs S calls db1 = (oks1, db2)" by force
  from st_Run_left [OF laws Cons.prems(1) ne run _ Cons.prems(3,4)] Cons.prems(2) call
  obtain m where m: "0 \<le> m" "m \<le> l" "allowance_left (G (ctx db1)) (ge, gr, u) = Some (l - m)" "keeper db1 = keeper db"
    and charge: "\<forall>n. is_ok r \<and> CallerAddress c = ge \<and> org = gr \<and> call_spend S c = Some (u, n) \<longrightarrow> m = n" by auto
  have "spent_by S ge gr u calls oks1 \<le> l - m"
    using Cons.IH [of db1 "l - m" oks1 db2] Cons.prems(1,2) m rest by auto
  moreover have "oks = is_ok r # oks1" using Cons.prems(5) call run rest by simp
  ultimately show ?case using charge m(1) call by (auto split: option.splits)
qed auto

subsection \<open>Approving\<close>

text \<open>The amount that the allowance query shows for a grant, and the amount a coin argument stands for.\<close>

definition shown :: "grant option \<Rightarrow> int option" where
  "shown x =
     (case x of
        None \<Rightarrow> Some 0
      | Some (StakeAuthz a, _) \<Rightarrow> Some (case MaxTokens a of None \<Rightarrow> MaxUint256 | Some (_, amount) \<Rightarrow> amount)
      | Some _ \<Rightarrow> None)"

definition coin_amount :: "coin option \<Rightarrow> int" where
  "coin_amount c = (case c of None \<Rightarrow> MaxUint256 | Some (_, amount) \<Rightarrow> amount)"

lemma SaveGrant_grants:
  assumes "authz_laws P G url" "on_ctx (SaveGrant P ge gr a e) s = (Ok (), t)"
  shows "grants_of G t = (grants_of G s)((ge, gr, url a) \<mapsto> (a, e)) \<and> keeper (pr_db t) = keeper (pr_db s)"
  using on_ctx_result [OF assms(2)] authz_lawsD(3) [OF assms(1), of ge gr a e "ctx (pr_db s)" "pr_gas s"] by auto

lemma DeleteGrant_grants:
  assumes "authz_laws P G url" "on_ctx (DeleteGrant P ge gr u) s = (Ok (), t)"
  shows "grants_of G t = (grants_of G s)((ge, gr, u) := None) \<and> keeper (pr_db t) = keeper (pr_db s)"
  using on_ctx_result [OF assms(2)] authz_lawsD(4) [OF assms(1), of ge gr u "ctx (pr_db s)" "pr_gas s"] by auto

lemma converted_url:
  "staking_laws S G \<Longrightarrow> convertMsgToAuthz u = Ok ty \<Longrightarrow> sMsgTypeURL S ty = u"
  by (auto simp: staking_laws_def convertMsgToAuthz_def split: if_splits)

lemma createStakingAuthz_grants:
  assumes laws: "staking_laws S G" and ty: "convertMsgToAuthz u = Ok ty" and run: "createStakingAuthz S ge gr c ty s = (Ok (), t)"
  shows "\<exists>x. grants_of G t = (grants_of G s)((ge, gr, u) := x) \<and> shown x = Some (coin_amount c)"
proof -
  from run obtain vals s1 a where vals: "on_ctx (sIterateValidators S) s = (Ok vals, s1)"
    and a: "sNewStakeAuthorization S (map snd (filter (\<lambda>(jailed, _). \<not> jailed) vals)) ty c = Ok a"
    and save: "on_ctx (SaveGrant (sP S) ge gr (StakeAuthz a) (Some (pBlockTime (sP S) (ctx (pr_db s1)) + ApprovalExpiration (sP S)))) s1 = (Ok (), t)"
    by (auto simp: createStakingAuthz_def Let_def)
  have "auth_url S (StakeAuthz a) = u" "MaxTokens a = c"
    using staking_lawsD(5) [OF laws a] converted_url [OF laws ty] by (simp_all add: auth_url_def)
  moreover have "same_grants G s s1" using vals by (rule keeps_same [rotated]) (intro keeps staking_lawsD [OF laws])
  ultimately show ?thesis
    using SaveGrant_grants [OF staking_lawsD(1) [OF laws] save]
    by (intro exI) (auto simp: same_grants_def shown_def coin_amount_def)
qed

lemma grantOrDelete_grants:
  assumes laws: "staking_laws S G" and ty: "convertMsgToAuthz u = Ok ty" and n: "0 \<le> coin_amount c"
    and run: "grantOrDeleteStakingAuthz S ge gr c ty s = (Ok (), t)"
  shows "\<exists>x. grants_of G t = (grants_of G s)((ge, gr, u) := x) \<and> shown x = Some (coin_amount c)"
proof (cases "createStakingAuthz S ge gr c ty s = (Ok (), t)")
  case False
  with run obtain d m where c: "c = Some (d, m)" "m \<le> 0" "on_ctx (DeleteGrant (sP S) ge gr (sMsgTypeURL S ty)) s = (Ok (), t)"
    by (auto simp: grantOrDeleteStakingAuthz_def split: option.splits if_splits)
  with DeleteGrant_grants [OF staking_lawsD(1) [OF laws] c(3)] converted_url [OF laws ty] n show ?thesis
    by (intro exI [of _ None]) (auto simp: shown_def coin_amount_def)
qed (rule createStakingAuthz_grants [OF laws ty])

text \<open>The loop over the message types: each of them gets the amount, nothing else changes.\<close>

lemma approve_types:
  assumes step: "\<And>u s t. f u s = (Ok (), t) \<Longrightarrow> \<exists>x. grants_of G t = (grants_of G s)((ge, gr, u) := x) \<and> shown x = Some n"
  shows "pm_each f us s = (Ok (), t) \<Longrightarrow>
    (\<forall>u \<in> set us. shown (grants_of G t (ge, gr, u)) = Some n) \<and>
    (\<forall>k. k \<notin> (\<lambda>u. (ge, gr, u)) ` set us \<longrightarrow> grants_of G t k = grants_of G s k)"
proof (induction us arbitrary: s)
  case (Cons u us)
  then obtain v where v: "f u s = (Ok (), v)" "pm_each f us v = (Ok (), t)" by auto
  from step [OF v(1)] obtain x where x: "grants_of G v = (grants_of G s)((ge, gr, u) := x)" "shown x = Some n" by blast
  note rest = Cons.IH [OF v(2)]
  have "shown (grants_of G t (ge, gr, u)) = Some n"
  proof (cases "u \<in> set us")
    case False
    then have "(ge, gr, u) \<notin> (\<lambda>u. (ge, gr, u)) ` set us" by auto
    with rest x show ?thesis by (metis fun_upd_same)
  qed (use rest in simp)
  with rest x show ?case by auto
qed simp

lemma Approve_grants:
  assumes laws: "staking_laws S G" and run: "st_Approve S origin m [AVaddress ge, AVbig n, AVstrings us] s = (Ok out, t)"
  shows "(\<forall>u \<in> set us. shown (grants_of G t (ge, origin, u)) = Some n) \<and>
    (\<forall>k. k \<notin> (\<lambda>u. (ge, origin, u)) ` set us \<longrightarrow> grants_of G t k = grants_of G s k)"
proof -
  from run obtain denom s1 ge' c us' s2 s3 where denom: "on_ctx (sBondDenom S) s = (Ok denom, s1)"
    and args: "CheckApprovalArgs (sP S) [AVaddress ge, AVbig n, AVstrings us] denom = Ok (ge', c, us')"
    and each: "pm_each (\<lambda>typeURL.
         if typeURL \<in> {DelegateMsg, UndelegateMsg, RedelegateMsg, CancelUnbondingDelegationMsg}
         then pm_bind (pm_lift (convertMsgToAuthz typeURL)) (grantOrDeleteStakingAuthz S ge' origin c)
         else pm_fail ''invalid staking transaction type'') us' s1 = (Ok (), s2)"
    and emit: "EmitApprovalEvent S ge' origin c us' s2 = (Ok (), s3)" and out: "pack_out S m [AVbool True] s3 = (Ok out, t)"
    unfolding st_Approve_def by (auto split: prod.splits)
  from args have arg: "ge' = ge" "us' = us" "0 \<le> n" "coin_amount c = n"
    using staking_lawsD(3) [OF laws]
    by (auto simp: CheckApprovalArgs_def nonzero_address_def validateMsgTypes_def coin_amount_def split: if_splits option.splits)
  have step: "\<exists>x. grants_of G v = (grants_of G r)((ge, origin, u) := x) \<and> shown x = Some n"
    if "(if u \<in> {DelegateMsg, UndelegateMsg, RedelegateMsg, CancelUnbondingDelegationMsg}
         then pm_bind (pm_lift (convertMsgToAuthz u)) (grantOrDeleteStakingAuthz S ge' origin c)
         else pm_fail ''invalid staking transaction type'') r = (Ok (), v)" for u r v
    using that grantOrDelete_grants [OF laws, of u _ c ge origin] arg by (auto split: if_splits)
  have "same_grants G s s1" using denom by (rule keeps_same [rotated]) (intro keeps staking_lawsD [OF laws])
  moreover have "same_grants G s2 s3" using emit by (rule keeps_same [rotated]) (simp add: EmitApprovalEvent_def keeps)
  moreover have "same_grants G s3 t" using out by (rule keeps_same [rotated]) (intro keeps)
  moreover have "(\<forall>u \<in> set us'. shown (grants_of G s2 (ge, origin, u)) = Some n) \<and>
      (\<forall>k. k \<notin> (\<lambda>u. (ge, origin, u)) ` set us' \<longrightarrow> grants_of G s2 k = grants_of G s1 k)"
    using each by (rule approve_types [rotated]) (rule step)
  ultimately show ?thesis using arg by (simp add: same_grants_def)
qed

lemma Allowance_shown:
  assumes laws: "staking_laws S G" and run: "st_Allowance S m [AVaddress ge, AVaddress gr, AVstring u] s = (Ok out, t)"
    and n: "shown (grants_of G s (ge, gr, u)) = Some n"
  shows "PackOutputs (P_ABI (sP S)) m [AVbig n] = Ok out \<and> grants_of G t = grants_of G s"
proof -
  from run obtain x s1 where x: "on_ctx (GetAuthorization (sP S) ge gr u) s = (Ok x, s1)"
    and out: "(case x of None \<Rightarrow> pack_out S m [AVbig 0]
        | Some (StakeAuthz a, _) \<Rightarrow> pack_out S m [AVbig (case MaxTokens a of None \<Rightarrow> MaxUint256 | Some (_, amount) \<Rightarrow> amount)]
        | Some _ \<Rightarrow> pm_fail ''invalid type for staking authorization'') s1 = (Ok out, t)"
    by (auto simp: st_Allowance_def CheckAllowanceArgs_def nonzero_address_def split: if_splits)
  have "x = grants_of G s (ge, gr, u)"
    using on_ctx_result [OF x] authz_lawsD(2) [OF staking_lawsD(1) [OF laws]] by blast
  moreover have "same_grants G s s1" using x by (rule keeps_same [rotated]) (intro keeps authz_lawsD [OF staking_lawsD(1) [OF laws]])
  ultimately show ?thesis
    using out n by (auto simp: same_grants_def shown_def pack_out_def split: option.splits Authorization.splits prod.splits)
qed

subsection \<open>The limit of an ICS-20 allocation\<close>

lemma decrease_loop_skip:
  "\<forall>j < k. fst (arr ! (i + j)) \<noteq> denom \<Longrightarrow>
     decrease_loop P denom e (k + n) i arr len = decrease_loop P denom e n (i + k) arr len"
proof (induction k arbitrary: i)
  case (Suc k)
  have "fst (arr ! i) \<noteq> denom" using Suc.prems [rule_format, of 0] by simp
  moreover have "\<forall>j < k. fst (arr ! (Suc i + j)) \<noteq> denom" using Suc.prems by (metis Suc_less_eq add_Suc_shift)
  ultimately show ?case using Suc.IH [of "Suc i"] by simp
qed simp

lemma decrease_loop_none:
  "\<forall>j < n. fst (arr ! (i + j)) \<noteq> denom \<Longrightarrow> decrease_loop P denom e n i arr len = Some (take len arr)"
  using decrease_loop_skip [where k = n and n = 0] by simp

lemma decrease_limit_at:
  assumes "denom \<notin> fst ` set xs" "denom \<notin> fst ` set ys" "pIntSub P l e = Some k"
  shows "decrease_limit P denom e (xs @ (denom, l) # ys) = Some (xs @ (if k \<le> 0 then [] else [(denom, k)]) @ ys)"
proof -
  let ?arr = "xs @ (denom, l) # ys" and ?i = "length xs" and ?m = "length ys"
  have start: "decrease_limit P denom e ?arr = decrease_loop P denom e (Suc ?m) ?i ?arr (length ?arr)"
    using assms(1) decrease_loop_skip [of ?i ?arr 0 denom P e "Suc ?m" "length ?arr"]
    by (force simp: decrease_limit_def nth_append dest: nth_mem)
  show ?thesis
  proof (cases "k \<le> 0")
    case True
    let ?arr' = "xs @ ys @ drop (?i + ?m) ?arr"
    have "fst (?arr' ! (Suc ?i + j)) \<noteq> denom" if "j < ?m" for j
    proof (cases "Suc j < ?m")
      case True
      then show ?thesis using assms(2) by (force simp: nth_append dest: nth_mem)
    next
      case False
      with that have j: "Suc j = ?m" by simp
      then have "drop (?i + ?m) ?arr = [last ys]" "ys \<noteq> []"
        by (cases ys rule: rev_cases; auto)+
      with j assms(2) show ?thesis by (force simp: nth_append dest: last_in_set)
    qed
    then have "decrease_loop P denom e ?m (Suc ?i) ?arr' (?i + ?m) = Some (take (?i + ?m) ?arr')" by (intro decrease_loop_none) simp
    with True start assms(3) show ?thesis by simp
  next
    case False
    have "fst ((xs @ (denom, k) # ys) ! (Suc ?i + j)) \<noteq> denom" if "j < ?m" for j
      using that assms(2) by (force simp: nth_append dest: nth_mem)
    then have "decrease_loop P denom e ?m (Suc ?i) (xs @ (denom, k) # ys) (length ?arr) = Some (take (length ?arr) (xs @ (denom, k) # ys))"
      by (intro decrease_loop_none) simp
    with False start assms(3) show ?thesis by simp
  qed
qed

subsection \<open>Who the vesting extension acts for\<close>

lemma v_queries_keep: "snd (v_Balances S m args s) = s"
  by (simp add: v_Balances_def pm_bind_def pm_lift_def vesting_out_def split: outcome.splits prod.splits)

lemma basic_args:
  "validateBasicArgs args n = Ok (f, v) \<Longrightarrow> 2 \<le> n \<Longrightarrow> length args = n \<and> args ! 0 = AVaddress f \<and> args ! 1 = AVaddress v"
  by (auto simp: validateBasicArgs_def arg_address_def split: if_splits abi_value.splits)

lemma changed_bind:
  "pm_bind (pm_lift r) f s = (out, t) \<Longrightarrow> t \<noteq> s \<Longrightarrow> \<exists>x. r = Ok x \<and> f x s = (out, t)"
  "pm_bind (only_origin e origin a) g s = (out, t) \<Longrightarrow> t \<noteq> s \<Longrightarrow> a = origin"
  by (auto simp: pm_bind_def pm_lift_def only_origin_def pm_fail_def split: outcome.splits if_splits)

lemma vesting_parties:
  "NewMsgCreateClawbackVestingAccount S args = Ok (msg, f, v) \<Longrightarrow> length args = 3 \<and> args ! 1 = AVaddress v"
  "NewMsgFundVestingAccount S args = Ok (msg5, f, v, lp) \<Longrightarrow> length args = 5 \<and> args ! 0 = AVaddress f"
  "NewMsgClawback S args = Ok (msg3, f, vd) \<Longrightarrow> length args = 3 \<and> args ! 0 = AVaddress f"
  by (auto simp: NewMsgCreateClawbackVestingAccount_def NewMsgFundVestingAccount_def NewMsgClawback_def Let_def dest!: basic_args)

lemma vesting_funder:
  "NewMsgUpdateVestingFunder S args = Ok (msg, f, n, v) \<Longrightarrow> length args = 3 \<and> args ! 0 = AVaddress f"
  by (auto simp: NewMsgUpdateVestingFunder_def arg_address_def Let_def split: list.splits abi_value.splits)

lemma v_txs_changed:
  assumes "t \<noteq> s"
  shows "v_CreateClawbackVestingAccount S origin m args s = (r, t) \<Longrightarrow> length args = 3 \<and> args ! 1 = AVaddress origin"
    and "v_FundVestingAccount S origin m args s = (r, t) \<Longrightarrow> length args = 5 \<and> args ! 0 = AVaddress origin"
    and "v_Clawback S origin m args s = (r, t) \<Longrightarrow> length args = 3 \<and> args ! 0 = AVaddress origin"
    and "v_UpdateVestingFunder S origin m args s = (r, t) \<Longrightarrow> length args = 3 \<and> args ! 0 = AVaddress origin"
  unfolding v_CreateClawbackVestingAccount_def v_FundVestingAccount_def v_Clawback_def v_UpdateVestingFunder_def
  using assms by (auto dest!: changed_bind vesting_parties vesting_funder)

end
