(* ===== verification/Precompile_Properties.thy ===== *)
theory Precompile_Properties
  imports Precompile_Laws Vesting_Keeper_Laws
begin

text \<open>
  Properties of the EVM extensions, with closed instances on a small chain whose context is a map of grants
  and the list of the staking messages that were executed.
\<close>

subsection \<open>A small chain\<close>

type_synonym small = "grants \<times> staking_msg list"

fun small_typeURL :: "AuthorizationType \<Rightarrow> string" where
  "small_typeURL DelegateAuthz = DelegateMsg"
| "small_typeURL UndelegateAuthz = UndelegateMsg"
| "small_typeURL RedelegateAuthz = RedelegateMsg"
| "small_typeURL CancelUnbondingDelegationAuthz = CancelUnbondingDelegationMsg"

fun small_url :: "Authorization \<Rightarrow> string" where
  "small_url (StakeAuthz a) = small_typeURL (sa_Type a)"
| "small_url (TransferAuthz _) = TransferMsg"
| "small_url (OtherAuthz u) = u"

text \<open>Grants are found under their own type only.\<close>

definition small_grants :: "small \<Rightarrow> grants" where
  "small_grants w k = (case fst w k of None \<Rightarrow> None | Some (a, e) \<Rightarrow> if small_url a = snd (snd k) then Some (a, e) else None)"

definition pure_call :: "('w \<Rightarrow> (pre_error, 'a) outcome \<times> 'w) \<Rightarrow> ('w, 'a) call" where
  "pure_call f = (\<lambda>(w, g). case f w of (r, w') \<Rightarrow> (r, (w', g)))"

definition read_call :: "('w \<Rightarrow> (pre_error, 'a) outcome) \<Rightarrow> ('w, 'a) call" where
  "read_call f = pure_call (\<lambda>w. (f w, w))"

text \<open>Four bytes for the method, then an address, a validator, and an amount for delegations.\<close>

definition small_abi :: abi where
  "small_abi =
     \<lparr>MethodById = (\<lambda>b. if b = [1, 0, 0, 0] then Ok DelegateMethod else if b = [2, 0, 0, 0] then Ok ApproveMethod else Err ''no method''),
      UnpackInputs = (\<lambda>m b. case b of
          [x, y, z] \<Rightarrow>
            if m = DelegateMethod then Ok [AVaddress (ucast x), AVstring (chars_of [y]), AVbig (uint z)]
            else Ok [AVaddress (ucast x), AVbig (uint y), AVstrings (if z = 0 then [DelegateMsg] else [DelegateMsg, ''/bank''])]
        | _ \<Rightarrow> Err ''short input''),
      PackOutputs = (\<lambda>_ vs. case vs of [AVbig n] \<Rightarrow> Ok [word_of_int n] | _ \<Rightarrow> Ok [1]), EventID = (\<lambda>_. 0), PackEvent = (\<lambda>_ _ _. Ok [])\<rparr>"

definition no_gas :: GasConfig where
  "no_gas = \<lparr>HasCost = 0, DeleteCost = 0, ReadCostFlat = 0, ReadCostPerByte = 0, WriteCostFlat = 0, WriteCostPerByte = 0, IterNextCostFlat = 0\<rparr>"

definition small_precompile :: "small Precompile" where
  "small_precompile =
     \<lparr>P_ABI = small_abi,
      GetAuthorization = (\<lambda>ge gr u. read_call (\<lambda>w. Ok (small_grants w (ge, gr, u)))),
      SaveGrant = (\<lambda>ge gr a e. pure_call (\<lambda>w. (Ok (), ((fst w)((ge, gr, small_url a) \<mapsto> (a, e)), snd w)))),
      DeleteGrant = (\<lambda>ge gr u. pure_call (\<lambda>w. (Ok (), ((fst w)((ge, gr, u) := None), snd w)))),
      ApprovalExpiration = 31536000, P_KvGasConfig = no_gas, P_TransientKVGasConfig = no_gas,
      pBlockTime = (\<lambda>_. 0), pGasConsumed = (\<lambda>_. 0), pConsumeGas = (\<lambda>_ g. (Ok (), g)), plib = raw_lib, pAccString = chars_of,
      pIntAdd = (\<lambda>a b. if \<bar>a + b\<bar> < 2 ^ 256 then Some (a + b) else None),
      pIntSub = (\<lambda>a b. if \<bar>a - b\<bar> < 2 ^ 256 then Some (a - b) else None),
      pBech32ify = (\<lambda>b. Ok (chars_of b)), pAccAddressFromBech32 = (\<lambda>s. Ok (bytes_of s)), pValAddressFromBech32 = (\<lambda>s. Ok (bytes_of s))\<rparr>"

fun msg_validator :: "staking_msg \<Rightarrow> string" where
  "msg_validator (MsgDelegate _ v _) = v"
| "msg_validator (MsgUndelegate _ v _) = v"
| "msg_validator (MsgBeginRedelegate _ _ v _) = v"
| "msg_validator (MsgCancelUnbondingDelegation _ v _ _) = v"

definition small_accept :: "StakeAuthorization \<Rightarrow> staking_msg \<Rightarrow> (pre_error, AcceptResponse) outcome" where
  "small_accept a msg =
     (if msg_validator msg \<notin> set (sa_AllowList a) then Err (Failed ''cannot delegate/undelegate to validator'')
      else case MaxTokens a of
             None \<Rightarrow> Ok \<lparr>ar_Accept = True, ar_Delete = False, ar_Updated = Some (StakeAuthz a)\<rparr>
           | Some (d, l) \<Rightarrow>
               let n = snd (msg_amount msg) in
               if n > l then Err (Failed ''insufficient funds'')
               else if n = l then Ok \<lparr>ar_Accept = True, ar_Delete = True, ar_Updated = None\<rparr>
               else Ok \<lparr>ar_Accept = True, ar_Delete = False, ar_Updated = Some (StakeAuthz (a\<lparr>MaxTokens := Some (d, l - n)\<rparr>))\<rparr>)"

definition small_serve :: "'a \<Rightarrow> staking_msg \<Rightarrow> (small, 'a) call" where
  "small_serve x msg = pure_call (\<lambda>w. (Ok x, (fst w, msg # snd w)))"

text \<open>The validators \<open>a\<close>, which is jailed, and \<open>b\<close>.\<close>

definition small_staking :: "small StakingPrecompile" where
  "small_staking =
     \<lparr>sP = small_precompile, sBondDenom = read_call (\<lambda>_. Ok ''aany''),
      sIterateValidators = read_call (\<lambda>_. Ok [(True, [97]), (False, [98])]),
      sNewStakeAuthorization = (\<lambda>vs t c. Ok \<lparr>sa_AllowList = map chars_of vs, MaxTokens = c, sa_Type = t\<rparr>),
      sAuthz_ValidateBasic = (\<lambda>_. Ok ()), sMsgTypeURL = small_typeURL, sAccept = (\<lambda>a msg. read_call (\<lambda>_. small_accept a msg)),
      sMsg_ValidateBasic = (\<lambda>msg. if 0 < snd (msg_amount msg) then Ok () else Err ''invalid delegation amount''),
      sDelegate = small_serve (), sUndelegate = small_serve 0, sBeginRedelegate = small_serve 0,
      sCancelUnbondingDelegation = small_serve (), sSharesFromTokens = (\<lambda>_ n. read_call (\<lambda>_. Ok n)),
      qDelegation = (\<lambda>_ _. read_call (\<lambda>_. Ok (0, (''aany'', 0)))), qUnbondingDelegation = (\<lambda>_ _. read_call (\<lambda>_. Ok ([], [], []))),
      qValidator = (\<lambda>_. read_call (\<lambda>_. Ok DefaultValidatorOutput)), qRedelegation = (\<lambda>_ _ _. read_call (\<lambda>_. Ok ([], [], [], []))),
      qValidators = (\<lambda>_ _. read_call (\<lambda>_. Ok ([], None))), qRedelegations = (\<lambda>_ _ _ _. read_call (\<lambda>_. Ok ([], None))),
      copyValidatorsInput = (\<lambda>_. Err ''none''), copyRedelegationsInput = (\<lambda>_. Err ''none'')\<rparr>"

lemma read_call_keeps [simp]: "call_keeps G (read_call f)"
  by (simp add: call_keeps_def read_call_def pure_call_def)

lemma small_serve_keeps [simp]: "call_keeps small_grants (small_serve x msg)"
  by (simp add: call_keeps_def small_serve_def pure_call_def small_grants_def fun_eq_iff)

lemma small_authz: "authz_laws small_precompile small_grants (auth_url small_staking)"
proof -
  have url: "auth_url small_staking = small_url"
    by (rule ext, rename_tac a, case_tac a) (simp_all add: auth_url_def small_staking_def)
  show ?thesis
    unfolding authz_laws_def url
    by (auto simp: small_precompile_def read_call_def pure_call_def small_grants_def call_keeps_def fun_eq_iff split: option.splits if_splits)
qed

lemma small_laws: "staking_laws small_staking small_grants"
proof -
  have "accept_laws small_staking"
    by (auto simp: accept_laws_def small_staking_def small_accept_def read_call_def pure_call_def Let_def split: option.splits if_splits)
  moreover have "sP small_staking = small_precompile" by (simp add: small_staking_def)
  moreover have "query_laws small_staking small_grants" by (simp add: query_laws_def small_staking_def)
  moreover have "big_Int small_precompile i = Some j \<Longrightarrow> j = i" for i j
    by (simp add: big_Int_def small_precompile_def raw_lib_def split: if_splits)
  ultimately show ?thesis
    using small_authz unfolding staking_laws_def by (auto simp: small_staking_def split: if_splits)
qed

definition small_env :: "'w env" where
  "small_env =
     \<lparr>kGetAccount = (\<lambda>_ _. None), kGetState = (\<lambda>_ _ _. 0), kGetCode = (\<lambda>_ _. None), kForEachStorage = (\<lambda>_ _. []),
      kSetAccount = (\<lambda>w _ _. Ok w), kSetState = (\<lambda>w _ _ _. w), kSetCode = (\<lambda>w _ _. w), kDeleteAccount = (\<lambda>w _. Ok w),
      Keccak256Hash = (\<lambda>_. 0)\<rparr>"

lemma small_env_keeps: "env_keeps G small_env"
  by (simp add: env_keeps_def small_env_def)

text \<open>The account 7 has granted the contract 5 ten tokens, for the validator \<open>b\<close>.\<close>

definition ten_tokens :: StakeAuthorization where
  "ten_tokens = \<lparr>sa_AllowList = [''b''], MaxTokens = Some (''aany'', 10), sa_Type = DelegateAuthz\<rparr>"

definition small_world :: small where
  "small_world = ([(5, 7, DelegateMsg) \<mapsto> (StakeAuthz ten_tokens, None)], [])"

definition small_db :: "small StateDB" where
  "small_db = New small_world small_env (NewEmptyTxConfig 0)"

definition small_contract :: "byte \<Rightarrow> byte \<Rightarrow> pcontract" where
  "small_contract v n = \<lparr>CallerAddress = 5, c_Input = [1, 0, 0, 0, 7, v, n], c_Gas = 100\<rparr>"

definition small_call :: "byte \<Rightarrow> byte \<Rightarrow> Address \<times> pcontract \<times> bool" where
  "small_call v n = (7, small_contract v n, False)"

lemma small_fields [simp]:
  "sP small_staking = small_precompile" "sBondDenom small_staking = read_call (\<lambda>_. Ok ''aany'')"
  "sAccept small_staking a msg = read_call (\<lambda>_. small_accept a msg)" "sDelegate small_staking msg = small_serve () msg"
  "sMsg_ValidateBasic small_staking msg = (if 0 < snd (msg_amount msg) then Ok () else Err ''invalid delegation amount'')"
  "sSharesFromTokens small_staking v n = read_call (\<lambda>_. Ok n)" "sMsgTypeURL small_staking = small_typeURL"
  "P_ABI small_precompile = small_abi" "pAccString small_precompile = chars_of" "plib small_precompile = raw_lib"
  "GetAuthorization small_precompile ge gr u = read_call (\<lambda>w. Ok (small_grants w (ge, gr, u)))"
  "pValAddressFromBech32 small_precompile s = Ok (bytes_of s)" "pConsumeGas small_precompile x64 = (\<lambda>g. (Ok (), g))"
  "pGasConsumed small_precompile = (\<lambda>_. 0)"
  "PackOutputs small_abi = (\<lambda>_ vs. case vs of [AVbig n] \<Rightarrow> Ok [word_of_int n] | _ \<Rightarrow> Ok [1])" "EventID small_abi = (\<lambda>_. 0)" "PackEvent small_abi = (\<lambda>_ _ _. Ok [])"
  by (simp_all add: small_staking_def small_precompile_def small_abi_def)

lemma small_on_ctx [simp]:
  "on_ctx (read_call f) s = (f (ctx (pr_db s)), s)"
  "on_ctx (small_serve x msg) s = (Ok x, s\<lparr>pr_db := (pr_db s)\<lparr>ctx := (fst (ctx (pr_db s)), msg # snd (ctx (pr_db s)))\<rparr>\<rparr>)"
  by (simp_all add: on_ctx_def read_call_def pure_call_def small_serve_def)

lemma small_save [simp]:
  "on_ctx (SaveGrant small_precompile ge gr x e) s = (Ok (), s\<lparr>pr_db := (pr_db s)\<lparr>ctx :=
     ((fst (ctx (pr_db s)))((ge, gr, small_url x) \<mapsto> (x, e)), snd (ctx (pr_db s)))\<rparr>\<rparr>)"
  "on_ctx (DeleteGrant small_precompile ge gr u) s = (Ok (), s\<lparr>pr_db := (pr_db s)\<lparr>ctx :=
     ((fst (ctx (pr_db s)))((ge, gr, u) := None), snd (ctx (pr_db s)))\<rparr>\<rparr>)"
  by (simp_all add: on_ctx_def pure_call_def small_precompile_def)

text \<open>Running a delegation of the contract 5 for the account 7.\<close>

definition delegate_msg :: "Address \<Rightarrow> string \<Rightarrow> int \<Rightarrow> staking_msg" where
  "delegate_msg d v n = MsgDelegate (chars_of (AddressBytes d)) v (''aany'', n)"

lemma small_new_msg:
  "0 < n \<Longrightarrow> n < 2 ^ 256 \<Longrightarrow> d \<noteq> 0 \<Longrightarrow>
     NewMsgDelegate small_staking [AVaddress d, AVstring v, AVbig n] ''aany'' = Ok (delegate_msg d v n, d)"
  by (simp add: NewMsgDelegate_def checkDelegationUndelegationArgs_def nonzero_address_def arg_string_def arg_big_def with_coin_def
      big_Int_def raw_lib_def acc_string_def delegate_msg_def)

definition small_log :: "Address \<Rightarrow> int \<Rightarrow> ethLog" where
  "small_log gr n = \<lparr>log_Address = staking_Address, log_Topics = [0, ucast gr, 0], log_Data = HashBytes (word_of_int n) @ HashBytes (word_of_int n),
     log_TxHash = 0, log_BlockHash = 0, log_TxIndex = 0, log_Index = 0\<rparr>"

lemma small_delegate:
  assumes k: "keeper (pr_db s) = small_env" and n: "0 < n" "n < 2 ^ 256" "n < l"
    and a: "small_grants (ctx (pr_db s)) (5, 7, DelegateMsg) = Some (StakeAuthz a, e)" "MaxTokens a = Some (d, l)" "v \<in> set (sa_AllowList a)"
      "sa_Type a = DelegateAuthz" and c: "CallerAddress c = 5"
  shows "st_Delegate small_staking 7 c m [AVaddress 7, AVstring v, AVbig n] s =
    (Ok [1], s\<lparr>pr_db := AddLog ((pr_db s)\<lparr>ctx :=
        ((fst (ctx (pr_db s)))((5, 7, DelegateMsg) \<mapsto> (StakeAuthz (a\<lparr>MaxTokens := Some (d, l - n)\<rparr>), e)),
         delegate_msg 7 v n # snd (ctx (pr_db s)))\<rparr>) (small_log 7 n)\<rparr>)"
proof -
  have "check_grant small_staking 5 7 7 (delegate_msg 7 v n) DelegateMsg s = (Ok (Some (a, e)), s)"
    using n a by (simp add: check_grant_def CheckAuthzAndAllowanceForGranter_def pm_bind_def pm_return_def delegate_msg_def)
  moreover have "small_accept a (delegate_msg 7 v n) =
      Ok \<lparr>ar_Accept = True, ar_Delete = False, ar_Updated = Some (StakeAuthz (a\<lparr>MaxTokens := Some (d, l - n)\<rparr>))\<rparr>"
    using n a by (simp add: small_accept_def delegate_msg_def)
  moreover have "EmitDelegateEvent small_staking (delegate_msg 7 v n) 7 t =
      (Ok (), t\<lparr>pr_db := AddLog (pr_db t) (small_log 7 n)\<rparr>)" if "keeper (pr_db t) = small_env" for t
    using that by (simp add: EmitDelegateEvent_def delegate_msg_def pm_bind_def pm_lift_def createStakingTxTopics_def make_topic_def MakeTopic_def
        pack_nums_def PackNum_def pm_some_def pm_return_def add_log_def keccak_of_def small_env_def small_log_def)
  ultimately show ?thesis
    using small_new_msg [of n 7 v] n a(4) c k
    by (simp add: st_Delegate_def pm_bind_def pm_lift_def delegator_of_def spend_grant_def UpdateStakingAuthorization_def pm_some_def
        pm_return_def pack_out_def)
qed

lemma Commit_clean: "dirties (db_journal db) = fmempty \<Longrightarrow> Commit db = Ok db"
  by (simp add: Commit_def sortedDirties_def fm_keys_def sorted_list_of_fset.rep_eq)

lemma small_run:
  assumes "dirties (db_journal db) = fmempty" "keeper db = small_env" "0 < n" "uint n < l"
    and a: "small_grants (ctx db) (5, 7, DelegateMsg) = Some (StakeAuthz a, e)" "MaxTokens a = Some (d, l)" "chars_of [v] \<in> set (sa_AllowList a)"
      "sa_Type a = DelegateAuthz"
  shows "st_Run small_staking 7 db (small_contract v n) False =
    (Ok [1], small_contract v n, AddLog (db\<lparr>ctx :=
        ((fst (ctx db))((5, 7, DelegateMsg) \<mapsto> (StakeAuthz (a\<lparr>MaxTokens := Some (d, l - uint n)\<rparr>), e)),
         delegate_msg 7 (chars_of [v]) (uint n) # snd (ctx db))\<rparr>) (small_log 7 (uint n)))"
proof -
  have n: "0 < uint n" "uint n < 2 ^ 256"
    using assms(3) uint_lt2p [of n] by (simp_all add: word_less_def)
  let ?c = "small_contract v n"
  let ?g = "\<lparr>gm_limit = 100, gm_consumed = 0, gm_kv = P_KvGasConfig small_precompile, gm_transient = P_TransientKVGasConfig small_precompile\<rparr>"
  have prep: "RunSetup small_precompile st_IsTransaction db ?c False =
      Ok (\<lparr>pr_db = db, pr_gas = ?g\<rparr>, DelegateMethod, 0, [AVaddress 7, AVstring (chars_of [v]), AVbig (uint n)])"
    by (simp add: RunSetup_def small_contract_def small_abi_def Let_def method_names)
  have c: "CallerAddress ?c = 5" "c_Gas ?c = 100" by (simp_all add: small_contract_def)
  have st: "st_method small_staking 7 ?c DelegateMethod args = st_Delegate small_staking 7 ?c DelegateMethod args" for args
    by (simp add: st_method_def method_names)
  show ?thesis
    using small_delegate [of "\<lparr>pr_db = db, pr_gas = ?g\<rparr>" "uint n" l a e d "chars_of [v]" ?c DelegateMethod] assms n c(1)
    by (simp add: st_Run_def prep st pm_bind_def commit_stateDB_def Commit_clean finish_run_def UseGas_def c)
qed

subsection \<open>Spending\<close>


lemma two_delegations: "fst (st_runs small_staking [small_call 98 4, small_call 98 3] small_db) = [True, True]"
proof -
  have b: "chars_of [98] = ''b''" by code_simp
  have first: "st_Run small_staking 7 small_db (small_contract 98 4) False = (Ok [1], small_contract 98 4, AddLog (small_db\<lparr>ctx :=
      ((fst small_world)((5, 7, DelegateMsg) \<mapsto> (StakeAuthz (ten_tokens\<lparr>MaxTokens := Some (''aany'', 6)\<rparr>), None)),
       delegate_msg 7 ''b'' 4 # snd small_world)\<rparr>) (small_log 7 4))"
    using small_run [of small_db 4 10 ten_tokens None "''aany''" 98] b
    by (simp add: small_db_def New_def newJournal_def small_grants_def small_world_def ten_tokens_def)
  have second: "fst (st_Run small_staking 7 (AddLog (small_db\<lparr>ctx :=
      ((fst small_world)((5, 7, DelegateMsg) \<mapsto> (StakeAuthz (ten_tokens\<lparr>MaxTokens := Some (''aany'', 6)\<rparr>), None)), w)\<rparr>) lg)
      (small_contract 98 3) False) = Ok [1]" for w lg
    by (subst small_run [where l = 6 and a = "ten_tokens\<lparr>MaxTokens := Some (''aany'', 6)\<rparr>" and e = None and d = "''aany''"])
      (simp_all add: b small_db_def New_def newJournal_def small_grants_def small_world_def ten_tokens_def AddLog_def append_entry_def
        journal_append_def Let_def)
  let ?db = "snd (snd (st_Run small_staking 7 small_db (small_contract 98 4) False))"
  have "fst (st_Run small_staking 7 ?db (small_contract 98 3) False) = Ok [1]" by (simp add: first second)
  then obtain c db where "st_Run small_staking 7 ?db (small_contract 98 3) False = (Ok [1], c, db)" by (metis prod.collapse)
  moreover have "st_Run small_staking 7 small_db (small_contract 98 4) False = (Ok [1], small_contract 98 4, ?db)" by (simp add: first)
  ultimately show ?thesis by (auto simp: small_call_def simp del: One_nat_def split: prod.split)
qed


subsection \<open>What a failed call leaves\<close>

text \<open>C37. A delegation by a contract is executed before its authorization is asked to accept it. If the authorization
  then refuses (its list of validators does not have this one), the call returns the error, but the
  delegation stays in the context, also after the EVM has reverted its database to any snapshot, and no grant
  is charged for it.\<close>

theorem refused_delegation_is_kept:
  assumes laws: "staking_laws S G"
    and denom: "on_ctx (sBondDenom S) s = (Ok denom, s1)"
    and msg: "NewMsgDelegate S args denom = Ok (msg, d)" "CallerAddress c = d \<or> origin = d" "CallerAddress c \<noteq> origin"
    and grant: "CheckAuthzAndAllowanceForGranter (sP S) (CallerAddress c) origin (msg_amount msg) DelegateMsg s1 = (Ok (a, x), s2)"
    and served: "on_ctx (sDelegate S msg) s2 = (Ok (), s3)"
    and refused: "on_ctx (sAccept S a msg) s3 = (Err e, s4)"
    and revert: "RevertToSnapshot (pr_db s4) n = Some db"
  shows "st_Delegate S origin c m args s = (Err e, s4) \<and> ctx db = ctx (pr_db s4) \<and> G (ctx db) = G (ctx (pr_db s))"
proof -
  have gr: "delegator_of (CallerAddress c) origin d = Ok origin" using msg(2) by (auto simp: delegator_of_def)
  have chk: "check_grant S (CallerAddress c) origin origin msg DelegateMsg s1 = (Ok (Some (a, x)), s2)"
    using msg(3) grant by (simp add: check_grant_def pm_bind_def pm_return_def)
  have "st_Delegate S origin c m args s = (Err e, s4)"
    using denom msg(1) gr chk served refused
    by (simp add: st_Delegate_def pm_bind_def pm_lift_def spend_grant_def UpdateStakingAuthorization_def)
  moreover have "ctx db = ctx (pr_db s4)" by (rule RevertToSnapshot_ctx [OF revert])
  moreover have "same_grants G s s1" using denom by (rule keeps_same [rotated]) (intro keeps staking_lawsD [OF laws])
  moreover have "same_grants G s1 s2" using chk by (rule keeps_same [rotated]) (rule keeps_check_grant [OF laws])
  moreover have "same_grants G s2 s3" using served by (rule keeps_same [rotated]) (intro keeps staking_lawsD [OF laws])
  moreover have "same_grants G s3 s4" using refused by (rule keeps_same [rotated]) (intro keeps staking_lawsD [OF laws])
  ultimately show ?thesis by (simp add: same_grants_def)
qed

lemma refused_snapshot:
  "RevertToSnapshot ((snd (Snapshot small_db))\<lparr>ctx := (fst small_world, [delegate_msg 7 ''a'' 4])\<rparr>) 0 \<noteq> None"
  by (simp add: RevertToSnapshot_def Snapshot_def small_db_def New_def sort_Search_def Let_def journal_Revert_def newJournal_def
      journal_length_def search_loop.simps)

theorem refused_delegation_is_kept_witness:
  "let s = \<lparr>pr_db = snd (Snapshot small_db), pr_gas = \<lparr>gm_limit = 0, gm_consumed = 0, gm_kv = no_gas, gm_transient = no_gas\<rparr>\<rparr>;
       (r, s4) = st_Delegate small_staking 7 (small_contract 97 4) DelegateMethod [AVaddress 7, AVstring ''a'', AVbig 4] s
   in \<not> is_ok r \<and> (\<exists>db. RevertToSnapshot (pr_db s4) 0 = Some db \<and> snd (ctx db) = [delegate_msg 7 ''a'' 4] \<and>
        small_grants (ctx db) = small_grants small_world)"
proof -
  define s where "s = \<lparr>pr_db = snd (Snapshot small_db), pr_gas = \<lparr>gm_limit = 0, gm_consumed = 0, gm_kv = no_gas, gm_transient = no_gas\<rparr>\<rparr>"
  define s3 where "s3 = s\<lparr>pr_db := (snd (Snapshot small_db))\<lparr>ctx := (fst small_world, [delegate_msg 7 ''a'' 4])\<rparr>\<rparr>"
  have s: "ctx (pr_db s) = small_world" by (simp add: s_def Snapshot_def small_db_def New_def Let_def)
  obtain db where db: "RevertToSnapshot (pr_db s3) 0 = Some db" using refused_snapshot by (auto simp: s3_def)
  have grant: "CheckAuthzAndAllowanceForGranter small_precompile 5 7 (msg_amount (delegate_msg 7 ''a'' 4)) DelegateMsg s = (Ok (ten_tokens, None), s)"
    by (simp add: CheckAuthzAndAllowanceForGranter_def pm_bind_def pm_return_def s small_world_def small_grants_def ten_tokens_def delegate_msg_def)
  have *: "st_Delegate small_staking 7 (small_contract 97 4) DelegateMethod [AVaddress 7, AVstring ''a'', AVbig 4] s =
      (Err (Failed ''cannot delegate/undelegate to validator''), s3) \<and>
      ctx db = ctx (pr_db s3) \<and> small_grants (ctx db) = small_grants (ctx (pr_db s))"
  proof (rule refused_delegation_is_kept [OF small_laws])
    show "on_ctx (sBondDenom small_staking) s = (Ok ''aany'', s)" by simp
    show "NewMsgDelegate small_staking [AVaddress 7, AVstring ''a'', AVbig 4] ''aany'' = Ok (delegate_msg 7 ''a'' 4, 7)"
      by (simp add: small_new_msg)
    show "on_ctx (sDelegate small_staking (delegate_msg 7 ''a'' 4)) s = (Ok (), s3)"
      using s by (simp add: s3_def s_def small_world_def)
    show "on_ctx (sAccept small_staking ten_tokens (delegate_msg 7 ''a'' 4)) s3 = (Err (Failed ''cannot delegate/undelegate to validator''), s3)"
      by (simp add: small_accept_def ten_tokens_def delegate_msg_def)
    show "RevertToSnapshot (pr_db s3) 0 = Some db" by (rule db)
  qed (use grant in \<open>simp_all add: small_contract_def\<close>)
  have g: "small_grants (ctx db) = small_grants small_world" using * s by metis
  have c: "snd (ctx db) = [delegate_msg 7 ''a'' 4]" using * by (simp add: s3_def)
  have "\<exists>db. RevertToSnapshot (pr_db s3) 0 = Some db \<and> snd (ctx db) = [delegate_msg 7 ''a'' 4] \<and> small_grants (ctx db) = small_grants small_world"
    using db c g by blast
  then show ?thesis using * by (simp add: s_def [symmetric])
qed

subsection \<open>Approving\<close>

text \<open>C38. After a successful approval of an amount for some message types, the allowance query of each of these
  types answers with exactly this amount, be it zero (the grant is gone), the largest amount (there is no
  limit) or one in between, and no grant besides the origin's to this grantee for these types has changed.\<close>

theorem approve_then_allowance:
  assumes laws: "staking_laws S G"
    and approve: "st_Approve S origin m [AVaddress ge, AVbig n, AVstrings us] s = (Ok out, t)"
  shows "(\<forall>u \<in> set us. \<forall>m' out' t'. st_Allowance S m' [AVaddress ge, AVaddress origin, AVstring u] t = (Ok out', t') \<longrightarrow>
      PackOutputs (P_ABI (sP S)) m' [AVbig n] = Ok out') \<and>
    (\<forall>k. k \<notin> (\<lambda>u. (ge, origin, u)) ` set us \<longrightarrow> grants_of G t k = grants_of G s k)"
  using Approve_grants [OF laws approve] Allowance_shown [OF laws] by blast

definition small_start :: "small prun" where
  "small_start = \<lparr>pr_db = small_db, pr_gas = \<lparr>gm_limit = 0, gm_consumed = 0, gm_kv = no_gas, gm_transient = no_gas\<rparr>\<rparr>"

lemma small_approve_fields [simp]:
  "sIterateValidators small_staking = read_call (\<lambda>_. Ok [(True, [97]), (False, [98])])"
  "sNewStakeAuthorization small_staking vs ty c = Ok \<lparr>sa_AllowList = map chars_of vs, MaxTokens = c, sa_Type = ty\<rparr>"
  "sAuthz_ValidateBasic small_staking a = Ok ()" "pBlockTime small_precompile w = 0" "ApprovalExpiration small_precompile = 31536000"
  by (simp_all add: small_staking_def small_precompile_def)

theorem approve_then_allowance_witness:
  "\<exists>t. st_Approve small_staking 7 ApproveMethod [AVaddress 5, AVbig 3, AVstrings [DelegateMsg]] small_start = (Ok [1], t) \<and>
     fst (st_Allowance small_staking ''allowance'' [AVaddress 5, AVaddress 7, AVstring DelegateMsg] t) = Ok [3]"
proof -
  obtain r t where run: "st_Approve small_staking 7 ApproveMethod [AVaddress 5, AVbig 3, AVstrings [DelegateMsg]] small_start = (r, t)" by force
  then have ok: "r = Ok [1]"
    by (auto simp: st_Approve_def pm_bind_def pm_lift_def CheckApprovalArgs_def nonzero_address_def validateMsgTypes_def MaxUint256_def
        big_Int_def raw_lib_def convertMsgToAuthz_def DelegateMsg_def grantOrDeleteStakingAuthz_def createStakingAuthz_def Let_def
        EmitApprovalEvent_def emit2_def make_topic_def MakeTopic_def add_log_def pack_out_def pm_return_def)
  have "shown (small_grants (ctx (pr_db t)) (5, 7, DelegateMsg)) = Some 3" using Approve_grants [OF small_laws run [unfolded ok]] by simp
  then have "is_ok (fst (st_Allowance small_staking ''allowance'' [AVaddress 5, AVaddress 7, AVstring DelegateMsg] t))"
    by (auto simp: st_Allowance_def CheckAllowanceArgs_def nonzero_address_def pm_bind_def pm_lift_def pack_out_def shown_def DelegateMsg_def
        split: option.splits Authorization.splits prod.splits)
  then obtain out u where q: "st_Allowance small_staking ''allowance'' [AVaddress 5, AVaddress 7, AVstring DelegateMsg] t = (Ok out, u)"
    by (metis is_ok_iff prod.collapse)
  with approve_then_allowance [OF small_laws run [unfolded ok]] have "out = [3]" by auto
  with run ok q show ?thesis by auto
qed

subsection \<open>Transfer limits\<close>

text \<open>C39. Decreasing the limit of an ICS-20 allocation ranges over the coins it changes in place. For coins with
  distinct denominations it still does what is meant: the amount of the denomination is reduced, the coin is
  dropped when nothing is left, the other coins and their order stay, and no index is out of range.\<close>

theorem decrease_limit_meets_reference:
  assumes "distinct (map fst cs)" "(denom, l) \<in> set cs" "pIntSub P l e = Some k"
  shows "decrease_limit P denom e cs = Some (filter (\<lambda>c. fst c \<noteq> denom \<or> 0 < k) (map (\<lambda>c. if fst c = denom then (denom, k) else c) cs))"
proof -
  from assms(2) obtain xs ys where cs: "cs = xs @ (denom, l) # ys" by (auto dest: split_list)
  with assms(1) have out: "denom \<notin> fst ` set xs" "denom \<notin> fst ` set ys" by auto
  then have same: "map (\<lambda>c. if fst c = denom then (denom, k) else c) zs = zs" "filter (\<lambda>c. fst c \<noteq> denom \<or> 0 < k) zs = zs"
    if "zs = xs \<or> zs = ys" for zs
    using that by (auto intro!: map_idI simp: filter_id_conv) force+
  have "decrease_limit P denom e cs = Some (xs @ (if k \<le> 0 then [] else [(denom, k)]) @ ys)"
    unfolding cs by (rule decrease_limit_at [OF out assms(3)])
  moreover have "map (\<lambda>c. if fst c = denom then (denom, k) else c) cs = xs @ [(denom, k)] @ ys"
    using same(1) [of xs] same(1) [of ys] by (simp add: cs)
  moreover have "filter (\<lambda>c. fst c \<noteq> denom \<or> 0 < k) (xs @ [(denom, k)] @ ys) = xs @ (if k \<le> 0 then [] else [(denom, k)]) @ ys"
    using same(2) [of xs] same(2) [of ys] unfolding filter_append by simp
  ultimately show ?thesis by simp
qed

theorem decrease_limit_meets_reference_witness:
  "decrease_limit small_precompile ''b'' 5 [(''a'', 1), (''b'', 5), (''c'', 3)] = Some [(''a'', 1), (''c'', 3)]"
  by (subst decrease_limit_meets_reference [where l = 5 and k = 0]) (simp_all add: small_precompile_def)

subsection \<open>Vesting\<close>

text \<open>C40. A call of the vesting extension changes the database or the context only for the account that started the
  transaction: as the account that becomes a vesting account, or as the funder of a grant, a clawback or a
  change of the funder. Converting an account back is open to everyone. This is so also for calls that fail.\<close>

theorem vesting_acts_for_origin:
  assumes run: "v_method S origin m args s = (r, t)" and changed: "t \<noteq> s" and m: "m \<noteq> ConvertVestingAccountMethod"
  shows "m = CreateClawbackVestingAccountMethod \<and> args ! 1 = AVaddress origin \<or>
    m \<in> {FundVestingAccountMethod, ClawbackMethod, UpdateVestingFunderMethod} \<and> args ! 0 = AVaddress origin"
  using run m changed v_queries_keep [of S m args s] v_txs_changed [OF changed, of S origin m args r]
  by (auto simp: v_method_def pm_return_def CreateClawbackVestingAccountMethod_def FundVestingAccountMethod_def ClawbackMethod_def
      UpdateVestingFunderMethod_def split: if_splits)

definition text_vesting :: "(vledger vctx, bytes, vledger) VestingPrecompile" where
  "text_vesting =
     \<lparr>vP = \<lparr>P_ABI = small_abi, GetAuthorization = (\<lambda>_ _ _. read_call (\<lambda>_. Ok None)), SaveGrant = (\<lambda>_ _ _ _. read_call (\<lambda>_. Ok ())),
        DeleteGrant = (\<lambda>_ _ _. read_call (\<lambda>_. Ok ())), ApprovalExpiration = 0, P_KvGasConfig = no_gas, P_TransientKVGasConfig = no_gas,
        pBlockTime = BlockTime, pGasConsumed = (\<lambda>_. 0), pConsumeGas = (\<lambda>_ g. (Ok (), g)), plib = raw_lib,
        pAccString = (\<lambda>b. if b = AddressBytes 7 then ''alice'' else ''funder''),
        pIntAdd = (\<lambda>a b. Some (a + b)), pIntSub = (\<lambda>a b. Some (a - b)), pBech32ify = (\<lambda>b. Ok (chars_of b)),
        pAccAddressFromBech32 = (\<lambda>s. Ok (bytes_of s)), pValAddressFromBech32 = (\<lambda>s. Ok (bytes_of s))\<rparr>,
      vC = coin_list, vK = vledger_keeper, vGet = (\<lambda>c. c), vPut = (\<lambda>c _. c), vNewCoin = (\<lambda>d a. Some (d, a)),
      vCopyPeriods = (\<lambda>_. Ok [])\<rparr>"

definition text_start :: "vledger vctx prun" where
  "text_start = \<lparr>pr_db = New vgenesis small_env (NewEmptyTxConfig 0),
     pr_gas = \<lparr>gm_limit = 0, gm_consumed = 0, gm_kv = no_gas, gm_transient = no_gas\<rparr>\<rparr>"

lemma vcreated_new: "vcreated \<noteq> vgenesis"
proof -
  have "case accts (vmods vcreated) (text_bytes ''alice'') of Some (Clawback _) \<Rightarrow> True | _ \<Rightarrow> False" by code_simp
  moreover have "\<not> (case accts (vmods vgenesis) (text_bytes ''alice'') of Some (Clawback _) \<Rightarrow> True | _ \<Rightarrow> False)" by code_simp
  ultimately show ?thesis by auto
qed

theorem vesting_acts_for_origin_witness:
  "let args = [AVaddress 5, AVaddress 7, AVbool True];
       (r, t) = v_method text_vesting 7 CreateClawbackVestingAccountMethod args text_start
   in is_ok r \<and> ctx (pr_db t) = vcreated \<and> t \<noteq> text_start \<and> args ! 1 = AVaddress 7"
proof -
  let ?args = "[AVaddress 5, AVaddress 7, AVbool True]"
  obtain r t where run: "v_method text_vesting 7 CreateClawbackVestingAccountMethod ?args text_start = (r, t)" by force
  have strings: "acc_string (vP text_vesting) 5 = ''funder''" "acc_string (vP text_vesting) 7 = ''alice''"
    by (simp_all add: acc_string_def text_vesting_def)
  have msg: "NewMsgCreateClawbackVestingAccount text_vesting ?args = Ok ((''funder'', ''alice'', True), 5, 7)"
    using create_checks
    by (simp add: NewMsgCreateClawbackVestingAccount_def validateBasicArgs_def arg_address_def strings Let_def) (simp add: text_vesting_def)
  have keeper: "vesting_call text_vesting (\<lambda>K c. no_result (CreateClawbackVestingAccount (vC text_vesting) K c ''funder'' ''alice'' True)) text_start
      = (Ok (), text_start\<lparr>pr_db := (pr_db text_start)\<lparr>ctx := vcreated\<rparr>\<rparr>)"
    using vcreated_ok
    by (simp add: vesting_call_def on_ctx_def keeper_message_def no_result_def text_vesting_def text_start_def New_def Let_def)
  have "P_ABI (vP text_vesting) = small_abi" by (simp add: text_vesting_def)
  then have "is_ok r \<and> ctx (pr_db t) = vcreated"
    using run msg keeper
    by (auto simp: v_method_def v_CreateClawbackVestingAccount_def pm_bind_def pm_lift_def only_origin_def pm_return_def
        EmitCreateClawbackVestingAccountEvent_def emit2_def make_topic_def MakeTopic_def add_log_def vesting_out_def)
  moreover from this have "t \<noteq> text_start" using vcreated_new by (auto simp: text_start_def New_def)
  moreover from this have "?args ! 1 = AVaddress 7"
    using vesting_acts_for_origin [OF run]
    by (simp add: CreateClawbackVestingAccountMethod_def ConvertVestingAccountMethod_def FundVestingAccountMethod_def ClawbackMethod_def UpdateVestingFunderMethod_def)
  ultimately show ?thesis using run by simp
qed

end
