(* ===== verification/Spec2Isabelle.thy ===== *)
theory Spec2Isabelle
  imports Evm_Commit Fee_Market Ledger Evm_Tx Evm_Transition_Laws Evm_Fees_Laws Ante_Cosmos_Laws
    Vesting_Keeper_Laws Epochs_Laws Erc20_Properties Evm_Genesis_Laws Evm_Trace Tx_Indexer_Laws Precompile_Properties
begin

text \<open>
  This development models the core of an Ethereum-compatible Cosmos chain: the EVM module with
  its state database, the fee market, the ante handlers that admit transactions, clawback vesting
  accounts, epochs, the conversion between coins and ERC20 tokens with its IBC callbacks, the EVM
  extensions, and the events and the index of Ethereum transactions. Definitions keep the names of the Go
  functions they translate; a prefix tells apart functions of the same name in different packages
  (\<open>keeper_GetState\<close> and \<open>obj_GetState\<close>, \<open>fm_GetParams\<close>, \<open>ep_InitGenesis\<close>, \<open>st_Approve\<close> and \<open>i_Approve\<close>).

  \<^bold>\<open>How the parts interact.\<close> A transaction first runs through an ante handler, chosen by its first
  extension option (\<open>app/ante\<close>). For Ethereum transactions the handler recovers the senders, deducts the
  fee and raises the sequences; the EVM module then applies the message (\<open>x/evm/keeper\<close>): it opens a
  state database over its stores, runs the interpreter, commits, and refunds unused gas. The fee
  market computes the base fee at the start of a block from the gas that the ante handler and the
  block recorded. Vesting accounts limit what ante handler and bank let an account spend. Epochs
  tick at the start of a block and call hooks of other modules. The conversion of tokens
  (\<open>x/erc20\<close>) calls contracts through the EVM module and moves coins in the bank; transfers over IBC
  (\<open>x/ibc/transfer\<close>) convert tokens before they leave, and its middleware converts coins that arrive.
  A contract can call the extensions (\<open>precompiles\<close>), contracts at fixed addresses whose methods are Go code:
  they commit the state database and call the staking, distribution, transfer and vesting modules for the
  origin of the transaction, checking and spending the grants the origin has given to the contract.
  Ante handler and message server emit events, from which the JSON-RPC server and the indexer learn
  what was executed.

  \<^bold>\<open>Conventions.\<close> Go code that can fail or panic returns an \<open>outcome\<close> (\<open>Ok\<close>, \<open>Err\<close>, \<open>Panic\<close>) or an option;
  a pointer that may be nil is an option. \<open>uint64\<close>, hashes and addresses are words of their width,
  \<open>int64\<close> times are integers with the wrap-around \<open>wrap64\<close> written out, \<open>big.Int\<close> is an integer, with the
  256-bit checks of \<open>math.Int\<close> where the code relies on them. Stores are finite maps from byte lists to byte
  lists, iterated in key order. State is passed explicitly; a loop over messages is \<open>fold_outcome\<close>
  with one definition for its body. Where the code discards the context after an error, the error
  alone is the result.

  \<^bold>\<open>Theories and sources.\<close>
  \<^item> \<open>Prelude\<close>: outcomes, bytes, big-endian numbers, \<open>sort.Search\<close>, and the lemmas on them.
  \<^item> \<open>Access_List\<close>, \<open>State_DB\<close>, \<open>Journal_Machine\<close>, \<open>State_DB_Spec\<close>, \<open>State_DB_Refines\<close> (\<open>x/evm/statedb\<close>): access
    list, state objects, journal, snapshots and reverts; an abstract specification with plain
    account maps and copied snapshots; the refinement between them, once for every keeper that
    satisfies the locale, which is interpreted on the EVM keeper.
  \<^item> \<open>Eth_Types\<close> (\<open>types\<close>): gas meter, integer conversions, block gas limit, chain identifiers.
  \<^item> \<open>Evm_Keeper\<close>, \<open>Evm_Commit\<close> (\<open>x/evm/keeper\<close>): accounts, balances, code and storage over the stores;
    what \<open>Commit\<close> writes and what it leaves alone.
  \<^item> \<open>Evm_Tx\<close> (\<open>x/evm/types\<close>): the three kinds of transaction data, their validation, fees and round trips.
  \<^item> \<open>Evm_Transition\<close>, \<open>Evm_Transition_Laws\<close> (\<open>state_transition.go\<close>, \<open>gas.go\<close>, \<open>hooks.go\<close>): applying messages and
    transactions, charging and refunding gas.
  \<^item> \<open>Evm_Fees\<close>, \<open>Evm_Fees_Laws\<close> (\<open>msg.go\<close>, \<open>fees.go\<close>, \<open>tx_args.go\<close>, \<open>grpc_query.go\<close>): messages, fee verification,
    priorities, \<open>EthCall\<close> and the bisection of \<open>EstimateGas\<close>.
  \<^item> \<open>Evm_Genesis\<close>, \<open>Evm_Genesis_Laws\<close> (\<open>x/evm/genesis.go\<close>, \<open>logs.go\<close>, \<open>chain_config.go\<close>, \<open>migrations\<close>, \<open>abci.go\<close>,
    \<open>grpc_query.go\<close>): genesis, chain configuration, logs, block hooks, migrations of the parameters and the queries of
    the state; genesis and migrations restore what they wrote.
  \<^item> \<open>Evm_Trace\<close> (\<open>grpc_query.go\<close>): tracing of transactions and blocks.
  \<^item> \<open>Tx_Events\<close>, \<open>Tx_Events_Laws\<close> (\<open>msg_server.go\<close>, \<open>rpc/types/events.go\<close>): the events of transactions and their parser.
  \<^item> \<open>Tx_Indexer\<close>, \<open>Tx_Indexer_Laws\<close> (\<open>indexer/kv_indexer.go\<close>): the index of Ethereum transactions, and that it agrees
    with the parser.
  \<^item> \<open>Ante_Evm\<close>, \<open>Ante_Evm_Laws\<close>, \<open>Ante_Evm_Properties\<close> (\<open>app/ante/evm\<close>): the thirteen decorators of Ethereum
    transactions; what an accepted transaction has passed; nonces, vesting and fees.
  \<^item> \<open>Ante_Cosmos\<close>, \<open>Ante_Cosmos_Laws\<close> (\<open>app/ante\<close>, \<open>app/ante/cosmos\<close>, \<open>x/wasm/keeper/ante.go\<close>): routing, refused
    messages, fees and delegations of Cosmos transactions, gas for signatures.
  \<^item> \<open>Fee_Market\<close> (\<open>x/feemarket\<close>): base fee, gas counters, parameters, block hooks, genesis.
  \<^item> \<open>Coins\<close>, \<open>Vesting_Schedule\<close>, \<open>Vesting_Schedule_Laws\<close>, \<open>Vesting_Account\<close>, \<open>Vesting_Laws\<close>, \<open>Vesting_Keeper\<close>,
    \<open>Vesting_Keeper_Laws\<close> (\<open>x/vesting\<close>): schedules read, merged and intersected; accounts; the messages,
    governance clawback; invariants over all reachable states.
  \<^item> \<open>Epochs\<close>, \<open>Epochs_Laws\<close> (\<open>x/epochs\<close>): timers as a state machine over blocks.
  \<^item> \<open>Evm_Coins\<close>: the EVM leaves balances of other denominations alone.
  \<^item> \<open>Erc20\<close>, \<open>Erc20_Ibc\<close> (\<open>x/erc20\<close>, \<open>ibc/utils.go\<close>, \<open>x/ibc/transfer\<close>): token pairs, registration, conversion, the hook
    on transactions, genesis, IBC callbacks and transfers; \<open>Erc20_Laws\<close>, \<open>Erc20_Instances\<close>, \<open>Erc20_Properties\<close>: the
    store as a set of pairs, the module as a state machine, the bank laws of conversions, the module
    over the modelled keepers, and its properties.
  \<^item> \<open>Precompile_Common\<close> (\<open>precompiles/common\<close>, \<open>precompiles/authorization\<close>): computations that keep their state on
    errors, ABI values, topics, setup and gas of a call, checks of authorizations; \<open>Precompile_Staking\<close>,
    \<open>Precompile_Ics20\<close>, \<open>Precompile_Distribution\<close>, \<open>Precompile_Vesting\<close> (the directories of these names): the four
    extensions with their arguments, transactions, queries, events and dispatch; \<open>Precompile_Laws\<close>,
    \<open>Precompile_Properties\<close>: the laws of the keepers, what calls do to the grants, and the properties.
  \<^item> \<open>Ledger\<close>: an account and bank module that satisfies the laws below; the closed instances of the
    properties are evaluated on it.

  \<^bold>\<open>What the theorems show.\<close> The state database refines its specification, so reverts restore
  snapshots exactly and commits write what was shown (this theory). The base fee is the one of
  EIP-1559, with the exact conditions under which its computation panics. Transaction data survive
  storage, and validated transactions have fees within 256 bits. Gas charged is between the minimum
  and the limit, counters never wrap, failed transactions leave nothing but the fee. Gas estimation
  ends and returns a limit that suffices where one unit less does not. Accepted Ethereum transactions
  have the right nonces, cannot be replayed, spend only unlocked coins and pay their fees; Ethereum
  messages cannot enter by another route. Vesting schedules merge to sums and minima, accounts stay
  well-formed under every message, grants, clawbacks and conversions need the right permission and
  move exactly the right coins. Epochs never drift and catch up. Token pairs stay one to one under
  every operation, conversions move as many coins as tokens, contract code cannot touch coins other
  than the EVM's, transfers over IBC are backed by coins. Exported genesis restores parameters, code,
  storage and token pairs, and migrations keep the parameters. The events of a transaction parse back
  into what was executed, and the indexer answers what the parser would. A contract never spends more of a
  staking authorization than was granted, approvals set what the allowance query shows, limits of transfer
  authorizations decrease as meant, and the vesting extension acts for the origin only. Some theorems state what the code
  does where that is not what it means to do: periods that vest at once, exempt senders who are
  refunded, nested delegations that are not checked, coins registered twice, refused delegations that stay.

  \<^bold>\<open>Parameters.\<close> Code outside the repository enters as arguments, records of functions: the account,
  bank, staking, distribution and fee-grant keepers, coins and decimals of the Cosmos SDK, hashing,
  signatures, the ABI codec and the interpreter of go-ethereum, the authz, transfer and channel keepers, the
  decorators of the SDK and of IBC. What the proofs
  use of them is stated in definitions and locales (\<open>account_laws\<close>, \<open>bank_laws\<close>, \<open>dec_laws\<close>, \<open>coin_laws\<close>,
  \<open>evm_laws\<close>, \<open>ante_modules\<close>, \<open>ante_bank\<close>, \<open>cosmos_bank\<close>, \<open>pair_store\<close>, \<open>erc20_bank\<close>,
  \<open>genesis_laws\<close>, \<open>index_codec\<close>, \<open>staking_laws\<close>), each shown to hold for a concrete instance.

  \<^bold>\<open>Bounds.\<close> The bisection of \<open>EstimateGas\<close> is a partial function: it is proved to return for a gas cap below
  \<open>2 ^ 63\<close>, and an example with the largest cap never returns because the midpoint wraps around. All
  other loops are structural or have a termination proof; there is no fuel. Theorems on vesting
  assume that times stay within 64 bits, and one shows what happens when they do not.

  \<^bold>\<open>Not modelled.\<close> The block number in the logs of the extensions and the gas of the vesting keeper's accesses to
  the stores; the vendored \<open>x/wasm\<close> apart from its ante decorators; the JSON-RPC server apart from the parser of events, command
  line and node start-up (input and output); keys and typed-data construction (cryptographic and JSON
  libraries); tracers, whose results are a parameter; the migration of the fee market's old store; generated protobuf code; the wiring of the application.
\<close>

section \<open>The state database over the EVM keeper\<close>

text \<open>C1. Every run of state changes, queries, snapshots and reverts of the state database over the
  keeper has the result of the same run of the specification, in which an operation acts on
  the plain account map and a snapshot is a copy of it: the same abstract state, the same
  snapshots left valid, the same next identifier, and a panic in the same cases.\<close>
theorem statedb_refines_spec:
  "map_option (\<lambda>s. (abs_db (evm_env D) c s, map rev_id (validRevisions s), nextRevisionID s))
     (db_run cs (New c (evm_env D) cfg)) =
   map_option (\<lambda>st. (current st, map fst (saved st), next_id st))
     (spec_run (evm_env D) c cfg cs (spec_init (evm_env D) c))"
  by (rule evm.run_refines_spec)

text \<open>C2. As long as a snapshot has not been reverted past, \<open>RevertToSnapshot\<close> to it succeeds and
  gives back exactly the state in which the snapshot was taken, whatever ran in between:
  operations, queries, further snapshots and reverts.\<close>
theorem revert_restores_snapshot:
  assumes "db_run cs0 (New c (evm_env D) cfg) = Some s" "Snapshot s = (i, s1)" "db_run cs s1 = Some s2"
    "i \<in> rev_id ` set (validRevisions s2)"
  shows "\<exists>t. RevertToSnapshot s2 i = Some t \<and> abs_db (evm_env D) c t = abs_db (evm_env D) c s"
  by (rule evm.snapshot_restores [OF assms])

theorem revert_restores_snapshot_witness:
  "\<exists>s s1 s2 t. db_run [Do (opSetNonce 5 1)] (New genesis (evm_env ledger_sdk) cfg0) = Some s \<and>
     Snapshot s = (0, s1) \<and>
     db_run [Do (opAddBalance 5 7), Do (opSetState 5 1 9), TakeSnapshot, Do (opSetNonce 5 3)] s1 = Some s2 \<and>
     RevertToSnapshot s2 0 = Some t \<and>
     abs_db (evm_env ledger_sdk) genesis t = abs_db (evm_env ledger_sdk) genesis s"
proof -
  let ?E = "evm_env ledger_sdk" and ?a = "[Do (opSetNonce 5 1)]"
    and ?b = "[Do (opAddBalance 5 7), Do (opSetState 5 1 9), TakeSnapshot, Do (opSetNonce 5 3)]"
  have full: "map_option (\<lambda>s. (map rev_id (validRevisions s), nextRevisionID s))
      (db_run (?a @ TakeSnapshot # ?b) (New genesis ?E cfg0)) = Some ([0, 1], 2)"
    using arg_cong [where f = "map_option snd", OF evm.run_refines_spec [of ledger_sdk genesis "?a @ TakeSnapshot # ?b" cfg0]]
    by (simp add: option.map_comp comp_def spec_init_def Let_def)
  then obtain s s1 s2 where run: "db_run ?a (New genesis ?E cfg0) = Some s" "s1 = snd (Snapshot s)"
    "db_run ?b s1 = Some s2" "map rev_id (validRevisions s2) = [0, 1]"
    by (simp only: db_run_append) (auto split: bind_splits)
  have "nextRevisionID s = 0"
    using arg_cong [where f = "map_option snd", OF evm.run_refines_spec [of ledger_sdk genesis ?a cfg0]] run(1)
    by (simp add: spec_init_def)
  then have snap: "Snapshot s = (0, s1)" using run(2) by (simp add: Snapshot_def Let_def)
  have "0 \<in> rev_id ` set (validRevisions s2)"
    using run(4) by (metis list.set_intros(1) list.set_map)
  from revert_restores_snapshot [OF run(1) snap run(3) this] run snap show ?thesis by blast
qed

text \<open>C3. \<open>Commit\<close> writes every dirty account through to the stores: afterwards the keeper returns
  the nonce, balance and storage the database showed for it (and the code hash, where the
  stored account can hold one), and a suicided account is gone. The account and bank modules
  enter by what they document; the EVM module's own account is excluded.\<close>
theorem commit_writes_dirty_accounts:
  assumes laws: "account_laws D adr" "bank_laws D m"
    and run: "db_run cs (New c (evm_env D) cfg) = Some s" and ok: "Commit s = Ok s'"
    and a: "a \<in> set (sortedDirties (db_journal s))" "AddressBytes a \<noteq> m"
    and denom: "EvmDenom (GetParams D c) \<noteq> []"
  shows "\<exists>ob. a_accts (abs_db (evm_env D) c s) a = Some ob \<and>
    (if a_suicided ob then keeper_GetAccount D (ctx s') a = None
     else \<exists>acct. keeper_GetAccount D (ctx s') a = Some acct \<and> Nonce acct = a_nonce ob \<and>
       Balance acct = Some (a_balance ob) \<and> (\<forall>k. keeper_GetState (ctx s') a k = a_storage ob k) \<and>
       (\<forall>b h. akGetAccount D (modules (ctx s')) (AddressBytes a) = Some (EthAccount b h) \<longrightarrow>
          CodeHash acct = Some (a_codeHash ob)))"
proof -
  obtain obj where obj: "fmlookup (stateObjects s) a = Some obj" "so_address obj = a" "written D c obj (ctx s')"
    using Commit_written [OF laws evm.run_inv [OF run] ok a] by blast
  have "a_accts (abs_db (evm_env D) c s) a = Some (obj_view (evm_env D) c obj)"
    using obj(1) by (simp add: abs_db_def)
  with written_account [OF obj(3) denom] obj(2,3) show ?thesis
    by (auto simp: obj_view_def written_def Let_def)
qed

definition commit_run :: "db_cmd list" where
  "commit_run = [Do (opAddBalance 5 7), Do (opSetState 5 1 9), Do (opSetNonce 6 2)]"

definition commit_db :: "ledger Ctx StateDB" where
  "commit_db = the (db_run commit_run (New genesis (evm_env ledger_sdk) cfg0))"

lemma commit_db_run: "db_run commit_run (New genesis (evm_env ledger_sdk) cfg0) = Some commit_db"
  by (simp add: commit_db_def commit_run_def)

lemma commit_db_ok: "is_ok (Commit commit_db)"
  by code_simp

lemma commit_db_addr: "AddressBytes 5 \<noteq> module_address"
  by code_simp

lemma ledger_denom: "EvmDenom (GetParams ledger_sdk genesis) \<noteq> []"
  by (simp add: GetParams_def GetLegacyParams_def ledger_sdk_def ledger_params_def genesis_def store_Get_def Let_def)

lemma commit_db_dirty: "5 \<in> set (sortedDirties (db_journal commit_db))"
  by code_simp

theorem commit_writes_dirty_accounts_witness:
  "\<exists>s' acct. Commit commit_db = Ok s' \<and> keeper_GetAccount ledger_sdk (ctx s') 5 = Some acct \<and>
    Balance acct = Some 7 \<and> keeper_GetState (ctx s') 5 1 = 9"
proof -
  obtain s' where ok: "Commit commit_db = Ok s'" using commit_db_ok by (auto simp: is_ok_iff)
  let ?A = "a_accts (abs_db (evm_env ledger_sdk) genesis commit_db) 5"
  have view: "map_option a_balance ?A = Some 7" "map_option (\<lambda>ob. a_storage ob 1) ?A = Some 9"
    "map_option a_suicided ?A = Some False"
    by code_simp+
  obtain ob where "?A = Some ob"
    "if a_suicided ob then keeper_GetAccount ledger_sdk (ctx s') 5 = None
     else \<exists>acct. keeper_GetAccount ledger_sdk (ctx s') 5 = Some acct \<and> Nonce acct = a_nonce ob \<and>
       Balance acct = Some (a_balance ob) \<and> (\<forall>k. keeper_GetState (ctx s') 5 k = a_storage ob k) \<and>
       (\<forall>b h. akGetAccount ledger_sdk (modules (ctx s')) (AddressBytes 5) = Some (EthAccount b h) \<longrightarrow>
          CodeHash acct = Some (a_codeHash ob))"
    using commit_writes_dirty_accounts [OF ledger_account_laws ledger_bank_laws commit_db_run ok commit_db_dirty]
      commit_db_addr ledger_denom by blast
  with view ok show ?thesis by auto
qed

text \<open>\<open>Commit\<close> touches only the dirty accounts: for every other address the account (nonce,
  balance, code hash) and all storage cells are the same in the stores after it as before.\<close>
theorem commit_keeps_other_accounts:
  assumes laws: "account_laws D adr" "bank_laws D m"
    and run: "db_run cs (New c (evm_env D) cfg) = Some s" and ok: "Commit s = Ok s'"
    and a: "a \<notin> set (sortedDirties (db_journal s))" "AddressBytes a \<noteq> m"
  shows "keeper_GetAccount D (ctx s') a = keeper_GetAccount D c a \<and>
    (\<forall>k. keeper_GetState (ctx s') a k = keeper_GetState c a k)"
proof -
  have "keeps D m a c (ctx s')"
    using commit_fold_frame [OF laws evm.run_inv [OF run] Commit_fold [OF evm.run_inv [OF run] ok] a(1)] .
  with a(2) have same: "acc_of D (ctx s') a = acc_of D c a" "\<forall>k. keeper_GetState (ctx s') a k = keeper_GetState c a k"
    "keeper_GetBalance D (ctx s') a = keeper_GetBalance D c a"
    by (simp_all add: keeps_def keeper_GetBalance_def Let_def)
  then show ?thesis by (simp only: keeper_GetAccount_def GetAccountWithoutBalance_def) simp
qed

theorem commit_keeps_other_accounts_witness:
  "\<exists>s'. Commit commit_db = Ok s' \<and>
     keeper_GetAccount ledger_sdk (ctx s') 9 = keeper_GetAccount ledger_sdk genesis 9 \<and>
     (\<forall>k. keeper_GetState (ctx s') 9 k = keeper_GetState genesis 9 k)"
proof -
  obtain s' where ok: "Commit commit_db = Ok s'" using commit_db_ok by (auto simp: is_ok_iff)
  have "9 \<notin> set (sortedDirties (db_journal commit_db))" "AddressBytes 9 \<noteq> module_address"
    by code_simp+
  from commit_keeps_other_accounts [OF ledger_account_laws ledger_bank_laws commit_db_run ok this] ok
  show ?thesis by blast
qed

text \<open>In every state a run of the database reaches, each address that the journal counts as
  dirty has a live object, so that \<open>Commit\<close> never dereferences a nil object.\<close>
theorem commit_finds_every_dirty_object:
  assumes "db_run cs (New c (evm_env D) cfg) = Some s" "a \<in> set (sortedDirties (db_journal s))"
  shows "\<exists>obj. fmlookup (stateObjects s) a = Some obj \<and> so_address obj = a"
  using dirty_live [OF evm.run_inv [OF assms(1)] assms(2)] by blast

theorem commit_finds_every_dirty_object_witness:
  "\<exists>obj. fmlookup (stateObjects commit_db) 5 = Some obj \<and> so_address obj = 5"
  by (rule commit_finds_every_dirty_object [OF commit_db_run commit_db_dirty])

end
